(* ===== verification/Prelude.thy ===== *)
theory Prelude
  imports Main "HOL-Library.AList" "HOL-Library.Sublist" "HOL-Library.Multiset"
begin

text \<open>
  What the components share.

  Results: a Go function that returns a value and an error is a value of
  \<open>error + 'a\<close>, with \<open>Inl\<close> for a non-nil error; an operation that
  also changes a store takes the store as its last argument and returns it with
  the result.  A Go map is an association list (\<open>map_of\<close> reads it,
  \<open>AList.update\<close> and \<open>AList.delete\<close> write it), so that ranging
  over a map is a fold over the list; the order of that list stands for the order
  Go leaves open.

  The second half models the functions of Go's packages \<open>strings\<close> and
  \<open>strconv\<close> that the components call.
\<close>

section \<open>Collections of rewrite rules\<close>

named_theorems store_simps \<open>unfolding of the state-passing operations\<close>
named_theorems go_strings \<open>facts on the string functions of the Go library\<close>

type_synonym error = string

type_synonym ('a, 's) op = "'s \<Rightarrow> (error + 'a) \<times> 's"

text \<open>A function that may also panic (a nil dereference, an index out of range, an
  explicit \<open>panic\<close> or \<open>os.Exit\<close>) has a third outcome.\<close>

datatype 'a res = Ok 'a | Err error | Panic string

fun res_bind :: "'a res \<Rightarrow> ('a \<Rightarrow> 'b res) \<Rightarrow> 'b res" where
  "res_bind (Ok a) f = f a"
| "res_bind (Err e) f = Err e"
| "res_bind (Panic m) f = Panic m"

lemma res_bind_Ok_iff [simp]:
  "res_bind r f = Ok b \<longleftrightarrow> (\<exists>a. r = Ok a \<and> f a = Ok b)"
  by (cases r) auto

lemma res_bind_assoc: "res_bind (res_bind r f) g = res_bind r (\<lambda>a. res_bind (f a) g)"
  by (cases r) auto

lemma res_case_OkE:
  "(case r of Ok x \<Rightarrow> P x | _ \<Rightarrow> False) \<Longrightarrow> \<exists>x. r = Ok x \<and> P x"
  by (cases r) auto

text \<open>A \<open>for\<close> loop that stops at the first error.\<close>

fun res_all :: "('a \<Rightarrow> unit res) \<Rightarrow> 'a list \<Rightarrow> unit res" where
  "res_all f [] = Ok ()"
| "res_all f (x # xs) = res_bind (f x) (\<lambda>_. res_all f xs)"

lemma res_all_Ok_iff [simp]: "res_all f xs = Ok () \<longleftrightarrow> (\<forall>x \<in> set xs. f x = Ok ())"
  by (induction xs) auto

fun res_map :: "('a \<Rightarrow> 'b res) \<Rightarrow> 'a list \<Rightarrow> 'b list res" where
  "res_map f [] = Ok []"
| "res_map f (x # xs) = res_bind (f x) (\<lambda>y. res_bind (res_map f xs) (\<lambda>ys. Ok (y # ys)))"

lemma res_map_Ok_iff: "res_map f xs = Ok ys \<longleftrightarrow> list_all2 (\<lambda>x y. f x = Ok y) xs ys"
  by (induction xs arbitrary: ys) (auto simp: list_all2_Cons1)

fun res_foldl :: "('b \<Rightarrow> 'a \<Rightarrow> 'b res) \<Rightarrow> 'b \<Rightarrow> 'a list \<Rightarrow> 'b res" where
  "res_foldl f b [] = Ok b"
| "res_foldl f b (x # xs) = res_bind (f b x) (\<lambda>b'. res_foldl f b' xs)"

lemma res_foldl_append:
  "res_foldl f b (xs @ ys) = res_bind (res_foldl f b xs) (\<lambda>b'. res_foldl f b' ys)"
  by (induction xs arbitrary: b) (simp_all add: res_bind_assoc)

section \<open>Actions\<close>

text \<open>An operation with effects: it takes the state and returns an outcome and the state it
  leaves.  A state change made before an error or a panic stays.\<close>

type_synonym ('a, 's) act = "'s \<Rightarrow> 'a res \<times> 's"

definition act_ret :: "'a \<Rightarrow> ('a, 's) act" where
  "act_ret a s = (Ok a, s)"

definition act_err :: "error \<Rightarrow> ('a, 's) act" where
  "act_err e s = (Err e, s)"

definition act_panic :: "string \<Rightarrow> ('a, 's) act" where
  "act_panic m s = (Panic m, s)"

definition act_bind :: "('a, 's) act \<Rightarrow> ('a \<Rightarrow> ('b, 's) act) \<Rightarrow> ('b, 's) act" where
  "act_bind f g s =
     (case f s of
        (Ok a, s') \<Rightarrow> g a s'
      | (Err e, s') \<Rightarrow> (Err e, s')
      | (Panic m, s') \<Rightarrow> (Panic m, s'))"

text \<open>Wrapping an error, as \<open>fmt.Errorf\<close> does, and inspecting it.\<close>

definition act_wrap :: "(error \<Rightarrow> error) \<Rightarrow> ('a, 's) act \<Rightarrow> ('a, 's) act" where
  "act_wrap m f s =
     (case f s of
        (Ok a, s') \<Rightarrow> (Ok a, s')
      | (Err e, s') \<Rightarrow> (Err (m e), s')
      | (Panic p, s') \<Rightarrow> (Panic p, s'))"

definition act_try :: "('a, 's) act \<Rightarrow> (error + 'a, 's) act" where
  "act_try f s =
     (case f s of
        (Ok a, s') \<Rightarrow> (Ok (Inr a), s')
      | (Err e, s') \<Rightarrow> (Ok (Inl e), s')
      | (Panic p, s') \<Rightarrow> (Panic p, s'))"

definition act_modify :: "('s \<Rightarrow> 's) \<Rightarrow> (unit, 's) act" where
  "act_modify h s = (Ok (), h s)"

definition act_gets :: "('s \<Rightarrow> 'a) \<Rightarrow> ('a, 's) act" where
  "act_gets h s = (Ok (h s), s)"

definition act_of :: "'a res \<Rightarrow> ('a, 's) act" where
  "act_of r s = (r, s)"

fun act_all :: "('a \<Rightarrow> (unit, 's) act) \<Rightarrow> 'a list \<Rightarrow> (unit, 's) act" where
  "act_all f [] = act_ret ()"
| "act_all f (x # xs) = act_bind (f x) (\<lambda>_. act_all f xs)"

declare act_ret_def [simp, store_simps] act_err_def [simp, store_simps]
  act_panic_def [simp, store_simps] act_modify_def [simp, store_simps]
  act_gets_def [simp, store_simps] act_of_def [simp, store_simps]

lemma act_bind_Ok [simp]: "f s = (Ok a, s') \<Longrightarrow> act_bind f g s = g a s'"
  by (simp add: act_bind_def)

lemma act_bind_Err [simp]: "f s = (Err e, s') \<Longrightarrow> act_bind f g s = (Err e, s')"
  by (simp add: act_bind_def)

lemma act_bind_Panic [simp]: "f s = (Panic m, s') \<Longrightarrow> act_bind f g s = (Panic m, s')"
  by (simp add: act_bind_def)

lemma act_bind_eq_Ok:
  "act_bind f g s = (Ok b, t) \<longleftrightarrow> (\<exists>a s'. f s = (Ok a, s') \<and> g a s' = (Ok b, t))"
  by (auto simp: act_bind_def split: prod.splits res.splits)

lemma act_wrap_eq_Ok [simp]: "act_wrap m f s = (Ok b, t) \<longleftrightarrow> f s = (Ok b, t)"
  by (auto simp: act_wrap_def split: prod.splits res.splits)

lemma act_wrap_snd [simp]: "snd (act_wrap m f s) = snd (f s)"
  by (auto simp: act_wrap_def split: prod.splits res.splits)

lemma act_try_snd [simp]: "snd (act_try f s) = snd (f s)"
  by (auto simp: act_try_def split: prod.splits res.splits)

text \<open>A relation between states that is reflexive and transitive and that every part keeps
  is kept by the sequence: how the proofs below show what an operation leaves alone.\<close>

lemma act_bind_preserve:
  assumes "P s (snd (f s))"
    and "\<And>a s'. f s = (Ok a, s') \<Longrightarrow> P s s' \<Longrightarrow> P s (snd (g a s'))"
  shows "P s (snd (act_bind f g s))"
  using assms by (auto simp: act_bind_def split: prod.splits res.splits)

text \<open>What an action can return.\<close>

definition yields :: "('a \<Rightarrow> bool) \<Rightarrow> ('a, 's) act \<Rightarrow> bool" where
  "yields P f \<longleftrightarrow> (\<forall>w a w'. f w = (Ok a, w') \<longrightarrow> P a)"

lemma yields_ret: "P a \<Longrightarrow> yields P (act_ret a)"
  and yields_err: "yields P (act_err e)"
  and yields_panic: "yields P (act_panic m)"
  by (simp_all add: yields_def)

lemma yields_bind_any: "(\<And>a. yields P (g a)) \<Longrightarrow> yields P (act_bind f g)"
  unfolding yields_def act_bind_eq_Ok by blast

lemma yields_bind: "yields Q f \<Longrightarrow> (\<And>a. Q a \<Longrightarrow> yields P (g a)) \<Longrightarrow> yields P (act_bind f g)"
  unfolding yields_def act_bind_eq_Ok by blast

lemmas yields_parts = yields_ret yields_err yields_panic yields_bind_any

lemma yieldsD: "yields P f \<Longrightarrow> f s = (Ok a, s') \<Longrightarrow> P a"
  unfolding yields_def by blast

section \<open>Association lists\<close>

lemma map_of_AList_update [simp]:
  "map_of (AList.update k v m) = (map_of m)(k \<mapsto> v)"
  by (rule update_conv')

lemma map_of_AList_delete [simp]:
  "map_of (AList.delete k m) = (map_of m)(k := None)"
  by (rule delete_conv')

lemma distinct_keys_update [simp]:
  "distinct (map fst m) \<Longrightarrow> distinct (map fst (AList.update k v m))"
  by (rule distinct_update)

lemma distinct_keys_delete [simp]:
  "distinct (map fst m) \<Longrightarrow> distinct (map fst (AList.delete k m))"
  by (rule distinct_delete)

lemma map_of_Some_distinct:
  "distinct (map fst m) \<Longrightarrow> (k, v) \<in> set m \<longleftrightarrow> map_of m k = Some v"
  by simp

lemma find_append: "find P (xs @ ys) = (case find P xs of None \<Rightarrow> find P ys | Some x \<Rightarrow> Some x)"
  by (induction xs) auto

lemma find_SomeD: "find P xs = Some x \<Longrightarrow> x \<in> set xs \<and> P x"
  by (auto simp: find_Some_iff)

lemma acyclic_empty_rel [simp]: "acyclic {}"
  by (simp add: acyclic_def)

section \<open>Package strings\<close>

definition has_prefix :: "string \<Rightarrow> string \<Rightarrow> bool" where
  "has_prefix s p = (take (length p) s = p)"

definition has_suffix :: "string \<Rightarrow> string \<Rightarrow> bool" where
  "has_suffix s p = (length p \<le> length s \<and> drop (length s - length p) s = p)"

definition trim_prefix :: "string \<Rightarrow> string \<Rightarrow> string" where
  "trim_prefix s p = (if has_prefix s p then drop (length p) s else s)"

definition trim_suffix :: "string \<Rightarrow> string \<Rightarrow> string" where
  "trim_suffix s p = (if has_suffix s p then take (length s - length p) s else s)"

definition trim_set :: "(char \<Rightarrow> bool) \<Rightarrow> string \<Rightarrow> string" where
  "trim_set P s = rev (dropWhile P (rev (dropWhile P s)))"

definition is_space :: "char \<Rightarrow> bool" where
  "is_space c = (c \<in> {CHR '' '', CHR 0x09, CHR 0x0A, CHR 0x0B, CHR 0x0C, CHR 0x0D})"

definition trim_space :: "string \<Rightarrow> string" where
  "trim_space = trim_set is_space"

fun str_index :: "string \<Rightarrow> string \<Rightarrow> nat option" where
  "str_index s p =
     (if has_prefix s p then Some 0
      else (case s of [] \<Rightarrow> None | _ # t \<Rightarrow> map_option Suc (str_index t p)))"

declare str_index.simps [simp del]

definition str_contains :: "string \<Rightarrow> string \<Rightarrow> bool" where
  "str_contains s p = (str_index s p \<noteq> None)"

text \<open>\<open>strings.ReplaceAll\<close> for a non-empty \<open>old\<close>.\<close>

function replace_all :: "string \<Rightarrow> string \<Rightarrow> string \<Rightarrow> string" where
  "replace_all s old new =
     (if old = [] then s
      else if has_prefix s old then new @ replace_all (drop (length old) s) old new
      else (case s of [] \<Rightarrow> [] | c # cs \<Rightarrow> c # replace_all cs old new))"
  by auto
termination
proof (relation "measure (\<lambda>(s, _, _). length s)", goal_cases)
  case (2 s old new)
  then have "s \<noteq> []" by (auto simp: has_prefix_def)
  with 2 show ?case by simp
qed auto

declare replace_all.simps [simp del]

fun split_char :: "char \<Rightarrow> string \<Rightarrow> string list" where
  "split_char c [] = [[]]"
| "split_char c (x # xs) =
     (if x = c then [] # split_char c xs
      else (case split_char c xs of [] \<Rightarrow> [[x]] | w # ws \<Rightarrow> (x # w) # ws))"

fun join_with :: "string \<Rightarrow> string list \<Rightarrow> string" where
  "join_with sep [] = []"
| "join_with sep [w] = w"
| "join_with sep (w # v # ws) = w @ sep @ join_with sep (v # ws)"

definition to_lower_char :: "char \<Rightarrow> char" where
  "to_lower_char c =
     (if 65 \<le> (of_char c :: nat) \<and> (of_char c :: nat) \<le> 90
      then char_of ((of_char c :: nat) + 32) else c)"

definition to_lower :: "string \<Rightarrow> string" where
  "to_lower = map to_lower_char"

lemma has_prefix_append [go_strings, simp]: "has_prefix (p @ s) p"
  by (simp add: has_prefix_def)

lemma has_prefix_iff [go_strings]: "has_prefix s p \<longleftrightarrow> prefix p s"
  by (auto simp: has_prefix_def prefix_def) (metis append_take_drop_id)

lemma has_suffix_iff [go_strings]: "has_suffix s p \<longleftrightarrow> suffix p s"
  by (auto simp: has_suffix_def suffix_def) (metis append_take_drop_id)

lemma trim_suffix_append [go_strings, simp]: "trim_suffix (s @ p) p = s"
  by (simp add: trim_suffix_def has_suffix_def)

lemma replace_all_no_match:
  "\<not> str_contains s old \<Longrightarrow> replace_all s old new = s"
proof (induction s)
  case Nil
  then show ?case
    by (subst replace_all.simps) (auto simp: str_contains_def str_index.simps [of "[]"] split: if_splits)
next
  case (Cons c cs)
  then have "\<not> has_prefix (c # cs) old" and "\<not> str_contains cs old"
    by (auto simp: str_contains_def str_index.simps [of "c # cs"] split: if_splits)
  with Cons.IH show ?case by (subst replace_all.simps) simp
qed

lemma replace_all_prefix:
  "old \<noteq> [] \<Longrightarrow> replace_all (old @ s) old new = new @ replace_all s old new"
  by (subst replace_all.simps) simp

lemma split_char_nonempty [simp]: "split_char c s \<noteq> []"
  by (induction s) (auto split: list.splits)

lemma join_split_char [go_strings, simp]: "join_with [c] (split_char c s) = s"
proof (induction s)
  case Nil
  then show ?case by simp
next
  case (Cons x xs)
  obtain w ws where ws: "split_char c xs = w # ws"
    by (cases "split_char c xs") auto
  show ?case
    using Cons ws by (cases ws) auto
qed

definition quoted :: "string \<Rightarrow> string" where
  "quoted s = CHR 0x27 # s @ [CHR 0x27]"

text \<open>The \<open>%v\<close> rendering of a slice of strings.\<close>

definition fmt_list :: "string list \<Rightarrow> string" where
  "fmt_list xs = ''['' @ join_with '' '' xs @ '']''"

section \<open>Packages path and path/filepath\<close>

text \<open>\<open>path.Clean\<close> on slash-separated paths: empty and \<open>.\<close> elements go away, \<open>..\<close>
  removes the element before it, and cannot leave the root.  The stack holds the elements
  kept so far, last first.\<close>

definition clean_step :: "bool \<Rightarrow> string list \<Rightarrow> string \<Rightarrow> string list" where
  "clean_step rooted st seg =
     (if seg = [] \<or> seg = ''.'' then st
      else if seg = ''..'' then
        (case st of
           [] \<Rightarrow> if rooted then [] else [''..'']
         | t # ts \<Rightarrow> if t = ''..'' then ''..'' # st else ts)
      else seg # st)"

definition clean_segs :: "bool \<Rightarrow> string \<Rightarrow> string list" where
  "clean_segs rooted p = rev (foldl (clean_step rooted) [] (split_char (CHR ''/'') p))"

definition path_Clean :: "string \<Rightarrow> string" where
  "path_Clean p =
     (case p of
        [] \<Rightarrow> ''.''
      | c # _ \<Rightarrow>
          if c = CHR ''/'' then CHR ''/'' # join_with ''/'' (clean_segs True p)
          else (let segs = clean_segs False p
                in if segs = [] then ''.'' else join_with ''/'' segs))"

definition path_Join :: "string list \<Rightarrow> string" where
  "path_Join ps =
     (let ne = filter (\<lambda>p. p \<noteq> []) ps
      in if ne = [] then [] else path_Clean (join_with ''/'' ne))"

text \<open>\<open>filepath.Dir\<close>: the part up to the last slash, cleaned.\<close>

definition path_Dir :: "string \<Rightarrow> string" where
  "path_Dir p = path_Clean (rev (dropWhile (\<lambda>c. c \<noteq> CHR ''/'') (rev p)))"

lemma split_char_no_sep: "w \<in> set (split_char c s) \<Longrightarrow> c \<notin> set w"
  by (induction s arbitrary: w) (auto split: if_splits list.splits)

lemma split_char_append_sep:
  "c \<notin> set w \<Longrightarrow> split_char c (w @ c # s) = w # split_char c s"
  by (induction w) auto

lemma split_char_single: "c \<notin> set w \<Longrightarrow> split_char c w = [w]"
  by (induction w) auto

lemma split_join_with:
  "ws \<noteq> [] \<Longrightarrow> \<forall>w \<in> set ws. c \<notin> set w \<Longrightarrow> split_char c (join_with [c] ws) = ws"
  by (induction "[c]" ws rule: join_with.induct)
    (auto simp: split_char_single split_char_append_sep)

definition clean_seg :: "string \<Rightarrow> bool" where
  "clean_seg w = (w \<noteq> [] \<and> w \<noteq> ''.'' \<and> w \<noteq> ''..'' \<and> CHR ''/'' \<notin> set w)"

lemma clean_step_rooted_inv:
  "\<forall>w \<in> set st. clean_seg w \<Longrightarrow> CHR ''/'' \<notin> set seg \<Longrightarrow>
   \<forall>w \<in> set (clean_step True st seg). clean_seg w"
proof (cases "seg = [] \<or> seg = ''.'' \<or> seg = ''..''")
  case True
  moreover assume "\<forall>w \<in> set st. clean_seg w"
  ultimately show ?thesis
    by (cases st) (auto simp: clean_step_def clean_seg_def [of "''..''"])
next
  case False
  moreover assume "\<forall>w \<in> set st. clean_seg w" and "CHR ''/'' \<notin> set seg"
  ultimately show ?thesis by (simp add: clean_step_def clean_seg_def [of seg])
qed

lemma foldl_clean_step_rooted_inv:
  "\<forall>w \<in> set st. clean_seg w \<Longrightarrow> \<forall>s \<in> set segs. CHR ''/'' \<notin> set s \<Longrightarrow>
   \<forall>w \<in> set (foldl (clean_step True) st segs). clean_seg w"
proof (induction segs arbitrary: st)
  case Nil
  then show ?case by simp
next
  case (Cons seg segs)
  from Cons.prems have "\<forall>w \<in> set (clean_step True st seg). clean_seg w"
    by (intro clean_step_rooted_inv) auto
  with Cons.IH [of "clean_step True st seg"] Cons.prems show ?case by simp
qed

lemma clean_segs_rooted: "w \<in> set (clean_segs True p) \<Longrightarrow> clean_seg w"
  using foldl_clean_step_rooted_inv [of "[]" "split_char (CHR ''/'') p"]
  by (auto simp: clean_segs_def dest: split_char_no_sep)

lemma foldl_clean_step_clean:
  "\<forall>w \<in> set segs. clean_seg w \<Longrightarrow> foldl (clean_step r) st segs = rev segs @ st"
  by (induction segs arbitrary: st) (auto simp: clean_step_def clean_seg_def)

lemma clean_segs_rooted_idem:
  "clean_segs True (CHR ''/'' # join_with ''/'' (clean_segs True p)) = clean_segs True p"
proof -
  let ?ws = "clean_segs True p"
  have c: "\<forall>w \<in> set ?ws. clean_seg w"
    using clean_segs_rooted by blast
  show ?thesis
  proof (cases "?ws = []")
    case True
    then show ?thesis by (simp add: clean_segs_def clean_step_def)
  next
    case False
    with c have "split_char (CHR ''/'') (join_with ''/'' ?ws) = ?ws"
      by (intro split_join_with) (auto simp: clean_seg_def)
    then have "clean_segs True (CHR ''/'' # join_with ''/'' ?ws) =
        rev (foldl (clean_step True) [] ?ws)"
      by (simp add: clean_segs_def clean_step_def)
    also have "\<dots> = ?ws"
      using c by (simp add: foldl_clean_step_clean)
    finally show ?thesis .
  qed
qed

lemma path_Clean_rooted_idem:
  "p = CHR ''/'' # q \<Longrightarrow> path_Clean (path_Clean p) = path_Clean p"
  by (simp add: path_Clean_def clean_segs_rooted_idem)

section \<open>Package strconv\<close>

definition digit_char :: "nat \<Rightarrow> char" where
  "digit_char d = char_of (48 + d)"

fun nat_digits :: "nat \<Rightarrow> string" where
  "nat_digits n =
     (if n < 10 then [digit_char n]
      else nat_digits (n div 10) @ [digit_char (n mod 10)])"

declare nat_digits.simps [simp del]

definition itoa :: "int \<Rightarrow> string" where
  "itoa i = (if i < 0 then CHR ''-'' # nat_digits (nat (- i)) else nat_digits (nat i))"

definition char_digit :: "char \<Rightarrow> nat option" where
  "char_digit c =
     (let n = (of_char c :: nat) in if 48 \<le> n \<and> n \<le> 57 then Some (n - 48) else None)"

fun parse_nat_from :: "nat \<Rightarrow> string \<Rightarrow> nat option" where
  "parse_nat_from acc [] = Some acc"
| "parse_nat_from acc (c # cs) =
     (case char_digit c of
        None \<Rightarrow> None
      | Some d \<Rightarrow> parse_nat_from (acc * 10 + d) cs)"

definition parse_nat :: "string \<Rightarrow> nat option" where
  "parse_nat s = (if s = [] then None else parse_nat_from 0 s)"

text \<open>\<open>strconv.Atoi\<close> on a 64-bit platform: an optional sign, decimal digits, and
  a range error outside the signed 64-bit integers.\<close>

definition atoi :: "string \<Rightarrow> int option" where
  "atoi s =
     (let v = (case s of
                 [] \<Rightarrow> None
               | c # cs \<Rightarrow>
                   (if c = CHR ''-'' then map_option (\<lambda>n. - int n) (parse_nat cs)
                    else if c = CHR ''+'' then map_option int (parse_nat cs)
                    else map_option int (parse_nat s)))
      in (case v of
            None \<Rightarrow> None
          | Some i \<Rightarrow> if - (2 ^ 63) \<le> i \<and> i < 2 ^ 63 then Some i else None))"

lemma of_char_digit_char: "d < 10 \<Longrightarrow> (of_char (digit_char d) :: nat) = 48 + d"
  by (simp add: digit_char_def)

lemma char_digit_digit_char [simp]: "d < 10 \<Longrightarrow> char_digit (digit_char d) = Some d"
  by (simp add: char_digit_def of_char_digit_char)

lemma nat_digits_not_Nil [simp]: "nat_digits n \<noteq> []"
  by (subst nat_digits.simps) simp

lemma parse_nat_from_append:
  "parse_nat_from acc (xs @ ys) =
     (case parse_nat_from acc xs of None \<Rightarrow> None | Some a \<Rightarrow> parse_nat_from a ys)"
  by (induction xs arbitrary: acc) (auto split: option.splits)

lemma parse_nat_from_digits:
  "parse_nat_from 0 (nat_digits n) = Some n"
proof (induction n rule: nat_digits.induct)
  case (1 n)
  show ?case
  proof (cases "n < 10")
    case True
    then show ?thesis by (subst nat_digits.simps) simp
  next
    case False
    with 1 have "parse_nat_from 0 (nat_digits (n div 10)) = Some (n div 10)" by simp
    with False show ?thesis
      by (subst nat_digits.simps) (simp add: parse_nat_from_append)
  qed
qed

lemma parse_nat_digits [simp]: "parse_nat (nat_digits n) = Some n"
  by (simp add: parse_nat_def parse_nat_from_digits)

lemma nat_digits_inj: "nat_digits m = nat_digits n \<Longrightarrow> m = n"
  by (metis option.inject parse_nat_from_digits)

lemma nat_digits_hd: "\<exists>d < 10. hd (nat_digits n) = digit_char d"
proof (induction n rule: nat_digits.induct)
  case (1 n)
  show ?case
  proof (cases "n < 10")
    case True
    then show ?thesis by (subst nat_digits.simps) auto
  next
    case False
    with 1 show ?thesis by (subst nat_digits.simps) simp
  qed
qed

lemma nat_digits_no_sign: "nat_digits n = c # cs \<Longrightarrow> c \<noteq> CHR ''-'' \<and> c \<noteq> CHR ''+''"
proof -
  assume eq: "nat_digits n = c # cs"
  obtain d where d: "d < 10" "hd (nat_digits n) = digit_char d"
    using nat_digits_hd by blast
  with eq have "(of_char c :: nat) = 48 + d"
    by (simp add: of_char_digit_char)
  then show ?thesis by auto
qed

lemma atoi_itoa [go_strings]:
  assumes "- (2 ^ 63) \<le> i" and "i < 2 ^ 63"
  shows "atoi (itoa i) = Some i"
proof (cases "i < 0")
  case True
  with assms show ?thesis by (simp add: atoi_def itoa_def)
next
  case False
  obtain c cs where c: "nat_digits (nat i) = c # cs"
    by (cases "nat_digits (nat i)") auto
  with False assms show ?thesis
    using nat_digits_no_sign [OF c] parse_nat_digits [of "nat i"]
    by (simp add: atoi_def itoa_def)
qed

lemma atoi_itoa_Some: "atoi (itoa i) = Some j \<Longrightarrow> j = i"
proof (cases "i < 0")
  case True
  assume "atoi (itoa i) = Some j"
  with True show ?thesis by (simp add: atoi_def itoa_def split: if_splits)
next
  case False
  assume a: "atoi (itoa i) = Some j"
  obtain c cs where c: "nat_digits (nat i) = c # cs"
    by (cases "nat_digits (nat i)") auto
  with False a show ?thesis
    using nat_digits_no_sign [OF c] parse_nat_digits [of "nat i"]
    by (simp add: atoi_def itoa_def split: if_splits)
qed

lemma itoa_inj: "itoa i = itoa j \<Longrightarrow> i = j"
proof -
  assume eq: "itoa i = itoa j"
  have h: "\<And>m n. CHR ''-'' # nat_digits m \<noteq> nat_digits n"
    using nat_digits_no_sign by metis
  show ?thesis
  proof (cases "i < 0")
    case True
    with eq h have "j < 0" by (auto simp: itoa_def split: if_splits)
    with True eq show ?thesis by (auto simp: itoa_def dest: nat_digits_inj)
  next
    case False
    with eq h have "\<not> j < 0" by (auto simp: itoa_def split: if_splits) (metis)
    with False eq show ?thesis by (auto simp: itoa_def dest: nat_digits_inj)
  qed
qed

end
