(* ===== verification/ConfigTypes.thy ===== *)
theory ConfigTypes
  imports Prelude
begin

text \<open>
  The data of \<open>libs/digger_config\<close>: the YAML structs of \<open>yaml.go\<close> (fields with suffix
  \<open>_y\<close>) and the configuration structs of \<open>config.go\<close> they are converted to.  A pointer
  is an \<open>option\<close>; a slice is a list, and an \<open>option\<close> of a list where the code tells a
  nil slice from an empty one.  A map is an association list.
\<close>

section \<open>\<open>config.go\<close>\<close>

record reporter_config =
  AiSummary :: bool
  CommentsEnabled :: bool

record assume_role =
  AwsRoleRegion :: string
  StateRole :: string
  CommandRole :: string

record cognito_config =
  AwsAccountId :: string
  AwsRegion :: string
  CognitoPoolId :: string
  SessionDuration :: int

record project =
  BlockName :: string
  Name :: string
  Branch :: string
  Alias :: string
  ApplyRequirements :: "string list"
  Dir :: string
  Workspace :: string
  Terragrunt :: bool
  Layer :: nat
  OpenTofu :: bool
  Pulumi :: bool
  Workflow :: string
  WorkflowFile :: string
  IncludePatterns :: "string list"
  ExcludePatterns :: "string list"
  DependencyProjects :: "string list"
  DriftDetection :: bool
  AwsRoleToAssume :: "assume_role option"
  AwsCognitoOidcConfig :: "cognito_config option"
  Generated :: bool
  PulumiStack :: string

record config_step =
  cs_Action :: string
  cs_Value :: string
  cs_ExtraArgs :: "string list"
  cs_Shell :: string

record config_stage =
  cst_Steps :: "config_step list"
  cst_FilterRegex :: "string option"

record env_var =
  ev_Name :: string
  ev_ValueFrom :: string
  ev_Value :: string

record env_config =
  State :: "env_var list"
  Commands :: "env_var list"

record workflow_configuration =
  OnPullRequestPushed :: "string list"
  OnPullRequestClosed :: "string list"
  OnPullRequestConvertedToDraft :: "string list"
  OnCommitToDefault :: "string list"
  SkipMergeCheck :: bool

record workflow =
  EnvVars :: "env_config option"
  Plan :: "config_stage option"
  Apply :: "config_stage option"
  Configuration :: "workflow_configuration option"

record digger_config =
  ApplyAfterMerge :: bool
  AllowDraftPRs :: bool
  CommentRenderMode :: string
  DependencyMode :: string
  DeletePriorComments :: bool
  DisableDiggerApplyComment :: bool
  DisableDiggerApplyStatusCheck :: bool
  RespectLayers :: bool
  PrLocks :: bool
  Projects :: "project list"
  AutoMerge :: bool
  AutoMergeStrategy :: string
  Telemetry :: bool
  Workflows :: "(string \<times> workflow) list"
  MentionDriftedProjectsInPR :: bool
  TraverseToNestedProjects :: bool
  Reporting :: reporter_config
  ReportTerraformOutputs :: bool

definition plain_step :: "string \<Rightarrow> config_step" where
  "plain_step a = \<lparr>cs_Action = a, cs_Value = [], cs_ExtraArgs = [], cs_Shell = []\<rparr>"

definition defaultWorkflow :: workflow where
  "defaultWorkflow =
     \<lparr>EnvVars = Some \<lparr>State = [], Commands = []\<rparr>,
      Plan = Some \<lparr>cst_Steps = [plain_step ''init'', plain_step ''plan''],
                   cst_FilterRegex = None\<rparr>,
      Apply = Some \<lparr>cst_Steps = [plain_step ''init'', plain_step ''apply''],
                    cst_FilterRegex = None\<rparr>,
      Configuration =
        Some \<lparr>OnPullRequestPushed = [''digger plan''],
              OnPullRequestClosed = [''digger unlock''],
              OnPullRequestConvertedToDraft = [],
              OnCommitToDefault = [''digger unlock''],
              SkipMergeCheck = False\<rparr>\<rparr>"

section \<open>\<open>yaml.go\<close>\<close>

record project_yaml =
  BlockName_y :: string
  Name_y :: string
  Alias_y :: string
  ApplyRequirements_y :: "string list option"
  Dir_y :: string
  Workspace_y :: string
  Terragrunt_y :: bool
  Branch_y :: "string option"
  OpenTofu_y :: bool
  Pulumi_y :: bool
  Workflow_y :: string
  WorkflowFile_y :: string
  IncludePatterns_y :: "string list"
  Layer_y :: "nat option"
  ExcludePatterns_y :: "string list"
  DependencyProjects_y :: "string list"
  DriftDetection_y :: "bool option"
  AwsRoleToAssume_y :: "assume_role option"
  Generated_y :: bool
  AwsCognitoOidcConfig_y :: "cognito_config option"
  PulumiStack_y :: string

record step_yaml =
  sy_Action :: string
  sy_Value :: string
  sy_ExtraArgs :: "string list"
  sy_Shell :: string

record stage_yaml =
  sty_FilterRegex :: "string option"
  sty_Steps :: "step_yaml list"

record workflow_configuration_yaml =
  OnPullRequestPushed_y :: "string list option"
  OnPullRequestClosed_y :: "string list option"
  OnPullRequestConvertedToDraft_y :: "string list option"
  OnCommitToDefault_y :: "string list option"
  SkipMergeCheck_y :: bool

record workflow_yaml =
  EnvVars_y :: "env_config option"
  Plan_y :: "stage_yaml option"
  Apply_y :: "stage_yaml option"
  Configuration_y :: "workflow_configuration_yaml option"

record generate_projects_yaml =
  gp_Include :: string
  gp_Exclude :: string
  gp_BlockCount :: nat

record digger_config_yaml =
  ApplyAfterMerge_y :: "bool option"
  RespectLayers_y :: "bool option"
  AllowDraftPRs_y :: "bool option"
  DependencyConfiguration_y :: "string option"
  DeletePriorComments_y :: "bool option"
  DisableDiggerApplyComment_y :: "bool option"
  DisableDiggerApplyStatusCheck_y :: "bool option"
  PrLocks_y :: "bool option"
  Projects_y :: "project_yaml list"
  AutoMerge_y :: "bool option"
  AutoMergeStrategy_y :: "string option"
  CommentRenderMode_y :: "string option"
  Workflows_y :: "(string \<times> workflow_yaml option) list option"
  Telemetry_y :: "bool option"
  GenerateProjectsConfig_y :: "generate_projects_yaml option"
  TraverseToNestedProjects_y :: "bool option"
  MentionDriftedProjectsInPR_y :: "bool option"
  ReportTerraformOutputs_y :: "bool option"
  Reporting_y :: "reporter_config option"

text \<open>The defaults that \<open>ProjectYaml.UnmarshalYAML\<close> and \<open>WorkflowYaml.UnmarshalYAML\<close>
  set before the document is decoded over them.\<close>

definition rawProject :: project_yaml where
  "rawProject =
     \<lparr>BlockName_y = [], Name_y = [], Alias_y = [], ApplyRequirements_y = None, Dir_y = [],
      Workspace_y = ''default'', Terragrunt_y = False, Branch_y = None, OpenTofu_y = False,
      Pulumi_y = False, Workflow_y = ''default'', WorkflowFile_y = [], IncludePatterns_y = [],
      Layer_y = None, ExcludePatterns_y = [], DependencyProjects_y = [], DriftDetection_y = None,
      AwsRoleToAssume_y = None, Generated_y = False, AwsCognitoOidcConfig_y = None,
      PulumiStack_y = []\<rparr>"

definition plain_step_yaml :: "string \<Rightarrow> step_yaml" where
  "plain_step_yaml a = \<lparr>sy_Action = a, sy_Value = [], sy_ExtraArgs = [], sy_Shell = []\<rparr>"

definition rawWorkflow :: workflow_yaml where
  "rawWorkflow =
     \<lparr>EnvVars_y = Some \<lparr>State = [], Commands = []\<rparr>,
      Plan_y = Some \<lparr>sty_FilterRegex = None,
                     sty_Steps = [plain_step_yaml ''init'', plain_step_yaml ''plan'']\<rparr>,
      Apply_y = Some \<lparr>sty_FilterRegex = None,
                      sty_Steps = [plain_step_yaml ''init'', plain_step_yaml ''apply'']\<rparr>,
      Configuration_y =
        Some \<lparr>OnPullRequestPushed_y = Some [''digger plan''],
              OnPullRequestClosed_y = Some [''digger unlock''],
              OnPullRequestConvertedToDraft_y = None,
              OnCommitToDefault_y = Some [''digger unlock''],
              SkipMergeCheck_y = False\<rparr>\<rparr>"

definition validateWorkflowConfigurationYaml ::
  "workflow_configuration_yaml option \<Rightarrow> unit res" where
  "validateWorkflowConfigurationYaml c =
     (case c of
        None \<Rightarrow> Ok ()
      | Some c \<Rightarrow>
          if OnPullRequestPushed_y c = None
          then Err ''workflow_configuration.on_pull_request_pushed is required''
          else if OnPullRequestClosed_y c = None
          then Err ''workflow_configuration.on_pull_request_closed is required''
          else if OnCommitToDefault_y c = None
          then Err ''workflow_configuration.on_commit_to_default is required''
          else Ok ())"

text \<open>\<open>WorkflowYaml.UnmarshalYAML\<close>: \<open>decode\<close> is the YAML package overlaying the
  document on the defaults.\<close>

definition UnmarshalWorkflow ::
  "(workflow_yaml \<Rightarrow> workflow_yaml res) \<Rightarrow> workflow_yaml res" where
  "UnmarshalWorkflow decode =
     res_bind (decode rawWorkflow) (\<lambda>raw.
       res_bind (validateWorkflowConfigurationYaml (Configuration_y raw)) (\<lambda>_. Ok raw))"

definition UnmarshalProject ::
  "(project_yaml \<Rightarrow> project_yaml res) \<Rightarrow> project_yaml res" where
  "UnmarshalProject decode = decode rawProject"

end
