(* ===== verification/GraphLib.thy ===== *)
theory GraphLib
  imports Prelude
begin

text \<open>
  The interface of the graph package \<open>github.com/dominikbraun/graph\<close> as Digger uses it:
  a directed graph keyed by a hash of its vertices, created with \<open>PreventCycles\<close>.  The
  package is not part of the repository, so it is a parameter: a record of operations,
  whose documented behaviour the locale \<open>graph_lib\<close> states over the graph's vertex map
  and edge set.  \<open>list_graph\<close> is a concrete function with that behaviour, so the
  locale's laws hold together.
\<close>

datatype graph_err =
    ErrVertexNotFound
  | ErrVertexAlreadyExists
  | ErrEdgeAlreadyExists
  | ErrEdgeCreatesCycle

fun graph_err_text :: "graph_err \<Rightarrow> string" where
  "graph_err_text ErrVertexNotFound = ''vertex not found''"
| "graph_err_text ErrVertexAlreadyExists = ''vertex already exists''"
| "graph_err_text ErrEdgeAlreadyExists = ''edge already exists''"
| "graph_err_text ErrEdgeCreatesCycle = ''edge would create a cycle''"

record ('g, 'v) graph_ops =
  g_new :: 'g
  g_vertex :: "'g \<Rightarrow> string \<Rightarrow> 'v option"
  g_add_vertex :: "'v \<Rightarrow> 'g \<Rightarrow> graph_err + 'g"
  g_add_edge :: "string \<Rightarrow> string \<Rightarrow> 'g \<Rightarrow> graph_err + 'g"
  g_adjacency :: "'g \<Rightarrow> (string \<times> string list) list"
  g_predecessors :: "'g \<Rightarrow> (string \<times> string list) list"

locale graph_lib =
  fixes lib :: "('g, 'v) graph_ops"
    and hash :: "'v \<Rightarrow> string"
    and verts :: "'g \<Rightarrow> string \<Rightarrow> 'v option"
    and edges :: "'g \<Rightarrow> (string \<times> string) set"
    and ginv :: "'g \<Rightarrow> bool"
  assumes new_inv: "ginv (g_new lib)"
    and new_verts: "verts (g_new lib) = (\<lambda>_. None)"
    and new_edges: "edges (g_new lib) = {}"
    and vertex: "ginv g \<Longrightarrow> g_vertex lib g k = verts g k"
    and add_vertex_new:
      "ginv g \<Longrightarrow> verts g (hash v) = None \<Longrightarrow>
       \<exists>g'. g_add_vertex lib v g = Inr g' \<and> ginv g' \<and>
            verts g' = (verts g)(hash v \<mapsto> v) \<and> edges g' = edges g"
    and add_vertex_dup:
      "ginv g \<Longrightarrow> verts g (hash v) \<noteq> None \<Longrightarrow>
       g_add_vertex lib v g = Inl ErrVertexAlreadyExists"
    and add_edge_no_vertex:
      "ginv g \<Longrightarrow> verts g a = None \<or> verts g b = None \<Longrightarrow>
       g_add_edge lib a b g = Inl ErrVertexNotFound"
    and add_edge_dup:
      "ginv g \<Longrightarrow> verts g a \<noteq> None \<Longrightarrow> verts g b \<noteq> None \<Longrightarrow> (a, b) \<in> edges g \<Longrightarrow>
       g_add_edge lib a b g = Inl ErrEdgeAlreadyExists"
    and add_edge_cycle:
      "ginv g \<Longrightarrow> verts g a \<noteq> None \<Longrightarrow> verts g b \<noteq> None \<Longrightarrow> (a, b) \<notin> edges g \<Longrightarrow>
       (b, a) \<in> (edges g)\<^sup>* \<Longrightarrow> g_add_edge lib a b g = Inl ErrEdgeCreatesCycle"
    and add_edge_new:
      "ginv g \<Longrightarrow> verts g a \<noteq> None \<Longrightarrow> verts g b \<noteq> None \<Longrightarrow> (a, b) \<notin> edges g \<Longrightarrow>
       (b, a) \<notin> (edges g)\<^sup>* \<Longrightarrow>
       \<exists>g'. g_add_edge lib a b g = Inr g' \<and> ginv g' \<and>
            verts g' = verts g \<and> edges g' = insert (a, b) (edges g)"
    and adjacency:
      "ginv g \<Longrightarrow>
       map_of (g_adjacency lib g) k = None \<longleftrightarrow> verts g k = None"
    and adjacency_targets:
      "ginv g \<Longrightarrow> map_of (g_adjacency lib g) k = Some ts \<Longrightarrow>
       set ts = {b. (k, b) \<in> edges g}"
    and predecessors:
      "ginv g \<Longrightarrow>
       map_of (g_predecessors lib g) k = None \<longleftrightarrow> verts g k = None"
    and predecessors_sources:
      "ginv g \<Longrightarrow> map_of (g_predecessors lib g) k = Some ss \<Longrightarrow>
       set ss = {a. (a, k) \<in> edges g}"
begin

lemma add_vertex_Inr:
  assumes "ginv g" and "g_add_vertex lib v g = Inr g'"
  shows "verts g (hash v) = None \<and> ginv g' \<and> verts g' = (verts g)(hash v \<mapsto> v) \<and>
         edges g' = edges g"
proof (cases "verts g (hash v)")
  case None
  with add_vertex_new [OF assms(1), of v] assms(2) show ?thesis by auto
next
  case (Some x)
  with add_vertex_dup [OF assms(1), of v] assms(2) show ?thesis by auto
qed

lemma add_edge_Inr:
  assumes inv: "ginv g" and eq: "g_add_edge lib a b g = Inr g'"
  shows "verts g a \<noteq> None \<and> verts g b \<noteq> None \<and> (a, b) \<notin> edges g \<and> (b, a) \<notin> (edges g)\<^sup>* \<and>
         ginv g' \<and> verts g' = verts g \<and> edges g' = insert (a, b) (edges g)"
proof -
  have v: "verts g a \<noteq> None" "verts g b \<noteq> None"
    using add_edge_no_vertex [OF inv, of a b] eq by fastforce+
  have e: "(a, b) \<notin> edges g"
    using add_edge_dup [OF inv v] eq by auto
  have c: "(b, a) \<notin> (edges g)\<^sup>*"
    using add_edge_cycle [OF inv v e] eq by auto
  from add_edge_new [OF inv v e c] eq v e c show ?thesis by auto
qed

text \<open>Cycle prevention is what makes every graph built with the package acyclic.\<close>

lemma add_edge_acyclic:
  assumes "ginv g" and "g_add_edge lib a b g = Inr g'" and "acyclic (edges g)"
  shows "acyclic (edges g')"
  using add_edge_Inr [OF assms(1,2)] assms(3) by (simp add: acyclic_insert)

end

section \<open>A concrete graph\<close>

record 'v list_graph =
  lg_verts :: "(string \<times> 'v) list"
  lg_edges :: "(string \<times> string) list"

definition lg_ops :: "('v \<Rightarrow> string) \<Rightarrow> ('v list_graph, 'v) graph_ops" where
  "lg_ops hash =
     \<lparr>g_new = \<lparr>lg_verts = [], lg_edges = []\<rparr>,
      g_vertex = (\<lambda>g k. map_of (lg_verts g) k),
      g_add_vertex = (\<lambda>v g.
        if map_of (lg_verts g) (hash v) \<noteq> None then Inl ErrVertexAlreadyExists
        else Inr (g\<lparr>lg_verts := lg_verts g @ [(hash v, v)]\<rparr>)),
      g_add_edge = (\<lambda>a b g.
        if map_of (lg_verts g) a = None \<or> map_of (lg_verts g) b = None
        then Inl ErrVertexNotFound
        else if (a, b) \<in> set (lg_edges g) then Inl ErrEdgeAlreadyExists
        else if b = a \<or> (b, a) \<in> (set (lg_edges g))\<^sup>+ then Inl ErrEdgeCreatesCycle
        else Inr (g\<lparr>lg_edges := lg_edges g @ [(a, b)]\<rparr>)),
      g_adjacency = (\<lambda>g.
        map (\<lambda>(k, _). (k, map snd (filter (\<lambda>e. fst e = k) (lg_edges g)))) (lg_verts g)),
      g_predecessors = (\<lambda>g.
        map (\<lambda>(k, _). (k, map fst (filter (\<lambda>e. snd e = k) (lg_edges g)))) (lg_verts g))\<rparr>"

definition lg_vertex_map :: "'v list_graph \<Rightarrow> string \<Rightarrow> 'v option" where
  "lg_vertex_map g = map_of (lg_verts g)"

definition lg_edge_set :: "'v list_graph \<Rightarrow> (string \<times> string) set" where
  "lg_edge_set g = set (lg_edges g)"

lemma map_of_map_key_fun:
  "map_of (map (\<lambda>(k, x). (k, f k)) xs) k = (if map_of xs k = None then None else Some (f k))"
  by (induction xs) auto

lemma map_add_single_left:
  "m k = None \<Longrightarrow> [k \<mapsto> v] ++ m = m(k \<mapsto> v)"
  by (auto simp: map_add_def fun_eq_iff split: option.splits)

lemma set_map_filter_edges:
  "set (map snd (filter (\<lambda>e. fst e = k) es)) = {b. (k, b) \<in> set es}"
  "set (map fst (filter (\<lambda>e. snd e = k) es)) = {a. (a, k) \<in> set es}"
  by force+

lemmas lg_defs = lg_ops_def lg_vertex_map_def lg_edge_set_def

interpretation list_graph: graph_lib "lg_ops hash" hash lg_vertex_map lg_edge_set "\<lambda>_. True"
  for hash
  by unfold_locales
    (auto simp: lg_defs map_of_map_key_fun map_add_single_left rtrancl_eq_or_trancl
                set_map_filter_edges
          simp del: set_map split: if_splits)

end
