(* ===== verification/ConfigConvert.thy ===== *)
theory ConfigConvert
  imports ConfigTypes GraphLib
begin

text \<open>
  \<open>libs/digger_config/converters.go\<close> and the validators of \<open>digger_config.go\<close>: the
  decoded YAML becomes a \<open>DiggerConfig\<close> with every default filled in, its projects'
  dependency graph is built with the graph package, and the result is validated.  A nil
  dereference of the Go code is \<open>Panic\<close>.
\<close>

section \<open>Converters\<close>

definition copyRole :: "assume_role \<Rightarrow> assume_role" where
  "copyRole r =
     (let r1 = (if AwsRoleRegion r = [] then r\<lparr>AwsRoleRegion := ''us-east-1''\<rparr> else r);
          r2 = (if StateRole r1 = [] then r1\<lparr>StateRole := CommandRole r1\<rparr> else r1);
          r3 = (if CommandRole r2 = [] then r2\<lparr>CommandRole := StateRole r2\<rparr> else r2)
      in r3)"

definition or_default :: "'a \<Rightarrow> 'a option \<Rightarrow> 'a" where
  "or_default d x = (case x of None \<Rightarrow> d | Some v \<Rightarrow> v)"

definition copyProject :: "project_yaml \<Rightarrow> project" where
  "copyProject p =
     (let workspace = (if Pulumi_y p then PulumiStack_y p else Workspace_y p) in
      \<lparr>BlockName = BlockName_y p,
       Name = Name_y p,
       Branch = or_default ''__default__'' (Branch_y p),
       Alias = Alias_y p,
       ApplyRequirements = or_default [''mergeable''] (ApplyRequirements_y p),
       Dir = Dir_y p,
       Workspace = workspace,
       Terragrunt = Terragrunt_y p,
       Layer = or_default 0 (Layer_y p),
       OpenTofu = OpenTofu_y p,
       Pulumi = Pulumi_y p,
       Workflow = Workflow_y p,
       WorkflowFile =
         (if WorkflowFile_y p \<noteq> [] then WorkflowFile_y p else ''digger_workflow.yml''),
       IncludePatterns = IncludePatterns_y p,
       ExcludePatterns = ExcludePatterns_y p,
       DependencyProjects = DependencyProjects_y p,
       DriftDetection = or_default True (DriftDetection_y p),
       AwsRoleToAssume = map_option copyRole (AwsRoleToAssume_y p),
       AwsCognitoOidcConfig = AwsCognitoOidcConfig_y p,
       Generated = Generated_y p,
       PulumiStack = workspace\<rparr>)"

definition copyProjects :: "project_yaml list \<Rightarrow> project list" where
  "copyProjects = map copyProject"

definition copyTerraformEnvConfig :: "env_config option \<Rightarrow> env_config" where
  "copyTerraformEnvConfig e = or_default \<lparr>State = [], Commands = []\<rparr> e"

definition copyStep :: "step_yaml \<Rightarrow> config_step" where
  "copyStep s =
     \<lparr>cs_Action = sy_Action s, cs_Value = sy_Value s, cs_ExtraArgs = sy_ExtraArgs s,
      cs_Shell = sy_Shell s\<rparr>"

definition copyStage :: "stage_yaml option \<Rightarrow> config_stage res" where
  "copyStage st =
     (case st of
        None \<Rightarrow> Panic ''nil pointer dereference: stage''
      | Some s \<Rightarrow> Ok \<lparr>cst_Steps = map copyStep (sty_Steps s), cst_FilterRegex = sty_FilterRegex s\<rparr>)"

definition copyWorkflowConfiguration ::
  "workflow_configuration_yaml option \<Rightarrow> workflow_configuration res" where
  "copyWorkflowConfiguration c =
     (case c of
        None \<Rightarrow> Panic ''nil pointer dereference: workflow_configuration''
      | Some c \<Rightarrow>
          Ok \<lparr>OnPullRequestPushed = or_default [] (OnPullRequestPushed_y c),
              OnPullRequestClosed = or_default [] (OnPullRequestClosed_y c),
              OnPullRequestConvertedToDraft = or_default [] (OnPullRequestConvertedToDraft_y c),
              OnCommitToDefault = or_default [] (OnCommitToDefault_y c),
              SkipMergeCheck = SkipMergeCheck_y c\<rparr>)"

definition copyWorkflow :: "workflow_yaml option \<Rightarrow> workflow res" where
  "copyWorkflow w =
     (case w of
        None \<Rightarrow> Ok defaultWorkflow
      | Some w \<Rightarrow>
          res_bind (copyStage (Plan_y w)) (\<lambda>plan.
          res_bind (copyStage (Apply_y w)) (\<lambda>apply.
          res_bind (copyWorkflowConfiguration (Configuration_y w)) (\<lambda>conf.
            Ok \<lparr>EnvVars = Some (copyTerraformEnvConfig (EnvVars_y w)),
                Plan = Some plan, Apply = Some apply, Configuration = Some conf\<rparr>))))"

definition copyWorkflows ::
  "(string \<times> workflow_yaml option) list \<Rightarrow> (string \<times> workflow) list res" where
  "copyWorkflows ws =
     res_map (\<lambda>(i, w). res_bind (copyWorkflow w) (\<lambda>item. Ok (i, item))) ws"

definition copyReporterConfig :: "reporter_config option \<Rightarrow> reporter_config" where
  "copyReporterConfig r = or_default \<lparr>AiSummary = False, CommentsEnabled = True\<rparr> r"

definition ValidateAutomergeStrategy :: "string \<Rightarrow> unit res" where
  "ValidateAutomergeStrategy s =
     (if s = ''squash'' \<or> s = ''merge'' \<or> s = ''rebase'' then Ok ()
      else Err (''invalid merge strategy: '' @ s @ '', valid values are: squash, merge, rebase''))"

section \<open>The dependency graph\<close>

text \<open>One project of the loop of \<open>CreateProjectDependencyGraph\<close>: its vertex, then for
  every dependency the dependency's vertex and the edge from it to the project.  The library's
  errors other than a missing vertex are passed on.\<close>

definition lift_graph :: "graph_err + 'g \<Rightarrow> 'g res" where
  "lift_graph x = (case x of Inl e \<Rightarrow> Err (graph_err_text e) | Inr g \<Rightarrow> Ok g)"

definition ensure_vertex :: "('g, 'v) graph_ops \<Rightarrow> string \<Rightarrow> 'v \<Rightarrow> 'g \<Rightarrow> 'g res" where
  "ensure_vertex lib k v g =
     (case g_vertex lib g k of
        None \<Rightarrow> lift_graph (g_add_vertex lib v g)
      | Some _ \<Rightarrow> Ok g)"

definition add_dependency ::
  "('g, project) graph_ops \<Rightarrow> (string \<Rightarrow> project option) \<Rightarrow> string \<Rightarrow> 'g \<Rightarrow> string \<Rightarrow> 'g res" where
  "add_dependency lib projectsMap name g dependency =
     res_bind
       (case g_vertex lib g dependency of
          None \<Rightarrow>
            (case projectsMap dependency of
               None \<Rightarrow> Err (''project '' @ quoted dependency @ '' does not exist'')
             | Some dp \<Rightarrow> lift_graph (g_add_vertex lib dp g))
        | Some _ \<Rightarrow> Ok g)
       (\<lambda>g1. lift_graph (g_add_edge lib dependency name g1))"

definition add_project ::
  "('g, project) graph_ops \<Rightarrow> (string \<Rightarrow> project option) \<Rightarrow> 'g \<Rightarrow> project \<Rightarrow> 'g res" where
  "add_project lib projectsMap g p =
     res_bind (ensure_vertex lib (Name p) p g) (\<lambda>g1.
       res_foldl (add_dependency lib projectsMap (Name p)) g1 (DependencyProjects p))"

definition projects_map :: "project list \<Rightarrow> (string \<Rightarrow> project option)" where
  "projects_map ps = foldl (\<lambda>m p. m(Name p \<mapsto> p)) (\<lambda>_. None) ps"

definition CreateProjectDependencyGraph ::
  "('g, project) graph_ops \<Rightarrow> project list \<Rightarrow> 'g res" where
  "CreateProjectDependencyGraph lib projects =
     res_foldl (add_project lib (projects_map projects)) (g_new lib) projects"

section \<open>\<open>ConvertDiggerYamlToConfig\<close>\<close>

text \<open>The check for duplicate names keeps the set of names seen so far.\<close>

fun check_duplicates :: "string list \<Rightarrow> project list \<Rightarrow> string list res" where
  "check_duplicates seen [] = Ok seen"
| "check_duplicates seen (p # ps) =
     (if Name p \<in> set seen then Err (''project name '' @ quoted (Name p) @ '' is duplicated'')
      else check_duplicates (Name p # seen) ps)"

definition check_dependencies :: "string list \<Rightarrow> project list \<Rightarrow> unit res" where
  "check_dependencies names ps =
     res_all (\<lambda>p. res_all (\<lambda>d.
        if d \<in> set names then Ok ()
        else Err (''project '' @ quoted (Name p) @ '' depends on '' @ quoted d @ '' which does not exist''))
        (DependencyProjects p)) ps"

definition convert_workflows ::
  "(string \<times> workflow_yaml option) list option \<Rightarrow> (string \<times> workflow) list res" where
  "convert_workflows y =
     (case y of
        None \<Rightarrow> Ok [(''default'', defaultWorkflow)]
      | Some ws \<Rightarrow>
          res_bind (copyWorkflows ws) (\<lambda>m.
            if map_of m ''default'' = None then Ok (AList.update ''default'' defaultWorkflow m)
            else Ok m))"

text \<open>The two loops of the Go function that assign to the loop variable
  (\<open>project.Workflow = defaultWorkflowName\<close> and \<open>w.Plan = ...\<close>) change a copy and are
  without effect, so they are the identity here.\<close>

definition ConvertDiggerYamlToConfig ::
  "('g, project) graph_ops \<Rightarrow> digger_config_yaml \<Rightarrow> (digger_config \<times> 'g) res" where
  "ConvertDiggerYamlToConfig lib y =
     res_bind
       (case AutoMergeStrategy_y y of
          None \<Rightarrow> Ok ''squash''
        | Some s \<Rightarrow> res_bind (ValidateAutomergeStrategy s) (\<lambda>_. Ok s)) (\<lambda>strategy.
     res_bind (convert_workflows (Workflows_y y)) (\<lambda>workflows.
     let projects = copyProjects (Projects_y y);
         config =
           \<lparr>ApplyAfterMerge = or_default False (ApplyAfterMerge_y y),
            AllowDraftPRs = or_default False (AllowDraftPRs_y y),
            CommentRenderMode = or_default ''basic'' (CommentRenderMode_y y),
            DependencyMode = or_default ''hard'' (DependencyConfiguration_y y),
            DeletePriorComments = or_default False (DeletePriorComments_y y),
            DisableDiggerApplyComment = or_default False (DisableDiggerApplyComment_y y),
            DisableDiggerApplyStatusCheck = or_default False (DisableDiggerApplyStatusCheck_y y),
            RespectLayers = or_default False (RespectLayers_y y),
            PrLocks = or_default True (PrLocks_y y),
            Projects = projects,
            AutoMerge = or_default False (AutoMerge_y y),
            AutoMergeStrategy = strategy,
            Telemetry = or_default True (Telemetry_y y),
            Workflows = workflows,
            MentionDriftedProjectsInPR = or_default False (MentionDriftedProjectsInPR_y y),
            TraverseToNestedProjects = or_default False (TraverseToNestedProjects_y y),
            Reporting = copyReporterConfig (Reporting_y y),
            ReportTerraformOutputs = or_default True (ReportTerraformOutputs_y y)\<rparr>
     in res_bind (check_duplicates [] projects) (\<lambda>names.
        res_bind (check_dependencies names projects) (\<lambda>_.
          (case CreateProjectDependencyGraph lib projects of
             Ok g \<Rightarrow> Ok (config, g)
           | Err e \<Rightarrow> Err (''failed to create project dependency graph: '' @ e)
           | Panic m \<Rightarrow> Panic m)))))"

section \<open>Validators\<close>

text \<open>\<open>regexp_ok\<close> stands for \<open>regexp.Compile\<close>: an error text for a pattern that does
  not compile.\<close>

definition check_filter :: "(string \<Rightarrow> error + unit) \<Rightarrow> string \<Rightarrow> stage_yaml option \<Rightarrow> unit res" where
  "check_filter regexp_ok what st =
     (case st of
        None \<Rightarrow> Ok ()
      | Some s \<Rightarrow>
          (case sty_FilterRegex s of
             None \<Rightarrow> Ok ()
           | Some r \<Rightarrow>
               (case regexp_ok r of
                  Inl e \<Rightarrow> Err (''regex for '' @ what @ '' filter is invalid: '' @ e)
                | Inr _ \<Rightarrow> Ok ())))"

definition ValidateDiggerConfigYaml ::
  "(string \<Rightarrow> error + unit) \<Rightarrow> digger_config_yaml \<Rightarrow> unit res" where
  "ValidateDiggerConfigYaml regexp_ok y =
     res_bind
       (case DependencyConfiguration_y y of
          None \<Rightarrow> Ok ()
        | Some m \<Rightarrow>
            if m \<noteq> ''hard'' \<and> m \<noteq> ''soft''
            then Err (''dependency digger_config mode can only be '' @ quoted ''hard'' @ '' or '' @
                      quoted ''soft'')
            else Ok ()) (\<lambda>_.
     res_bind
       (case Workflows_y y of
          None \<Rightarrow> Ok ()
        | Some ws \<Rightarrow>
            res_all (\<lambda>(_, w).
              (case w of
                 None \<Rightarrow> Ok ()
               | Some w \<Rightarrow>
                   res_bind (check_filter regexp_ok ''plan'' (Plan_y w)) (\<lambda>_.
                     check_filter regexp_ok ''apply'' (Apply_y w)))) ws) (\<lambda>_.
       (case GenerateProjectsConfig_y y of
          None \<Rightarrow> Ok ()
        | Some gp \<Rightarrow>
            if gp_Include gp \<noteq> [] \<and> gp_Exclude gp \<noteq> [] \<and> gp_BlockCount gp \<noteq> 0
            then Err ''if include/exclude patterns are used for project generation, blocks of include/exclude can't be used''
            else Ok ())))"

definition checkThatOnlyOneIacSpecifiedPerProject :: "project \<Rightarrow> unit res" where
  "checkThatOnlyOneIacSpecifiedPerProject p =
     (let n = (if Terragrunt p then 1 else 0) + (if OpenTofu p then 1 else 0) +
              (if Pulumi p then 1 else (0::nat))
      in if n > 1
         then Err (''project '' @ Name p @ '' has more than one IAC defined, please specify one of terragrunt or pulumi or opentofu'')
         else Ok ())"

definition validatePulumiProject :: "project \<Rightarrow> unit res" where
  "validatePulumiProject p =
     (if Pulumi p \<and> PulumiStack p = []
      then Err (''for pulumi project '' @ Name p @ '' you must specify a pulumi stack'')
      else Ok ())"

definition ValidateProjects :: "digger_config \<Rightarrow> unit res" where
  "ValidateProjects c =
     res_all (\<lambda>p. res_bind (checkThatOnlyOneIacSpecifiedPerProject p) (\<lambda>_.
        validatePulumiProject p)) (Projects c)"

definition findInvalid :: "string list \<Rightarrow> string list \<Rightarrow> string list" where
  "findInvalid values validSet = filter (\<lambda>v. v \<notin> set validSet) values"

text \<open>\<open>lo.FindDuplicates\<close>: the first occurrence of every element that occurs again.\<close>

fun find_duplicates :: "string list \<Rightarrow> string list \<Rightarrow> string list" where
  "find_duplicates seen [] = []"
| "find_duplicates seen (x # xs) =
     (if x \<notin> set seen \<and> x \<in> set xs then x # find_duplicates (x # seen) xs
      else find_duplicates (x # seen) xs)"

definition validateApplyRequirements :: "string list \<Rightarrow> unit res" where
  "validateApplyRequirements reqs =
     (let dups = find_duplicates [] reqs;
          invalid = findInvalid reqs [''approved'', ''mergeable'', ''undiverged'']
      in if dups \<noteq> [] then Err (''found duplicate element: '' @ fmt_list dups)
         else if invalid \<noteq> [] then Err (''invalid values found: '' @ fmt_list invalid)
         else Ok ())"

definition check_stage_actions :: "string \<Rightarrow> config_stage option \<Rightarrow> unit res" where
  "check_stage_actions what st =
     (case st of
        None \<Rightarrow> Panic ''nil pointer dereference: stage''
      | Some s \<Rightarrow>
          res_all (\<lambda>x. if cs_Action x = [] then Err (what @ '' step's action can't be empty'')
                       else Ok ()) (cst_Steps s))"

definition check_project_workflow ::
  "(string \<times> workflow) list \<Rightarrow> project \<Rightarrow> unit res" where
  "check_project_workflow ws p =
     (if map_of ws (Workflow p) = None
      then Err (''failed to find workflow digger_config '' @ quoted (Workflow p) @ '' for project '' @
               quoted (Name p))
      else (case validateApplyRequirements (ApplyRequirements p) of
              Ok _ \<Rightarrow> Ok ()
            | Err e \<Rightarrow> Err (''apply requirements are invalid for project '' @ Name p @ '', error: '' @ e)
            | Panic m \<Rightarrow> Panic m))"

definition ValidateDiggerConfig :: "digger_config \<Rightarrow> unit res" where
  "ValidateDiggerConfig c =
     res_bind (ValidateProjects c) (\<lambda>_.
     res_bind
       (if CommentRenderMode c \<noteq> ''basic'' \<and> CommentRenderMode c \<noteq> ''group_by_module''
        then Err (''invalid value for comment_render_mode, '' @ CommentRenderMode c @
                  '' expecting basic, group_by_module'')
        else Ok ()) (\<lambda>_.
     res_bind (res_all (check_project_workflow (Workflows c)) (Projects c)) (\<lambda>_.
     res_bind (res_all (\<lambda>(_, w). check_stage_actions ''plan'' (Plan w)) (Workflows c)) (\<lambda>_.
       res_all (\<lambda>(_, w). check_stage_actions ''apply'' (Apply w)) (Workflows c)))))"

end
