(* ===== verification/ConfigProps.thy ===== *)
theory ConfigProps
  imports ConfigConvert
begin

text \<open>
  What the conversion and the validators guarantee: the dependency graph holds exactly the
  declared dependencies and has no cycle, every well-formed list of projects has one, and a
  configuration that was converted and validated has distinct, resolvable projects whose
  workflows exist with usable steps.
\<close>

definition dep_edges :: "project list \<Rightarrow> (string \<times> string) set" where
  "dep_edges ps = {(d, Name p) | p d. p \<in> set ps \<and> d \<in> set (DependencyProjects p)}"

lemma dep_edges_Nil [simp]: "dep_edges [] = {}"
  by (simp add: dep_edges_def)

lemma dep_edges_Cons:
  "dep_edges (p # ps) = (\<lambda>d. (d, Name p)) ` set (DependencyProjects p) \<union> dep_edges ps"
  by (auto simp: dep_edges_def)

lemma projects_map_foldl_Some:
  "foldl (\<lambda>m p. m(Name p \<mapsto> p)) m ps k = Some p \<Longrightarrow>
   (\<And>k p. m k = Some p \<Longrightarrow> Name p = k) \<Longrightarrow> Name p = k"
proof (induction ps arbitrary: m)
  case Nil
  then show ?case by simp
next
  case (Cons q ps)
  show ?case
  proof (rule Cons.IH)
    show "foldl (\<lambda>m p. m(Name p \<mapsto> p)) (m(Name q \<mapsto> q)) ps k = Some p"
      using Cons.prems(1) by (simp only: foldl.simps)
  qed (use Cons.prems(2) in \<open>auto split: if_splits\<close>)
qed

lemma projects_map_name: "projects_map ps k = Some p \<Longrightarrow> Name p = k"
  by (rule projects_map_foldl_Some [of _ ps]) (auto simp: projects_map_def)

lemma projects_map_foldl_dom:
  "dom (foldl (\<lambda>m p. m(Name p \<mapsto> p)) m ps) = dom m \<union> Name ` set ps"
  by (induction ps arbitrary: m) auto

lemma projects_map_dom: "dom (projects_map ps) = Name ` set ps"
  by (simp add: projects_map_def projects_map_foldl_dom)

locale project_graph_lib = graph_lib lib Name verts edges ginv
  for lib :: "('g, project) graph_ops" and verts edges ginv
begin

lemma ensure_vertex_Ok:
  assumes "ginv g" and "ensure_vertex lib (Name p) p g = Ok g'"
  shows "ginv g' \<and> edges g' = edges g \<and> dom (verts g') = insert (Name p) (dom (verts g))"
proof (cases "verts g (Name p)")
  case None
  with assms have "g_add_vertex lib p g = Inr g'"
    by (auto simp: ensure_vertex_def vertex lift_graph_def split: sum.splits)
  from add_vertex_Inr [OF assms(1) this] show ?thesis by simp
next
  case (Some q)
  with assms show ?thesis
    by (auto simp: ensure_vertex_def vertex)
qed

lemma add_dependency_Ok:
  assumes inv: "ginv g" and ok: "add_dependency lib pm n g d = Ok g'"
    and pm: "\<And>k p. pm k = Some p \<Longrightarrow> Name p = k"
  shows "ginv g' \<and> edges g' = insert (d, n) (edges g) \<and>
         dom (verts g') = insert d (dom (verts g)) \<and>
         (acyclic (edges g) \<longrightarrow> acyclic (edges g'))"
proof -
  obtain g1 where g1: "ginv g1" "edges g1 = edges g" "dom (verts g1) = insert d (dom (verts g))"
    and e: "g_add_edge lib d n g1 = Inr g'"
  proof (cases "verts g d")
    case None
    with ok inv obtain dp g1 where dp: "pm d = Some dp" and a: "g_add_vertex lib dp g = Inr g1"
      and e: "g_add_edge lib d n g1 = Inr g'"
      by (auto simp: add_dependency_def vertex lift_graph_def split: option.splits sum.splits)
    from add_vertex_Inr [OF inv a] pm [OF dp] e that [of g1] show ?thesis by simp
  next
    case (Some q)
    with ok inv have "g_add_edge lib d n g = Inr g'"
      by (auto simp: add_dependency_def vertex lift_graph_def split: sum.splits)
    with Some inv that [of g] show ?thesis by auto
  qed
  from add_edge_Inr [OF g1(1) e] add_edge_acyclic [OF g1(1) e] g1 show ?thesis by auto
qed

lemma add_dependencies_Ok:
  assumes "ginv g" and "res_foldl (add_dependency lib pm n) g ds = Ok g'"
    and pm: "\<And>k p. pm k = Some p \<Longrightarrow> Name p = k"
  shows "ginv g' \<and> edges g' = (\<lambda>d. (d, n)) ` set ds \<union> edges g \<and>
         dom (verts g') = set ds \<union> dom (verts g) \<and>
         (acyclic (edges g) \<longrightarrow> acyclic (edges g'))"
  using assms(1,2)
proof (induction ds arbitrary: g)
  case Nil
  then show ?case by simp
next
  case (Cons d ds)
  then obtain g1 where "add_dependency lib pm n g d = Ok g1"
    and r: "res_foldl (add_dependency lib pm n) g1 ds = Ok g'" by auto
  from add_dependency_Ok [OF Cons.prems(1) this(1) pm] Cons.IH [OF _ r] show ?case by auto
qed

lemma add_projects_Ok:
  assumes "ginv g" and "res_foldl (add_project lib pm) g ps = Ok g'"
    and pm: "\<And>k p. pm k = Some p \<Longrightarrow> Name p = k"
  shows "ginv g' \<and> edges g' = dep_edges ps \<union> edges g \<and>
         dom (verts g') = Name ` set ps \<union> Domain (dep_edges ps) \<union> dom (verts g) \<and>
         (acyclic (edges g) \<longrightarrow> acyclic (edges g'))"
  using assms(1,2)
proof (induction ps arbitrary: g)
  case Nil
  then show ?case by simp
next
  case (Cons p ps)
  from Cons.prems(2) obtain g1 g2 where v: "ensure_vertex lib (Name p) p g = Ok g1"
    and ds: "res_foldl (add_dependency lib pm (Name p)) g1 (DependencyProjects p) = Ok g2"
    and r: "res_foldl (add_project lib pm) g2 ps = Ok g'"
    by (auto simp: add_project_def [of lib pm g p])
  note g1 = ensure_vertex_Ok [OF Cons.prems(1) v]
  note g2 = add_dependencies_Ok [OF _ ds pm]
  from g1 g2 Cons.IH [OF _ r] show ?case
    by (auto simp: dep_edges_Cons)
qed

lemma CreateProjectDependencyGraph_Ok:
  assumes "CreateProjectDependencyGraph lib ps = Ok g"
  shows "ginv g \<and> edges g = dep_edges ps \<and> acyclic (edges g) \<and>
         dom (verts g) = Name ` set ps \<union> Domain (dep_edges ps)"
proof -
  from assms have "res_foldl (add_project lib (projects_map ps)) (g_new lib) ps = Ok g"
    by (simp add: CreateProjectDependencyGraph_def)
  moreover have "\<And>k p. projects_map ps k = Some p \<Longrightarrow> Name p = k"
    by (rule projects_map_name)
  ultimately have "ginv g \<and> edges g = dep_edges ps \<union> edges (g_new lib) \<and>
      dom (verts g) = Name ` set ps \<union> Domain (dep_edges ps) \<union> dom (verts (g_new lib)) \<and>
      (acyclic (edges (g_new lib)) \<longrightarrow> acyclic (edges g))"
    by (intro add_projects_Ok new_inv)
  moreover have "acyclic (edges (g_new lib))"
    by (simp add: new_edges acyclic_def)
  ultimately show ?thesis by (auto simp: new_edges new_verts)
qed

text \<open>The other direction: an acyclic set of declared dependencies is always accepted.  The
  graph stays inside the declared edges, so no edge is refused.\<close>

lemma add_dependency_total:
  assumes inv: "ginv g" and R: "acyclic R" "edges g \<subseteq> R" "(d, n) \<in> R" "(d, n) \<notin> edges g"
    and n: "verts g n \<noteq> None" and d: "pm d \<noteq> None"
    and pm: "\<And>k p. pm k = Some p \<Longrightarrow> Name p = k"
  shows "\<exists>g'. add_dependency lib pm n g d = Ok g'"
proof -
  have nc: "(n, d) \<notin> (edges g)\<^sup>*"
  proof
    assume "(n, d) \<in> (edges g)\<^sup>*"
    with R(2) have "(n, d) \<in> R\<^sup>*" by (meson in_mono rtrancl_mono)
    with R(3) have "(d, d) \<in> R\<^sup>+" by (rule rtrancl_into_trancl2)
    with R(1) show False by (simp add: acyclic_def)
  qed
  show ?thesis
  proof (cases "verts g d")
    case None
    from d obtain dp where dp: "pm d = Some dp" by auto
    note nd = pm [OF dp]
    from None nd have "verts g (Name dp) = None" by simp
    from add_vertex_new [OF inv this] nd obtain g1 where g1: "g_add_vertex lib dp g = Inr g1"
      "ginv g1" "verts g1 = (verts g)(d \<mapsto> dp)" "edges g1 = edges g" by auto
    have "verts g1 d \<noteq> None" "verts g1 n \<noteq> None" "(d, n) \<notin> edges g1" "(n, d) \<notin> (edges g1)\<^sup>*"
      using g1 n R(4) nc by auto
    from add_edge_new [OF g1(2) this] g1(1) dp None inv show ?thesis
      by (auto simp: add_dependency_def vertex lift_graph_def)
  next
    case (Some q)
    then have "verts g d \<noteq> None" by simp
    from add_edge_new [OF inv this n R(4) nc] Some inv show ?thesis
      by (auto simp: add_dependency_def vertex lift_graph_def)
  qed
qed

lemma add_dependencies_total:
  assumes "ginv g" and "acyclic R" and "edges g \<subseteq> R" and "(\<lambda>d. (d, n)) ` set ds \<subseteq> R"
    and "\<forall>d \<in> set ds. (d, n) \<notin> edges g" and "distinct ds" and "verts g n \<noteq> None"
    and "\<forall>d \<in> set ds. pm d \<noteq> None" and pm: "\<And>k p. pm k = Some p \<Longrightarrow> Name p = k"
  shows "\<exists>g'. res_foldl (add_dependency lib pm n) g ds = Ok g'"
  using assms(1-8)
proof (induction ds arbitrary: g)
  case Nil
  then show ?case by simp
next
  case (Cons d ds)
  then obtain g1 where g1: "add_dependency lib pm n g d = Ok g1"
    using add_dependency_total [of g R d n pm] pm by auto
  note s = add_dependency_Ok [OF Cons.prems(1) g1 pm]
  then have "n \<in> dom (verts g1)" using Cons.prems(7) by auto
  then have n: "verts g1 n \<noteq> None" by auto
  have e: "edges g1 \<subseteq> R" "\<forall>d \<in> set ds. (d, n) \<notin> edges g1"
    using s Cons.prems by auto
  have "\<exists>g'. res_foldl (add_dependency lib pm n) g1 ds = Ok g'"
    using s e n Cons.prems by (intro Cons.IH) auto
  with g1 show ?case by auto
qed

lemma add_projects_total:
  assumes "ginv g" and "acyclic R" and "edges g \<subseteq> R" and "dep_edges ps \<subseteq> R"
    and "\<forall>p \<in> set ps. \<forall>d. (d, Name p) \<notin> edges g"
    and "\<forall>p \<in> set ps. distinct (DependencyProjects p)" and "distinct (map Name ps)"
    and "\<forall>p \<in> set ps. \<forall>d \<in> set (DependencyProjects p). pm d \<noteq> None"
    and pm: "\<And>k p. pm k = Some p \<Longrightarrow> Name p = k"
  shows "\<exists>g'. res_foldl (add_project lib pm) g ps = Ok g'"
  using assms(1-8)
proof (induction ps arbitrary: g)
  case Nil
  then show ?case by simp
next
  case (Cons p ps)
  obtain g1 where v: "ensure_vertex lib (Name p) p g = Ok g1"
    using add_vertex_new [OF Cons.prems(1), of p] Cons.prems(1)
    by (cases "verts g (Name p)") (auto simp: ensure_vertex_def vertex lift_graph_def)
  note g1 = ensure_vertex_Ok [OF Cons.prems(1) v]
  then have vn: "verts g1 (Name p) \<noteq> None" by auto
  have "\<exists>g2. res_foldl (add_dependency lib pm (Name p)) g1 (DependencyProjects p) = Ok g2"
    by (rule add_dependencies_total [of g1 R])
      (use g1 vn Cons.prems pm in \<open>auto simp: dep_edges_Cons\<close>)
  then obtain g2 where
    ds: "res_foldl (add_dependency lib pm (Name p)) g1 (DependencyProjects p) = Ok g2" by auto
  note g2 = add_dependencies_Ok [OF conjunct1 [OF g1] ds pm]
  have np: "\<forall>q \<in> set ps. Name q \<noteq> Name p"
    using Cons.prems(7) by (force simp: image_iff)
  have "\<forall>q \<in> set ps. \<forall>d. (d, Name q) \<notin> edges g2"
    using g1 g2 np Cons.prems(5) by auto
  moreover have "edges g2 \<subseteq> R"
    using g1 g2 Cons.prems(3,4) by (auto simp: dep_edges_Cons)
  ultimately have "\<exists>g'. res_foldl (add_project lib pm) g2 ps = Ok g'"
    using g1 g2 Cons.prems by (intro Cons.IH) (auto simp: dep_edges_Cons)
  with v ds show ?case by (auto simp: add_project_def [of lib pm g p])
qed

lemma CreateProjectDependencyGraph_total:
  assumes "distinct (map Name ps)" and "\<forall>p \<in> set ps. distinct (DependencyProjects p)"
    and "\<forall>p \<in> set ps. set (DependencyProjects p) \<subseteq> Name ` set ps" and "acyclic (dep_edges ps)"
  shows "\<exists>g. CreateProjectDependencyGraph lib ps = Ok g"
proof -
  have "\<forall>p \<in> set ps. \<forall>d \<in> set (DependencyProjects p). projects_map ps d \<noteq> None"
    using assms(3) projects_map_dom [of ps] by blast
  then show ?thesis
    unfolding CreateProjectDependencyGraph_def
    using assms by (intro add_projects_total [of _ "dep_edges ps"])
      (auto simp: new_inv new_edges projects_map_name)
qed

end

interpretation project_graph: project_graph_lib "lg_ops Name" lg_vertex_map lg_edge_set "\<lambda>_. True"
  by unfold_locales

section \<open>Converted configurations\<close>

lemma check_duplicates_Ok:
  "check_duplicates seen ps = Ok names \<Longrightarrow>
   distinct (map Name ps) \<and> set names = set seen \<union> Name ` set ps \<and>
   (\<forall>p \<in> set ps. Name p \<notin> set seen)"
proof (induction ps arbitrary: seen)
  case Nil
  then show ?case by simp
next
  case (Cons p ps)
  from Cons.prems have n: "Name p \<notin> set seen"
    and r: "check_duplicates (Name p # seen) ps = Ok names" by (auto split: if_splits)
  from n Cons.IH [OF r] show ?case by auto
qed

definition closed_deps :: "string set \<Rightarrow> project list \<Rightarrow> bool" where
  "closed_deps names ps = (\<forall>p \<in> set ps. set (DependencyProjects p) \<subseteq> names)"

lemma check_dependencies_Ok:
  "check_dependencies names ps = Ok () \<longleftrightarrow> closed_deps (set names) ps"
  by (auto simp: check_dependencies_def closed_deps_def split: if_splits)

lemma copyWorkflow_Ok:
  "copyWorkflow w = Ok w' \<Longrightarrow> Plan w' \<noteq> None \<and> Apply w' \<noteq> None \<and> Configuration w' \<noteq> None \<and>
   EnvVars w' \<noteq> None"
  by (auto simp: copyWorkflow_def defaultWorkflow_def split: option.splits)

lemma copyWorkflows_Ok:
  "copyWorkflows ws = Ok m \<Longrightarrow> (k, w) \<in> set m \<Longrightarrow>
   Plan w \<noteq> None \<and> Apply w \<noteq> None \<and> Configuration w \<noteq> None \<and> EnvVars w \<noteq> None"
proof (induction ws arbitrary: m)
  case Nil
  then show ?case by (simp add: copyWorkflows_def)
next
  case (Cons x ws)
  then show ?case
    by (cases x) (auto simp: copyWorkflows_def dest: copyWorkflow_Ok)
qed

lemma set_AList_update_subset: "set (AList.update k v m) \<subseteq> insert (k, v) (set m)"
  by (induction m) auto

lemma convert_workflows_Ok:
  assumes "convert_workflows y = Ok m"
  shows "map_of m ''default'' \<noteq> None \<and>
    (\<forall>(k, w) \<in> set m. Plan w \<noteq> None \<and> Apply w \<noteq> None \<and> Configuration w \<noteq> None \<and> EnvVars w \<noteq> None)"
proof (cases y)
  case None
  with assms show ?thesis by (auto simp: convert_workflows_def defaultWorkflow_def)
next
  case (Some ws)
  with assms obtain m0 where m0: "copyWorkflows ws = Ok m0"
    and r: "(if map_of m0 ''default'' = None
             then Ok (AList.update ''default'' defaultWorkflow m0) else Ok m0) = Ok m"
    by (auto simp: convert_workflows_def)
  from r have m: "m = (if map_of m0 ''default'' = None
                 then AList.update ''default'' defaultWorkflow m0 else m0)"
    by (auto split: if_splits)
  note c = copyWorkflows_Ok [OF m0]
  show ?thesis
  proof (cases "map_of m0 ''default'' = None")
    case True
    with m have "m = AList.update ''default'' defaultWorkflow m0" by simp
    then show ?thesis
      using set_AList_update_subset [of "''default''" defaultWorkflow m0] c
      by (fastforce simp: defaultWorkflow_def)
  next
    case False
    with m c show ?thesis by auto
  qed
qed

lemma graph_case_Ok_iff:
  "(case r of Ok g \<Rightarrow> Ok (c, g) | Err e \<Rightarrow> Err (f e) | Panic m \<Rightarrow> Panic m) = Ok x \<longleftrightarrow>
   (\<exists>g. r = Ok g \<and> x = (c, g))"
  by (cases r) auto

lemma Convert_Ok_parts:
  assumes "ConvertDiggerYamlToConfig lib y = Ok (c, g)"
  shows "CreateProjectDependencyGraph lib (Projects c) = Ok g \<and>
         distinct (map Name (Projects c)) \<and>
         closed_deps (Name ` set (Projects c)) (Projects c) \<and>
         Projects c = copyProjects (Projects_y y) \<and>
         convert_workflows (Workflows_y y) = Ok (Workflows c)"
  using assms
  by (auto simp: ConvertDiggerYamlToConfig_def Let_def check_dependencies_Ok
                 graph_case_Ok_iff dest!: check_duplicates_Ok)

lemma find_duplicates_Nil: "find_duplicates seen xs = [] \<Longrightarrow> \<forall>x \<in> set xs. x \<notin> set seen \<Longrightarrow> distinct xs"
proof (induction xs arbitrary: seen)
  case Nil
  then show ?case by simp
next
  case (Cons x xs)
  from Cons.prems have "x \<notin> set xs" by (auto split: if_splits)
  with Cons.prems show ?case
    by (auto split: if_splits intro!: Cons.IH [of "x # seen"])
qed

lemma validateApplyRequirements_Ok:
  "validateApplyRequirements reqs = Ok () \<Longrightarrow>
   distinct reqs \<and> set reqs \<subseteq> {''approved'', ''mergeable'', ''undiverged''}"
proof -
  assume ok: "validateApplyRequirements reqs = Ok ()"
  then have "find_duplicates [] reqs = []"
    by (simp add: validateApplyRequirements_def Let_def split: if_splits)
  moreover from ok have "findInvalid reqs [''approved'', ''mergeable'', ''undiverged''] = []"
    by (simp add: validateApplyRequirements_def Let_def split: if_splits)
  ultimately show ?thesis
    using find_duplicates_Nil [of "[]" reqs] by (auto simp: findInvalid_def filter_empty_conv)
qed

definition stage_ok :: "config_stage option \<Rightarrow> bool" where
  "stage_ok st = (case st of None \<Rightarrow> False | Some s \<Rightarrow> list_all (\<lambda>x. cs_Action x \<noteq> []) (cst_Steps s))"

lemma check_stage_actions_Ok: "check_stage_actions what st = Ok () \<longleftrightarrow> stage_ok st"
  by (auto simp: check_stage_actions_def stage_ok_def list_all_iff split: option.splits if_splits)

definition one_iac :: "project \<Rightarrow> bool" where
  "one_iac p = (\<not> (Terragrunt p \<and> OpenTofu p) \<and> \<not> (Terragrunt p \<and> Pulumi p) \<and>
                \<not> (OpenTofu p \<and> Pulumi p))"

lemma checkIac_Ok: "checkThatOnlyOneIacSpecifiedPerProject p = Ok () \<longleftrightarrow> one_iac p"
  by (simp add: checkThatOnlyOneIacSpecifiedPerProject_def one_iac_def)

lemma ValidateDiggerConfig_Ok:
  assumes "ValidateDiggerConfig c = Ok ()"
  shows "\<forall>p \<in> set (Projects c).
           one_iac p \<and> (Pulumi p \<longrightarrow> PulumiStack p \<noteq> []) \<and>
           (\<exists>w. map_of (Workflows c) (Workflow p) = Some w \<and> stage_ok (Plan w) \<and> stage_ok (Apply w)) \<and>
           distinct (ApplyRequirements p) \<and>
           set (ApplyRequirements p) \<subseteq> {''approved'', ''mergeable'', ''undiverged''}"
proof
  fix p
  assume p: "p \<in> set (Projects c)"
  from assms have v: "ValidateProjects c = Ok ()"
    and w: "\<forall>p \<in> set (Projects c). check_project_workflow (Workflows c) p = Ok ()"
    and pl: "\<forall>(k, w) \<in> set (Workflows c). check_stage_actions ''plan'' (Plan w) = Ok ()"
    and ap: "\<forall>(k, w) \<in> set (Workflows c). check_stage_actions ''apply'' (Apply w) = Ok ()"
    by (auto simp: ValidateDiggerConfig_def)
  from v p have iac: "one_iac p" and stack: "Pulumi p \<longrightarrow> PulumiStack p \<noteq> []"
    by (auto simp: ValidateProjects_def checkIac_Ok validatePulumiProject_def split: if_splits)
  from w p have "check_project_workflow (Workflows c) p = Ok ()" by simp
  then obtain wf where wf: "map_of (Workflows c) (Workflow p) = Some wf"
    and ar: "validateApplyRequirements (ApplyRequirements p) = Ok ()"
    by (auto simp: check_project_workflow_def split: if_splits res.splits)
  from map_of_SomeD [OF wf] pl ap have "stage_ok (Plan wf)" "stage_ok (Apply wf)"
    by (auto simp: check_stage_actions_Ok)
  with iac stack wf validateApplyRequirements_Ok [OF ar]
  show "one_iac p \<and> (Pulumi p \<longrightarrow> PulumiStack p \<noteq> []) \<and>
        (\<exists>w. map_of (Workflows c) (Workflow p) = Some w \<and> stage_ok (Plan w) \<and> stage_ok (Apply w)) \<and>
        distinct (ApplyRequirements p) \<and>
        set (ApplyRequirements p) \<subseteq> {''approved'', ''mergeable'', ''undiverged''}"
    by simp
qed

section \<open>Properties\<close>

text \<open>Claim C17: a configuration that \<open>ConvertDiggerYamlToConfig\<close> returns has distinct
  project names, every dependency names a project, and the dependency graph returned with it
  has exactly the projects as vertices, exactly the declared dependencies as edges, and no
  cycle.\<close>

theorem converted_config_graph:
  assumes "ConvertDiggerYamlToConfig (lg_ops Name) y = Ok (c, g)"
  shows "distinct (map Name (Projects c)) \<and>
         (\<forall>p \<in> set (Projects c). set (DependencyProjects p) \<subseteq> Name ` set (Projects c)) \<and>
         dom (lg_vertex_map g) = Name ` set (Projects c) \<and>
         lg_edge_set g = dep_edges (Projects c) \<and> acyclic (lg_edge_set g)"
proof -
  note parts = Convert_Ok_parts [OF assms]
  then have closed: "\<forall>p \<in> set (Projects c). set (DependencyProjects p) \<subseteq> Name ` set (Projects c)"
    unfolding closed_deps_def by blast
  then have "Domain (dep_edges (Projects c)) \<subseteq> Name ` set (Projects c)"
    unfolding dep_edges_def by blast
  moreover from parts have eq: "CreateProjectDependencyGraph (lg_ops Name) (Projects c) = Ok g"
    and d: "distinct (map Name (Projects c))" by blast+
  ultimately show ?thesis
    using closed d project_graph.CreateProjectDependencyGraph_Ok [OF eq]
    by (auto simp: sup.absorb1)
qed

definition two_projects_yaml :: digger_config_yaml where
  "two_projects_yaml =
     \<lparr>ApplyAfterMerge_y = None, RespectLayers_y = None, AllowDraftPRs_y = None,
      DependencyConfiguration_y = None, DeletePriorComments_y = None,
      DisableDiggerApplyComment_y = None, DisableDiggerApplyStatusCheck_y = None,
      PrLocks_y = None,
      Projects_y = [rawProject\<lparr>Name_y := ''net''\<rparr>,
                    rawProject\<lparr>Name_y := ''app'', DependencyProjects_y := [''net'']\<rparr>],
      AutoMerge_y = None, AutoMergeStrategy_y = Some ''merge'', CommentRenderMode_y = None,
      Workflows_y = Some [(''custom'', Some rawWorkflow)], Telemetry_y = None,
      GenerateProjectsConfig_y = None, TraverseToNestedProjects_y = None,
      MentionDriftedProjectsInPR_y = None, ReportTerraformOutputs_y = None, Reporting_y = None\<rparr>"

definition two_projects_result :: "(digger_config \<times> project list_graph) res" where
  "two_projects_result = ConvertDiggerYamlToConfig (lg_ops Name) two_projects_yaml"

lemma two_projects_result_eval:
  "(case two_projects_result of
      Ok (c, g) \<Rightarrow> ValidateDiggerConfig c = Ok () \<and> map Name (Projects c) = [''net'', ''app'']
    | _ \<Rightarrow> False)"
  by code_simp

lemma two_projects_result_Ok:
  obtains c g where "ConvertDiggerYamlToConfig (lg_ops Name) two_projects_yaml = Ok (c, g)"
    and "ValidateDiggerConfig c = Ok ()" and "map Name (Projects c) = [''net'', ''app'']"
proof -
  obtain c g where r: "two_projects_result = Ok (c, g)"
    and v: "ValidateDiggerConfig c = Ok ()" and n: "map Name (Projects c) = [''net'', ''app'']"
    using res_case_OkE [OF two_projects_result_eval] by auto
  show ?thesis by (rule that [OF r [unfolded two_projects_result_def] v n])
qed

theorem converted_config_graph_witness:
  "\<exists>c g. ConvertDiggerYamlToConfig (lg_ops Name) two_projects_yaml = Ok (c, g) \<and>
     acyclic (lg_edge_set g) \<and> dom (lg_vertex_map g) = {''net'', ''app''}"
proof -
  obtain c g where ok: "ConvertDiggerYamlToConfig (lg_ops Name) two_projects_yaml = Ok (c, g)"
    and n: "map Name (Projects c) = [''net'', ''app'']"
    by (rule two_projects_result_Ok)
  have s: "Name ` set (Projects c) = {''net'', ''app''}"
    using arg_cong [OF n, of set] by (simp only: set_map list.set)
  note props = converted_config_graph [OF ok]
  from props have a: "acyclic (lg_edge_set g)" by blast
  from props have "dom (lg_vertex_map g) = Name ` set (Projects c)" by blast
  then have d: "dom (lg_vertex_map g) = {''net'', ''app''}" by (rule trans [OF _ s])
  show ?thesis by (intro exI conjI) (rule ok, rule a, rule d)
qed

text \<open>Claim C40: the graph is built for every list of projects with distinct names whose
  dependencies are declared projects, listed once each, and free of cycles: no such
  configuration is rejected.\<close>

theorem dependency_graph_total:
  assumes "distinct (map Name ps)" and "\<forall>p \<in> set ps. distinct (DependencyProjects p)"
    and "\<forall>p \<in> set ps. set (DependencyProjects p) \<subseteq> Name ` set ps" and "acyclic (dep_edges ps)"
  shows "\<exists>g. CreateProjectDependencyGraph (lg_ops Name) ps = Ok g \<and> lg_edge_set g = dep_edges ps"
  using project_graph.CreateProjectDependencyGraph_total [OF assms]
    project_graph.CreateProjectDependencyGraph_Ok by blast

theorem dependency_graph_total_witness:
  "\<exists>g. CreateProjectDependencyGraph (lg_ops Name)
          (copyProjects [rawProject\<lparr>Name_y := ''net''\<rparr>,
             rawProject\<lparr>Name_y := ''app'', DependencyProjects_y := [''net'']\<rparr>]) = Ok g \<and>
       lg_edge_set g = {(''net'', ''app'')}"
proof -
  let ?ps = "copyProjects [rawProject\<lparr>Name_y := ''net''\<rparr>,
               rawProject\<lparr>Name_y := ''app'', DependencyProjects_y := [''net'']\<rparr>]"
  have e: "dep_edges ?ps = {(''net'', ''app'')}"
    by (simp add: copyProjects_def dep_edges_Cons copyProject_def Let_def rawProject_def)
  have a: "acyclic {(''net'', ''app'')}"
    by (simp add: acyclic_insert)
  have "\<exists>g. CreateProjectDependencyGraph (lg_ops Name) ?ps = Ok g \<and> lg_edge_set g = dep_edges ?ps"
    by (rule dependency_graph_total)
      (simp_all add: e a, simp_all add: copyProjects_def copyProject_def Let_def rawProject_def)
  with e show ?thesis by simp
qed

text \<open>In a configuration that was converted and then passed
  \<open>ValidateDiggerConfig\<close>, every project names at most one IaC tool, a Pulumi project has a
  stack, its workflow exists with a plan and an apply stage whose steps all have an action,
  and its apply requirements are distinct known ones.\<close>

theorem validated_config_usable:
  assumes "ConvertDiggerYamlToConfig lib y = Ok (c, g)" and "ValidateDiggerConfig c = Ok ()"
    and "p \<in> set (Projects c)"
  shows "one_iac p \<and> (Pulumi p \<longrightarrow> PulumiStack p \<noteq> [] \<and> Workspace p = PulumiStack p) \<and>
         (\<exists>w. map_of (Workflows c) (Workflow p) = Some w \<and> stage_ok (Plan w) \<and> stage_ok (Apply w) \<and>
              Configuration w \<noteq> None) \<and>
         distinct (ApplyRequirements p) \<and>
         set (ApplyRequirements p) \<subseteq> {''approved'', ''mergeable'', ''undiverged''}"
proof -
  note parts = Convert_Ok_parts [OF assms(1)]
  from parts assms(3) have ws: "Workspace p = PulumiStack p"
    by (auto simp: copyProjects_def copyProject_def Let_def)
  from ValidateDiggerConfig_Ok [OF assms(2)] assms(3) obtain w
    where v: "one_iac p" "Pulumi p \<longrightarrow> PulumiStack p \<noteq> []" "stage_ok (Plan w)" "stage_ok (Apply w)"
      "distinct (ApplyRequirements p)"
      "set (ApplyRequirements p) \<subseteq> {''approved'', ''mergeable'', ''undiverged''}"
      and w: "map_of (Workflows c) (Workflow p) = Some w" by blast
  from convert_workflows_Ok [of "Workflows_y y" "Workflows c"] parts map_of_SomeD [OF w]
  have "Configuration w \<noteq> None" by auto
  with v ws w show ?thesis by auto
qed

theorem validated_config_usable_witness:
  "\<exists>c g. ConvertDiggerYamlToConfig (lg_ops Name) two_projects_yaml = Ok (c, g) \<and>
     (\<exists>p \<in> set (Projects c). one_iac p \<and> distinct (ApplyRequirements p))"
proof -
  obtain c g where ok: "ConvertDiggerYamlToConfig (lg_ops Name) two_projects_yaml = Ok (c, g)"
    and v: "ValidateDiggerConfig c = Ok ()" and n: "map Name (Projects c) = [''net'', ''app'']"
    by (rule two_projects_result_Ok)
  from n have "hd (Projects c) \<in> set (Projects c)" by (cases "Projects c") auto
  with validated_config_usable [OF ok v this] ok show ?thesis by blast
qed

text \<open>Copying a workflow panics exactly when the decoded document set its plan
  stage, its apply stage or its workflow configuration to null; the defaults set before
  decoding never do.\<close>

theorem copyWorkflow_panics_iff:
  "(\<exists>m. copyWorkflow w = Panic m) \<longleftrightarrow>
   (\<exists>y. w = Some y \<and> (Plan_y y = None \<or> Apply_y y = None \<or> Configuration_y y = None))"
  by (cases w)
    (auto simp: copyWorkflow_def copyStage_def copyWorkflowConfiguration_def split: option.splits)

end
