(* ===== verification/SchedulerModels.thy ===== *)
theory SchedulerModels
  imports ConfigTypes
begin

text \<open>
  The data of \<open>libs/scheduler\<close>: commands, job and batch statuses with the strings the
  code shows for them, jobs, their JSON form, and the conversions between projects, jobs and
  JSON.  Statuses are \<open>int8\<close> in the code; a value outside the named constants is the
  constructor \<open>OtherStatus\<close>, which takes the default branch of every switch.
\<close>

section \<open>Commands (\<open>utils.go\<close>)\<close>

datatype digger_command =
  CmdNoop | CmdPlan | CmdApply | CmdLock | CmdUnlock | CmdOther string

text \<open>The map literal \<open>supportedCommands\<close>; ranging over it visits the entries in an order
  Go leaves open, so the functions take the list of entries in that order.\<close>

definition supportedCommands :: "(string \<times> digger_command) list" where
  "supportedCommands =
     [(''digger noop'', CmdNoop), (''digger plan'', CmdPlan), (''digger apply'', CmdApply),
      (''digger unlock'', CmdUnlock), (''digger lock'', CmdLock)]"

definition GetCommandFromComment ::
  "(string \<times> digger_command) list \<Rightarrow> string \<Rightarrow> error + digger_command" where
  "GetCommandFromComment order comment =
     (let diggerCommand = trim_space (to_lower comment)
      in case find (\<lambda>(command, _). has_prefix diggerCommand command) order of
           Some (_, v) \<Rightarrow> Inr v
         | None \<Rightarrow> Inl (''Unrecognised command: '' @ comment))"

text \<open>\<open>GetCommandFromJob\<close> on the job's command list.\<close>

definition GetCommandFromJob ::
  "(string \<times> digger_command) list \<Rightarrow> string list \<Rightarrow> error + digger_command" where
  "GetCommandFromJob order cmds =
     (if cmds = [] then Inr CmdNoop
      else case find (\<lambda>(command, _). \<exists>c \<in> set cmds. has_prefix c command) order of
             Some (_, v) \<Rightarrow> Inr v
           | None \<Rightarrow> Inl (''could not figure out command: '' @ fmt_list cmds))"

section \<open>Statuses (\<open>models.go\<close>)\<close>

datatype batch_status =
  BatchJobCreated | BatchJobStarted | BatchJobFailed | BatchJobSucceeded | BatchJobInvalidated
| OtherBatchStatus int

datatype job_status =
  DiggerJobCreated | DiggerJobTriggered | DiggerJobFailed | DiggerJobStarted
| DiggerJobSucceeded | DiggerJobQueuedForRun | OtherStatus int

fun job_status_ToString :: "job_status \<Rightarrow> string" where
  "job_status_ToString DiggerJobSucceeded = ''succeeded''"
| "job_status_ToString DiggerJobStarted = ''running''"
| "job_status_ToString DiggerJobFailed = ''failed''"
| "job_status_ToString DiggerJobTriggered = ''running''"
| "job_status_ToString DiggerJobCreated = ''created''"
| "job_status_ToString DiggerJobQueuedForRun = ''created''"
| "job_status_ToString (OtherStatus _) = ''unknown status''"

fun job_status_ToEmoji :: "job_status \<Rightarrow> string" where
  "job_status_ToEmoji DiggerJobSucceeded = '':white_check_mark:''"
| "job_status_ToEmoji DiggerJobStarted = '':arrows_counterclockwise:''"
| "job_status_ToEmoji DiggerJobFailed = '':x:''"
| "job_status_ToEmoji DiggerJobTriggered = '':arrows_counterclockwise:''"
| "job_status_ToEmoji DiggerJobCreated = '':clock11:''"
| "job_status_ToEmoji DiggerJobQueuedForRun = '':clock11:''"
| "job_status_ToEmoji (OtherStatus _) = '':question:''"

fun ToCommitStatusCheck :: "batch_status \<Rightarrow> string" where
  "ToCommitStatusCheck BatchJobCreated = ''pending''"
| "ToCommitStatusCheck BatchJobInvalidated = ''failure''"
| "ToCommitStatusCheck BatchJobFailed = ''success''"
| "ToCommitStatusCheck BatchJobSucceeded = ''success''"
| "ToCommitStatusCheck _ = ''pending''"

fun ToCheckRunStatus :: "batch_status \<Rightarrow> string" where
  "ToCheckRunStatus BatchJobCreated = ''in_progress''"
| "ToCheckRunStatus BatchJobInvalidated = ''completed''"
| "ToCheckRunStatus BatchJobFailed = ''completed''"
| "ToCheckRunStatus BatchJobSucceeded = ''completed''"
| "ToCheckRunStatus _ = ''in_progress''"

fun ToCheckRunConclusion :: "batch_status \<Rightarrow> string option" where
  "ToCheckRunConclusion BatchJobCreated = None"
| "ToCheckRunConclusion BatchJobInvalidated = Some ''cancelled''"
| "ToCheckRunConclusion BatchJobFailed = Some ''failure''"
| "ToCheckRunConclusion BatchJobSucceeded = Some ''success''"
| "ToCheckRunConclusion _ = None"

section \<open>Jobs (\<open>jobs.go\<close>, \<open>json_models.go\<close>)\<close>

record step =
  st_Action :: string
  st_Value :: string
  st_ExtraArgs :: "string list"
  st_Shell :: string

record stage =
  sg_FilterRegex :: "string option"
  sg_Steps :: "step list"

text \<open>\<open>'p\<close> is the AWS SDK's credentials provider.\<close>

record 'p job =
  j_ProjectName :: string
  j_ProjectAlias :: string
  j_ProjectDir :: string
  j_ProjectWorkspace :: string
  j_ProjectWorkflow :: string
  j_Layer :: nat
  j_Terragrunt :: bool
  j_OpenTofu :: bool
  j_Pulumi :: bool
  j_Commands :: "string list"
  j_ApplyStage :: "stage option"
  j_PlanStage :: "stage option"
  j_PullRequestNumber :: "int option"
  j_EventName :: string
  j_RequestedBy :: string
  j_Namespace :: string
  j_RunEnvVars :: "(string \<times> string) list"
  j_StateEnvVars :: "(string \<times> string) list"
  j_CommandEnvVars :: "(string \<times> string) list"
  j_StateEnvProvider :: "'p option"
  j_StateRoleArn :: string
  j_CommandEnvProvider :: "'p option"
  j_CommandRoleArn :: string
  j_CognitoOidcConfig :: "cognito_config option"
  j_SkipMergeCheck :: bool

text \<open>\<open>StageJson\<close> and \<open>StepJson\<close> have the fields of \<open>Stage\<close> and \<open>Step\<close>, so the JSON
  form of a stage is a stage that is always present.\<close>

record job_json =
  jj_JobType :: string
  jj_ProjectName :: string
  jj_ProjectAlias :: string
  jj_ProjectDir :: string
  jj_ProjectWorkspace :: string
  jj_Terragrunt :: bool
  jj_OpenTofu :: bool
  jj_Pulumi :: bool
  jj_Commands :: "string list"
  jj_ApplyStage :: stage
  jj_PlanStage :: stage
  jj_PullRequestNumber :: "int option"
  jj_Commit :: string
  jj_Branch :: string
  jj_EventName :: string
  jj_RequestedBy :: string
  jj_Namespace :: string
  jj_RunEnvVars :: "(string \<times> string) list"
  jj_StateEnvVars :: "(string \<times> string) list"
  jj_CommandEnvVars :: "(string \<times> string) list"
  jj_AwsRoleRegion :: string
  jj_StateRoleName :: string
  jj_CommandRoleName :: string
  jj_BackendHostname :: string
  jj_BackendOrganisationName :: string
  jj_BackendJobToken :: string
  jj_SkipMergeCheck :: bool
  jj_CommandRoleArn :: string
  jj_StateRoleArn :: string
  jj_CognitoOidcConfig :: "cognito_config option"

definition ToConfigStep :: "config_step \<Rightarrow> step" where
  "ToConfigStep s =
     \<lparr>st_Action = cs_Action s, st_Value = cs_Value s, st_ExtraArgs = cs_ExtraArgs s,
      st_Shell = cs_Shell s\<rparr>"

definition ToConfigStage :: "config_stage option \<Rightarrow> stage option" where
  "ToConfigStage st =
     map_option (\<lambda>s. \<lparr>sg_FilterRegex = cst_FilterRegex s,
                      sg_Steps = map ToConfigStep (cst_Steps s)\<rparr>) st"

definition job_GetProjectAlias :: "'p job \<Rightarrow> string" where
  "job_GetProjectAlias j = (if j_ProjectAlias j \<noteq> [] then j_ProjectAlias j else j_ProjectName j)"

definition JobForProjectName :: "'p job list \<Rightarrow> string \<Rightarrow> error + 'p job" where
  "JobForProjectName jobs projectName =
     (let filtered = filter (\<lambda>j. j_ProjectName j = projectName) jobs
      in case filtered of
           [] \<Rightarrow> Inl (''job not found for project name '' @ projectName)
         | [j] \<Rightarrow> Inr j
         | _ \<Rightarrow> Inl (''more than one job found for project name, duplicate? '' @ projectName))"

definition job_IsPlan :: "'p job \<Rightarrow> bool" where
  "job_IsPlan j = List.member (j_Commands j) ''digger plan''"

definition job_IsApply :: "'p job \<Rightarrow> bool" where
  "job_IsApply j = List.member (j_Commands j) ''digger apply''"

definition json_IsPlan :: "job_json \<Rightarrow> bool" where
  "json_IsPlan j = List.member (jj_Commands j) ''digger plan''"

definition json_IsApply :: "job_json \<Rightarrow> bool" where
  "json_IsApply j = List.member (jj_Commands j) ''digger apply''"

definition IsPlanJobs :: "'p job list \<Rightarrow> bool" where
  "IsPlanJobs jobs = foldl (\<lambda>b j. b \<and> job_IsPlan j) True jobs"

definition IsPlanJobSpecs :: "job_json list \<Rightarrow> bool" where
  "IsPlanJobSpecs jobs = foldl (\<lambda>b j. b \<and> json_IsPlan j) True jobs"

definition IsApplyJobSpecs :: "job_json list \<Rightarrow> bool" where
  "IsApplyJobSpecs jobs = foldl (\<lambda>b j. b \<and> json_IsApply j) True jobs"

text \<open>\<open>lo.Uniq\<close> keeps the first occurrence of each value.\<close>

definition CountUniqueLayers :: "'p job list \<Rightarrow> nat \<times> nat list" where
  "CountUniqueLayers jobs =
     (let uniq = rev (remdups (rev (map j_Layer jobs))) in (length uniq, uniq))"

definition stageToJson :: "stage option \<Rightarrow> stage" where
  "stageToJson s =
     (case s of
        None \<Rightarrow> \<lparr>sg_FilterRegex = None, sg_Steps = []\<rparr>
      | Some s \<Rightarrow> \<lparr>sg_FilterRegex = sg_FilterRegex s, sg_Steps = sg_Steps s\<rparr>)"

definition jsonToStage :: "stage \<Rightarrow> stage option" where
  "jsonToStage s =
     (if length (sg_Steps s) = 0 then None
      else Some \<lparr>sg_FilterRegex = sg_FilterRegex s, sg_Steps = sg_Steps s\<rparr>)"

definition JobToJson ::
  "'p job \<Rightarrow> string \<Rightarrow> string \<Rightarrow> string \<Rightarrow> string \<Rightarrow> string \<Rightarrow> string \<Rightarrow> project \<Rightarrow> job_json" where
  "JobToJson j jobType organisationName branch commitSha jobToken backendHostname project =
     (let region = (case AwsRoleToAssume project of None \<Rightarrow> [] | Some r \<Rightarrow> AwsRoleRegion r);
          stateRole = (case AwsRoleToAssume project of None \<Rightarrow> [] | Some r \<Rightarrow> StateRole r);
          commandRole = (case AwsRoleToAssume project of None \<Rightarrow> [] | Some r \<Rightarrow> CommandRole r)
      in \<lparr>jj_JobType = jobType,
          jj_ProjectName = j_ProjectName j,
          jj_ProjectAlias = j_ProjectAlias j,
          jj_ProjectDir = j_ProjectDir j,
          jj_ProjectWorkspace = j_ProjectWorkspace j,
          jj_Terragrunt = j_Terragrunt j,
          jj_OpenTofu = j_OpenTofu j,
          jj_Pulumi = j_Pulumi j,
          jj_Commands = j_Commands j,
          jj_ApplyStage = stageToJson (j_ApplyStage j),
          jj_PlanStage = stageToJson (j_PlanStage j),
          jj_PullRequestNumber = j_PullRequestNumber j,
          jj_Commit = commitSha,
          jj_Branch = branch,
          jj_EventName = j_EventName j,
          jj_RequestedBy = j_RequestedBy j,
          jj_Namespace = j_Namespace j,
          jj_RunEnvVars = j_RunEnvVars j,
          jj_StateEnvVars = j_StateEnvVars j,
          jj_CommandEnvVars = j_CommandEnvVars j,
          jj_AwsRoleRegion = region,
          jj_StateRoleName = stateRole,
          jj_CommandRoleName = commandRole,
          jj_BackendHostname = backendHostname,
          jj_BackendOrganisationName = organisationName,
          jj_BackendJobToken = jobToken,
          jj_SkipMergeCheck = j_SkipMergeCheck j,
          jj_CommandRoleArn = j_CommandRoleArn j,
          jj_StateRoleArn = j_StateRoleArn j,
          jj_CognitoOidcConfig = j_CognitoOidcConfig j\<rparr>)"

text \<open>\<open>GetProviderFromRole\<close> (\<open>aws.go\<close>) makes no provider for an empty role; for another
  role the SDK makes one (\<open>mk\<close>), or fails, and then there is none either.\<close>

definition GetProviderFromRole ::
  "(string \<Rightarrow> string \<Rightarrow> 'p option) \<Rightarrow> string \<Rightarrow> string \<Rightarrow> 'p option" where
  "GetProviderFromRole mk role region = (if role = [] then None else mk role region)"

definition GetStateAndCommandProviders ::
  "(string \<Rightarrow> string \<Rightarrow> 'p option) \<Rightarrow> project \<Rightarrow> 'p option \<times> 'p option" where
  "GetStateAndCommandProviders mk project =
     (case AwsRoleToAssume project of
        None \<Rightarrow> (None, None)
      | Some r \<Rightarrow>
          ((if StateRole r \<noteq> [] then GetProviderFromRole mk (StateRole r) (AwsRoleRegion r)
            else None),
           (if CommandRole r \<noteq> [] then GetProviderFromRole mk (CommandRole r) (AwsRoleRegion r)
            else None)))"

definition JsonToJob :: "(string \<Rightarrow> string \<Rightarrow> 'p option) \<Rightarrow> job_json \<Rightarrow> 'p job" where
  "JsonToJob mk j =
     \<lparr>j_ProjectName = jj_ProjectName j,
      j_ProjectAlias = jj_ProjectAlias j,
      j_ProjectDir = jj_ProjectDir j,
      j_ProjectWorkspace = jj_ProjectWorkspace j,
      j_ProjectWorkflow = [],
      j_Layer = 0,
      j_Terragrunt = jj_Terragrunt j,
      j_OpenTofu = jj_OpenTofu j,
      j_Pulumi = jj_Pulumi j,
      j_Commands = jj_Commands j,
      j_ApplyStage = jsonToStage (jj_ApplyStage j),
      j_PlanStage = jsonToStage (jj_PlanStage j),
      j_PullRequestNumber = jj_PullRequestNumber j,
      j_EventName = jj_EventName j,
      j_RequestedBy = jj_RequestedBy j,
      j_Namespace = jj_Namespace j,
      j_RunEnvVars = jj_RunEnvVars j,
      j_StateEnvVars = jj_StateEnvVars j,
      j_CommandEnvVars = jj_CommandEnvVars j,
      j_StateEnvProvider = GetProviderFromRole mk (jj_StateRoleName j) (jj_AwsRoleRegion j),
      j_StateRoleArn = jj_StateRoleArn j,
      j_CommandEnvProvider = GetProviderFromRole mk (jj_CommandRoleName j) (jj_AwsRoleRegion j),
      j_CommandRoleArn = jj_CommandRoleArn j,
      j_CognitoOidcConfig = jj_CognitoOidcConfig j,
      j_SkipMergeCheck = jj_SkipMergeCheck j\<rparr>"

end
