(* ===== verification/SchedulerOps.thy ===== *)
theory SchedulerOps
  imports SchedulerModels ConfigProps
begin

text \<open>
  Operations on jobs: serialized jobs and batches (\<open>models.go\<close>, \<open>serializers.go\<close>), the
  conversion of impacted projects to jobs (\<open>convert.go\<close>), the statuses reported for a job
  (\<open>backend/models/scheduler.go\<close>), and the apply requirements
  (\<open>libs/apply_requirements\<close>), with what they guarantee.
\<close>

section \<open>Serialized jobs and batches\<close>

record serialized_job =
  sj_DiggerJobId :: string
  sj_Status :: job_status
  sj_ProjectName :: string
  sj_ProjectAlias :: string
  sj_JobString :: string
  sj_PlanFootprint :: string
  sj_PRCommentUrl :: string
  sj_WorkflowRunUrl :: "string option"
  sj_ResourcesCreated :: nat
  sj_ResourcesDeleted :: nat
  sj_ResourcesUpdated :: nat

record serialized_batch =
  sb_ID :: string
  sb_PrNumber :: int
  sb_Status :: batch_status
  sb_BranchName :: string
  sb_RepoFullName :: string
  sb_RepoOwner :: string
  sb_RepoName :: string
  sb_BatchType :: digger_command
  sb_Jobs :: "serialized_job list"

text \<open>\<open>unmarshal\<close> is \<open>json.Unmarshal\<close> into a \<open>JobJson\<close>.\<close>

fun GetJobSpecs ::
  "(string \<Rightarrow> error + job_json) \<Rightarrow> serialized_job list \<Rightarrow> error + job_json list" where
  "GetJobSpecs unmarshal [] = Inr []"
| "GetJobSpecs unmarshal (j # js) =
     (case unmarshal (sj_JobString j) of
        Inl e \<Rightarrow> Inl e
      | Inr spec \<Rightarrow>
          (case GetJobSpecs unmarshal js of Inl e \<Rightarrow> Inl e | Inr specs \<Rightarrow> Inr (spec # specs)))"

definition batch_IsPlan :: "(string \<Rightarrow> error + job_json) \<Rightarrow> serialized_batch \<Rightarrow> error + bool" where
  "batch_IsPlan unmarshal b =
     (case GetJobSpecs unmarshal (sb_Jobs b) of
        Inl e \<Rightarrow> Inl (''error while fetching job specs: '' @ e)
      | Inr specs \<Rightarrow> Inr (IsPlanJobSpecs specs))"

text \<open>\<open>IsApply\<close> of the code calls \<open>IsPlanJobSpecs\<close> as well.\<close>

definition batch_IsApply :: "(string \<Rightarrow> error + job_json) \<Rightarrow> serialized_batch \<Rightarrow> error + bool" where
  "batch_IsApply unmarshal b =
     (case GetJobSpecs unmarshal (sb_Jobs b) of
        Inl e \<Rightarrow> Inl (''error while fetching job specs: '' @ e)
      | Inr specs \<Rightarrow> Inr (IsPlanJobSpecs specs))"

definition ResourcesSummaryString :: "serialized_job \<Rightarrow> bool \<Rightarrow> string" where
  "ResourcesSummaryString s isPlan =
     (if \<not> isPlan then []
      else if sj_Status s = DiggerJobSucceeded
      then '' [Resources: '' @ itoa (int (sj_ResourcesCreated s)) @ '' to create, '' @
           itoa (int (sj_ResourcesUpdated s)) @ '' to update, '' @
           itoa (int (sj_ResourcesDeleted s)) @ '' to delete]''
      else ''...'')"

definition GetProjectAlias :: "serialized_job \<Rightarrow> string" where
  "GetProjectAlias j = (if sj_ProjectAlias j \<noteq> [] then sj_ProjectAlias j else sj_ProjectName j)"

definition JobsToProjectMap :: "serialized_job list \<Rightarrow> (string \<times> serialized_job) list" where
  "JobsToProjectMap jobs = foldl (\<lambda>m j. AList.update (sj_ProjectName j) j m) [] jobs"

definition JobsSpecsToProjectMap :: "job_json list \<Rightarrow> (string \<times> job_json) list" where
  "JobsSpecsToProjectMap specs = foldl (\<lambda>m j. AList.update (jj_ProjectName j) j m) [] specs"

section \<open>Statuses of a job on GitHub (\<open>backend/models/scheduler.go\<close>)\<close>

definition unknown_job_status :: "error + string" where
  "unknown_job_status = Inl ''unknown job status''"

fun GetCommitStatusForJob :: "job_status \<Rightarrow> error + string" where
  "GetCommitStatusForJob DiggerJobStarted = Inr ''pending''"
| "GetCommitStatusForJob DiggerJobTriggered = Inr ''pending''"
| "GetCommitStatusForJob DiggerJobCreated = Inr ''pending''"
| "GetCommitStatusForJob DiggerJobSucceeded = Inr ''success''"
| "GetCommitStatusForJob DiggerJobFailed = Inr ''failed''"
| "GetCommitStatusForJob _ = unknown_job_status"

fun GetCheckRunStatusForJob :: "job_status \<Rightarrow> error + string" where
  "GetCheckRunStatusForJob DiggerJobStarted = Inr ''in_progress''"
| "GetCheckRunStatusForJob DiggerJobTriggered = Inr ''in_progress''"
| "GetCheckRunStatusForJob DiggerJobCreated = Inr ''in_progress''"
| "GetCheckRunStatusForJob DiggerJobSucceeded = Inr ''completed''"
| "GetCheckRunStatusForJob DiggerJobFailed = Inr ''completed''"
| "GetCheckRunStatusForJob _ = unknown_job_status"

fun GetCheckRunConclusionForJob :: "job_status \<Rightarrow> error + string" where
  "GetCheckRunConclusionForJob DiggerJobStarted = Inr []"
| "GetCheckRunConclusionForJob DiggerJobTriggered = Inr []"
| "GetCheckRunConclusionForJob DiggerJobCreated = Inr []"
| "GetCheckRunConclusionForJob DiggerJobSucceeded = Inr ''success''"
| "GetCheckRunConclusionForJob DiggerJobFailed = Inr ''failure''"
| "GetCheckRunConclusionForJob _ = unknown_job_status"

section \<open>Environment variables (\<open>CollectTerraformEnvConfig\<close>)\<close>

definition collect_env ::
  "(string \<Rightarrow> string) \<Rightarrow> bool \<Rightarrow> (string \<times> string) list \<Rightarrow> env_var list \<Rightarrow> (string \<times> string) list" where
  "collect_env getenv performInterpolation m vars =
     foldl (\<lambda>m v.
       if ev_Value v \<noteq> [] then AList.update (ev_Name v) (ev_Value v) m
       else if ev_ValueFrom v \<noteq> [] then
         (if performInterpolation then AList.update (ev_Name v) (getenv (ev_ValueFrom v)) m
          else AList.update (ev_Name v) (''$DIGGER_'' @ ev_ValueFrom v) m)
       else m) m vars"

definition CollectTerraformEnvConfig ::
  "(string \<Rightarrow> string) \<Rightarrow> env_config option \<Rightarrow> bool \<Rightarrow>
   (string \<times> string) list \<times> (string \<times> string) list" where
  "CollectTerraformEnvConfig getenv envs performInterpolation =
     (case envs of
        None \<Rightarrow> ([], [])
      | Some e \<Rightarrow> (collect_env getenv performInterpolation [] (State e),
                   collect_env getenv performInterpolation [] (Commands e)))"

section \<open>\<open>ConvertProjectsToJobs\<close>\<close>

definition project_job ::
  "(string \<Rightarrow> string) \<Rightarrow> (string \<Rightarrow> string \<Rightarrow> 'p option) \<Rightarrow> string \<Rightarrow> string \<Rightarrow> string \<Rightarrow> int \<Rightarrow>
   workflow \<Rightarrow> project \<Rightarrow> 'p job" where
  "project_job getenv mk actor repoNamespace command prNumber w p =
     (let envs = CollectTerraformEnvConfig getenv (EnvVars w) False;
          provs = GetStateAndCommandProviders mk p;
          stateRole = (case AwsRoleToAssume p of None \<Rightarrow> [] | Some r \<Rightarrow> StateRole r);
          cmdRole = (case AwsRoleToAssume p of None \<Rightarrow> [] | Some r \<Rightarrow> CommandRole r)
      in \<lparr>j_ProjectName = Name p,
          j_ProjectAlias = [],
          j_ProjectDir = Dir p,
          j_ProjectWorkspace = Workspace p,
          j_ProjectWorkflow = [],
          j_Layer = 0,
          j_Terragrunt = Terragrunt p,
          j_OpenTofu = OpenTofu p,
          j_Pulumi = Pulumi p,
          j_Commands = [command],
          j_ApplyStage = ToConfigStage (Apply w),
          j_PlanStage = ToConfigStage (Plan w),
          j_PullRequestNumber = Some prNumber,
          j_EventName = ''manual_run'',
          j_RequestedBy = actor,
          j_Namespace = repoNamespace,
          j_RunEnvVars = [],
          j_StateEnvVars = fst envs,
          j_CommandEnvVars = snd envs,
          j_StateEnvProvider = fst provs,
          j_StateRoleArn = stateRole,
          j_CommandEnvProvider = snd provs,
          j_CommandRoleArn = cmdRole,
          j_CognitoOidcConfig = AwsCognitoOidcConfig p,
          j_SkipMergeCheck =
            (case Configuration w of None \<Rightarrow> False | Some c \<Rightarrow> SkipMergeCheck c)\<rparr>)"

fun ConvertProjectsToJobs ::
  "(string \<Rightarrow> string) \<Rightarrow> (string \<Rightarrow> string \<Rightarrow> 'p option) \<Rightarrow> string \<Rightarrow> string \<Rightarrow> string \<Rightarrow> int \<Rightarrow>
   project list \<Rightarrow> (string \<times> workflow) list \<Rightarrow> error + 'p job list" where
  "ConvertProjectsToJobs getenv mk actor ns command prNumber [] workflows = Inr []"
| "ConvertProjectsToJobs getenv mk actor ns command prNumber (p # ps) workflows =
     (case map_of workflows (Workflow p) of
        None \<Rightarrow> Inl (''failed to find workflow digger_config '' @ quoted (Workflow p) @
                    '' for project '' @ quoted (Name p))
      | Some w \<Rightarrow>
          (case ConvertProjectsToJobs getenv mk actor ns command prNumber ps workflows of
             Inl e \<Rightarrow> Inl e
           | Inr jobs \<Rightarrow> Inr (project_job getenv mk actor ns command prNumber w p # jobs)))"

section \<open>Apply requirements\<close>

definition IgnoreMergeabilityForProject :: "project \<Rightarrow> 'p job list \<Rightarrow> bool" where
  "IgnoreMergeabilityForProject p jobs =
     (case JobForProjectName jobs (Name p) of Inl _ \<Rightarrow> False | Inr j \<Rightarrow> j_SkipMergeCheck j)"

definition requirement_error ::
  "'p job list \<Rightarrow> bool \<Rightarrow> bool \<Rightarrow> bool \<Rightarrow> project \<Rightarrow> string \<Rightarrow> unit res" where
  "requirement_error jobs isMergeable isApproved isDiverged p req =
     (let ignoreMergeability = IgnoreMergeabilityForProject p jobs in
      if req = ''approved'' \<and> \<not> isApproved
      then Err (''PR fails apply requirements for project '' @ Name p @
                '', Expected PR to be approved, a minimum of one approval is required before proceeding'')
      else if req = ''undiverged'' \<and> isDiverged
      then Err (''PR fails apply requirements for project '' @ Name p @
                '', Expected PR to be undiverged from target branch. Merge main into the PR branch or rebase the PR branch on top of main'')
      else if req = ''mergeable'' \<and> \<not> isMergeable \<and> \<not> ignoreMergeability
      then Err (''PR fails apply requirements for project '' @ Name p @
                '', Expected PR to be mergable. Ensure all status checks are successful in order to proceed'')
      else Ok ())"

text \<open>The three answers of the pull-request service are parameters: whether the request is
  mergeable, its approvals, and whether it has diverged.\<close>

definition CheckApplyRequirements ::
  "(error + bool) \<Rightarrow> (error + string list) \<Rightarrow> (error + bool) \<Rightarrow> project list \<Rightarrow> 'p job list \<Rightarrow>
   unit res" where
  "CheckApplyRequirements mergeable approvals diverged impacted jobs =
     (case mergeable of
        Inl _ \<Rightarrow> Err ''error checking if PR is mergeable''
      | Inr isMergeable \<Rightarrow>
     (case approvals of
        Inl _ \<Rightarrow> Err ''error getting approvals''
      | Inr approvals \<Rightarrow>
     (case diverged of
        Inl _ \<Rightarrow> Err ''error checking if PR is diverged''
      | Inr isDiverged \<Rightarrow>
          res_all (\<lambda>p.
            res_all (requirement_error jobs isMergeable (length approvals > 0) isDiverged p)
              (ApplyRequirements p)) impacted)))"

end
