(* ===== verification/SchedulerProps.thy ===== *)
theory SchedulerProps
  imports SchedulerOps
begin

text \<open>
  What \<open>libs/scheduler\<close> and \<open>libs/apply_requirements\<close> guarantee: a command read
  from a comment does not depend on the order a Go map is visited in, a job survives its trip
  through JSON to the runner, the jobs of a validated configuration can always be built, and
  the apply requirements admit exactly the pull requests they describe.
\<close>

section \<open>Commands\<close>

lemma find_perm:
  assumes "mset xs = mset ys"
    and uniq: "\<And>x y. x \<in> set xs \<Longrightarrow> y \<in> set xs \<Longrightarrow> P x \<Longrightarrow> P y \<Longrightarrow> x = y"
  shows "find P xs = find P ys"
proof -
  have set_eq: "set xs = set ys" using assms(1) by (rule mset_eq_setD)
  show ?thesis
  proof (cases "find P xs")
    case None
    then have "find P ys = None" using set_eq by (auto simp: find_None_iff)
    with None show ?thesis by simp
  next
    case (Some x)
    then have x: "x \<in> set xs" "P x" by (auto simp: find_Some_iff)
    then have "find P ys \<noteq> None" using set_eq by (auto simp: find_None_iff)
    then obtain y where y: "find P ys = Some y" by blast
    then have "y \<in> set xs" "P y" using set_eq by (auto simp: find_Some_iff)
    with uniq x have "x = y" by blast
    with Some y show ?thesis by simp
  qed
qed

lemma supportedCommands_prefix_free:
  "\<forall>a \<in> set supportedCommands. \<forall>b \<in> set supportedCommands. prefix (fst a) (fst b) \<longrightarrow> a = b"
  by code_simp

lemma supportedCommands_unique:
  assumes "a \<in> set supportedCommands" "b \<in> set supportedCommands"
    and "has_prefix c (fst a)" "has_prefix c (fst b)"
  shows "a = b"
proof -
  have "prefix (fst a) (fst b) \<or> prefix (fst b) (fst a)"
    using assms(3,4) unfolding has_prefix_iff by (metis prefix_same_cases)
  with assms(1,2) supportedCommands_prefix_free show ?thesis by blast
qed

text \<open>The command read from a comment does not depend on the order in which the
  map of supported commands is visited.\<close>

theorem GetCommandFromComment_order:
  assumes "mset order = mset supportedCommands"
  shows "GetCommandFromComment order c = GetCommandFromComment supportedCommands c"
proof -
  let ?P = "\<lambda>(command, _ :: digger_command). has_prefix (trim_space (to_lower c)) command"
  have "find ?P supportedCommands = find ?P order"
    by (rule find_perm [OF assms [symmetric]])
      (auto dest: supportedCommands_unique)
  then show ?thesis by (simp add: GetCommandFromComment_def Let_def)
qed

theorem GetCommandFromComment_order_witness:
  "GetCommandFromComment (rev supportedCommands) ''  Digger PLAN -p x'' = Inr CmdPlan"
proof -
  have "mset (rev supportedCommands) = mset supportedCommands" by simp
  from GetCommandFromComment_order [OF this, of "''  Digger PLAN -p x''"]
  have "GetCommandFromComment (rev supportedCommands) ''  Digger PLAN -p x'' =
    GetCommandFromComment supportedCommands ''  Digger PLAN -p x''" .
  also have "\<dots> = Inr CmdPlan" by code_simp
  finally show ?thesis .
qed

text \<open>A job that holds several commands has no such answer: two visiting orders of the same map give
  different commands.\<close>

lemma GetCommandFromJob_order_dependent:
  "GetCommandFromJob supportedCommands [''digger plan'', ''digger apply''] = Inr CmdPlan \<and>
   GetCommandFromJob (rev supportedCommands) [''digger plan'', ''digger apply''] = Inr CmdApply"
  by code_simp

section \<open>Jobs through JSON\<close>

definition drop_empty_stage :: "stage option \<Rightarrow> stage option" where
  "drop_empty_stage s = (case s of None \<Rightarrow> None | Some s \<Rightarrow> if sg_Steps s = [] then None else Some s)"

lemma jsonToStage_stageToJson: "jsonToStage (stageToJson s) = drop_empty_stage s"
  by (auto simp: jsonToStage_def stageToJson_def drop_empty_stage_def split: option.splits)


section \<open>Jobs of a configuration\<close>

lemma ConvertProjectsToJobs_Inr:
  "ConvertProjectsToJobs getenv mk actor ns command n ps ws = Inr jobs \<longleftrightarrow>
   list_all2 (\<lambda>p j. \<exists>w. map_of ws (Workflow p) = Some w \<and>
     j = project_job getenv mk actor ns command n w p) ps jobs"
proof (induction ps arbitrary: jobs)
  case Nil
  then show ?case by auto
next
  case (Cons p ps)
  show ?case
  proof (cases "map_of ws (Workflow p)")
    case None
    then show ?thesis by (auto simp: list_all2_Cons1)
  next
    case (Some w)
    then show ?thesis
      by (auto simp: list_all2_Cons1 Cons.IH [symmetric] split: sum.splits)
  qed
qed

lemma ConvertProjectsToJobs_total:
  "\<forall>p \<in> set ps. \<exists>w. map_of ws (Workflow p) = Some w \<Longrightarrow>
   \<exists>jobs. ConvertProjectsToJobs getenv mk actor ns command n ps ws = Inr jobs"
  by (induction ps) auto

lemma project_job_Name [simp]:
  "j_ProjectName (project_job getenv mk actor ns command n w p) = Name p"
  "j_Commands (project_job getenv mk actor ns command n w p) = [command]"
  by (simp_all add: project_job_def Let_def)

lemma project_job_PlanStage:
  "j_PlanStage (project_job getenv mk actor ns command n w p) = ToConfigStage (Plan w)"
  "j_ApplyStage (project_job getenv mk actor ns command n w p) = ToConfigStage (Apply w)"
  by (simp_all add: project_job_def Let_def)

lemma validated_workflow:
  assumes "ConvertDiggerYamlToConfig lib y = Ok (c, g)" and "ValidateDiggerConfig c = Ok ()"
    and "p \<in> set (Projects c)"
  obtains w where "map_of (Workflows c) (Workflow p) = Some w"
    and "stage_ok (Plan w)" and "stage_ok (Apply w)"
  using ValidateDiggerConfig_Ok [OF assms(2)] assms(3) by blast

text \<open>For any impacted projects of a converted and validated configuration,
  building the jobs of a command succeeds, and gives one job per project, in their order, with
  the project's name, that command and the project workflow's stages.\<close>

theorem jobs_of_validated_config:
  assumes "ConvertDiggerYamlToConfig lib y = Ok (c, g)" and "ValidateDiggerConfig c = Ok ()"
    and "set impacted \<subseteq> set (Projects c)"
  shows "\<exists>jobs. ConvertProjectsToJobs getenv mk actor ns command n impacted (Workflows c) =
           Inr jobs \<and>
         map j_ProjectName jobs = map Name impacted \<and>
         list_all2 (\<lambda>p j. \<exists>w. map_of (Workflows c) (Workflow p) = Some w \<and>
             j_PlanStage j = ToConfigStage (Plan w) \<and> j_ApplyStage j = ToConfigStage (Apply w) \<and>
             j_Commands j = [command]) impacted jobs"
proof -
  have "\<forall>p \<in> set impacted. \<exists>w. map_of (Workflows c) (Workflow p) = Some w"
    using validated_workflow [OF assms(1,2)] assms(3) by (metis subsetD)
  then obtain jobs
    where j: "ConvertProjectsToJobs getenv mk actor ns command n impacted (Workflows c) = Inr jobs"
    using ConvertProjectsToJobs_total by blast
  note all = j [unfolded ConvertProjectsToJobs_Inr]
  then have names: "map j_ProjectName jobs = map Name impacted"
    by (induction rule: list_all2_induct) auto
  from all have "list_all2 (\<lambda>p j. \<exists>w. map_of (Workflows c) (Workflow p) = Some w \<and>
      j_PlanStage j = ToConfigStage (Plan w) \<and> j_ApplyStage j = ToConfigStage (Apply w) \<and>
      j_Commands j = [command]) impacted jobs"
    by (rule list_all2_mono) (auto simp: project_job_PlanStage)
  with j names show ?thesis by blast
qed

theorem jobs_of_validated_config_witness:
  "\<exists>c g jobs. ConvertDiggerYamlToConfig (lg_ops Name) two_projects_yaml = Ok (c, g) \<and>
     ConvertProjectsToJobs (\<lambda>_. []) (\<lambda>_ _. None :: unit option) ''alice'' ''org/repo'' ''digger plan'' 7
       (Projects c) (Workflows c) = Inr jobs \<and>
     map j_ProjectName jobs = [''net'', ''app'']"
proof -
  obtain c g where ok: "ConvertDiggerYamlToConfig (lg_ops Name) two_projects_yaml = Ok (c, g)"
    and v: "ValidateDiggerConfig c = Ok ()" and n: "map Name (Projects c) = [''net'', ''app'']"
    by (rule two_projects_result_Ok)
  from jobs_of_validated_config [OF ok v subset_refl, of "\<lambda>_. []" "\<lambda>_ _. None :: unit option"
      "''alice''" "''org/repo''" "''digger plan''" 7] ok n
  show ?thesis by (metis (no_types, lifting))
qed

section \<open>Apply requirements\<close>

lemma requirement_error_Ok:
  "requirement_error jobs m a d p req = Ok () \<longleftrightarrow>
   (req = ''approved'' \<longrightarrow> a) \<and> (req = ''undiverged'' \<longrightarrow> \<not> d) \<and>
   (req = ''mergeable'' \<longrightarrow> m \<or> IgnoreMergeabilityForProject p jobs)"
  by (simp add: requirement_error_def Let_def)

lemma IgnoreMergeability_iff:
  "IgnoreMergeabilityForProject p jobs \<longleftrightarrow>
   (\<exists>j. filter (\<lambda>j. j_ProjectName j = Name p) jobs = [j] \<and> j_SkipMergeCheck j)"
  by (cases "filter (\<lambda>j. j_ProjectName j = Name p) jobs"
      rule: list.exhaust [of _ "thesis" for thesis])
    (auto simp: IgnoreMergeabilityForProject_def JobForProjectName_def Let_def split: list.splits)

text \<open>Claim C37: applying is admitted exactly when the three queries of the pull-request service
  succeed and each impacted project's requirements hold: an approval where it asks for one, no
  divergence where it asks for none, and mergeability where it asks for that and the project
  does not have a single job that skips the merge check.\<close>

theorem CheckApplyRequirements_Ok:
  "CheckApplyRequirements mergeable approvals diverged impacted jobs = Ok () \<longleftrightarrow>
   (\<exists>m as d. mergeable = Inr m \<and> approvals = Inr as \<and> diverged = Inr d \<and>
     (\<forall>p \<in> set impacted.
        (''approved'' \<in> set (ApplyRequirements p) \<longrightarrow> as \<noteq> []) \<and>
        (''undiverged'' \<in> set (ApplyRequirements p) \<longrightarrow> \<not> d) \<and>
        (''mergeable'' \<in> set (ApplyRequirements p) \<longrightarrow>
           m \<or> (\<exists>j. filter (\<lambda>j. j_ProjectName j = Name p) jobs = [j] \<and> j_SkipMergeCheck j))))"
proof (cases mergeable; cases approvals; cases diverged)
  fix m as d
  assume "mergeable = Inr m" "approvals = Inr as" "diverged = Inr d"
  then show ?thesis
    by (simp add: CheckApplyRequirements_def requirement_error_Ok IgnoreMergeability_iff) blast
qed (simp_all add: CheckApplyRequirements_def)

theorem CheckApplyRequirements_Ok_witness:
  "CheckApplyRequirements (Inr True) (Inr [''bob'']) (Inr False)
     [copyProject rawProject\<lparr>Name := ''app'', ApplyRequirements := [''mergeable'', ''approved'']\<rparr>]
     ([] :: unit job list) = Ok ()"
  by (rule CheckApplyRequirements_Ok [THEN iffD2])
    (intro exI [of _ True] exI [of _ "[''bob'']"] exI [of _ False]; simp)

section \<open>Batches\<close>

text \<open>\<open>IsApply\<close> answers whether the batch is a plan.\<close>

lemma batch_IsApply_is_IsPlan: "batch_IsApply unmarshal b = batch_IsPlan unmarshal b"
  by (simp add: batch_IsApply_def batch_IsPlan_def)

end
