(* ===== verification/Locking.thy ===== *)
theory Locking
  imports SchedulerModels
begin

text \<open>
  Project locks of pull requests: \<open>libs/locking\<close>.  A \<open>Lock\<close> provider (the Go
  interface of \<open>core.go\<close>) is a record of operations over a store of its own; the
  locale \<open>lock_store\<close> states what \<open>PullRequestLock\<close> relies on, and
  \<open>cas_lock_store\<close> adds that a provider never takes over a held lock.  Comments that
  the code posts through its \<open>Reporter\<close> are appended to the state, so the theorems
  can say which comment a refused lock leaves.
\<close>

section \<open>The provider interface\<close>

record 's lock_ops =
  op_lock :: "int \<Rightarrow> string \<Rightarrow> (bool, 's) act"
  op_unlock :: "string \<Rightarrow> (bool, 's) act"
  op_get :: "string \<Rightarrow> (int option, 's) act"

text \<open>A comment as the reporter gets it: its text, its title and whether the formatter is
  the collapsible one.\<close>

record comment =
  c_text :: string
  c_title :: string
  c_collapsible :: bool

record 's lock_world =
  locks :: 's
  comments :: "comment list"

record pr_lock =
  pr_project :: string
  pr_namespace :: string
  pr_number :: int

text \<open>The services a lock is used with: whether the reporter supports Markdown, and the
  pull-request service's \<open>IsClosed\<close>.\<close>

record pr_env =
  supports_markdown :: bool
  is_closed :: "int \<Rightarrow> error + bool"

section \<open>\<open>PullRequestLock\<close>\<close>

definition projectId :: "pr_lock \<Rightarrow> string" where
  "projectId p = pr_namespace p @ ''#'' @ pr_project p"

definition LockId :: "pr_lock \<Rightarrow> string" where
  "LockId p = pr_namespace p @ ''#'' @ pr_project p"

text \<open>\<open>reportLockingFailed\<close> and \<open>reportSuccessfulUnlocking\<close>: an error of the
  reporter is only logged.\<close>

definition reportLockingFailed :: "pr_env \<Rightarrow> string \<Rightarrow> (unit, 's lock_world) act" where
  "reportLockingFailed env c =
     (if supports_markdown env
      then act_modify (\<lambda>w. w\<lparr>comments := comments w @
             [\<lparr>c_text = c, c_title = ''Locking failed'', c_collapsible = True\<rparr>]\<rparr>)
      else act_modify (\<lambda>w. w\<lparr>comments := comments w @
             [\<lparr>c_text = c, c_title = ''Locking failed'', c_collapsible = False\<rparr>]\<rparr>))"

definition reportSuccessfulUnlocking :: "pr_env \<Rightarrow> string \<Rightarrow> (unit, 's lock_world) act" where
  "reportSuccessfulUnlocking env c =
     (if supports_markdown env
      then act_modify (\<lambda>w. w\<lparr>comments := comments w @
             [\<lparr>c_text = c, c_title = ''Unlocking successful'', c_collapsible = True\<rparr>]\<rparr>)
      else act_modify (\<lambda>w. w\<lparr>comments := comments w @
             [\<lparr>c_text = c, c_title = ''Unlocking successful'', c_collapsible = False\<rparr>]\<rparr>))"

definition on_locks :: "('a, 's) act \<Rightarrow> ('a, 's lock_world) act" where
  "on_locks f w = (let (x, s) = f (locks w) in (x, w\<lparr>locks := s\<rparr>))"

definition hanging_comment :: "pr_lock \<Rightarrow> int \<Rightarrow> string" where
  "hanging_comment p t =
     ''Project '' @ projectId p @ '' locked by another PR #'' @ itoa t @
     ''(failed to acquire lock '' @ pr_project p @
     ''). The locking plan must be applied or discarded before future plans can execute''"

definition conflict_comment :: "pr_lock \<Rightarrow> int \<Rightarrow> string" where
  "conflict_comment p t =
     ''Project '' @ projectId p @ '' locked by another PR #'' @ itoa t @
     '' (failed to acquire lock '' @ pr_namespace p @
     ''). The locking plan must be applied or discarded before future plans can execute''"

text \<open>\<open>verifyNoHangingLocks\<close>: a lock of a closed pull request is released, a lock of
  another open one is an error.  The result of the release is ignored, only its error is
  not.  (The Go code prints the address of the holder's number in the release error; the model
  prints nothing there.)\<close>

definition verifyNoHangingLocks ::
  "'s lock_ops \<Rightarrow> pr_env \<Rightarrow> pr_lock \<Rightarrow> (bool, 's lock_world) act" where
  "verifyNoHangingLocks ops env p =
     (let lockId = LockId p in
      act_bind (on_locks (op_get ops lockId)) (\<lambda>transactionId.
        case transactionId of
          None \<Rightarrow> act_ret True
        | Some t \<Rightarrow>
            if t \<noteq> pr_number p then
              (case is_closed env t of
                 Inl e \<Rightarrow> act_err (''failed to check if PR holding a lock is closed: '' @ e)
               | Inr isPrClosed \<Rightarrow>
                   if isPrClosed then
                     act_bind
                       (act_wrap (\<lambda>e. ''failed to unlock a lock acquired by closed PR: '' @ e)
                         (on_locks (op_unlock ops lockId)))
                       (\<lambda>_. act_ret True)
                   else
                     act_bind (reportLockingFailed env (hanging_comment p t))
                       (\<lambda>_. act_err (hanging_comment p t)))
            else act_ret True))"

definition Lock :: "'s lock_ops \<Rightarrow> pr_env \<Rightarrow> pr_lock \<Rightarrow> (bool, 's lock_world) act" where
  "Lock ops env p =
     (let lockId = LockId p in
      act_bind (verifyNoHangingLocks ops env p) (\<lambda>noHangingLocks.
        if \<not> noHangingLocks then act_ret False
        else
          act_bind (on_locks (op_get ops lockId)) (\<lambda>existing.
            case existing of
              Some t \<Rightarrow>
                if t = pr_number p then act_ret True
                else act_bind (reportLockingFailed env (conflict_comment p t))
                       (\<lambda>_. act_err (conflict_comment p t))
            | None \<Rightarrow> on_locks (op_lock ops (pr_number p) lockId))))"

definition unlocked_comment :: "pr_lock \<Rightarrow> string" where
  "unlocked_comment p = ''Project unlocked ('' @ projectId p @ '').''"

definition Unlock :: "'s lock_ops \<Rightarrow> pr_env \<Rightarrow> pr_lock \<Rightarrow> (bool, 's lock_world) act" where
  "Unlock ops env p =
     (let lockId = LockId p in
      act_bind (on_locks (op_get ops lockId)) (\<lambda>lock.
        case lock of
          None \<Rightarrow> act_ret False
        | Some t \<Rightarrow>
            if pr_number p = t then
              act_bind (on_locks (op_unlock ops lockId)) (\<lambda>lockReleased.
                if lockReleased then
                  act_bind (reportSuccessfulUnlocking env (unlocked_comment p))
                    (\<lambda>_. act_ret True)
                else act_ret False)
            else act_ret False))"

definition ForceUnlock :: "'s lock_ops \<Rightarrow> pr_env \<Rightarrow> pr_lock \<Rightarrow> (unit, 's lock_world) act" where
  "ForceUnlock ops env p =
     (let lockId = LockId p in
      act_bind (on_locks (op_get ops lockId)) (\<lambda>lock.
        case lock of
          None \<Rightarrow> act_ret ()
        | Some t \<Rightarrow>
            act_bind (on_locks (op_unlock ops lockId)) (\<lambda>lockReleased.
              if lockReleased then reportSuccessfulUnlocking env (unlocked_comment p)
              else act_ret ())))"

text \<open>\<open>PerformLockingActionFromCommand\<close> of \<open>utils.go\<close>: which command takes or
  releases the lock; every other command leaves it alone.\<close>

definition PerformLockingActionFromCommand ::
  "'s lock_ops \<Rightarrow> pr_env \<Rightarrow> pr_lock \<Rightarrow> digger_command \<Rightarrow> (unit, 's lock_world) act" where
  "PerformLockingActionFromCommand ops env p cmd =
     (case cmd of
        CmdUnlock \<Rightarrow>
          act_bind (act_wrap (\<lambda>e. ''failed to unlock project: '' @ e) (Unlock ops env p))
            (\<lambda>_. act_ret ())
      | CmdPlan \<Rightarrow>
          act_bind (act_wrap (\<lambda>e. ''failed to lock project: '' @ e) (Lock ops env p))
            (\<lambda>_. act_ret ())
      | CmdApply \<Rightarrow>
          act_bind (act_wrap (\<lambda>e. ''failed to lock project: '' @ e) (Lock ops env p))
            (\<lambda>_. act_ret ())
      | CmdLock \<Rightarrow>
          act_bind (act_wrap (\<lambda>e. ''failed to lock project: '' @ e) (Lock ops env p))
            (\<lambda>_. act_ret ())
      | _ \<Rightarrow> act_ret ())"

section \<open>Interleaved requests\<close>

text \<open>Several runners may execute \<open>Lock\<close> at the same time; what one of them does between two
  calls of the provider is local.  So a run of \<open>Lock\<close> is a small machine that makes one call
  of the provider per step, and an interleaving is the list of the machines that move.\<close>

datatype lock_pc = AtVerify | AtRelease | AtGet | AtAcquire | Done "bool res"

definition step_with :: "('a, 's) act \<Rightarrow> ('a \<Rightarrow> lock_pc) \<Rightarrow> 's \<Rightarrow> lock_pc \<times> 's" where
  "step_with f next s =
     (case f s of
        (Ok a, s') \<Rightarrow> (next a, s')
      | (Err e, s') \<Rightarrow> (Done (Err e), s')
      | (Panic m, s') \<Rightarrow> (Done (Panic m), s'))"

fun lock_step :: "'s lock_ops \<Rightarrow> pr_env \<Rightarrow> pr_lock \<Rightarrow> lock_pc \<Rightarrow> 's \<Rightarrow> lock_pc \<times> 's" where
  "lock_step ops env p AtVerify s =
     step_with (op_get ops (LockId p)) (\<lambda>h.
       case h of
         None \<Rightarrow> AtGet
       | Some t \<Rightarrow>
           if t \<noteq> pr_number p then
             (case is_closed env t of
                Inl e \<Rightarrow> Done (Err (''failed to check if PR holding a lock is closed: '' @ e))
              | Inr True \<Rightarrow> AtRelease
              | Inr False \<Rightarrow> Done (Err (hanging_comment p t)))
           else AtGet) s"
| "lock_step ops env p AtRelease s =
     step_with (act_wrap (\<lambda>e. ''failed to unlock a lock acquired by closed PR: '' @ e)
       (op_unlock ops (LockId p))) (\<lambda>_. AtGet) s"
| "lock_step ops env p AtGet s =
     step_with (op_get ops (LockId p)) (\<lambda>h.
       case h of
         None \<Rightarrow> AtAcquire
       | Some t \<Rightarrow> Done (if t = pr_number p then Ok True else Err (conflict_comment p t))) s"
| "lock_step ops env p AtAcquire s =
     step_with (op_lock ops (pr_number p) (LockId p)) (\<lambda>b. Done (Ok b)) s"
| "lock_step ops env p (Done r) s = (Done r, s)"

definition lock_run1 ::
  "'s lock_ops \<Rightarrow> pr_env \<Rightarrow> pr_lock \<Rightarrow> lock_pc \<times> 's \<Rightarrow> lock_pc \<times> 's" where
  "lock_run1 ops env p c = lock_step ops env p (fst c) (snd c)"

definition interleave_step ::
  "'s lock_ops \<Rightarrow> pr_env \<Rightarrow> pr_lock list \<Rightarrow> nat \<Rightarrow> lock_pc list \<times> 's \<Rightarrow> lock_pc list \<times> 's" where
  "interleave_step ops env ps i c =
     (if i < length ps
      then (let (pc, s) = lock_step ops env (ps ! i) (fst c ! i) (snd c)
            in ((fst c)[i := pc], s))
      else c)"

fun interleave ::
  "'s lock_ops \<Rightarrow> pr_env \<Rightarrow> pr_lock list \<Rightarrow> nat list \<Rightarrow> lock_pc list \<times> 's \<Rightarrow> lock_pc list \<times> 's" where
  "interleave ops env ps [] c = c"
| "interleave ops env ps (i # is) c = interleave ops env ps is (interleave_step ops env ps i c)"

text \<open>Run alone, the machine is \<open>Lock\<close>: four steps are enough.\<close>

lemma lock_run1_Done: "(lock_run1 ops env p ^^ n) (Done r, s) = (Done r, s)"
  by (induction n) (simp_all add: lock_run1_def)

lemma lock_run1_Suc:
  "(lock_run1 ops env p ^^ Suc n) (pc, s) =
   (lock_run1 ops env p ^^ n) (lock_step ops env p pc s)"
  by (simp add: funpow_swap1 lock_run1_def)

text \<open>The second half of \<open>Lock\<close>, after the hanging locks were looked at.\<close>

definition acquire :: "'s lock_ops \<Rightarrow> pr_env \<Rightarrow> pr_lock \<Rightarrow> (bool, 's lock_world) act" where
  "acquire ops env p =
     act_bind (on_locks (op_get ops (LockId p))) (\<lambda>existing.
       case existing of
         Some t \<Rightarrow>
           if t = pr_number p then act_ret True
           else act_bind (reportLockingFailed env (conflict_comment p t))
                  (\<lambda>_. act_err (conflict_comment p t))
       | None \<Rightarrow> on_locks (op_lock ops (pr_number p) (LockId p)))"

lemma lock_run1_acquire:
  assumes "acquire ops env p w = (r, w')"
  shows "(lock_run1 ops env p ^^ Suc (Suc n)) (AtGet, locks w) = (Done r, locks w')"
proof (cases "op_get ops (LockId p) (locks w)")
  case (Pair x s1)
  obtain b s2 where l: "op_lock ops (pr_number p) (LockId p) s1 = (b, s2)"
    by (cases "op_lock ops (pr_number p) (LockId p) s1")
  show ?thesis
  proof (cases x)
    case (Ok h)
    with Pair l assms show ?thesis
      by (cases h; cases b)
        (auto simp: acquire_def on_locks_def act_bind_def step_with_def lock_run1_Suc lock_run1_Done
          reportLockingFailed_def simp del: funpow.simps split: if_splits)
  qed (use Pair assms in \<open>auto simp: acquire_def on_locks_def act_bind_def step_with_def
      lock_run1_Suc lock_run1_Done simp del: funpow.simps\<close>)
qed

lemma lock_run1_Lock:
  assumes "Lock ops env p w = (r, w')"
  shows "(lock_run1 ops env p ^^ 4) (AtVerify, locks w) = (Done r, locks w')"
proof -
  have four: "(4::nat) = Suc (Suc (Suc (Suc 0)))" by simp
  have L: "Lock ops env p w = act_bind (verifyNoHangingLocks ops env p)
      (\<lambda>ok. if \<not> ok then act_ret False else acquire ops env p) w"
    by (simp only: Lock_def acquire_def Let_def)
  obtain x s1 where g: "op_get ops (LockId p) (locks w) = (x, s1)"
    by (cases "op_get ops (LockId p) (locks w)")
  obtain u s2 where ul: "op_unlock ops (LockId p) s1 = (u, s2)"
    by (cases "op_unlock ops (LockId p) s1")
  note defs = verifyNoHangingLocks_def Let_def on_locks_def act_bind_def act_wrap_def step_with_def
    lock_run1_Suc lock_run1_Done reportLockingFailed_def
  show ?thesis
  proof (cases x)
    case (Ok h)
    show ?thesis
    proof (cases "h = None \<or> h = Some (pr_number p)")
      case True
      with Ok g assms L have "acquire ops env p (w\<lparr>locks := s1\<rparr>) = (r, w')"
        by (auto simp: defs)
      then have "(lock_run1 ops env p ^^ Suc (Suc (Suc 0))) (AtGet, s1) = (Done r, locks w')"
        using lock_run1_acquire [of ops env p "w\<lparr>locks := s1\<rparr>" r w' "Suc 0"]
        by (simp del: funpow.simps)
      with True Ok g show ?thesis
        unfolding four by (subst lock_run1_Suc) (auto simp: step_with_def simp del: funpow.simps)
    next
      case False
      then obtain t where t: "h = Some t" "t \<noteq> pr_number p" by auto
      show ?thesis
      proof (cases "is_closed env t = Inr True \<and> (\<exists>b. u = Ok b)")
        case True
        with t Ok g ul assms L have "acquire ops env p (w\<lparr>locks := s2\<rparr>) = (r, w')"
          by (auto simp: defs)
        then have "(lock_run1 ops env p ^^ Suc (Suc 0)) (AtGet, s2) = (Done r, locks w')"
          using lock_run1_acquire [of ops env p "w\<lparr>locks := s2\<rparr>" r w' 0]
          by (simp del: funpow.simps)
        with True t Ok g ul show ?thesis
          unfolding four
          by (auto simp: step_with_def act_wrap_def lock_run1_Suc simp del: funpow.simps)
      next
        case False
        with t Ok g ul assms L show ?thesis
          unfolding four
          by (cases "is_closed env t"; cases u)
            (auto simp: defs simp del: funpow.simps split: if_splits bool.splits)
      qed
    qed
  qed (use g assms L in \<open>auto simp: four defs simp del: funpow.simps\<close>)
qed

text \<open>Requests of pull requests, one after the other.\<close>

fun run_actions ::
  "'s lock_ops \<Rightarrow> pr_env \<Rightarrow> (pr_lock \<times> digger_command) list \<Rightarrow> 's lock_world \<Rightarrow> 's lock_world" where
  "run_actions ops env [] w = w"
| "run_actions ops env ((p, cmd) # as) w =
     run_actions ops env as (snd (PerformLockingActionFromCommand ops env p cmd w))"

section \<open>What a provider promises\<close>

text \<open>\<open>holder\<close> reads the number that holds a resource's lock; \<open>key\<close> is how the provider
  names the resource.  Any operation may fail; \<open>Lock\<close> is only promised anything on a free
  resource.\<close>

locale lock_store =
  fixes ops :: "'s lock_ops"
    and key :: "string \<Rightarrow> 'k"
    and holder :: "'s \<Rightarrow> 'k \<Rightarrow> int option"
    and inv :: "'s \<Rightarrow> bool"
  assumes get_law: "inv s \<Longrightarrow> op_get ops r s = (x, s') \<Longrightarrow>
      inv s' \<and> holder s' = holder s \<and> (\<forall>h. x = Ok h \<longrightarrow> h = holder s (key r))"
    and lock_law: "inv s \<Longrightarrow> 0 < t \<Longrightarrow> holder s (key r) = None \<Longrightarrow> op_lock ops t r s = (b, s') \<Longrightarrow>
      inv s' \<and> (holder s' = holder s \<or> holder s' = (holder s)(key r \<mapsto> t)) \<and>
      (b = Ok True \<longrightarrow> holder s' = (holder s)(key r \<mapsto> t))"
    and unlock_law: "inv s \<Longrightarrow> op_unlock ops r s = (b, s') \<Longrightarrow>
      inv s' \<and> (holder s' = holder s \<or> holder s' = (holder s)(key r := None)) \<and>
      (b = Ok True \<longrightarrow> holder s' (key r) = None)"
begin

lemma verify_cases:
  assumes "inv (locks w)" and "verifyNoHangingLocks ops env p w = (x, w')"
  shows "inv (locks w') \<and> (\<forall>k. k \<noteq> key (LockId p) \<longrightarrow> holder (locks w') k = holder (locks w) k) \<and>
    (holder (locks w') (key (LockId p)) = holder (locks w) (key (LockId p)) \<or>
     (\<exists>t. holder (locks w) (key (LockId p)) = Some t \<and> t \<noteq> pr_number p \<and> is_closed env t = Inr True \<and>
        holder (locks w') (key (LockId p)) = None)) \<and>
    (x = Ok True \<longrightarrow> (\<forall>t. holder (locks w) (key (LockId p)) = Some t \<longrightarrow>
        t = pr_number p \<or> is_closed env t = Inr True))"
proof (cases "op_get ops (LockId p) (locks w)")
  case (Pair y s1)
  note g = get_law [OF assms(1) Pair]
  obtain z s2 where u: "op_unlock ops (LockId p) s1 = (z, s2)" by (cases "op_unlock ops (LockId p) s1")
  from g have "inv s1" by simp
  note ul = unlock_law [OF this u]
  from assms(2) Pair g u ul show ?thesis
    by (auto simp: verifyNoHangingLocks_def Let_def act_bind_def act_wrap_def on_locks_def
        reportLockingFailed_def split: res.splits option.splits sum.splits if_splits prod.splits)
qed

lemma Lock_cases:
  assumes "inv (locks w)" and "0 < pr_number p" and "Lock ops env p w = (x, w')"
  shows "inv (locks w') \<and> (\<forall>k. k \<noteq> key (LockId p) \<longrightarrow> holder (locks w') k = holder (locks w) k) \<and>
    (x = Ok True \<longrightarrow> holder (locks w') (key (LockId p)) = Some (pr_number p)) \<and>
    (\<forall>t. holder (locks w) (key (LockId p)) = Some t \<longrightarrow> t \<noteq> pr_number p \<longrightarrow>
       is_closed env t \<noteq> Inr True \<longrightarrow>
       holder (locks w') (key (LockId p)) = Some t \<and> x \<noteq> Ok True) \<and>
    (holder (locks w) (key (LockId p)) = Some (pr_number p) \<longrightarrow>
       holder (locks w') (key (LockId p)) = Some (pr_number p))"
proof (cases "verifyNoHangingLocks ops env p w")
  case (Pair v w1)
  note vc = verify_cases [OF assms(1) Pair]
  show ?thesis
  proof (cases "v = Ok True")
    case False
    then have "w' = w1 \<and> x \<noteq> Ok True" using assms(3) Pair
      by (cases v) (auto simp: Lock_def Let_def act_bind_def)
    with vc show ?thesis by auto
  next
    case True
    from vc have i1: "inv (locks w1)" by simp
    obtain y s2 where g: "op_get ops (LockId p) (locks w1) = (y, s2)"
      by (cases "op_get ops (LockId p) (locks w1)")
    note gl = get_law [OF i1 g]
    then have i2: "inv s2" by simp
    obtain b s3 where l: "op_lock ops (pr_number p) (LockId p) s2 = (b, s3)"
      by (cases "op_lock ops (pr_number p) (LockId p) s2")
    note ll = lock_law [OF i2 assms(2) _ l]
    show ?thesis
    proof (cases "y = Ok None")
      case True
      with \<open>v = Ok True\<close> Pair g l assms(3) have "x = b \<and> locks w' = s3"
        by (auto simp: Lock_def Let_def act_bind_def on_locks_def)
      with True gl ll vc show ?thesis by auto
    next
      case False
      with \<open>v = Ok True\<close> Pair g assms(3) have "locks w' = s2 \<and> (x = Ok True \<longrightarrow> y = Ok (Some (pr_number p)))"
        by (cases y) (auto simp: Lock_def Let_def act_bind_def on_locks_def reportLockingFailed_def
          split: option.splits if_splits)
      with gl vc \<open>v = Ok True\<close> show ?thesis by auto
    qed
  qed
qed

lemma Unlock_cases:
  assumes "inv (locks w)" and "Unlock ops env p w = (x, w')"
  shows "inv (locks w') \<and> (\<forall>k. k \<noteq> key (LockId p) \<longrightarrow> holder (locks w') k = holder (locks w) k) \<and>
    (x = Ok True \<longrightarrow> holder (locks w) (key (LockId p)) = Some (pr_number p) \<and>
        holder (locks w') (key (LockId p)) = None) \<and>
    (\<forall>t. holder (locks w) (key (LockId p)) = Some t \<longrightarrow> t \<noteq> pr_number p \<longrightarrow>
       holder (locks w') (key (LockId p)) = Some t)"
proof (cases "op_get ops (LockId p) (locks w)")
  case (Pair y s1)
  note g = get_law [OF assms(1) Pair]
  obtain z s2 where u: "op_unlock ops (LockId p) s1 = (z, s2)" by (cases "op_unlock ops (LockId p) s1")
  from g have "inv s1" by simp
  note ul = unlock_law [OF this u]
  from assms(2) Pair g u ul show ?thesis
    by (auto simp: Unlock_def Let_def act_bind_def on_locks_def
        reportSuccessfulUnlocking_def split: res.splits option.splits if_splits prod.splits)
qed

lemma ForceUnlock_cases:
  assumes "inv (locks w)" and "ForceUnlock ops env p w = (x, w')"
  shows "inv (locks w') \<and> (\<forall>k. k \<noteq> key (LockId p) \<longrightarrow> holder (locks w') k = holder (locks w) k) \<and>
    (comments w' \<noteq> comments w \<longrightarrow> holder (locks w') (key (LockId p)) = None)"
proof (cases "op_get ops (LockId p) (locks w)")
  case (Pair y s1)
  note g = get_law [OF assms(1) Pair]
  obtain z s2 where u: "op_unlock ops (LockId p) s1 = (z, s2)" by (cases "op_unlock ops (LockId p) s1")
  from g have "inv s1" by simp
  note ul = unlock_law [OF this u]
  from assms(2) Pair g u ul show ?thesis
    by (auto simp: ForceUnlock_def Let_def act_bind_def on_locks_def
        reportSuccessfulUnlocking_def split: res.splits option.splits if_splits prod.splits)
qed

lemma action_keeps_lock:
  assumes "inv (locks w)" and "0 < pr_number p" and "t \<noteq> pr_number p"
    and "is_closed env t \<noteq> Inr True" and "holder (locks w) k = Some t"
  shows "inv (locks (snd (PerformLockingActionFromCommand ops env p cmd w))) \<and>
    holder (locks (snd (PerformLockingActionFromCommand ops env p cmd w))) k = Some t"
proof -
  obtain x w1 where l: "Lock ops env p w = (x, w1)" by (cases "Lock ops env p w")
  obtain y w2 where u: "Unlock ops env p w = (y, w2)" by (cases "Unlock ops env p w")
  have L: "inv (locks w1) \<and> holder (locks w1) k = Some t"
    using Lock_cases [OF assms(1,2) l] assms(3-5) by (cases "k = key (LockId p)") auto
  have U: "inv (locks w2) \<and> holder (locks w2) k = Some t"
    using Unlock_cases [OF assms(1) u] assms(3-5) by (cases "k = key (LockId p)") auto
  from L U l u assms(1,5) show ?thesis
    by (cases cmd; cases x; cases y)
      (simp_all add: PerformLockingActionFromCommand_def act_bind_def act_wrap_def)
qed

lemma actions_keep_lock:
  assumes "inv (locks w)" and "\<forall>(p, cmd) \<in> set as. 0 < pr_number p \<and> pr_number p \<noteq> t"
    and "is_closed env t \<noteq> Inr True" and "holder (locks w) k = Some t"
  shows "holder (locks (run_actions ops env as w)) k = Some t"
  using assms
proof (induction as arbitrary: w)
  case Nil
  then show ?case by simp
next
  case (Cons a as)
  obtain p cmd where a: "a = (p, cmd)" by (cases a)
  from Cons.prems a have "0 < pr_number p" "t \<noteq> pr_number p" by auto
  from action_keeps_lock [OF Cons.prems(1) this Cons.prems(3,4), of cmd] Cons.IH Cons.prems a
  show ?case by simp
qed

end

text \<open>A provider whose \<open>Lock\<close> is a compare-and-set: it refuses a resource that is held.\<close>

locale cas_lock_store = lock_store ops key holder inv
  for ops :: "'s lock_ops"
    and key :: "string \<Rightarrow> 'k"
    and holder :: "'s \<Rightarrow> 'k \<Rightarrow> int option"
    and inv :: "'s \<Rightarrow> bool" +
  assumes held_law: "inv s \<Longrightarrow> holder s (key r) = Some h \<Longrightarrow> op_lock ops t r s = (b, s') \<Longrightarrow>
      inv s' \<and> holder s' = holder s \<and> b \<noteq> Ok True"
begin

definition excl :: "pr_env \<Rightarrow> pr_lock list \<Rightarrow> 'k \<Rightarrow> lock_pc list \<times> 's \<Rightarrow> bool" where
  "excl env ps k c \<longleftrightarrow>
     length (fst c) = length ps \<and> inv (snd c) \<and> AtRelease \<notin> set (fst c) \<and>
     (\<forall>t. holder (snd c) k = Some t \<longrightarrow> is_closed env t \<noteq> Inr True) \<and>
     (\<forall>i < length ps. fst c ! i = Done (Ok True) \<longrightarrow> holder (snd c) k = Some (pr_number (ps ! i)))"

lemma lock_step_excl:
  assumes "inv s" and "0 < pr_number p" and "pc \<noteq> AtRelease" and "is_closed env (pr_number p) \<noteq> Inr True"
    and "\<forall>t. holder s (key (LockId p)) = Some t \<longrightarrow> is_closed env t \<noteq> Inr True"
    and "pc = Done (Ok True) \<Longrightarrow> holder s (key (LockId p)) = Some (pr_number p)"
    and "lock_step ops env p pc s = (pc', s')"
  shows "inv s' \<and> pc' \<noteq> AtRelease \<and>
    (\<forall>t. holder s' (key (LockId p)) = Some t \<longrightarrow> is_closed env t \<noteq> Inr True) \<and>
    (holder s (key (LockId p)) \<noteq> None \<longrightarrow> holder s' (key (LockId p)) = holder s (key (LockId p))) \<and>
    (pc' = Done (Ok True) \<longrightarrow> holder s' (key (LockId p)) = Some (pr_number p))"
proof -
  obtain x s1 where g: "op_get ops (LockId p) s = (x, s1)" by (cases "op_get ops (LockId p) s")
  note gl = get_law [OF assms(1) g]
  obtain b s2 where l: "op_lock ops (pr_number p) (LockId p) s = (b, s2)"
    by (cases "op_lock ops (pr_number p) (LockId p) s")
  note hl = held_law [OF assms(1) _ l]
  have ll: "inv s2 \<and> holder s2 (key (LockId p)) \<in> {None, Some (pr_number p)} \<and>
      (b = Ok True \<longrightarrow> holder s2 (key (LockId p)) = Some (pr_number p))"
    if "holder s (key (LockId p)) = None"
    using lock_law [OF assms(1,2) that l] that by auto
  show ?thesis
  proof (cases pc)
    case AtVerify
    with assms g gl show ?thesis
      by (auto simp: step_with_def split: res.splits option.splits sum.splits if_splits bool.splits)
  next
    case AtGet
    with assms g gl show ?thesis
      by (auto simp: step_with_def split: res.splits option.splits if_splits)
  next
    case AtAcquire
    with assms l ll hl show ?thesis
      by (cases "holder s (key (LockId p))") (auto simp: step_with_def split: res.splits)
  qed (use assms in auto)
qed

lemma interleave_step_excl:
  assumes "excl env ps k c" and "\<forall>p \<in> set ps. 0 < pr_number p \<and> key (LockId p) = k \<and>
      is_closed env (pr_number p) \<noteq> Inr True"
  shows "excl env ps k (interleave_step ops env ps i c)"
proof (cases "i < length ps")
  case False
  with assms show ?thesis by (simp add: interleave_step_def)
next
  case True
  let ?p = "ps ! i" and ?pc = "fst c ! i"
  obtain pc' s' where st: "lock_step ops env ?p ?pc (snd c) = (pc', s')"
    by (cases "lock_step ops env ?p ?pc (snd c)")
  from True have "?p \<in> set ps" by simp
  with assms(2) have e2: "0 < pr_number ?p" "is_closed env (pr_number ?p) \<noteq> Inr True"
    and k: "key (LockId ?p) = k" by blast+
  from assms(1) True have e1: "inv (snd c)" "?pc \<noteq> AtRelease"
    by (auto simp: excl_def in_set_conv_nth)
  note e = e1(1) e2(1) e1(2) e2(2)
  note out = lock_step_excl [OF e _ _ st]
  have out': "inv s' \<and> pc' \<noteq> AtRelease \<and>
    (\<forall>t. holder s' k = Some t \<longrightarrow> is_closed env t \<noteq> Inr True) \<and>
    (holder (snd c) k \<noteq> None \<longrightarrow> holder s' k = holder (snd c) k) \<and>
    (pc' = Done (Ok True) \<longrightarrow> holder s' k = Some (pr_number ?p))"
  proof (rule out [unfolded k])
    show "\<forall>t. holder (snd c) k = Some t \<longrightarrow> is_closed env t \<noteq> Inr True"
      using assms(1) unfolding excl_def by blast
    show "holder (snd c) k = Some (pr_number ?p)" if "?pc = Done (Ok True)"
      using assms(1) True that unfolding excl_def by blast
  qed
  have rel: "AtRelease \<notin> set ((fst c)[i := pc'])"
    using assms(1) out' set_update_subset_insert [of "fst c" i pc'] by (auto simp: excl_def)
  have len: "length (fst c) = length ps" using assms(1) by (simp add: excl_def)
  have done_ok: "holder s' k = Some (pr_number (ps ! j))"
    if "j < length ps" "(fst c)[i := pc'] ! j = Done (Ok True)" for j
  proof (cases "j = i")
    case True
    with that out' len \<open>i < length ps\<close> show ?thesis by simp
  next
    case False
    with that have "fst c ! j = Done (Ok True)" by simp
    with that(1) assms(1) have "holder (snd c) k = Some (pr_number (ps ! j))"
      unfolding excl_def by blast
    with out' show ?thesis by simp
  qed
  have "interleave_step ops env ps i c = ((fst c)[i := pc'], s')"
    using st True by (simp add: interleave_step_def)
  with out' rel len done_ok show ?thesis by (simp add: excl_def)
qed

lemma interleave_excl:
  assumes "excl env ps k c" and "\<forall>p \<in> set ps. 0 < pr_number p \<and> key (LockId p) = k \<and>
      is_closed env (pr_number p) \<noteq> Inr True"
  shows "excl env ps k (interleave ops env ps sched c)"
  using assms by (induction sched arbitrary: c) (auto simp: interleave_step_excl)

lemma interleave_exclusive:
  assumes "inv s" and "\<forall>p \<in> set ps. 0 < pr_number p \<and> key (LockId p) = k \<and>
      is_closed env (pr_number p) \<noteq> Inr True"
    and "\<forall>t. holder s k = Some t \<longrightarrow> is_closed env t \<noteq> Inr True"
    and "i < length ps" and "j < length ps"
    and "fst (interleave ops env ps sched (map (\<lambda>_. AtVerify) ps, s)) ! i = Done (Ok True)"
    and "fst (interleave ops env ps sched (map (\<lambda>_. AtVerify) ps, s)) ! j = Done (Ok True)"
  shows "pr_number (ps ! i) = pr_number (ps ! j)"
proof -
  have "excl env ps k (map (\<lambda>_. AtVerify) ps, s)"
    using assms(1,3) by (auto simp: excl_def)
  then have "excl env ps k (interleave ops env ps sched (map (\<lambda>_. AtVerify) ps, s))"
    using assms(2) by (rule interleave_excl)
  then have "\<forall>i < length ps. fst (interleave ops env ps sched (map (\<lambda>_. AtVerify) ps, s)) ! i = Done (Ok True) \<longrightarrow>
      holder (snd (interleave ops env ps sched (map (\<lambda>_. AtVerify) ps, s))) k = Some (pr_number (ps ! i))"
    unfolding excl_def by blast
  with assms(4-7) have "Some (pr_number (ps ! i)) = Some (pr_number (ps ! j))" by metis
  then show ?thesis by simp
qed

end

end
