(* ===== verification/FaultyDb.thy ===== *)
theory FaultyDb
  imports Prelude
begin

text \<open>
  Queries against the backend's database, which the code reaches through gorm.  The state is the
  tables and the errors of the next queries: a query consumes one entry, fails with it when there
  is one, and otherwise (the list may be empty) sees the tables and may change them.
\<close>

record 'd fdb =
  fdb_data :: 'd
  fdb_faults :: "error option list"

definition fdb_query :: "('d \<Rightarrow> 'a \<times> 'd) \<Rightarrow> ('a, 'd fdb) act" where
  "fdb_query q d =
     (case fdb_faults d of
        Some e # fs \<Rightarrow> (Err e, d\<lparr>fdb_faults := fs\<rparr>)
      | None # fs \<Rightarrow>
          (let (a, t) = q (fdb_data d) in (Ok a, d\<lparr>fdb_data := t, fdb_faults := fs\<rparr>))
      | [] \<Rightarrow> (let (a, t) = q (fdb_data d) in (Ok a, d\<lparr>fdb_data := t\<rparr>)))"

definition fdb_read :: "('d \<Rightarrow> 'a) \<Rightarrow> ('a, 'd fdb) act" where
  "fdb_read q = fdb_query (\<lambda>t. (q t, t))"

definition fdb_write :: "('d \<Rightarrow> 'd) \<Rightarrow> (unit, 'd fdb) act" where
  "fdb_write u = fdb_query (\<lambda>t. ((), u t))"

text \<open>A database whose queries all succeed.\<close>

definition healthy :: "'d \<Rightarrow> 'd fdb" where
  "healthy t = \<lparr>fdb_data = t, fdb_faults = []\<rparr>"

lemma fdb_query_cases:
  "(\<exists>e d'. fdb_query q d = (Err e, d') \<and> fdb_data d' = fdb_data d) \<or>
   (\<exists>d'. fdb_query q d = (Ok (fst (q (fdb_data d))), d') \<and> fdb_data d' = snd (q (fdb_data d)))"
  by (auto simp: fdb_query_def Let_def split: list.splits option.splits prod.splits)

lemma fdb_query_Ok:
  "fdb_query q d = (Ok a, d') \<Longrightarrow> a = fst (q (fdb_data d)) \<and> fdb_data d' = snd (q (fdb_data d))"
  using fdb_query_cases [of q d] by auto

lemma fdb_query_Err: "fdb_query q d = (Err e, d') \<Longrightarrow> fdb_data d' = fdb_data d"
  using fdb_query_cases [of q d] by auto

lemma fdb_query_no_Panic: "fdb_query q d \<noteq> (Panic m, d')"
  using fdb_query_cases [of q d] by auto

lemma fdb_read_data [simp]: "fdb_data (snd (fdb_read q d)) = fdb_data d"
  using fdb_query_cases [of "\<lambda>t. (q t, t)" d] by (auto simp: fdb_read_def)

lemma fdb_read_Ok: "fdb_read q d = (Ok a, d') \<Longrightarrow> a = q (fdb_data d) \<and> fdb_data d' = fdb_data d"
  using fdb_query_Ok [of "\<lambda>t. (q t, t)" d a d'] by (simp add: fdb_read_def)

lemma fdb_write_data:
  "fdb_data (snd (fdb_write u d)) = fdb_data d \<or> fdb_data (snd (fdb_write u d)) = u (fdb_data d)"
  using fdb_query_cases [of "\<lambda>t. ((), u t)" d] by (auto simp: fdb_write_def)

lemma fdb_write_Ok: "fdb_write u d = (Ok a, d') \<Longrightarrow> fdb_data d' = u (fdb_data d)"
  using fdb_query_Ok [of "\<lambda>t. ((), u t)" d a d'] by (simp add: fdb_write_def)

lemma healthy_query [simp]:
  "fdb_query q (healthy t) = (Ok (fst (q t)), healthy (snd (q t)))"
  by (simp add: fdb_query_def healthy_def split: prod.splits)

lemma healthy_read [simp]: "fdb_read q (healthy t) = (Ok (q t), healthy t)"
  by (simp add: fdb_read_def)

lemma healthy_write [simp]: "fdb_write u (healthy t) = (Ok (), healthy (u t))"
  by (simp add: fdb_write_def)

lemma healthy_data [simp]: "fdb_data (healthy t) = t"
  by (simp add: healthy_def)

end
