(* ===== verification/LockProviders.thy ===== *)
theory LockProviders
  imports Locking FaultyDb
begin

text \<open>
  The providers behind the \<open>Lock\<close> interface: \<open>NoOpLock\<close> and the choice of a provider
  (\<open>locking.go\<close>), \<open>MockLock\<close> (\<open>mock.go\<close>), \<open>BackendDBLock\<close> on the backend's
  database, and the locks on DynamoDB, Google Cloud Storage and Azure tables.  The SDK clients
  are parameters; what their documentation promises of the table is a predicate on the client.
\<close>

section \<open>\<open>NoOpLock\<close> and \<open>MockLock\<close>\<close>

definition noop_ops :: "'s lock_ops" where
  "noop_ops =
     \<lparr>op_lock = (\<lambda>transactionId resource. act_ret True),
      op_unlock = (\<lambda>resource. act_ret True),
      op_get = (\<lambda>resource. act_ret None)\<rparr>"

definition mock_ops :: "(string \<times> int) list lock_ops" where
  "mock_ops =
     \<lparr>op_lock = (\<lambda>transactionId resource.
        act_bind (act_modify (AList.update resource transactionId)) (\<lambda>_. act_ret True)),
      op_unlock = (\<lambda>resource. act_bind (act_modify (AList.delete resource)) (\<lambda>_. act_ret True)),
      op_get = (\<lambda>resource. act_gets (\<lambda>m. map_of m resource))\<rparr>"

interpretation mock_lock: lock_store mock_ops "\<lambda>r. r" map_of "\<lambda>_. True"
  by unfold_locales (auto simp: mock_ops_def act_bind_def)

section \<open>\<open>BackendDBLock\<close>\<close>

text \<open>The rows of \<open>digger_locks\<close> that are not deleted, oldest first: \<open>Save\<close> of a new record
  appends it (no index of the table is unique), \<open>First\<close> takes the oldest match.\<close>

record lock_row =
  lr_Resource :: string
  lr_LockId :: int
  lr_OrganisationID :: nat

type_synonym lock_db = "lock_row list fdb"

definition CreateDiggerLock :: "string \<Rightarrow> int \<Rightarrow> nat \<Rightarrow> (unit, lock_db) act" where
  "CreateDiggerLock resource lockId orgId =
     fdb_query (\<lambda>rows. ((), rows @ [\<lparr>lr_Resource = resource, lr_LockId = lockId,
                                      lr_OrganisationID = orgId\<rparr>]))"

text \<open>\<open>ErrRecordNotFound\<close> is the answer \<open>None\<close>.\<close>

definition GetDiggerLock :: "string \<Rightarrow> (lock_row option, lock_db) act" where
  "GetDiggerLock resource = fdb_query (\<lambda>rows. (find (\<lambda>l. lr_Resource l = resource) rows, rows))"

definition GetLocksForOrg :: "nat \<Rightarrow> (lock_row list, lock_db) act" where
  "GetLocksForOrg orgId = fdb_query (\<lambda>rows. (filter (\<lambda>l. lr_OrganisationID l = orgId) rows, rows))"

text \<open>\<open>like\<close> is the database's \<open>LIKE\<close>.\<close>

definition DeleteAllLocksAcquiredByPR ::
  "(string \<Rightarrow> string \<Rightarrow> bool) \<Rightarrow> int \<Rightarrow> string \<Rightarrow> nat \<Rightarrow> (unit, lock_db) act" where
  "DeleteAllLocksAcquiredByPR like prNumber repoFullName orgId =
     act_wrap (\<lambda>e. ''could not delete all locks: '' @ e)
       (fdb_query (\<lambda>rows. ((), filter (\<lambda>l. \<not> (lr_LockId l = prNumber \<and> lr_OrganisationID l = orgId \<and>
            like (lr_Resource l) (repoFullName @ ''%''))) rows)))"

definition backend_ops :: "nat \<Rightarrow> lock_db lock_ops" where
  "backend_ops orgId =
     \<lparr>op_lock = (\<lambda>lockId resource.
        act_bind (act_wrap (\<lambda>e. ''could not create lock record: '' @ e)
            (CreateDiggerLock resource lockId orgId))
          (\<lambda>_. act_ret True)),
      op_unlock = (\<lambda>resource.
        act_bind (act_wrap (\<lambda>e. ''could not delete all locks: '' @ e)
            (fdb_query (\<lambda>rows. ((), filter (\<lambda>l. lr_Resource l \<noteq> resource) rows))))
          (\<lambda>_. act_ret True)),
      op_get = (\<lambda>resource.
        act_bind (act_wrap (\<lambda>e. ''could not get lock record: '' @ e) (GetDiggerLock resource))
          (\<lambda>l. act_ret (map_option lr_LockId l)))\<rparr>"

definition db_holder :: "lock_db \<Rightarrow> string \<Rightarrow> int option" where
  "db_holder d r = map_option lr_LockId (find (\<lambda>l. lr_Resource l = r) (fdb_data d))"

lemma find_filter_other:
  "find (\<lambda>l. lr_Resource l = r') (filter (\<lambda>l. lr_Resource l \<noteq> r) xs) =
   (if r' = r then None else find (\<lambda>l. lr_Resource l = r') xs)"
  by (induction xs) auto

lemma db_holder_rows: "fdb_data d' = fdb_data d \<Longrightarrow> db_holder d' = db_holder d"
  by (rule ext) (simp add: db_holder_def)

lemma db_holder_insert:
  "db_holder d r = None \<Longrightarrow> fdb_data d' = fdb_data d @ [l] \<Longrightarrow> lr_Resource l = r \<Longrightarrow>
   db_holder d' = (db_holder d)(r \<mapsto> lr_LockId l)"
  by (rule ext) (auto simp: db_holder_def find_append split: option.splits)

lemma db_holder_delete:
  "fdb_data d' = filter (\<lambda>l. lr_Resource l \<noteq> r) (fdb_data d) \<Longrightarrow>
   db_holder d' = (db_holder d)(r := None)"
  by (rule ext) (simp add: db_holder_def find_filter_other)

interpretation backend_lock: lock_store "backend_ops orgId" "\<lambda>r. r" db_holder "\<lambda>_. True" for orgId
proof
  fix s s' :: lock_db and r x
  assume g: "op_get (backend_ops orgId) r s = (x, s')"
  obtain y s1 where q: "GetDiggerLock r s = (y, s1)" by (cases "GetDiggerLock r s")
  have "s' = s1 \<and> (\<forall>h. x = Ok h \<longrightarrow> (\<exists>l. y = Ok l \<and> h = map_option lr_LockId l))"
    using g q by (cases y) (auto simp: backend_ops_def act_bind_def act_wrap_def)
  moreover have "fdb_data s1 = fdb_data s"
    using q by (cases y) (auto simp: GetDiggerLock_def fdb_query_no_Panic dest: fdb_query_Ok fdb_query_Err)
  moreover have "y = Ok l \<Longrightarrow> map_option lr_LockId l = db_holder s r" for l
    using q by (auto simp: GetDiggerLock_def db_holder_def dest: fdb_query_Ok)
  ultimately show "True \<and> db_holder s' = db_holder s \<and> (\<forall>h. x = Ok h \<longrightarrow> h = db_holder s r)"
    using db_holder_rows [of s1 s] by blast
next
  fix s s' :: lock_db and r t b
  assume free: "db_holder s r = None" and l: "op_lock (backend_ops orgId) t r s = (b, s')"
  obtain y s1 where q: "CreateDiggerLock r t orgId s = (y, s1)"
    by (cases "CreateDiggerLock r t orgId s")
  have s1: "s' = s1 \<and> (b = Ok True \<longrightarrow> y = Ok ())"
    using l q by (cases y) (auto simp: backend_ops_def act_bind_def act_wrap_def)
  have "y = Ok () \<longrightarrow> db_holder s1 = (db_holder s)(r \<mapsto> t)"
    using q fdb_query_Ok db_holder_insert [OF free, of s1] by (fastforce simp: CreateDiggerLock_def)
  moreover have "y \<noteq> Ok () \<longrightarrow> db_holder s1 = db_holder s"
    using q by (cases y) (auto simp: CreateDiggerLock_def fdb_query_no_Panic
        dest!: fdb_query_Err intro!: db_holder_rows)
  ultimately show "True \<and> (db_holder s' = db_holder s \<or> db_holder s' = (db_holder s)(r \<mapsto> t)) \<and>
      (b = Ok True \<longrightarrow> db_holder s' = (db_holder s)(r \<mapsto> t))"
    using s1 by blast
next
  fix s s' :: lock_db and r b
  assume u: "op_unlock (backend_ops orgId) r s = (b, s')"
  let ?q = "\<lambda>rows. ((), filter (\<lambda>l. lr_Resource l \<noteq> r) rows)"
  obtain y s1 where q: "fdb_query ?q s = (y, s1)" by (cases "fdb_query ?q s")
  have s1: "s' = s1 \<and> (b = Ok True \<longrightarrow> y = Ok ())"
    using u q by (cases y) (auto simp: backend_ops_def act_bind_def act_wrap_def)
  have "y = Ok () \<longrightarrow> db_holder s1 = (db_holder s)(r := None)"
    using q by (auto dest!: fdb_query_Ok intro!: db_holder_delete)
  moreover have "y \<noteq> Ok () \<longrightarrow> db_holder s1 = db_holder s"
    using q by (cases y) (auto simp: fdb_query_no_Panic dest!: fdb_query_Err intro!: db_holder_rows)
  ultimately show "True \<and> (db_holder s' = db_holder s \<or> db_holder s' = (db_holder s)(r := None)) \<and>
      (b = Ok True \<longrightarrow> db_holder s' r = None)"
    using s1 by auto
qed

section \<open>Azure tables (\<open>storage_account.go\<close>)\<close>

text \<open>The table client: entities are read page by page, each page a failure or the entities'
  bytes; \<open>az_transaction_id\<close> is the property of an unmarshalled entity, which the code
  asserts to be an \<open>int32\<close>.\<close>

datatype edm_value = EdmInt32 int | EdmOther

record 's azure_client =
  az_add :: "string \<Rightarrow> int \<Rightarrow> 's \<Rightarrow> (error + unit) \<times> 's"
  az_delete :: "string \<Rightarrow> 's \<Rightarrow> (error + unit) \<times> 's"
  az_list :: "string \<Rightarrow> 's \<Rightarrow> (error + string list) list"
  az_transaction_id :: "string \<Rightarrow> error + edm_value"

definition replace_char :: "char \<Rightarrow> char \<Rightarrow> string \<Rightarrow> string" where
  "replace_char a b s = map (\<lambda>c. if c = a then b else c) s"

definition normalizeResourceName :: "string \<Rightarrow> string" where
  "normalizeResourceName resourceName =
     replace_char (CHR ''#'') (CHR ''-'') (replace_char (CHR ''/'') (CHR ''-'') resourceName)"

definition azure_Lock :: "'s azure_client \<Rightarrow> int \<Rightarrow> string \<Rightarrow> (bool, 's) act" where
  "azure_Lock c transactionId resource s =
     (case az_add c (normalizeResourceName resource) transactionId s of
        (Inl e, s') \<Rightarrow>
          if str_contains e ''EntityAlreadyExists'' then (Ok False, s')
          else (Err (''could not add entity: '' @ CHR 0x0A # e), s')
      | (Inr _, s') \<Rightarrow> (Ok True, s'))"

definition azure_Unlock :: "'s azure_client \<Rightarrow> string \<Rightarrow> (bool, 's) act" where
  "azure_Unlock c resource s =
     (case az_delete c (normalizeResourceName resource) s of
        (Inl e, s') \<Rightarrow> (Err (''could not delete lock: '' @ e), s')
      | (Inr _, s') \<Rightarrow> (Ok True, s'))"

fun azure_pages :: "'s azure_client \<Rightarrow> (error + string list) list \<Rightarrow> int option res" where
  "azure_pages c [] = Ok None"
| "azure_pages c (Inl e # ps) = Err (''could not retrieve the entities: '' @ e)"
| "azure_pages c (Inr [] # ps) = azure_pages c ps"
| "azure_pages c (Inr (b # bs) # ps) =
     (case az_transaction_id c b of
        Inl e \<Rightarrow> Err (''could not unmarshall entity: '' @ e)
      | Inr (EdmInt32 t) \<Rightarrow> Ok (Some t)
      | Inr EdmOther \<Rightarrow> Panic ''interface conversion'')"

definition azure_GetLock :: "'s azure_client \<Rightarrow> string \<Rightarrow> (int option, 's) act" where
  "azure_GetLock c resource s = (azure_pages c (az_list c (normalizeResourceName resource) s), s)"

definition azure_ops :: "'s azure_client \<Rightarrow> 's lock_ops" where
  "azure_ops c = \<lparr>op_lock = azure_Lock c, op_unlock = azure_Unlock c, op_get = azure_GetLock c\<rparr>"

text \<open>What Azure documents of a table: adding an entity whose keys are taken fails, and a call
  that fails may or may not have been carried out, except that nothing is ever overwritten.\<close>

definition azure_table :: "'s azure_client \<Rightarrow> ('s \<Rightarrow> string \<Rightarrow> int option) \<Rightarrow> bool" where
  "azure_table c rows \<longleftrightarrow>
     (\<forall>s k t x s'. az_add c k t s = (x, s') \<longrightarrow>
        (if rows s k = None then rows s' = (rows s)(k \<mapsto> t) \<or> (\<exists>e. x = Inl e \<and> rows s' = rows s)
         else (\<exists>e. x = Inl e) \<and> rows s' = rows s)) \<and>
     (\<forall>s k x s'. az_delete c k s = (x, s') \<longrightarrow>
        rows s' = (rows s)(k := None) \<or> (\<exists>e. x = Inl e \<and> rows s' = rows s)) \<and>
     (\<forall>s k h. azure_pages c (az_list c k s) = Ok h \<longrightarrow> h = rows s k)"

lemma azure_cas:
  assumes "azure_table c rows"
  shows "cas_lock_store (azure_ops c) normalizeResourceName rows (\<lambda>_. True)"
proof
  fix s s' r x
  assume "op_get (azure_ops c) r s = (x, s')"
  with assms show "True \<and> rows s' = rows s \<and> (\<forall>h. x = Ok h \<longrightarrow> h = rows s (normalizeResourceName r))"
    unfolding azure_table_def by (simp add: azure_ops_def azure_GetLock_def) blast
next
  fix s s' r and t :: int and b
  assume free: "rows s (normalizeResourceName r) = None" and l: "op_lock (azure_ops c) t r s = (b, s')"
  obtain x s1 where a: "az_add c (normalizeResourceName r) t s = (x, s1)"
    by (cases "az_add c (normalizeResourceName r) t s")
  from assms a free have
    "rows s1 = (rows s)(normalizeResourceName r \<mapsto> t) \<or> (\<exists>e. x = Inl e \<and> rows s1 = rows s)"
    unfolding azure_table_def by (metis (no_types))
  with l a show "True \<and> (rows s' = rows s \<or> rows s' = (rows s)(normalizeResourceName r \<mapsto> t)) \<and>
      (b = Ok True \<longrightarrow> rows s' = (rows s)(normalizeResourceName r \<mapsto> t))"
    by (auto simp: azure_ops_def azure_Lock_def split: sum.splits if_splits)
next
  fix s s' r b
  assume u: "op_unlock (azure_ops c) r s = (b, s')"
  obtain x s1 where a: "az_delete c (normalizeResourceName r) s = (x, s1)"
    by (cases "az_delete c (normalizeResourceName r) s")
  from assms a have
    "rows s1 = (rows s)(normalizeResourceName r := None) \<or> (\<exists>e. x = Inl e \<and> rows s1 = rows s)"
    unfolding azure_table_def by (metis (no_types))
  with u a show "True \<and> (rows s' = rows s \<or> rows s' = (rows s)(normalizeResourceName r := None)) \<and>
      (b = Ok True \<longrightarrow> rows s' (normalizeResourceName r) = None)"
    by (auto simp: azure_ops_def azure_Unlock_def split: sum.splits)
next
  fix s s' r h t b
  assume held: "rows s (normalizeResourceName r) = Some h" and l: "op_lock (azure_ops c) t r s = (b, s')"
  obtain x s1 where a: "az_add c (normalizeResourceName r) t s = (x, s1)"
    by (cases "az_add c (normalizeResourceName r) t s")
  from assms a held have "(\<exists>e. x = Inl e) \<and> rows s1 = rows s"
    unfolding azure_table_def by (metis (no_types) option.distinct(1))
  with l a show "True \<and> rows s' = rows s \<and> b \<noteq> Ok True"
    by (auto simp: azure_ops_def azure_Lock_def split: sum.splits if_splits)
qed

section \<open>DynamoDB (\<open>dynamo_locking.go\<close>)\<close>

datatype aws_error = ResourceNotFound | ConditionalCheckFailed | OtherApi string

fun aws_msg :: "aws_error \<Rightarrow> error" where
  "aws_msg ResourceNotFound = ''ResourceNotFoundException''"
| "aws_msg ConditionalCheckFailed = ''ConditionalCheckFailedException''"
| "aws_msg (OtherApi e) = e"

text \<open>The client of one table; an item is read as the SDK's attribute map, which
  \<open>dc_unmarshal\<close> turns into a transaction id (0 when the item or the attribute is
  absent).\<close>

record ('s, 'i) dynamo_client =
  dc_describe :: "'s \<Rightarrow> (aws_error + string) \<times> 's"
  dc_create :: "'s \<Rightarrow> (aws_error + unit) \<times> 's"
  dc_update :: "string \<Rightarrow> int \<Rightarrow> string \<Rightarrow> string \<Rightarrow> 's \<Rightarrow> (aws_error + unit) \<times> 's"
  dc_delete :: "string \<Rightarrow> 's \<Rightarrow> (aws_error + unit) \<times> 's"
  dc_get :: "string \<Rightarrow> 's \<Rightarrow> (aws_error + 'i) \<times> 's"
  dc_unmarshal :: "'i \<Rightarrow> error + int"

definition TableCreationRetryCount :: nat where
  "TableCreationRetryCount = 10"

definition isResourceNotFoundException :: "aws_error \<Rightarrow> bool" where
  "isResourceNotFoundException e = (e = ResourceNotFound)"

text \<open>The loop of \<open>waitUntilTableCreated\<close>, with the retries that are left; \<open>None\<close> is the
  nil answer of a failed call, whose table the loop reads.\<close>

fun wait_loop :: "('s, 'i) dynamo_client \<Rightarrow> nat \<Rightarrow> string option \<Rightarrow> (unit, 's) act" where
  "wait_loop c left None s = (Panic ''nil pointer dereference'', s)"
| "wait_loop c left (Some status) s =
     (if status = ''ACTIVE'' then (Ok (), s)
      else
        (case dc_describe c s of
           (Inl e, s') \<Rightarrow>
             if \<not> isResourceNotFoundException e then (Err (aws_msg e), s')
             else (case left of
                     0 \<Rightarrow> (Err ''DynamoDB table creation timed out'', s')
                   | Suc n \<Rightarrow> wait_loop c n None s')
         | (Inr status', s') \<Rightarrow>
             (case left of
                0 \<Rightarrow> (Err ''DynamoDB table creation timed out'', s')
              | Suc n \<Rightarrow> wait_loop c n (Some status') s')))"

declare wait_loop.simps [simp del]

definition waitUntilTableCreated :: "('s, 'i) dynamo_client \<Rightarrow> (unit, 's) act" where
  "waitUntilTableCreated c s =
     (case dc_describe c s of
        (Inl e, s') \<Rightarrow>
          if \<not> isResourceNotFoundException e then (Err (aws_msg e), s')
          else wait_loop c TableCreationRetryCount None s'
      | (Inr status, s') \<Rightarrow> wait_loop c TableCreationRetryCount (Some status) s')"

definition createTableIfNotExists :: "('s, 'i) dynamo_client \<Rightarrow> (unit, 's) act" where
  "createTableIfNotExists c s =
     (case dc_describe c s of
        (Inr _, s1) \<Rightarrow> (Ok (), s1)
      | (Inl _, s1) \<Rightarrow>
          (case dc_create c s1 of
             (Inl e, s2) \<Rightarrow> (Err (aws_msg e), s2)
           | (Inr _, s2) \<Rightarrow> waitUntilTableCreated c s2))"

text \<open>\<open>now\<close> and \<open>newTimeout\<close> are the two clock readings of \<open>Lock\<close>, formatted.\<close>

definition dynamo_Lock ::
  "('s, 'i) dynamo_client \<Rightarrow> string \<Rightarrow> string \<Rightarrow> int \<Rightarrow> string \<Rightarrow> (bool, 's) act" where
  "dynamo_Lock c now newTimeout transactionId resource =
     act_bind (createTableIfNotExists c) (\<lambda>_ s.
       case dc_update c (''RES#'' @ resource) transactionId now newTimeout s of
         (Inl e, s') \<Rightarrow> (if e = ConditionalCheckFailed then (Ok False, s') else (Err (aws_msg e), s'))
       | (Inr _, s') \<Rightarrow> (Ok True, s'))"

definition dynamo_Unlock :: "('s, 'i) dynamo_client \<Rightarrow> string \<Rightarrow> (bool, 's) act" where
  "dynamo_Unlock c resource =
     act_bind (createTableIfNotExists c) (\<lambda>_ s.
       case dc_delete c (''RES#'' @ resource) s of
         (Inl e, s') \<Rightarrow> (Err (aws_msg e), s')
       | (Inr _, s') \<Rightarrow> (Ok True, s'))"

definition dynamo_GetLock :: "('s, 'i) dynamo_client \<Rightarrow> string \<Rightarrow> (int option, 's) act" where
  "dynamo_GetLock c lockId =
     act_bind (createTableIfNotExists c) (\<lambda>_ s.
       case dc_get c (''RES#'' @ lockId) s of
         (Inl e, s') \<Rightarrow> (Err (aws_msg e), s')
       | (Inr item, s') \<Rightarrow>
           (case dc_unmarshal c item of
              Inl e \<Rightarrow> (Err e, s')
            | Inr t \<Rightarrow> (Ok (if t \<noteq> 0 then Some t else None), s')))"

definition dynamo_ops :: "('s, 'i) dynamo_client \<Rightarrow> string \<Rightarrow> string \<Rightarrow> 's lock_ops" where
  "dynamo_ops c now newTimeout =
     \<lparr>op_lock = dynamo_Lock c now newTimeout, op_unlock = dynamo_Unlock c,
      op_get = dynamo_GetLock c\<rparr>"

text \<open>What DynamoDB documents: describing and creating the table leaves its items, a
  conditional update writes the item when it is absent or its timeout is before \<open>now\<close> and leaves it
  otherwise, a consistent read sees the item.  A failed call may have been carried out.\<close>

definition dynamo_table ::
  "('s, 'i) dynamo_client \<Rightarrow> ('s \<Rightarrow> string \<Rightarrow> (int \<times> string) option) \<Rightarrow>
   (string \<Rightarrow> string \<Rightarrow> bool) \<Rightarrow> bool" where
  "dynamo_table c items before \<longleftrightarrow>
     (\<forall>s. items (snd (dc_describe c s)) = items s) \<and>
     (\<forall>s. items (snd (dc_create c s)) = items s) \<and>
     (\<forall>s k t now new x s'. dc_update c k t now new s = (x, s') \<longrightarrow>
        (if case items s k of None \<Rightarrow> True | Some (_, timeout) \<Rightarrow> before timeout now
         then items s' = (items s)(k \<mapsto> (t, new)) \<or> (\<exists>e. x = Inl e \<and> items s' = items s)
         else (\<exists>e. x = Inl e) \<and> items s' = items s)) \<and>
     (\<forall>s k x s'. dc_delete c k s = (x, s') \<longrightarrow>
        items s' = (items s)(k := None) \<or> (\<exists>e. x = Inl e \<and> items s' = items s)) \<and>
     (\<forall>s k x s'. dc_get c k s = (x, s') \<longrightarrow> items s' = items s \<and>
        (\<forall>i t. x = Inr i \<longrightarrow> dc_unmarshal c i = Inr t \<longrightarrow>
           t = (case items s k of None \<Rightarrow> 0 | Some (t, _) \<Rightarrow> t)))"

definition dynamo_holder :: "('s \<Rightarrow> string \<Rightarrow> (int \<times> string) option) \<Rightarrow> 's \<Rightarrow> string \<Rightarrow> int option" where
  "dynamo_holder items s k = map_option fst (items s (''RES#'' @ k))"

definition dynamo_inv :: "('s \<Rightarrow> string \<Rightarrow> (int \<times> string) option) \<Rightarrow> 's \<Rightarrow> bool" where
  "dynamo_inv items s \<longleftrightarrow> (\<forall>k t to. items s k = Some (t, to) \<longrightarrow> t \<noteq> 0)"

lemma wait_loop_items:
  assumes "\<forall>s. items (snd (dc_describe c s)) = items s"
  shows "items (snd (wait_loop c n st s)) = items s"
proof (induction n arbitrary: st s)
  case 0
  then show ?case
    using assms [rule_format, of s]
    by (cases st; cases "dc_describe c s")
      (auto simp: wait_loop.simps(1) wait_loop.simps(2) [of c 0 _ s] split: sum.splits)
next
  case (Suc n)
  then show ?case
    using assms [rule_format, of s]
    by (cases st; cases "dc_describe c s")
      (auto simp: wait_loop.simps(1) wait_loop.simps(2) [of c "Suc n" _ s] split: sum.splits)
qed

lemma createTable_items:
  assumes "dynamo_table c items before" and "createTableIfNotExists c s = (x, s')"
  shows "items s' = items s"
proof -
  from assms(1) have d: "\<forall>s. items (snd (dc_describe c s)) = items s"
    and c: "\<forall>s. items (snd (dc_create c s)) = items s" unfolding dynamo_table_def by blast+
  obtain y s1 where 1: "dc_describe c s = (y, s1)" by (cases "dc_describe c s")
  obtain z s2 where 2: "dc_create c s1 = (z, s2)" by (cases "dc_create c s1")
  obtain v s3 where 3: "dc_describe c s2 = (v, s3)" by (cases "dc_describe c s2")
  note eqs = d [rule_format, of s] c [rule_format, of s1] d [rule_format, of s2] 1 2 3
  have w: "items (snd (wait_loop c n st s3)) = items s" for n st
    using wait_loop_items [OF d, of n st s3] eqs by simp
  have "items (snd (createTableIfNotExists c s)) = items s"
    using eqs w by (auto simp: createTableIfNotExists_def waitUntilTableCreated_def split: sum.splits)
  with assms(2) show ?thesis by simp
qed

lemma dynamo_same:
  assumes "items s' = items s"
  shows "dynamo_inv items s' = dynamo_inv items s" "dynamo_holder items s' = dynamo_holder items s"
  using assms by (simp_all add: dynamo_inv_def dynamo_holder_def fun_eq_iff)

lemma dynamo_put:
  assumes "items s' = (items s)(''RES#'' @ r \<mapsto> (t, new))" and "t \<noteq> 0" and "dynamo_inv items s"
  shows "dynamo_inv items s'" "dynamo_holder items s' = (dynamo_holder items s)(r \<mapsto> t)"
proof -
  show "dynamo_inv items s'"
    using assms(2,3) unfolding dynamo_inv_def assms(1) by (metis fun_upd_apply option.inject prod.inject)
  show "dynamo_holder items s' = (dynamo_holder items s)(r \<mapsto> t)"
    by (simp add: dynamo_holder_def fun_eq_iff assms(1))
qed

lemma dynamo_removed:
  assumes "items s' = (items s)(''RES#'' @ r := None)" and "dynamo_inv items s"
  shows "dynamo_inv items s'" "dynamo_holder items s' = (dynamo_holder items s)(r := None)"
proof -
  show "dynamo_inv items s'"
    using assms(2) unfolding dynamo_inv_def assms(1) by (metis fun_upd_apply option.distinct(1))
  show "dynamo_holder items s' = (dynamo_holder items s)(r := None)"
    by (simp add: dynamo_holder_def fun_eq_iff assms(1))
qed

lemma dynamo_lock_store:
  assumes "dynamo_table c items before"
  shows "lock_store (dynamo_ops c now new) (\<lambda>r. r) (dynamo_holder items) (dynamo_inv items)"
proof
  fix s s' r x
  assume inv: "dynamo_inv items s" and "op_get (dynamo_ops c now new) r s = (x, s')"
  then have g: "dynamo_GetLock c r s = (x, s')" by (simp add: dynamo_ops_def)
  obtain y s1 where 1: "createTableIfNotExists c s = (y, s1)" by (cases "createTableIfNotExists c s")
  obtain z s2 where 2: "dc_get c (''RES#'' @ r) s1 = (z, s2)" by (cases "dc_get c (''RES#'' @ r) s1")
  from createTable_items [OF assms 1] have i1: "items s1 = items s" .
  from assms 2 have i2: "items s2 = items s1" and
    v: "\<forall>i t. z = Inr i \<longrightarrow> dc_unmarshal c i = Inr t \<longrightarrow>
      t = (case items s1 (''RES#'' @ r) of None \<Rightarrow> 0 | Some (t, _) \<Rightarrow> t)"
    unfolding dynamo_table_def by blast+
  have s': "items s' = items s"
    using g 1 2 i1 i2 by (cases y) (auto simp: dynamo_GetLock_def act_bind_def split: sum.splits)
  have x: "h = dynamo_holder items s r" if "x = Ok h" for h
    using g 1 2 i1 v that inv
    by (cases y) (auto simp: dynamo_GetLock_def act_bind_def dynamo_holder_def dynamo_inv_def
        split: sum.splits option.splits if_splits)
  from s' x inv show "dynamo_inv items s' \<and> dynamo_holder items s' = dynamo_holder items s \<and>
      (\<forall>h. x = Ok h \<longrightarrow> h = dynamo_holder items s r)"
    using dynamo_same [of items s' s] by blast
next
  fix s s' r and t :: int and b
  assume inv: "dynamo_inv items s" and t: "0 < t" and free: "dynamo_holder items s r = None"
    and "op_lock (dynamo_ops c now new) t r s = (b, s')"
  then have l: "dynamo_Lock c now new t r s = (b, s')" by (simp add: dynamo_ops_def)
  obtain y s1 where 1: "createTableIfNotExists c s = (y, s1)" by (cases "createTableIfNotExists c s")
  obtain z s2 where 2: "dc_update c (''RES#'' @ r) t now new s1 = (z, s2)"
    by (cases "dc_update c (''RES#'' @ r) t now new s1")
  from createTable_items [OF assms 1] have i1: "items s1 = items s" .
  from free i1 have n: "items s1 (''RES#'' @ r) = None" by (simp add: dynamo_holder_def)
  from assms have "\<forall>s k t now new x s'. dc_update c k t now new s = (x, s') \<longrightarrow>
      (if case items s k of None \<Rightarrow> True | Some (_, timeout) \<Rightarrow> before timeout now
       then items s' = (items s)(k \<mapsto> (t, new)) \<or> (\<exists>e. x = Inl e \<and> items s' = items s)
       else (\<exists>e. x = Inl e) \<and> items s' = items s)"
    unfolding dynamo_table_def by (elim conjE)
  from this [rule_format, OF 2] n have i2: "items s2 = (items s1)(''RES#'' @ r \<mapsto> (t, new)) \<or>
      (\<exists>e. z = Inl e \<and> items s2 = items s1)"
    by (simp del: fun_upd_apply)
  have "(items s' = items s \<or> items s' = (items s)(''RES#'' @ r \<mapsto> (t, new))) \<and>
      (b = Ok True \<longrightarrow> items s' = (items s)(''RES#'' @ r \<mapsto> (t, new)))"
    using l 1 2 i1 i2
    by (cases y) (auto simp: dynamo_Lock_def act_bind_def split: sum.splits if_splits)
  then show "dynamo_inv items s' \<and>
      (dynamo_holder items s' = dynamo_holder items s \<or>
       dynamo_holder items s' = (dynamo_holder items s)(r \<mapsto> t)) \<and>
      (b = Ok True \<longrightarrow> dynamo_holder items s' = (dynamo_holder items s)(r \<mapsto> t))"
    using inv t dynamo_same [of items s' s] dynamo_put [of items s' s r t new]
    by (metis less_int_code(1))
next
  fix s s' r b
  assume inv: "dynamo_inv items s" and "op_unlock (dynamo_ops c now new) r s = (b, s')"
  then have u: "dynamo_Unlock c r s = (b, s')" by (simp add: dynamo_ops_def)
  obtain y s1 where 1: "createTableIfNotExists c s = (y, s1)" by (cases "createTableIfNotExists c s")
  obtain z s2 where 2: "dc_delete c (''RES#'' @ r) s1 = (z, s2)" by (cases "dc_delete c (''RES#'' @ r) s1")
  from createTable_items [OF assms 1] have i1: "items s1 = items s" .
  from assms 2 have i2: "items s2 = (items s1)(''RES#'' @ r := None) \<or>
      (\<exists>e. z = Inl e \<and> items s2 = items s1)"
    unfolding dynamo_table_def by blast
  have "(items s' = items s \<or> items s' = (items s)(''RES#'' @ r := None)) \<and>
      (b = Ok True \<longrightarrow> items s' = (items s)(''RES#'' @ r := None))"
    using u 1 2 i1 i2
    by (cases y) (auto simp: dynamo_Unlock_def act_bind_def split: sum.splits)
  then show "dynamo_inv items s' \<and>
      (dynamo_holder items s' = dynamo_holder items s \<or>
       dynamo_holder items s' = (dynamo_holder items s)(r := None)) \<and>
      (b = Ok True \<longrightarrow> dynamo_holder items s' r = None)"
    using inv dynamo_same [of items s' s] dynamo_removed [of items s' s r] by (metis fun_upd_same)
qed

section \<open>Google Cloud Storage (\<open>gcp_lock.go\<close>)\<close>

text \<open>The bucket: its own attributes, and an object's metadata, written, read and deleted by
  name.\<close>

record 's gcs_bucket =
  gb_attrs :: "'s \<Rightarrow> error + string"
  gb_write :: "string \<Rightarrow> (string \<times> string) list \<Rightarrow> 's \<Rightarrow> (error + unit) \<times> 's"
  gb_metadata :: "string \<Rightarrow> 's \<Rightarrow> error + (string \<times> string) list"
  gb_delete :: "string \<Rightarrow> 's \<Rightarrow> (error + unit) \<times> 's"

text \<open>A failure to read the bucket's attributes is logged, and then the nil attributes are
  read; a failure to write the object is only logged.\<close>

definition gcs_Lock :: "'s gcs_bucket \<Rightarrow> string \<Rightarrow> int \<Rightarrow> string \<Rightarrow> (bool, 's) act" where
  "gcs_Lock g now transactionId resource s =
     (case gb_attrs g s of
        Inl _ \<Rightarrow> (Panic ''nil pointer dereference'', s)
      | Inr _ \<Rightarrow>
          (case gb_write g resource [(''LockId'', itoa transactionId), (''CreatedAt'', now)] s of
             (_, s') \<Rightarrow> (Ok True, s')))"

text \<open>The value \<open>strconv.Atoi\<close> returns beside its error, which is only logged: the nearest
  64-bit integer when the number is out of range, 0 when there is no number.\<close>

definition atoi_value :: "string \<Rightarrow> int" where
  "atoi_value s =
     (case atoi s of
        Some i \<Rightarrow> i
      | None \<Rightarrow>
          (case s of
             [] \<Rightarrow> 0
           | c # cs \<Rightarrow>
               if parse_nat (if c = CHR ''-'' \<or> c = CHR ''+'' then cs else s) = None then 0
               else if c = CHR ''-'' then - (2 ^ 63) else 2 ^ 63 - 1))"

definition gcs_GetLock :: "'s gcs_bucket \<Rightarrow> string \<Rightarrow> (int option, 's) act" where
  "gcs_GetLock g resource s =
     (case gb_metadata g resource s of
        Inl e \<Rightarrow> if e = ''storage: object doesn'' @ [CHR 0x27] @ ''t exist'' then (Ok None, s) else (Err e, s)
      | Inr md \<Rightarrow>
          (Ok (Some (atoi_value (case map_of md ''LockId'' of None \<Rightarrow> [] | Some v \<Rightarrow> v))), s))"

definition gcs_Unlock :: "'s gcs_bucket \<Rightarrow> string \<Rightarrow> (bool, 's) act" where
  "gcs_Unlock g resource s =
     (case gcs_GetLock g resource s of
        (Ok (Some _), s1) \<Rightarrow>
          (case gb_delete g resource s1 of
             (Inl e, s2) \<Rightarrow> (Err (''failed to delete lock file: '' @ e), s2)
           | (Inr _, s2) \<Rightarrow> (Ok True, s2))
      | (_, s1) \<Rightarrow> (Ok False, s1))"

definition gcs_ops :: "'s gcs_bucket \<Rightarrow> string \<Rightarrow> 's lock_ops" where
  "gcs_ops g now =
     \<lparr>op_lock = gcs_Lock g now, op_unlock = gcs_Unlock g, op_get = gcs_GetLock g\<rparr>"

text \<open>The lock is reported as taken whether or not the object was written, and whoever held it.\<close>

lemma gcs_Lock_always_acquires:
  "gb_attrs g s = Inr n \<Longrightarrow> fst (gcs_Lock g now t r s) = Ok True"
  by (simp add: gcs_Lock_def split: prod.splits)

section \<open>Choosing a provider (\<open>GetLock\<close>)\<close>

definition DoEnvVarsExist :: "(string \<Rightarrow> string) \<Rightarrow> string list \<Rightarrow> bool" where
  "DoEnvVarsExist getenv envVars =
     foldl (\<lambda>result key. if getenv key \<noteq> [] then True else result) False envVars"

text \<open>What the cloud SDKs answer: AWS configurations (keyed or keyless), the caller's identity,
  a storage client, an Azure client for an authentication method, and the tables it lists.\<close>

datatype azure_auth =
  SharedKey string string string
| ConnectionString string
| ClientSecret string string string string
| ManagedIdentity string

record ('cfg, 'az) cloud_sdk =
  sdk_aws_keyed :: "string \<Rightarrow> string \<Rightarrow> error + 'cfg"
  sdk_aws_keyless :: "string \<Rightarrow> error + 'cfg"
  sdk_identity :: "'cfg \<Rightarrow> error + unit"
  sdk_gcs_client :: "error + unit"
  sdk_azure_cred :: "azure_auth \<Rightarrow> error + unit"
  sdk_azure :: "azure_auth \<Rightarrow> error + 'az"
  sdk_azure_tables :: "'az \<Rightarrow> (error + string list) list"
  sdk_azure_create :: "'az \<Rightarrow> string \<Rightarrow> error + unit"

datatype ('cfg, 'az) lock_provider =
  NoOpProvider | DynamoProvider 'cfg | GcsProvider string | AzureProvider 'az

definition getServiceURL :: "string \<Rightarrow> string" where
  "getServiceURL saName = ''https://'' @ saName @ ''.table.core.windows.net''"

definition azure_client_error :: "string \<Rightarrow> error + 'a \<Rightarrow> error + 'a" where
  "azure_client_error m r = (case r of Inl e \<Rightarrow> Inl (m @ e) | Inr c \<Rightarrow> Inr c)"

definition azure_client_with_cred ::
  "('cfg, 'az) cloud_sdk \<Rightarrow> string \<Rightarrow> string \<Rightarrow> azure_auth \<Rightarrow> error + 'az" where
  "azure_client_with_cred sdk credMsg clientMsg auth =
     (case azure_client_error credMsg (sdk_azure_cred sdk auth) of
        Inl e \<Rightarrow> Inl e
      | Inr _ \<Rightarrow> azure_client_error clientMsg (sdk_azure sdk auth))"

definition getServiceClient ::
  "('cfg, 'az) cloud_sdk \<Rightarrow> (string \<Rightarrow> string) \<Rightarrow> string \<Rightarrow> error + 'az" where
  "getServiceClient sdk getenv authMethod =
     (let saName = getenv ''DIGGER_AZURE_SA_NAME''; url = getServiceURL saName in
      if authMethod = ''SHARED_KEY'' then
        (let key = getenv ''DIGGER_AZURE_SHARED_KEY'' in
         if saName = [] \<or> key = [] then
           Inl ''you must set 'DIGGER_AZURE_SA_NAME' and 'DIGGER_AZURE_SHARED_KEY' environment variable when using shared key authentication''
         else azure_client_with_cred sdk ''could not create shared key credentials: ''
                ''could not create service client with shared key authentication: ''
                (SharedKey url saName key))
      else if authMethod = ''CONNECTION_STRING'' then
        (let connStr = getenv ''DIGGER_AZURE_CONNECTION_STRING'' in
         if connStr = [] then
           Inl ''you must set 'DIGGER_AZURE_CONNECTION_STRING' when using connection string authentication''
         else azure_client_error
                ''could not create service client with connection string authentication: ''
                (sdk_azure sdk (ConnectionString connStr)))
      else if authMethod = ''CLIENT_SECRET'' then
        (let tenantId = getenv ''DIGGER_AZURE_TENANT_ID'';
             clientId = getenv ''DIGGER_AZURE_CLIENT_ID'';
             secret = getenv ''DIGGER_AZURE_CLIENT_SECRET'' in
         if clientId = [] \<or> secret = [] \<or> tenantId = [] \<or> saName = [] then
           Inl ''you must set 'DIGGER_AZURE_CLIENT_ID' and 'DIGGER_AZURE_CLIENT_SECRET' and 'DIGGER_AZURE_TENANT_ID' and 'DIGGER_AZURE_SA_NAME' when using client secret authentication''
         else azure_client_with_cred sdk ''could not create create client secret credential: ''
                ''could not create service client with client secret authentication: ''
                (ClientSecret url tenantId clientId secret))
      else if authMethod = ''MANAGED_IDENTITY'' then
        (if saName = [] then
           Inl ''you must set 'DIGGER_AZURE_SA_NAME' when using managed identity authentication''
         else azure_client_with_cred sdk ''could not create create managed identity credential: ''
                ''could not create service client with managed identity authentication: ''
                (ManagedIdentity url))
      else Inl ''could not initialize service client, because no valid authentication method was found'')"

fun isTableExists :: "(error + string list) list \<Rightarrow> string \<Rightarrow> error + bool" where
  "isTableExists [] table = Inr False"
| "isTableExists (Inl e # ps) table = Inl (''could not retrieve the tables: '' @ e)"
| "isTableExists (Inr ts # ps) table =
     (if table \<in> set ts then Inr True else isTableExists ps table)"

definition azure_createTableIfNotExists :: "('cfg, 'az) cloud_sdk \<Rightarrow> 'az \<Rightarrow> error + unit" where
  "azure_createTableIfNotExists sdk c =
     (case isTableExists (sdk_azure_tables sdk c) ''DIGGERLOCK'' of
        Inl e \<Rightarrow> Inl e
      | Inr True \<Rightarrow> Inr ()
      | Inr False \<Rightarrow>
          (case sdk_azure_create sdk c ''DIGGERLOCK'' of
             Inl e \<Rightarrow> Inl (''could not create table: '' @ e)
           | Inr _ \<Rightarrow> Inr ()))"

definition NewStorageAccountLock ::
  "('cfg, 'az) cloud_sdk \<Rightarrow> (string \<Rightarrow> string) \<Rightarrow> error + 'az" where
  "NewStorageAccountLock sdk getenv =
     (let authMethod = getenv ''DIGGER_AZURE_AUTH_METHOD'' in
      if authMethod = [] then
        Inl (quoted ''DIGGER_AZURE_AUTH_METHOD'' @ '' environment variable must be set to either 'SHARED_KEY' or 'CONNECTION_STRING' or 'CLIENT_SECRET' or 'MANAGED_IDENTITY'')
      else
        (case getServiceClient sdk getenv authMethod of
           Inl e \<Rightarrow> Inl e
         | Inr c \<Rightarrow>
             (case azure_createTableIfNotExists sdk c of
                Inl e \<Rightarrow> Inl (''error while creating table: '' @ e)
              | Inr _ \<Rightarrow> Inr c)))"

definition GetLock ::
  "('cfg, 'az) cloud_sdk \<Rightarrow> (string \<Rightarrow> string) \<Rightarrow> ('cfg, 'az) lock_provider res" where
  "GetLock sdk getenv =
     (let awsRegion = to_lower (getenv ''AWS_REGION'');
          awsProfile = to_lower (getenv ''AWS_PROFILE'');
          lockProvider = to_lower (getenv ''LOCK_PROVIDER'');
          disableLocking = (to_lower (getenv ''DISABLE_LOCKING'') = ''true'') in
      if disableLocking then Ok NoOpProvider
      else if lockProvider = [] \<or> lockProvider = ''aws'' then
        (let cfg = (if DoEnvVarsExist getenv
                         [''DIGGER_AWS_ACCESS_KEY_ID'', ''AWS_ACCESS_KEY_ID'', ''AWS_ACCESS_KEY'']
                    then sdk_aws_keyed sdk awsProfile awsRegion
                    else sdk_aws_keyless sdk awsRegion) in
         case cfg of
           Inl e \<Rightarrow> Err e
         | Inr c \<Rightarrow>
             (case sdk_identity sdk c of
                Inl e \<Rightarrow> Err (''failed to connect to AWS account. '' @ e)
              | Inr _ \<Rightarrow> Ok (DynamoProvider c)))
      else if lockProvider = ''gcp'' then
        (case sdk_gcs_client sdk of
           Inl e \<Rightarrow> Panic (''Failed to create Google Storage client: '' @ e)
         | Inr _ \<Rightarrow>
             (let bucketName = to_lower (getenv ''GOOGLE_STORAGE_LOCK_BUCKET'') in
              if bucketName = [] then Err ''GOOGLE_STORAGE_LOCK_BUCKET is not set''
              else Ok (GcsProvider bucketName)))
      else if lockProvider = ''azure'' then
        (case NewStorageAccountLock sdk getenv of
           Inl e \<Rightarrow> Err e
         | Inr c \<Rightarrow> Ok (AzureProvider c))
      else Err ''failed to find lock provider'')"

lemma DoEnvVarsExist_iff: "DoEnvVarsExist getenv ks \<longleftrightarrow> (\<exists>k \<in> set ks. getenv k \<noteq> [])"
proof -
  have "foldl (\<lambda>r k. if getenv k \<noteq> [] then True else r) b ks \<longleftrightarrow> b \<or> (\<exists>k \<in> set ks. getenv k \<noteq> [])" for b
    by (induction ks arbitrary: b) auto
  then show ?thesis by (simp add: DoEnvVarsExist_def)
qed

end
