(* ===== verification/LockProps.thy ===== *)
theory LockProps
  imports LockProviders
begin

text \<open>
  What locking guarantees, over the providers of the code: \<open>Lock\<close> as a machine that can be
  interleaved, mutual exclusion on a compare-and-set provider, a held lock that survives other
  pull requests, and the races of the providers that do not check.
\<close>

section \<open>A table for the examples\<close>

text \<open>An Azure table held in a list, answering as the documentation says.\<close>

definition list_azure :: "(string \<times> int) list azure_client" where
  "list_azure =
     \<lparr>az_add = (\<lambda>k t s. if map_of s k = None then (Inr (), AList.update k t s)
                        else (Inl ''EntityAlreadyExists'', s)),
      az_delete = (\<lambda>k s. if map_of s k = None then (Inl ''ResourceNotFound'', s)
                        else (Inr (), AList.delete k s)),
      az_list = (\<lambda>k s. [Inr [], Inr (case map_of s k of None \<Rightarrow> [] | Some t \<Rightarrow> [itoa t])]),
      az_transaction_id = (\<lambda>b. case atoi b of None \<Rightarrow> Inl ''bad json'' | Some t \<Rightarrow> Inr (EdmInt32 t))\<rparr>"

lemma list_azure_table: "azure_table list_azure map_of"
  unfolding azure_table_def
proof (intro conjI allI impI)
  fix s k t x s'
  assume "az_add list_azure k t s = (x, s')"
  then show "if map_of s k = None
       then map_of s' = (map_of s)(k \<mapsto> t) \<or> (\<exists>e. x = Inl e \<and> map_of s' = map_of s)
       else (\<exists>e. x = Inl e) \<and> map_of s' = map_of s"
    by (auto simp: list_azure_def split: if_splits)
next
  fix s k x s'
  assume "az_delete list_azure k s = (x, s')"
  then show "map_of s' = (map_of s)(k := None) \<or> (\<exists>e. x = Inl e \<and> map_of s' = map_of s)"
    by (auto simp: list_azure_def split: if_splits)
next
  fix s k h
  assume "azure_pages list_azure (az_list list_azure k s) = Ok h"
  then show "h = map_of s k"
    by (auto simp: list_azure_def split: option.splits) (metis atoi_itoa_Some)
qed

definition open_prs :: pr_env where
  "open_prs = \<lparr>supports_markdown = True, is_closed = (\<lambda>_. Inr False)\<rparr>"

definition pr_of :: "int \<Rightarrow> pr_lock" where
  "pr_of n = \<lparr>pr_project = ''app'', pr_namespace = ''org/repo'', pr_number = n\<rparr>"

section \<open>The machine\<close>


section \<open>Mutual exclusion\<close>


definition azure_run :: "nat list \<Rightarrow> lock_pc list \<times> (string \<times> int) list" where
  "azure_run sched =
     interleave (azure_ops list_azure) open_prs [pr_of 1, pr_of 2] sched ([AtVerify, AtVerify], [])"

lemma azure_run_first:
  "fst (azure_run [0, 1, 0, 1, 0, 1]) ! 0 = Done (Ok True)"
  by code_simp


text \<open>The same interleaving on the backend's database gives the lock to both pull requests: its
  \<open>Lock\<close> inserts a second row.\<close>

lemma backend_lock_race:
  "fst (interleave (backend_ops 1) open_prs [pr_of 1, pr_of 2] [0, 1, 0, 1, 0, 1]
     ([AtVerify, AtVerify], \<lparr>fdb_data = [], fdb_faults = []\<rparr>)) =
   [Done (Ok True), Done (Ok True)]"
  by code_simp

text \<open>And when the holder is closed, even the compare-and-set provider does: the second
  request releases the lock the first has just taken, since a release does not name its holder.\<close>

lemma azure_release_race:
  "fst (interleave (azure_ops list_azure)
     \<lparr>supports_markdown = True, is_closed = (\<lambda>t. Inr (t = 9))\<rparr> [pr_of 1, pr_of 2]
     [0, 1, 0, 0, 0, 1, 1, 1] ([AtVerify, AtVerify], [(''org-repo-app'', 9)])) =
   [Done (Ok True), Done (Ok True)]"
  by code_simp

section \<open>A held lock\<close>

text \<open>Claim C24: on the backend's database, the lock an open pull request holds survives any
  sequence of commands by other pull requests, on any projects, unlocks included and whatever
  queries fail on the way.\<close>

theorem held_lock_survives:
  assumes "\<forall>(p, cmd) \<in> set as. 0 < pr_number p \<and> pr_number p \<noteq> t"
    and "is_closed env t \<noteq> Inr True" and "db_holder (locks w) k = Some t"
  shows "db_holder (locks (run_actions (backend_ops orgId) env as w)) k = Some t"
  using backend_lock.actions_keep_lock [OF _ assms] by simp

definition held_world :: "lock_db lock_world" where
  "held_world =
     \<lparr>locks = \<lparr>fdb_data = [\<lparr>lr_Resource = ''org/repo#app'', lr_LockId = 1, lr_OrganisationID = 1\<rparr>],
               fdb_faults = [None, Some ''connection reset'']\<rparr>, comments = []\<rparr>"

theorem held_lock_survives_witness:
  "db_holder (locks (run_actions (backend_ops 1) open_prs
      [(pr_of 2, CmdPlan), (pr_of 3, CmdUnlock), (pr_of 2, CmdApply)] held_world)) ''org/repo#app'' = Some 1"
proof (rule held_lock_survives)
  show "\<forall>(p, cmd) \<in> set [(pr_of 2, CmdPlan), (pr_of 3, CmdUnlock), (pr_of 2, CmdApply)].
      0 < pr_number p \<and> pr_number p \<noteq> 1"
    by (simp add: pr_of_def)
  show "is_closed open_prs 1 \<noteq> Inr True" by (simp add: open_prs_def)
  show "db_holder (locks held_world) ''org/repo#app'' = Some 1"
    by (simp add: db_holder_def held_world_def)
qed

text \<open>On the backend's database, \<open>Unlock\<close> answers true only when the pull request
  held the lock, which is then free; it never frees another's lock nor touches another
  project.\<close>

theorem unlock_only_own:
  assumes "Unlock (backend_ops orgId) env p w = (x, w')"
  shows "(x = Ok True \<longrightarrow> db_holder (locks w) (LockId p) = Some (pr_number p) \<and>
            db_holder (locks w') (LockId p) = None) \<and>
         (\<forall>t. db_holder (locks w) (LockId p) = Some t \<longrightarrow> t \<noteq> pr_number p \<longrightarrow>
            db_holder (locks w') (LockId p) = Some t) \<and>
         (\<forall>k. k \<noteq> LockId p \<longrightarrow> db_holder (locks w') k = db_holder (locks w) k)"
  using backend_lock.Unlock_cases [OF _ assms] by simp

theorem unlock_only_own_witness:
  "db_holder (locks (snd (Unlock (backend_ops 1) open_prs (pr_of 2) held_world))) ''org/repo#app'' = Some 1"
proof -
  obtain x w' where u: "Unlock (backend_ops 1) open_prs (pr_of 2) held_world = (x, w')"
    by (cases "Unlock (backend_ops 1) open_prs (pr_of 2) held_world")
  have "LockId (pr_of 2) = ''org/repo#app''" and "pr_number (pr_of 2) = 2"
    by (simp_all add: LockId_def pr_of_def)
  moreover have "db_holder (locks held_world) ''org/repo#app'' = Some 1"
    by (simp add: db_holder_def held_world_def)
  ultimately show ?thesis using unlock_only_own [OF u] u by simp
qed

section \<open>DynamoDB\<close>

text \<open>With the lock table on DynamoDB, a \<open>Lock\<close> that answers true leaves the
  project locked by this pull request, and a lock of another pull request that is not closed
  is neither taken over nor answered with true, even after the timeout of its row.\<close>

theorem dynamo_lock_outcome:
  assumes "dynamo_table c items before" and "dynamo_inv items (locks w)" and "0 < pr_number p"
    and "Lock (dynamo_ops c now newTimeout) env p w = (x, w')"
  shows "(x = Ok True \<longrightarrow> dynamo_holder items (locks w') (LockId p) = Some (pr_number p)) \<and>
         (\<forall>t. dynamo_holder items (locks w) (LockId p) = Some t \<longrightarrow> t \<noteq> pr_number p \<longrightarrow>
            is_closed env t \<noteq> Inr True \<longrightarrow>
            dynamo_holder items (locks w') (LockId p) = Some t \<and> x \<noteq> Ok True) \<and>
         (\<forall>k. k \<noteq> LockId p \<longrightarrow> dynamo_holder items (locks w') k = dynamo_holder items (locks w) k)"
  using lock_store.Lock_cases [OF dynamo_lock_store [OF assms(1)] assms(2-4)] by simp

text \<open>A table in a list; timeouts are compared by length, which is enough for the example.\<close>

definition list_dynamo ::
  "((string \<times> (int \<times> string)) list, (int \<times> string) option) dynamo_client" where
  "list_dynamo =
     \<lparr>dc_describe = (\<lambda>s. (Inr ''ACTIVE'', s)),
      dc_create = (\<lambda>s. (Inr (), s)),
      dc_update = (\<lambda>k t now new s.
        if (case map_of s k of None \<Rightarrow> True | Some (_, timeout) \<Rightarrow> length timeout < length now)
        then (Inr (), AList.update k (t, new) s) else (Inl ConditionalCheckFailed, s)),
      dc_delete = (\<lambda>k s. (Inr (), AList.delete k s)),
      dc_get = (\<lambda>k s. (Inr (map_of s k), s)),
      dc_unmarshal = (\<lambda>i. Inr (case i of None \<Rightarrow> 0 | Some (t, _) \<Rightarrow> t))\<rparr>"

lemma list_dynamo_table: "dynamo_table list_dynamo map_of (\<lambda>a b. length a < length b)"
  unfolding dynamo_table_def
  by (intro conjI allI impI)
    (auto simp: list_dynamo_def simp del: fun_upd_apply split: option.splits if_splits prod.splits)

text \<open>The row's timeout is over, and yet pull request 2 does not get the lock of 1.\<close>

theorem dynamo_lock_outcome_witness:
  "fst (Lock (dynamo_ops list_dynamo ''22'' ''333'') open_prs (pr_of 2)
      \<lparr>locks = [(''RES#org/repo#app'', (1, ''1''))], comments = []\<rparr>) \<noteq> Ok True"
proof -
  let ?w = "\<lparr>locks = [(''RES#org/repo#app'', (1 :: int, ''1''))], comments = []\<rparr>"
  obtain x w' where l: "Lock (dynamo_ops list_dynamo ''22'' ''333'') open_prs (pr_of 2) ?w = (x, w')"
    by (cases "Lock (dynamo_ops list_dynamo ''22'' ''333'') open_prs (pr_of 2) ?w")
  have i: "dynamo_inv map_of (locks ?w)" by (simp add: dynamo_inv_def)
  have p: "0 < pr_number (pr_of 2)" by (simp add: pr_of_def)
  have h: "dynamo_holder map_of (locks ?w) (LockId (pr_of 2)) = Some 1"
    by (simp add: dynamo_holder_def LockId_def pr_of_def)
  from dynamo_lock_outcome [OF list_dynamo_table i p l] h l show ?thesis
    by (simp add: open_prs_def pr_of_def)
qed

section \<open>Names on Azure\<close>

text \<open>Two projects whose lock names differ only in the characters Azure does not allow share a
  lock.\<close>

lemma azure_names_collide:
  "normalizeResourceName ''org/repo#a-b'' = normalizeResourceName ''org/repo-a#b''"
  by code_simp

end
