(* ===== verification/BackendDb.thy ===== *)
theory BackendDb
  imports FaultyDb SchedulerOps
begin

text \<open>
  The tables of the backend that scheduling works on, and the queries of
  \<open>backend/models/storage.go\<close> over them.  A table is the list of its rows in the order they were
  created; \<open>Find\<close> into a single record gives the zero record when there is no row.  Time stamps
  are not kept, since rows are in creation order; the random ids of jobs and batches come from
  \<open>fresh\<close>, which the counter of the tables indexes.
\<close>

section \<open>Rows\<close>

record digger_batch =
  db_ID :: string
  db_DiggerBatchID :: string
  db_Layer :: nat
  db_VCS :: string
  db_PrNumber :: int
  db_CommitSha :: string
  db_CommentId :: "int option"
  db_CheckRunId :: "string option"
  db_CheckRunUrl :: "string option"
  db_AiSummaryCommentId :: string
  db_Status :: batch_status
  db_BranchName :: string
  db_DiggerConfig :: string
  db_GithubInstallationId :: int
  db_GitlabProjectId :: int
  db_RepoFullName :: string
  db_RepoOwner :: string
  db_RepoName :: string
  db_BatchType :: digger_command
  db_ReportTerraformOutputs :: bool
  db_CoverAllImpactedProjects :: bool
  db_VCSConnectionId :: "nat option"
  db_SourceDetails :: "string option"

record digger_job_summary =
  js_ResourcesCreated :: nat
  js_ResourcesDeleted :: nat
  js_ResourcesUpdated :: nat

text \<open>The serialized specs that only \<open>CreateCiJobFromSpec\<close> writes are left out.\<close>

record digger_job =
  dj_ID :: nat
  dj_DiggerJobID :: string
  dj_Status :: job_status
  dj_RunName :: string
  dj_ProjectName :: string
  dj_BatchID :: "string option"
  dj_PRCommentUrl :: string
  dj_PRCommentId :: "int option"
  dj_CheckRunId :: "string option"
  dj_CheckRunUrl :: "string option"
  dj_Summary :: digger_job_summary
  dj_SerializedJobSpec :: "string option"
  dj_TerraformOutput :: string
  dj_PlanFootprint :: "string option"
  dj_WorkflowFile :: string
  dj_WorkflowRunUrl :: "string option"
  dj_ReporterType :: string

record parent_link =
  pl_DiggerJobId :: string
  pl_ParentDiggerJobId :: string

datatype job_link_status = DiggerJobLinkCreated | DiggerJobLinkSucceeded | OtherLinkStatus int

record github_job_link =
  gl_DiggerJobId :: string
  gl_RepoFullName :: string
  gl_GithubJobId :: int
  gl_GithubWorkflowRunId :: int
  gl_Status :: job_link_status

record impacted_project =
  ip_RepoFullName :: string
  ip_CommitSha :: string
  ip_PrNumber :: "int option"
  ip_Branch :: "string option"
  ip_ProjectName :: string
  ip_Planned :: bool
  ip_Applied :: bool

text \<open>\<open>DiggerRunStatus\<close> is a string; a value outside the constants is \<open>OtherRunStatus\<close>.\<close>

datatype run_status =
  RunQueued | RunPendingPlan | RunPlanning | RunPendingApproval | RunApproved | RunPendingApply
| RunApplying | RunSucceeded | RunFailed | OtherRunStatus string

datatype run_type = PlanAndApply | PlanOnly

record digger_run_stage =
  rs_ID :: nat
  rs_BatchID :: "string option"

record digger_run =
  dr_ID :: nat
  dr_Triggertype :: string
  dr_PrNumber :: "int option"
  dr_Status :: run_status
  dr_CommitId :: string
  dr_DiggerConfig :: string
  dr_GithubInstallationId :: int
  dr_RepoId :: nat
  dr_ProjectName :: string
  dr_RunType :: run_type
  dr_PlanStageId :: "nat option"
  dr_ApplyStageId :: "nat option"
  dr_IsApproved :: bool
  dr_ApprovalAuthor :: string

text \<open>Deleting a queue item is soft: the row stays, marked.\<close>

record run_queue_item =
  qi_ID :: nat
  qi_DiggerRunId :: nat
  qi_ProjectId :: nat
  qi_Deleted :: bool

record tables =
  t_jobs :: "digger_job list"
  t_batches :: "digger_batch list"
  t_parent_links :: "parent_link list"
  t_job_links :: "github_job_link list"
  t_impacted :: "impacted_project list"
  t_runs :: "digger_run list"
  t_stages :: "digger_run_stage list"
  t_queue :: "run_queue_item list"
  t_next :: nat

section \<open>Zero records\<close>

definition zero_summary :: digger_job_summary where
  "zero_summary =
     \<lparr>js_ResourcesCreated = 0, js_ResourcesDeleted = 0, js_ResourcesUpdated = 0\<rparr>"

definition zero_job :: digger_job where
  "zero_job =
     \<lparr>dj_ID = 0, dj_DiggerJobID = [], dj_Status = OtherStatus 0, dj_RunName = [],
      dj_ProjectName = [], dj_BatchID = None, dj_PRCommentUrl = [], dj_PRCommentId = None,
      dj_CheckRunId = None, dj_CheckRunUrl = None, dj_Summary = zero_summary,
      dj_SerializedJobSpec = None, dj_TerraformOutput = [], dj_PlanFootprint = None,
      dj_WorkflowFile = [], dj_WorkflowRunUrl = None, dj_ReporterType = []\<rparr>"

definition zero_batch :: digger_batch where
  "zero_batch =
     \<lparr>db_ID = [], db_DiggerBatchID = [], db_Layer = 0, db_VCS = [], db_PrNumber = 0,
      db_CommitSha = [], db_CommentId = None, db_CheckRunId = None, db_CheckRunUrl = None,
      db_AiSummaryCommentId = [], db_Status = OtherBatchStatus 0, db_BranchName = [],
      db_DiggerConfig = [], db_GithubInstallationId = 0, db_GitlabProjectId = 0,
      db_RepoFullName = [], db_RepoOwner = [], db_RepoName = [], db_BatchType = CmdOther [],
      db_ReportTerraformOutputs = False, db_CoverAllImpactedProjects = False,
      db_VCSConnectionId = None, db_SourceDetails = None\<rparr>"

definition zero_job_link :: github_job_link where
  "zero_job_link =
     \<lparr>gl_DiggerJobId = [], gl_RepoFullName = [], gl_GithubJobId = 0, gl_GithubWorkflowRunId = 0,
      gl_Status = OtherLinkStatus 0\<rparr>"

definition zero_impacted :: impacted_project where
  "zero_impacted =
     \<lparr>ip_RepoFullName = [], ip_CommitSha = [], ip_PrNumber = None, ip_Branch = None,
      ip_ProjectName = [], ip_Planned = False, ip_Applied = False\<rparr>"

definition first_or :: "'a \<Rightarrow> ('a \<Rightarrow> bool) \<Rightarrow> 'a list \<Rightarrow> 'a" where
  "first_or z P xs = (case find P xs of None \<Rightarrow> z | Some x \<Rightarrow> x)"

text \<open>\<open>Save\<close> of a record with a primary key: updates its row, or inserts it.\<close>

definition save_by :: "('a \<Rightarrow> 'k) \<Rightarrow> 'a \<Rightarrow> 'a list \<Rightarrow> 'a list" where
  "save_by key x xs =
     (if \<exists>y \<in> set xs. key y = key x then map (\<lambda>y. if key y = key x then x else y) xs
      else xs @ [x])"

section \<open>Batches\<close>

definition GetDiggerBatch :: "string \<Rightarrow> (digger_batch, tables fdb) act" where
  "GetDiggerBatch batchId = fdb_read (\<lambda>t. first_or zero_batch (\<lambda>b. db_ID b = batchId) (t_batches t))"

definition GetDiggerBatchFromId :: "string \<Rightarrow> (digger_batch, tables fdb) act" where
  "GetDiggerBatchFromId diggerBatchId =
     fdb_read (\<lambda>t. first_or zero_batch (\<lambda>b. db_DiggerBatchID b = diggerBatchId) (t_batches t))"

text \<open>The arguments of \<open>CreateDiggerBatch\<close> come as the record they are stored in, whose id and
  status the function sets.\<close>

definition CreateDiggerBatch ::
  "(nat \<Rightarrow> string) \<Rightarrow> digger_batch \<Rightarrow> (digger_batch, tables fdb) act" where
  "CreateDiggerBatch fresh b =
     fdb_query (\<lambda>t.
       let uid = fresh (t_next t); diggerBatchId = fresh (Suc (t_next t));
           b' = b\<lparr>db_ID := uid, db_DiggerBatchID := diggerBatchId, db_Layer := 0,
                  db_Status := BatchJobCreated\<rparr>
       in (b', t\<lparr>t_batches := save_by db_ID b' (t_batches t), t_next := Suc (Suc (t_next t))\<rparr>))"

definition UpdateDiggerBatch :: "digger_batch \<Rightarrow> (unit, tables fdb) act" where
  "UpdateDiggerBatch b = fdb_write (\<lambda>t. t\<lparr>t_batches := save_by db_ID b (t_batches t)\<rparr>)"

definition GetDiggerBatchesForPR :: "string \<Rightarrow> int \<Rightarrow> (digger_batch list, tables fdb) act" where
  "GetDiggerBatchesForPR repoFullName prNumber =
     fdb_read (\<lambda>t. filter (\<lambda>b. db_RepoFullName b = repoFullName \<and> db_PrNumber b = prNumber)
                     (t_batches t))"

text \<open>\<open>UpdateBatchStatus\<close> returns the batch it was given, with the status it set in place: an
  error of the final \<open>Save\<close> is only logged.\<close>

definition UpdateBatchStatus :: "digger_batch \<Rightarrow> (digger_batch, tables fdb) act" where
  "UpdateBatchStatus batch =
     (if db_Status batch = BatchJobInvalidated \<or> db_Status batch = BatchJobFailed \<or>
         db_Status batch = BatchJobSucceeded
      then act_ret batch
      else
        act_bind (fdb_read (\<lambda>t. filter (\<lambda>j. dj_BatchID j = Some (db_ID batch)) (t_jobs t)))
          (\<lambda>diggerJobs.
            let allJobsSucceeded =
                  foldl (\<lambda>b j. if dj_Status j \<noteq> DiggerJobSucceeded then False else b) True diggerJobs
            in if allJobsSucceeded then
                 (let batch' = batch\<lparr>db_Status := BatchJobSucceeded\<rparr>
                  in act_bind (act_try (fdb_write (\<lambda>t. t\<lparr>t_batches := save_by db_ID batch' (t_batches t)\<rparr>)))
                       (\<lambda>_. act_ret batch'))
               else act_ret batch))"

section \<open>Jobs\<close>

definition preload_batch :: "tables \<Rightarrow> digger_job \<Rightarrow> digger_batch option" where
  "preload_batch t j =
     (case dj_BatchID j of
        None \<Rightarrow> None
      | Some b \<Rightarrow> find (\<lambda>x. db_ID x = b) (t_batches t))"

type_synonym loaded_job = "digger_job \<times> digger_batch option"

definition CreateDiggerJob ::
  "(nat \<Rightarrow> string) \<Rightarrow> string \<Rightarrow> string option \<Rightarrow> string \<Rightarrow> string option \<Rightarrow> string option \<Rightarrow> string \<Rightarrow>
   string \<Rightarrow> (digger_job, tables fdb) act" where
  "CreateDiggerJob fresh batchId serializedJob workflowFile checkRunId checkRunUrl reporterType
       projectName =
     (if serializedJob = None \<or> serializedJob = Some []
      then act_err ''serializedJob can't be empty''
      else
        act_bind (fdb_write (\<lambda>t. t)) (\<lambda>_.
          fdb_query (\<lambda>t.
            let job =
              \<lparr>dj_ID = Suc (length (t_jobs t)), dj_DiggerJobID = fresh (t_next t),
               dj_Status = DiggerJobCreated, dj_RunName = [], dj_ProjectName = projectName,
               dj_BatchID = Some batchId, dj_PRCommentUrl = [], dj_PRCommentId = None,
               dj_CheckRunId = checkRunId, dj_CheckRunUrl = checkRunUrl,
               dj_Summary = zero_summary, dj_SerializedJobSpec = serializedJob,
               dj_TerraformOutput = [], dj_PlanFootprint = None, dj_WorkflowFile = workflowFile,
               dj_WorkflowRunUrl = Some ''#'', dj_ReporterType = reporterType\<rparr>
            in (job, t\<lparr>t_jobs := t_jobs t @ [job], t_next := Suc (t_next t)\<rparr>))))"

text \<open>A job that was never stored (its primary key is 0) is inserted with the next key.  The summary of a job
  is a row of its own, which saving the job does not change.\<close>

definition stored_summary :: "digger_job \<Rightarrow> tables \<Rightarrow> digger_job_summary" where
  "stored_summary j t =
     (case find (\<lambda>y. dj_ID y = dj_ID j) (t_jobs t) of None \<Rightarrow> dj_Summary j | Some y \<Rightarrow> dj_Summary y)"

definition save_job :: "digger_job \<Rightarrow> tables \<Rightarrow> tables" where
  "save_job j t =
     (let j' = (if dj_ID j = 0 then j\<lparr>dj_ID := Suc (length (t_jobs t))\<rparr>
                else j\<lparr>dj_Summary := stored_summary j t\<rparr>)
      in t\<lparr>t_jobs := save_by dj_ID j' (t_jobs t)\<rparr>)"

definition UpdateDiggerJob :: "digger_job \<Rightarrow> (unit, tables fdb) act" where
  "UpdateDiggerJob j = fdb_write (save_job j)"

definition GetDiggerJob :: "string \<Rightarrow> (loaded_job, tables fdb) act" where
  "GetDiggerJob jobId =
     fdb_read (\<lambda>t. let j = first_or zero_job (\<lambda>j. dj_DiggerJobID j = jobId) (t_jobs t)
                   in (j, preload_batch t j))"

definition GetDiggerCiJob :: "string \<Rightarrow> (loaded_job, tables fdb) act" where
  "GetDiggerCiJob diggerJobId =
     act_bind (fdb_read (\<lambda>t. map_option (\<lambda>j. (j, preload_batch t j))
                  (find (\<lambda>j. dj_DiggerJobID j = diggerJobId) (t_jobs t))))
       (\<lambda>r. case r of None \<Rightarrow> act_err ''ci job not found'' | Some j \<Rightarrow> act_ret j)"

definition GetDiggerJobsForBatch :: "string \<Rightarrow> (loaded_job list, tables fdb) act" where
  "GetDiggerJobsForBatch batchId =
     fdb_read (\<lambda>t. map (\<lambda>j. (j, preload_batch t j))
                     (filter (\<lambda>j. dj_BatchID j = Some batchId) (t_jobs t)))"

definition GetDiggerJobsForBatchWithStatus ::
  "string \<Rightarrow> job_status list \<Rightarrow> (loaded_job list, tables fdb) act" where
  "GetDiggerJobsForBatchWithStatus batchId status =
     fdb_read (\<lambda>t. map (\<lambda>j. (j, preload_batch t j))
                     (filter (\<lambda>j. dj_BatchID j = Some batchId \<and> List.member status (dj_Status j))
                       (t_jobs t)))"

definition GetDiggerJobsWithStatus :: "job_status \<Rightarrow> (loaded_job list, tables fdb) act" where
  "GetDiggerJobsWithStatus status =
     fdb_read (\<lambda>t. map (\<lambda>j. (j, preload_batch t j)) (filter (\<lambda>j. dj_Status j = status) (t_jobs t)))"

text \<open>The left join with the parent links, on the rows that have none.\<close>

definition GetPendingParentDiggerJobs :: "string option \<Rightarrow> (loaded_job list, tables fdb) act" where
  "GetPendingParentDiggerJobs batchId =
     fdb_read (\<lambda>t. map (\<lambda>j. (j, preload_batch t j))
       (filter (\<lambda>j. dj_Status j = DiggerJobCreated \<and>
            \<not> (\<exists>l \<in> set (t_parent_links t). pl_DiggerJobId l = dj_DiggerJobID j) \<and>
            (case batchId of None \<Rightarrow> True | Some b \<Rightarrow> dj_BatchID j = Some b)) (t_jobs t)))"

definition GetDiggerJobParentLinksByParentId :: "string \<Rightarrow> (parent_link list, tables fdb) act" where
  "GetDiggerJobParentLinksByParentId parentId =
     fdb_read (\<lambda>t. filter (\<lambda>l. pl_ParentDiggerJobId l = parentId) (t_parent_links t))"

definition CreateDiggerJobParentLink :: "string \<Rightarrow> string \<Rightarrow> (unit, tables fdb) act" where
  "CreateDiggerJobParentLink parentJobId jobId =
     fdb_write (\<lambda>t. t\<lparr>t_parent_links := t_parent_links t @
       [\<lparr>pl_DiggerJobId = jobId, pl_ParentDiggerJobId = parentJobId\<rparr>]\<rparr>)"

definition GetDiggerJobParentLinksChildId :: "string \<Rightarrow> (parent_link list, tables fdb) act" where
  "GetDiggerJobParentLinksChildId childId =
     fdb_read (\<lambda>t. filter (\<lambda>l. pl_DiggerJobId l = childId) (t_parent_links t))"

text \<open>The summary is a row of its own, which the next load of the job sees.\<close>

definition UpdateDiggerJobSummary ::
  "string \<Rightarrow> nat \<Rightarrow> nat \<Rightarrow> nat \<Rightarrow> (digger_job, tables fdb) act" where
  "UpdateDiggerJobSummary diggerJobId created updated deleted =
     act_bind (act_wrap (\<lambda>_. ''Could not get digger job'') (GetDiggerJob diggerJobId)) (\<lambda>(j, _).
       let j' = j\<lparr>dj_Summary := \<lparr>js_ResourcesCreated = created, js_ResourcesDeleted = deleted,
                                  js_ResourcesUpdated = updated\<rparr>\<rparr>
       in act_bind (fdb_write (\<lambda>t. t\<lparr>t_jobs := map (\<lambda>x. if dj_ID x = dj_ID j
              then x\<lparr>dj_Summary := dj_Summary j'\<rparr> else x) (t_jobs t)\<rparr>))
            (\<lambda>_. act_ret j'))"

section \<open>Links to GitHub jobs\<close>

definition CreateDiggerJobLink :: "string \<Rightarrow> string \<Rightarrow> (github_job_link, tables fdb) act" where
  "CreateDiggerJobLink diggerJobId repoFullName =
     (let link = \<lparr>gl_DiggerJobId = diggerJobId, gl_RepoFullName = repoFullName,
                  gl_GithubJobId = 0, gl_GithubWorkflowRunId = 0, gl_Status = DiggerJobLinkCreated\<rparr>
      in act_bind (fdb_write (\<lambda>t. t\<lparr>t_job_links := t_job_links t @ [link]\<rparr>)) (\<lambda>_. act_ret link))"

text \<open>The test of the error is inverted: a failed query gives no link and no error.\<close>

definition GetDiggerJobLink :: "string \<Rightarrow> (github_job_link option, tables fdb) act" where
  "GetDiggerJobLink diggerJobId =
     act_bind (act_try (fdb_read (\<lambda>t. first_or zero_job_link
         (\<lambda>l. gl_DiggerJobId l = diggerJobId) (t_job_links t))))
       (\<lambda>r. case r of Inl _ \<Rightarrow> act_ret None | Inr l \<Rightarrow> act_ret (Some l))"

definition UpdateDiggerJobLink ::
  "string \<Rightarrow> string \<Rightarrow> int \<Rightarrow> (github_job_link, tables fdb) act" where
  "UpdateDiggerJobLink diggerJobId repoFullName githubJobId =
     (let P = (\<lambda>l. gl_DiggerJobId l = diggerJobId \<and> gl_RepoFullName l = repoFullName) in
      act_bind (fdb_read (\<lambda>t. find P (t_job_links t))) (\<lambda>r.
        case r of
          None \<Rightarrow> act_ret zero_job_link
        | Some l \<Rightarrow>
            (let l' = l\<lparr>gl_GithubJobId := githubJobId\<rparr>
             in act_bind (fdb_write (\<lambda>t. t\<lparr>t_job_links :=
                    (case (takeWhile (\<lambda>x. \<not> P x) (t_job_links t), dropWhile (\<lambda>x. \<not> P x) (t_job_links t)) of
                       (xs, []) \<Rightarrow> xs
                     | (xs, _ # ys) \<Rightarrow> xs @ l' # ys)\<rparr>))
                  (\<lambda>_. act_ret l'))))"

section \<open>Impacted projects\<close>

definition CreateImpactedProject ::
  "string \<Rightarrow> string \<Rightarrow> string \<Rightarrow> string option \<Rightarrow> int option \<Rightarrow> (impacted_project, tables fdb) act" where
  "CreateImpactedProject repoFullName commitSha projectName branch prNumber =
     (let ip = \<lparr>ip_RepoFullName = repoFullName, ip_CommitSha = commitSha, ip_PrNumber = prNumber,
                ip_Branch = branch, ip_ProjectName = projectName, ip_Planned = False,
                ip_Applied = False\<rparr>
      in act_bind (fdb_write (\<lambda>t. t\<lparr>t_impacted := t_impacted t @ [ip]\<rparr>)) (\<lambda>_. act_ret ip))"

definition GetImpactedProjects ::
  "string \<Rightarrow> string \<Rightarrow> (impacted_project list, tables fdb) act" where
  "GetImpactedProjects repoFullName commitSha =
     fdb_read (\<lambda>t. filter (\<lambda>p. ip_RepoFullName p = repoFullName \<and> ip_CommitSha p = commitSha)
                     (t_impacted t))"

text \<open>The query does not mention \<open>projectName\<close>.\<close>

definition GetImpactedProjectSingle ::
  "string \<Rightarrow> string \<Rightarrow> string \<Rightarrow> (impacted_project, tables fdb) act" where
  "GetImpactedProjectSingle repoFullName commitSha projectName =
     fdb_read (\<lambda>t. first_or zero_impacted
       (\<lambda>p. ip_RepoFullName p = repoFullName \<and> ip_CommitSha p = commitSha) (t_impacted t))"

definition AllImpactedProjectPlanned ::
  "string \<Rightarrow> string \<Rightarrow> (bool \<times> impacted_project list, tables fdb) act" where
  "AllImpactedProjectPlanned repoFullName commitSha =
     act_bind (GetImpactedProjects repoFullName commitSha) (\<lambda>ps.
       if length ps = 0
       then act_err ''could not determine planned status for this project set since not all applied''
       else act_ret (length (filter (\<lambda>p. ip_Planned p = False) ps) = 0, ps))"

definition AllImpactedProjectApplied ::
  "string \<Rightarrow> string \<Rightarrow> (bool \<times> impacted_project list, tables fdb) act" where
  "AllImpactedProjectApplied repoFullName commitSha =
     act_bind (GetImpactedProjects repoFullName commitSha) (\<lambda>ps.
       if length ps = 0
       then act_err ''could not determine apply status for this project set since not all applied''
       else act_ret (length (filter (\<lambda>p. ip_Applied p = False) ps) = 0, ps))"

end
