(* ===== verification/JobScheduler.thy ===== *)
theory JobScheduler
  imports BackendDb
begin

text \<open>
  Scheduling of jobs by the backend: what is sent to a runner (\<open>services/spec.go\<close>,
  \<open>libs/spec\<close>), and when (\<open>services/scheduler.go\<close>, the task for queued jobs of
  \<open>tasks/tasks.go\<close>).  The version-control and CI services are parameters; the workflows that
  were triggered are kept as a trace beside the database.
\<close>

section \<open>The spec of a job (\<open>libs/spec\<close>, \<open>services/spec.go\<close>)\<close>

record reporter_spec =
  rsp_ReporterType :: string
  rsp_ReportingStrategy :: string
  rsp_ReportTerraformOutput :: bool

record lock_spec =
  ls_LockType :: string
  ls_LockProvider :: string

record backend_spec =
  bs_BackendType :: string
  bs_BackendHostname :: string
  bs_BackendOrganisationName :: string
  bs_BackendJobToken :: string

record vcs_spec =
  vs_Actor :: string
  vs_RepoFullname :: string
  vs_RepoName :: string
  vs_RepoOwner :: string
  vs_VcsType :: string
  vs_WorkflowFile :: string
  vs_GithubEnterpriseHostname :: string

record variable_spec =
  va_Name :: string
  va_Value :: string
  va_IsSecret :: bool
  va_IsInterpolated :: bool

record spec =
  sp_SpecType :: string
  sp_JobId :: string
  sp_CommentId :: string
  sp_RunName :: string
  sp_Job :: job_json
  sp_Reporter :: reporter_spec
  sp_CommentUpdaterType :: string
  sp_Lock :: lock_spec
  sp_Backend :: backend_spec
  sp_VCS :: vcs_spec
  sp_PolicyType :: string
  sp_Variables :: "variable_spec list"

definition env_variable :: "string \<times> string \<Rightarrow> variable_spec" where
  "env_variable kv =
     (if has_prefix (snd kv) ''$DIGGER_''
      then \<lparr>va_Name = fst kv, va_Value = replace_all (snd kv) ''$DIGGER_'' [], va_IsSecret = False,
            va_IsInterpolated = True\<rparr>
      else \<lparr>va_Name = fst kv, va_Value = snd kv, va_IsSecret = False, va_IsInterpolated = False\<rparr>)"

definition getVariablesSpecFromEnvMap :: "(string \<times> string) list \<Rightarrow> variable_spec list" where
  "getVariablesSpecFromEnvMap envVars = foldl (\<lambda>vs kv. vs @ [env_variable kv]) [] envVars"

text \<open>\<open>VariablesProvider.GetVariables\<close>, on the runner; \<open>decrypt\<close> is the decryption with the
  private key.\<close>

fun load_variables ::
  "(string \<Rightarrow> string) \<Rightarrow> (string \<Rightarrow> string \<Rightarrow> error + string) \<Rightarrow> string \<Rightarrow> variable_spec list \<Rightarrow>
   (string \<times> string) list \<Rightarrow> error + (string \<times> string) list" where
  "load_variables getenv decrypt key [] res = Inr res"
| "load_variables getenv decrypt key (v # vs) res =
     (if va_IsSecret v then
        (case decrypt (va_Value v) key of
           Inl e \<Rightarrow> Inl (''could not decrypt value using private key: '' @ e)
         | Inr value \<Rightarrow> load_variables getenv decrypt key vs (AList.update (va_Name v) value res))
      else if va_IsInterpolated v then
        load_variables getenv decrypt key vs (AList.update (va_Name v) (getenv (va_Value v)) res)
      else load_variables getenv decrypt key vs (AList.update (va_Name v) (va_Value v) res))"

definition GetVariables ::
  "(string \<Rightarrow> string) \<Rightarrow> (string \<Rightarrow> string \<Rightarrow> error + string) \<Rightarrow> variable_spec list \<Rightarrow>
   error + (string \<times> string) list" where
  "GetVariables getenv decrypt variables =
     (let private_key = getenv ''DIGGER_PRIVATE_KEY'';
          secrets = filter va_IsSecret variables in
      if length secrets > 0 \<and> private_key = []
      then Inl ''digger private key not supplied, unable to decrypt secrets''
      else load_variables getenv decrypt private_key variables [])"

text \<open>The services: \<open>se_unmarshal\<close> is \<open>json.Unmarshal\<close>, \<open>se_github_token\<close> the token that
  GitHub's service gives for a batch, \<open>se_vcs_connection\<close> and \<open>se_decrypt\<close> read a Bitbucket
  connection, \<open>se_trigger\<close> starts the workflow.\<close>

record sched_env =
  se_unmarshal :: "string \<Rightarrow> error + job_json"
  se_github_token :: "digger_batch \<Rightarrow> error + string"
  se_getenv :: "string \<Rightarrow> string"
  se_vcs_connection :: "string \<Rightarrow> error + string"
  se_decrypt :: "string \<Rightarrow> string \<Rightarrow> error + string"
  se_trigger :: "spec \<Rightarrow> string \<Rightarrow> string \<Rightarrow> error + unit"
  se_max_concurrency :: int

definition unmarshal_spec :: "sched_env \<Rightarrow> digger_job \<Rightarrow> job_json res" where
  "unmarshal_spec env j =
     (case se_unmarshal env (case dj_SerializedJobSpec j of None \<Rightarrow> [] | Some s \<Rightarrow> s) of
        Inl e \<Rightarrow> Err (''could not marshal json string: '' @ e)
      | Inr js \<Rightarrow> Ok js)"

definition deref :: "'a option \<Rightarrow> 'a res" where
  "deref x = (case x of None \<Rightarrow> Panic ''nil pointer dereference'' | Some a \<Rightarrow> Ok a)"

definition GetVCSTokenFromJob :: "sched_env \<Rightarrow> loaded_job \<Rightarrow> string res" where
  "GetVCSTokenFromJob env jb =
     res_bind (deref (snd jb)) (\<lambda>batch.
       if db_VCS batch = ''github'' then
         (case se_github_token env batch of
            Inl e \<Rightarrow> Err (''TriggerWorkflow: could not retrieve token: '' @ e)
          | Inr t \<Rightarrow> Ok t)
       else if db_VCS batch = ''gitlab'' then Ok (se_getenv env ''DIGGER_GITLAB_ACCESS_TOKEN'')
       else if db_VCS batch = ''bitbucket'' then
         (case db_VCSConnectionId batch of
            None \<Rightarrow> Err ''connection ID not set, could not get vcs token''
          | Some cid \<Rightarrow>
              (case se_vcs_connection env (itoa (int cid)) of
                 Inl e \<Rightarrow> Err (''failed to fetch connection: '' @ e)
               | Inr encrypted \<Rightarrow>
                   (let secret = se_getenv env ''DIGGER_ENCRYPTION_SECRET'' in
                    if secret = [] then
                      Err ''ERROR: no encryption secret specified, please specify DIGGER_ENCRYPTION_SECRET as 32 bytes base64 string''
                    else (case se_decrypt env encrypted secret of
                            Inl e \<Rightarrow> Err (''ERROR: could not perform decryption: '' @ e)
                          | Inr token \<Rightarrow> Ok token))))
       else Err (''unknown batch VCS: '' @ db_VCS batch))"

fun command_string :: "digger_command \<Rightarrow> string" where
  "command_string CmdNoop = ''noop''"
| "command_string CmdPlan = ''plan''"
| "command_string CmdApply = ''apply''"
| "command_string CmdLock = ''lock''"
| "command_string CmdUnlock = ''unlock''"
| "command_string (CmdOther s) = s"

definition GetRunNameFromJob :: "sched_env \<Rightarrow> loaded_job \<Rightarrow> string res" where
  "GetRunNameFromJob env jb =
     res_bind (unmarshal_spec env (fst jb)) (\<lambda>jobSpec.
     res_bind (deref (snd jb)) (\<lambda>batch.
     if length (db_ID batch) < 8 then Panic ''slice bounds out of range''
     else
       let batchIdShort = take 8 (db_ID batch);
           diggerCommand = ''digger '' @ command_string (db_BatchType batch);
           projectDisplayName =
             (if jj_ProjectAlias jobSpec \<noteq> [] then jj_ProjectAlias jobSpec
              else jj_ProjectName jobSpec)
       in res_bind (deref (jj_PullRequestNumber jobSpec)) (\<lambda>prNumber.
            Ok (''['' @ batchIdShort @ ''] '' @ diggerCommand @ '' '' @ projectDisplayName @
                '' By: '' @ jj_RequestedBy jobSpec @ '' PR: '' @ itoa prNumber))))"

definition GetSpecFromJob :: "sched_env \<Rightarrow> loaded_job \<Rightarrow> spec res" where
  "GetSpecFromJob env jb =
     (let job = fst jb in
      res_bind (unmarshal_spec env job) (\<lambda>jobSpec.
      let variablesSpec =
            getVariablesSpecFromEnvMap (jj_StateEnvVars jobSpec) @
            getVariablesSpecFromEnvMap (jj_CommandEnvVars jobSpec) @
            getVariablesSpecFromEnvMap (jj_RunEnvVars jobSpec);
          justNames = map va_Name variablesSpec
      in if length justNames \<noteq> length (remdups justNames)
         then Err ''could not load variables due to duplicates''
         else
           res_bind (deref (snd jb)) (\<lambda>batch. Ok
             \<lparr>sp_SpecType = [],
              sp_JobId = dj_DiggerJobID job,
              sp_CommentId = (case db_CommentId batch of None \<Rightarrow> [] | Some c \<Rightarrow> itoa c),
              sp_RunName = [],
              sp_Job = jobSpec,
              sp_Reporter =
                \<lparr>rsp_ReporterType = dj_ReporterType job,
                 rsp_ReportingStrategy = ''comments_per_run'',
                 rsp_ReportTerraformOutput = db_ReportTerraformOutputs batch\<rparr>,
              sp_CommentUpdaterType = ''basic'',
              sp_Lock = \<lparr>ls_LockType = ''noop'', ls_LockProvider = []\<rparr>,
              sp_Backend =
                \<lparr>bs_BackendType = ''backend'',
                 bs_BackendHostname = jj_BackendHostname jobSpec,
                 bs_BackendOrganisationName = jj_BackendOrganisationName jobSpec,
                 bs_BackendJobToken = jj_BackendJobToken jobSpec\<rparr>,
              sp_VCS =
                \<lparr>vs_Actor = jj_RequestedBy jobSpec, vs_RepoFullname = db_RepoFullName batch,
                 vs_RepoName = db_RepoName batch, vs_RepoOwner = db_RepoOwner batch,
                 vs_VcsType = db_VCS batch, vs_WorkflowFile = dj_WorkflowFile job,
                 vs_GithubEnterpriseHostname = []\<rparr>,
              sp_PolicyType = ''http'',
              sp_Variables = variablesSpec\<rparr>)))"

section \<open>Triggering and scheduling (\<open>services/scheduler.go\<close>)\<close>

record sched_world =
  sw_db :: "tables fdb"
  sw_triggered :: "(spec \<times> string) list"

definition on_db :: "('a, tables fdb) act \<Rightarrow> ('a, sched_world) act" where
  "on_db f w = (let (x, d) = f (sw_db w) in (x, w\<lparr>sw_db := d\<rparr>))"

definition trigger_workflow ::
  "sched_env \<Rightarrow> spec \<Rightarrow> string \<Rightarrow> string \<Rightarrow> (unit, sched_world) act" where
  "trigger_workflow env s runName token w =
     (case se_trigger env s runName token of
        Inl e \<Rightarrow> (Err e, w)
      | Inr _ \<Rightarrow> (Ok (), w\<lparr>sw_triggered := sw_triggered w @ [(s, runName)]\<rparr>))"

definition TriggerJob :: "sched_env \<Rightarrow> loaded_job \<Rightarrow> (unit, sched_world) act" where
  "TriggerJob env jb =
     (if dj_SerializedJobSpec (fst jb) = None then act_err ''JobSpec is nil, skipping''
      else
        act_bind (act_wrap (\<lambda>e. ''could not get run name '' @ e) (act_of (GetRunNameFromJob env jb)))
          (\<lambda>runName.
        act_bind (act_wrap (\<lambda>e. ''could not get spec '' @ e) (act_of (GetSpecFromJob env jb)))
          (\<lambda>s.
        act_bind (act_wrap (\<lambda>e. ''could not get vcs token: '' @ e) (act_of (GetVCSTokenFromJob env jb)))
          (\<lambda>token.
        act_bind (trigger_workflow env s runName token) (\<lambda>_.
          on_db (UpdateDiggerJob ((fst jb)\<lparr>dj_Status := DiggerJobTriggered\<rparr>)))))))"

definition ScheduleJob :: "sched_env \<Rightarrow> string \<Rightarrow> loaded_job \<Rightarrow> (unit, sched_world) act" where
  "ScheduleJob env batchId jb =
     (let maxConcurrencyForBatch = se_max_concurrency env in
      if maxConcurrencyForBatch = 0 then TriggerJob env jb
      else
        act_bind (on_db (GetDiggerJobsForBatchWithStatus batchId
                          [DiggerJobTriggered, DiggerJobStarted])) (\<lambda>jobs.
          if int (length jobs) \<ge> maxConcurrencyForBatch then
            act_bind (act_try (on_db (UpdateDiggerJob
                ((fst jb)\<lparr>dj_Status := DiggerJobQueuedForRun\<rparr>))))
              (\<lambda>_. act_ret ())
          else TriggerJob env jb))"

text \<open>The inner loop of \<open>DiggerJobCompleted\<close>: are all parents of a child done?\<close>

fun parents_complete :: "parent_link list \<Rightarrow> (bool, tables fdb) act" where
  "parents_complete [] = act_ret True"
| "parents_complete (l # ls) =
     act_bind (GetDiggerJob (pl_ParentDiggerJobId l)) (\<lambda>(parentJob, _).
       if dj_Status parentJob \<noteq> DiggerJobSucceeded then act_ret False
       else parents_complete ls)"

text \<open>The error of \<open>ScheduleJob\<close> is dropped; a panic is not.\<close>

definition complete_child :: "sched_env \<Rightarrow> string \<Rightarrow> parent_link \<Rightarrow> (unit, sched_world) act" where
  "complete_child env batchId jobLink =
     act_bind (on_db (GetDiggerJobParentLinksChildId (pl_DiggerJobId jobLink))) (\<lambda>jobLinksForChild.
     act_bind (on_db (parents_complete jobLinksForChild)) (\<lambda>allParentJobsAreComplete.
       if allParentJobsAreComplete then
         act_bind (on_db (GetDiggerJob (pl_DiggerJobId jobLink))) (\<lambda>job.
           act_bind (act_try (ScheduleJob env batchId job)) (\<lambda>_. act_ret ()))
       else act_ret ()))"

definition DiggerJobCompleted :: "sched_env \<Rightarrow> string \<Rightarrow> digger_job \<Rightarrow> (unit, sched_world) act" where
  "DiggerJobCompleted env batchId parentJob =
     act_bind (on_db (GetDiggerJobParentLinksByParentId (dj_DiggerJobID parentJob)))
       (act_all (complete_child env batchId))"

text \<open>The task that takes up queued jobs: a failure to reach GitHub skips the job, as does a
  failure to schedule it.\<close>

definition schedule_queued :: "sched_env \<Rightarrow> loaded_job \<Rightarrow> (unit, sched_world) act" where
  "schedule_queued env jb =
     act_bind (act_of (deref (snd jb))) (\<lambda>batch.
       case se_github_token env batch of
         Inl _ \<Rightarrow> act_ret ()
       | Inr _ \<Rightarrow> act_bind (act_try (ScheduleJob env (db_ID batch) jb)) (\<lambda>_. act_ret ()))"

definition trigger_queued_jobs :: "sched_env \<Rightarrow> (unit, sched_world) act" where
  "trigger_queued_jobs env =
     act_bind (act_try (on_db (GetDiggerJobsWithStatus DiggerJobQueuedForRun))) (\<lambda>r.
       case r of Inl _ \<Rightarrow> act_ret () | Inr jobs \<Rightarrow> act_all (schedule_queued env) jobs)"

end
