(* ===== verification/JobSchedulerProps.thy ===== *)
theory JobSchedulerProps
  imports JobScheduler
begin

text \<open>
  What scheduling guarantees: a child job is triggered only when every parent has succeeded, a
  batch never runs more jobs than the limit, and the variables a runner sees are those of the
  project's configuration.
\<close>

section \<open>The job table\<close>

definition job_view :: "tables \<Rightarrow> string \<Rightarrow> digger_job" where
  "job_view t p = first_or zero_job (\<lambda>j. dj_DiggerJobID j = p) (t_jobs t)"

definition succeeded :: "tables \<Rightarrow> string \<Rightarrow> bool" where
  "succeeded t p \<longleftrightarrow> dj_Status (job_view t p) = DiggerJobSucceeded"

text \<open>Primary keys are consecutive, and no job is ever deleted.\<close>

definition wf_jobs :: "tables \<Rightarrow> bool" where
  "wf_jobs t \<longleftrightarrow> map dj_ID (t_jobs t) = [1..<Suc (length (t_jobs t))]"

definition is_running :: "string \<Rightarrow> digger_job \<Rightarrow> bool" where
  "is_running b j \<longleftrightarrow>
     dj_BatchID j = Some b \<and> (dj_Status j = DiggerJobTriggered \<or> dj_Status j = DiggerJobStarted)"

definition running :: "tables \<Rightarrow> string \<Rightarrow> nat" where
  "running t b = length (filter (is_running b) (t_jobs t))"

definition moved :: "tables \<Rightarrow> tables \<Rightarrow> bool" where
  "moved t t' \<longleftrightarrow>
     wf_jobs t' \<and> t_parent_links t' = t_parent_links t \<and> t_batches t' = t_batches t \<and>
     length (t_jobs t) \<le> length (t_jobs t') \<and>
     dj_BatchID ` set (t_jobs t') \<subseteq> insert None (dj_BatchID ` set (t_jobs t)) \<and>
     (\<forall>p. succeeded t' p \<longrightarrow> succeeded t p)"

lemma moved_refl: "wf_jobs t \<Longrightarrow> moved t t"
  by (auto simp: moved_def)

lemma moved_trans: "moved t t' \<Longrightarrow> moved t' t'' \<Longrightarrow> moved t t''"
proof -
  assume a: "moved t t'" and b: "moved t' t''"
  have "dj_BatchID ` set (t_jobs t'') \<subseteq> insert None (dj_BatchID ` set (t_jobs t))"
  proof -
    have 1: "dj_BatchID ` set (t_jobs t'') \<subseteq> insert None (dj_BatchID ` set (t_jobs t'))"
      and 2: "dj_BatchID ` set (t_jobs t') \<subseteq> insert None (dj_BatchID ` set (t_jobs t))"
      using a b unfolding moved_def by auto
    from subset_trans [OF 1 insert_mono [OF 2]] show ?thesis by simp
  qed
  then show ?thesis using a b unfolding moved_def by simp
qed

lemma wf_jobs_distinct: "wf_jobs t \<Longrightarrow> distinct (map dj_ID (t_jobs t))"
  by (simp add: wf_jobs_def)

lemma wf_jobs_ID: "wf_jobs t \<Longrightarrow> j \<in> set (t_jobs t) \<Longrightarrow> 0 < dj_ID j \<and> dj_ID j \<le> length (t_jobs t)"
proof -
  assume "wf_jobs t" "j \<in> set (t_jobs t)"
  then have "dj_ID j \<in> set [1..<Suc (length (t_jobs t))]"
    unfolding wf_jobs_def by (metis image_eqI set_map)
  then show ?thesis by auto
qed

lemma same_ID_same_job:
  "distinct (map dj_ID xs) \<Longrightarrow> j \<in> set xs \<Longrightarrow> y \<in> set xs \<Longrightarrow> dj_ID y = dj_ID j \<Longrightarrow> y = j"
  by (metis distinct_map inj_onD)

definition replace_row :: "digger_job \<Rightarrow> digger_job list \<Rightarrow> digger_job list" where
  "replace_row j = map (\<lambda>y. if dj_ID y = dj_ID j then j else y)"

lemma stored_summary_row:
  assumes "distinct (map dj_ID (t_jobs t))" and "j \<in> set (t_jobs t)" and "dj_ID j' = dj_ID j"
  shows "stored_summary j' t = dj_Summary j"
proof (cases "find (\<lambda>y. dj_ID y = dj_ID j') (t_jobs t)")
  case None
  with assms show ?thesis by (auto simp: find_None_iff)
next
  case (Some y)
  then have "y = j" using find_SomeD [OF Some] same_ID_same_job [OF assms(1,2)] assms(3) by simp
  with Some show ?thesis by (simp add: stored_summary_def)
qed

lemma save_job_stored:
  assumes "wf_jobs t" and "j \<in> set (t_jobs t)"
  shows "save_job (j\<lparr>dj_Status := s\<rparr>) t = t\<lparr>t_jobs := replace_row (j\<lparr>dj_Status := s\<rparr>) (t_jobs t)\<rparr>"
proof -
  have "j\<lparr>dj_Status := s, dj_Summary := stored_summary (j\<lparr>dj_Status := s\<rparr>) t\<rparr> = j\<lparr>dj_Status := s\<rparr>"
    using stored_summary_row [OF wf_jobs_distinct [OF assms(1)] assms(2), of "j\<lparr>dj_Status := s\<rparr>"] by simp
  with wf_jobs_ID [OF assms] assms(2) show ?thesis
    by (auto simp: save_job_def save_by_def replace_row_def Let_def)
qed

lemma save_job_zero:
  assumes "wf_jobs t"
  shows "save_job (zero_job\<lparr>dj_Status := s\<rparr>) t =
    t\<lparr>t_jobs := t_jobs t @ [zero_job\<lparr>dj_ID := Suc (length (t_jobs t)), dj_Status := s\<rparr>]\<rparr>"
  using wf_jobs_ID [OF assms]
  by (fastforce simp: save_job_def save_by_def zero_job_def Let_def)

lemma first_or_replace:
  assumes "\<forall>y \<in> set xs. dj_ID y = dj_ID j \<longrightarrow> y = j" and "s \<noteq> DiggerJobSucceeded"
    and "dj_Status (first_or zero_job (\<lambda>j. dj_DiggerJobID j = p) (replace_row (j\<lparr>dj_Status := s\<rparr>) xs)) =
      DiggerJobSucceeded"
  shows "dj_Status (first_or zero_job (\<lambda>j. dj_DiggerJobID j = p) xs) = DiggerJobSucceeded"
  using assms by (induction xs) (auto simp: first_or_def replace_row_def split: if_splits)

lemma save_job_moved:
  assumes "wf_jobs t" and "j \<in> set (t_jobs t) \<or> j = zero_job" and "s \<noteq> DiggerJobSucceeded"
  shows "moved t (save_job (j\<lparr>dj_Status := s\<rparr>) t)"
proof (cases "j \<in> set (t_jobs t)")
  case True
  have one: "\<forall>y \<in> set (t_jobs t). dj_ID y = dj_ID j \<longrightarrow> y = j"
    using same_ID_same_job [OF wf_jobs_distinct [OF assms(1)] True] by blast
  have ids: "map dj_ID (replace_row (j\<lparr>dj_Status := s\<rparr>) (t_jobs t)) = map dj_ID (t_jobs t)"
    by (simp add: replace_row_def)
  have "dj_BatchID ` set (replace_row (j\<lparr>dj_Status := s\<rparr>) (t_jobs t)) \<subseteq> insert None (dj_BatchID ` set (t_jobs t))"
    using True by (auto simp: replace_row_def)
  then show ?thesis
    using save_job_stored [OF assms(1) True, of s] ids assms(1) first_or_replace [OF one assms(3)]
    by (simp add: moved_def wf_jobs_def succeeded_def job_view_def)
      (simp add: replace_row_def)
next
  case False
  with assms have z: "j = zero_job" by simp
  have "\<not> succeeded t p \<Longrightarrow>
      dj_Status (first_or zero_job (\<lambda>j. dj_DiggerJobID j = p)
        (t_jobs t @ [zero_job\<lparr>dj_ID := n, dj_Status := s\<rparr>])) \<noteq> DiggerJobSucceeded" for p n
    using assms(3)
    by (cases "find (\<lambda>j. dj_DiggerJobID j = p) (t_jobs t)")
      (auto simp: succeeded_def job_view_def first_or_def find_append zero_job_def)
  moreover have "dj_BatchID (zero_job\<lparr>dj_ID := n, dj_Status := s\<rparr>) = None" for n by (simp add: zero_job_def)
  ultimately show ?thesis using assms(1) z
    by (auto simp: save_job_zero moved_def wf_jobs_def succeeded_def job_view_def)
qed

lemma job_view_cases:
  "(job_view t p \<in> set (t_jobs t) \<and> dj_DiggerJobID (job_view t p) = p) \<or> job_view t p = zero_job"
proof (cases "find (\<lambda>j. dj_DiggerJobID j = p) (t_jobs t)")
  case None
  then show ?thesis by (simp add: job_view_def first_or_def)
next
  case (Some j)
  with find_SomeD [OF Some] show ?thesis by (simp add: job_view_def first_or_def)
qed

section \<open>What one scheduling step does\<close>

abbreviation data :: "sched_world \<Rightarrow> tables" where
  "data w \<equiv> fdb_data (sw_db w)"

lemma on_db_snd [simp]:
  "data (snd (on_db f w)) = fdb_data (snd (f (sw_db w)))"
  "sw_triggered (snd (on_db f w)) = sw_triggered w"
  "fst (on_db f w) = fst (f (sw_db w))"
  by (simp_all add: on_db_def split: prod.splits)

lemma on_db_eq:
  "on_db f w = (x, w') \<Longrightarrow> f (sw_db w) = (x, sw_db w') \<and> sw_triggered w' = sw_triggered w"
  by (auto simp: on_db_def split: prod.splits)

lemma on_db_read_eq:
  "on_db (fdb_read q) w = (x, w') \<Longrightarrow>
   data w' = data w \<and> sw_triggered w' = sw_triggered w \<and> (\<forall>a. x = Ok a \<longrightarrow> a = q (data w)) \<and>
   (\<forall>m. x \<noteq> Panic m)"
proof -
  assume "on_db (fdb_read q) w = (x, w')"
  then have e: "fdb_read q (sw_db w) = (x, sw_db w')" "sw_triggered w' = sw_triggered w"
    by (auto dest: on_db_eq)
  have "data w' = data w" using fdb_read_data [of q "sw_db w"] e(1) by simp
  moreover have "x \<noteq> Panic m" for m
    using e(1) fdb_query_no_Panic unfolding fdb_read_def by metis
  ultimately show ?thesis using e fdb_read_Ok by metis
qed

lemma on_db_write_eq:
  "on_db (fdb_write u) w = (x, w') \<Longrightarrow>
   (data w' = data w \<or> data w' = u (data w)) \<and> sw_triggered w' = sw_triggered w \<and>
   (\<forall>m. x \<noteq> Panic m)"
proof -
  assume "on_db (fdb_write u) w = (x, w')"
  then have e: "fdb_write u (sw_db w) = (x, sw_db w')" "sw_triggered w' = sw_triggered w"
    by (auto dest: on_db_eq)
  have "x \<noteq> Panic m" for m
    using e(1) fdb_query_no_Panic unfolding fdb_write_def by metis
  with fdb_write_data [of u "sw_db w"] e show ?thesis by auto
qed

text \<open>A trigger is for the job at hand, which was not zero; the table is as before, or the job
  was saved as triggered.\<close>

definition trigger_outcome :: "loaded_job \<Rightarrow> sched_world \<Rightarrow> sched_world \<Rightarrow> bool" where
  "trigger_outcome jb w w' \<longleftrightarrow>
     (data w' = data w \<or> data w' = save_job ((fst jb)\<lparr>dj_Status := DiggerJobTriggered\<rparr>) (data w)) \<and>
     (sw_triggered w' = sw_triggered w \<or>
      (\<exists>s n. sw_triggered w' = sw_triggered w @ [(s, n)] \<and> sp_JobId s = dj_DiggerJobID (fst jb) \<and>
             dj_SerializedJobSpec (fst jb) \<noteq> None))"

lemma GetSpecFromJob_JobId: "GetSpecFromJob env jb = Ok s \<Longrightarrow> sp_JobId s = dj_DiggerJobID (fst jb)"
  by (auto simp: GetSpecFromJob_def Let_def split: if_splits)

lemma TriggerJob_outcome:
  assumes "TriggerJob env jb w = (r, w')"
  shows "trigger_outcome jb w w'"
proof (cases "dj_SerializedJobSpec (fst jb) = None")
  case True
  with assms show ?thesis by (simp add: TriggerJob_def trigger_outcome_def)
next
  case spec: False
  show ?thesis
  proof (cases "w' = w")
    case True
    then show ?thesis by (simp add: trigger_outcome_def)
  next
    case False
    from assms spec False obtain runName s token where
      s: "GetSpecFromJob env jb = Ok s" and
      rest: "act_bind (trigger_workflow env s runName token) (\<lambda>_.
          on_db (UpdateDiggerJob ((fst jb)\<lparr>dj_Status := DiggerJobTriggered\<rparr>))) w = (r, w')"
      by (cases "GetRunNameFromJob env jb"; cases "GetSpecFromJob env jb";
          cases "GetVCSTokenFromJob env jb")
        (auto simp: TriggerJob_def act_bind_def [of "act_wrap _ _"] act_wrap_def)
    from rest False have
      u: "on_db (UpdateDiggerJob ((fst jb)\<lparr>dj_Status := DiggerJobTriggered\<rparr>))
            (w\<lparr>sw_triggered := sw_triggered w @ [(s, runName)]\<rparr>) = (r, w')"
      by (auto simp: act_bind_def trigger_workflow_def split: sum.splits)
    from on_db_write_eq [OF u [unfolded UpdateDiggerJob_def]] GetSpecFromJob_JobId [OF s] spec
    show ?thesis by (auto simp: trigger_outcome_def)
  qed
qed

definition schedule_outcome :: "string \<Rightarrow> loaded_job \<Rightarrow> int \<Rightarrow> sched_world \<Rightarrow> sched_world \<Rightarrow> bool" where
  "schedule_outcome b jb m w w' \<longleftrightarrow>
     (data w' = data w \<or>
      data w' = save_job ((fst jb)\<lparr>dj_Status := DiggerJobQueuedForRun\<rparr>) (data w) \<or>
      data w' = save_job ((fst jb)\<lparr>dj_Status := DiggerJobTriggered\<rparr>) (data w) \<and>
        (m = 0 \<or> int (running (data w) b) < m)) \<and>
     (sw_triggered w' = sw_triggered w \<or>
      (\<exists>s n. sw_triggered w' = sw_triggered w @ [(s, n)] \<and> sp_JobId s = dj_DiggerJobID (fst jb) \<and>
             dj_SerializedJobSpec (fst jb) \<noteq> None))"

lemma running_query:
  "length (filter (\<lambda>j. dj_BatchID j = Some b \<and>
      List.member [DiggerJobTriggered, DiggerJobStarted] (dj_Status j)) (t_jobs t)) = running t b"
proof -
  have "(\<lambda>j. dj_BatchID j = Some b \<and>
      List.member [DiggerJobTriggered, DiggerJobStarted] (dj_Status j)) = is_running b"
    by (rule ext) (auto simp: is_running_def)
  then show ?thesis by (simp only: running_def)
qed

lemma ScheduleJob_outcome:
  assumes "ScheduleJob env b jb w = (r, w')"
  shows "schedule_outcome b jb (se_max_concurrency env) w w'"
proof (cases "se_max_concurrency env = 0")
  case True
  with assms have "TriggerJob env jb w = (r, w')" by (simp add: ScheduleJob_def)
  from TriggerJob_outcome [OF this] True show ?thesis
    by (auto simp: trigger_outcome_def schedule_outcome_def)
next
  case False
  obtain x w1 where q: "on_db (GetDiggerJobsForBatchWithStatus b [DiggerJobTriggered, DiggerJobStarted]) w
      = (x, w1)"
    by (cases "on_db (GetDiggerJobsForBatchWithStatus b [DiggerJobTriggered, DiggerJobStarted]) w")
  note qe = on_db_read_eq [OF q [unfolded GetDiggerJobsForBatchWithStatus_def]]
  show ?thesis
  proof (cases x)
    case (Ok jobs)
    with qe have len: "length jobs = running (data w) b"
      using running_query [of b "data w"] by auto
    show ?thesis
    proof (cases "int (length jobs) \<ge> se_max_concurrency env")
      case True
      obtain y w2 where u: "on_db (UpdateDiggerJob ((fst jb)\<lparr>dj_Status := DiggerJobQueuedForRun\<rparr>)) w1 = (y, w2)"
        by (cases "on_db (UpdateDiggerJob ((fst jb)\<lparr>dj_Status := DiggerJobQueuedForRun\<rparr>)) w1")
      note ue = on_db_write_eq [OF u [unfolded UpdateDiggerJob_def]]
      from assms False q Ok True u have "w' = w2"
        by (cases y) (auto simp: ScheduleJob_def act_bind_def act_try_def)
      with ue qe show ?thesis by (auto simp: schedule_outcome_def)
    next
      case lt: False
      with assms False q Ok have "TriggerJob env jb w1 = (r, w')"
        by (simp add: ScheduleJob_def act_bind_def)
      from TriggerJob_outcome [OF this] qe lt len show ?thesis
        by (auto simp: trigger_outcome_def schedule_outcome_def)
    qed
  qed (use assms False q qe in \<open>auto simp: ScheduleJob_def act_bind_def schedule_outcome_def\<close>)
qed

lemma schedule_outcome_moved:
  assumes "schedule_outcome b jb m w w'" and "wf_jobs (data w)"
    and "fst jb \<in> set (t_jobs (data w)) \<or> fst jb = zero_job"
  shows "moved (data w) (data w')"
  using assms save_job_moved [OF assms(2,3)] moved_refl [OF assms(2)]
  by (auto simp: schedule_outcome_def)

section \<open>Children are triggered when they are ready\<close>

definition ready :: "tables \<Rightarrow> string \<Rightarrow> bool" where
  "ready t jid \<longleftrightarrow>
     (\<forall>l \<in> set (t_parent_links t). pl_DiggerJobId l = jid \<longrightarrow> succeeded t (pl_ParentDiggerJobId l))"

lemma ready_moved: "moved t t' \<Longrightarrow> ready t' jid \<Longrightarrow> ready t jid"
  by (auto simp: ready_def moved_def)

lemma GetDiggerJob_read:
  "GetDiggerJob p = fdb_read (\<lambda>t. (job_view t p, preload_batch t (job_view t p)))"
  by (simp add: GetDiggerJob_def job_view_def Let_def)

lemma parents_complete_read:
  "parents_complete ls d = (x, d') \<Longrightarrow> fdb_data d' = fdb_data d \<and>
   (x = Ok True \<longrightarrow> (\<forall>l \<in> set ls. succeeded (fdb_data d) (pl_ParentDiggerJobId l)))"
proof (induction ls arbitrary: d)
  case Nil
  then show ?case by simp
next
  case (Cons l ls)
  obtain y d1 where g: "GetDiggerJob (pl_ParentDiggerJobId l) d = (y, d1)"
    by (cases "GetDiggerJob (pl_ParentDiggerJobId l) d")
  have d1: "fdb_data d1 = fdb_data d"
    using fdb_read_data [of _ d] g unfolding GetDiggerJob_read by (metis snd_conv)
  show ?case
  proof (cases y)
    case (Ok jb)
    then have "fst jb = job_view (fdb_data d) (pl_ParentDiggerJobId l)"
      using g fdb_read_Ok unfolding GetDiggerJob_read by fastforce
    with Ok g d1 Cons.prems Cons.IH [of d1] show ?thesis
      by (cases jb) (auto simp: act_bind_def succeeded_def split: if_splits)
  qed (use g d1 Cons.prems in \<open>auto simp: act_bind_def\<close>)
qed

lemma complete_child_outcome:
  assumes "wf_jobs (data w)" and "complete_child env b l w = (r, w')"
  shows "moved (data w) (data w') \<and>
    (\<exists>new. sw_triggered w' = sw_triggered w @ new \<and>
       (\<forall>(s, n) \<in> set new. sp_JobId s = pl_DiggerJobId l \<and> ready (data w) (sp_JobId s)))"
proof -
  let ?jid = "pl_DiggerJobId l"
  have stay: ?thesis if "data w' = data w" "sw_triggered w' = sw_triggered w"
    using that assms(1) by (auto intro: moved_refl)
  obtain x w1 where q: "on_db (GetDiggerJobParentLinksChildId ?jid) w = (x, w1)"
    by (cases "on_db (GetDiggerJobParentLinksChildId ?jid) w")
  note qe = on_db_read_eq [OF q [unfolded GetDiggerJobParentLinksChildId_def]]
  show ?thesis
  proof (cases x)
    case (Ok links)
    obtain y w2 where pc: "on_db (parents_complete links) w1 = (y, w2)"
      by (cases "on_db (parents_complete links) w1")
    note pe = parents_complete_read [OF conjunct1 [OF on_db_eq [OF pc]]] on_db_eq [OF pc]
    show ?thesis
    proof (cases "y = Ok True")
      case False
      with assms(2) q Ok pc have "w' = w2"
        by (cases y) (auto simp: complete_child_def act_bind_def)
      with stay qe pe show ?thesis by simp
    next
      case True
      have rd: "ready (data w) ?jid"
        using True pe qe Ok by (auto simp: ready_def)
      obtain z w3 where g: "on_db (GetDiggerJob ?jid) w2 = (z, w3)"
        by (cases "on_db (GetDiggerJob ?jid) w2")
      note ge = on_db_read_eq [OF g [unfolded GetDiggerJob_read]]
      have d3: "data w3 = data w" "sw_triggered w3 = sw_triggered w" using ge pe qe by auto
      show ?thesis
      proof (cases z)
        case (Ok jb)
        with ge pe qe have jb: "fst jb = job_view (data w) ?jid" by auto
        obtain u w4 where sch: "ScheduleJob env b jb w3 = (u, w4)" by (cases "ScheduleJob env b jb w3")
        from assms(2) q \<open>x = Ok links\<close> pc True g Ok sch have "w' = w4"
          by (cases u) (auto simp: complete_child_def act_bind_def act_try_def)
        note so = ScheduleJob_outcome [OF sch]
        have "moved (data w3) (data w4)"
          by (rule schedule_outcome_moved [OF so])
            (use job_view_cases [of "data w" ?jid] jb d3 assms(1) in auto)
        moreover have "dj_SerializedJobSpec (fst jb) \<noteq> None \<longrightarrow> dj_DiggerJobID (fst jb) = ?jid"
          using job_view_cases [of "data w" ?jid] jb by (auto simp: zero_job_def)
        moreover have "sw_triggered w4 = sw_triggered w \<or>
            (\<exists>s n. sw_triggered w4 = sw_triggered w @ [(s, n)] \<and> sp_JobId s = dj_DiggerJobID (fst jb) \<and>
               dj_SerializedJobSpec (fst jb) \<noteq> None)"
          using so d3 by (simp add: schedule_outcome_def)
        ultimately show ?thesis using \<open>w' = w4\<close> d3 rd by auto
      qed (use assms(2) q \<open>x = Ok links\<close> pc True g d3 stay in
          \<open>auto simp: complete_child_def act_bind_def\<close>)
    qed
  qed (use assms(2) q qe stay in \<open>auto simp: complete_child_def act_bind_def\<close>)
qed

lemma complete_children_outcome:
  assumes "wf_jobs (data w)" and "act_all (complete_child env b) ls w = (r, w')"
  shows "moved (data w) (data w') \<and>
    (\<exists>new. sw_triggered w' = sw_triggered w @ new \<and>
       (\<forall>(s, n) \<in> set new. sp_JobId s \<in> pl_DiggerJobId ` set ls \<and> ready (data w) (sp_JobId s)))"
  using assms
proof (induction ls arbitrary: w)
  case Nil
  then show ?case by (auto intro: moved_refl)
next
  case (Cons l ls)
  obtain x w1 where c: "complete_child env b l w = (x, w1)" by (cases "complete_child env b l w")
  from complete_child_outcome [OF Cons.prems(1) c] obtain new1 where
    m: "moved (data w) (data w1)" and t1: "sw_triggered w1 = sw_triggered w @ new1"
    and n1: "\<forall>(s, n) \<in> set new1. sp_JobId s = pl_DiggerJobId l \<and> ready (data w) (sp_JobId s)" by blast
  show ?case
  proof (cases x)
    case (Ok a)
    with Cons.prems(2) c have a: "act_all (complete_child env b) ls w1 = (r, w')" by simp
    have wf1: "wf_jobs (data w1)" using m by (simp add: moved_def)
    from Cons.IH [OF wf1 a] obtain new2 where
      m2: "moved (data w1) (data w')" and t2: "sw_triggered w' = sw_triggered w1 @ new2"
      and n2: "\<forall>(s, n) \<in> set new2. sp_JobId s \<in> pl_DiggerJobId ` set ls \<and> ready (data w1) (sp_JobId s)"
      by blast
    have "\<forall>(s, n) \<in> set (new1 @ new2).
        sp_JobId s \<in> pl_DiggerJobId ` set (l # ls) \<and> ready (data w) (sp_JobId s)"
      using n1 n2 ready_moved [OF m] by fastforce
    with moved_trans [OF m m2] t1 t2 show ?thesis
      by (intro conjI exI [of _ "new1 @ new2"]) simp_all
  next
    case (Err e)
    with Cons.prems(2) c have "w' = w1" by simp
    with m t1 n1 show ?thesis by fastforce
  next
    case (Panic e)
    with Cons.prems(2) c have "w' = w1" by simp
    with m t1 n1 show ?thesis by fastforce
  qed
qed

text \<open>Claim C7: when a job completes, the workflows that get triggered are those of its child
  jobs, each of which has only succeeded parents, whatever queries or services fail.\<close>

theorem completion_triggers_ready_children:
  assumes "wf_jobs (data w)" and "DiggerJobCompleted env b parent w = (r, w')"
  shows "\<exists>new. sw_triggered w' = sw_triggered w @ new \<and>
    (\<forall>(s, n) \<in> set new.
       (\<exists>l \<in> set (t_parent_links (data w)). pl_ParentDiggerJobId l = dj_DiggerJobID parent \<and>
          pl_DiggerJobId l = sp_JobId s) \<and>
       (\<forall>l \<in> set (t_parent_links (data w)). pl_DiggerJobId l = sp_JobId s \<longrightarrow>
          dj_Status (job_view (data w) (pl_ParentDiggerJobId l)) = DiggerJobSucceeded))"
proof -
  obtain x w1 where q: "on_db (GetDiggerJobParentLinksByParentId (dj_DiggerJobID parent)) w = (x, w1)"
    by (cases "on_db (GetDiggerJobParentLinksByParentId (dj_DiggerJobID parent)) w")
  note qe = on_db_read_eq [OF q [unfolded GetDiggerJobParentLinksByParentId_def]]
  show ?thesis
  proof (cases x)
    case (Ok ls)
    with assms(2) q have a: "act_all (complete_child env b) ls w1 = (r, w')"
      by (simp add: DiggerJobCompleted_def act_bind_def)
    have "wf_jobs (data w1)" using qe assms(1) by simp
    from complete_children_outcome [OF this a] obtain new where
      t: "sw_triggered w' = sw_triggered w1 @ new" and
      n: "\<forall>(s, n) \<in> set new. sp_JobId s \<in> pl_DiggerJobId ` set ls \<and> ready (data w1) (sp_JobId s)"
      by blast
    have "ls = filter (\<lambda>l. pl_ParentDiggerJobId l = dj_DiggerJobID parent) (t_parent_links (data w))"
      using qe Ok by simp
    with t n qe show ?thesis
      by (intro exI [of _ new]) (force simp: ready_def succeeded_def)
  qed (use assms(2) q qe in \<open>auto simp: DiggerJobCompleted_def act_bind_def\<close>)
qed

section \<open>The concurrency limit\<close>

lemma running_replace:
  assumes "distinct (map dj_ID xs)"
  shows "length (filter P (replace_row j xs)) \<le> length (filter P xs) + (if P j then 1 else 0)"
  using assms
proof (induction xs)
  case Nil
  then show ?case by (simp add: replace_row_def)
next
  case (Cons x xs)
  show ?case
  proof (cases "dj_ID x = dj_ID j")
    case True
    with Cons.prems have "\<forall>y \<in> set xs. dj_ID y \<noteq> dj_ID j" by auto (metis image_eqI)
    then have "map (\<lambda>y. if dj_ID y = dj_ID j then j else y) xs = xs" by (intro map_idI) simp
    with True show ?thesis by (simp add: replace_row_def)
  next
    case False
    with Cons show ?thesis by (cases "P j") (simp_all add: replace_row_def)
  qed
qed

lemma running_save:
  assumes "wf_jobs t" and "j \<in> set (t_jobs t)"
  shows "running (save_job (j\<lparr>dj_Status := s\<rparr>) t) b \<le>
    running t b + (if is_running b (j\<lparr>dj_Status := s\<rparr>) then 1 else 0)"
  using running_replace [OF wf_jobs_distinct [OF assms(1)], of "is_running b" "j\<lparr>dj_Status := s\<rparr>"]
    save_job_stored [OF assms]
  by (simp add: running_def)

lemma ScheduleJob_running:
  assumes "wf_jobs (data w)" and "fst jb \<in> set (t_jobs (data w))"
    and "dj_BatchID (fst jb) = Some bid" and "se_max_concurrency env \<noteq> 0"
    and "\<forall>b. int (running (data w) b) \<le> se_max_concurrency env"
    and "ScheduleJob env bid jb w = (r, w')"
  shows "\<forall>b. int (running (data w') b) \<le> se_max_concurrency env"
proof
  fix b
  let ?m = "se_max_concurrency env"
  from ScheduleJob_outcome [OF assms(6)] assms(4) consider
    "data w' = data w"
  | "data w' = save_job ((fst jb)\<lparr>dj_Status := DiggerJobQueuedForRun\<rparr>) (data w)"
  | "data w' = save_job ((fst jb)\<lparr>dj_Status := DiggerJobTriggered\<rparr>) (data w)"
    "int (running (data w) bid) < ?m"
    by (auto simp: schedule_outcome_def)
  then show "int (running (data w') b) \<le> ?m"
  proof cases
    case 1
    with assms(5) show ?thesis by simp
  next
    case 2
    have "running (data w') b \<le> running (data w) b"
      using running_save [OF assms(1,2), of DiggerJobQueuedForRun b] 2
      by (simp add: is_running_def split: if_splits)
    with assms(5) show ?thesis by (metis of_nat_mono order_trans)
  next
    case 3
    have "running (data w') b \<le> running (data w) b + (if b = bid then 1 else 0)"
      using running_save [OF assms(1,2), of DiggerJobTriggered b] 3(1) assms(3)
      by (auto simp: is_running_def split: if_splits)
    with assms(5) 3(2) show ?thesis by (cases "b = bid") (auto intro: order_trans [OF of_nat_mono])
  qed
qed

text \<open>The jobs a task still has to take up: loaded from the table, each once.\<close>

definition to_do :: "tables \<Rightarrow> loaded_job list \<Rightarrow> bool" where
  "to_do t jobs \<longleftrightarrow>
     distinct (map (dj_ID \<circ> fst) jobs) \<and>
     (\<forall>jb \<in> set jobs. fst jb \<in> set (t_jobs t) \<and>
        (\<forall>b. snd jb = Some b \<longrightarrow> dj_BatchID (fst jb) = Some (db_ID b)))"

lemma to_do_rest:
  assumes "wf_jobs t" and "to_do t (jb # jobs)"
    and "t' = t \<or> (\<exists>s. t' = save_job ((fst jb)\<lparr>dj_Status := s\<rparr>) t)"
  shows "to_do t' jobs"
proof (cases "t' = t")
  case True
  with assms(2) show ?thesis by (simp add: to_do_def)
next
  case False
  with assms(3) obtain s where t': "t' = save_job ((fst jb)\<lparr>dj_Status := s\<rparr>) t" by blast
  have st: "fst jb \<in> set (t_jobs t)" using assms(2) by (simp add: to_do_def)
  have "fst x \<in> set (t_jobs t')" if x: "x \<in> set jobs" for x
  proof -
    have ne: "dj_ID (fst x) \<noteq> dj_ID (fst jb)" and m: "fst x \<in> set (t_jobs t)"
      using assms(2) x by (auto simp: to_do_def) (metis comp_apply image_eqI)
    have "(\<lambda>y. if dj_ID y = dj_ID (fst jb) then (fst jb)\<lparr>dj_Status := s\<rparr> else y) (fst x) \<in>
        set (t_jobs t')"
      unfolding t' save_job_stored [OF assms(1) st] using m by (simp add: replace_row_def)
    with ne show ?thesis by simp
  qed
  with assms(2) show ?thesis by (simp add: to_do_def)
qed

lemma schedule_queued_step:
  assumes "wf_jobs (data w)" and "to_do (data w) (jb # jobs)" and "se_max_concurrency env \<noteq> 0"
    and "\<forall>b. int (running (data w) b) \<le> se_max_concurrency env"
    and "schedule_queued env jb w = (r, w')"
  shows "wf_jobs (data w') \<and> to_do (data w') jobs \<and>
    (\<forall>b. int (running (data w') b) \<le> se_max_concurrency env)"
proof (cases "w' = w")
  case True
  with assms to_do_rest [OF assms(1,2)] show ?thesis by auto
next
  case False
  with assms(5) obtain b r' where b: "snd jb = Some b" and sch: "ScheduleJob env (db_ID b) jb w = (r', w')"
    by (cases "snd jb"; cases "ScheduleJob env (db_ID (the (snd jb))) jb w")
      (auto simp: schedule_queued_def deref_def act_bind_def act_try_def split: sum.splits res.splits)
  from assms(2) b have st: "fst jb \<in> set (t_jobs (data w))" and bid: "dj_BatchID (fst jb) = Some (db_ID b)"
    by (auto simp: to_do_def)
  note so = ScheduleJob_outcome [OF sch]
  have "moved (data w) (data w')" using schedule_outcome_moved [OF so assms(1)] st by blast
  moreover have "data w' = data w \<or> (\<exists>s. data w' = save_job ((fst jb)\<lparr>dj_Status := s\<rparr>) (data w))"
    using so unfolding schedule_outcome_def by blast
  moreover note ScheduleJob_running [OF assms(1) st bid assms(3,4) sch]
  ultimately show ?thesis using to_do_rest [OF assms(1,2)] by (simp add: moved_def)
qed

lemma schedule_queued_all:
  assumes "wf_jobs (data w)" and "to_do (data w) jobs" and "se_max_concurrency env \<noteq> 0"
    and "\<forall>b. int (running (data w) b) \<le> se_max_concurrency env"
    and "act_all (schedule_queued env) jobs w = (r, w')"
  shows "\<forall>b. int (running (data w') b) \<le> se_max_concurrency env"
  using assms
proof (induction jobs arbitrary: w)
  case Nil
  then show ?case by simp
next
  case (Cons jb jobs)
  obtain x w1 where c: "schedule_queued env jb w = (x, w1)" by (cases "schedule_queued env jb w")
  note st = schedule_queued_step [OF Cons.prems(1-4) c]
  show ?case
  proof (cases x)
    case (Ok a)
    with Cons.prems(5) c have "act_all (schedule_queued env) jobs w1 = (r, w')" by simp
    with st Cons.IH [of w1] Cons.prems(3) show ?thesis by blast
  qed (use Cons.prems(5) c st in auto)
qed

lemma to_do_loaded:
  assumes "wf_jobs t"
  shows "to_do t (map (\<lambda>j. (j, preload_batch t j)) (filter P (t_jobs t)))"
proof -
  have "distinct (map dj_ID (filter P (t_jobs t)))"
    using wf_jobs_distinct [OF assms] by (simp add: distinct_map_filter)
  moreover have "dj_BatchID j = Some (db_ID b)" if "preload_batch t j = Some b" for j b
    using that find_SomeD by (fastforce simp: preload_batch_def split: option.splits)
  ultimately show ?thesis by (auto simp: to_do_def comp_def)
qed

text \<open>Claim C18: the task that takes up queued jobs keeps every batch within the concurrency
  limit: if no batch has more triggered or started jobs than the limit before, none has after,
  whatever fails on the way.\<close>

theorem queued_jobs_respect_limit:
  assumes "wf_jobs (data w)" and "se_max_concurrency env \<noteq> 0"
    and "\<forall>b. int (running (data w) b) \<le> se_max_concurrency env"
    and "trigger_queued_jobs env w = (r, w')"
  shows "\<forall>b. int (running (data w') b) \<le> se_max_concurrency env"
proof -
  obtain x w1 where q: "on_db (GetDiggerJobsWithStatus DiggerJobQueuedForRun) w = (x, w1)"
    by (cases "on_db (GetDiggerJobsWithStatus DiggerJobQueuedForRun) w")
  note qe = on_db_read_eq [OF q [unfolded GetDiggerJobsWithStatus_def]]
  show ?thesis
  proof (cases x)
    case (Ok jobs)
    with assms(4) q have a: "act_all (schedule_queued env) jobs w1 = (r, w')"
      by (simp add: trigger_queued_jobs_def act_bind_def act_try_def)
    have "to_do (data w1) jobs" using qe Ok to_do_loaded [OF assms(1)] by simp
    from schedule_queued_all [OF _ this assms(2) _ a] qe assms(1,3) show ?thesis by simp
  qed (use assms q qe in \<open>auto simp: trigger_queued_jobs_def act_bind_def act_try_def\<close>)
qed

section \<open>Examples\<close>

definition example_json :: job_json where
  "example_json =
     JobToJson
       (project_job (\<lambda>_. []) (\<lambda>_ _. None :: unit option) ''alice'' ''org/repo'' ''digger apply'' 7
          \<lparr>EnvVars = None, Plan = None, Apply = None, Configuration = None\<rparr>
          (copyProject rawProject))
       ''apply'' ''org'' ''main'' ''abc'' ''token'' ''host'' (copyProject rawProject)"

definition example_env :: "int \<Rightarrow> sched_env" where
  "example_env m =
     \<lparr>se_unmarshal = (\<lambda>_. Inr example_json), se_github_token = (\<lambda>_. Inr ''ghs''),
      se_getenv = (\<lambda>_. []), se_vcs_connection = (\<lambda>_. Inl ''none''),
      se_decrypt = (\<lambda>_ _. Inl ''none''), se_trigger = (\<lambda>_ _ _. Inr ()), se_max_concurrency = m\<rparr>"

definition example_job :: "nat \<Rightarrow> string \<Rightarrow> job_status \<Rightarrow> digger_job" where
  "example_job n jid st =
     zero_job\<lparr>dj_ID := n, dj_DiggerJobID := jid, dj_Status := st, dj_BatchID := Some ''batch-0001'',
             dj_SerializedJobSpec := Some ''{}''\<rparr>"

definition example_tables :: "digger_job list \<Rightarrow> tables" where
  "example_tables js =
     \<lparr>t_jobs = js,
      t_batches = [zero_batch\<lparr>db_ID := ''batch-0001'', db_VCS := ''github''\<rparr>],
      t_parent_links = [\<lparr>pl_DiggerJobId = ''c'', pl_ParentDiggerJobId = ''a''\<rparr>,
                        \<lparr>pl_DiggerJobId = ''c'', pl_ParentDiggerJobId = ''b''\<rparr>,
                        \<lparr>pl_DiggerJobId = ''d'', pl_ParentDiggerJobId = ''a''\<rparr>],
      t_job_links = [], t_impacted = [], t_runs = [], t_stages = [], t_queue = [], t_next = 0\<rparr>"

definition example_world :: "digger_job list \<Rightarrow> sched_world" where
  "example_world js = \<lparr>sw_db = healthy (example_tables js), sw_triggered = []\<rparr>"

text \<open>\<open>c\<close> waits for \<open>b\<close>, \<open>d\<close> only for \<open>a\<close>.\<close>

definition example_jobs :: "digger_job list" where
  "example_jobs =
     [example_job 1 ''a'' DiggerJobSucceeded, example_job 2 ''b'' DiggerJobStarted,
      example_job 3 ''c'' DiggerJobCreated, example_job 4 ''d'' DiggerJobCreated]"

lemma example_completion:
  "map (sp_JobId \<circ> fst) (sw_triggered (snd (DiggerJobCompleted (example_env 0) ''batch-0001''
     (example_job 1 ''a'' DiggerJobSucceeded) (example_world example_jobs)))) = [''d'']"
  by code_simp

lemma example_wf: "wf_jobs (data (example_world example_jobs))"
  by code_simp

theorem completion_triggers_ready_children_witness:
  "\<exists>s n new. sw_triggered (snd (DiggerJobCompleted (example_env 0) ''batch-0001''
       (example_job 1 ''a'' DiggerJobSucceeded) (example_world example_jobs))) = (s, n) # new \<and>
     sp_JobId s = ''d'' \<and>
     (\<forall>l \<in> set (t_parent_links (data (example_world example_jobs))). pl_DiggerJobId l = ''d'' \<longrightarrow>
        dj_Status (job_view (data (example_world example_jobs)) (pl_ParentDiggerJobId l)) =
          DiggerJobSucceeded)"
proof -
  let ?run = "DiggerJobCompleted (example_env 0) ''batch-0001''
    (example_job 1 ''a'' DiggerJobSucceeded) (example_world example_jobs)"
  obtain r w' where run: "?run = (r, w')" by (cases ?run)
  from completion_triggers_ready_children [OF example_wf run] obtain new where
    new: "sw_triggered w' = sw_triggered (example_world example_jobs) @ new" and
    p: "\<forall>(s, n) \<in> set new. \<forall>l \<in> set (t_parent_links (data (example_world example_jobs))).
      pl_DiggerJobId l = sp_JobId s \<longrightarrow>
      dj_Status (job_view (data (example_world example_jobs)) (pl_ParentDiggerJobId l)) =
        DiggerJobSucceeded" by blast
  have "map (sp_JobId \<circ> fst) new = [''d'']"
    using example_completion run new by (simp add: example_world_def)
  then obtain s n rest where n: "new = (s, n) # rest" "sp_JobId s = ''d''"
    by (cases new) auto
  with p have "\<forall>l \<in> set (t_parent_links (data (example_world example_jobs))). pl_DiggerJobId l = ''d'' \<longrightarrow>
      dj_Status (job_view (data (example_world example_jobs)) (pl_ParentDiggerJobId l)) =
        DiggerJobSucceeded" by simp
  with run new n show ?thesis by (simp add: example_world_def)
qed

definition queued_jobs :: "digger_job list" where
  "queued_jobs =
     [example_job 1 ''a'' DiggerJobStarted, example_job 2 ''b'' DiggerJobQueuedForRun,
      example_job 3 ''c'' DiggerJobQueuedForRun]"

lemma queued_jobs_running: "running (data (example_world queued_jobs)) b \<le> 1"
  by (simp add: running_def example_world_def example_tables_def queued_jobs_def is_running_def
      example_job_def)

text \<open>With a limit of two, one of the two queued jobs is triggered.\<close>

theorem queued_jobs_respect_limit_witness:
  "running (data (snd (trigger_queued_jobs (example_env 2) (example_world queued_jobs)))) ''batch-0001'' \<le> 2 \<and>
   map dj_Status (t_jobs (data (snd (trigger_queued_jobs (example_env 2) (example_world queued_jobs))))) =
     [DiggerJobStarted, DiggerJobTriggered, DiggerJobQueuedForRun]"
proof -
  obtain r w' where run: "trigger_queued_jobs (example_env 2) (example_world queued_jobs) = (r, w')"
    by (cases "trigger_queued_jobs (example_env 2) (example_world queued_jobs)")
  have wf: "wf_jobs (data (example_world queued_jobs))" by code_simp
  have m: "se_max_concurrency (example_env 2) = 2" by (simp add: example_env_def)
  have "\<forall>b. int (running (data (example_world queued_jobs)) b) \<le> se_max_concurrency (example_env 2)"
  proof
    fix b
    from queued_jobs_running [of b] have "int (running (data (example_world queued_jobs)) b) \<le> 1" by linarith
    with m show "int (running (data (example_world queued_jobs)) b) \<le> se_max_concurrency (example_env 2)"
      by linarith
  qed
  from queued_jobs_respect_limit [OF wf _ this run] m
  have "int (running (data w') ''batch-0001'') \<le> 2" by simp
  moreover have "map dj_Status (t_jobs (data (snd (trigger_queued_jobs (example_env 2)
      (example_world queued_jobs))))) = [DiggerJobStarted, DiggerJobTriggered, DiggerJobQueuedForRun]"
    by code_simp
  ultimately show ?thesis using run by simp
qed

section \<open>Batches\<close>

lemma foldl_all_succeeded:
  "foldl (\<lambda>b j. if dj_Status j \<noteq> DiggerJobSucceeded then False else b) b js \<longleftrightarrow>
   b \<and> (\<forall>j \<in> set js. dj_Status j = DiggerJobSucceeded)"
  by (induction js arbitrary: b) auto

text \<open>Recomputing the status of a batch that is not final succeeds with the status
  succeeded exactly when all its jobs have, and otherwise leaves the batch and the tables as they
  are; it never changes a job.\<close>

theorem UpdateBatchStatus_Ok:
  assumes "UpdateBatchStatus batch d = (Ok b', d')"
    and "db_Status batch \<noteq> BatchJobInvalidated" and "db_Status batch \<noteq> BatchJobFailed"
    and "db_Status batch \<noteq> BatchJobSucceeded"
  shows "(db_Status b' = BatchJobSucceeded \<longleftrightarrow>
            (\<forall>j \<in> set (t_jobs (fdb_data d)). dj_BatchID j = Some (db_ID batch) \<longrightarrow>
               dj_Status j = DiggerJobSucceeded)) \<and>
         (db_Status b' \<noteq> BatchJobSucceeded \<longrightarrow> b' = batch \<and> fdb_data d' = fdb_data d) \<and>
         t_jobs (fdb_data d') = t_jobs (fdb_data d)"
proof -
  let ?q = "\<lambda>t. filter (\<lambda>j. dj_BatchID j = Some (db_ID batch)) (t_jobs t)"
  let ?batch = "batch\<lparr>db_Status := BatchJobSucceeded\<rparr>"
  let ?u = "\<lambda>t. t\<lparr>t_batches := save_by db_ID ?batch (t_batches t)\<rparr>"
  obtain x d1 where q: "fdb_read ?q d = (x, d1)" by (cases "fdb_read ?q d")
  from assms q obtain js where x: "x = Ok js"
    by (cases x) (auto simp: UpdateBatchStatus_def act_bind_def)
  from fdb_read_Ok q x have js: "js = ?q (fdb_data d)" and d1: "fdb_data d1 = fdb_data d" by metis+
  obtain y d2 where u: "fdb_write ?u d1 = (y, d2)" by (cases "fdb_write ?u d1")
  have d2: "fdb_data d2 = fdb_data d1 \<or> fdb_data d2 = ?u (fdb_data d1)"
    using fdb_write_data [of ?u d1] u by simp
  show ?thesis
  proof (cases "\<forall>j \<in> set js. dj_Status j = DiggerJobSucceeded")
    case True
    with assms q x u have "b' = ?batch \<and> d' = d2"
      by (cases y) (auto simp: UpdateBatchStatus_def act_bind_def act_try_def foldl_all_succeeded Let_def)
    with True js d1 d2 show ?thesis by auto
  next
    case False
    with assms q x have "b' = batch \<and> d' = d1"
      by (auto simp: UpdateBatchStatus_def act_bind_def foldl_all_succeeded Let_def)
    with False js d1 assms(4) show ?thesis by auto
  qed
qed

theorem UpdateBatchStatus_Ok_witness:
  "\<exists>b' d'. UpdateBatchStatus (zero_batch\<lparr>db_ID := ''batch-0001'', db_Status := BatchJobStarted\<rparr>)
      (healthy (example_tables [example_job 1 ''a'' DiggerJobSucceeded])) = (Ok b', d') \<and>
    db_Status b' = BatchJobSucceeded"
proof -
  let ?b = "zero_batch\<lparr>db_ID := ''batch-0001'', db_Status := BatchJobStarted\<rparr>"
  let ?t = "example_tables [example_job 1 ''a'' DiggerJobSucceeded]"
  have "\<exists>b' d'. UpdateBatchStatus ?b (healthy ?t) = (Ok b', d')"
    by (simp add: UpdateBatchStatus_def act_bind_def act_try_def Let_def)
  then obtain b' d' where run: "UpdateBatchStatus ?b (healthy ?t) = (Ok b', d')" by blast
  from UpdateBatchStatus_Ok [OF run] have "db_Status b' = BatchJobSucceeded"
    by (simp add: example_tables_def example_job_def)
  with run show ?thesis by blast
qed

section \<open>Variables\<close>

definition resolve :: "(string \<Rightarrow> string) \<Rightarrow> string \<Rightarrow> string" where
  "resolve getenv s =
     (if has_prefix s ''$DIGGER_'' then getenv (replace_all s ''$DIGGER_'' []) else s)"

lemma env_variables_map: "getVariablesSpecFromEnvMap kvs = map env_variable kvs"
proof -
  have "foldl (\<lambda>vs kv. vs @ [env_variable kv]) vs kvs = vs @ map env_variable kvs" for vs
    by (induction kvs arbitrary: vs) auto
  then show ?thesis by (simp add: getVariablesSpecFromEnvMap_def)
qed

lemma load_env_variables:
  assumes "distinct (map fst kvs)"
  shows "\<exists>m. load_variables getenv decrypt key (map env_variable kvs) res = Inr m \<and>
    map_of m = (\<lambda>k. case map_of kvs k of None \<Rightarrow> map_of res k | Some s \<Rightarrow> Some (resolve getenv s))"
  using assms
proof (induction kvs arbitrary: res)
  case Nil
  then show ?case by auto
next
  case (Cons kv kvs)
  let ?res = "AList.update (fst kv) (resolve getenv (snd kv)) res"
  have step: "load_variables getenv decrypt key (map env_variable (kv # kvs)) res =
      load_variables getenv decrypt key (map env_variable kvs) ?res"
    by (simp add: env_variable_def resolve_def)
  have none: "map_of kvs (fst kv) = None"
    using Cons.prems by (simp add: map_of_eq_None_iff)
  have "distinct (map fst kvs)" using Cons.prems by simp
  from Cons.IH [OF this, of ?res] obtain m where
    m: "load_variables getenv decrypt key (map env_variable kvs) ?res = Inr m" and
    mm: "map_of m = (\<lambda>k. case map_of kvs k of None \<Rightarrow> map_of ?res k | Some s \<Rightarrow> Some (resolve getenv s))"
    by blast
  have "map_of m = (\<lambda>k. case map_of (kv # kvs) k of None \<Rightarrow> map_of res k
      | Some s \<Rightarrow> Some (resolve getenv s))"
    unfolding mm by (rule ext) (cases kv, use none in \<open>auto split: option.splits\<close>)
  with step m show ?case by simp
qed

definition plain_var :: "env_var \<Rightarrow> bool" where
  "plain_var v \<longleftrightarrow>
     \<not> has_prefix (ev_Value v) ''$DIGGER_'' \<and> \<not> str_contains (ev_ValueFrom v) ''$DIGGER_''"

lemma resolve_plain:
  "plain_var v \<Longrightarrow> resolve getenv (ev_Value v) = ev_Value v"
  "plain_var v \<Longrightarrow> resolve getenv (''$DIGGER_'' @ ev_ValueFrom v) = getenv (ev_ValueFrom v)"
proof -
  assume p: "plain_var v"
  then show "resolve getenv (ev_Value v) = ev_Value v" by (simp add: resolve_def plain_var_def)
  have "replace_all (''$DIGGER_'' @ ev_ValueFrom v) ''$DIGGER_'' [] = ev_ValueFrom v"
    using p by (subst replace_all_prefix) (simp_all add: replace_all_no_match plain_var_def)
  then show "resolve getenv (''$DIGGER_'' @ ev_ValueFrom v) = getenv (ev_ValueFrom v)"
    using has_prefix_append [of "''$DIGGER_''" "ev_ValueFrom v"] by (simp add: resolve_def)
qed

lemma collect_env_Cons:
  "collect_env getenv b m (v # vs) = collect_env getenv b (collect_env getenv b m [v]) vs"
  by (simp add: collect_env_def)

lemma collect_env_resolve:
  assumes "\<forall>v \<in> set vars. plain_var v" and "map_of m2 = map_option (resolve getenv) \<circ> map_of m1"
  shows "map_of (collect_env getenv True m2 vars) =
    map_option (resolve getenv) \<circ> map_of (collect_env getenv' False m1 vars)"
  using assms
proof (induction vars arbitrary: m1 m2)
  case Nil
  then show ?case by (simp add: collect_env_def)
next
  case (Cons v vars)
  have "map_of (collect_env getenv True m2 [v]) =
      map_option (resolve getenv) \<circ> map_of (collect_env getenv' False m1 [v])"
    using Cons.prems resolve_plain [of v getenv]
    by (auto simp: collect_env_def fun_eq_iff)
  from Cons.IH [OF _ this] Cons.prems(1) show ?case
    by (simp add: collect_env_Cons [of _ _ _ v vars])
qed

lemma collect_env_distinct:
  "distinct (map fst m) \<Longrightarrow> distinct (map fst (collect_env getenv b m vars))"
proof (induction vars arbitrary: m)
  case Nil
  then show ?case by (simp add: collect_env_def)
next
  case (Cons v vars)
  have "distinct (map fst (collect_env getenv b m [v]))"
    using Cons.prems by (simp add: collect_env_def)
  from Cons.IH [OF this] show ?case by (simp add: collect_env_Cons [of _ _ _ v vars])
qed

text \<open>Variables that a workflow defines, sent to the runner as specs and resolved there,
  have the values that interpolating them on the runner at once would give, provided no literal
  value starts with the marker of an interpolated one and no variable's name contains it.\<close>

theorem variables_roundtrip:
  assumes "\<forall>v \<in> set vars. plain_var v"
  shows "\<exists>m. GetVariables runner decrypt
           (getVariablesSpecFromEnvMap (collect_env backend False [] vars)) = Inr m \<and>
         map_of m = map_of (collect_env runner True [] vars)"
proof -
  let ?kvs = "collect_env backend False [] vars"
  have d: "distinct (map fst ?kvs)" by (rule collect_env_distinct) simp
  have sec: "filter va_IsSecret (map env_variable ?kvs) = []"
    by (auto simp: filter_empty_conv env_variable_def)
  from load_env_variables [OF d, of runner decrypt "runner ''DIGGER_PRIVATE_KEY''" "[]"] obtain m
    where m: "load_variables runner decrypt (runner ''DIGGER_PRIVATE_KEY'') (map env_variable ?kvs) [] = Inr m"
      and mm: "map_of m = (\<lambda>k. case map_of ?kvs k of None \<Rightarrow> map_of [] k | Some s \<Rightarrow> Some (resolve runner s))"
    by blast
  have "map_of (collect_env runner True [] vars) = map_option (resolve runner) \<circ> map_of ?kvs"
    by (rule collect_env_resolve [OF assms]) (simp add: fun_eq_iff)
  with mm have "map_of m = map_of (collect_env runner True [] vars)"
    by (auto simp: fun_eq_iff split: option.splits)
  with m sec show ?thesis by (simp add: GetVariables_def env_variables_map)
qed

definition two_vars :: "env_var list" where
  "two_vars =
     [\<lparr>ev_Name = ''REGION'', ev_ValueFrom = [], ev_Value = ''eu-west-1''\<rparr>,
      \<lparr>ev_Name = ''KEY'', ev_ValueFrom = ''PROD_KEY'', ev_Value = []\<rparr>]"

theorem variables_roundtrip_witness:
  "\<exists>m. GetVariables (\<lambda>n. if n = ''PROD_KEY'' then ''s3cret'' else []) (\<lambda>_ _. Inl [])
      (getVariablesSpecFromEnvMap (collect_env (\<lambda>_. []) False [] two_vars)) = Inr m \<and>
    map_of m ''KEY'' = Some ''s3cret''"
proof -
  have p: "\<forall>v \<in> set two_vars. plain_var v" by code_simp
  have "map_of (collect_env (\<lambda>n. if n = ''PROD_KEY'' then ''s3cret'' else []) True [] two_vars) ''KEY'' =
      Some ''s3cret''"
    by code_simp
  with variables_roundtrip [OF p, of "\<lambda>n. if n = ''PROD_KEY'' then ''s3cret'' else []" "\<lambda>_ _. Inl []"
      "\<lambda>_. []"] show ?thesis by metis
qed

end
