(* ===== verification/JobGraph.thy ===== *)
theory JobGraph
  imports BackendDb ConfigConvert
begin

text \<open>
  From impacted projects to a graph of jobs: \<open>backend/utils/graphs.go\<close>.  The dependency graph
  is collapsed to the impacted projects, the collapsed graph is walked breadth first, and a job is
  stored for each project with links to the jobs of its parents.
\<close>

section \<open>Collapsing the graph\<close>

definition lift_ge :: "graph_err + 'a \<Rightarrow> 'a res" where
  "lift_ge r = (case r of Inl e \<Rightarrow> Err (graph_err_text e) | Inr g \<Rightarrow> Ok g)"

definition targets :: "(string \<times> string list) list \<Rightarrow> string \<Rightarrow> string list" where
  "targets m k = (case map_of m k of None \<Rightarrow> [] | Some ts \<Rightarrow> ts)"

text \<open>\<open>CollapsedGraph\<close>; the first argument bounds the depth of the recursion, which follows
  the edges of an acyclic graph.\<close>

fun CollapsedGraph ::
  "nat \<Rightarrow> ('g, project) graph_ops \<Rightarrow> (string \<times> string list) list \<Rightarrow> (string \<times> project) list \<Rightarrow>
   string option \<Rightarrow> string \<Rightarrow> 'g \<Rightarrow> 'g res" where
  "CollapsedGraph 0 lib adjMap impacted impactedParent currentNode g = Panic ''stack overflow''"
| "CollapsedGraph (Suc n) lib adjMap impacted impactedParent currentNode g =
     (case map_of impacted currentNode of
        Some currentProject \<Rightarrow>
          (case g_add_vertex lib currentProject g of
             Inl e \<Rightarrow> if e = ErrVertexAlreadyExists then Ok g else Err (graph_err_text e)
           | Inr g1 \<Rightarrow>
               res_bind
                 (res_foldl (\<lambda>g child.
                     CollapsedGraph n lib adjMap impacted (Some currentNode) child g)
                   g1 (targets adjMap currentNode))
                 (\<lambda>g2. case impactedParent of
                         None \<Rightarrow> Ok g2
                       | Some parent \<Rightarrow> lift_ge (g_add_edge lib parent currentNode g2)))
      | None \<Rightarrow>
          res_foldl (\<lambda>g child. CollapsedGraph n lib adjMap impacted impactedParent child g)
            g (targets adjMap currentNode))"

definition roots :: "(string \<times> string list) list \<Rightarrow> string list" where
  "roots predecessorMap = map fst (filter (\<lambda>(_, ss). length ss = 0) predecessorMap)"

definition ImpactedProjectsOnlyGraph ::
  "nat \<Rightarrow> ('g, project) graph_ops \<Rightarrow> 'g \<Rightarrow> (string \<times> project) list \<Rightarrow> 'g res" where
  "ImpactedProjectsOnlyGraph n lib projectsGraph impacted =
     (let adjacencyMap = g_adjacency lib projectsGraph;
          predecessorMap = g_predecessors lib projectsGraph
      in res_foldl (\<lambda>g node. CollapsedGraph n lib adjacencyMap impacted None node g)
           (g_new lib) (roots predecessorMap))"

section \<open>Walking it\<close>

definition zero_project :: project where
  "zero_project =
     \<lparr>BlockName = [], Name = [], Branch = [], Alias = [], ApplyRequirements = [], Dir = [],
      Workspace = [], Terragrunt = False, Layer = 0, OpenTofu = False, Pulumi = False,
      Workflow = [], WorkflowFile = [], IncludePatterns = [], ExcludePatterns = [],
      DependencyProjects = [], DriftDetection = False, AwsRoleToAssume = None,
      AwsCognitoOidcConfig = None, Generated = False, PulumiStack = []\<rparr>"

definition dummyParent :: project where
  "dummyParent = zero_project\<lparr>Name := ''DUMMY_PARENT_PROJECT_FOR_PROCESSING''\<rparr>"

text \<open>\<open>bfs\<close> is the order in which the package visits a graph breadth first from a vertex; the
  visiting functions of this file never ask it to stop.\<close>

definition TraverseGraphVisitAllParentsFirst ::
  "('g, project) graph_ops \<Rightarrow> ('g \<Rightarrow> string \<Rightarrow> string list) \<Rightarrow> 'g \<Rightarrow> (string \<Rightarrow> (unit, 's) act) \<Rightarrow>
   (unit, 's) act" where
  "TraverseGraphVisitAllParentsFirst lib bfs g visit =
     (let predecessorMap = g_predecessors lib g in
      act_bind (act_of (lift_ge (g_add_vertex lib dummyParent g))) (\<lambda>g1.
      act_bind (act_of (res_foldl (\<lambda>g node. lift_ge (g_add_edge lib (Name dummyParent) node g))
                  g1 (roots predecessorMap))) (\<lambda>g2.
        act_all (\<lambda>value. if value = Name dummyParent then act_ret () else visit value)
          (bfs g2 (Name dummyParent)))))"

section \<open>Storing the jobs\<close>

record check_run_data =
  cr_Id :: string
  cr_Url :: string

record convert_env =
  ce_organisation :: "nat \<Rightarrow> error + string"
  ce_job_token :: "string \<Rightarrow> error + string"
  ce_marshal :: "job_json \<Rightarrow> error + string"
  ce_hostname :: string
  ce_fresh :: "nat \<Rightarrow> string"

record convert_world =
  cw_db :: "tables fdb"
  cw_result :: "(string \<times> digger_job) list"

definition on_cdb :: "('a, tables fdb) act \<Rightarrow> ('a, convert_world) act" where
  "on_cdb f w = (let (x, d) = f (cw_db w) in (x, w\<lparr>cw_db := d\<rparr>))"

definition put_result :: "string \<Rightarrow> digger_job \<Rightarrow> (unit, convert_world) act" where
  "put_result k j = act_modify (\<lambda>w. w\<lparr>cw_result := AList.update k j (cw_result w)\<rparr>)"

text \<open>A step of a visit whose error ends the visit, and only that.\<close>

definition or_stop ::
  "('a, 's) act \<Rightarrow> ('a \<Rightarrow> (unit, 's) act) \<Rightarrow> (unit, 's) act" where
  "or_stop f k = act_bind (act_try f) (\<lambda>r. case r of Inl _ \<Rightarrow> act_ret () | Inr a \<Rightarrow> k a)"

fun visit_parents ::
  "(digger_job, tables fdb) act \<Rightarrow> string \<Rightarrow> string \<Rightarrow> string list \<Rightarrow> (unit, convert_world) act" where
  "visit_parents create repoFullName value [] = act_ret ()"
| "visit_parents create repoFullName value (parent # ps) =
     act_bind (act_gets (\<lambda>w. map_of (cw_result w) parent)) (\<lambda>parentDiggerJob.
     or_stop (on_cdb create) (\<lambda>childJob.
     or_stop (on_cdb (CreateDiggerJobLink (dj_DiggerJobID childJob) repoFullName)) (\<lambda>_.
       case parentDiggerJob of
         None \<Rightarrow> act_panic ''nil pointer dereference''
       | Some pj \<Rightarrow>
           or_stop (on_cdb (CreateDiggerJobParentLink (dj_DiggerJobID pj) (dj_DiggerJobID childJob)))
             (\<lambda>_. act_bind (put_result value childJob)
                    (\<lambda>_. visit_parents create repoFullName value ps)))))"

definition visit_project ::
  "(string \<Rightarrow> (digger_job, tables fdb) act) \<Rightarrow> string \<Rightarrow> (string \<times> string list) list \<Rightarrow> string \<Rightarrow>
   (unit, convert_world) act" where
  "visit_project create repoFullName predecessorMap value =
     (if targets predecessorMap value = [] then
        or_stop (on_cdb (create value)) (\<lambda>parentJob.
        or_stop (on_cdb (CreateDiggerJobLink (dj_DiggerJobID parentJob) repoFullName)) (\<lambda>_.
          put_result value parentJob))
      else visit_parents (create value) repoFullName value (targets predecessorMap value))"

fun marshal_jobs ::
  "convert_env \<Rightarrow> string \<Rightarrow> string \<Rightarrow> string \<Rightarrow> string \<Rightarrow> (string \<times> project) list \<Rightarrow>
   (string \<times> 'p job) list \<Rightarrow> (string \<times> string) list \<Rightarrow> (string \<times> string) list res" where
  "marshal_jobs env jobType organisationName branch commitSha projectMap [] acc = Ok acc"
| "marshal_jobs env jobType organisationName branch commitSha projectMap ((projectName, job) # js) acc =
     (case ce_job_token env projectName of
        Inl _ \<Rightarrow> Err ''error creating job token''
      | Inr token \<Rightarrow>
          (case ce_marshal env (JobToJson job jobType organisationName branch commitSha token
                  (ce_hostname env)
                  (case map_of projectMap projectName of
                     None \<Rightarrow> zero_project
                   | Some p \<Rightarrow> p)) of
             Inl e \<Rightarrow> Err e
           | Inr m \<Rightarrow>
               marshal_jobs env jobType organisationName branch commitSha projectMap js
                 (AList.update (j_ProjectName job) m acc)))"

text \<open>The fields of the batch come as the record \<open>CreateDiggerBatch\<close> takes; \<open>jobType\<close> is
  the text of the command, which is also the batch's type.\<close>

definition create_job_for ::
  "convert_env \<Rightarrow> string \<Rightarrow> (string \<times> string) list \<Rightarrow> (string \<times> project) list \<Rightarrow>
   (string \<times> check_run_data) list \<Rightarrow> string \<Rightarrow> string \<Rightarrow> (digger_job, tables fdb) act" where
  "create_job_for env batchId marshalled projectMap checkRuns reporterType value =
     CreateDiggerJob (ce_fresh env) batchId (map_of marshalled value)
       (case map_of projectMap value of None \<Rightarrow> [] | Some p \<Rightarrow> WorkflowFile p)
       (map_option cr_Id (map_of checkRuns value)) (map_option cr_Url (map_of checkRuns value))
       reporterType value"

definition ConvertJobsToDiggerJobs ::
  "nat \<Rightarrow> ('g, project) graph_ops \<Rightarrow> ('g \<Rightarrow> string \<Rightarrow> string list) \<Rightarrow> convert_env \<Rightarrow> string \<Rightarrow> string \<Rightarrow>
   nat \<Rightarrow> digger_batch \<Rightarrow> (string \<times> 'p job) list \<Rightarrow> (string \<times> project) list \<Rightarrow>
   (string \<times> check_run_data) list \<Rightarrow> 'g \<Rightarrow> (string, convert_world) act" where
  "ConvertJobsToDiggerJobs n lib bfs env jobType reporterType organisationId batchFields jobsMap
       projectMap checkRuns projectsGraph =
     (case ce_organisation env organisationId of
        Inl _ \<Rightarrow> act_err ''error retrieving organisation''
      | Inr organisationName \<Rightarrow>
          act_bind (act_of (marshal_jobs env jobType organisationName (db_BranchName batchFields)
              (db_CommitSha batchFields) projectMap jobsMap [])) (\<lambda>marshalled.
          act_bind (act_wrap (\<lambda>e. ''failed to create batch: '' @ e)
              (on_cdb (CreateDiggerBatch (ce_fresh env) batchFields))) (\<lambda>batch.
          act_bind (act_of (ImpactedProjectsOnlyGraph n lib projectsGraph projectMap)) (\<lambda>g.
          act_bind
            (TraverseGraphVisitAllParentsFirst lib bfs g
              (visit_project
                (create_job_for env (db_ID batch) marshalled projectMap checkRuns reporterType)
                (db_RepoFullName batchFields) (g_predecessors lib g)))
            (\<lambda>_. act_ret (db_ID batch))))))"

end
