(* ===== verification/JobGraphProps.thy ===== *)
theory JobGraphProps
  imports JobGraph ConfigProps
begin

text \<open>
  What collapsing the dependency graph guarantees: it succeeds on every acyclic graph, keeps
  exactly the impacted projects, connects two of them only along a chain of dependencies through
  projects that are not impacted, and leaves every project at most one parent.
\<close>

text \<open>Edges out of projects that are not impacted, and the connections a collapsed graph may
  have.\<close>

definition skip_edges :: "(string \<times> string) set \<Rightarrow> string set \<Rightarrow> (string \<times> string) set" where
  "skip_edges E D = {(x, y). (x, y) \<in> E \<and> x \<notin> D}"

definition collapsed_rel :: "(string \<times> string) set \<Rightarrow> string set \<Rightarrow> (string \<times> string) set" where
  "collapsed_rel E D = {(a, b). a \<in> D \<and> b \<in> D \<and> (a, b) \<in> E O (skip_edges E D)\<^sup>*}"

lemma skip_trancl: "(skip_edges E D)\<^sup>* \<subseteq> E\<^sup>*"
  by (rule rtrancl_mono) (auto simp: skip_edges_def)

lemma relcomp_trancl: "(a, b) \<in> E O (skip_edges E D)\<^sup>* \<Longrightarrow> (a, b) \<in> E\<^sup>+"
proof -
  assume "(a, b) \<in> E O (skip_edges E D)\<^sup>*"
  then obtain c where "(a, c) \<in> E" "(c, b) \<in> (skip_edges E D)\<^sup>*" by blast
  moreover from this have "(c, b) \<in> E\<^sup>*" using skip_trancl by blast
  ultimately show ?thesis by (simp add: rtrancl_into_trancl2)
qed

lemma collapsed_trancl: "collapsed_rel E D \<subseteq> E\<^sup>+"
  unfolding collapsed_rel_def using relcomp_trancl by blast

lemma relcomp_step: "(q, k) \<in> E O R\<^sup>* \<Longrightarrow> (k, c) \<in> R \<Longrightarrow> (q, c) \<in> E O R\<^sup>*"
  by (auto intro: rtrancl.rtrancl_into_rtrancl)

lemma trancl_range: "E\<^sup>+ `` {k} \<subseteq> snd ` E"
proof
  fix x assume "x \<in> E\<^sup>+ `` {k}"
  then obtain y where "(y, x) \<in> E" by (auto elim: tranclE)
  then show "x \<in> snd ` E" by force
qed

lemma card_descendants_less:
  assumes "finite E" and "acyclic E" and "(a, b) \<in> E"
  shows "card (E\<^sup>+ `` {b}) < card (E\<^sup>+ `` {a})"
proof (rule psubset_card_mono)
  show "finite (E\<^sup>+ `` {a})" using assms(1) by (simp add: finite_Image finite_trancl)
  have "b \<in> E\<^sup>+ `` {a}" "b \<notin> E\<^sup>+ `` {b}" using assms by (auto simp: acyclic_def)
  moreover have "E\<^sup>+ `` {b} \<subseteq> E\<^sup>+ `` {a}" using assms(3) by (auto intro: trancl_into_trancl2)
  ultimately show "E\<^sup>+ `` {b} \<subset> E\<^sup>+ `` {a}" by blast
qed

lemma reachable_children:
  "(\<forall>c. (k, c) \<in> E \<longrightarrow> E\<^sup>* `` {c} \<inter> D \<subseteq> X) \<Longrightarrow> (k \<in> D \<Longrightarrow> k \<in> X) \<Longrightarrow> E\<^sup>* `` {k} \<inter> D \<subseteq> X"
  by (auto elim: converse_rtranclE)

context project_graph_lib
begin

text \<open>The invariant of the recursion; \<open>S\<close> holds the projects whose children are being visited.\<close>

definition cinv ::
  "(string \<times> string) set \<Rightarrow> (string \<times> project) list \<Rightarrow> string set \<Rightarrow> 'g \<Rightarrow> bool" where
  "cinv E imp S g \<longleftrightarrow>
     ginv g \<and>
     (\<forall>k p. verts g k = Some p \<longrightarrow> map_of imp k = Some p) \<and>
     edges g \<subseteq> collapsed_rel E (dom (map_of imp)) \<and>
     edges g \<subseteq> dom (verts g) \<times> dom (verts g) \<and>
     (\<forall>a b c. (a, c) \<in> edges g \<longrightarrow> (b, c) \<in> edges g \<longrightarrow> a = b) \<and>
     (\<forall>v \<in> dom (verts g) - S. E\<^sup>* `` {v} \<inter> dom (map_of imp) \<subseteq> dom (verts g))"

definition grows :: "'g \<Rightarrow> 'g \<Rightarrow> bool" where
  "grows g g' \<longleftrightarrow>
     dom (verts g) \<subseteq> dom (verts g') \<and>
     (\<forall>a b. b \<in> dom (verts g) \<longrightarrow> (a, b) \<in> edges g' \<longrightarrow> (a, b) \<in> edges g)"

lemma grows_refl: "grows g g"
  by (simp add: grows_def)

lemma grows_trans: "grows g g' \<Longrightarrow> grows g' g'' \<Longrightarrow> grows g g''"
  unfolding grows_def by blast

text \<open>Visiting the children one after the other, when each visit does what it should.\<close>

lemma children_fold:
  assumes step: "\<And>g c. c \<in> set cs \<Longrightarrow> cinv E imp S g \<Longrightarrow> X \<subseteq> dom (verts g) \<Longrightarrow>
      \<exists>g'. F g c = Ok g' \<and> cinv E imp S g' \<and> grows g g' \<and>
           E\<^sup>* `` {c} \<inter> dom (map_of imp) \<subseteq> dom (verts g')"
    and "cinv E imp S g" and "X \<subseteq> dom (verts g)"
  shows "\<exists>g'. res_foldl F g cs = Ok g' \<and> cinv E imp S g' \<and> grows g g' \<and>
    (\<forall>c \<in> set cs. E\<^sup>* `` {c} \<inter> dom (map_of imp) \<subseteq> dom (verts g'))"
  using assms
proof (induction cs arbitrary: g)
  case Nil
  then show ?case by (auto intro: grows_refl)
next
  case (Cons c cs)
  from Cons.prems(1) [OF _ Cons.prems(2,3), of c] obtain g1 where
    g1: "F g c = Ok g1" "cinv E imp S g1" "grows g g1"
      "E\<^sup>* `` {c} \<inter> dom (map_of imp) \<subseteq> dom (verts g1)" by auto
  have x1: "X \<subseteq> dom (verts g1)" using Cons.prems(3) g1(3) unfolding grows_def by blast
  have "\<exists>g'. res_foldl F g1 cs = Ok g' \<and> cinv E imp S g' \<and> grows g1 g' \<and>
      (\<forall>c \<in> set cs. E\<^sup>* `` {c} \<inter> dom (map_of imp) \<subseteq> dom (verts g'))"
    by (rule Cons.IH [OF _ g1(2) x1]) (use Cons.prems(1) in auto)
  then obtain g2 where
    g2: "res_foldl F g1 cs = Ok g2" "cinv E imp S g2" "grows g1 g2"
      "\<forall>c \<in> set cs. E\<^sup>* `` {c} \<inter> dom (map_of imp) \<subseteq> dom (verts g2)" by blast
  have "E\<^sup>* `` {c} \<inter> dom (map_of imp) \<subseteq> dom (verts g2)"
    using g1(4) g2(3) unfolding grows_def by blast
  with g1(1) g2 grows_trans [OF g1(3) g2(3)] show ?case by auto
qed

lemma cinv_add_vertex:
  assumes "cinv E imp S g" and "map_of imp k = Some p" and "Name p = k"
    and "g_add_vertex lib p g = Inr g1"
  shows "cinv E imp (insert k S) g1 \<and> grows g g1 \<and> k \<in> dom (verts g1) \<and>
    (\<forall>a. (a, k) \<notin> edges g1)"
proof -
  from assms have a: "verts g k = None \<and> ginv g1 \<and> verts g1 = (verts g)(k \<mapsto> p) \<and> edges g1 = edges g"
    using add_vertex_Inr [of g p g1] by (simp add: cinv_def)
  then have k: "k \<notin> dom (verts g)" and d: "dom (verts g1) = insert k (dom (verts g))" by auto
  from assms(1) have ed: "edges g \<subseteq> dom (verts g) \<times> dom (verts g)"
    and cl: "\<forall>v \<in> dom (verts g) - S. E\<^sup>* `` {v} \<inter> dom (map_of imp) \<subseteq> dom (verts g)"
    by (simp_all add: cinv_def)
  have "\<forall>k' p'. verts g1 k' = Some p' \<longrightarrow> map_of imp k' = Some p'"
    using assms(1,2) a by (auto simp: cinv_def)
  moreover have "\<forall>v \<in> dom (verts g1) - insert k S. E\<^sup>* `` {v} \<inter> dom (map_of imp) \<subseteq> dom (verts g1)"
    using cl d by blast
  moreover have "edges g1 \<subseteq> dom (verts g1) \<times> dom (verts g1)" using ed a d by blast
  ultimately have "cinv E imp (insert k S) g1" using assms(1) a by (simp add: cinv_def)
  moreover have "grows g g1" using d a by (auto simp: grows_def)
  ultimately show ?thesis using d ed a k by blast
qed

lemma cinv_add_edge:
  assumes "cinv E imp S g" and "acyclic E" and "(q, k) \<in> E O (skip_edges E (dom (map_of imp)))\<^sup>*"
    and "q \<in> dom (verts g)" and "k \<in> dom (verts g)" and "\<forall>a. (a, k) \<notin> edges g"
  shows "\<exists>g'. g_add_edge lib q k g = Inr g' \<and> cinv E imp S g' \<and> dom (verts g') = dom (verts g) \<and>
    edges g' = insert (q, k) (edges g)"
proof -
  from assms(1) have inv: "ginv g" and c: "edges g \<subseteq> collapsed_rel E (dom (map_of imp))"
    and vi: "\<forall>k p. verts g k = Some p \<longrightarrow> map_of imp k = Some p"
    by (simp_all add: cinv_def)
  have "(edges g)\<^sup>* \<subseteq> E\<^sup>*"
    using c collapsed_trancl by (metis rtrancl_mono subset_trans trancl_rtrancl_absorb)
  moreover have "(q, k) \<in> E\<^sup>+" using assms(3) by (rule relcomp_trancl)
  ultimately have "(k, q) \<notin> (edges g)\<^sup>*"
    using assms(2) unfolding acyclic_def by (meson rtrancl_trancl_trancl subsetD)
  then obtain g' where g': "g_add_edge lib q k g = Inr g'" "ginv g'" "verts g' = verts g"
    "edges g' = insert (q, k) (edges g)"
    using add_edge_new [OF inv, of q k] assms(4-6) by blast
  have "(q, k) \<in> collapsed_rel E (dom (map_of imp))"
    using assms(3-5) vi by (auto simp: collapsed_rel_def)
  then have "cinv E imp S g'"
    using assms(1,4-6) g' by (auto simp: cinv_def)
  with g' show ?thesis by simp
qed

text \<open>One visit: enough depth for the descendants of the node is enough.\<close>

lemma CollapsedGraph_Ok:
  assumes "finite E" and "acyclic E" and "\<And>k. set (targets adj k) = {c. (k, c) \<in> E}"
    and names: "\<And>k p. map_of imp k = Some p \<Longrightarrow> Name p = k"
    and "card (E\<^sup>+ `` {k}) < n" and "cinv E imp S g"
    and "\<forall>s \<in> S. (s, k) \<in> E\<^sup>+"
    and "\<And>q. parent = Some q \<Longrightarrow> q \<in> dom (verts g) \<and> (q, k) \<in> E O (skip_edges E (dom (map_of imp)))\<^sup>*"
  shows "\<exists>g'. CollapsedGraph n lib adj imp parent k g = Ok g' \<and> cinv E imp S g' \<and> grows g g' \<and>
    E\<^sup>* `` {k} \<inter> dom (map_of imp) \<subseteq> dom (verts g')"
  using assms(5-8)
proof (induction n arbitrary: parent k g S)
  case 0
  then show ?case by simp
next
  case (Suc n)
  let ?D = "dom (map_of imp)"
  have less: "card (E\<^sup>+ `` {c}) < n" if "(k, c) \<in> E" for c
    using card_descendants_less [OF assms(1,2) that] Suc.prems(1) by simp
  show ?case
  proof (cases "map_of imp k")
    case None
    have kD: "k \<notin> ?D" using None by (simp add: domIff)
    have "\<exists>g'. res_foldl (\<lambda>g c. CollapsedGraph n lib adj imp parent c g) g (targets adj k) = Ok g' \<and>
        cinv E imp S g' \<and> grows g g' \<and>
        (\<forall>c \<in> set (targets adj k). E\<^sup>* `` {c} \<inter> ?D \<subseteq> dom (verts g'))"
    proof (rule children_fold [OF _ Suc.prems(2), of _ "set_option parent"])
      fix g c
      assume c: "c \<in> set (targets adj k)" and i: "cinv E imp S g" and x: "set_option parent \<subseteq> dom (verts g)"
      then have e: "(k, c) \<in> E" using assms(3) by blast
      show "\<exists>g'. CollapsedGraph n lib adj imp parent c g = Ok g' \<and> cinv E imp S g' \<and> grows g g' \<and>
          E\<^sup>* `` {c} \<inter> ?D \<subseteq> dom (verts g')"
      proof (rule Suc.IH [OF less [OF e] i])
        show "\<forall>s \<in> S. (s, c) \<in> E\<^sup>+" using Suc.prems(3) e by (meson trancl.trancl_into_trancl)
        fix q assume q: "parent = Some q"
        have "(k, c) \<in> skip_edges E ?D" using e kD by (simp add: skip_edges_def)
        from relcomp_step [OF conjunct2 [OF Suc.prems(4) [OF q]] this]
        have "(q, c) \<in> E O (skip_edges E ?D)\<^sup>*" .
        with x q show "q \<in> dom (verts g) \<and> (q, c) \<in> E O (skip_edges E ?D)\<^sup>*" by auto
      qed
    next
      show "set_option parent \<subseteq> dom (verts g)" using Suc.prems(4) by (cases parent) auto
    qed
    then obtain g' where g': "res_foldl (\<lambda>g c. CollapsedGraph n lib adj imp parent c g) g (targets adj k) = Ok g'"
      "cinv E imp S g'" "grows g g'" "\<forall>c \<in> set (targets adj k). E\<^sup>* `` {c} \<inter> ?D \<subseteq> dom (verts g')"
      by blast
    have "E\<^sup>* `` {k} \<inter> ?D \<subseteq> dom (verts g')"
      by (rule reachable_children) (use g'(4) assms(3) kD in auto)
    with g' None show ?thesis by simp
  next
    case (Some p)
    have np: "Name p = k" using names [OF Some] .
    show ?thesis
    proof (cases "verts g k")
      case (Some v)
      have "g_add_vertex lib p g = Inl ErrVertexAlreadyExists"
        using add_vertex_dup [of g p] Suc.prems(2) Some np by (simp add: cinv_def)
      moreover have "k \<notin> S" using Suc.prems(3) assms(2) by (auto simp: acyclic_def)
      moreover have "k \<in> dom (verts g)" using Some by (simp add: domIff)
      ultimately have "E\<^sup>* `` {k} \<inter> ?D \<subseteq> dom (verts g)"
        using Suc.prems(2) unfolding cinv_def by blast
      with \<open>g_add_vertex lib p g = _\<close> \<open>map_of imp k = Some p\<close> Suc.prems(2) grows_refl show ?thesis
        by simp
    next
      case None
      obtain g1 where add: "g_add_vertex lib p g = Inr g1"
        using add_vertex_new [of g p] Suc.prems(2) None np by (auto simp: cinv_def)
      from cinv_add_vertex [OF Suc.prems(2) Some np add] have
        i1: "cinv E imp (insert k S) g1" and gr1: "grows g g1" and k1: "k \<in> dom (verts g1)"
        and no1: "\<forall>a. (a, k) \<notin> edges g1" by blast+
      have "\<exists>g'. res_foldl (\<lambda>g c. CollapsedGraph n lib adj imp (Some k) c g) g1 (targets adj k) = Ok g' \<and>
          cinv E imp (insert k S) g' \<and> grows g1 g' \<and>
          (\<forall>c \<in> set (targets adj k). E\<^sup>* `` {c} \<inter> ?D \<subseteq> dom (verts g'))"
      proof (rule children_fold [OF _ i1, of _ "{k}"])
        fix g c
        assume c: "c \<in> set (targets adj k)" and i: "cinv E imp (insert k S) g" and x: "{k} \<subseteq> dom (verts g)"
        then have e: "(k, c) \<in> E" using assms(3) by blast
        show "\<exists>g'. CollapsedGraph n lib adj imp (Some k) c g = Ok g' \<and> cinv E imp (insert k S) g' \<and>
            grows g g' \<and> E\<^sup>* `` {c} \<inter> ?D \<subseteq> dom (verts g')"
        proof (rule Suc.IH [OF less [OF e] i])
          show "\<forall>s \<in> insert k S. (s, c) \<in> E\<^sup>+"
            using Suc.prems(3) e by (auto intro: trancl.trancl_into_trancl)
          fix q assume "Some k = Some q"
          with x e show "q \<in> dom (verts g) \<and> (q, c) \<in> E O (skip_edges E ?D)\<^sup>*" by auto
        qed
      qed (use k1 in simp)
      then obtain g2 where g2: "res_foldl (\<lambda>g c. CollapsedGraph n lib adj imp (Some k) c g) g1 (targets adj k) = Ok g2"
        "cinv E imp (insert k S) g2" "grows g1 g2"
        "\<forall>c \<in> set (targets adj k). E\<^sup>* `` {c} \<inter> ?D \<subseteq> dom (verts g2)" by blast
      have k2: "k \<in> dom (verts g2)" using g2(3) k1 unfolding grows_def by blast
      have no2: "\<forall>a. (a, k) \<notin> edges g2" using g2(3) k1 no1 unfolding grows_def by blast
      have desc: "E\<^sup>* `` {k} \<inter> ?D \<subseteq> dom (verts g2)"
        by (rule reachable_children) (use g2(4) assms(3) k2 in auto)
      have i2: "cinv E imp S g2" using g2(2) desc unfolding cinv_def by blast
      have gr2: "grows g g2" using grows_trans [OF gr1 g2(3)] .
      show ?thesis
      proof (cases parent)
        case None
        with Some add g2(1) i2 gr2 desc show ?thesis by simp
      next
        case (Some q)
        with Suc.prems(4) have q: "q \<in> dom (verts g)" "(q, k) \<in> E O (skip_edges E ?D)\<^sup>*" by auto
        have "q \<in> dom (verts g2)" using q(1) gr2 unfolding grows_def by blast
        from cinv_add_edge [OF i2 assms(2) q(2) this k2 no2] obtain g3 where
          g3: "g_add_edge lib q k g2 = Inr g3" "cinv E imp S g3" "dom (verts g3) = dom (verts g2)"
            "edges g3 = insert (q, k) (edges g2)" by blast
        have "k \<notin> dom (verts g)" using \<open>verts g k = None\<close> by (simp add: domIff)
        then have "grows g g3" using gr2 unfolding grows_def g3(3,4) by blast
        have "CollapsedGraph (Suc n) lib adj imp parent k g = Ok g3"
          using \<open>map_of imp k = Some p\<close> add g2(1) Some g3(1) by (simp add: lift_ge_def)
        moreover have "E\<^sup>* `` {k} \<inter> ?D \<subseteq> dom (verts g3)" using desc g3(3) by simp
        ultimately show ?thesis using g3(2) \<open>grows g g3\<close> by blast
      qed
    qed
  qed
qed

text \<open>Every vertex of a finite acyclic graph is reachable from one without predecessors.\<close>

lemma root_above:
  assumes "finite E" and "acyclic E"
  shows "\<exists>r. (r, v) \<in> E\<^sup>* \<and> (\<forall>a. (a, r) \<notin> E)"
proof -
  have "wf E" using assms by (rule finite_acyclic_wf)
  then show ?thesis
  proof (induction v rule: wf_induct_rule)
    case (less v)
    show ?case
    proof (cases "\<exists>a. (a, v) \<in> E")
      case True
      then obtain a where "(a, v) \<in> E" by blast
      with less show ?thesis by (meson rtrancl.rtrancl_into_rtrancl)
    qed auto
  qed
qed

lemma ImpactedProjectsOnlyGraph_Ok:
  assumes inv: "ginv pg" and fin: "finite (edges pg)" and ac: "acyclic (edges pg)"
    and vs: "edges pg \<subseteq> dom (verts pg) \<times> dom (verts pg)"
    and names: "\<And>k p. map_of imp k = Some p \<Longrightarrow> Name p = k"
    and depth: "card (edges pg) < n"
    and imp: "dom (map_of imp) \<subseteq> dom (verts pg)"
  shows "\<exists>g'. ImpactedProjectsOnlyGraph n lib pg imp = Ok g' \<and> cinv (edges pg) imp {} g' \<and>
    dom (verts g') = dom (map_of imp)"
proof -
  let ?E = "edges pg" and ?D = "dom (map_of imp)" and ?adj = "g_adjacency lib pg"
  have t: "set (targets ?adj k) = {c. (k, c) \<in> ?E}" for k
  proof (cases "map_of ?adj k")
    case None
    then have "verts pg k = None" using adjacency [OF inv] by simp
    with vs None show ?thesis by (auto simp: targets_def)
  next
    case (Some ts)
    with adjacency_targets [OF inv Some] show ?thesis by (simp add: targets_def)
  qed
  have enough: "card (?E\<^sup>+ `` {k}) < n" for k
  proof -
    have "card (?E\<^sup>+ `` {k}) \<le> card (snd ` ?E)" by (rule card_mono [OF finite_imageI [OF fin] trancl_range])
    also have "\<dots> \<le> card ?E" using fin by (rule card_image_le)
    finally show ?thesis using depth by simp
  qed
  have i0: "cinv ?E imp {} (g_new lib)"
    by (simp add: cinv_def new_inv new_verts new_edges)
  have "\<exists>g'. res_foldl (\<lambda>g k. CollapsedGraph n lib ?adj imp None k g) (g_new lib)
        (roots (g_predecessors lib pg)) = Ok g' \<and> cinv ?E imp {} g' \<and> grows (g_new lib) g' \<and>
      (\<forall>c \<in> set (roots (g_predecessors lib pg)). ?E\<^sup>* `` {c} \<inter> ?D \<subseteq> dom (verts g'))"
  proof (rule children_fold [OF _ i0, of _ "{}"])
    fix g k assume i: "cinv ?E imp {} g"
    show "\<exists>g'. CollapsedGraph n lib ?adj imp None k g = Ok g' \<and> cinv ?E imp {} g' \<and> grows g g' \<and>
        ?E\<^sup>* `` {k} \<inter> ?D \<subseteq> dom (verts g')"
      by (rule CollapsedGraph_Ok [OF fin ac t names enough i]) auto
  qed simp
  then obtain g' where g': "ImpactedProjectsOnlyGraph n lib pg imp = Ok g'" "cinv ?E imp {} g'"
    "\<forall>c \<in> set (roots (g_predecessors lib pg)). ?E\<^sup>* `` {c} \<inter> ?D \<subseteq> dom (verts g')"
    by (auto simp: ImpactedProjectsOnlyGraph_def Let_def)
  have "v \<in> dom (verts g')" if v: "v \<in> ?D" for v
  proof -
    obtain r where r: "(r, v) \<in> ?E\<^sup>*" "\<forall>a. (a, r) \<notin> ?E" using root_above [OF fin ac] by blast
    have "r \<in> dom (verts pg)" using r(1)
    proof (cases rule: converse_rtranclE)
      case base
      with v imp show ?thesis by blast
    next
      case (step y)
      with vs show ?thesis by blast
    qed
    then obtain ss where ss: "map_of (g_predecessors lib pg) r = Some ss"
      using predecessors [OF inv, of r] by (auto simp: domIff)
    with predecessors_sources [OF inv ss] r(2) have "ss = []" by (cases ss) auto
    with map_of_SomeD [OF ss] have "r \<in> set (roots (g_predecessors lib pg))"
      by (force simp: roots_def)
    with g'(3) r(1) v show ?thesis by blast
  qed
  moreover have "dom (verts g') \<subseteq> ?D" using g'(2) by (auto simp: cinv_def)
  ultimately show ?thesis using g' by blast
qed

end

section \<open>The graph of a configuration\<close>


lemma two_projects_graph_eval:
  "(case two_projects_result of
      Ok (c, g) \<Rightarrow> map Name (Projects c) = [''net'', ''app''] \<and> lg_edges g = [(''net'', ''app'')]
    | _ \<Rightarrow> False)"
  by code_simp

lemma two_projects_graph:
  obtains c g where "ConvertDiggerYamlToConfig (lg_ops Name) two_projects_yaml = Ok (c, g)"
    and "map Name (Projects c) = [''net'', ''app'']" and "lg_edges g = [(''net'', ''app'')]"
proof -
  obtain c g where r: "two_projects_result = Ok (c, g)"
    and n: "map Name (Projects c) = [''net'', ''app'']" and e: "lg_edges g = [(''net'', ''app'')]"
    using res_case_OkE [OF two_projects_graph_eval] by auto
  show ?thesis by (rule that [OF r [unfolded two_projects_result_def] n e])
qed


text \<open>The graph may lose a dependency: \<open>app\<close> depends on \<open>dns\<close>, which is not impacted, and on
  \<open>net\<close>, which is.  When the roots are visited in the order below, \<open>app\<close> is reached first
  through \<open>dns\<close>, without a parent, and the edge from \<open>net\<close> is never added, so both run at
  once; in the other order it is.\<close>

definition three_graph :: "string list \<Rightarrow> project list_graph" where
  "three_graph order =
     \<lparr>lg_verts = map (\<lambda>n. (n, zero_project\<lparr>Name := n\<rparr>)) order,
      lg_edges = [(''dns'', ''app''), (''net'', ''app'')]\<rparr>"

definition two_impacted :: "(string \<times> project) list" where
  "two_impacted = map (\<lambda>n. (n, zero_project\<lparr>Name := n\<rparr>)) [''net'', ''app'']"

lemma collapsed_graph_loses_dependency:
  "(case ImpactedProjectsOnlyGraph 9 (lg_ops Name) (three_graph [''dns'', ''net'', ''app'']) two_impacted of
      Ok g \<Rightarrow> lg_edges g = [] | _ \<Rightarrow> False) \<and>
   (case ImpactedProjectsOnlyGraph 9 (lg_ops Name) (three_graph [''net'', ''dns'', ''app'']) two_impacted of
      Ok g \<Rightarrow> lg_edges g = [(''net'', ''app'')] | _ \<Rightarrow> False)"
  by code_simp

section \<open>One job per project\<close>

lemma CreateDiggerJob_healthy:
  assumes "m \<noteq> []"
  shows "\<exists>j t'. CreateDiggerJob fresh b (Some m) file ci cu rt v (healthy t) = (Ok j, healthy t') \<and>
    t' = t\<lparr>t_jobs := t_jobs t @ [j], t_next := Suc (t_next t)\<rparr> \<and>
    dj_ProjectName j = v \<and> dj_Status j = DiggerJobCreated \<and> dj_BatchID j = Some b \<and>
    dj_SerializedJobSpec j = Some m \<and> dj_DiggerJobID j = fresh (t_next t)"
  using assms by (simp add: CreateDiggerJob_def act_bind_def Let_def)

lemma CreateDiggerJobLink_healthy:
  "\<exists>l. CreateDiggerJobLink jid repo (healthy t) = (Ok l, healthy (t\<lparr>t_job_links := t_job_links t @ [l]\<rparr>))"
  by (simp add: CreateDiggerJobLink_def act_bind_def Let_def)

lemma CreateDiggerJobParentLink_healthy:
  "CreateDiggerJobParentLink p c (healthy t) =
   (Ok (), healthy (t\<lparr>t_parent_links := t_parent_links t @
      [\<lparr>pl_DiggerJobId = c, pl_ParentDiggerJobId = p\<rparr>]\<rparr>))"
  by (simp add: CreateDiggerJobParentLink_def)

text \<open>The links of a visited project, by the jobs recorded for it and for its parent.\<close>

definition links_of ::
  "(string \<times> string list) list \<Rightarrow> (string \<times> digger_job) list \<Rightarrow> string \<Rightarrow> parent_link list" where
  "links_of preds r v =
     map (\<lambda>p. \<lparr>pl_DiggerJobId = dj_DiggerJobID (the (map_of r v)),
               pl_ParentDiggerJobId = dj_DiggerJobID (the (map_of r p))\<rparr>) (targets preds v)"

definition visited ::
  "tables \<Rightarrow> string \<Rightarrow> (string \<times> string) list \<Rightarrow> (string \<times> string list) list \<Rightarrow> string list \<Rightarrow>
   convert_world \<Rightarrow> bool" where
  "visited t0 b marshalled preds vs w \<longleftrightarrow>
     (\<exists>t js. cw_db w = healthy t \<and> t_jobs t = t_jobs t0 @ js \<and> map dj_ProjectName js = vs \<and>
        dom (map_of (cw_result w)) = set vs \<and>
        (\<forall>v \<in> set vs. \<exists>j \<in> set js. map_of (cw_result w) v = Some j \<and> dj_ProjectName j = v) \<and>
        (\<forall>j \<in> set js. dj_Status j = DiggerJobCreated \<and> dj_BatchID j = Some b \<and>
           dj_SerializedJobSpec j = map_of marshalled (dj_ProjectName j)) \<and>
        t_parent_links t = t_parent_links t0 @ concat (map (links_of preds (cw_result w)) vs))"

lemma links_of_update:
  "v' \<noteq> v \<Longrightarrow> v' \<notin> set (targets preds v) \<Longrightarrow>
   links_of preds (AList.update v' j r) v = links_of preds r v"
  by (auto simp: links_of_def)

lemma visit_step:
  assumes "visited t0 b marshalled preds vs w" and "v \<notin> set vs"
    and "length (targets preds v) \<le> 1" and "set (targets preds v) \<subseteq> set vs"
    and "\<forall>u \<in> set vs. set (targets preds u) \<subseteq> set vs"
    and "map_of marshalled v = Some m" and "m \<noteq> []"
  shows "\<exists>w'. visit_project (create_job_for env b marshalled pm cr rt) repo preds v w = (Ok (), w') \<and>
    visited t0 b marshalled preds (vs @ [v]) w'"
proof -
  from assms(1) obtain t js where
    db: "cw_db w = healthy t" and jobs: "t_jobs t = t_jobs t0 @ js" and nm: "map dj_ProjectName js = vs"
    and d: "dom (map_of (cw_result w)) = set vs"
    and r: "\<forall>v \<in> set vs. \<exists>j \<in> set js. map_of (cw_result w) v = Some j \<and> dj_ProjectName j = v"
    and st: "\<forall>j \<in> set js. dj_Status j = DiggerJobCreated \<and> dj_BatchID j = Some b \<and>
           dj_SerializedJobSpec j = map_of marshalled (dj_ProjectName j)"
    and ln: "t_parent_links t = t_parent_links t0 @ concat (map (links_of preds (cw_result w)) vs)"
    unfolding visited_def by blast
  obtain j t1 where c: "create_job_for env b marshalled pm cr rt v (healthy t) = (Ok j, healthy t1)"
    and t1: "t1 = t\<lparr>t_jobs := t_jobs t @ [j], t_next := Suc (t_next t)\<rparr>"
    and j: "dj_ProjectName j = v" "dj_Status j = DiggerJobCreated" "dj_BatchID j = Some b"
      "dj_SerializedJobSpec j = Some m"
    using CreateDiggerJob_healthy [OF assms(7)] assms(6) unfolding create_job_for_def by metis
  obtain l where l: "CreateDiggerJobLink (dj_DiggerJobID j) repo (healthy t1) =
      (Ok l, healthy (t1\<lparr>t_job_links := t_job_links t1 @ [l]\<rparr>))"
    using CreateDiggerJobLink_healthy by blast
  let ?r' = "AList.update v j (cw_result w)"
  have same: "concat (map (links_of preds ?r') vs) = concat (map (links_of preds (cw_result w)) vs)"
  proof (rule arg_cong [of _ _ concat], rule map_cong [OF refl])
    fix u assume u: "u \<in> set vs"
    show "links_of preds ?r' u = links_of preds (cw_result w) u"
      by (rule links_of_update) (use u assms(2,5) in auto)
  qed
  have fin: "visited t0 b marshalled preds (vs @ [v]) w'"
    if w': "cw_result w' = ?r'" "cw_db w' = healthy t2" and t2: "t_jobs t2 = t_jobs t1"
      "t_parent_links t2 = t_parent_links t @ links_of preds ?r' v" for w' t2
    unfolding visited_def
    by (rule exI [of _ t2], rule exI [of _ "js @ [j]"])
      (use w' t2 t1 jobs nm d r st j ln same assms(2,6) in \<open>auto simp: dom_def\<close>)
  show ?thesis
  proof (cases "targets preds v")
    case Nil
    have "visit_project (create_job_for env b marshalled pm cr rt) repo preds v w =
        (Ok (), w\<lparr>cw_db := healthy (t1\<lparr>t_job_links := t_job_links t1 @ [l]\<rparr>), cw_result := ?r'\<rparr>)"
      using Nil db c l
      by (simp add: visit_project_def or_stop_def act_bind_def act_try_def on_cdb_def put_result_def)
    moreover have "visited t0 b marshalled preds (vs @ [v])
        (w\<lparr>cw_db := healthy (t1\<lparr>t_job_links := t_job_links t1 @ [l]\<rparr>), cw_result := ?r'\<rparr>)"
      by (rule fin [of _ "t1\<lparr>t_job_links := t_job_links t1 @ [l]\<rparr>"])
        (use Nil t1 in \<open>simp_all add: links_of_def\<close>)
    ultimately show ?thesis by blast
  next
    case (Cons p ps)
    with assms(3) have p: "targets preds v = [p]" by (cases ps) auto
    with assms(4) r obtain pj where pj: "map_of (cw_result w) p = Some pj" by auto
    have pv: "p \<noteq> v" using p assms(2,4) by auto
    let ?t2 = "(t1\<lparr>t_job_links := t_job_links t1 @ [l]\<rparr>)\<lparr>t_parent_links := t_parent_links t1 @
      [\<lparr>pl_DiggerJobId = dj_DiggerJobID j, pl_ParentDiggerJobId = dj_DiggerJobID pj\<rparr>]\<rparr>"
    have "visit_project (create_job_for env b marshalled pm cr rt) repo preds v w =
        (Ok (), w\<lparr>cw_db := healthy ?t2, cw_result := ?r'\<rparr>)"
      using p pj db c l
      by (simp add: visit_project_def or_stop_def act_bind_def act_try_def on_cdb_def put_result_def
          CreateDiggerJobParentLink_healthy)
    moreover have "visited t0 b marshalled preds (vs @ [v]) (w\<lparr>cw_db := healthy ?t2, cw_result := ?r'\<rparr>)"
      by (rule fin [of _ ?t2]) (use p pj pv t1 in \<open>simp_all add: links_of_def\<close>)
    ultimately show ?thesis by blast
  qed
qed

lemma visit_all:
  assumes "visited t0 b marshalled preds us w" and "distinct (us @ vs)"
    and "\<forall>v \<in> set vs. length (targets preds v) \<le> 1 \<and> (\<exists>m. map_of marshalled v = Some m \<and> m \<noteq> [])"
    and "\<forall>xs v ys. vs = xs @ v # ys \<longrightarrow> set (targets preds v) \<subseteq> set (us @ xs)"
    and "\<forall>u \<in> set us. set (targets preds u) \<subseteq> set us"
  shows "\<exists>w'. act_all (visit_project (create_job_for env b marshalled pm cr rt) repo preds) vs w =
      (Ok (), w') \<and> visited t0 b marshalled preds (us @ vs) w'"
  using assms
proof (induction vs arbitrary: us w)
  case Nil
  then show ?case by simp
next
  case (Cons v vs)
  from Cons.prems(3) obtain m where m: "length (targets preds v) \<le> 1" "map_of marshalled v = Some m" "m \<noteq> []"
    by auto
  have tv: "set (targets preds v) \<subseteq> set us"
    using Cons.prems(4) [rule_format, of "[]" v vs] by simp
  have "v \<notin> set us" using Cons.prems(2) by simp
  from visit_step [OF Cons.prems(1) this m(1) tv Cons.prems(5) m(2,3), of env pm cr rt repo]
  obtain w1 where w1: "visit_project (create_job_for env b marshalled pm cr rt) repo preds v w = (Ok (), w1)"
    "visited t0 b marshalled preds (us @ [v]) w1" by blast
  have "\<exists>w'. act_all (visit_project (create_job_for env b marshalled pm cr rt) repo preds) vs w1 =
      (Ok (), w') \<and> visited t0 b marshalled preds ((us @ [v]) @ vs) w'"
  proof (rule Cons.IH [OF w1(2)])
    show "distinct ((us @ [v]) @ vs)" using Cons.prems(2) by simp
    show "\<forall>v \<in> set vs. length (targets preds v) \<le> 1 \<and> (\<exists>m. map_of marshalled v = Some m \<and> m \<noteq> [])"
      using Cons.prems(3) by simp
    show "\<forall>xs v' ys. vs = xs @ v' # ys \<longrightarrow> set (targets preds v') \<subseteq> set ((us @ [v]) @ xs)"
      using Cons.prems(4) [rule_format, of "v # xs" for xs] by (metis append.assoc append_Cons append_Nil)
    show "\<forall>u \<in> set (us @ [v]). set (targets preds u) \<subseteq> set (us @ [v])"
      using Cons.prems(5) tv by auto
  qed
  with w1(1) show ?case by (simp add: act_bind_def)
qed

text \<open>When the projects are visited parents first, each has at most one parent, and
  no query fails, the visits store exactly one job per project, in that order, in the batch, with the
  project's serialized job, and exactly one link per edge of the collapsed graph.\<close>

theorem one_job_per_project:
  assumes "distinct vs"
    and "\<forall>v \<in> set vs. length (targets preds v) \<le> 1 \<and> (\<exists>m. map_of marshalled v = Some m \<and> m \<noteq> [])"
    and "\<forall>xs v ys. vs = xs @ v # ys \<longrightarrow> set (targets preds v) \<subseteq> set xs"
  shows "\<exists>w' t js. act_all (visit_project (create_job_for env b marshalled pm cr rt) repo preds) vs
      \<lparr>cw_db = healthy t0, cw_result = []\<rparr> = (Ok (), w') \<and> cw_db w' = healthy t \<and>
    t_jobs t = t_jobs t0 @ js \<and> map dj_ProjectName js = vs \<and>
    (\<forall>j \<in> set js. dj_Status j = DiggerJobCreated \<and> dj_BatchID j = Some b \<and>
       dj_SerializedJobSpec j = map_of marshalled (dj_ProjectName j)) \<and>
    (\<forall>v \<in> set vs. \<exists>j \<in> set js. map_of (cw_result w') v = Some j \<and> dj_ProjectName j = v) \<and>
    t_parent_links t = t_parent_links t0 @ concat (map (links_of preds (cw_result w')) vs)"
proof -
  have "visited t0 b marshalled preds [] \<lparr>cw_db = healthy t0, cw_result = []\<rparr>"
    unfolding visited_def by (rule exI [of _ t0], rule exI [of _ "[]"]) simp
  from visit_all [OF this, of vs env pm cr rt repo] assms obtain w' where
    w': "act_all (visit_project (create_job_for env b marshalled pm cr rt) repo preds) vs
      \<lparr>cw_db = healthy t0, cw_result = []\<rparr> = (Ok (), w')" "visited t0 b marshalled preds vs w'"
    by auto
  then show ?thesis unfolding visited_def by blast
qed

definition visit_env :: convert_env where
  "visit_env =
     \<lparr>ce_organisation = (\<lambda>_. Inr ''org''), ce_job_token = (\<lambda>_. Inr ''j:1''),
      ce_marshal = (\<lambda>_. Inr ''{}''), ce_hostname = ''host'', ce_fresh = (\<lambda>n. nat_digits n)\<rparr>"

definition no_tables :: tables where
  "no_tables =
     \<lparr>t_jobs = [], t_batches = [], t_parent_links = [], t_job_links = [], t_impacted = [],
      t_runs = [], t_stages = [], t_queue = [], t_next = 0\<rparr>"

theorem one_job_per_project_witness:
  "\<exists>w' t. act_all (visit_project
       (create_job_for visit_env ''b1'' [(''net'', ''{}''), (''app'', ''{}'')] [] [] ''lazy'')
       ''org/repo'' [(''net'', []), (''app'', [''net''])]) [''net'', ''app'']
     \<lparr>cw_db = healthy no_tables, cw_result = []\<rparr> = (Ok (), w') \<and> cw_db w' = healthy t \<and>
   map dj_ProjectName (t_jobs t) = [''net'', ''app''] \<and> length (t_parent_links t) = 1"
proof -
  let ?preds = "[(''net'', []), (''app'', [''net''])]"
  have p1: "distinct [''net'', ''app'']" by simp
  have p2: "\<forall>v \<in> set [''net'', ''app'']. length (targets ?preds v) \<le> 1 \<and>
      (\<exists>m. map_of [(''net'', ''{}''), (''app'', ''{}'')] v = Some m \<and> m \<noteq> [])"
    by (simp add: targets_def)
  have p3: "\<forall>xs v ys. [''net'', ''app''] = xs @ v # ys \<longrightarrow> set (targets ?preds v) \<subseteq> set xs"
    by (auto simp: Cons_eq_append_conv targets_def)
  have l: "length (concat (map (links_of ?preds r) [''net'', ''app''])) = 1" for r
    by (simp add: links_of_def targets_def)
  from one_job_per_project [OF p1 p2 p3, of visit_env "''b1''" "[]" "[]" "''lazy''" "''org/repo''" no_tables]
  obtain w' t js where w: "act_all (visit_project
       (create_job_for visit_env ''b1'' [(''net'', ''{}''), (''app'', ''{}'')] [] [] ''lazy'')
       ''org/repo'' ?preds) [''net'', ''app'']
     \<lparr>cw_db = healthy no_tables, cw_result = []\<rparr> = (Ok (), w')" "cw_db w' = healthy t"
    "t_jobs t = t_jobs no_tables @ js" "map dj_ProjectName js = [''net'', ''app'']"
    "t_parent_links t = t_parent_links no_tables @
       concat (map (links_of ?preds (cw_result w')) [''net'', ''app''])"
    by (elim exE conjE) (rule that)
  have "map dj_ProjectName (t_jobs t) = [''net'', ''app'']" using w(3,4) by (simp add: no_tables_def)
  moreover have "length (t_parent_links t) = 1"
    unfolding w(5) using l by (simp add: no_tables_def)
  ultimately show ?thesis
    by (intro exI [of _ w'] exI [of _ t] conjI) (rule w(1), rule w(2), assumption, assumption)
qed

text \<open>A query that fails for a parent only ends the parent's visit; the child's visit then reads the
  parent's missing job.\<close>

lemma failed_parent_panics_child:
  "fst (act_all (visit_project
       (create_job_for visit_env ''b1'' [(''net'', ''{}''), (''app'', ''{}'')] [] [] ''lazy'')
       ''org/repo'' [(''net'', []), (''app'', [''net''])]) [''net'', ''app'']
     \<lparr>cw_db = \<lparr>fdb_data = no_tables, fdb_faults = [Some ''timeout'']\<rparr>, cw_result = []\<rparr>) =
   Panic ''nil pointer dereference''"
  by code_simp

end
