(* ===== verification/RunQueue.thy ===== *)
theory RunQueue
  imports JobScheduler
begin

text \<open>
  Queues of runs: the queries of \<open>storage.go\<close> on runs, stages and queue items, and the state
  machine of \<open>backend/tasks/runs.go\<close> that the cron task of \<open>tasks.go\<close> applies to the front
  of every project's queue.
\<close>

section \<open>Queries\<close>

definition zero_stage :: digger_run_stage where
  "zero_stage = \<lparr>rs_ID = 0, rs_BatchID = None\<rparr>"

definition zero_run :: digger_run where
  "zero_run =
     \<lparr>dr_ID = 0, dr_Triggertype = [], dr_PrNumber = None, dr_Status = OtherRunStatus [],
      dr_CommitId = [], dr_DiggerConfig = [], dr_GithubInstallationId = 0, dr_RepoId = 0,
      dr_ProjectName = [], dr_RunType = PlanAndApply, dr_PlanStageId = None,
      dr_ApplyStageId = None, dr_IsApproved = False, dr_ApprovalAuthor = []\<rparr>"

definition zero_queue_item :: run_queue_item where
  "zero_queue_item = \<lparr>qi_ID = 0, qi_DiggerRunId = 0, qi_ProjectId = 0, qi_Deleted = False\<rparr>"

definition ListDiggerRunsForProject :: "string \<Rightarrow> nat \<Rightarrow> (digger_run list, tables fdb) act" where
  "ListDiggerRunsForProject projectName repoId =
     fdb_read (\<lambda>t. rev (filter (\<lambda>r. dr_ProjectName r = projectName \<and> dr_RepoId r = repoId) (t_runs t)))"

definition CreateDiggerRun ::
  "string \<Rightarrow> int \<Rightarrow> run_status \<Rightarrow> string \<Rightarrow> string \<Rightarrow> int \<Rightarrow> nat \<Rightarrow> string \<Rightarrow> run_type \<Rightarrow> nat option \<Rightarrow>
   nat option \<Rightarrow> (digger_run, tables fdb) act" where
  "CreateDiggerRun triggertype prNumber status commitId diggerConfig installationId repoId projectName
       runType planStageId applyStageId =
     fdb_query (\<lambda>t.
       let dr = \<lparr>dr_ID = Suc (length (t_runs t)), dr_Triggertype = triggertype,
                 dr_PrNumber = Some prNumber, dr_Status = status, dr_CommitId = commitId,
                 dr_DiggerConfig = diggerConfig, dr_GithubInstallationId = installationId,
                 dr_RepoId = repoId, dr_ProjectName = projectName, dr_RunType = runType,
                 dr_PlanStageId = planStageId, dr_ApplyStageId = applyStageId,
                 dr_IsApproved = False, dr_ApprovalAuthor = []\<rparr>
       in (dr, t\<lparr>t_runs := t_runs t @ [dr]\<rparr>))"

definition CreateDiggerRunStage :: "string \<Rightarrow> (digger_run_stage, tables fdb) act" where
  "CreateDiggerRunStage batchId =
     fdb_query (\<lambda>t. let drs = \<lparr>rs_ID = Suc (length (t_stages t)), rs_BatchID = Some batchId\<rparr>
                    in (drs, t\<lparr>t_stages := t_stages t @ [drs]\<rparr>))"

text \<open>The last run that has left the queue; none is an error.\<close>

definition GetLastDiggerRunForProject :: "string \<Rightarrow> (digger_run, tables fdb) act" where
  "GetLastDiggerRunForProject projectName =
     act_bind (fdb_read (\<lambda>t. find (\<lambda>r. dr_ProjectName r = projectName \<and> dr_Status r \<noteq> RunQueued)
                  (rev (t_runs t))))
       (\<lambda>r. case r of None \<Rightarrow> act_err ''record not found'' | Some r \<Rightarrow> act_ret r)"

definition GetDiggerRun :: "nat \<Rightarrow> (digger_run, tables fdb) act" where
  "GetDiggerRun i = fdb_read (\<lambda>t. first_or zero_run (\<lambda>r. dr_ID r = i) (t_runs t))"

definition CreateDiggerRunQueueItem :: "nat \<Rightarrow> nat \<Rightarrow> (run_queue_item, tables fdb) act" where
  "CreateDiggerRunQueueItem diggerRunId projectId =
     fdb_query (\<lambda>t.
       let drq = \<lparr>qi_ID = Suc (length (t_queue t)), qi_DiggerRunId = diggerRunId,
                  qi_ProjectId = projectId, qi_Deleted = False\<rparr>
       in (drq, t\<lparr>t_queue := t_queue t @ [drq]\<rparr>))"

definition GetDiggerRunQueueItem :: "nat \<Rightarrow> (run_queue_item, tables fdb) act" where
  "GetDiggerRunQueueItem i =
     fdb_read (\<lambda>t. first_or zero_queue_item (\<lambda>q. qi_ID q = i \<and> \<not> qi_Deleted q) (t_queue t))"

definition GetDiggerJobFromRunStage :: "digger_run_stage \<Rightarrow> (loaded_job, tables fdb) act" where
  "GetDiggerJobFromRunStage stage =
     act_bind (fdb_read (\<lambda>t. map_option (\<lambda>j. (j, preload_batch t j))
                  (find (\<lambda>j. rs_BatchID stage \<noteq> None \<and> dj_BatchID j = rs_BatchID stage) (t_jobs t))))
       (\<lambda>r. case r of None \<Rightarrow> act_err ''record not found'' | Some j \<Rightarrow> act_ret j)"

definition UpdateDiggerRun :: "digger_run \<Rightarrow> (unit, tables fdb) act" where
  "UpdateDiggerRun r = fdb_write (\<lambda>t. t\<lparr>t_runs := save_by dr_ID r (t_runs t)\<rparr>)"

definition DequeueRunItem :: "run_queue_item \<Rightarrow> (unit, tables fdb) act" where
  "DequeueRunItem q =
     fdb_write (\<lambda>t. t\<lparr>t_queue := map (\<lambda>x. if qi_ID x = qi_ID q then x\<lparr>qi_Deleted := True\<rparr> else x)
       (t_queue t)\<rparr>)"

text \<open>A queue item with its run and the batches of the run's stages.\<close>

record loaded_item =
  li_item :: run_queue_item
  li_run :: digger_run
  li_plan_stage :: digger_run_stage
  li_apply_stage :: digger_run_stage
  li_plan_batch :: "digger_batch option"
  li_apply_batch :: "digger_batch option"

definition load_stage :: "tables \<Rightarrow> nat option \<Rightarrow> digger_run_stage" where
  "load_stage t i =
     (case i of None \<Rightarrow> zero_stage | Some i \<Rightarrow> first_or zero_stage (\<lambda>s. rs_ID s = i) (t_stages t))"

definition load_batch :: "tables \<Rightarrow> digger_run_stage \<Rightarrow> digger_batch option" where
  "load_batch t s =
     (case rs_BatchID s of None \<Rightarrow> None | Some b \<Rightarrow> find (\<lambda>x. db_ID x = b) (t_batches t))"

definition load_item :: "tables \<Rightarrow> run_queue_item \<Rightarrow> loaded_item" where
  "load_item t q =
     (let run = first_or zero_run (\<lambda>r. dr_ID r = qi_DiggerRunId q) (t_runs t);
          ps = load_stage t (dr_PlanStageId run); as = load_stage t (dr_ApplyStageId run)
      in \<lparr>li_item = q, li_run = run, li_plan_stage = ps, li_apply_stage = as,
          li_plan_batch = load_batch t ps, li_apply_batch = load_batch t as\<rparr>)"

text \<open>The first of the two queries is raw SQL and ranks all rows of a project, deleted or not;
  the second one sees the rows that are not deleted.\<close>

fun fronts :: "nat list \<Rightarrow> run_queue_item list \<Rightarrow> run_queue_item list" where
  "fronts seen [] = []"
| "fronts seen (q # qs) =
     (if qi_ProjectId q \<in> set seen then fronts seen qs
      else q # fronts (qi_ProjectId q # seen) qs)"

definition GetFirstRunQueueForEveryProject :: "(loaded_item list, tables fdb) act" where
  "GetFirstRunQueueForEveryProject =
     act_bind (fdb_read (\<lambda>t. map qi_DiggerRunId (fronts [] (t_queue t)))) (\<lambda>diggerRunIds.
       fdb_read (\<lambda>t. map (load_item t)
         (filter (\<lambda>q. \<not> qi_Deleted q \<and> qi_DiggerRunId q \<in> set diggerRunIds) (t_queue t))))"

section \<open>The state machine\<close>

definition ignore_error :: "('a, 's) act \<Rightarrow> (unit, 's) act" where
  "ignore_error f = act_bind (act_try f) (\<lambda>_. act_ret ())"

definition set_run_status :: "loaded_item \<Rightarrow> run_status \<Rightarrow> (unit, sched_world) act" where
  "set_run_status li st = ignore_error (on_db (UpdateDiggerRun ((li_run li)\<lparr>dr_Status := st\<rparr>)))"

definition dequeue :: "loaded_item \<Rightarrow> (unit, sched_world) act" where
  "dequeue li = ignore_error (on_db (DequeueRunItem (li_item li)))"

text \<open>Starting the workflow of a stage: any error before the trigger returns, the error of the
  trigger itself is dropped.\<close>

definition start_stage ::
  "sched_env \<Rightarrow> loaded_item \<Rightarrow> digger_run_stage \<Rightarrow> run_status \<Rightarrow> (unit, sched_world) act" where
  "start_stage env li stage next =
     ignore_error
       (act_bind (on_db (GetDiggerJobFromRunStage stage)) (\<lambda>job.
        act_bind (act_of (GetRunNameFromJob env job)) (\<lambda>runName.
        act_bind (act_of (GetSpecFromJob env job)) (\<lambda>s.
        act_bind (act_of (GetVCSTokenFromJob env job)) (\<lambda>token.
        act_bind (act_try (trigger_workflow env s runName token)) (\<lambda>_.
          set_run_status li next))))))"

definition RunQueuesStateMachine :: "sched_env \<Rightarrow> loaded_item \<Rightarrow> (unit, sched_world) act" where
  "RunQueuesStateMachine env li =
     (case dr_Status (li_run li) of
        RunQueued \<Rightarrow> start_stage env li (li_plan_stage li) RunPlanning
      | RunPlanning \<Rightarrow>
          (let batchStatus = BatchJobSucceeded; approvalRequired = True in
           act_bind
             (if batchStatus = BatchJobFailed
              then act_bind (set_run_status li RunFailed) (\<lambda>_. dequeue li) else act_ret ())
             (\<lambda>_. if batchStatus = BatchJobSucceeded
                  then (if approvalRequired then set_run_status li RunPendingApproval
                        else set_run_status li RunApproved)
                  else act_ret ()))
      | RunPendingApproval \<Rightarrow> act_ret ()
      | RunApproved \<Rightarrow> start_stage env li (li_apply_stage li) RunApplying
      | RunApplying \<Rightarrow>
          act_bind (act_of (deref (li_plan_batch li))) (\<lambda>batch.
            let batchStatus = db_Status batch in
            act_bind
              (if batchStatus = BatchJobFailed
               then act_bind (set_run_status li RunFailed) (\<lambda>_. dequeue li) else act_ret ())
              (\<lambda>_. if batchStatus = BatchJobSucceeded then set_run_status li RunSucceeded
                   else act_ret ()))
      | RunSucceeded \<Rightarrow> dequeue li
      | RunFailed \<Rightarrow> dequeue li
      | _ \<Rightarrow> act_ret ())"

text \<open>The cron task: an item whose GitHub service cannot be reached is skipped.  (The check of
  the run's repository, whose name only selects the service, is part of \<open>github_ok\<close>.)\<close>

definition run_queues_task :: "sched_env \<Rightarrow> (loaded_item \<Rightarrow> bool) \<Rightarrow> (unit, sched_world) act" where
  "run_queues_task env github_ok =
     act_bind (act_try (on_db GetFirstRunQueueForEveryProject)) (\<lambda>r.
       case r of
         Inl _ \<Rightarrow> act_ret ()
       | Inr items \<Rightarrow>
           act_all (\<lambda>li. if github_ok li then RunQueuesStateMachine env li else act_ret ()) items)"

end
