(* ===== verification/RunQueueProps.thy ===== *)
theory RunQueueProps
  imports RunQueue JobSchedulerProps
begin

text \<open>
  What the state machine of runs guarantees: the moves it can make, which workflow it starts in
  which state, that it never leaves the states before the approval by itself, and that a
  dequeued item blocks its project's queue.
\<close>

section \<open>One step\<close>

definition run_edges :: "(run_status \<times> run_status) set" where
  "run_edges =
     {(RunQueued, RunPlanning), (RunPlanning, RunPendingApproval), (RunApproved, RunApplying),
      (RunApplying, RunFailed), (RunApplying, RunSucceeded)}"

definition mark_dequeued :: "run_queue_item \<Rightarrow> run_queue_item list \<Rightarrow> run_queue_item list" where
  "mark_dequeued q = map (\<lambda>x. if qi_ID x = qi_ID q then x\<lparr>qi_Deleted := True\<rparr> else x)"

lemma set_run_status_outcome:
  assumes "set_run_status li st w = (r, w')"
  shows "sw_triggered w' = sw_triggered w \<and> r = Ok () \<and>
    (data w' = data w \<or>
     data w' = (data w)\<lparr>t_runs := save_by dr_ID ((li_run li)\<lparr>dr_Status := st\<rparr>) (t_runs (data w))\<rparr>)"
proof -
  obtain x w1 where u: "on_db (UpdateDiggerRun ((li_run li)\<lparr>dr_Status := st\<rparr>)) w = (x, w1)"
    by (cases "on_db (UpdateDiggerRun ((li_run li)\<lparr>dr_Status := st\<rparr>)) w")
  note o = on_db_write_eq [OF u [unfolded UpdateDiggerRun_def]]
  from assms u o have "w' = w1 \<and> r = Ok ()"
    by (cases x) (auto simp: set_run_status_def ignore_error_def act_bind_def act_try_def)
  with o show ?thesis by blast
qed

lemma dequeue_outcome:
  assumes "dequeue li w = (r, w')"
  shows "sw_triggered w' = sw_triggered w \<and> r = Ok () \<and>
    (data w' = data w \<or>
     data w' = (data w)\<lparr>t_queue := mark_dequeued (li_item li) (t_queue (data w))\<rparr>)"
proof -
  obtain x w1 where u: "on_db (DequeueRunItem (li_item li)) w = (x, w1)"
    by (cases "on_db (DequeueRunItem (li_item li)) w")
  note o = on_db_write_eq [OF u [unfolded DequeueRunItem_def]]
  from assms u o have "w' = w1 \<and> r = Ok ()"
    by (cases x) (auto simp: dequeue_def ignore_error_def act_bind_def act_try_def)
  with o show ?thesis by (auto simp: mark_dequeued_def)
qed

lemma GetDiggerJobFromRunStage_outcome:
  assumes "on_db (GetDiggerJobFromRunStage stage) w = (x, w')"
  shows "data w' = data w \<and> sw_triggered w' = sw_triggered w \<and>
    (\<forall>jb. x = Ok jb \<longrightarrow> fst jb \<in> set (t_jobs (data w)) \<and> dj_BatchID (fst jb) = rs_BatchID stage)"
proof -
  let ?q = "\<lambda>t. map_option (\<lambda>j. (j, preload_batch t j))
      (find (\<lambda>j. rs_BatchID stage \<noteq> None \<and> dj_BatchID j = rs_BatchID stage) (t_jobs t))"
  obtain y d where r: "fdb_read ?q (sw_db w) = (y, d)" by (cases "fdb_read ?q (sw_db w)")
  have d: "fdb_data d = data w" using fdb_read_data [of ?q "sw_db w"] unfolding r by simp
  from on_db_eq [OF assms] have g: "GetDiggerJobFromRunStage stage (sw_db w) = (x, sw_db w')"
    and tr: "sw_triggered w' = sw_triggered w" by blast+
  show ?thesis
  proof (cases y)
    case (Ok a)
    have a: "a = ?q (data w)" by (rule conjunct1 [OF fdb_read_Ok [OF r [unfolded Ok]]])
    from g r Ok have "sw_db w' = d \<and> (\<forall>jb. x = Ok jb \<longrightarrow> a = Some jb)"
      by (cases a) (auto simp: GetDiggerJobFromRunStage_def act_bind_def)
    with a d tr show ?thesis by (auto dest!: find_SomeD)
  qed (use g r d tr in \<open>auto simp: GetDiggerJobFromRunStage_def act_bind_def\<close>)
qed

lemma start_stage_outcome:
  assumes "start_stage env li stage next w = (r, w')"
  shows "(data w' = data w \<or>
      data w' = (data w)\<lparr>t_runs := save_by dr_ID ((li_run li)\<lparr>dr_Status := next\<rparr>) (t_runs (data w))\<rparr>) \<and>
    (sw_triggered w' = sw_triggered w \<or>
     (\<exists>s n. sw_triggered w' = sw_triggered w @ [(s, n)] \<and>
        (\<exists>j \<in> set (t_jobs (data w)). dj_DiggerJobID j = sp_JobId s \<and> dj_BatchID j = rs_BatchID stage)))"
proof -
  obtain x w1 where g: "on_db (GetDiggerJobFromRunStage stage) w = (x, w1)"
    by (cases "on_db (GetDiggerJobFromRunStage stage) w")
  note go = GetDiggerJobFromRunStage_outcome [OF g]
  show ?thesis
  proof (cases "data w' = data w1 \<and> sw_triggered w' = sw_triggered w1")
    case True
    with go show ?thesis by simp
  next
    case False
    have early: "w' = w1 \<Longrightarrow> False" using False by simp
    obtain job where x: "x = Ok job"
      using assms g early by (cases x) (auto simp: start_stage_def ignore_error_def act_bind_def act_try_def)
    obtain runName where n: "GetRunNameFromJob env job = Ok runName"
      using assms g x early
      by (cases "GetRunNameFromJob env job")
        (auto simp: start_stage_def ignore_error_def act_bind_def act_try_def)
    obtain s where s: "GetSpecFromJob env job = Ok s"
      using assms g x n early
      by (cases "GetSpecFromJob env job")
        (auto simp: start_stage_def ignore_error_def act_bind_def act_try_def)
    obtain token where t: "GetVCSTokenFromJob env job = Ok token"
      using assms g x n s early
      by (cases "GetVCSTokenFromJob env job")
        (auto simp: start_stage_def ignore_error_def act_bind_def act_try_def)
    define w2 where "w2 = snd (trigger_workflow env s runName token w1)"
    have w2: "data w2 = data w1" "sw_triggered w2 = sw_triggered w1 \<or>
        sw_triggered w2 = sw_triggered w1 @ [(s, runName)]"
      by (auto simp: w2_def trigger_workflow_def split: sum.splits)
    obtain y w3 where st: "set_run_status li next w2 = (y, w3)" by (cases "set_run_status li next w2")
    note so = set_run_status_outcome [OF st]
    from assms g x n s t st so have "w' = w3"
      by (auto simp: start_stage_def ignore_error_def act_bind_def act_try_def w2_def
          trigger_workflow_def split: sum.splits)
    with so w2 go x GetSpecFromJob_JobId [OF s] show ?thesis by fastforce
  qed
qed

text \<open>Claim C30: a step of the state machine moves a run along one of five edges, rewriting only
  that run; it starts the workflow of a job of the plan stage when the run is queued, of the
  apply stage when it is approved, and otherwise none; it dequeues an item only once its run is
  being applied or is over.\<close>

theorem run_machine_step:
  assumes "RunQueuesStateMachine env li w = (r, w')"
  shows "(t_runs (data w') = t_runs (data w) \<or>
      (\<exists>st. (dr_Status (li_run li), st) \<in> run_edges \<and>
         t_runs (data w') = save_by dr_ID ((li_run li)\<lparr>dr_Status := st\<rparr>) (t_runs (data w)))) \<and>
    (sw_triggered w' = sw_triggered w \<or>
     (\<exists>s n. sw_triggered w' = sw_triggered w @ [(s, n)] \<and>
        (\<exists>j \<in> set (t_jobs (data w)). dj_DiggerJobID j = sp_JobId s \<and>
           (dr_Status (li_run li) = RunQueued \<and> dj_BatchID j = rs_BatchID (li_plan_stage li) \<or>
            dr_Status (li_run li) = RunApproved \<and> dj_BatchID j = rs_BatchID (li_apply_stage li))))) \<and>
    (t_queue (data w') = t_queue (data w) \<or>
     dr_Status (li_run li) \<in> {RunApplying, RunSucceeded, RunFailed} \<and>
     t_queue (data w') = mark_dequeued (li_item li) (t_queue (data w)))"
proof (cases "dr_Status (li_run li)")
  case RunQueued
  with assms have "start_stage env li (li_plan_stage li) RunPlanning w = (r, w')"
    by (simp add: RunQueuesStateMachine_def)
  from start_stage_outcome [OF this] RunQueued show ?thesis
    by (auto simp: run_edges_def)
next
  case RunApproved
  with assms have "start_stage env li (li_apply_stage li) RunApplying w = (r, w')"
    by (simp add: RunQueuesStateMachine_def)
  from start_stage_outcome [OF this] RunApproved show ?thesis
    by (auto simp: run_edges_def)
next
  case RunPlanning
  with assms have "set_run_status li RunPendingApproval w = (r, w')"
    by (simp add: RunQueuesStateMachine_def act_bind_def Let_def)
  from set_run_status_outcome [OF this] RunPlanning show ?thesis
    by (auto simp: run_edges_def)
next
  case RunApplying
  show ?thesis
  proof (cases "li_plan_batch li")
    case None
    with assms RunApplying show ?thesis
      by (simp add: RunQueuesStateMachine_def act_bind_def deref_def)
  next
    case (Some batch)
    obtain x1 w1 where f: "set_run_status li RunFailed w = (x1, w1)"
      by (cases "set_run_status li RunFailed w")
    obtain x2 w2 where d: "dequeue li w1 = (x2, w2)" by (cases "dequeue li w1")
    obtain x3 w3 where s: "set_run_status li RunSucceeded w = (x3, w3)"
      by (cases "set_run_status li RunSucceeded w")
    note fo = set_run_status_outcome [OF f] and do = dequeue_outcome [OF d]
      and so = set_run_status_outcome [OF s]
    consider "db_Status batch = BatchJobFailed" | "db_Status batch = BatchJobSucceeded"
      | "db_Status batch \<noteq> BatchJobFailed" "db_Status batch \<noteq> BatchJobSucceeded" by blast
    then show ?thesis
    proof cases
      case 1
      with assms RunApplying Some f d fo do have "w' = w2"
        by (simp add: RunQueuesStateMachine_def act_bind_def deref_def)
      with fo do RunApplying show ?thesis by (auto simp: run_edges_def)
    next
      case 2
      with assms RunApplying Some s so have "w' = w3"
        by (simp add: RunQueuesStateMachine_def act_bind_def deref_def)
      with so RunApplying show ?thesis by (auto simp: run_edges_def)
    next
      case 3
      with assms RunApplying Some show ?thesis
        by (simp add: RunQueuesStateMachine_def act_bind_def deref_def)
    qed
  qed
next
  case RunSucceeded
  with assms have "dequeue li w = (r, w')" by (simp add: RunQueuesStateMachine_def)
  from dequeue_outcome [OF this] RunSucceeded show ?thesis by auto
next
  case RunFailed
  with assms have "dequeue li w = (r, w')" by (simp add: RunQueuesStateMachine_def)
  from dequeue_outcome [OF this] RunFailed show ?thesis by auto
qed (use assms in \<open>simp_all add: RunQueuesStateMachine_def\<close>)

definition planning_run :: "run_status \<Rightarrow> digger_run" where
  "planning_run st = zero_run\<lparr>dr_ID := 1, dr_Status := st, dr_PlanStageId := Some 1\<rparr>"

definition queue_tables :: "run_status \<Rightarrow> tables" where
  "queue_tables st =
     (example_tables [example_job 1 ''a'' DiggerJobCreated])
       \<lparr>t_runs := [planning_run st], t_stages := [\<lparr>rs_ID = 1, rs_BatchID = Some ''batch-0001''\<rparr>],
        t_queue := [\<lparr>qi_ID = 1, qi_DiggerRunId = 1, qi_ProjectId = 5, qi_Deleted = False\<rparr>]\<rparr>"

definition queue_world :: "run_status \<Rightarrow> sched_world" where
  "queue_world st = \<lparr>sw_db = healthy (queue_tables st), sw_triggered = []\<rparr>"

definition queue_item :: "run_status \<Rightarrow> loaded_item" where
  "queue_item st = load_item (queue_tables st) (hd (t_queue (queue_tables st)))"

lemma queued_item_starts_plan:
  "map dr_Status (t_runs (data (snd (RunQueuesStateMachine (example_env 0) (queue_item RunQueued)
     (queue_world RunQueued))))) = [RunPlanning]"
  by code_simp

theorem run_machine_step_witness:
  "t_queue (data (snd (RunQueuesStateMachine (example_env 0) (queue_item RunQueued)
      (queue_world RunQueued)))) = t_queue (queue_tables RunQueued) \<and>
   map dr_Status (t_runs (data (snd (RunQueuesStateMachine (example_env 0) (queue_item RunQueued)
     (queue_world RunQueued))))) = [RunPlanning]"
proof -
  obtain r w' where run: "RunQueuesStateMachine (example_env 0) (queue_item RunQueued)
      (queue_world RunQueued) = (r, w')"
    by (cases "RunQueuesStateMachine (example_env 0) (queue_item RunQueued) (queue_world RunQueued)")
  have st: "dr_Status (li_run (queue_item RunQueued)) = RunQueued" by code_simp
  from run_machine_step [OF run] st
  have "t_queue (data w') = t_queue (data (queue_world RunQueued))" by simp
  with run queued_item_starts_plan show ?thesis by (simp add: queue_world_def)
qed

section \<open>No apply without approval\<close>

definition run_status_of :: "tables \<Rightarrow> nat \<Rightarrow> run_status" where
  "run_status_of t i = dr_Status (first_or zero_run (\<lambda>r. dr_ID r = i) (t_runs t))"

definition unapproved :: "run_status set" where
  "unapproved = {RunQueued, RunPlanning, RunPendingApproval}"

lemma first_or_save:
  "first_or z (\<lambda>r. dr_ID r = i) (save_by dr_ID x xs) =
   (if dr_ID x = i then x else first_or z (\<lambda>r. dr_ID r = i) xs)"
proof (cases "\<exists>y \<in> set xs. dr_ID y = dr_ID x")
  case True
  have "find (\<lambda>r. dr_ID r = i) (map (\<lambda>y. if dr_ID y = dr_ID x then x else y) xs) =
      (if dr_ID x = i then (if \<exists>y \<in> set xs. dr_ID y = i then Some x else None)
       else find (\<lambda>r. dr_ID r = i) xs)"
    by (induction xs) auto
  with True show ?thesis by (cases "dr_ID x = i") (simp_all add: first_or_def save_by_def)
next
  case False
  then have "dr_ID x = i \<Longrightarrow> find (\<lambda>r. dr_ID r = i) xs = None" by (auto simp: find_None_iff)
  with False show ?thesis
    by (auto simp: first_or_def save_by_def find_append split: option.splits)
qed

lemma machine_keeps_unapproved:
  assumes "RunQueuesStateMachine env li w = (r, w')" and "run_status_of (data w) i \<in> unapproved"
    and "dr_ID (li_run li) = i \<Longrightarrow> dr_Status (li_run li) \<in> unapproved"
  shows "run_status_of (data w') i \<in> unapproved"
proof -
  from run_machine_step [OF assms(1)] consider
    "t_runs (data w') = t_runs (data w)"
  | st where "(dr_Status (li_run li), st) \<in> run_edges"
      "t_runs (data w') = save_by dr_ID ((li_run li)\<lparr>dr_Status := st\<rparr>) (t_runs (data w))" by blast
  then show ?thesis
  proof cases
    case 1
    with assms(2) show ?thesis by (simp add: run_status_of_def)
  next
    case 2
    show ?thesis
    proof (cases "dr_ID (li_run li) = i")
      case True
      with 2(1) assms(3) have "st \<in> unapproved" by (auto simp: run_edges_def unapproved_def)
      with True 2(2) show ?thesis by (simp add: run_status_of_def first_or_save)
    next
      case False
      with 2(2) assms(2) show ?thesis by (simp add: run_status_of_def first_or_save)
    qed
  qed
qed

lemma task_items_keep_unapproved:
  assumes "act_all (\<lambda>li. if ok li then RunQueuesStateMachine env li else act_ret ()) items w = (r, w')"
    and "run_status_of (data w) i \<in> unapproved"
    and "\<forall>li \<in> set items. dr_ID (li_run li) = i \<longrightarrow> dr_Status (li_run li) \<in> unapproved"
  shows "run_status_of (data w') i \<in> unapproved"
  using assms
proof (induction items arbitrary: w)
  case Nil
  then show ?case by simp
next
  case (Cons li items)
  obtain x w1 where m: "(if ok li then RunQueuesStateMachine env li else act_ret ()) w = (x, w1)"
    by (cases "(if ok li then RunQueuesStateMachine env li else act_ret ()) w")
  have i1: "run_status_of (data w1) i \<in> unapproved"
    using m machine_keeps_unapproved [of env li w x w1 i] Cons.prems(2,3) by (cases "ok li") auto
  show ?case
  proof (cases x)
    case (Ok a)
    with Cons.prems(1) m
    have "act_all (\<lambda>li. if ok li then RunQueuesStateMachine env li else act_ret ()) items w1 = (r, w')"
      by simp
    from Cons.IH [OF this i1] Cons.prems(3) show ?thesis by simp
  qed (use Cons.prems(1) m i1 in auto)
qed

lemma on_db_bind:
  "on_db (act_bind f g) w = act_bind (on_db f) (\<lambda>a. on_db (g a)) w"
  by (auto simp: on_db_def act_bind_def split: prod.splits res.splits)

lemma fronts_loaded:
  assumes "on_db GetFirstRunQueueForEveryProject w = (x, w')"
  shows "data w' = data w \<and> sw_triggered w' = sw_triggered w \<and> (\<forall>items. x = Ok items \<longrightarrow>
    items = map (load_item (data w)) (filter (\<lambda>q. \<not> qi_Deleted q \<and>
      qi_DiggerRunId q \<in> qi_DiggerRunId ` set (fronts [] (t_queue (data w)))) (t_queue (data w))))"
proof -
  let ?q1 = "\<lambda>t. map qi_DiggerRunId (fronts [] (t_queue t))"
  obtain y w1 where q1: "on_db (fdb_read ?q1) w = (y, w1)" by (cases "on_db (fdb_read ?q1) w")
  note o1 = on_db_read_eq [OF q1]
  show ?thesis
  proof (cases y)
    case (Ok ids)
    let ?q2 = "\<lambda>t. map (load_item t)
         (filter (\<lambda>q. \<not> qi_Deleted q \<and> qi_DiggerRunId q \<in> set ids) (t_queue t))"
    have "on_db (fdb_read ?q2) w1 = (x, w')"
      using assms q1 Ok unfolding GetFirstRunQueueForEveryProject_def on_db_bind by simp
    note o2 = on_db_read_eq [OF this]
    from o1 Ok have ids: "ids = ?q1 (data w)" by blast
    show ?thesis using o1 o2 unfolding ids set_map by simp
  qed (use assms q1 o1 in \<open>auto simp: GetFirstRunQueueForEveryProject_def on_db_bind\<close>)
qed

fun run_ticks :: "sched_env \<Rightarrow> (loaded_item \<Rightarrow> bool) list \<Rightarrow> sched_world \<Rightarrow> sched_world" where
  "run_ticks env [] w = w"
| "run_ticks env (ok # oks) w = run_ticks env oks (snd (run_queues_task env ok w))"

lemma task_keeps_unapproved:
  assumes "run_status_of (data w) i \<in> unapproved" and "0 < i"
  shows "run_status_of (data (snd (run_queues_task env ok w))) i \<in> unapproved"
proof -
  obtain x w1 where q: "on_db GetFirstRunQueueForEveryProject w = (x, w1)"
    by (cases "on_db GetFirstRunQueueForEveryProject w")
  note o = fronts_loaded [OF q]
  show ?thesis
  proof (cases x)
    case (Ok items)
    obtain r w' where a: "act_all (\<lambda>li. if ok li then RunQueuesStateMachine env li else act_ret ()) items w1 = (r, w')"
      by (cases "act_all (\<lambda>li. if ok li then RunQueuesStateMachine env li else act_ret ()) items w1")
    have sub: "\<forall>li \<in> set items. \<exists>q. li = load_item (data w) q" using o Ok by auto
    have "\<forall>li \<in> set items. dr_ID (li_run li) = i \<longrightarrow> dr_Status (li_run li) \<in> unapproved"
    proof (intro ballI impI)
      fix li assume "li \<in> set items" and i: "dr_ID (li_run li) = i"
      with sub obtain q where li: "li = load_item (data w) q" by blast
      let ?r = "first_or zero_run (\<lambda>r. dr_ID r = qi_DiggerRunId q) (t_runs (data w))"
      have r: "li_run li = ?r" by (simp add: li load_item_def Let_def)
      show "dr_Status (li_run li) \<in> unapproved"
      proof (cases "find (\<lambda>r. dr_ID r = qi_DiggerRunId q) (t_runs (data w))")
        case None
        with r i assms(2) show ?thesis by (simp add: first_or_def zero_run_def)
      next
        case (Some r0)
        with find_SomeD [OF Some] r i have "qi_DiggerRunId q = i" by (simp add: first_or_def)
        with r assms show ?thesis by (simp add: run_status_of_def)
      qed
    qed
    from task_items_keep_unapproved [OF a _ this] o assms
    have "run_status_of (data w') i \<in> unapproved" by simp
    moreover have "snd (run_queues_task env ok w) = w'"
      using q Ok a by (simp add: run_queues_task_def act_bind_def act_try_def)
    ultimately show ?thesis by simp
  qed (use assms q o in \<open>auto simp: run_queues_task_def act_bind_def act_try_def\<close>)
qed

text \<open>Claim C25: a run that is not past its approval stays so through any number of ticks of the
  cron task, whichever services and queries fail: the tasks alone never approve a run, and so never
  apply one.\<close>

theorem unapproved_runs_stay_unapproved:
  assumes "run_status_of (data w) i \<in> {RunQueued, RunPlanning, RunPendingApproval}" and "0 < i"
  shows "run_status_of (data (run_ticks env oks w)) i \<in> {RunQueued, RunPlanning, RunPendingApproval}"
  using assms
proof (induction oks arbitrary: w)
  case Nil
  then show ?case by simp
next
  case (Cons ok oks)
  from task_keeps_unapproved [of w i env ok] Cons.prems
  have "run_status_of (data (snd (run_queues_task env ok w))) i \<in> {RunQueued, RunPlanning, RunPendingApproval}"
    by (simp only: unapproved_def)
  from Cons.IH [OF this Cons.prems(2)] show ?case by simp
qed

theorem unapproved_runs_stay_unapproved_witness:
  "run_status_of (data (run_ticks (example_env 0) [\<lambda>_. True, \<lambda>_. True, \<lambda>_. True, \<lambda>_. True]
     (queue_world RunQueued))) 1 \<in> {RunQueued, RunPlanning, RunPendingApproval}"
proof -
  have "run_status_of (data (queue_world RunQueued)) 1 \<in> {RunQueued, RunPlanning, RunPendingApproval}"
    by code_simp
  then show ?thesis by (rule unapproved_runs_stay_unapproved) simp
qed

section \<open>A blocked queue\<close>

text \<open>The front of a project's queue is the oldest row, deleted or not; so once it has been
  dequeued no later item of the project is ever loaded (its run, unless it is queued twice).\<close>

lemma fronts_first:
  "q \<in> set (fronts seen qs) \<Longrightarrow> qi_ProjectId q \<notin> set seen \<and> q \<in> set qs \<and>
   find (\<lambda>x. qi_ProjectId x = qi_ProjectId q) qs = Some q"
  by (induction qs arbitrary: seen) (fastforce split: if_splits)+

lemma dequeued_front_blocks_queue:
  assumes "GetFirstRunQueueForEveryProject (healthy t) = (Ok items, d)"
    and "t_queue t = xs @ q # ys" and "\<forall>x \<in> set xs. qi_ProjectId x \<noteq> qi_ProjectId q"
    and "qi_Deleted q" and "distinct (map qi_DiggerRunId (t_queue t))"
    and "li \<in> set items"
  shows "qi_ProjectId (li_item li) \<noteq> qi_ProjectId q"
proof
  assume p: "qi_ProjectId (li_item li) = qi_ProjectId q"
  from assms(1) have "items = map (load_item t) (filter (\<lambda>q. \<not> qi_Deleted q \<and>
      qi_DiggerRunId q \<in> qi_DiggerRunId ` set (fronts [] (t_queue t))) (t_queue t))"
    by (auto simp: GetFirstRunQueueForEveryProject_def act_bind_def)
  with assms(6) obtain q1 f where q1: "li = load_item t q1" "q1 \<in> set (t_queue t)" "\<not> qi_Deleted q1"
    and f: "f \<in> set (fronts [] (t_queue t))" "qi_DiggerRunId q1 = qi_DiggerRunId f" by auto
  note ff = fronts_first [OF f(1)]
  then have "q1 = f" using assms(5) q1(2) f(2) by (metis distinct_map inj_onD)
  moreover have "li_item li = q1" by (simp add: q1(1) load_item_def Let_def)
  moreover have "find (\<lambda>x. qi_ProjectId x = qi_ProjectId q) (t_queue t) = Some q"
  proof -
    have "find (\<lambda>x. qi_ProjectId x = qi_ProjectId q) xs = None"
      using assms(3) by (simp add: find_None_iff)
    then show ?thesis by (simp add: assms(2) find_append)
  qed
  ultimately have "q = f" using ff p by simp
  with \<open>q1 = f\<close> q1(3) assms(4) show False by simp
qed

end
