(* ===== verification/TacoRbac.thy ===== *)
theory TacoRbac
  imports FaultyDb
begin

text \<open>
  Role-based access control of OpenTaco: rules, permissions, roles and assignments
  (\<open>taco/internal/rbac/rbac.go\<close>), their tables and queries (\<open>querystore.go\<close> over
  \<open>taco/internal/query/types/models.go\<close>), and the manager that decides requests.  A query that
  gorm splits into several reads is one read here, which fails as any of them would.
\<close>

section \<open>Rules\<close>

record principal =
  pr_Subject :: string
  pr_Email :: string
  pr_Roles :: "string list"
  pr_Groups :: "string list"

record permission_rule =
  rl_Actions :: "string list"
  rl_Resources :: "string list"
  rl_Effect :: string

record permission =
  pm_ID :: string
  pm_Name :: string
  pm_Description :: string
  pm_Rules :: "permission_rule list"
  pm_CreatedAt :: nat
  pm_CreatedBy :: string
  pm_OrgID :: string

text \<open>The qualified names of permissions and roles, which no operation here sets, are left out.\<close>

record role =
  rx_ID :: string
  rx_Name :: string
  rx_Description :: string
  rx_Permissions :: "string list"
  rx_CreatedAt :: nat
  rx_CreatedBy :: string
  rx_Version :: int
  rx_OrgID :: string

record user_assignment =
  ua_Subject :: string
  ua_Email :: string
  ua_Roles :: "string list"
  ua_CreatedAt :: nat
  ua_UpdatedAt :: nat
  ua_Version :: int

definition ActionUnitRead :: string where "ActionUnitRead = ''unit.read''"
definition ActionUnitWrite :: string where "ActionUnitWrite = ''unit.write''"
definition ActionUnitLock :: string where "ActionUnitLock = ''unit.lock''"
definition ActionUnitDelete :: string where "ActionUnitDelete = ''unit.delete''"
definition ActionRBACManage :: string where "ActionRBACManage = ''rbac.manage''"

text \<open>The regular expression a pattern becomes: each asterisk is \<open>.*\<close>, and the rest stands as it
  is.  Of the syntax of \<open>regexp\<close> that leaves, for patterns without other special characters,
  literals and the dot, on texts of single-byte characters; the second function is \<open>regexp\<close> on the
  others, which an error of the pattern makes false.\<close>

fun dots_and_stars :: "string \<Rightarrow> string \<Rightarrow> bool" where
  "dots_and_stars [] s = (s = [])"
| "dots_and_stars (p # ps) s =
     (if p = CHR ''*'' then
        dots_and_stars ps s \<or>
        (case s of [] \<Rightarrow> False | c # cs \<Rightarrow> c \<noteq> CHR 0x0A \<and> dots_and_stars (p # ps) cs)
      else
        (case s of
           [] \<Rightarrow> False
         | c # cs \<Rightarrow> (if p = CHR ''.'' then c \<noteq> CHR 0x0A else c = p) \<and> dots_and_stars ps cs))"

definition regexp_special :: "char list" where
  "regexp_special = [CHR 0x5C, CHR ''+'', CHR ''?'', CHR ''('', CHR '')'', CHR ''|'', CHR ''['', CHR '']'',
     CHR 0x7B, CHR 0x7D, CHR ''^'', CHR ''$'']"

definition wildcard_matches :: "(string \<Rightarrow> string \<Rightarrow> bool) \<Rightarrow> string \<Rightarrow> string \<Rightarrow> bool" where
  "wildcard_matches regexp pattern resource =
     (if list_ex (\<lambda>c. c \<in> set regexp_special) pattern
      then regexp (''^'' @ replace_all pattern ''*'' ''.*'' @ ''$'') resource
      else dots_and_stars pattern resource)"

definition resource_matches :: "(string \<Rightarrow> string \<Rightarrow> bool) \<Rightarrow> string \<Rightarrow> string \<Rightarrow> bool" where
  "resource_matches regexp resource ruleResource \<longleftrightarrow>
     ruleResource = resource \<or> ruleResource = ''*'' \<or>
     (CHR ''*'' \<in> set ruleResource \<and> wildcard_matches regexp ruleResource resource)"

definition rule_matches ::
  "(string \<Rightarrow> string \<Rightarrow> bool) \<Rightarrow> permission_rule \<Rightarrow> string \<Rightarrow> string \<Rightarrow> bool" where
  "rule_matches regexp r action resource \<longleftrightarrow>
     list_ex (\<lambda>a. a = action \<or> a = ''*'') (rl_Actions r) \<and>
     list_ex (resource_matches regexp resource) (rl_Resources r)"

definition evaluatePermission ::
  "(string \<Rightarrow> string \<Rightarrow> bool) \<Rightarrow> permission \<Rightarrow> string \<Rightarrow> string \<Rightarrow> bool" where
  "evaluatePermission regexp p action resource =
     (case find (\<lambda>r. rule_matches regexp r action resource) (pm_Rules p) of
        None \<Rightarrow> False
      | Some r \<Rightarrow> rl_Effect r = ''allow'')"

section \<open>Tables\<close>

record rule_row =
  rr_Effect :: string
  rr_WildcardAction :: bool
  rr_WildcardResource :: bool
  rr_ResourcePatterns :: string
  rr_Actions :: "string list"

record permission_row =
  pe_ID :: string
  pe_OrgID :: string
  pe_Name :: string
  pe_Description :: string
  pe_Rules :: "rule_row list"
  pe_CreatedBy :: string
  pe_CreatedAt :: nat

record role_row =
  ro_ID :: string
  ro_OrgID :: string
  ro_Name :: string
  ro_Description :: string
  ro_CreatedAt :: nat
  ro_CreatedBy :: string

record user_row =
  ur_ID :: string
  ur_Subject :: string
  ur_Email :: string
  ur_CreatedAt :: nat
  ur_UpdatedAt :: nat
  ur_Version :: int

record rbac_tables =
  rt_users :: "user_row list"
  rt_roles :: "role_row list"
  rt_permissions :: "permission_row list"
  rt_role_permissions :: "(string \<times> string) list"
  rt_user_roles :: "(string \<times> string \<times> string) list"

text \<open>JSON of a list of strings, the UUID of the next row, the clock, and \<open>regexp\<close>.\<close>

record rbac_env =
  re_marshal :: "string list \<Rightarrow> string"
  re_unmarshal :: "string \<Rightarrow> string list option"
  re_uuid :: "rbac_tables \<Rightarrow> string"
  re_now :: nat
  re_regexp :: "string \<Rightarrow> string \<Rightarrow> bool"

type_synonym 'a rbac_act = "('a, rbac_tables fdb) act"

definition rbac_not_found :: error where
  "rbac_not_found = ''not found''"

text \<open>A query that may find nothing or violate a unique index.\<close>

definition checked_query :: "(rbac_tables \<Rightarrow> (error + 'a) \<times> rbac_tables) \<Rightarrow> 'a rbac_act" where
  "checked_query q =
     act_bind (fdb_query q) (\<lambda>r. case r of Inl e \<Rightarrow> act_err e | Inr a \<Rightarrow> act_ret a)"

definition gorm_not_found :: error where
  "gorm_not_found = ''record not found''"

definition first_row :: "error \<Rightarrow> (rbac_tables \<Rightarrow> 'r list) \<Rightarrow> ('r \<Rightarrow> bool) \<Rightarrow> 'r rbac_act" where
  "first_row missing tab P =
     checked_query (\<lambda>t. (case find P (tab t) of None \<Rightarrow> Inl missing | Some r \<Rightarrow> Inr r, t))"

section \<open>Conversions\<close>

definition containsWildcard :: "string list \<Rightarrow> bool" where
  "containsWildcard strs = list_ex (\<lambda>s. s = ''*'') strs"

definition convertRbacRulesToTypes :: "rbac_env \<Rightarrow> permission_rule list \<Rightarrow> rule_row list" where
  "convertRbacRulesToTypes env rules =
     map (\<lambda>r. \<lparr>rr_Effect = rl_Effect r, rr_WildcardAction = containsWildcard (rl_Actions r),
       rr_WildcardResource = containsWildcard (rl_Resources r),
       rr_ResourcePatterns = re_marshal env (rl_Resources r), rr_Actions = rl_Actions r\<rparr>) rules"

definition extractResourcesFromRule :: "rbac_env \<Rightarrow> rule_row \<Rightarrow> string list" where
  "extractResourcesFromRule env r =
     (let fallback = (if rr_WildcardResource r then [''*''] else []) in
      if rr_ResourcePatterns r \<noteq> [] then
        (case re_unmarshal env (rr_ResourcePatterns r) of
           Some patterns \<Rightarrow> if length patterns > 0 then patterns else fallback
         | None \<Rightarrow> fallback)
      else fallback)"

definition convert_rule :: "rbac_env \<Rightarrow> rule_row \<Rightarrow> permission_rule" where
  "convert_rule env r =
     \<lparr>rl_Actions = (if rr_WildcardAction r then [''*''] else rr_Actions r),
      rl_Resources = extractResourcesFromRule env r, rl_Effect = rr_Effect r\<rparr>"

definition convertTypesPermissionToRbac :: "rbac_env \<Rightarrow> permission_row \<Rightarrow> permission" where
  "convertTypesPermissionToRbac env tp =
     \<lparr>pm_ID = pe_ID tp, pm_Name = pe_Name tp, pm_Description = pe_Description tp,
      pm_Rules = map (convert_rule env) (pe_Rules tp), pm_CreatedAt = pe_CreatedAt tp,
      pm_CreatedBy = pe_CreatedBy tp, pm_OrgID = pe_OrgID tp\<rparr>"

definition role_permission_names :: "rbac_tables \<Rightarrow> role_row \<Rightarrow> string list" where
  "role_permission_names t tr =
     map pe_Name (filter (\<lambda>p. (ro_ID tr, pe_ID p) \<in> set (rt_role_permissions t)) (rt_permissions t))"

definition convertTypesRoleToRbac :: "rbac_tables \<Rightarrow> role_row \<Rightarrow> role" where
  "convertTypesRoleToRbac t tr =
     \<lparr>rx_ID = ro_ID tr, rx_Name = ro_Name tr, rx_Description = ro_Description tr,
      rx_Permissions = role_permission_names t tr, rx_CreatedAt = ro_CreatedAt tr,
      rx_CreatedBy = ro_CreatedBy tr, rx_Version = 1, rx_OrgID = ro_OrgID tr\<rparr>"

definition convertTypesUserToAssignment :: "role_row list \<Rightarrow> user_row \<Rightarrow> user_assignment" where
  "convertTypesUserToAssignment roles tu =
     \<lparr>ua_Subject = ur_Subject tu, ua_Email = ur_Email tu, ua_Roles = map ro_Name roles,
      ua_CreatedAt = ur_CreatedAt tu, ua_UpdatedAt = ur_UpdatedAt tu, ua_Version = ur_Version tu\<rparr>"

section \<open>Queries\<close>

definition db_CreatePermission :: "rbac_env \<Rightarrow> permission \<Rightarrow> unit rbac_act" where
  "db_CreatePermission env p =
     checked_query (\<lambda>t.
       if \<exists>q \<in> set (rt_permissions t). pe_OrgID q = pm_OrgID p \<and> pe_Name q = pm_ID p
       then (Inl ''UNIQUE constraint failed: permissions'', t)
       else (Inr (), t\<lparr>rt_permissions := rt_permissions t @
         [\<lparr>pe_ID = re_uuid env t, pe_OrgID = pm_OrgID p, pe_Name = pm_ID p,
           pe_Description = (if pm_Description p \<noteq> [] then pm_Description p else pm_Name p),
           pe_Rules = convertRbacRulesToTypes env (pm_Rules p), pe_CreatedBy = pm_CreatedBy p,
           pe_CreatedAt = pm_CreatedAt p\<rparr>]\<rparr>))"

definition db_GetPermission :: "rbac_env \<Rightarrow> string \<Rightarrow> string \<Rightarrow> permission rbac_act" where
  "db_GetPermission env orgID i =
     act_bind (first_row rbac_not_found rt_permissions (\<lambda>p. pe_OrgID p = orgID \<and> pe_Name p = i))
       (\<lambda>p. act_ret (convertTypesPermissionToRbac env p))"

definition db_ListPermissions :: "rbac_env \<Rightarrow> string \<Rightarrow> permission list rbac_act" where
  "db_ListPermissions env orgID =
     fdb_read (\<lambda>t. map (convertTypesPermissionToRbac env)
       (filter (\<lambda>p. pe_OrgID p = orgID) (rt_permissions t)))"

text \<open>The foreign keys remove what refers to a deleted row.\<close>

definition db_DeletePermission :: "string \<Rightarrow> string \<Rightarrow> unit rbac_act" where
  "db_DeletePermission orgID i =
     fdb_write (\<lambda>t.
       let gone = (\<lambda>p. pe_OrgID p = orgID \<and> pe_Name p = i);
           ids = map pe_ID (filter gone (rt_permissions t))
       in t\<lparr>rt_permissions := filter (\<lambda>p. \<not> gone p) (rt_permissions t),
            rt_role_permissions := filter (\<lambda>(_, p). p \<notin> set ids) (rt_role_permissions t)\<rparr>)"

definition db_CreateRole :: "rbac_env \<Rightarrow> role \<Rightarrow> unit rbac_act" where
  "db_CreateRole env r =
     act_bind (checked_query (\<lambda>t.
       if \<exists>q \<in> set (rt_roles t). ro_OrgID q = rx_OrgID r \<and> ro_Name q = rx_ID r
       then (Inl ''UNIQUE constraint failed: roles'', t)
       else
         let row = \<lparr>ro_ID = re_uuid env t, ro_OrgID = rx_OrgID r, ro_Name = rx_ID r,
               ro_Description = (if rx_Description r \<noteq> [] then rx_Description r else rx_Name r),
               ro_CreatedAt = rx_CreatedAt r, ro_CreatedBy = rx_CreatedBy r\<rparr>
         in (Inr row, t\<lparr>rt_roles := rt_roles t @ [row]\<rparr>))) (\<lambda>row.
     if length (rx_Permissions r) > 0 then
       act_bind (fdb_read (\<lambda>t. filter (\<lambda>p. pe_Name p \<in> set (rx_Permissions r)) (rt_permissions t)))
         (\<lambda>ps. fdb_write (\<lambda>t. t\<lparr>rt_role_permissions :=
            rt_role_permissions t @ map (\<lambda>p. (ro_ID row, pe_ID p)) ps\<rparr>))
     else act_ret ())"

definition db_GetRole :: "string \<Rightarrow> string \<Rightarrow> role rbac_act" where
  "db_GetRole orgID i =
     checked_query (\<lambda>t.
       (case find (\<lambda>r. ro_OrgID r = orgID \<and> ro_Name r = i) (rt_roles t) of
          None \<Rightarrow> Inl rbac_not_found
        | Some r \<Rightarrow> Inr (convertTypesRoleToRbac t r), t))"

definition db_ListRoles :: "string \<Rightarrow> role list rbac_act" where
  "db_ListRoles orgID =
     fdb_read (\<lambda>t. map (convertTypesRoleToRbac t) (filter (\<lambda>r. ro_OrgID r = orgID) (rt_roles t)))"

definition db_DeleteRole :: "string \<Rightarrow> string \<Rightarrow> unit rbac_act" where
  "db_DeleteRole orgID i =
     fdb_write (\<lambda>t.
       let gone = (\<lambda>r. ro_OrgID r = orgID \<and> ro_Name r = i);
           ids = map ro_ID (filter gone (rt_roles t))
       in t\<lparr>rt_roles := filter (\<lambda>r. \<not> gone r) (rt_roles t),
            rt_role_permissions := filter (\<lambda>(r, _). r \<notin> set ids) (rt_role_permissions t),
            rt_user_roles := filter (\<lambda>(_, r, _). r \<notin> set ids) (rt_user_roles t)\<rparr>)"

text \<open>The roles a user row is linked to, whatever the organisation; and the user with them.\<close>

definition user_roles :: "rbac_tables \<Rightarrow> user_row \<Rightarrow> role_row list" where
  "user_roles t u =
     filter (\<lambda>r. \<exists>(uid, rid, _) \<in> set (rt_user_roles t). uid = ur_ID u \<and> rid = ro_ID r) (rt_roles t)"

definition find_user :: "(user_row \<Rightarrow> bool) \<Rightarrow> (user_row \<times> role_row list) option rbac_act" where
  "find_user P = fdb_read (\<lambda>t. map_option (\<lambda>u. (u, user_roles t u)) (find P (rt_users t)))"

definition create_user :: "rbac_env \<Rightarrow> string \<Rightarrow> string \<Rightarrow> user_row rbac_act" where
  "create_user env subject email =
     checked_query (\<lambda>t.
       if \<exists>u \<in> set (rt_users t). ur_Subject u = subject \<or> ur_Email u = email
       then (Inl ''UNIQUE constraint failed: users'', t)
       else
         let row = \<lparr>ur_ID = re_uuid env t, ur_Subject = subject, ur_Email = email,
               ur_CreatedAt = re_now env, ur_UpdatedAt = re_now env, ur_Version = 1\<rparr>
         in (Inr row, t\<lparr>rt_users := rt_users t @ [row]\<rparr>))"

definition set_version :: "rbac_env \<Rightarrow> user_row \<Rightarrow> unit rbac_act" where
  "set_version env u =
     fdb_write (\<lambda>t. t\<lparr>rt_users :=
       map (\<lambda>v. if ur_ID v = ur_ID u
         then v\<lparr>ur_Version := ur_Version u + 1, ur_UpdatedAt := re_now env\<rparr> else v) (rt_users t)\<rparr>)"

definition insert_user_role :: "string \<Rightarrow> string \<Rightarrow> string \<Rightarrow> unit rbac_act" where
  "insert_user_role uid rid orgID =
     checked_query (\<lambda>t.
       if (uid, rid, orgID) \<in> set (rt_user_roles t)
       then (Inl ''UNIQUE constraint failed: user_roles'', t)
       else (Inr (), t\<lparr>rt_user_roles := rt_user_roles t @ [(uid, rid, orgID)]\<rparr>))"

definition db_AssignRole ::
  "rbac_env \<Rightarrow> string \<Rightarrow> string \<Rightarrow> string \<Rightarrow> string \<Rightarrow> unit rbac_act" where
  "db_AssignRole env orgID subject email roleID =
     act_bind (find_user (\<lambda>u. ur_Subject u = subject)) (\<lambda>found.
     act_bind
       (case found of
          Some ur \<Rightarrow> act_ret ur
        | None \<Rightarrow> act_bind (create_user env subject email) (\<lambda>u. act_ret (u, []))) (\<lambda>(user, roles).
     act_bind (first_row rbac_not_found rt_roles (\<lambda>r. ro_OrgID r = orgID \<and> ro_Name r = roleID)) (\<lambda>role.
       if list_ex (\<lambda>r. ro_Name r = roleID \<and> ro_OrgID r = orgID) roles then act_ret ()
       else
         act_bind (insert_user_role (ur_ID user) (ro_ID role) orgID) (\<lambda>_. set_version env user))))"

definition db_AssignRoleByEmail :: "rbac_env \<Rightarrow> string \<Rightarrow> string \<Rightarrow> string \<Rightarrow> unit rbac_act" where
  "db_AssignRoleByEmail env orgID email roleID =
     act_bind (fdb_read (\<lambda>t. find (\<lambda>u. ur_Email u = email) (rt_users t))) (\<lambda>u.
       case u of
         None \<Rightarrow> db_AssignRole env orgID email email roleID
       | Some user \<Rightarrow> db_AssignRole env orgID (ur_Subject user) email roleID)"

definition db_RevokeRole :: "rbac_env \<Rightarrow> string \<Rightarrow> string \<Rightarrow> string \<Rightarrow> unit rbac_act" where
  "db_RevokeRole env orgID subject roleID =
     act_bind (first_row gorm_not_found rt_users (\<lambda>u. ur_Subject u = subject)) (\<lambda>user.
     act_bind (first_row gorm_not_found rt_roles (\<lambda>r. ro_OrgID r = orgID \<and> ro_Name r = roleID)) (\<lambda>role.
     act_bind (fdb_write (\<lambda>t. t\<lparr>rt_user_roles :=
         filter (\<lambda>(u, r, _). \<not> (u = ur_ID user \<and> r = ro_ID role)) (rt_user_roles t)\<rparr>)) (\<lambda>_.
       set_version env user)))"

definition db_RevokeRoleByEmail :: "rbac_env \<Rightarrow> string \<Rightarrow> string \<Rightarrow> string \<Rightarrow> unit rbac_act" where
  "db_RevokeRoleByEmail env orgID email roleID =
     act_bind (first_row gorm_not_found rt_users (\<lambda>u. ur_Email u = email)) (\<lambda>user.
       db_RevokeRole env orgID (ur_Subject user) roleID)"

text \<open>The preload joins the roles with all assignments made in the organisation, so a role of the
  user appears once for each of those.\<close>

definition db_GetUserAssignment :: "string \<Rightarrow> string \<Rightarrow> user_assignment rbac_act" where
  "db_GetUserAssignment orgID subject =
     checked_query (\<lambda>t.
       (case find (\<lambda>u. ur_Subject u = subject) (rt_users t) of
          None \<Rightarrow> Inl rbac_not_found
        | Some u \<Rightarrow> Inr (convertTypesUserToAssignment
            (concat (map (\<lambda>r. map (\<lambda>_. r)
               (filter (\<lambda>(_, rid, org). rid = ro_ID r \<and> org = orgID) (rt_user_roles t)))
               (user_roles t u))) u), t))"

definition db_GetUserAssignmentByEmail :: "string \<Rightarrow> string \<Rightarrow> user_assignment rbac_act" where
  "db_GetUserAssignmentByEmail orgID email =
     checked_query (\<lambda>t.
       (case find (\<lambda>u. ur_Email u = email) (rt_users t) of
          None \<Rightarrow> Inl rbac_not_found
        | Some u \<Rightarrow> Inr (convertTypesUserToAssignment
            (filter (\<lambda>r. ro_OrgID r = orgID) (user_roles t u)) u), t))"

definition db_ListUserAssignments :: "string \<Rightarrow> user_assignment list rbac_act" where
  "db_ListUserAssignments orgID =
     fdb_read (\<lambda>t. map (\<lambda>u. convertTypesUserToAssignment
       (filter (\<lambda>r. ro_OrgID r = orgID) (user_roles t u)) u) (rt_users t))"

section \<open>The manager\<close>

text \<open>A request's context carries the organisation, or none.\<close>

definition org_required :: error where
  "org_required = ''organization context required for RBAC''"

definition IsEnabled :: "rbac_env \<Rightarrow> string option \<Rightarrow> bool rbac_act" where
  "IsEnabled env org =
     (case org of
        None \<Rightarrow> act_err org_required
      | Some orgID \<Rightarrow>
          act_bind (act_wrap (\<lambda>e. ''RBAC database unavailable: '' @ e) (db_ListPermissions env orgID))
            (\<lambda>perms. act_ret (length perms > 0)))"

text \<open>The two loops of \<open>Can\<close>; a role or a permission that cannot be read is skipped.\<close>

fun check_permissions ::
  "rbac_env \<Rightarrow> string \<Rightarrow> string \<Rightarrow> string \<Rightarrow> string list \<Rightarrow> bool rbac_act" where
  "check_permissions env orgID action resource [] = act_ret False"
| "check_permissions env orgID action resource (p # ps) =
     act_bind (act_try (db_GetPermission env orgID p)) (\<lambda>r.
       case r of
         Inl _ \<Rightarrow> check_permissions env orgID action resource ps
       | Inr perm \<Rightarrow>
           if evaluatePermission (re_regexp env) perm action resource then act_ret True
           else check_permissions env orgID action resource ps)"

fun check_roles ::
  "rbac_env \<Rightarrow> string \<Rightarrow> string \<Rightarrow> string \<Rightarrow> string list \<Rightarrow> bool rbac_act" where
  "check_roles env orgID action resource [] = act_ret False"
| "check_roles env orgID action resource (i # is) =
     act_bind (act_try (db_GetRole orgID i)) (\<lambda>r.
       case r of
         Inl _ \<Rightarrow> check_roles env orgID action resource is
       | Inr role \<Rightarrow>
           act_bind (check_permissions env orgID action resource (rx_Permissions role)) (\<lambda>ok.
             if ok then act_ret True else check_roles env orgID action resource is))"

definition Can :: "rbac_env \<Rightarrow> string option \<Rightarrow> principal \<Rightarrow> string \<Rightarrow> string \<Rightarrow> bool rbac_act" where
  "Can env org pr action resource =
     (case org of
        None \<Rightarrow> act_err org_required
      | Some orgID \<Rightarrow>
          act_bind (IsEnabled env org) (\<lambda>enabled.
            if \<not> enabled then act_ret True
            else
              act_bind (db_GetUserAssignment orgID (pr_Subject pr)) (\<lambda>assignment.
                check_roles env orgID action resource (ua_Roles assignment))))"

fun filter_readable ::
  "rbac_env \<Rightarrow> string option \<Rightarrow> principal \<Rightarrow> string list \<Rightarrow> string list rbac_act" where
  "filter_readable env org pr [] = act_ret []"
| "filter_readable env org pr (u # us) =
     act_bind (act_try (Can env org pr ActionUnitRead u)) (\<lambda>r.
     act_bind (filter_readable env org pr us) (\<lambda>rest.
       act_ret (if r = Inr True then u # rest else rest)))"

definition FilterUnitsByReadAccess ::
  "rbac_env \<Rightarrow> string option \<Rightarrow> principal \<Rightarrow> string list \<Rightarrow> string list rbac_act" where
  "FilterUnitsByReadAccess env org pr units =
     act_bind (IsEnabled env org) (\<lambda>enabled.
       if \<not> enabled then act_ret units else filter_readable env org pr units)"

definition read_rule :: permission_rule where
  "read_rule = \<lparr>rl_Actions = [ActionUnitRead], rl_Resources = [''*''], rl_Effect = ''allow''\<rparr>"

definition admin_rule :: permission_rule where
  "admin_rule =
     \<lparr>rl_Actions = [ActionUnitRead, ActionUnitWrite, ActionUnitLock, ActionUnitDelete, ActionRBACManage],
      rl_Resources = [''*''], rl_Effect = ''allow''\<rparr>"

definition default_permission :: "rbac_env \<Rightarrow> string \<Rightarrow> string \<Rightarrow> permission" where
  "default_permission env orgID initUser =
     \<lparr>pm_ID = ''default'', pm_Name = ''Default Permission'',
      pm_Description = ''Default permission allowing read access to all states'',
      pm_Rules = [read_rule], pm_CreatedAt = re_now env, pm_CreatedBy = initUser, pm_OrgID = orgID\<rparr>"

definition admin_permission :: "rbac_env \<Rightarrow> string \<Rightarrow> string \<Rightarrow> permission" where
  "admin_permission env orgID initUser =
     \<lparr>pm_ID = ''admin'', pm_Name = ''Admin Permission'',
      pm_Description = ''Admin permission allowing all actions on all resources'',
      pm_Rules = [admin_rule], pm_CreatedAt = re_now env, pm_CreatedBy = initUser, pm_OrgID = orgID\<rparr>"

definition default_role :: "rbac_env \<Rightarrow> string \<Rightarrow> string \<Rightarrow> role" where
  "default_role env orgID initUser =
     \<lparr>rx_ID = ''default'', rx_Name = ''Default Role'',
      rx_Description = ''Default role with read access'', rx_Permissions = [''default''],
      rx_CreatedAt = re_now env, rx_CreatedBy = initUser, rx_Version = 0, rx_OrgID = orgID\<rparr>"

definition admin_role :: "rbac_env \<Rightarrow> string \<Rightarrow> string \<Rightarrow> role" where
  "admin_role env orgID initUser =
     \<lparr>rx_ID = ''admin'', rx_Name = ''Admin Role'',
      rx_Description = ''Admin role with full access'', rx_Permissions = [''admin''],
      rx_CreatedAt = re_now env, rx_CreatedBy = initUser, rx_Version = 0, rx_OrgID = orgID\<rparr>"

definition InitializeRBAC :: "rbac_env \<Rightarrow> string \<Rightarrow> string \<Rightarrow> string \<Rightarrow> unit rbac_act" where
  "InitializeRBAC env orgID initUser initEmail =
     act_bind (act_wrap (\<lambda>e. ''failed to check if RBAC is enabled: '' @ e) (db_ListPermissions env orgID))
       (\<lambda>perms.
     if length perms > 0 then
       act_bind (act_try (db_AssignRole env orgID initUser initEmail ''admin'')) (\<lambda>_. act_ret ())
     else
       act_bind (act_wrap (\<lambda>e. ''failed to create default permission: '' @ e)
         (db_CreatePermission env (default_permission env orgID initUser))) (\<lambda>_.
       act_bind (act_wrap (\<lambda>e. ''failed to create admin permission: '' @ e)
         (db_CreatePermission env (admin_permission env orgID initUser))) (\<lambda>_.
       act_bind (act_wrap (\<lambda>e. ''failed to create default role: '' @ e)
         (db_CreateRole env (default_role env orgID initUser))) (\<lambda>_.
       act_bind (act_wrap (\<lambda>e. ''failed to create admin role: '' @ e)
         (db_CreateRole env (admin_role env orgID initUser))) (\<lambda>_.
       act_wrap (\<lambda>e. ''failed to assign admin role to init user: '' @ e)
         (db_AssignRole env orgID initUser initEmail ''admin''))))))"

section \<open>Operations of the manager that pass on to the store\<close>

definition with_org :: "string option \<Rightarrow> (string \<Rightarrow> 'a rbac_act) \<Rightarrow> 'a rbac_act" where
  "with_org org f =
     (case org of None \<Rightarrow> act_err ''organization context required'' | Some orgID \<Rightarrow> f orgID)"

definition GetUserInfo :: "string option \<Rightarrow> string \<Rightarrow> user_assignment rbac_act" where
  "GetUserInfo org subject = with_org org (\<lambda>orgID. db_GetUserAssignment orgID subject)"

definition AssignRole :: "rbac_env \<Rightarrow> string option \<Rightarrow> string \<Rightarrow> string \<Rightarrow> string \<Rightarrow> unit rbac_act" where
  "AssignRole env org subject email roleID =
     with_org org (\<lambda>orgID. db_AssignRole env orgID subject email roleID)"

definition AssignRoleByEmail :: "rbac_env \<Rightarrow> string option \<Rightarrow> string \<Rightarrow> string \<Rightarrow> unit rbac_act" where
  "AssignRoleByEmail env org email roleID =
     with_org org (\<lambda>orgID. db_AssignRoleByEmail env orgID email roleID)"

definition RevokeRole :: "rbac_env \<Rightarrow> string option \<Rightarrow> string \<Rightarrow> string \<Rightarrow> unit rbac_act" where
  "RevokeRole env org subject roleID = with_org org (\<lambda>orgID. db_RevokeRole env orgID subject roleID)"

definition RevokeRoleByEmail :: "rbac_env \<Rightarrow> string option \<Rightarrow> string \<Rightarrow> string \<Rightarrow> unit rbac_act" where
  "RevokeRoleByEmail env org email roleID = with_org org (\<lambda>orgID. db_RevokeRoleByEmail env orgID email roleID)"

definition DeletePermission :: "string option \<Rightarrow> string \<Rightarrow> unit rbac_act" where
  "DeletePermission org i = with_org org (\<lambda>orgID. db_DeletePermission orgID i)"

definition DeleteRole :: "string option \<Rightarrow> string \<Rightarrow> unit rbac_act" where
  "DeleteRole org i = with_org org (\<lambda>orgID. db_DeleteRole orgID i)"

end
