(* ===== verification/TacoRbacProps.thy ===== *)
theory TacoRbacProps
  imports TacoRbac
begin

text \<open>
  What the manager decides, against a specification over the tables: a request is authorised when
  the organisation has no permissions at all, or the user has a role of the organisation with a
  permission of the organisation whose first matching rule allows it.
\<close>

section \<open>Queries that only read\<close>

lemma checked_query_cases:
  "(\<exists>e d'. checked_query q d = (Err e, d') \<and> fdb_data d' = fdb_data d) \<or>
   (\<exists>d'. checked_query q d =
      ((case fst (q (fdb_data d)) of Inl e \<Rightarrow> Err e | Inr a \<Rightarrow> Ok a), d') \<and>
      fdb_data d' = snd (q (fdb_data d)))"
  using fdb_query_cases [of q d]
  by (auto simp: checked_query_def act_bind_def split: sum.splits)

lemma checked_read_data [simp]: "fdb_data (snd (checked_query (\<lambda>t. (f t, t)) d)) = fdb_data d"
  using checked_query_cases [of "\<lambda>t. (f t, t)" d] by auto

lemma checked_read_Ok:
  "checked_query (\<lambda>t. (f t, t)) d = (Ok a, d') \<Longrightarrow> f (fdb_data d) = Inr a \<and> fdb_data d' = fdb_data d"
  using checked_query_cases [of "\<lambda>t. (f t, t)" d] by (auto split: sum.splits)

lemma checked_query_healthy [simp]:
  "checked_query q (healthy t) =
     ((case fst (q t) of Inl e \<Rightarrow> Err e | Inr a \<Rightarrow> Ok a), healthy (snd (q t)))"
  by (auto simp: checked_query_def act_bind_def split: sum.splits)

lemma checked_query_no_Panic: "checked_query q d \<noteq> (Panic m, d')"
  using checked_query_cases [of q d] by (auto split: sum.splits)

section \<open>The specification\<close>

definition permits :: "rbac_env \<Rightarrow> permission_row \<Rightarrow> string \<Rightarrow> string \<Rightarrow> bool" where
  "permits env p action resource \<longleftrightarrow>
     evaluatePermission (re_regexp env) (convertTypesPermissionToRbac env p) action resource"

definition permission_named :: "rbac_tables \<Rightarrow> string \<Rightarrow> string \<Rightarrow> permission_row option" where
  "permission_named t orgID i =
     find (\<lambda>p. pe_OrgID p = orgID \<and> pe_Name p = i) (rt_permissions t)"

definition role_named :: "rbac_tables \<Rightarrow> string \<Rightarrow> string \<Rightarrow> role_row option" where
  "role_named t orgID i = find (\<lambda>r. ro_OrgID r = orgID \<and> ro_Name r = i) (rt_roles t)"

definition names_permit ::
  "rbac_env \<Rightarrow> rbac_tables \<Rightarrow> string \<Rightarrow> string \<Rightarrow> string \<Rightarrow> string list \<Rightarrow> bool" where
  "names_permit env t orgID action resource ps \<longleftrightarrow>
     (\<exists>i \<in> set ps. \<exists>p. permission_named t orgID i = Some p \<and> permits env p action resource)"

definition roles_permit ::
  "rbac_env \<Rightarrow> rbac_tables \<Rightarrow> string \<Rightarrow> string \<Rightarrow> string \<Rightarrow> string list \<Rightarrow> bool" where
  "roles_permit env t orgID action resource is \<longleftrightarrow>
     (\<exists>i \<in> set is. \<exists>r. role_named t orgID i = Some r \<and>
        names_permit env t orgID action resource (role_permission_names t r))"

text \<open>Names of the user's roles that are assigned in the organisation.\<close>

definition assigned_names :: "rbac_tables \<Rightarrow> string \<Rightarrow> user_row \<Rightarrow> string set" where
  "assigned_names t orgID u =
     {ro_Name r | r. r \<in> set (user_roles t u) \<and> (\<exists>uid. (uid, ro_ID r, orgID) \<in> set (rt_user_roles t))}"

definition authorized ::
  "rbac_env \<Rightarrow> rbac_tables \<Rightarrow> string \<Rightarrow> string \<Rightarrow> string \<Rightarrow> string \<Rightarrow> bool" where
  "authorized env t orgID subject action resource \<longleftrightarrow>
     (\<forall>p \<in> set (rt_permissions t). pe_OrgID p \<noteq> orgID) \<or>
     (\<exists>u. find (\<lambda>u. ur_Subject u = subject) (rt_users t) = Some u \<and>
        (\<exists>i \<in> assigned_names t orgID u. \<exists>r. role_named t orgID i = Some r \<and>
           names_permit env t orgID action resource (role_permission_names t r)))"

section \<open>The loops\<close>

lemma GetPermission_Ok:
  "db_GetPermission env orgID i d = (Ok a, d') \<Longrightarrow>
   \<exists>p. permission_named (fdb_data d) orgID i = Some p \<and> a = convertTypesPermissionToRbac env p"
  by (auto simp: db_GetPermission_def first_row_def act_bind_eq_Ok permission_named_def
      dest!: checked_read_Ok split: option.splits)

lemma GetPermission_data [simp]: "fdb_data (snd (db_GetPermission env orgID i d)) = fdb_data d"
  unfolding db_GetPermission_def first_row_def
  by (rule act_bind_preserve [where P = "\<lambda>s t. fdb_data t = fdb_data s"]) simp_all

lemma GetRole_Ok:
  "db_GetRole orgID i d = (Ok a, d') \<Longrightarrow>
   \<exists>r. role_named (fdb_data d) orgID i = Some r \<and> a = convertTypesRoleToRbac (fdb_data d) r"
  by (auto simp: db_GetRole_def role_named_def dest!: checked_read_Ok split: option.splits)

lemma GetRole_data [simp]: "fdb_data (snd (db_GetRole orgID i d)) = fdb_data d"
  by (simp add: db_GetRole_def)

lemma check_permissions_data [simp]:
  "fdb_data (snd (check_permissions env orgID action resource ps d)) = fdb_data d"
proof (induction ps arbitrary: d)
  case (Cons p ps)
  show ?case
    unfolding check_permissions.simps
    by (rule act_bind_preserve [where P = "\<lambda>s t. fdb_data t = fdb_data s"])
      (auto simp: Cons.IH split: sum.splits)
qed simp

lemma check_permissions_True:
  "check_permissions env orgID action resource ps d = (Ok True, d') \<Longrightarrow>
   names_permit env (fdb_data d) orgID action resource ps"
proof (induction ps arbitrary: d)
  case (Cons p ps)
  obtain x d1 where g: "db_GetPermission env orgID p d = (x, d1)" by force
  have d1: "fdb_data d1 = fdb_data d"
    using GetPermission_data [of env orgID p d] g by simp
  show ?case
  proof (cases "\<exists>a. x = Ok a \<and> evaluatePermission (re_regexp env) a action resource")
    case True
    with g GetPermission_Ok [of env orgID p d] show ?thesis
      by (auto simp: names_permit_def permits_def)
  next
    case False
    have "check_permissions env orgID action resource ps d1 = (Ok True, d')"
      using Cons.prems False g by (cases x) (auto simp: act_bind_def act_try_def split: if_splits)
    from Cons.IH [OF this] d1 show ?thesis by (auto simp: names_permit_def)
  qed
qed simp

lemma check_permissions_healthy [simp]:
  "check_permissions env orgID action resource ps (healthy t) =
     (Ok (names_permit env t orgID action resource ps), healthy t)"
proof (induction ps)
  case (Cons p ps)
  then show ?case
    by (cases "permission_named t orgID p")
      (auto simp: act_bind_def act_try_def db_GetPermission_def first_row_def names_permit_def
        permission_named_def permits_def)
qed (simp add: names_permit_def)

lemma check_roles_data [simp]:
  "fdb_data (snd (check_roles env orgID action resource is d)) = fdb_data d"
proof (induction "is" arbitrary: d)
  case (Cons i "is")
  have inner: "fdb_data (snd (act_bind (check_permissions env orgID action resource ps)
      (\<lambda>ok. if ok then act_ret True else check_roles env orgID action resource is) e)) = fdb_data e"
    for ps e
    by (rule act_bind_preserve [where P = "\<lambda>s t. fdb_data t = fdb_data s"]) (auto simp: Cons.IH)
  show ?case
    unfolding check_roles.simps
    by (rule act_bind_preserve [where P = "\<lambda>s t. fdb_data t = fdb_data s"])
      (auto simp: Cons.IH inner split: sum.splits)
qed simp

lemma check_roles_True:
  "check_roles env orgID action resource is d = (Ok True, d') \<Longrightarrow>
   roles_permit env (fdb_data d) orgID action resource is"
proof (induction "is" arbitrary: d)
  case (Cons i "is")
  obtain x d1 where g: "db_GetRole orgID i d = (x, d1)" by force
  have d1: "fdb_data d1 = fdb_data d"
    using GetRole_data [of orgID i d] g by simp
  show ?case
  proof (cases x)
    case (Ok a)
    with g obtain r where r: "role_named (fdb_data d) orgID i = Some r"
        "a = convertTypesRoleToRbac (fdb_data d) r"
      using GetRole_Ok by blast
    obtain y d2 where c: "check_permissions env orgID action resource (rx_Permissions a) d1 = (y, d2)"
      by force
    have d2: "fdb_data d2 = fdb_data d"
      using check_permissions_data [of env orgID action resource "rx_Permissions a" d1] c d1 by simp
    from Cons.prems g Ok c consider "y = Ok True"
      | "check_roles env orgID action resource is d2 = (Ok True, d')"
      by (cases y) (auto simp: act_bind_def act_try_def split: if_splits)
    then show ?thesis
    proof cases
      case 1
      with check_permissions_True [of env orgID action resource "rx_Permissions a" d1 d2] c d1 r
      show ?thesis by (auto simp: roles_permit_def convertTypesRoleToRbac_def)
    next
      case 2
      from Cons.IH [OF this] d2 show ?thesis by (auto simp: roles_permit_def)
    qed
  next
    case (Err e)
    with Cons.prems g have "check_roles env orgID action resource is d1 = (Ok True, d')"
      by (auto simp: act_bind_def act_try_def)
    from Cons.IH [OF this] d1 show ?thesis by (auto simp: roles_permit_def)
  next
    case (Panic m)
    with Cons.prems g show ?thesis by (auto simp: act_bind_def act_try_def)
  qed
qed simp

lemma check_roles_healthy [simp]:
  "check_roles env orgID action resource is (healthy t) =
     (Ok (roles_permit env t orgID action resource is), healthy t)"
proof (induction "is")
  case (Cons i "is")
  then show ?case
    by (cases "role_named t orgID i")
      (auto simp: act_bind_def act_try_def db_GetRole_def roles_permit_def role_named_def
        convertTypesRoleToRbac_def)
qed (simp add: roles_permit_def)

section \<open>The decision\<close>

lemma IsEnabled_Ok:
  "IsEnabled env (Some orgID) d = (Ok b, d') \<Longrightarrow>
   b = (\<exists>p \<in> set (rt_permissions (fdb_data d)). pe_OrgID p = orgID) \<and> fdb_data d' = fdb_data d"
  by (auto simp: IsEnabled_def act_bind_eq_Ok db_ListPermissions_def filter_empty_conv
      dest!: fdb_read_Ok)

lemma IsEnabled_healthy [simp]:
  "IsEnabled env (Some orgID) (healthy t) =
     (Ok (\<exists>p \<in> set (rt_permissions t). pe_OrgID p = orgID), healthy t)"
  by (auto simp: IsEnabled_def db_ListPermissions_def act_bind_def act_wrap_def filter_empty_conv)

lemma assigned_roles:
  "set (map ro_Name (concat (map (\<lambda>r. map (\<lambda>_. r)
     (filter (\<lambda>(_, rid, org). rid = ro_ID r \<and> org = orgID) (rt_user_roles t))) (user_roles t u)))) =
   assigned_names t orgID u"
  by (auto simp: assigned_names_def image_iff)

lemma roles_permit_cong:
  "set is = set js \<Longrightarrow> roles_permit env t orgID action resource is = roles_permit env t orgID action resource js"
  by (simp add: roles_permit_def)

lemma Can_sound:
  assumes "Can env (Some orgID) pr action resource d = (Ok True, d')"
  shows "authorized env (fdb_data d) orgID (pr_Subject pr) action resource"
proof -
  from assms obtain b d1 where en: "IsEnabled env (Some orgID) d = (Ok b, d1)"
    by (auto simp: Can_def act_bind_eq_Ok)
  note e = IsEnabled_Ok [OF en]
  show ?thesis
  proof (cases b)
    case False
    with e show ?thesis by (auto simp: authorized_def)
  next
    case True
    with assms en obtain a d2 where
      g: "db_GetUserAssignment orgID (pr_Subject pr) d1 = (Ok a, d2)" and
      c: "check_roles env orgID action resource (ua_Roles a) d2 = (Ok True, d')"
      by (auto simp: Can_def act_bind_eq_Ok)
    from g have g': "(case find (\<lambda>u. ur_Subject u = pr_Subject pr) (rt_users (fdb_data d1)) of
          None \<Rightarrow> Inl rbac_not_found
        | Some u \<Rightarrow> Inr (convertTypesUserToAssignment
            (concat (map (\<lambda>r. map (\<lambda>_. r)
               (filter (\<lambda>(_, rid, org). rid = ro_ID r \<and> org = orgID) (rt_user_roles (fdb_data d1))))
               (user_roles (fdb_data d1) u))) u)) = Inr a \<and> fdb_data d2 = fdb_data d1"
      unfolding db_GetUserAssignment_def by (rule checked_read_Ok)
    then obtain u where u: "find (\<lambda>u. ur_Subject u = pr_Subject pr) (rt_users (fdb_data d)) = Some u"
        "set (ua_Roles a) = assigned_names (fdb_data d) orgID u"
      using e by (auto simp: convertTypesUserToAssignment_def simp flip: assigned_roles split: option.splits)
    from check_roles_True [OF c] g' e have "roles_permit env (fdb_data d) orgID action resource (ua_Roles a)"
      by simp
    with u show ?thesis by (auto simp: authorized_def roles_permit_def)
  qed
qed

lemma Can_data [simp]: "fdb_data (snd (Can env org pr action resource d)) = fdb_data d"
proof -
  have e: "fdb_data (snd (IsEnabled env (Some orgID) d)) = fdb_data d" for orgID d
    unfolding IsEnabled_def option.case
    by (rule act_bind_preserve [where P = "\<lambda>s t. fdb_data t = fdb_data s"])
      (simp_all add: db_ListPermissions_def)
  have g: "fdb_data (snd (act_bind (db_GetUserAssignment orgID s) (\<lambda>a.
      check_roles env orgID action resource (ua_Roles a)) d)) = fdb_data d" for orgID s d
    by (rule act_bind_preserve [where P = "\<lambda>s t. fdb_data t = fdb_data s"])
      (simp_all add: db_GetUserAssignment_def)
  show ?thesis
    by (cases org) (auto simp: Can_def intro!: act_bind_preserve [where P = "\<lambda>s t. fdb_data t = fdb_data s"] simp: e g)
qed

lemma Can_healthy:
  assumes "find (\<lambda>u. ur_Subject u = pr_Subject pr) (rt_users t) = Some u"
  shows "Can env (Some orgID) pr action resource (healthy t) =
    (Ok (authorized env t orgID (pr_Subject pr) action resource), healthy t)"
proof -
  have "roles_permit env t orgID action resource (map ro_Name (concat (map (\<lambda>r. map (\<lambda>_. r)
     (filter (\<lambda>(_, rid, org). rid = ro_ID r \<and> org = orgID) (rt_user_roles t))) (user_roles t u)))) \<longleftrightarrow>
    (\<exists>i \<in> assigned_names t orgID u. \<exists>r. role_named t orgID i = Some r \<and>
       names_permit env t orgID action resource (role_permission_names t r))"
    unfolding roles_permit_def assigned_roles ..
  then show ?thesis
    using assms
    by (auto simp: Can_def act_bind_def db_GetUserAssignment_def authorized_def
        convertTypesUserToAssignment_def)
qed


lemma Can_True:
  assumes "Can env org pr action resource d = (Ok True, d')"
  shows "\<exists>orgID. org = Some orgID \<and>
    authorized env (fdb_data d) orgID (pr_Subject pr) action resource \<and> fdb_data d' = fdb_data d"
proof (cases org)
  case None
  with assms show ?thesis by (simp add: Can_def)
next
  case (Some orgID)
  with assms Can_sound [of env orgID pr action resource d d']
    Can_data [of env org pr action resource d] show ?thesis by simp
qed

text \<open>The filter of a listing keeps only what may be read.\<close>

lemma filter_readable_Ok:
  "filter_readable env org pr us d = (Ok ids, d') \<Longrightarrow> fdb_data d' = fdb_data d \<and>
   (\<forall>i \<in> set ids. i \<in> set us \<and> (\<exists>orgID. org = Some orgID \<and>
      authorized env (fdb_data d) orgID (pr_Subject pr) ActionUnitRead i))"
proof (induction us arbitrary: d ids d')
  case (Cons u us)
  obtain x d1 where c: "Can env org pr ActionUnitRead u d = (x, d1)" by force
  with Can_data [of env org pr ActionUnitRead u d] have d1: "fdb_data d1 = fdb_data d" by simp
  from Cons.prems c obtain rest d2 where r: "filter_readable env org pr us d1 = (Ok rest, d2)"
      "ids = (if x = Ok True then u # rest else rest)" "d' = d2"
    by (cases x) (auto simp: act_bind_eq_Ok act_try_def act_bind_def split: prod.splits res.splits if_splits)
  from Cons.IH [OF r(1)] c d1 r(2,3) Can_True [of env org pr ActionUnitRead u d d1] show ?case
    by auto
qed simp

lemma FilterUnits_Ok:
  assumes "FilterUnitsByReadAccess env org pr us d = (Ok ids, d')"
  shows "fdb_data d' = fdb_data d \<and> (\<forall>i \<in> set ids. i \<in> set us \<and> (\<exists>orgID. org = Some orgID \<and>
      authorized env (fdb_data d) orgID (pr_Subject pr) ActionUnitRead i))"
proof -
  from assms obtain b d1 where en: "IsEnabled env org d = (Ok b, d1)"
      and f: "(if \<not> b then act_ret us else filter_readable env org pr us) d1 = (Ok ids, d')"
    by (auto simp: FilterUnitsByReadAccess_def act_bind_eq_Ok)
  from en obtain orgID where org: "org = Some orgID" by (cases org) (auto simp: IsEnabled_def)
  note e = IsEnabled_Ok [OF en [unfolded org]]
  show ?thesis
  proof (cases b)
    case False
    with e f org show ?thesis by (auto simp: authorized_def)
  next
    case True
    with f have "filter_readable env org pr us d1 = (Ok ids, d')" by simp
    from filter_readable_Ok [OF this] e show ?thesis by simp
  qed
qed

section \<open>Rules as they are stored\<close>

definition json_lists_ok :: "rbac_env \<Rightarrow> bool" where
  "json_lists_ok env \<longleftrightarrow>
     (\<forall>xs. re_marshal env xs \<noteq> [] \<and> re_unmarshal env (re_marshal env xs) = Some xs)"

lemma containsWildcard_iff: "containsWildcard xs \<longleftrightarrow> ''*'' \<in> set xs"
  by (simp add: containsWildcard_def list_ex_iff)

lemma stored_resources:
  "json_lists_ok env \<Longrightarrow>
   extractResourcesFromRule env
     \<lparr>rr_Effect = e, rr_WildcardAction = w, rr_WildcardResource = ''*'' \<in> set xs,
      rr_ResourcePatterns = re_marshal env xs, rr_Actions = as\<rparr> = xs"
  by (simp add: extractResourcesFromRule_def json_lists_ok_def)

lemma stored_rule_matches:
  assumes "json_lists_ok env"
  shows "map (\<lambda>r. (rule_matches regexp r action resource, rl_Effect r))
      (map (convert_rule env) (convertRbacRulesToTypes env rules)) =
    map (\<lambda>r. (rule_matches regexp r action resource, rl_Effect r)) rules"
  using assms
  by (auto simp: convertRbacRulesToTypes_def convert_rule_def stored_resources rule_matches_def
      containsWildcard_iff list_ex_iff)

lemma first_match_cong:
  "map (\<lambda>r. (P r, f r)) xs = map (\<lambda>r. (P r, f r)) ys \<Longrightarrow>
   map_option f (find P xs) = map_option f (find P ys)"
proof (induction xs arbitrary: ys)
  case (Cons x xs)
  then show ?case by (cases ys) auto
qed simp

lemma evaluate_eq:
  "evaluatePermission regexp p action resource \<longleftrightarrow>
   map_option rl_Effect (find (\<lambda>r. rule_matches regexp r action resource) (pm_Rules p)) = Some ''allow''"
  by (simp add: evaluatePermission_def split: option.splits)

section \<open>The first initialisation\<close>

lemma CreatePermission_healthy:
  "\<forall>q \<in> set (rt_permissions t). \<not> (pe_OrgID q = pm_OrgID p \<and> pe_Name q = pm_ID p) \<Longrightarrow>
   \<exists>row. db_CreatePermission env p (healthy t) =
       (Ok (), healthy (t\<lparr>rt_permissions := rt_permissions t @ [row]\<rparr>)) \<and>
     pe_OrgID row = pm_OrgID p \<and> pe_Name row = pm_ID p \<and>
     pe_Rules row = convertRbacRulesToTypes env (pm_Rules p)"
  by (auto simp: db_CreatePermission_def)

lemma CreateRole_healthy:
  "\<forall>q \<in> set (rt_roles t). \<not> (ro_OrgID q = rx_OrgID r \<and> ro_Name q = rx_ID r) \<Longrightarrow>
   rx_Permissions r = [n] \<Longrightarrow>
   \<exists>row. db_CreateRole env r (healthy t) =
       (Ok (), healthy (t\<lparr>rt_roles := rt_roles t @ [row],
          rt_role_permissions := rt_role_permissions t @
            map (\<lambda>p. (ro_ID row, pe_ID p)) (filter (\<lambda>p. pe_Name p = n) (rt_permissions t))\<rparr>)) \<and>
     ro_OrgID row = rx_OrgID r \<and> ro_Name row = rx_ID r \<and> ro_ID row = re_uuid env t"
  by (intro exI [where x = "\<lparr>ro_ID = re_uuid env t, ro_OrgID = rx_OrgID r, ro_Name = rx_ID r,
      ro_Description = (if rx_Description r \<noteq> [] then rx_Description r else rx_Name r),
      ro_CreatedAt = rx_CreatedAt r, ro_CreatedBy = rx_CreatedBy r\<rparr>"])
    (auto simp: db_CreateRole_def act_bind_def Let_def)

lemma find_skip: "\<forall>x \<in> set xs. \<not> P x \<Longrightarrow> find P (xs @ ys) = find P ys"
  by (induction xs) auto

lemma find_versioned:
  "find (\<lambda>u. ur_Subject u = s) (map (\<lambda>v. if ur_ID v = i then v\<lparr>ur_Version := n, ur_UpdatedAt := m\<rparr> else v) us) =
   map_option (\<lambda>v. if ur_ID v = i then v\<lparr>ur_Version := n, ur_UpdatedAt := m\<rparr> else v) (find (\<lambda>u. ur_Subject u = s) us)"
  by (induction us) auto

lemma AssignRole_healthy:
  assumes "find (\<lambda>r. ro_OrgID r = orgID \<and> ro_Name r = roleID) (rt_roles t) = Some role"
    and "\<forall>(u, r, g) \<in> set (rt_user_roles t).
      \<forall>row \<in> set (rt_roles t). r = ro_ID row \<longrightarrow> \<not> (ro_OrgID row = orgID \<and> ro_Name row = roleID)"
    and "(\<exists>u \<in> set (rt_users t). ur_Subject u = subject) \<or> (\<forall>u \<in> set (rt_users t). ur_Email u \<noteq> email)"
  shows "\<exists>us u. db_AssignRole env orgID subject email roleID (healthy t) =
      (Ok (), healthy (t\<lparr>rt_user_roles := rt_user_roles t @ [(ur_ID u, ro_ID role, orgID)], rt_users := us\<rparr>)) \<and>
    find (\<lambda>u. ur_Subject u = subject) us = Some u"
proof -
  have role: "role \<in> set (rt_roles t)" "ro_OrgID role = orgID" "ro_Name role = roleID"
    using find_SomeD [OF assms(1)] by auto
  have fresh: "(x, ro_ID role, orgID) \<notin> set (rt_user_roles t)" for x
    using assms(2) role by fastforce
  have none: "\<not> list_ex (\<lambda>r. ro_Name r = roleID \<and> ro_OrgID r = orgID) (user_roles t x)" for x
    using assms(2) by (fastforce simp: user_roles_def list_ex_iff)
  show ?thesis
  proof (cases "find (\<lambda>u. ur_Subject u = subject) (rt_users t)")
    case (Some v)
    then show ?thesis
      by (intro exI [where x = "map (\<lambda>w. if ur_ID w = ur_ID v then w\<lparr>ur_Version := ur_Version v + 1, ur_UpdatedAt := re_now env\<rparr> else w) (rt_users t)"]
          exI [where x = "v\<lparr>ur_Version := ur_Version v + 1, ur_UpdatedAt := re_now env\<rparr>"])
        (auto simp: db_AssignRole_def find_user_def first_row_def act_bind_def assms(1) none fresh
          insert_user_role_def set_version_def find_versioned)
  next
    case None
    then have "\<forall>u \<in> set (rt_users t). ur_Subject u \<noteq> subject \<and> ur_Email u \<noteq> email"
      using assms(3) by (auto simp: find_None_iff)
    then have c: "\<exists>v. create_user env subject email (healthy t) =
        (Ok v, healthy (t\<lparr>rt_users := rt_users t @ [v]\<rparr>)) \<and> ur_Subject v = subject"
      by (auto simp: create_user_def Let_def)
    then obtain v where v: "create_user env subject email (healthy t) =
        (Ok v, healthy (t\<lparr>rt_users := rt_users t @ [v]\<rparr>))" "ur_Subject v = subject" by blast
    then show ?thesis
      using None
      by (intro exI [where x = "map (\<lambda>w. if ur_ID w = ur_ID v then w\<lparr>ur_Version := ur_Version v + 1, ur_UpdatedAt := re_now env\<rparr> else w) (rt_users t @ [v])"]
          exI [where x = "v\<lparr>ur_Version := ur_Version v + 1, ur_UpdatedAt := re_now env\<rparr>"])
        (auto simp: db_AssignRole_def find_user_def first_row_def act_bind_def assms(1) fresh
          insert_user_role_def set_version_def find_versioned find_append)
  qed
qed

lemma admin_rule_allows:
  assumes "json_lists_ok env" and "action \<in> set (rl_Actions admin_rule)"
    and "pe_Rules row = convertRbacRulesToTypes env [admin_rule]"
  shows "permits env row action resource"
proof -
  have "rule_matches (re_regexp env) admin_rule action resource"
    using assms(2) by (auto simp: rule_matches_def resource_matches_def list_ex_iff admin_rule_def)
  moreover have "rl_Effect admin_rule = ''allow''" by (simp add: admin_rule_def)
  ultimately show ?thesis
    using first_match_cong [OF stored_rule_matches [OF assms(1), of "re_regexp env" action resource "[admin_rule]"]]
    by (simp add: permits_def evaluate_eq convertTypesPermissionToRbac_def assms(3))
qed

text \<open>The tables after the first four steps.\<close>

definition init_tables ::
  "rbac_tables \<Rightarrow> permission_row \<Rightarrow> permission_row \<Rightarrow> role_row \<Rightarrow> role_row \<Rightarrow> rbac_tables" where
  "init_tables t dp ap dr ar =
     t\<lparr>rt_permissions := rt_permissions t @ [dp, ap], rt_roles := rt_roles t @ [dr, ar],
       rt_role_permissions := rt_role_permissions t @
         map (\<lambda>p. (ro_ID dr, pe_ID p)) (filter (\<lambda>p. pe_Name p = ''default'') (rt_permissions t @ [dp, ap])) @
         map (\<lambda>p. (ro_ID ar, pe_ID p)) (filter (\<lambda>p. pe_Name p = ''admin'') (rt_permissions t @ [dp, ap]))\<rparr>"

lemma init_permissions:
  assumes "\<forall>p \<in> set (rt_permissions t). pe_OrgID p \<noteq> orgID"
  shows "\<exists>dp ap. act_bind (db_CreatePermission env (default_permission env orgID user))
      (\<lambda>_. db_CreatePermission env (admin_permission env orgID user)) (healthy t) =
      (Ok (), healthy (t\<lparr>rt_permissions := rt_permissions t @ [dp, ap]\<rparr>)) \<and>
    pe_OrgID dp = orgID \<and> pe_Name dp = ''default'' \<and> pe_OrgID ap = orgID \<and> pe_Name ap = ''admin'' \<and>
    pe_Rules ap = convertRbacRulesToTypes env [admin_rule]"
proof -
  obtain dp where d: "db_CreatePermission env (default_permission env orgID user) (healthy t) =
      (Ok (), healthy (t\<lparr>rt_permissions := rt_permissions t @ [dp]\<rparr>))"
      "pe_OrgID dp = orgID" "pe_Name dp = ''default''"
    using CreatePermission_healthy [of t "default_permission env orgID user" env] assms
    by (auto simp: default_permission_def)
  let ?t = "t\<lparr>rt_permissions := rt_permissions t @ [dp]\<rparr>"
  have "\<forall>q \<in> set (rt_permissions ?t). \<not> (pe_OrgID q = pm_OrgID (admin_permission env orgID user) \<and>
      pe_Name q = pm_ID (admin_permission env orgID user))"
    using assms d(2,3) by (simp add: admin_permission_def)
  from CreatePermission_healthy [OF this, of env] obtain ap where
    "db_CreatePermission env (admin_permission env orgID user) (healthy ?t) =
      (Ok (), healthy (t\<lparr>rt_permissions := rt_permissions t @ [dp, ap]\<rparr>))"
    "pe_OrgID ap = orgID" "pe_Name ap = ''admin''" "pe_Rules ap = convertRbacRulesToTypes env [admin_rule]"
    by (auto simp: admin_permission_def)
  with d show ?thesis by (intro exI [where x = dp] exI [where x = ap]) (simp add: act_bind_def)
qed

lemma role_sel:
  "rx_OrgID (default_role env orgID user) = orgID" "rx_ID (default_role env orgID user) = ''default''"
  "rx_Permissions (default_role env orgID user) = [''default'']"
  "rx_OrgID (admin_role env orgID user) = orgID" "rx_ID (admin_role env orgID user) = ''admin''"
  "rx_Permissions (admin_role env orgID user) = [''admin'']"
  by (simp_all add: default_role_def admin_role_def)

lemma init_roles:
  assumes "\<forall>r \<in> set (rt_roles t). ro_OrgID r \<noteq> orgID"
  shows "\<exists>dr ar. act_bind (db_CreateRole env (default_role env orgID user))
      (\<lambda>_. db_CreateRole env (admin_role env orgID user))
        (healthy (t\<lparr>rt_permissions := rt_permissions t @ [dp, ap]\<rparr>)) =
      (Ok (), healthy (init_tables t dp ap dr ar)) \<and>
    ro_OrgID dr = orgID \<and> ro_Name dr = ''default'' \<and> ro_OrgID ar = orgID \<and> ro_Name ar = ''admin'' \<and>
    (\<exists>t'. ro_ID ar = re_uuid env t')"
proof -
  let ?t = "t\<lparr>rt_permissions := rt_permissions t @ [dp, ap]\<rparr>"
  let ?link = "\<lambda>r n. map (\<lambda>p. (ro_ID r, pe_ID p)) (filter (\<lambda>p. pe_Name p = n) (rt_permissions ?t))"
  have "\<forall>q \<in> set (rt_roles ?t). \<not> (ro_OrgID q = rx_OrgID (default_role env orgID user) \<and>
      ro_Name q = rx_ID (default_role env orgID user))"
    using assms by (simp add: default_role_def)
  from CreateRole_healthy [OF this, of "''default''" env] obtain dr where
    d: "db_CreateRole env (default_role env orgID user) (healthy ?t) =
      (Ok (), healthy (?t\<lparr>rt_roles := rt_roles ?t @ [dr],
          rt_role_permissions := rt_role_permissions ?t @ ?link dr ''default''\<rparr>))"
      "ro_OrgID dr = orgID" "ro_Name dr = ''default''"
    unfolding role_sel by blast
  let ?u = "?t\<lparr>rt_roles := rt_roles ?t @ [dr],
      rt_role_permissions := rt_role_permissions ?t @ ?link dr ''default''\<rparr>"
  have "\<forall>q \<in> set (rt_roles ?u). \<not> (ro_OrgID q = rx_OrgID (admin_role env orgID user) \<and>
      ro_Name q = rx_ID (admin_role env orgID user))"
    using assms d(2,3) by (simp add: admin_role_def)
  from CreateRole_healthy [OF this, of "''admin''" env] obtain ar where
    a: "db_CreateRole env (admin_role env orgID user) (healthy ?u) =
      (Ok (), healthy (?u\<lparr>rt_roles := rt_roles ?u @ [ar],
          rt_role_permissions := rt_role_permissions ?u @
            map (\<lambda>p. (ro_ID ar, pe_ID p)) (filter (\<lambda>p. pe_Name p = ''admin'') (rt_permissions ?u))\<rparr>))"
      "ro_OrgID ar = orgID" "ro_Name ar = ''admin''" "ro_ID ar = re_uuid env ?u"
    unfolding role_sel by blast
  have e: "?u\<lparr>rt_roles := rt_roles ?u @ [ar],
      rt_role_permissions := rt_role_permissions ?u @
            map (\<lambda>p. (ro_ID ar, pe_ID p)) (filter (\<lambda>p. pe_Name p = ''admin'') (rt_permissions ?u))\<rparr> = init_tables t dp ap dr ar"
    by (simp add: init_tables_def)
  have "db_CreateRole env (admin_role env orgID user) (healthy ?u) =
      (Ok (), healthy (init_tables t dp ap dr ar))" by (rule a(1) [unfolded e])
  then show ?thesis
    using d(2,3) a(2-4)
    by (intro exI [where x = dr] exI [where x = ar] conjI exI [where x = ?u])
      (simp_all only: act_bind_def d(1) res.case prod.case)
qed

lemma act_wrapped_Ok:
  "act_bind f (\<lambda>_. g) s = (Ok b, t) \<Longrightarrow>
   act_bind (act_wrap m f) (\<lambda>_. act_bind (act_wrap n g) k) s = k b t"
  unfolding act_bind_eq_Ok [of f] by (auto simp: act_bind_def act_wrap_def)

text \<open>The tables after all of it authorise the user.\<close>

lemma init_authorizes:
  assumes "json_lists_ok env" and "action \<in> set (rl_Actions admin_rule)"
    and "\<forall>p \<in> set (rt_permissions t). pe_OrgID p \<noteq> orgID" and "\<forall>r \<in> set (rt_roles t). ro_OrgID r \<noteq> orgID"
    and "pe_OrgID dp = orgID" "pe_Name dp = ''default''" "pe_OrgID ap = orgID" "pe_Name ap = ''admin''"
    and "pe_Rules ap = convertRbacRulesToTypes env [admin_rule]"
    and "ro_OrgID dr = orgID" "ro_Name dr = ''default''" "ro_OrgID ar = orgID" "ro_Name ar = ''admin''"
    and "find (\<lambda>u. ur_Subject u = user) us = Some u"
  shows "authorized env (init_tables t dp ap dr ar
      \<lparr>rt_user_roles := ls @ [(ur_ID u, ro_ID ar, orgID)], rt_users := us\<rparr>) orgID user action resource"
proof -
  let ?t = "init_tables t dp ap dr ar\<lparr>rt_user_roles := ls @ [(ur_ID u, ro_ID ar, orgID)], rt_users := us\<rparr>"
  have "permission_named ?t orgID ''admin'' = Some ap"
    using assms(3,5-8) by (simp add: permission_named_def init_tables_def find_skip)
  moreover have "''admin'' \<in> set (role_permission_names ?t ar)"
    using assms(8) by (auto simp: role_permission_names_def init_tables_def)
  moreover have "permits env ap action resource"
    by (rule admin_rule_allows [OF assms(1,2,9)])
  ultimately have "names_permit env ?t orgID action resource (role_permission_names ?t ar)"
    by (auto simp: names_permit_def)
  moreover have "role_named ?t orgID ''admin'' = Some ar"
    using assms(4,10-13) by (simp add: role_named_def init_tables_def find_skip)
  moreover have "''admin'' \<in> assigned_names ?t orgID u"
    using assms(13) by (auto simp: assigned_names_def user_roles_def init_tables_def intro!: exI [of _ ar])
  moreover have "find (\<lambda>u. ur_Subject u = user) (rt_users ?t) = Some u"
    using assms(14) by simp
  ultimately show ?thesis unfolding authorized_def by blast
qed

section \<open>Properties\<close>

text \<open>A permission that is stored and read back allows exactly what it did.\<close>

theorem stored_permission_decides_alike:
  assumes "json_lists_ok env" and "pe_Rules row = convertRbacRulesToTypes env (pm_Rules p)"
  shows "evaluatePermission regexp (convertTypesPermissionToRbac env row) action resource =
    evaluatePermission regexp p action resource"
  using first_match_cong [OF stored_rule_matches [OF assms(1), of regexp action resource "pm_Rules p"]]
  by (simp add: evaluate_eq convertTypesPermissionToRbac_def assms(2))



section \<open>Witnesses\<close>

text \<open>A coding of lists of strings that can be undone: each character is preceded by a
  quote, each string ends in a comma.\<close>

definition plain_marshal :: "string list \<Rightarrow> string" where
  "plain_marshal xs = ''['' @ concat (map (\<lambda>s. concat (map (\<lambda>c. [CHR ''q'', c]) s) @ '','') xs)"

fun plain_strings :: "string \<Rightarrow> string \<Rightarrow> string list" where
  "plain_strings acc [] = []"
| "plain_strings acc [c] = [rev acc]"
| "plain_strings acc (c # d # cs) =
     (if c = CHR '','' then rev acc # plain_strings [] (d # cs) else plain_strings (d # acc) cs)"

lemma plain_strings_step:
  "plain_strings acc (concat (map (\<lambda>c. [CHR ''q'', c]) s) @ CHR '','' # rest) =
   (rev acc @ s) # plain_strings [] rest"
proof (induction s arbitrary: acc)
  case Nil
  show ?case by (cases rest) simp_all
qed simp

lemma plain_strings_marshal:
  "plain_strings [] (concat (map (\<lambda>s. concat (map (\<lambda>c. [CHR ''q'', c]) s) @ '','') xs)) = xs"
  by (induction xs) (simp_all add: plain_strings_step)

definition example_rbac :: rbac_env where
  "example_rbac =
     \<lparr>re_marshal = plain_marshal, re_unmarshal = (\<lambda>s. Some (plain_strings [] (tl s))),
      re_uuid = (\<lambda>t. ''id'' @ replicate (length (rt_permissions t) + length (rt_roles t)) CHR ''x''),
      re_now = 7, re_regexp = (\<lambda>_ _. False)\<rparr>"

definition no_tables :: rbac_tables where
  "no_tables = \<lparr>rt_users = [], rt_roles = [], rt_permissions = [], rt_role_permissions = [], rt_user_roles = []\<rparr>"

definition example_principal :: principal where
  "example_principal = \<lparr>pr_Subject = ''ann'', pr_Email = ''a@x'', pr_Roles = [], pr_Groups = []\<rparr>"

definition example_tables :: rbac_tables where
  "example_tables = fdb_data (snd (InitializeRBAC example_rbac ''o'' ''ann'' ''a@x'' (healthy no_tables)))"

lemma example_json_ok: "json_lists_ok example_rbac"
  by (simp add: json_lists_ok_def example_rbac_def plain_marshal_def plain_strings_marshal)

theorem stored_permission_decides_alike_witness:
  "\<not> evaluatePermission (\<lambda>_ _. False) (convertTypesPermissionToRbac example_rbac
     \<lparr>pe_ID = [], pe_OrgID = [], pe_Name = [], pe_Description = [],
      pe_Rules = convertRbacRulesToTypes example_rbac (pm_Rules (default_permission example_rbac [] [])),
      pe_CreatedBy = [], pe_CreatedAt = 0\<rparr>) ActionUnitWrite ''app''"
  by (subst stored_permission_decides_alike [OF example_json_ok]) (simp, code_simp)



end
