(* ===== verification/UnitStore.thy ===== *)
theory UnitStore
  imports Prelude
begin

text \<open>
  The state server of OpenTaco keeps Terraform states as units of a store
  (\<open>taco/internal/storage/interface.go\<close>).  This theory holds the types, the interface that
  the handlers use (\<open>StateOperations\<close> of \<open>taco/internal/domain/interfaces.go\<close>) with its
  contract as a locale, and the store in memory (\<open>memstore.go\<close>).

  Errors are compared by identity in the callers, so an error that wraps another is a value of its
  own; \<open>Panicked\<close> stands for a nil dereference, which is no error value of the code.  \<open>time.Now()\<close> is an argument of the operations that call it; within one operation it is
  read as the same instant.
\<close>

section \<open>Types\<close>

datatype store_error =
    ErrNotFound | ErrAlreadyExists | ErrLockConflict | ErrForbidden | ErrUnauthorized
  | WrappedError store_error string
  | OtherError string
  | Panicked

type_synonym bytes = string

type_synonym ('a, 's) store_op = "'s \<Rightarrow> (store_error + 'a) \<times> 's"

record lock_info =
  li_ID :: string
  li_Who :: string
  li_Version :: string
  li_Created :: nat

record unit_metadata =
  um_ID :: string
  um_Name :: string
  um_OrgID :: string
  um_OrgName :: string
  um_Size :: nat
  um_Updated :: nat
  um_Locked :: bool
  um_LockInfo :: "lock_info option"
  um_TFEAutoApply :: "bool option"
  um_TFETerraformVersion :: "string option"
  um_TFEEngine :: "string option"
  um_TFEWorkingDirectory :: "string option"
  um_TFEExecutionMode :: "string option"
  um_LockID :: string

record version_info =
  vi_Timestamp :: nat
  vi_Hash :: string
  vi_Size :: nat
  vi_S3Key :: string

definition zero_metadata :: unit_metadata where
  "zero_metadata =
     \<lparr>um_ID = [], um_Name = [], um_OrgID = [], um_OrgName = [], um_Size = 0, um_Updated = 0,
      um_Locked = False, um_LockInfo = None, um_TFEAutoApply = None,
      um_TFETerraformVersion = None, um_TFEEngine = None, um_TFEWorkingDirectory = None,
      um_TFEExecutionMode = None, um_LockID = []\<rparr>"

section \<open>The interface of the handlers\<close>

record 's state_ops =
  so_Get :: "string \<Rightarrow> (unit_metadata, 's) store_op"
  so_Download :: "string \<Rightarrow> (bytes, 's) store_op"
  so_GetLock :: "string \<Rightarrow> (lock_info option, 's) store_op"
  so_Upload :: "nat \<Rightarrow> string \<Rightarrow> bytes \<Rightarrow> string \<Rightarrow> (unit, 's) store_op"
  so_Lock :: "string \<Rightarrow> lock_info \<Rightarrow> (unit, 's) store_op"
  so_Unlock :: "string \<Rightarrow> string \<Rightarrow> (unit, 's) store_op"

text \<open>What a store promises.  \<open>key\<close> is the name a store knows a unit by, \<open>content\<close> and
  \<open>holder\<close> are its abstraction: the state of each unit and who has locked it.\<close>

locale state_store =
  fixes ops :: "'s state_ops"
    and key :: "string \<Rightarrow> 'k"
    and content :: "'s \<Rightarrow> 'k \<Rightarrow> bytes option"
    and holder :: "'s \<Rightarrow> 'k \<Rightarrow> lock_info option"
    and inv :: "'s \<Rightarrow> bool"
  assumes Get_law:
      "inv s \<Longrightarrow> so_Get ops i s = (x, s') \<Longrightarrow>
        inv s' \<and> content s' = content s \<and> holder s' = holder s \<and>
        (\<forall>m. x = Inr m \<longrightarrow> content s (key i) \<noteq> None \<and> um_LockInfo m = holder s (key i)) \<and>
        (x = Inl ErrNotFound \<longrightarrow> content s (key i) = None)"
    and Download_law:
      "inv s \<Longrightarrow> so_Download ops i s = (y, s') \<Longrightarrow>
        inv s' \<and> content s' = content s \<and> holder s' = holder s \<and>
        (\<forall>d. y = Inr d \<longrightarrow> content s (key i) = Some d) \<and>
        (y = Inl ErrNotFound \<longrightarrow> content s (key i) = None)"
    and GetLock_law:
      "inv s \<Longrightarrow> so_GetLock ops i s = (z, s') \<Longrightarrow>
        inv s' \<and> content s' = content s \<and> holder s' = holder s \<and>
        (\<forall>l. z = Inr l \<longrightarrow> holder s (key i) = l)"
    and Upload_law:
      "inv s \<Longrightarrow> so_Upload ops now i data lockID s = (u, s') \<Longrightarrow>
        inv s' \<and> holder s' = holder s \<and>
        (content s' = content s \<or>
         content s' = (content s)(key i \<mapsto> data) \<and>
         (\<forall>l. holder s (key i) = Some l \<longrightarrow> li_ID l = lockID)) \<and>
        (u = Inr () \<longrightarrow> content s' (key i) = Some data)"
    and Lock_law:
      "inv s \<Longrightarrow> so_Lock ops i info s = (u, s') \<Longrightarrow>
        inv s' \<and> content s' = content s \<and>
        (u = Inr () \<longrightarrow> content s (key i) \<noteq> None \<and> holder s (key i) = None \<and>
           holder s' = (holder s)(key i \<mapsto> info)) \<and>
        (u \<noteq> Inr () \<longrightarrow> holder s' = holder s)"
    and Unlock_law:
      "inv s \<Longrightarrow> so_Unlock ops i lockID s = (u, s') \<Longrightarrow>
        inv s' \<and> content s' = content s \<and>
        (u = Inr () \<longrightarrow> (\<exists>l. holder s (key i) = Some l \<and> li_ID l = lockID) \<and>
           holder s' = (holder s)(key i := None)) \<and>
        (u \<noteq> Inr () \<longrightarrow> holder s' = holder s)"

text \<open>A store call that may carry the wrong lock: the next section's facts on all of them.\<close>

definition guarded :: "('s \<Rightarrow> 'k \<Rightarrow> bytes option) \<Rightarrow> ('s \<Rightarrow> 'k \<Rightarrow> lock_info option) \<Rightarrow> 'k \<Rightarrow>
  string \<Rightarrow> 's \<Rightarrow> 's \<Rightarrow> bool" where
  "guarded content holder k L s s' \<longleftrightarrow>
     (\<forall>l. holder s k = Some l \<longrightarrow> li_ID l = L \<longrightarrow>
        holder s' k = Some l \<and> content s' k = content s k)"

lemma guarded_refl: "guarded c h k L s s"
  by (simp add: guarded_def)

lemma guarded_trans: "guarded c h k L s t \<Longrightarrow> guarded c h k L t u \<Longrightarrow> guarded c h k L s u"
  by (auto simp: guarded_def)

lemma guarded_same: "c s' = c s \<Longrightarrow> h s' = h s \<Longrightarrow> guarded c h k L s s'"
  by (simp add: guarded_def)

text \<open>The weaker contract that this gives: while a unit is locked, no call that does not carry the
  lock changes its state or its lock.  Stores that wrap another keep it more easily.\<close>

locale guarded_store =
  fixes ops :: "'s state_ops"
    and key :: "string \<Rightarrow> 'k"
    and content :: "'s \<Rightarrow> 'k \<Rightarrow> bytes option"
    and holder :: "'s \<Rightarrow> 'k \<Rightarrow> lock_info option"
    and inv :: "'s \<Rightarrow> bool"
  assumes Get_guarded:
      "inv s \<Longrightarrow> so_Get ops i s = (x, s') \<Longrightarrow> inv s' \<and> guarded content holder k L s s'"
    and Download_guarded:
      "inv s \<Longrightarrow> so_Download ops i s = (y, s') \<Longrightarrow> inv s' \<and> guarded content holder k L s s'"
    and GetLock_guarded:
      "inv s \<Longrightarrow> so_GetLock ops i s = (z, s') \<Longrightarrow> inv s' \<and> guarded content holder k L s s'"
    and Upload_guarded:
      "inv s \<Longrightarrow> so_Upload ops now i data lockID s = (u, s') \<Longrightarrow> (key i = k \<longrightarrow> lockID \<noteq> L) \<Longrightarrow>
        inv s' \<and> guarded content holder k L s s'"
    and Lock_guarded:
      "inv s \<Longrightarrow> so_Lock ops i info s = (u, s') \<Longrightarrow> inv s' \<and> guarded content holder k L s s'"
    and Unlock_guarded:
      "inv s \<Longrightarrow> so_Unlock ops i lockID s = (u, s') \<Longrightarrow> (key i = k \<longrightarrow> lockID \<noteq> L) \<Longrightarrow>
        inv s' \<and> guarded content holder k L s s'"

context state_store
begin

lemma Get_guards:
  assumes "inv s" and "so_Get ops i s = (x, s')"
  shows "inv s' \<and> guarded content holder k L s s'"
  using Get_law [OF assms] by (blast intro: guarded_same)

lemma Download_guards:
  assumes "inv s" and "so_Download ops i s = (x, s')"
  shows "inv s' \<and> guarded content holder k L s s'"
  using Download_law [OF assms] by (blast intro: guarded_same)

lemma GetLock_guards:
  assumes "inv s" and "so_GetLock ops i s = (x, s')"
  shows "inv s' \<and> guarded content holder k L s s'"
  using GetLock_law [OF assms] by (blast intro: guarded_same)

lemma Upload_guards:
  assumes "inv s" and "so_Upload ops now i data lockID s = (x, s')" and "key i = k \<longrightarrow> lockID \<noteq> L"
  shows "inv s' \<and> guarded content holder k L s s'"
proof -
  note law = Upload_law [OF assms(1,2)]
  then consider "content s' = content s"
    | "content s' = (content s)(key i \<mapsto> data)"
      and "\<forall>l. holder s (key i) = Some l \<longrightarrow> li_ID l = lockID" by blast
  then have "guarded content holder k L s s'"
  proof cases
    case 1
    with law show ?thesis by (blast intro: guarded_same)
  next
    case 2
    then show ?thesis
      using law assms(3) by (cases "key i = k") (auto simp: guarded_def)
  qed
  with law show ?thesis by blast
qed

lemma Lock_guards:
  assumes "inv s" and "so_Lock ops i info s = (x, s')"
  shows "inv s' \<and> guarded content holder k L s s'"
proof -
  note law = Lock_law [OF assms]
  then have "guarded content holder k L s s'"
    by (cases "x = Inr ()"; cases "key i = k") (auto simp: guarded_def)
  with law show ?thesis by blast
qed

lemma Unlock_guards:
  assumes "inv s" and "so_Unlock ops i lockID s = (x, s')" and "key i = k \<longrightarrow> lockID \<noteq> L"
  shows "inv s' \<and> guarded content holder k L s s'"
proof -
  note law = Unlock_law [OF assms(1,2)]
  then have "guarded content holder k L s s'"
    using assms(3) by (cases "x = Inr ()"; cases "key i = k") (auto simp: guarded_def)
  with law show ?thesis by blast
qed

end

sublocale state_store \<subseteq> guarded_store ops key content holder inv
  by unfold_locales (fact Get_guards Download_guards GetLock_guards Upload_guards Lock_guards Unlock_guards)+

end
