(* ===== verification/UnitRepo.thy ===== *)
theory UnitRepo
  imports UnitStore FaultyDb
begin

text \<open>
  The unit repository of OpenTaco (\<open>taco/internal/repositories/unit_repository.go\<close>): units are rows
  of the database, and the state of each is a blob of a store under the path
  \<open>organisation/unit\<close> of the two identifiers.  The state is the tables with the errors of the next
  queries, the blob store, the clock, and the blobs that are still to be made in the background.
  How the database compares with \<open>LIKE\<close> and which identifiers it draws are parameters.
\<close>

section \<open>State\<close>

record org_row =
  or_ID :: string
  or_Name :: string

record unit_row =
  un_ID :: string
  un_OrgID :: string
  un_Name :: string
  un_Size :: nat
  un_UpdatedAt :: nat
  un_Locked :: bool
  un_LockID :: string
  un_LockWho :: string
  un_LockCreated :: "nat option"
  un_TFEAutoApply :: "bool option"
  un_TFETerraformVersion :: "string option"
  un_TFEEngine :: "string option"
  un_TFEWorkingDirectory :: "string option"
  un_TFEExecutionMode :: "string option"

record unit_tables =
  ut_orgs :: "org_row list"
  ut_units :: "unit_row list"

record 'b repo =
  rp_db :: "unit_tables fdb"
  rp_blob :: 'b
  rp_now :: nat
  rp_creating :: "string list"

record repo_env =
  ue_uuid :: "unit_tables \<Rightarrow> string"
  ue_like :: "string \<Rightarrow> string \<Rightarrow> bool"
  ue_org_name :: string

text \<open>The interfaces of a store of blobs and of a repository, as far as they are used here.\<close>

record 'b blob_store =
  bs_state :: "'b state_ops"
  bs_Create :: "nat \<Rightarrow> string \<Rightarrow> (unit_metadata, 'b) store_op"
  bs_Delete :: "string \<Rightarrow> (unit, 'b) store_op"
  bs_ListVersions :: "string \<Rightarrow> (version_info list, 'b) store_op"
  bs_RestoreVersion :: "nat \<Rightarrow> string \<Rightarrow> nat \<Rightarrow> string \<Rightarrow> (unit, 'b) store_op"

record 's unit_repository =
  ur_state :: "'s state_ops"
  ur_Create :: "string \<Rightarrow> string \<Rightarrow> (unit_metadata, 's) store_op"
  ur_List :: "string \<Rightarrow> string \<Rightarrow> (unit_metadata list, 's) store_op"
  ur_Delete :: "string \<Rightarrow> (unit, 's) store_op"
  ur_ListVersions :: "string \<Rightarrow> (version_info list, 's) store_op"
  ur_RestoreVersion :: "nat \<Rightarrow> string \<Rightarrow> nat \<Rightarrow> string \<Rightarrow> (unit, 's) store_op"

section \<open>Queries\<close>

definition op_bind :: "('a, 's) store_op \<Rightarrow> ('a \<Rightarrow> ('c, 's) store_op) \<Rightarrow> ('c, 's) store_op" where
  "op_bind f g s = (case f s of (Inl e, s') \<Rightarrow> (Inl e, s') | (Inr a, s') \<Rightarrow> g a s')"

definition op_return :: "'a \<Rightarrow> ('a, 's) store_op" where
  "op_return a s = (Inr a, s)"

text \<open>A query, whose error is wrapped with a message; and a call of the blob store.\<close>

definition repo_query ::
  "string \<Rightarrow> (unit_tables \<Rightarrow> (store_error + 'a) \<times> unit_tables) \<Rightarrow> ('a, 'b repo) store_op" where
  "repo_query msg q r =
     (case fdb_query q (rp_db r) of
        (Ok x, d) \<Rightarrow> (x, r\<lparr>rp_db := d\<rparr>)
      | (Err e, d) \<Rightarrow> (Inl (OtherError (msg @ e)), r\<lparr>rp_db := d\<rparr>)
      | (Panic m, d) \<Rightarrow> (Inl Panicked, r\<lparr>rp_db := d\<rparr>))"

definition on_blob :: "('a, 'b) store_op \<Rightarrow> ('a, 'b repo) store_op" where
  "on_blob f r = (case f (rp_blob r) of (x, b) \<Rightarrow> (x, r\<lparr>rp_blob := b\<rparr>))"

definition unit_by_id :: "unit_tables \<Rightarrow> string \<Rightarrow> unit_row option" where
  "unit_by_id t uuid = find (\<lambda>u. un_ID u = uuid) (ut_units t)"

definition org_by_id :: "unit_tables \<Rightarrow> string \<Rightarrow> org_row option" where
  "org_by_id t i = find (\<lambda>g. or_ID g = i) (ut_orgs t)"

definition find_unit :: "string \<Rightarrow> string \<Rightarrow> (unit_row, 'b repo) store_op" where
  "find_unit msg uuid =
     repo_query msg (\<lambda>t. (case unit_by_id t uuid of None \<Rightarrow> Inl ErrNotFound | Some u \<Rightarrow> Inr u, t))"

definition errMsgOrgNotFound :: string where
  "errMsgOrgNotFound = ''failed to get organization: ''"

definition errMsgUnitNotFound :: string where
  "errMsgUnitNotFound = ''failed to find unit: ''"

definition find_org :: "store_error \<Rightarrow> string \<Rightarrow> (org_row, 'b repo) store_op" where
  "find_org missing i =
     repo_query errMsgOrgNotFound
       (\<lambda>t. (case org_by_id t i of None \<Rightarrow> Inl missing | Some g \<Rightarrow> Inr g, t))"

definition blob_path :: "org_row \<Rightarrow> unit_row \<Rightarrow> string" where
  "blob_path org u = or_ID org @ ''/'' @ un_ID u"

text \<open>The lines most methods begin with: the unit, its organisation and the path of its blob.\<close>

definition with_unit ::
  "string \<Rightarrow> string \<Rightarrow> (unit_row \<Rightarrow> org_row \<Rightarrow> string \<Rightarrow> ('a, 'b repo) store_op) \<Rightarrow>
   ('a, 'b repo) store_op" where
  "with_unit msg uuid f =
     op_bind (find_unit msg uuid) (\<lambda>u.
     op_bind (find_org (OtherError (errMsgOrgNotFound @ ''record not found'')) (un_OrgID u)) (\<lambda>org.
       f u org (blob_path org u)))"

text \<open>\<open>Model(&unit).Updates\<close>: the columns of the row, and the time of the change.\<close>

definition update_unit :: "string \<Rightarrow> unit_row \<Rightarrow> nat \<Rightarrow> (unit_row \<Rightarrow> unit_row) \<Rightarrow> (unit, 'b repo) store_op" where
  "update_unit msg u now f =
     repo_query msg (\<lambda>t. (Inr (), t\<lparr>ut_units :=
       map (\<lambda>v. if un_ID v = un_ID u then (f v)\<lparr>un_UpdatedAt := now\<rparr> else v) (ut_units t)\<rparr>))"

section \<open>State operations\<close>

definition unit_meta :: "string \<Rightarrow> unit_row \<Rightarrow> unit_metadata" where
  "unit_meta orgName u =
     zero_metadata\<lparr>um_ID := un_ID u, um_Name := un_Name u, um_OrgID := un_OrgID u, um_OrgName := orgName,
       um_Size := un_Size u, um_Updated := un_UpdatedAt u, um_Locked := un_Locked u\<rparr>"

definition full_meta :: "org_row \<Rightarrow> unit_row \<Rightarrow> unit_metadata" where
  "full_meta org u =
     (unit_meta (or_Name org) u)\<lparr>um_LockID := un_LockID u, um_TFEAutoApply := un_TFEAutoApply u,
       um_TFETerraformVersion := un_TFETerraformVersion u, um_TFEEngine := un_TFEEngine u,
       um_TFEWorkingDirectory := un_TFEWorkingDirectory u,
       um_TFEExecutionMode := un_TFEExecutionMode u\<rparr>"

definition repo_Get :: "'b state_ops \<Rightarrow> string \<Rightarrow> (unit_metadata, 'b repo) store_op" where
  "repo_Get ops uuid =
     with_unit ''failed to get unit: '' uuid (\<lambda>u org path r.
       case on_blob (so_Get ops path) r of
         (Inl e, r') \<Rightarrow>
           if e = ErrNotFound then (Inr (full_meta org u), r')
           else (Inl (WrappedError e ''failed to get blob metadata: ''), r')
       | (Inr blobMeta, r') \<Rightarrow>
           (Inr (case um_LockInfo blobMeta of
                   None \<Rightarrow> full_meta org u
                 | Some l \<Rightarrow> (full_meta org u)\<lparr>um_LockInfo := Some l, um_Locked := True\<rparr>), r'))"

definition repo_Download :: "'b state_ops \<Rightarrow> string \<Rightarrow> (bytes, 'b repo) store_op" where
  "repo_Download ops uuid =
     with_unit errMsgUnitNotFound uuid (\<lambda>u org path. on_blob (so_Download ops path))"

definition repo_GetLock :: "string \<Rightarrow> (lock_info option, 'b repo) store_op" where
  "repo_GetLock uuid =
     op_bind (find_unit errMsgUnitNotFound uuid) (\<lambda>u.
       op_return
         (if \<not> un_Locked u then None
          else Some \<lparr>li_ID = un_LockID u, li_Who = un_LockWho u, li_Version = [],
            li_Created = (case un_LockCreated u of None \<Rightarrow> 0 | Some c \<Rightarrow> c)\<rparr>))"

definition repo_Upload :: "'b state_ops \<Rightarrow> nat \<Rightarrow> string \<Rightarrow> bytes \<Rightarrow> string \<Rightarrow> (unit, 'b repo) store_op" where
  "repo_Upload ops now uuid data lockID =
     with_unit errMsgUnitNotFound uuid (\<lambda>u org path.
     op_bind (on_blob (so_Upload ops now path data lockID)) (\<lambda>_.
       update_unit ''failed to update unit metadata: '' u now (un_Size_update (\<lambda>_. length data))))"

definition repo_Lock :: "'b state_ops \<Rightarrow> string \<Rightarrow> lock_info \<Rightarrow> (unit, 'b repo) store_op" where
  "repo_Lock ops uuid lockInfo =
     with_unit errMsgUnitNotFound uuid (\<lambda>u org path.
     op_bind (on_blob (so_Lock ops path lockInfo)) (\<lambda>_ r.
       update_unit ''failed to update lock in database: '' u (rp_now r)
         (\<lambda>v. v\<lparr>un_Locked := True, un_LockID := li_ID lockInfo, un_LockWho := li_Who lockInfo,
            un_LockCreated := Some (li_Created lockInfo)\<rparr>) r))"

definition repo_Unlock :: "'b state_ops \<Rightarrow> string \<Rightarrow> string \<Rightarrow> (unit, 'b repo) store_op" where
  "repo_Unlock ops uuid lockID =
     with_unit errMsgUnitNotFound uuid (\<lambda>u org path.
     op_bind (on_blob (so_Unlock ops path lockID)) (\<lambda>_ r.
       update_unit ''failed to update unlock in database: '' u (rp_now r)
         (\<lambda>v. v\<lparr>un_Locked := False, un_LockID := [], un_LockWho := [], un_LockCreated := None\<rparr>) r))"

definition repo_ops :: "'b state_ops \<Rightarrow> 'b repo state_ops" where
  "repo_ops ops =
     \<lparr>so_Get = repo_Get ops, so_Download = repo_Download ops, so_GetLock = repo_GetLock,
      so_Upload = repo_Upload ops, so_Lock = repo_Lock ops, so_Unlock = repo_Unlock ops\<rparr>"

section \<open>Management\<close>

definition unique_violation :: "string \<Rightarrow> bool" where
  "unique_violation msg \<longleftrightarrow>
     list_ex (\<lambda>s. str_contains msg s)
       [''duplicate'', ''unique constraint'', ''UNIQUE constraint'', ''idx_units_org_name'']"

definition insert_unit :: "unit_row \<Rightarrow> unit_tables \<Rightarrow> (store_error + unit) \<times> unit_tables" where
  "insert_unit u t =
     (if \<exists>v \<in> set (ut_units t). un_ID v = un_ID u \<or> (un_OrgID v = un_OrgID u \<and> un_Name v = un_Name u)
      then (Inl ErrAlreadyExists, t) else (Inr (), t\<lparr>ut_units := ut_units t @ [u]\<rparr>))"

definition repo_Create :: "repo_env \<Rightarrow> string \<Rightarrow> string \<Rightarrow> (unit_metadata, 'b repo) store_op" where
  "repo_Create env orgID name =
     op_bind (find_org (OtherError (''organization not found: '' @ orgID)) orgID) (\<lambda>org.
     op_bind (repo_query ''failed to check existing unit: ''
       (\<lambda>t. (if \<exists>v \<in> set (ut_units t). un_OrgID v = orgID \<and> un_Name v = name
             then Inl ErrAlreadyExists else Inr (), t))) (\<lambda>_ r.
       (let u = \<lparr>un_ID = ue_uuid env (fdb_data (rp_db r)), un_OrgID = orgID, un_Name = name,
              un_Size = 0, un_UpdatedAt = rp_now r, un_Locked = False, un_LockID = [], un_LockWho = [],
              un_LockCreated = None, un_TFEAutoApply = None, un_TFETerraformVersion = None,
              un_TFEEngine = Some ''terraform'', un_TFEWorkingDirectory = None,
              un_TFEExecutionMode = None\<rparr>
        in case fdb_query (insert_unit u) (rp_db r) of
             (Ok (Inr _), d) \<Rightarrow>
               (Inr (unit_meta (or_Name org) u),
                r\<lparr>rp_db := d, rp_creating := rp_creating r @ [blob_path org u]\<rparr>)
           | (Ok (Inl e), d) \<Rightarrow> (Inl e, r\<lparr>rp_db := d\<rparr>)
           | (Err e, d) \<Rightarrow>
               (Inl (if unique_violation e then ErrAlreadyExists
                     else OtherError (''failed to create unit in database: '' @ e)), r\<lparr>rp_db := d\<rparr>)
           | (Panic m, d) \<Rightarrow> (Inl Panicked, r\<lparr>rp_db := d\<rparr>))))"

text \<open>The background task of \<open>Create\<close>; a failure is only logged.\<close>

definition create_blob :: "'b blob_store \<Rightarrow> 'b repo \<Rightarrow> 'b repo" where
  "create_blob bs r =
     (case rp_creating r of
        [] \<Rightarrow> r
      | p # ps \<Rightarrow> r\<lparr>rp_blob := snd (bs_Create bs (rp_now r) p (rp_blob r)), rp_creating := ps\<rparr>)"

definition repo_List :: "repo_env \<Rightarrow> string \<Rightarrow> string \<Rightarrow> (unit_metadata list, 'b repo) store_op" where
  "repo_List env orgID pre =
     op_bind (repo_query ''failed to list units: ''
       (\<lambda>t. (Inr (filter (\<lambda>u. un_OrgID u = orgID \<and> (pre \<noteq> [] \<longrightarrow> ue_like env (un_Name u) (pre @ ''%'')))
          (ut_units t)), t))) (\<lambda>units.
     op_bind
       (if ue_org_name env \<noteq> [] then op_return (ue_org_name env)
        else op_bind (find_org (OtherError (errMsgOrgNotFound @ ''record not found'')) orgID)
          (\<lambda>org. op_return (or_Name org))) (\<lambda>orgName.
       op_return (map (unit_meta orgName) units)))"

definition repo_Delete :: "'b blob_store \<Rightarrow> string \<Rightarrow> (unit, 'b repo) store_op" where
  "repo_Delete bs uuid =
     with_unit errMsgUnitNotFound uuid (\<lambda>u org path r.
       case on_blob (bs_Delete bs path) r of
         (x, r') \<Rightarrow>
           (case x of
              Inl e \<Rightarrow>
                if e = ErrNotFound then
                  repo_query ''failed to delete unit from database: ''
                    (\<lambda>t. (Inr (), t\<lparr>ut_units := filter (\<lambda>v. un_ID v \<noteq> un_ID u) (ut_units t)\<rparr>)) r'
                else (Inl (WrappedError e ''failed to delete blob: ''), r')
            | Inr _ \<Rightarrow>
                repo_query ''failed to delete unit from database: ''
                  (\<lambda>t. (Inr (), t\<lparr>ut_units := filter (\<lambda>v. un_ID v \<noteq> un_ID u) (ut_units t)\<rparr>)) r'))"

definition repo_ListVersions :: "'b blob_store \<Rightarrow> string \<Rightarrow> (version_info list, 'b repo) store_op" where
  "repo_ListVersions bs uuid =
     with_unit errMsgUnitNotFound uuid (\<lambda>u org path. on_blob (bs_ListVersions bs path))"

definition repo_RestoreVersion ::
  "'b blob_store \<Rightarrow> nat \<Rightarrow> string \<Rightarrow> nat \<Rightarrow> string \<Rightarrow> (unit, 'b repo) store_op" where
  "repo_RestoreVersion bs now uuid versionTimestamp lockID =
     with_unit errMsgUnitNotFound uuid (\<lambda>u org path.
       on_blob (bs_RestoreVersion bs now path versionTimestamp lockID))"

definition unit_repo :: "repo_env \<Rightarrow> 'b blob_store \<Rightarrow> 'b repo unit_repository" where
  "unit_repo env bs =
     \<lparr>ur_state = repo_ops (bs_state bs), ur_Create = repo_Create env, ur_List = repo_List env,
      ur_Delete = repo_Delete bs, ur_ListVersions = repo_ListVersions bs,
      ur_RestoreVersion = repo_RestoreVersion bs\<rparr>"

end
