(* ===== verification/MemStore.thy ===== *)
theory MemStore
  imports UnitStore
begin

text \<open>
  The store in memory (\<open>taco/internal/storage/memstore.go\<close>): a map of units, each with its
  metadata, content and archived versions.  The read-write mutex makes every operation atomic, so
  an operation is a function on the map.  SHA-256, of which a version keeps eight digits, and the
  variable that bounds the number of versions are parameters (\<open>mem_env\<close>).
\<close>

section \<open>State and operations\<close>

record version_data =
  vd_timestamp :: nat
  vd_hash :: string
  vd_content :: bytes

record unit_data =
  ud_metadata :: unit_metadata
  ud_content :: bytes
  ud_versions :: "version_data list"

type_synonym mem_store = "(string \<times> unit_data) list"

record mem_env =
  me_hash8 :: "bytes \<Rightarrow> string"
  me_max_versions_var :: string

definition new_metadata :: "nat \<Rightarrow> string \<Rightarrow> unit_metadata" where
  "new_metadata now i = zero_metadata\<lparr>um_ID := i, um_Updated := now\<rparr>"

definition mem_Create :: "nat \<Rightarrow> string \<Rightarrow> (unit_metadata, mem_store) store_op" where
  "mem_Create now i m =
     (case map_of m i of
        Some _ \<Rightarrow> (Inl ErrAlreadyExists, m)
      | None \<Rightarrow>
          (let metadata = new_metadata now i
           in (Inr metadata,
               AList.update i \<lparr>ud_metadata = metadata, ud_content = [], ud_versions = []\<rparr> m)))"

text \<open>The copy that is returned carries five of the fields.\<close>

definition metadata_copy :: "unit_metadata \<Rightarrow> unit_metadata" where
  "metadata_copy md =
     zero_metadata\<lparr>um_ID := um_ID md, um_Size := um_Size md, um_Updated := um_Updated md,
       um_Locked := um_Locked md, um_LockInfo := um_LockInfo md\<rparr>"

definition mem_Get :: "string \<Rightarrow> (unit_metadata, mem_store) store_op" where
  "mem_Get i m =
     (case map_of m i of
        None \<Rightarrow> (Inl ErrNotFound, m)
      | Some state \<Rightarrow> (Inr (metadata_copy (ud_metadata state)), m))"

definition mem_List :: "string \<Rightarrow> (unit_metadata list, mem_store) store_op" where
  "mem_List pre m =
     (Inr (map (\<lambda>(_, u). metadata_copy (ud_metadata u))
        (filter (\<lambda>(i, _). pre = [] \<or> has_prefix i pre) m)), m)"

definition mem_Delete :: "string \<Rightarrow> (unit, mem_store) store_op" where
  "mem_Delete i m =
     (case map_of m i of
        None \<Rightarrow> (Inl ErrNotFound, m)
      | Some _ \<Rightarrow> (Inr (), AList.delete i m))"

definition mem_Download :: "string \<Rightarrow> (bytes, mem_store) store_op" where
  "mem_Download i m =
     (case map_of m i of
        None \<Rightarrow> (Inl ErrNotFound, m)
      | Some state \<Rightarrow> (Inr (ud_content state), m))"

definition mem_DownloadBlob :: "string \<Rightarrow> (bytes, mem_store) store_op" where
  "mem_DownloadBlob = mem_Download"

definition mem_UploadBlob :: "nat \<Rightarrow> string \<Rightarrow> bytes \<Rightarrow> (unit, mem_store) store_op" where
  "mem_UploadBlob now key data m =
     (Inr (), AList.update key
        \<lparr>ud_metadata = (new_metadata now key)\<lparr>um_Size := length data\<rparr>, ud_content = data,
         ud_versions = []\<rparr> m)"

section \<open>Versions\<close>

text \<open>Versions sorted newest first.  \<open>sort.Slice\<close> leaves the order of equal timestamps open;
  here it is the order they were in.\<close>

definition newest_first :: "('a \<Rightarrow> nat) \<Rightarrow> 'a list \<Rightarrow> 'a list" where
  "newest_first t vs = sort_key (\<lambda>v. - int (t v)) vs"

definition getMaxVersions :: "string \<Rightarrow> nat" where
  "getMaxVersions maxStr =
     (if maxStr \<noteq> [] then
        (case atoi maxStr of None \<Rightarrow> 10 | Some n \<Rightarrow> if n > 0 then nat n else 10)
      else 10)"

definition cleanupOldVersions :: "nat \<Rightarrow> version_data list \<Rightarrow> version_data list" where
  "cleanupOldVersions maxVersions versions =
     (if length versions \<le> maxVersions then versions
      else take maxVersions (newest_first vd_timestamp versions))"

definition archive_current :: "mem_env \<Rightarrow> nat \<Rightarrow> unit_data \<Rightarrow> unit_data" where
  "archive_current env now state =
     (if 0 < um_Size (ud_metadata state) \<and> 0 < length (ud_content state) then
        state\<lparr>ud_versions := cleanupOldVersions (getMaxVersions (me_max_versions_var env))
          (ud_versions state @
           [\<lparr>vd_timestamp = now, vd_hash = me_hash8 env (ud_content state),
             vd_content = ud_content state\<rparr>])\<rparr>
      else state)"

definition set_content :: "nat \<Rightarrow> bytes \<Rightarrow> unit_data \<Rightarrow> unit_data" where
  "set_content now data state =
     state\<lparr>ud_content := data,
       ud_metadata := (ud_metadata state)\<lparr>um_Size := length data, um_Updated := now\<rparr>\<rparr>"

text \<open>The two checks of the lock that \<open>Upload\<close> and \<open>RestoreVersion\<close> share.\<close>

definition lock_refuses :: "string \<Rightarrow> unit_metadata \<Rightarrow> bool" where
  "lock_refuses lockID md \<longleftrightarrow>
     (lockID \<noteq> [] \<and> (case um_LockInfo md of None \<Rightarrow> False | Some l \<Rightarrow> li_ID l \<noteq> lockID)) \<or>
     (lockID = [] \<and> um_Locked md)"

definition mem_Upload :: "mem_env \<Rightarrow> nat \<Rightarrow> string \<Rightarrow> bytes \<Rightarrow> string \<Rightarrow> (unit, mem_store) store_op" where
  "mem_Upload env now i data lockID m =
     (let (state, m1) =
        (case map_of m i of
           Some state \<Rightarrow> (state, m)
         | None \<Rightarrow>
             (let new = \<lparr>ud_metadata = new_metadata now i, ud_content = [], ud_versions = []\<rparr>
              in (new, AList.update i new m)))
      in if lock_refuses lockID (ud_metadata state) then (Inl ErrLockConflict, m1)
         else (Inr (), AList.update i (set_content now data (archive_current env now state)) m1))"

definition mem_ListVersions :: "string \<Rightarrow> (version_info list, mem_store) store_op" where
  "mem_ListVersions i m =
     (case map_of m i of
        None \<Rightarrow> (Inl ErrNotFound, m)
      | Some state \<Rightarrow>
          (Inr (newest_first vi_Timestamp (map (\<lambda>v.
             \<lparr>vi_Timestamp = vd_timestamp v, vi_Hash = vd_hash v,
              vi_Size = length (vd_content v), vi_S3Key = []\<rparr>) (ud_versions state))), m))"

definition mem_RestoreVersion ::
  "mem_env \<Rightarrow> nat \<Rightarrow> string \<Rightarrow> nat \<Rightarrow> string \<Rightarrow> (unit, mem_store) store_op" where
  "mem_RestoreVersion env now i versionTimestamp lockID m =
     (case map_of m i of
        None \<Rightarrow> (Inl ErrNotFound, m)
      | Some state \<Rightarrow>
          if lock_refuses lockID (ud_metadata state) then (Inl ErrLockConflict, m)
          else
            (case find (\<lambda>v. vd_timestamp v = versionTimestamp) (ud_versions state) of
               None \<Rightarrow> (Inl (OtherError ''version not found for timestamp''), m)
             | Some targetVersion \<Rightarrow>
                 (Inr (), AList.update i
                    (set_content now (vd_content targetVersion) (archive_current env now state)) m)))"

section \<open>Locks\<close>

text \<open>The error of \<open>Lock\<close> wraps the conflict with the holder's name.  A unit that is locked
  without lock information is a nil dereference, which the invariant below rules out.\<close>

definition mem_Lock :: "string \<Rightarrow> lock_info \<Rightarrow> (unit, mem_store) store_op" where
  "mem_Lock i info m =
     (case map_of m i of
        None \<Rightarrow> (Inl ErrNotFound, m)
      | Some state \<Rightarrow>
          if um_Locked (ud_metadata state) then
            (case um_LockInfo (ud_metadata state) of
               None \<Rightarrow> (Inl Panicked, m)
             | Some l \<Rightarrow>
                 (Inl (WrappedError ErrLockConflict (''unit already locked by '' @ li_ID l)), m))
          else
            (Inr (), AList.update i
               (state\<lparr>ud_metadata := (ud_metadata state)\<lparr>um_Locked := True, um_LockInfo := Some info\<rparr>\<rparr>)
               m))"

definition mem_Unlock :: "string \<Rightarrow> string \<Rightarrow> (unit, mem_store) store_op" where
  "mem_Unlock i lockID m =
     (case map_of m i of
        None \<Rightarrow> (Inl ErrNotFound, m)
      | Some state \<Rightarrow>
          if \<not> um_Locked (ud_metadata state) then (Inl (OtherError ''unit is not locked''), m)
          else
            (case um_LockInfo (ud_metadata state) of
               None \<Rightarrow> (Inl Panicked, m)
             | Some l \<Rightarrow>
                 if li_ID l \<noteq> lockID then (Inl ErrLockConflict, m)
                 else
                   (Inr (), AList.update i
                      (state\<lparr>ud_metadata :=
                         (ud_metadata state)\<lparr>um_Locked := False, um_LockInfo := None\<rparr>\<rparr>) m)))"

definition mem_GetLock :: "string \<Rightarrow> (lock_info option, mem_store) store_op" where
  "mem_GetLock i m =
     (case map_of m i of
        None \<Rightarrow> (Inl ErrNotFound, m)
      | Some state \<Rightarrow>
          (Inr (if um_Locked (ud_metadata state) then um_LockInfo (ud_metadata state) else None), m))"

definition mem_ops :: "mem_env \<Rightarrow> mem_store state_ops" where
  "mem_ops env =
     \<lparr>so_Get = mem_Get, so_Download = mem_Download, so_GetLock = mem_GetLock,
      so_Upload = mem_Upload env, so_Lock = mem_Lock, so_Unlock = mem_Unlock\<rparr>"

section \<open>Invariant\<close>

definition unit_inv :: "nat \<Rightarrow> string \<Rightarrow> unit_data \<Rightarrow> bool" where
  "unit_inv maxVersions i u \<longleftrightarrow>
     um_ID (ud_metadata u) = i \<and> um_Size (ud_metadata u) = length (ud_content u) \<and>
     (um_Locked (ud_metadata u) \<longleftrightarrow> um_LockInfo (ud_metadata u) \<noteq> None) \<and>
     length (ud_versions u) \<le> maxVersions"

definition mem_inv :: "mem_env \<Rightarrow> mem_store \<Rightarrow> bool" where
  "mem_inv env m \<longleftrightarrow>
     (\<forall>i u. map_of m i = Some u \<longrightarrow> unit_inv (getMaxVersions (me_max_versions_var env)) i u)"

definition mem_content :: "mem_store \<Rightarrow> string \<Rightarrow> bytes option" where
  "mem_content m i = map_option ud_content (map_of m i)"

definition mem_holder :: "mem_store \<Rightarrow> string \<Rightarrow> lock_info option" where
  "mem_holder m i = Option.bind (map_of m i) (\<lambda>u. um_LockInfo (ud_metadata u))"

lemma getMaxVersions_pos: "0 < getMaxVersions v"
  by (auto simp: getMaxVersions_def split: option.splits)

lemma length_cleanup: "length (cleanupOldVersions n vs) \<le> n"
  by (simp add: cleanupOldVersions_def)

lemma new_unit_inv: "unit_inv n i \<lparr>ud_metadata = new_metadata now i, ud_content = [], ud_versions = []\<rparr>"
  by (simp add: unit_inv_def new_metadata_def zero_metadata_def)

lemma archive_current_sel [simp]:
  "ud_metadata (archive_current env now u) = ud_metadata u"
  "ud_content (archive_current env now u) = ud_content u"
  by (simp_all add: archive_current_def)

lemma archive_current_inv:
  "unit_inv (getMaxVersions (me_max_versions_var env)) i u \<Longrightarrow>
   unit_inv (getMaxVersions (me_max_versions_var env)) i (archive_current env now u)"
  by (simp add: unit_inv_def archive_current_def length_cleanup)

lemma set_content_sel [simp]:
  "ud_content (set_content now d u) = d" "ud_versions (set_content now d u) = ud_versions u"
  "um_LockInfo (ud_metadata (set_content now d u)) = um_LockInfo (ud_metadata u)"
  "um_Locked (ud_metadata (set_content now d u)) = um_Locked (ud_metadata u)"
  by (simp_all add: set_content_def)

lemma set_content_inv: "unit_inv n i u \<Longrightarrow> unit_inv n i (set_content now d u)"
  by (simp add: unit_inv_def set_content_def)

lemma mem_inv_update:
  "mem_inv env m \<Longrightarrow> unit_inv (getMaxVersions (me_max_versions_var env)) i u \<Longrightarrow>
   mem_inv env (AList.update i u m)"
  by (simp add: mem_inv_def)

lemma mem_inv_delete: "mem_inv env m \<Longrightarrow> mem_inv env (AList.delete i m)"
  by (simp add: mem_inv_def)

lemma mem_invD:
  "mem_inv env m \<Longrightarrow> map_of m i = Some u \<Longrightarrow>
   unit_inv (getMaxVersions (me_max_versions_var env)) i u"
  by (simp add: mem_inv_def)

text \<open>The unit an upload works on, found or made, and the store with it.\<close>

definition upload_unit :: "nat \<Rightarrow> string \<Rightarrow> mem_store \<Rightarrow> unit_data" where
  "upload_unit now i m =
     (case map_of m i of
        Some u \<Rightarrow> u
      | None \<Rightarrow> \<lparr>ud_metadata = new_metadata now i, ud_content = [], ud_versions = []\<rparr>)"

lemma mem_Upload_eq:
  "mem_Upload env now i data lockID m =
     (if lock_refuses lockID (ud_metadata (upload_unit now i m)) then (Inl ErrLockConflict, m)
      else (Inr (), AList.update i
              (set_content now data (archive_current env now (upload_unit now i m))) m))"
proof (cases "map_of m i")
  case None
  then have "\<not> lock_refuses lockID (ud_metadata (upload_unit now i m))"
    by (simp add: upload_unit_def lock_refuses_def new_metadata_def zero_metadata_def)
  moreover have "AList.update i v (AList.update i u m) = AList.update i v m" for u v
    by (induction m) auto
  ultimately show ?thesis
    using None by (simp add: mem_Upload_def upload_unit_def Let_def)
qed (simp add: mem_Upload_def upload_unit_def)

lemma upload_unit_inv:
  "mem_inv env m \<Longrightarrow>
   unit_inv (getMaxVersions (me_max_versions_var env)) i (upload_unit now i m)"
  by (auto simp: upload_unit_def new_unit_inv dest: mem_invD split: option.splits)

lemma lock_refuses_iff:
  "um_Locked md = (um_LockInfo md \<noteq> None) \<Longrightarrow>
   lock_refuses lockID md = (\<exists>l. um_LockInfo md = Some l \<and> (lockID = [] \<or> li_ID l \<noteq> lockID))"
  by (cases "um_LockInfo md") (auto simp: lock_refuses_def)

end
