(* ===== verification/MemStoreProps.thy ===== *)
theory MemStoreProps
  imports MemStore
begin

text \<open>
  What the store in memory guarantees: it satisfies the contract of the handlers' interface, its
  invariant holds after any operations, the versions it keeps are the latest contents, and a
  version that is kept can be restored.
\<close>

section \<open>The contract\<close>

lemma mem_content_update [simp]:
  "mem_content (AList.update i u m) = (mem_content m)(i \<mapsto> ud_content u)"
  by (rule ext) (simp add: mem_content_def)

lemma mem_holder_update [simp]:
  "mem_holder (AList.update i u m) = (mem_holder m)(i := um_LockInfo (ud_metadata u))"
  by (rule ext) (simp add: mem_holder_def)

lemma mem_contentD: "map_of m i = Some u \<Longrightarrow> mem_content m i = Some (ud_content u)"
  by (simp add: mem_content_def)

lemma mem_holderD: "map_of m i = Some u \<Longrightarrow> mem_holder m i = um_LockInfo (ud_metadata u)"
  by (simp add: mem_holder_def)

lemma mem_absent: "map_of m i = None \<Longrightarrow> mem_content m i = None \<and> mem_holder m i = None"
  by (simp add: mem_content_def mem_holder_def)

lemma upload_unit_holder [simp]:
  "um_LockInfo (ud_metadata (upload_unit now i m)) = mem_holder m i"
  by (simp add: upload_unit_def mem_holder_def new_metadata_def zero_metadata_def
      split: option.splits)

lemma upload_refused:
  assumes "mem_inv env m"
  shows "lock_refuses lockID (ud_metadata (upload_unit now i m)) \<longleftrightarrow>
    (\<exists>l. mem_holder m i = Some l \<and> (lockID = [] \<or> li_ID l \<noteq> lockID))"
  using upload_unit_inv [OF assms, of i now] by (simp add: unit_inv_def lock_refuses_iff)

lemma mem_Upload_inv:
  "mem_inv env m \<Longrightarrow> mem_Upload env now i data lockID m = (x, m') \<Longrightarrow> mem_inv env m'"
  by (auto simp: mem_Upload_eq split: if_splits
      intro!: mem_inv_update set_content_inv archive_current_inv upload_unit_inv)

lemma mem_Lock_inv: "mem_inv env m \<Longrightarrow> mem_Lock i info m = (x, m') \<Longrightarrow> mem_inv env m'"
  by (auto simp: mem_Lock_def unit_inv_def dest!: mem_invD split: option.splits if_splits
      intro!: mem_inv_update)

lemma mem_Unlock_inv: "mem_inv env m \<Longrightarrow> mem_Unlock i lockID m = (x, m') \<Longrightarrow> mem_inv env m'"
  by (auto simp: mem_Unlock_def unit_inv_def dest!: mem_invD split: option.splits if_splits
      intro!: mem_inv_update)

interpretation mem: state_store "mem_ops env" "\<lambda>i. i" mem_content mem_holder "mem_inv env"
proof (unfold_locales, unfold mem_ops_def state_ops.simps)
  fix i and s s' :: mem_store
  show "mem_inv env s' \<and> mem_content s' = mem_content s \<and> mem_holder s' = mem_holder s \<and>
      (\<forall>m. x = Inr m \<longrightarrow> mem_content s i \<noteq> None \<and> um_LockInfo m = mem_holder s i) \<and>
      (x = Inl ErrNotFound \<longrightarrow> mem_content s i = None)"
    if "mem_inv env s" and "mem_Get i s = (x, s')" for x
    using that by (cases "map_of s i")
      (auto simp: mem_Get_def metadata_copy_def mem_content_def mem_holder_def)
  show "mem_inv env s' \<and> mem_content s' = mem_content s \<and> mem_holder s' = mem_holder s \<and>
      (\<forall>d. y = Inr d \<longrightarrow> mem_content s i = Some d) \<and>
      (y = Inl ErrNotFound \<longrightarrow> mem_content s i = None)"
    if "mem_inv env s" and "mem_Download i s = (y, s')" for y
    using that by (cases "map_of s i") (auto simp: mem_Download_def mem_content_def)
  show "mem_inv env s' \<and> mem_content s' = mem_content s \<and> mem_holder s' = mem_holder s \<and>
      (\<forall>l. z = Inr l \<longrightarrow> mem_holder s i = l)"
    if "mem_inv env s" and "mem_GetLock i s = (z, s')" for z
    using that by (cases "map_of s i")
      (auto simp: mem_GetLock_def mem_holder_def unit_inv_def dest: mem_invD)
next
  fix now i data lockID u and s s' :: mem_store
  assume inv: "mem_inv env s" and up: "mem_Upload env now i data lockID s = (u, s')"
  note ref = upload_refused [OF inv, of lockID now i]
  show "mem_inv env s' \<and> mem_holder s' = mem_holder s \<and>
      (mem_content s' = mem_content s \<or>
       mem_content s' = (mem_content s)(i \<mapsto> data) \<and>
       (\<forall>l. mem_holder s i = Some l \<longrightarrow> li_ID l = lockID)) \<and>
      (u = Inr () \<longrightarrow> mem_content s' i = Some data)"
  proof (cases "lock_refuses lockID (ud_metadata (upload_unit now i s))")
    case True
    with up inv show ?thesis by (auto simp: mem_Upload_eq)
  next
    case False
    with up have s': "u = Inr ()"
        "s' = AList.update i (set_content now data (archive_current env now (upload_unit now i s))) s"
      by (simp_all add: mem_Upload_eq)
    from False ref have "\<forall>l. mem_holder s i = Some l \<longrightarrow> li_ID l = lockID" by auto
    with s' mem_Upload_inv [OF inv up] show ?thesis by (simp add: fun_upd_idem)
  qed
next
  fix i info u and s s' :: mem_store
  assume inv: "mem_inv env s" and lk: "mem_Lock i info s = (u, s')"
  show "mem_inv env s' \<and> mem_content s' = mem_content s \<and>
      (u = Inr () \<longrightarrow> mem_content s i \<noteq> None \<and> mem_holder s i = None \<and>
         mem_holder s' = (mem_holder s)(i \<mapsto> info)) \<and>
      (u \<noteq> Inr () \<longrightarrow> mem_holder s' = mem_holder s)"
  proof (cases "map_of s i")
    case None
    with inv lk show ?thesis by (auto simp: mem_Lock_def)
  next
    case (Some a)
    from mem_invD [OF inv Some] have a: "um_Locked (ud_metadata a) = (um_LockInfo (ud_metadata a) \<noteq> None)"
      by (simp add: unit_inv_def)
    have c: "(mem_content s)(i \<mapsto> ud_content a) = mem_content s"
      by (simp add: fun_upd_idem mem_contentD [OF Some])
    show ?thesis
      using lk mem_Lock_inv [OF inv lk] a
      by (cases "um_LockInfo (ud_metadata a)")
        (auto simp: mem_Lock_def Some c mem_contentD [OF Some] mem_holderD [OF Some])
  qed
next
  fix i lockID u and s s' :: mem_store
  assume inv: "mem_inv env s" and ul: "mem_Unlock i lockID s = (u, s')"
  show "mem_inv env s' \<and> mem_content s' = mem_content s \<and>
      (u = Inr () \<longrightarrow> (\<exists>l. mem_holder s i = Some l \<and> li_ID l = lockID) \<and>
         mem_holder s' = (mem_holder s)(i := None)) \<and>
      (u \<noteq> Inr () \<longrightarrow> mem_holder s' = mem_holder s)"
  proof (cases "map_of s i")
    case None
    with inv ul show ?thesis by (auto simp: mem_Unlock_def)
  next
    case (Some a)
    from mem_invD [OF inv Some] have a: "um_Locked (ud_metadata a) = (um_LockInfo (ud_metadata a) \<noteq> None)"
      by (simp add: unit_inv_def)
    have c: "(mem_content s)(i \<mapsto> ud_content a) = mem_content s"
      by (simp add: fun_upd_idem mem_contentD [OF Some])
    show ?thesis
      using ul mem_Unlock_inv [OF inv ul] a
      by (cases "um_LockInfo (ud_metadata a)")
        (auto simp: mem_Unlock_def Some c mem_contentD [OF Some] mem_holderD [OF Some] split: if_splits)
  qed
qed

section \<open>All operations\<close>

datatype mem_call =
    CCreate nat string | CGet string | CList string | CDelete string | CDownload string
  | CUpload nat string bytes string | CUploadBlob nat string bytes | CLock string lock_info
  | CUnlock string string | CGetLock string | CListVersions string
  | CRestoreVersion nat string nat string

definition mem_call :: "mem_env \<Rightarrow> mem_call \<Rightarrow> mem_store \<Rightarrow> mem_store" where
  "mem_call env c m =
     (case c of
        CCreate now i \<Rightarrow> snd (mem_Create now i m)
      | CGet i \<Rightarrow> snd (mem_Get i m)
      | CList p \<Rightarrow> snd (mem_List p m)
      | CDelete i \<Rightarrow> snd (mem_Delete i m)
      | CDownload i \<Rightarrow> snd (mem_Download i m)
      | CUpload now i d l \<Rightarrow> snd (mem_Upload env now i d l m)
      | CUploadBlob now i d \<Rightarrow> snd (mem_UploadBlob now i d m)
      | CLock i l \<Rightarrow> snd (mem_Lock i l m)
      | CUnlock i l \<Rightarrow> snd (mem_Unlock i l m)
      | CGetLock i \<Rightarrow> snd (mem_GetLock i m)
      | CListVersions i \<Rightarrow> snd (mem_ListVersions i m)
      | CRestoreVersion now i t l \<Rightarrow> snd (mem_RestoreVersion env now i t l m))"

lemma mem_call_inv: "mem_inv env m \<Longrightarrow> mem_inv env (mem_call env c m)"
proof (cases c)
  case (CUpload now i d l)
  assume "mem_inv env m"
  then show ?thesis
    using CUpload mem_Upload_inv [of env m now i d l] by (simp add: mem_call_def prod_eq_iff)
next
  case (CLock i l)
  assume "mem_inv env m"
  then show ?thesis using CLock mem_Lock_inv [of env m i l] by (simp add: mem_call_def prod_eq_iff)
next
  case (CUnlock i l)
  assume "mem_inv env m"
  then show ?thesis using CUnlock mem_Unlock_inv [of env m i l] by (simp add: mem_call_def prod_eq_iff)
next
  case (CRestoreVersion now i t l)
  assume "mem_inv env m"
  then show ?thesis
    using CRestoreVersion
    by (auto simp: mem_call_def mem_RestoreVersion_def dest: mem_invD split: option.splits
        intro!: mem_inv_update set_content_inv archive_current_inv)
qed (auto simp: mem_call_def mem_Create_def mem_Get_def mem_List_def mem_Delete_def mem_Download_def
    mem_UploadBlob_def mem_GetLock_def mem_ListVersions_def new_unit_inv Let_def
    unit_inv_def [of _ _ "unit_data.make _ _ _"] new_metadata_def zero_metadata_def unit_inv_def
    split: option.splits intro!: mem_inv_update mem_inv_delete)

lemma mem_calls_inv: "mem_inv env m \<Longrightarrow> mem_inv env (fold (mem_call env) cs m)"
  by (induction cs arbitrary: m) (simp_all add: mem_call_inv)


section \<open>Versions\<close>

lemma set_newest_first [simp]: "set (newest_first t vs) = set vs"
  by (simp add: newest_first_def)

lemma length_newest_first [simp]: "length (newest_first t vs) = length vs"
  by (simp add: newest_first_def)

lemma newest_first_snoc:
  "\<forall>v \<in> set vs. t v < t x \<Longrightarrow> newest_first t (vs @ [x]) = x # newest_first t vs"
  by (induction vs) (auto simp: newest_first_def)

lemma newest_first_take:
  "newest_first t (take n (newest_first t vs)) = take n (newest_first t vs)"
proof -
  have "sorted (map (\<lambda>v. - int (t v)) (take n (sort_key (\<lambda>v. - int (t v)) vs)))"
    by (simp add: sorted_wrt_take flip: take_map)
  then show ?thesis
    unfolding newest_first_def by (rule sort_key_id_if_sorted)
qed

lemma cleanup_snoc:
  assumes "\<forall>v \<in> set vs. vd_timestamp v < vd_timestamp x"
    and "newest_first vd_timestamp vs = take n (rev h)" and "length vs \<le> n"
  shows "newest_first vd_timestamp (cleanupOldVersions n (vs @ [x])) = take n (rev (h @ [x]))"
proof (cases "length (vs @ [x]) \<le> n")
  case True
  have "length (take n (rev h)) = length vs"
    using assms(2) length_newest_first [of vd_timestamp vs] by simp
  with True have "length h \<le> n - 1" by simp
  with True assms show ?thesis
    by (cases n) (simp_all add: cleanupOldVersions_def newest_first_snoc)
next
  case False
  then have "newest_first vd_timestamp (cleanupOldVersions n (vs @ [x])) =
      take n (newest_first vd_timestamp (vs @ [x]))"
    by (simp add: cleanupOldVersions_def newest_first_take)
  also have "\<dots> = take n (x # take n (rev h))"
    by (simp add: newest_first_snoc assms)
  finally show ?thesis by (cases n) simp_all
qed

lemma newest_first_map:
  "newest_first g (map f vs) = map f (newest_first (g \<circ> f) vs)"
proof (induction vs)
  case (Cons v vs)
  have "insort_key (\<lambda>v. - int (g v)) (f a) (map f xs) =
      map f (insort_key (\<lambda>v. - int ((g \<circ> f) v)) a xs)" for a xs
    by (induction xs) auto
  with Cons show ?case by (simp add: newest_first_def)
qed (simp add: newest_first_def)

lemma newest_first_subset:
  assumes "newest_first t vs = take n (rev h)"
  shows "set vs \<subseteq> set h"
proof -
  have "set vs = set (take n (rev h))" by (simp flip: assms)
  also have "\<dots> \<subseteq> set h" using set_take_subset [of n "rev h"] by simp
  finally show ?thesis .
qed

text \<open>The version an upload at time \<open>t\<close> archives, and all that a series of uploads does.\<close>

definition version_at :: "mem_env \<Rightarrow> nat \<Rightarrow> bytes \<Rightarrow> version_data" where
  "version_at env t d = \<lparr>vd_timestamp = t, vd_hash = me_hash8 env d, vd_content = d\<rparr>"

definition uploads_history :: "mem_env \<Rightarrow> (nat \<times> bytes) list \<Rightarrow> version_data list" where
  "uploads_history env ups = map2 (\<lambda>t d. version_at env t d) (tl (map fst ups)) (butlast (map snd ups))"

definition run_uploads :: "mem_env \<Rightarrow> string \<Rightarrow> (nat \<times> bytes) list \<Rightarrow> mem_store \<Rightarrow> mem_store" where
  "run_uploads env i ups m = foldl (\<lambda>m (t, d). snd (mem_Upload env t i d [] m)) m ups"

abbreviation max_versions :: "mem_env \<Rightarrow> nat" where
  "max_versions env \<equiv> getMaxVersions (me_max_versions_var env)"

lemma zip_snoc_tl: "xs \<noteq> [] \<Longrightarrow> length xs = length ys \<Longrightarrow>
  zip (tl (xs @ [x])) (butlast (ys @ [y])) = zip (tl xs) (butlast ys) @ [(x, last ys)]"
  by (cases xs; cases ys rule: rev_cases) (simp_all add: butlast_append)

lemma uploads_history_snoc:
  "ups \<noteq> [] \<Longrightarrow> uploads_history env (ups @ [(t, d)]) =
     uploads_history env ups @ [version_at env t (snd (last ups))]"
  using zip_snoc_tl [of "map fst ups" "map snd ups" t d]
  by (simp add: uploads_history_def last_map)

lemma uploads_history_times:
  "map vd_timestamp (uploads_history env ups) = tl (map fst ups)"
  by (rule nth_equalityI) (auto simp: uploads_history_def version_at_def nth_tl)

lemma uploads_history_nth:
  "Suc j < length ups \<Longrightarrow>
   uploads_history env ups ! j = version_at env (fst (ups ! Suc j)) (snd (ups ! j))"
  by (simp add: uploads_history_def nth_tl nth_butlast)

lemma length_uploads_history [simp]: "length (uploads_history env ups) = length ups - 1"
  by (simp add: uploads_history_def)

lemma run_uploads_state:
  assumes "map_of m i = None" and "sorted_wrt (<) (map fst ups)" and "\<forall>(t, d) \<in> set ups. d \<noteq> []"
    and "ups \<noteq> []"
  shows "\<exists>u. map_of (run_uploads env i ups m) i = Some u \<and> ud_content u = snd (last ups) \<and>
    um_Size (ud_metadata u) = length (snd (last ups)) \<and> um_LockInfo (ud_metadata u) = None \<and>
    \<not> um_Locked (ud_metadata u) \<and> length (ud_versions u) \<le> max_versions env \<and>
    newest_first vd_timestamp (ud_versions u) = take (max_versions env) (rev (uploads_history env ups))"
  using assms
proof (induction ups rule: rev_induct)
  case (snoc x ups)
  obtain t d where x: "x = (t, d)" by force
  have step: "run_uploads env i (ups @ [x]) m = snd (mem_Upload env t i d [] (run_uploads env i ups m))"
    by (simp add: run_uploads_def x)
  show ?case
  proof (cases "ups = []")
    case True
    with snoc.prems x show ?thesis
      by (simp add: step run_uploads_def mem_Upload_eq upload_unit_def lock_refuses_def
          archive_current_def set_content_def new_metadata_def zero_metadata_def
          uploads_history_def newest_first_def)
  next
    case False
    with snoc obtain u where u: "map_of (run_uploads env i ups m) i = Some u"
        "ud_content u = snd (last ups)" "um_Size (ud_metadata u) = length (snd (last ups))"
        "um_LockInfo (ud_metadata u) = None" "\<not> um_Locked (ud_metadata u)"
        "length (ud_versions u) \<le> max_versions env"
        "newest_first vd_timestamp (ud_versions u) =
           take (max_versions env) (rev (uploads_history env ups))"
      by (auto simp: sorted_wrt_append)
    have ne: "snd (last ups) \<noteq> []"
      using snoc.prems(3) last_in_set [OF False] by (cases "last ups") (auto split: prod.splits)
    have "\<forall>v \<in> set (ud_versions u). vd_timestamp v < t"
    proof
      fix v assume "v \<in> set (ud_versions u)"
      with newest_first_subset [OF u(7)] have "v \<in> set (uploads_history env ups)" by blast
      then have "vd_timestamp v \<in> set (tl (map fst ups))"
        using uploads_history_times [of env ups] by (metis image_eqI set_map)
      then have "vd_timestamp v \<in> set (map fst ups)" by (cases ups) auto
      with snoc.prems(2) x show "vd_timestamp v < t" by (auto simp: sorted_wrt_append)
    qed
    then have kept: "newest_first vd_timestamp
        (cleanupOldVersions (max_versions env) (ud_versions u @ [version_at env t (snd (last ups))])) =
        take (max_versions env) (rev (uploads_history env ups @ [version_at env t (snd (last ups))]))"
      using u by (intro cleanup_snoc) (auto simp: version_at_def)
    let ?u = "set_content t d (archive_current env t u)"
    have run: "run_uploads env i (ups @ [x]) m = AList.update i ?u (run_uploads env i ups m)"
      by (simp add: step mem_Upload_eq upload_unit_def u lock_refuses_def)
    have vs: "ud_versions ?u =
        cleanupOldVersions (max_versions env) (ud_versions u @ [version_at env t (snd (last ups))])"
      using u(2,3) ne by (simp add: archive_current_def version_at_def)
    show ?thesis
    proof (intro exI conjI)
      show "map_of (run_uploads env i (ups @ [x]) m) i = Some ?u" by (simp add: run)
      show "ud_content ?u = snd (last (ups @ [x]))" by (simp add: x)
      show "um_Size (ud_metadata ?u) = length (snd (last (ups @ [x])))"
        by (simp add: x set_content_def)
      show "um_LockInfo (ud_metadata ?u) = None" by (simp add: u(4))
      show "\<not> um_Locked (ud_metadata ?u)" by (simp add: u(5))
      show "length (ud_versions ?u) \<le> max_versions env" unfolding vs by (rule length_cleanup)
      show "newest_first vd_timestamp (ud_versions ?u) =
          take (max_versions env) (rev (uploads_history env (ups @ [x])))"
        unfolding vs x uploads_history_snoc [OF False] by (rule kept)
    qed
  qed
qed simp

lemma find_unique:
  assumes "x \<in> set xs" and "P x" and "\<And>y. y \<in> set xs \<Longrightarrow> P y \<Longrightarrow> y = x"
  shows "find P xs = Some x"
proof -
  obtain y where y: "find P xs = Some y"
    using assms(1,2) by (cases "find P xs") (auto simp: find_None_iff)
  with find_SomeD [OF y] assms(3) show ?thesis by blast
qed

lemma uploads_history_distinct:
  assumes "sorted_wrt (<) (map fst ups)" and "v \<in> set (uploads_history env ups)"
    and "w \<in> set (uploads_history env ups)" and "vd_timestamp v = vd_timestamp w"
  shows "v = w"
proof -
  have "sorted_wrt (<) (tl (map fst ups))"
    using assms(1) by (cases ups) auto
  then have "distinct (map vd_timestamp (uploads_history env ups))"
    using strict_sorted_iff [of "tl (map fst ups)"] by (simp add: uploads_history_times)
  with assms show ?thesis by (simp add: distinct_map inj_on_def)
qed

section \<open>Properties\<close>

text \<open>Whatever operations run on the store in memory, from the empty store, every
  unit's size is the length of its content, it is locked exactly when it has lock information,
  and it keeps no more versions than the configured number.\<close>

theorem mem_store_invariant: "mem_inv env (fold (mem_call env) cs [])"
  by (rule mem_calls_inv) (simp add: mem_inv_def)

text \<open>Claim C22: after uploading a series of non-empty states to a new unit at increasing times, the
  unit holds the last one, and lists as its versions the contents before it, newest first, each
  with the time it was replaced, as far back as the configured number of versions.\<close>

theorem upload_history:
  assumes "map_of m i = None" and "sorted_wrt (<) (map fst ups)" and "\<forall>(t, d) \<in> set ups. d \<noteq> []"
    and "ups \<noteq> []"
  shows "fst (mem_Download i (run_uploads env i ups m)) = Inr (snd (last ups)) \<and>
    fst (mem_ListVersions i (run_uploads env i ups m)) =
      Inr (take (max_versions env) (rev (map2 (\<lambda>t d.
        \<lparr>vi_Timestamp = t, vi_Hash = me_hash8 env d, vi_Size = length d, vi_S3Key = []\<rparr>)
        (tl (map fst ups)) (butlast (map snd ups)))))"
proof -
  obtain u where u: "map_of (run_uploads env i ups m) i = Some u" "ud_content u = snd (last ups)"
      "newest_first vd_timestamp (ud_versions u) =
         take (max_versions env) (rev (uploads_history env ups))"
    using run_uploads_state [OF assms, of env] by (elim exE conjE)
  show ?thesis
    by (simp add: mem_Download_def mem_ListVersions_def u newest_first_map comp_def
        uploads_history_def version_at_def case_prod_unfold flip: take_map rev_map)
qed

text \<open>Restoring any version that is still kept brings its content back.\<close>

theorem restore_kept_version:
  assumes "map_of m i = None" and "sorted_wrt (<) (map fst ups)" and "\<forall>(t, d) \<in> set ups. d \<noteq> []"
    and "Suc j < length ups" and "length ups \<le> Suc j + max_versions env"
  shows "fst (mem_RestoreVersion env now i (fst (ups ! Suc j)) [] (run_uploads env i ups m)) = Inr () \<and>
    fst (mem_Download i (snd (mem_RestoreVersion env now i (fst (ups ! Suc j)) []
      (run_uploads env i ups m)))) = Inr (snd (ups ! j))"
proof -
  have "ups \<noteq> []" using assms(4) by auto
  then obtain u where u: "map_of (run_uploads env i ups m) i = Some u"
      "um_LockInfo (ud_metadata u) = None" "\<not> um_Locked (ud_metadata u)"
      "newest_first vd_timestamp (ud_versions u) =
         take (max_versions env) (rev (uploads_history env ups))"
    using run_uploads_state [OF assms(1-3) \<open>ups \<noteq> []\<close>, of env] by (elim exE conjE)
  let ?h = "uploads_history env ups"
  let ?v = "version_at env (fst (ups ! Suc j)) (snd (ups ! j))"
  have vs: "set (ud_versions u) = set (take (max_versions env) (rev ?h))"
    using u(4) set_newest_first [of vd_timestamp "ud_versions u"] by simp
  have idx: "length ups - Suc (Suc (length ups - Suc (Suc j))) = j"
    using assms(4) by arith
  have "?v = take (max_versions env) (rev ?h) ! (length ?h - Suc j)"
    using assms(4,5) idx by (simp add: rev_nth uploads_history_nth)
  moreover have "length ?h - Suc j < length (take (max_versions env) (rev ?h))"
    using assms(4,5) by (auto simp: min_def)
  ultimately have v: "?v \<in> set (ud_versions u)"
    unfolding vs by (metis nth_mem)
  note sub = newest_first_subset [OF u(4)]
  have vt: "vd_timestamp ?v = fst (ups ! Suc j)" by (simp add: version_at_def)
  have "find (\<lambda>w. vd_timestamp w = fst (ups ! Suc j)) (ud_versions u) = Some ?v"
  proof (rule find_unique)
    show "?v \<in> set (ud_versions u)" by (rule v)
    show "vd_timestamp ?v = fst (ups ! Suc j)" by (rule vt)
    fix y assume "y \<in> set (ud_versions u)" and "vd_timestamp y = fst (ups ! Suc j)"
    with sub v vt show "y = ?v"
      by (intro uploads_history_distinct [OF assms(2), of y env]) auto
  qed
  with u show ?thesis
    by (simp add: mem_RestoreVersion_def lock_refuses_def mem_Download_def version_at_def)
qed

definition example_env :: mem_env where
  "example_env = \<lparr>me_hash8 = take 8, me_max_versions_var = ''2''\<rparr>"

definition example_uploads :: "(nat \<times> bytes) list" where
  "example_uploads = [(1, ''a''), (2, ''b''), (5, ''c''), (6, ''d'')]"

lemma example_uploads_ok:
  "sorted_wrt (<) (map fst example_uploads)" "\<forall>(t, d) \<in> set example_uploads. d \<noteq> []"
  "example_uploads \<noteq> []" "max_versions example_env = 2"
  by (simp add: example_uploads_def, simp add: example_uploads_def, simp add: example_uploads_def,
      code_simp)

theorem upload_history_witness:
  "fst (mem_ListVersions ''u'' (run_uploads example_env ''u'' example_uploads [])) =
     Inr [\<lparr>vi_Timestamp = 6, vi_Hash = ''c'', vi_Size = 1, vi_S3Key = []\<rparr>,
          \<lparr>vi_Timestamp = 5, vi_Hash = ''b'', vi_Size = 1, vi_S3Key = []\<rparr>]"
  using conjunct2 [OF upload_history [of "[]" "''u''" example_uploads example_env,
      OF _ example_uploads_ok(1-3)]]
  by (simp add: example_uploads_ok(4) eval_nat_numeral) (simp add: example_uploads_def example_env_def eval_nat_numeral)

theorem restore_kept_version_witness:
  "fst (mem_Download ''u'' (snd (mem_RestoreVersion example_env 9 ''u'' 5 []
     (run_uploads example_env ''u'' example_uploads [])))) = Inr ''b''"
  using conjunct2 [OF restore_kept_version [of "[]" "''u''" example_uploads 1 example_env 9,
      OF _ example_uploads_ok(1,2)]]
  by (simp add: example_uploads_ok(4)) (simp add: example_uploads_def)

end
