(* ===== verification/UnitRepoProps.thy ===== *)
theory UnitRepoProps
  imports UnitRepo MemStoreProps
begin

text \<open>
  The repository keeps the weaker contract of a store over any blob store that keeps it, whatever
  queries fail; its rows stay well-formed; and a failed update of the database after a lock hides
  the lock.
\<close>

section \<open>What the queries leave alone\<close>

definition repo_path :: "unit_tables \<Rightarrow> string \<Rightarrow> string option" where
  "repo_path t uuid =
     (case unit_by_id t uuid of
        None \<Rightarrow> None
      | Some u \<Rightarrow> map_option (\<lambda>org. blob_path org u) (org_by_id t (un_OrgID u)))"

abbreviation tables :: "'b repo \<Rightarrow> unit_tables" where
  "tables r \<equiv> fdb_data (rp_db r)"

definition same_repo :: "'b repo \<Rightarrow> 'b repo \<Rightarrow> bool" where
  "same_repo r r' \<longleftrightarrow> rp_blob r' = rp_blob r \<and> tables r' = tables r"

lemma repo_query_cases:
  "(\<exists>e r'. repo_query msg q r = (Inl (OtherError (msg @ e)), r') \<and> same_repo r r') \<or>
   (\<exists>r'. repo_query msg q r = (fst (q (tables r)), r') \<and> rp_blob r' = rp_blob r \<and>
      tables r' = snd (q (tables r)))"
  using fdb_query_cases [of q "rp_db r"]
  by (auto simp: repo_query_def same_repo_def)

lemma find_unit_cases:
  "(\<exists>e r'. find_unit msg uuid r = (Inl e, r') \<and> same_repo r r' \<and>
      (e = ErrNotFound \<longrightarrow> unit_by_id (tables r) uuid = None)) \<or>
   (\<exists>u r'. find_unit msg uuid r = (Inr u, r') \<and> same_repo r r' \<and>
      unit_by_id (tables r) uuid = Some u)"
  using repo_query_cases [of msg "\<lambda>t. (case unit_by_id t uuid of None \<Rightarrow> Inl ErrNotFound | Some u \<Rightarrow> Inr u, t)" r]
  by (auto simp: find_unit_def same_repo_def split: option.splits)

lemma find_org_cases:
  "(\<exists>e r'. find_org m i r = (Inl e, r') \<and> same_repo r r') \<or>
   (\<exists>g r'. find_org m i r = (Inr g, r') \<and> same_repo r r' \<and> org_by_id (tables r) i = Some g)"
  using repo_query_cases [of errMsgOrgNotFound "\<lambda>t. (case org_by_id t i of None \<Rightarrow> Inl m | Some g \<Rightarrow> Inr g, t)" r]
  by (auto simp: find_org_def same_repo_def split: option.splits)

lemma same_repo_trans: "same_repo r s \<Longrightarrow> same_repo s t \<Longrightarrow> same_repo r t"
  by (simp add: same_repo_def)

lemma with_unit_cases:
  assumes "with_unit msg uuid f r = (x, r')"
  obtains (stopped) e where "x = Inl e" "same_repo r r'"
  | (found) u org r1 where "same_repo r r1" "unit_by_id (tables r) uuid = Some u"
      "org_by_id (tables r) (un_OrgID u) = Some org"
      "repo_path (tables r) uuid = Some (blob_path org u)"
      "f u org (blob_path org u) r1 = (x, r')"
proof (cases "find_unit msg uuid r")
  case (Pair a r1)
  show thesis
  proof (cases a)
    case (Inl e)
    with assms Pair have "x = Inl e" "r' = r1" by (auto simp: with_unit_def op_bind_def)
    with Pair Inl find_unit_cases [of msg uuid r] stopped show thesis by auto
  next
    case (Inr u)
    with Pair find_unit_cases [of msg uuid r]
    have u: "same_repo r r1" "unit_by_id (tables r) uuid = Some u" by auto
    let ?m = "OtherError (errMsgOrgNotFound @ ''record not found'')"
    obtain b r2 where g: "find_org ?m (un_OrgID u) r1 = (b, r2)" by force
    show thesis
    proof (cases b)
      case (Inl e)
      with assms Pair Inr g have "x = Inl e" "r' = r2" by (auto simp: with_unit_def op_bind_def)
      with g Inl find_org_cases [of ?m "un_OrgID u" r1] u stopped show thesis
        by (auto intro: same_repo_trans)
    next
      case (Inr org)
      with g find_org_cases [of ?m "un_OrgID u" r1]
      have org: "same_repo r1 r2" "org_by_id (tables r1) (un_OrgID u) = Some org" by auto
      have "f u org (blob_path org u) r2 = (x, r')"
        using assms Pair \<open>a = Inr u\<close> g Inr by (simp add: with_unit_def op_bind_def)
      with u org found show thesis
        by (auto simp: repo_path_def same_repo_def)
    qed
  qed
qed

text \<open>Updates of a row keep what the paths are made of.\<close>

lemma find_map_same:
  "(\<And>v. P (g v) = P v) \<Longrightarrow> find P (map g xs) = map_option g (find P xs)"
  by (induction xs) auto

lemma update_path:
  assumes "\<And>v. un_ID (f v) = un_ID v" and "\<And>v. un_OrgID (f v) = un_OrgID v"
  shows "repo_path (t\<lparr>ut_units :=
    map (\<lambda>v. if un_ID v = i then (f v)\<lparr>un_UpdatedAt := now\<rparr> else v) (ut_units t)\<rparr>) = repo_path t"
proof
  fix uuid
  let ?g = "\<lambda>v. if un_ID v = i then (f v)\<lparr>un_UpdatedAt := now\<rparr> else v"
  have "find (\<lambda>u. un_ID u = uuid) (map ?g (ut_units t)) =
      map_option ?g (find (\<lambda>u. un_ID u = uuid) (ut_units t))"
    by (rule find_map_same) (simp add: assms)
  then show "repo_path (t\<lparr>ut_units := map ?g (ut_units t)\<rparr>) uuid = repo_path t uuid"
    by (cases "find (\<lambda>u. un_ID u = uuid) (ut_units t)")
      (auto simp: repo_path_def unit_by_id_def org_by_id_def blob_path_def assms)
qed

lemma update_unit_frame:
  assumes "\<And>v. un_ID (f v) = un_ID v" and "\<And>v. un_OrgID (f v) = un_OrgID v"
    and "update_unit msg u now f r = (x, r')"
  shows "rp_blob r' = rp_blob r \<and> repo_path (tables r') = repo_path (tables r) \<and>
    map un_ID (ut_units (tables r')) = map un_ID (ut_units (tables r))"
proof -
  have ids: "map un_ID (map (\<lambda>v. if un_ID v = un_ID u then (f v)\<lparr>un_UpdatedAt := now\<rparr> else v) us) =
      map un_ID us" for us by (simp add: assms)
  show ?thesis
    using repo_query_cases [of msg "\<lambda>t. (Inr (), t\<lparr>ut_units :=
       map (\<lambda>v. if un_ID v = un_ID u then (f v)\<lparr>un_UpdatedAt := now\<rparr> else v) (ut_units t)\<rparr>)" r]
      assms(3) update_path [of f, OF assms(1,2)] ids
    by (auto simp: update_unit_def same_repo_def simp del: map_map)
qed

section \<open>The contract\<close>

definition repo_content :: "('b \<Rightarrow> string \<Rightarrow> bytes option) \<Rightarrow> 'b repo \<Rightarrow> string \<Rightarrow> bytes option" where
  "repo_content bcontent r uuid = Option.bind (repo_path (tables r) uuid) (bcontent (rp_blob r))"

definition repo_holder :: "('b \<Rightarrow> string \<Rightarrow> lock_info option) \<Rightarrow> 'b repo \<Rightarrow> string \<Rightarrow> lock_info option" where
  "repo_holder bholder r uuid = Option.bind (repo_path (tables r) uuid) (bholder (rp_blob r))"

definition plain_ids :: "unit_tables \<Rightarrow> bool" where
  "plain_ids t \<longleftrightarrow> (\<forall>u \<in> set (ut_units t). CHR ''/'' \<notin> set (un_ID u))"

definition repo_inv :: "('b \<Rightarrow> bool) \<Rightarrow> 'b repo \<Rightarrow> bool" where
  "repo_inv binv r \<longleftrightarrow> binv (rp_blob r) \<and> plain_ids (tables r)"

lemma last_segment_unique:
  "a @ x # b = c @ x # d \<Longrightarrow> x \<notin> set b \<Longrightarrow> x \<notin> set d \<Longrightarrow> b = d"
proof (induction a arbitrary: c)
  case Nil
  then show ?case by (cases c) auto
next
  case (Cons y a)
  then show ?case by (cases c) auto
qed

lemma unit_by_id_Some: "unit_by_id t i = Some u \<Longrightarrow> u \<in> set (ut_units t) \<and> un_ID u = i"
  unfolding unit_by_id_def by (drule find_SomeD) simp

lemma repo_path_inj:
  assumes "plain_ids t" and "repo_path t i = Some p" and "repo_path t k = Some p"
  shows "i = k"
proof -
  from assms(2) obtain u g where u: "unit_by_id t i = Some u" "p = blob_path g u"
    by (auto simp: repo_path_def split: option.splits)
  from assms(3) obtain v h where v: "unit_by_id t k = Some v" "p = blob_path h v"
    by (auto simp: repo_path_def split: option.splits)
  from u v unit_by_id_Some assms(1) have "un_ID u = un_ID v"
    by (intro last_segment_unique [of "or_ID g" "CHR ''/''" "un_ID u" "or_ID h" "un_ID v"])
      (auto simp: blob_path_def plain_ids_def)
  with u v unit_by_id_Some show ?thesis by metis
qed

lemma plain_ids_cong:
  assumes "map un_ID (ut_units t) = map un_ID (ut_units t')"
  shows "plain_ids t = plain_ids t'"
proof -
  have e: "plain_ids t \<longleftrightarrow> (\<forall>i \<in> set (map un_ID (ut_units t)). CHR ''/'' \<notin> set i)" for t
    by (simp add: plain_ids_def)
  show ?thesis unfolding e assms ..
qed

text \<open>The parts of the frame: paths and identifiers stay, and the blob store is guarded at the path.\<close>

definition repo_step ::
  "('b \<Rightarrow> string \<Rightarrow> bytes option) \<Rightarrow> ('b \<Rightarrow> string \<Rightarrow> lock_info option) \<Rightarrow> ('b \<Rightarrow> bool) \<Rightarrow>
   string \<Rightarrow> string \<Rightarrow> 'b repo \<Rightarrow> 'b repo \<Rightarrow> bool" where
  "repo_step bcontent bholder binv p L r r' \<longleftrightarrow>
     repo_path (tables r') = repo_path (tables r) \<and>
     map un_ID (ut_units (tables r')) = map un_ID (ut_units (tables r)) \<and>
     binv (rp_blob r') \<and> guarded bcontent bholder p L (rp_blob r) (rp_blob r')"

lemma repo_step_same: "same_repo r r' \<Longrightarrow> binv (rp_blob r) \<Longrightarrow> repo_step bc bh binv p L r r'"
  by (simp add: repo_step_def same_repo_def guarded_refl)

lemma repo_step_trans:
  "repo_step bc bh binv p L r s \<Longrightarrow> repo_step bc bh binv p L s t \<Longrightarrow> repo_step bc bh binv p L r t"
  by (auto simp: repo_step_def intro: guarded_trans)

lemma repo_step_guarded:
  assumes "repo_inv binv r" and "\<And>p. repo_path (tables r) k = Some p \<Longrightarrow> repo_step bc bh binv p L r r'"
    and "repo_path (tables r) k = None \<Longrightarrow> repo_step bc bh binv [] L r r'"
  shows "repo_inv binv r' \<and> guarded (repo_content bc) (repo_holder bh) k L r r'"
proof (cases "repo_path (tables r) k")
  case None
  from assms(3) [OF None] assms(1) None show ?thesis
    by (auto simp: repo_inv_def repo_step_def guarded_def repo_holder_def dest: plain_ids_cong)
next
  case (Some p)
  from assms(2) [OF Some] assms(1) Some show ?thesis
    by (auto simp: repo_inv_def repo_step_def guarded_def repo_holder_def repo_content_def
        dest: plain_ids_cong)
qed

locale blob_repo = blob: guarded_store bops "\<lambda>p. p" bcontent bholder binv
  for bops :: "'b state_ops" and bcontent bholder binv
begin

lemma blob_step:
  assumes "\<And>b y b'. binv b \<Longrightarrow> f b = (y, b') \<Longrightarrow> binv b' \<and> guarded bcontent bholder p L b b'"
    and "binv (rp_blob r)" and "on_blob f r = (x, r')"
  shows "repo_step bcontent bholder binv p L r r'"
proof -
  obtain y b where f: "f (rp_blob r) = (y, b)" by force
  from assms(1) [OF assms(2) f] assms(3) f show ?thesis
    by (auto simp: on_blob_def repo_step_def)
qed

lemma with_unit_step:
  assumes "repo_inv binv r" and "with_unit msg i f r = (x, r')"
    and "\<And>u org r1 y r2 p. same_repo r r1 \<Longrightarrow> repo_path (tables r) i = Some (blob_path org u) \<Longrightarrow>
      (blob_path org u = p \<longrightarrow> i = k) \<Longrightarrow>
      f u org (blob_path org u) r1 = (y, r2) \<Longrightarrow> repo_step bcontent bholder binv p L r1 r2"
  shows "repo_inv binv r' \<and> guarded (repo_content bcontent) (repo_holder bholder) k L r r'"
  using assms(2)
proof (cases rule: with_unit_cases)
  case (stopped e)
  with assms(1) show ?thesis
    by (intro repo_step_guarded) (auto simp: repo_inv_def intro: repo_step_same)
next
  case (found u org r1)
  have b: "binv (rp_blob r)" using assms(1) by (simp add: repo_inv_def)
  show ?thesis
  proof (rule repo_step_guarded [OF assms(1)])
    show "repo_step bcontent bholder binv p L r r'" if p: "repo_path (tables r) k = Some p" for p
    proof -
      have "blob_path org u = p \<longrightarrow> i = k"
        using found(4) p repo_path_inj [of "tables r" i "blob_path org u" k] assms(1)
        by (auto simp: repo_inv_def)
      with assms(3) [OF found(1,4) _ found(5)] p
      have "repo_step bcontent bholder binv p L r1 r'" by simp
      with repo_step_same [where binv = binv, OF found(1) b] show ?thesis by (rule repo_step_trans)
    qed
    show "repo_step bcontent bholder binv [] L r r'" if "repo_path (tables r) k = None"
    proof -
      from assms(3) [OF found(1,4) _ found(5), of "[]"]
      have "repo_step bcontent bholder binv [] L r1 r'" by (simp add: blob_path_def)
      with repo_step_same [where binv = binv, OF found(1) b] show ?thesis by (rule repo_step_trans)
    qed
  qed
qed

lemma update_step:
  assumes "\<And>v. un_ID (f v) = un_ID v" and "\<And>v. un_OrgID (f v) = un_OrgID v"
    and "update_unit msg u now f r = (x, r')" and "binv (rp_blob r)"
  shows "repo_step bcontent bholder binv p L r r'"
  using update_unit_frame [OF assms(1-3)] assms(4) by (simp add: repo_step_def guarded_refl)

text \<open>A call of the blob store, and an update of the row after it.\<close>

lemma blob_then_update:
  assumes "op_bind (on_blob f) (\<lambda>_ r. update_unit msg u (now r) g r) r = (x, r')"
    and "\<And>b y b'. binv b \<Longrightarrow> f b = (y, b') \<Longrightarrow> binv b' \<and> guarded bcontent bholder p L b b'"
    and "\<And>v. un_ID (g v) = un_ID v" and "\<And>v. un_OrgID (g v) = un_OrgID v" and "binv (rp_blob r)"
  shows "repo_step bcontent bholder binv p L r r'"
proof -
  obtain y r1 where f: "on_blob f r = (y, r1)" by force
  note s = blob_step [OF assms(2,5) f]
  show ?thesis
  proof (cases y)
    case (Inl e)
    with assms(1) f s show ?thesis by (auto simp: op_bind_def)
  next
    case (Inr a)
    with assms(1) f have "update_unit msg u (now r1) g r1 = (x, r')" by (simp add: op_bind_def)
    moreover have "binv (rp_blob r1)" using s by (simp add: repo_step_def)
    ultimately have "repo_step bcontent bholder binv p L r1 r'" by (rule update_step [OF assms(3,4)])
    with s show ?thesis by (rule repo_step_trans)
  qed
qed

lemma same_repo_binv: "repo_inv binv r \<Longrightarrow> same_repo r r1 \<Longrightarrow> binv (rp_blob r1)"
  by (simp add: repo_inv_def same_repo_def)

lemma repo_Get_guarded:
  assumes "repo_inv binv r" and "repo_Get bops i r = (x, r')"
  shows "repo_inv binv r' \<and> guarded (repo_content bcontent) (repo_holder bholder) k L r r'"
  using assms(2) unfolding repo_Get_def
proof (rule with_unit_step [OF assms(1)])
  fix u org r1 y r2 p
  assume r1: "same_repo r r1"
    and g: "(case on_blob (so_Get bops (blob_path org u)) r1 of
       (Inl e, r') \<Rightarrow>
         if e = ErrNotFound then (Inr (full_meta org u), r')
         else (Inl (WrappedError e ''failed to get blob metadata: ''), r')
     | (Inr blobMeta, r') \<Rightarrow>
         (Inr (case um_LockInfo blobMeta of
                 None \<Rightarrow> full_meta org u
               | Some l \<Rightarrow> (full_meta org u)\<lparr>um_LockInfo := Some l, um_Locked := True\<rparr>), r')) = (y, r2)"
  obtain z where z: "on_blob (so_Get bops (blob_path org u)) r1 = (z, r2)"
    using g by (auto split: prod.splits sum.splits if_splits)
  show "repo_step bcontent bholder binv p L r1 r2"
    by (rule blob_step [OF blob.Get_guarded same_repo_binv [OF assms(1) r1] z])
qed

lemma repo_Download_guarded:
  assumes "repo_inv binv r" and "repo_Download bops i r = (x, r')"
  shows "repo_inv binv r' \<and> guarded (repo_content bcontent) (repo_holder bholder) k L r r'"
  using assms(2) unfolding repo_Download_def
  by (rule with_unit_step [OF assms(1)])
    (rule blob_step [OF blob.Download_guarded same_repo_binv [OF assms(1)]])

lemma repo_GetLock_guarded:
  assumes "repo_inv binv r" and "repo_GetLock i r = (x, r')"
  shows "repo_inv binv r' \<and> guarded (repo_content bcontent) (repo_holder bholder) k L r r'"
proof -
  have "same_repo r r'"
    using assms(2) find_unit_cases [of errMsgUnitNotFound i r]
    by (auto simp: repo_GetLock_def op_bind_def op_return_def)
  with assms(1) show ?thesis
    by (intro repo_step_guarded) (auto simp: repo_inv_def intro: repo_step_same)
qed

lemma repo_Lock_guarded:
  assumes "repo_inv binv r" and "repo_Lock bops i info r = (x, r')"
  shows "repo_inv binv r' \<and> guarded (repo_content bcontent) (repo_holder bholder) k L r r'"
  using assms(2) unfolding repo_Lock_def
proof (rule with_unit_step [OF assms(1)])
  fix u org r1 y r2 p
  assume r1: "same_repo r r1"
  assume "op_bind (on_blob (so_Lock bops (blob_path org u) info)) (\<lambda>_ r.
       update_unit ''failed to update lock in database: '' u (rp_now r)
         (\<lambda>v. v\<lparr>un_Locked := True, un_LockID := li_ID info, un_LockWho := li_Who info,
            un_LockCreated := Some (li_Created info)\<rparr>) r) r1 = (y, r2)"
  then show "repo_step bcontent bholder binv p L r1 r2"
    by (rule blob_then_update [OF _ blob.Lock_guarded]) (use same_repo_binv [OF assms(1) r1] in simp_all)
qed

lemma repo_Upload_guarded:
  assumes "repo_inv binv r" and "repo_Upload bops now i data lockID r = (x, r')"
    and "i = k \<longrightarrow> lockID \<noteq> L"
  shows "repo_inv binv r' \<and> guarded (repo_content bcontent) (repo_holder bholder) k L r r'"
  using assms(2) unfolding repo_Upload_def
proof (rule with_unit_step [OF assms(1)])
  fix u org r1 y r2 p
  assume r1: "same_repo r r1"
    and "blob_path org u = p \<longrightarrow> i = k"
  then have "blob_path org u = p \<longrightarrow> lockID \<noteq> L"
    using assms(3) by blast
  note up = blob.Upload_guarded [OF _ _ this]
  assume "op_bind (on_blob (so_Upload bops now (blob_path org u) data lockID)) (\<lambda>_.
       update_unit ''failed to update unit metadata: '' u now (un_Size_update (\<lambda>_. length data))) r1 = (y, r2)"
  then show "repo_step bcontent bholder binv p L r1 r2"
    by (rule blob_then_update [OF _ up]) (use same_repo_binv [OF assms(1) r1] in simp_all)
qed

lemma repo_Unlock_guarded:
  assumes "repo_inv binv r" and "repo_Unlock bops i lockID r = (x, r')"
    and "i = k \<longrightarrow> lockID \<noteq> L"
  shows "repo_inv binv r' \<and> guarded (repo_content bcontent) (repo_holder bholder) k L r r'"
  using assms(2) unfolding repo_Unlock_def
proof (rule with_unit_step [OF assms(1)])
  fix u org r1 y r2 p
  assume r1: "same_repo r r1"
    and "blob_path org u = p \<longrightarrow> i = k"
  then have "blob_path org u = p \<longrightarrow> lockID \<noteq> L"
    using assms(3) by blast
  note ul = blob.Unlock_guarded [OF _ _ this]
  assume "op_bind (on_blob (so_Unlock bops (blob_path org u) lockID)) (\<lambda>_ r.
       update_unit ''failed to update unlock in database: '' u (rp_now r)
         (\<lambda>v. v\<lparr>un_Locked := False, un_LockID := [], un_LockWho := [], un_LockCreated := None\<rparr>) r) r1 = (y, r2)"
  then show "repo_step bcontent bholder binv p L r1 r2"
    by (rule blob_then_update [OF _ ul]) (use same_repo_binv [OF assms(1) r1] in simp_all)
qed

end

sublocale blob_repo \<subseteq> repo: guarded_store "repo_ops bops" "\<lambda>i. i" "repo_content bcontent"
  "repo_holder bholder" "repo_inv binv"
proof (unfold_locales, unfold repo_ops_def state_ops.simps)
qed (erule (1) repo_Get_guarded repo_Download_guarded repo_GetLock_guarded repo_Lock_guarded |
    erule (2) repo_Upload_guarded repo_Unlock_guarded)+

interpretation memrepo: blob_repo "mem_ops env" mem_content mem_holder "mem_inv env"
  by unfold_locales

section \<open>The rows\<close>

definition rows_ok :: "unit_tables \<Rightarrow> bool" where
  "rows_ok t \<longleftrightarrow> distinct (map un_ID (ut_units t)) \<and>
     distinct (map (\<lambda>u. (un_OrgID u, un_Name u)) (ut_units t))"

definition keeps_rows :: "('a, 'b repo) store_op \<Rightarrow> bool" where
  "keeps_rows f \<longleftrightarrow> (\<forall>r. rows_ok (tables r) \<longrightarrow> rows_ok (tables (snd (f r))))"

named_theorems row_rules \<open>operations that keep the rows\<close>

lemma keeps_rowsD: "keeps_rows f \<Longrightarrow> rows_ok (tables r) \<Longrightarrow> f r = (x, r') \<Longrightarrow> rows_ok (tables r')"
  unfolding keeps_rows_def by (metis snd_conv)

lemma keeps_rows_bind [row_rules]:
  assumes "keeps_rows f" and "\<And>a. keeps_rows (g a)"
  shows "keeps_rows (op_bind f g)"
  unfolding keeps_rows_def
proof (intro allI impI)
  fix r :: "'a repo"
  assume ok: "rows_ok (tables r)"
  obtain x r1 where f: "f r = (x, r1)" by force
  from keeps_rowsD [OF assms(1) ok f] assms(2) show "rows_ok (tables (snd (op_bind f g r)))"
    by (cases x) (simp_all add: op_bind_def f keeps_rows_def)
qed

lemma keeps_rows_return [row_rules]: "keeps_rows (op_return a)"
  by (simp add: keeps_rows_def op_return_def)

lemma keeps_rows_blob [row_rules]: "keeps_rows (on_blob f)"
  by (simp add: keeps_rows_def on_blob_def split: prod.split)

lemma keeps_rows_query [row_rules]:
  assumes "\<And>t. rows_ok t \<Longrightarrow> rows_ok (snd (q t))"
  shows "keeps_rows (repo_query msg q)"
  unfolding keeps_rows_def
proof (intro allI impI)
  fix r
  assume "rows_ok (tables r)"
  with repo_query_cases [of msg q r] assms show "rows_ok (tables (snd (repo_query msg q r)))"
    by (auto simp: same_repo_def)
qed

lemma keeps_rows_find_unit [row_rules]: "keeps_rows (find_unit msg i)"
  unfolding find_unit_def by (rule row_rules) simp

lemma keeps_rows_find_org [row_rules]: "keeps_rows (find_org m i)"
  unfolding find_org_def by (rule row_rules) simp

lemma keeps_rows_with_unit [row_rules]:
  "(\<And>u org p. keeps_rows (f u org p)) \<Longrightarrow> keeps_rows (with_unit msg i f)"
  unfolding with_unit_def by (intro row_rules)

lemma keeps_rows_update [row_rules]:
  assumes "\<And>v. un_ID (f v) = un_ID v" and "\<And>v. un_OrgID (f v) = un_OrgID v"
    and "\<And>v. un_Name (f v) = un_Name v"
  shows "keeps_rows (update_unit msg u now f)"
  unfolding update_unit_def
proof (rule keeps_rows_query)
  fix t
  assume ok: "rows_ok t"
  let ?g = "\<lambda>v. if un_ID v = un_ID u then (f v)\<lparr>un_UpdatedAt := now\<rparr> else v"
  have "map un_ID (map ?g us) = map un_ID us"
    and "map (\<lambda>u. (un_OrgID u, un_Name u)) (map ?g us) = map (\<lambda>u. (un_OrgID u, un_Name u)) us" for us
    by (simp_all add: assms)
  with ok show "rows_ok (snd (Inr (), t\<lparr>ut_units := map ?g (ut_units t)\<rparr>))"
    by (simp add: rows_ok_def del: map_map)
qed

lemma keeps_rows_now:
  "(\<And>n. keeps_rows (f n)) \<Longrightarrow> keeps_rows (\<lambda>r. f (rp_now r) r)"
  unfolding keeps_rows_def by blast

lemma rows_ok_filter: "rows_ok t \<Longrightarrow> rows_ok (t\<lparr>ut_units := filter P (ut_units t)\<rparr>)"
  by (simp add: rows_ok_def distinct_map_filter)

lemma rows_ok_insert: "rows_ok t \<Longrightarrow> rows_ok (snd (insert_unit u t))"
  by (auto simp: insert_unit_def rows_ok_def)

lemma keeps_rows_insert:
  fixes r :: "'b repo"
  assumes "rows_ok (tables r)" and "fdb_query (insert_unit u) (rp_db r) = (x, d)"
  shows "rows_ok (fdb_data d)"
  using fdb_query_cases [of "insert_unit u" "rp_db r"] assms rows_ok_insert by auto

lemma keeps_rows_Create [row_rules]: "keeps_rows (repo_Create env orgID name)"
  unfolding repo_Create_def
proof (intro keeps_rows_bind keeps_rows_find_org keeps_rows_query)
  show "rows_ok (snd (if \<exists>v\<in>set (ut_units t). un_OrgID v = orgID \<and> un_Name v = name
      then Inl ErrAlreadyExists else Inr (), t))" if "rows_ok t" for t
    using that by simp
qed (auto simp: keeps_rows_def Let_def dest: keeps_rows_insert split: prod.split res.split sum.split)

lemma keeps_rows_Get [row_rules]: "keeps_rows (repo_Get ops i)"
  unfolding repo_Get_def
  by (rule keeps_rows_with_unit)
    (auto simp: keeps_rows_def on_blob_def split: prod.split sum.split option.split)

lemma keeps_rows_Delete [row_rules]: "keeps_rows (repo_Delete bs i)"
  unfolding repo_Delete_def
proof (rule keeps_rows_with_unit)
  fix u :: unit_row and path
  let ?q = "repo_query ''failed to delete unit from database: ''
      (\<lambda>t. (Inr (), t\<lparr>ut_units := filter (\<lambda>v. un_ID v \<noteq> un_ID u) (ut_units t)\<rparr>))"
  have q: "keeps_rows ?q" by (rule keeps_rows_query) (simp add: rows_ok_filter)
  have qb: "rows_ok (tables r) \<Longrightarrow> rows_ok (tables (snd (?q (r\<lparr>rp_blob := b\<rparr>))))" for r b
    using q [unfolded keeps_rows_def, rule_format, of "r\<lparr>rp_blob := b\<rparr>"] by simp
  show "keeps_rows (\<lambda>r. case on_blob (bs_Delete bs path) r of
      (x, r') \<Rightarrow> (case x of
          Inl e \<Rightarrow> if e = ErrNotFound then ?q r' else (Inl (WrappedError e ''failed to delete blob: ''), r')
        | Inr _ \<Rightarrow> ?q r'))"
    using qb by (auto simp: keeps_rows_def on_blob_def split: prod.split sum.split)
qed

lemma keeps_rows_rest [row_rules]:
  "keeps_rows (repo_Download ops i)" "keeps_rows (repo_GetLock i)"
  "keeps_rows (repo_ListVersions bs i)" "keeps_rows (repo_RestoreVersion bs now i t l)"
  unfolding repo_Download_def repo_GetLock_def repo_ListVersions_def repo_RestoreVersion_def
  by (intro keeps_rows_with_unit keeps_rows_blob keeps_rows_bind keeps_rows_find_unit keeps_rows_return)+

lemma keeps_rows_Upload [row_rules]: "keeps_rows (repo_Upload ops now i d l)"
  unfolding repo_Upload_def
  by (intro keeps_rows_with_unit keeps_rows_bind keeps_rows_blob keeps_rows_update) simp_all

lemma keeps_rows_Lock [row_rules]: "keeps_rows (repo_Lock ops i info)"
  unfolding repo_Lock_def
  by (intro keeps_rows_with_unit keeps_rows_bind keeps_rows_blob, rule keeps_rows_now, rule keeps_rows_update)
    simp_all

lemma keeps_rows_Unlock [row_rules]: "keeps_rows (repo_Unlock ops i l)"
  unfolding repo_Unlock_def
  by (intro keeps_rows_with_unit keeps_rows_bind keeps_rows_blob, rule keeps_rows_now, rule keeps_rows_update)
    simp_all

lemma keeps_rows_List [row_rules]: "keeps_rows (repo_List env orgID pre)"
  unfolding repo_List_def by (cases "ue_org_name env \<noteq> []") (intro row_rules; simp add: row_rules)+

text \<open>Any operation, and the task in the background.\<close>

datatype repo_call =
    RGet string | RDownload string | RGetLock string | RUpload nat string bytes string
  | RLock string lock_info | RUnlock string string | RCreate string string | RList string string
  | RDelete string | RListVersions string | RRestoreVersion nat string nat string | RTask

definition repo_call :: "repo_env \<Rightarrow> 'b blob_store \<Rightarrow> repo_call \<Rightarrow> 'b repo \<Rightarrow> 'b repo" where
  "repo_call env bs c r =
     (let repo = unit_repo env bs; ops = ur_state repo in
      case c of
        RGet i \<Rightarrow> snd (so_Get ops i r)
      | RDownload i \<Rightarrow> snd (so_Download ops i r)
      | RGetLock i \<Rightarrow> snd (so_GetLock ops i r)
      | RUpload now i d l \<Rightarrow> snd (so_Upload ops now i d l r)
      | RLock i l \<Rightarrow> snd (so_Lock ops i l r)
      | RUnlock i l \<Rightarrow> snd (so_Unlock ops i l r)
      | RCreate g n \<Rightarrow> snd (ur_Create repo g n r)
      | RList g p \<Rightarrow> snd (ur_List repo g p r)
      | RDelete i \<Rightarrow> snd (ur_Delete repo i r)
      | RListVersions i \<Rightarrow> snd (ur_ListVersions repo i r)
      | RRestoreVersion now i t l \<Rightarrow> snd (ur_RestoreVersion repo now i t l r)
      | RTask \<Rightarrow> create_blob bs r)"

lemma repo_call_rows: "rows_ok (tables r) \<Longrightarrow> rows_ok (tables (repo_call env bs c r))"
proof -
  assume ok: "rows_ok (tables r)"
  have k: "keeps_rows f \<Longrightarrow> rows_ok (tables (snd (f r)))" for f :: "('x, 'a repo) store_op"
    using ok by (simp add: keeps_rows_def)
  show ?thesis
    by (cases c)
      (auto simp: repo_call_def unit_repo_def repo_ops_def create_blob_def ok Let_def
        intro: k row_rules split: list.split)
qed


section \<open>A lock that the database does not show\<close>

lemma query_step:
  "fdb_faults (rp_db r) = None # fs \<Longrightarrow>
   repo_query msg q r = (fst (q (tables r)), r\<lparr>rp_db := \<lparr>fdb_data = snd (q (tables r)), fdb_faults = fs\<rparr>\<rparr>)"
  by (cases "rp_db r") (simp add: repo_query_def fdb_query_def Let_def split: prod.split)

lemma query_ok:
  "fdb_faults (rp_db r) = [] \<Longrightarrow>
   repo_query msg q r = (fst (q (tables r)), r\<lparr>rp_db := \<lparr>fdb_data = snd (q (tables r)), fdb_faults = []\<rparr>\<rparr>)"
  by (cases "rp_db r") (simp add: repo_query_def fdb_query_def Let_def split: prod.split)

lemma query_fault:
  "fdb_faults (rp_db r) = Some e # fs \<Longrightarrow>
   repo_query msg q r = (Inl (OtherError (msg @ e)), r\<lparr>rp_db := (rp_db r)\<lparr>fdb_faults := fs\<rparr>\<rparr>)"
  by (simp add: repo_query_def fdb_query_def)

text \<open>Over the store in memory, when the database fails just after a free unit's blob was
  locked, the client gets an error but the unit stays locked: the repository says that there is no
  lock, and refuses to store a state without one.\<close>

theorem failed_lock_update_hides_lock:
  assumes "unit_by_id t i = Some u" and "org_by_id t (un_OrgID u) = Some org" and "\<not> un_Locked u"
    and "mem_inv env b" and "mem_content b (blob_path org u) \<noteq> None" and "mem_holder b (blob_path org u) = None"
    and "r = \<lparr>rp_db = \<lparr>fdb_data = t, fdb_faults = [None, None, Some e]\<rparr>, rp_blob = b, rp_now = n, rp_creating = ts\<rparr>"
  shows "fst (repo_Lock (mem_ops env) i info r) = Inl (OtherError (''failed to update lock in database: '' @ e)) \<and>
    fst (repo_GetLock i (snd (repo_Lock (mem_ops env) i info r))) = Inr None \<and>
    fst (repo_Upload (mem_ops env) m i data [] (snd (repo_Lock (mem_ops env) i info r))) = Inl ErrLockConflict"
proof -
  let ?p = "blob_path org u"
  obtain d where d: "map_of b ?p = Some d" using assms(5) by (auto simp: mem_content_def)
  with assms(6) have "um_LockInfo (ud_metadata d) = None" by (simp add: mem_holder_def)
  with mem_invD [OF assms(4) d] have free: "\<not> um_Locked (ud_metadata d)" by (simp add: unit_inv_def)
  let ?d = "d\<lparr>ud_metadata := (ud_metadata d)\<lparr>um_Locked := True, um_LockInfo := Some info\<rparr>\<rparr>"
  have lock: "repo_Lock (mem_ops env) i info r =
      (Inl (OtherError (''failed to update lock in database: '' @ e)),
       \<lparr>rp_db = \<lparr>fdb_data = t, fdb_faults = []\<rparr>, rp_blob = AList.update ?p ?d b, rp_now = n, rp_creating = ts\<rparr>)"
    by (simp add: assms(1,2,7) repo_Lock_def with_unit_def op_bind_def find_unit_def find_org_def query_step
        on_blob_def mem_ops_def mem_Lock_def d free update_unit_def query_fault)
  show ?thesis
    unfolding lock
    by (simp add: repo_GetLock_def repo_Upload_def with_unit_def op_bind_def find_unit_def find_org_def
        query_ok assms(1-3) op_return_def on_blob_def mem_ops_def mem_Upload_def d lock_refuses_def)
qed

section \<open>Witnesses\<close>

definition example_unit :: "string \<Rightarrow> string \<Rightarrow> unit_row" where
  "example_unit i n =
     \<lparr>un_ID = i, un_OrgID = ''o'', un_Name = n, un_Size = 1, un_UpdatedAt = 1, un_Locked = False,
      un_LockID = [], un_LockWho = [], un_LockCreated = None, un_TFEAutoApply = None,
      un_TFETerraformVersion = None, un_TFEEngine = None, un_TFEWorkingDirectory = None,
      un_TFEExecutionMode = None\<rparr>"

definition example_unit_tables :: unit_tables where
  "example_unit_tables =
     \<lparr>ut_orgs = [\<lparr>or_ID = ''o'', or_Name = ''acme''\<rparr>],
      ut_units = [example_unit ''u1'' ''net'', example_unit ''u2'' ''app'']\<rparr>"

definition example_blobs :: mem_store where
  "example_blobs = snd (mem_Upload example_env 1 ''o/u2'' ''y'' [] (snd (mem_Upload example_env 1 ''o/u1'' ''x'' [] [])))"

definition example_repo :: "error option list \<Rightarrow> mem_store repo" where
  "example_repo fs =
     \<lparr>rp_db = \<lparr>fdb_data = example_unit_tables, fdb_faults = fs\<rparr>, rp_blob = example_blobs, rp_now = 5,
      rp_creating = []\<rparr>"

definition mem_blobs :: "mem_env \<Rightarrow> mem_store blob_store" where
  "mem_blobs env =
     \<lparr>bs_state = mem_ops env, bs_Create = mem_Create, bs_Delete = mem_Delete,
      bs_ListVersions = mem_ListVersions, bs_RestoreVersion = mem_RestoreVersion env\<rparr>"

definition example_repo_env :: repo_env where
  "example_repo_env = \<lparr>ue_uuid = (\<lambda>t. ''u1''), ue_like = (\<lambda>_ _. True), ue_org_name = []\<rparr>"

lemma example_repo_facts:
  "rows_ok (tables (example_repo fs))"
  "unit_by_id example_unit_tables ''u1'' = Some (example_unit ''u1'' ''net'')"
  "org_by_id example_unit_tables (un_OrgID (example_unit ''u1'' ''net'')) = Some \<lparr>or_ID = ''o'', or_Name = ''acme''\<rparr>"
  "mem_inv example_env example_blobs"
  "mem_content example_blobs ''o/u1'' = Some ''x''" "mem_holder example_blobs ''o/u1'' = None"
proof -
  show "mem_inv example_env example_blobs"
    using mem_calls_inv [of example_env "[]" "[CUpload 1 ''o/u1'' ''x'' [], CUpload 1 ''o/u2'' ''y'' []]"]
    by (simp add: example_blobs_def mem_call_def mem_inv_def)
qed code_simp+


theorem failed_lock_update_hides_lock_witness:
  "fst (repo_GetLock ''u1'' (snd (repo_Lock (mem_ops example_env) ''u1''
     \<lparr>li_ID = ''L'', li_Who = ''me'', li_Version = [], li_Created = 5\<rparr>
     (example_repo [None, None, Some ''down''])))) = Inr None"
proof -
  have p: "blob_path \<lparr>or_ID = ''o'', or_Name = ''acme''\<rparr> (example_unit ''u1'' ''net'') = ''o/u1''"
    by (simp add: blob_path_def example_unit_def)
  show ?thesis
    using failed_lock_update_hides_lock [OF example_repo_facts(2,3) _ example_repo_facts(4), unfolded p,
        OF _ _ example_repo_facts(6) example_repo_def] example_repo_facts(5)
    by (simp add: example_unit_def)
qed

end
