(* ===== verification/DepGraph.thy ===== *)
theory DepGraph
  imports UnitStore "HOL-Library.Char_ord" "HOL-Library.List_Lexorder"
begin

text \<open>
  The dependency graph of OpenTaco's units (\<open>taco/internal/deps/graph.go\<close>).  The graph is itself
  a Terraform state, kept as the unit \<open>__opentaco_system\<close>: each instance of a resource of type
  \<open>opentaco_dependency\<close> is an edge from an output of one unit to another unit, with digests of the
  output as the source last published it and as the target last saw it.  A write to a unit
  refreshes its edges; the status of a unit is computed from all of them.
\<close>

section \<open>Values\<close>

text \<open>JSON values as \<open>encoding/json\<close> decodes them into an \<open>interface{}\<close>; a number is kept as
  the text \<open>json.Marshal\<close> gives for its \<open>float64\<close>.\<close>

datatype json =
    JNull | JBool bool | JNumber string | JString string | JArray "json list"
  | JObject "(string \<times> json) list"

type_synonym attributes = "(string \<times> json) list"

record tf_instance =
  tf_Attributes :: "attributes option"

record tf_resource =
  tf_Mode :: string
  tf_Type :: string
  tf_Name :: string
  tf_Provider :: string
  tf_Instances :: "tf_instance list"

record tf_state =
  tf_Serial :: int
  tf_Lineage :: string
  tf_Resources :: "tf_resource list"

text \<open>What is outside: decoding and encoding of a state, the outputs of a state (\<open>None\<close> where
  \<open>Outputs\<close> stays nil), the encoding of a string and of any value, SHA-256 with base58, the clock
  as a timestamp in nanoseconds and as text.\<close>

record graph_env =
  ge_unmarshal :: "bytes \<Rightarrow> tf_state option"
  ge_marshal :: "tf_state \<Rightarrow> bytes option"
  ge_outputs :: "bytes \<Rightarrow> (string \<times> json) list option"
  ge_quote :: "string \<Rightarrow> string"
  ge_encode :: "json \<Rightarrow> string"
  ge_digest :: "string \<Rightarrow> string"
  ge_nano :: nat
  ge_now :: string

definition SystemGraphUnitID :: string where
  "SystemGraphUnitID = ''__opentaco_system''"

definition normalizeUnitID :: "string \<Rightarrow> string" where
  "normalizeUnitID i =
     (let s = trim_space i;
          s = trim_set (\<lambda>c. c = CHR ''/'') s
      in trim_suffix s ''/terraform.tfstate'')"

definition getString :: "graph_env \<Rightarrow> json option \<Rightarrow> string" where
  "getString env v =
     (case v of
        Some (JString t) \<Rightarrow> t
      | None \<Rightarrow> []
      | Some JNull \<Rightarrow> []
      | Some t \<Rightarrow> ge_encode env t)"

abbreviation attr :: "graph_env \<Rightarrow> attributes \<Rightarrow> string \<Rightarrow> string" where
  "attr env attrs k \<equiv> getString env (map_of attrs k)"

fun canonicalJSON :: "graph_env \<Rightarrow> json \<Rightarrow> string" where
  "canonicalJSON env JNull = ''null''"
| "canonicalJSON env (JBool t) = (if t then ''true'' else ''false'')"
| "canonicalJSON env (JNumber t) = t"
| "canonicalJSON env (JString t) = ge_quote env t"
| "canonicalJSON env (JArray els) =
     ''['' @ join_with '','' (map (canonicalJSON env) els) @ '']''"
| "canonicalJSON env (JObject m) =
     CHR 0x7B # join_with '',''
       (map (\<lambda>(k, s). ge_quote env k @ '':'' @ s)
         (sort_key fst (map (\<lambda>(k, v). (k, canonicalJSON env v)) m))) @ [CHR 0x7D]"

definition digestValue :: "graph_env \<Rightarrow> json \<Rightarrow> string" where
  "digestValue env v = ge_digest env (canonicalJSON env v)"

section \<open>Refreshing the graph\<close>

text \<open>A map of attributes and whether it has been changed.\<close>

definition put_attr :: "string \<Rightarrow> string \<Rightarrow> attributes \<times> bool \<Rightarrow> attributes \<times> bool" where
  "put_attr k v ac = (AList.update k (JString v) (fst ac), True)"

text \<open>Part A: the unit is the source of the edge.\<close>

definition source_refresh ::
  "graph_env \<Rightarrow> (string \<times> json) list option \<Rightarrow> string \<Rightarrow> string \<Rightarrow> attributes \<times> bool \<Rightarrow>
   attributes \<times> bool" where
  "source_refresh env outputs fromOut status ac =
     (let unknown = (if status \<noteq> ''unknown'' then put_attr ''status'' ''unknown'' ac else ac) in
      case outputs of
        None \<Rightarrow> unknown
      | Some outs \<Rightarrow>
          (case map_of outs fromOut of
             None \<Rightarrow> unknown
           | Some ov \<Rightarrow>
               (let dig = digestValue env ov;
                    ac1 = (if attr env (fst ac) ''in_digest'' \<noteq> dig
                           then (AList.update ''last_in_at'' (JString (ge_now env))
                                  (AList.update ''in_digest'' (JString dig) (fst ac)), True)
                           else ac);
                    outD = attr env (fst ac1) ''out_digest'';
                    newStatus = (if dig \<noteq> [] \<and> outD \<noteq> [] \<and> dig = outD then ''ok'' else ''pending'')
                in if status \<noteq> newStatus then put_attr ''status'' newStatus ac1 else ac1)))"

text \<open>Part B: the unit is the target of the edge.\<close>

definition target_acknowledge :: "graph_env \<Rightarrow> string \<Rightarrow> attributes \<times> bool \<Rightarrow> attributes \<times> bool" where
  "target_acknowledge env status ac =
     (let inD = attr env (fst ac) ''in_digest'' in
      if inD \<noteq> [] then
        (if attr env (fst ac) ''out_digest'' \<noteq> inD
         then (AList.update ''status'' (JString ''ok'')
                (AList.update ''last_out_at'' (JString (ge_now env))
                  (AList.update ''out_digest'' (JString inD) (fst ac))), True)
         else if status \<noteq> ''ok'' then put_attr ''status'' ''ok'' ac else ac)
      else ac)"

text \<open>The body of the loop; the status is read once, before the two parts.\<close>

definition update_edge ::
  "graph_env \<Rightarrow> string \<Rightarrow> (string \<times> json) list option \<Rightarrow> attributes \<Rightarrow> attributes \<times> bool" where
  "update_edge env normID outputs attrs =
     (let fromID = normalizeUnitID (attr env attrs ''from_unit_id'');
          toID = normalizeUnitID (attr env attrs ''to_unit_id'');
          fromOut = attr env attrs ''from_output'';
          status = attr env attrs ''status'';
          ac1 = (if fromID = normID then source_refresh env outputs fromOut status (attrs, False)
                 else (attrs, False))
      in if toID = normID then target_acknowledge env status ac1 else ac1)"

definition update_instance ::
  "graph_env \<Rightarrow> string \<Rightarrow> (string \<times> json) list option \<Rightarrow> tf_instance \<Rightarrow> tf_instance \<times> bool" where
  "update_instance env normID outputs inst =
     (case tf_Attributes inst of
        None \<Rightarrow> (inst, False)
      | Some attrs \<Rightarrow>
          (let (attrs', changed) = update_edge env normID outputs attrs
           in (inst\<lparr>tf_Attributes := Some attrs'\<rparr>, changed)))"

definition update_resource ::
  "graph_env \<Rightarrow> string \<Rightarrow> (string \<times> json) list option \<Rightarrow> tf_resource \<Rightarrow> tf_resource \<times> bool" where
  "update_resource env normID outputs r =
     (if tf_Type r \<noteq> ''opentaco_dependency'' then (r, False)
      else
        (let us = map (update_instance env normID outputs) (tf_Instances r)
         in (r\<lparr>tf_Instances := map fst us\<rparr>, list_ex snd us)))"

definition update_graph ::
  "graph_env \<Rightarrow> string \<Rightarrow> (string \<times> json) list option \<Rightarrow> tf_state \<Rightarrow> tf_state \<times> bool" where
  "update_graph env normID outputs graph =
     (let us = map (update_resource env normID outputs) (tf_Resources graph)
      in (graph\<lparr>tf_Resources := map fst us\<rparr>, list_ex snd us))"

text \<open>\<open>UpdateGraphOnWrite\<close>: every failure ends it, and the deferred unlock runs in any case once
  the lock is held.\<close>

definition graph_lock :: "graph_env \<Rightarrow> lock_info" where
  "graph_lock env =
     \<lparr>li_ID = ''deps-'' @ itoa (int (ge_nano env)), li_Who = ''opentaco-deps'', li_Version = ''1.0.0'',
      li_Created = ge_nano env\<rparr>"

definition rewrite_graph :: "'s state_ops \<Rightarrow> graph_env \<Rightarrow> string \<Rightarrow> bytes \<Rightarrow> 's \<Rightarrow> 's" where
  "rewrite_graph ops env unitID newTFState s =
     (case so_Download ops SystemGraphUnitID s of
        (Inl _, s1) \<Rightarrow> s1
      | (Inr graphBytes, s1) \<Rightarrow>
          if length graphBytes = 0 then s1
          else
            (case ge_unmarshal env graphBytes of
               None \<Rightarrow> s1
             | Some graph \<Rightarrow>
                 (let (graph1, changed) =
                    update_graph env (normalizeUnitID unitID) (ge_outputs env newTFState) graph
                  in if \<not> changed then s1
                     else
                       (case ge_marshal env (graph1\<lparr>tf_Serial := tf_Serial graph1 + 1\<rparr>) of
                          None \<Rightarrow> s1
                        | Some updated \<Rightarrow>
                            snd (so_Upload ops (ge_nano env) SystemGraphUnitID updated
                                  (li_ID (graph_lock env)) s1)))))"

definition UpdateGraphOnWrite :: "'s state_ops \<Rightarrow> graph_env \<Rightarrow> string \<Rightarrow> bytes \<Rightarrow> 's \<Rightarrow> 's" where
  "UpdateGraphOnWrite ops env unitID newTFState s =
     (case so_Lock ops SystemGraphUnitID (graph_lock env) s of
        (Inl _, s1) \<Rightarrow> s1
      | (Inr _, s1) \<Rightarrow>
          snd (so_Unlock ops SystemGraphUnitID (li_ID (graph_lock env))
                (rewrite_graph ops env unitID newTFState s1)))"

section \<open>The status of a unit\<close>

record edge =
  ed_EdgeID :: string
  ed_FromUnit :: string
  ed_FromOutput :: string
  ed_ToUnit :: string
  ed_InDigest :: string
  ed_OutDigest :: string
  ed_Status :: string
  ed_LastInAt :: string
  ed_LastOutAt :: string

record summary =
  su_IncomingOK :: nat
  su_IncomingPending :: nat
  su_IncomingUnknown :: nat

record unit_status =
  us_StateID :: string
  us_Status :: string
  us_Incoming :: "edge list"
  us_Summary :: summary

definition edge_of :: "graph_env \<Rightarrow> attributes \<Rightarrow> edge" where
  "edge_of env a =
     \<lparr>ed_EdgeID = attr env a ''id'',
      ed_FromUnit = normalizeUnitID (attr env a ''from_unit_id''),
      ed_FromOutput = attr env a ''from_output'',
      ed_ToUnit = normalizeUnitID (attr env a ''to_unit_id''),
      ed_InDigest = attr env a ''in_digest'',
      ed_OutDigest = attr env a ''out_digest'',
      ed_Status = attr env a ''status'',
      ed_LastInAt = attr env a ''last_in_at'',
      ed_LastOutAt = attr env a ''last_out_at''\<rparr>"

definition graph_edges :: "graph_env \<Rightarrow> tf_state \<Rightarrow> edge list" where
  "graph_edges env st =
     map (edge_of env) (List.map_filter tf_Attributes
       (concat (map tf_Instances
         (filter (\<lambda>r. tf_Type r = ''opentaco_dependency'') (tf_Resources st)))))"

definition adj :: "edge list \<Rightarrow> string \<Rightarrow> string list" where
  "adj edges u = map ed_ToUnit (filter (\<lambda>e. ed_FromUnit e = u) edges)"

definition red_units :: "edge list \<Rightarrow> string list" where
  "red_units edges = remdups (map ed_ToUnit (filter (\<lambda>e. ed_Status e = ''pending'') edges))"

text \<open>The search from the red units: the inner loop over the successors, and the loop over the
  queue.  The first argument is the queue, then the units seen and the yellow ones.\<close>

definition visit_next ::
  "string list \<times> string list \<times> string list \<Rightarrow> string \<Rightarrow> string list \<times> string list \<times> string list" where
  "visit_next qsy nxt =
     (let (q, seen, yellow) = qsy in
      if nxt \<in> set seen then (q, seen, yellow) else (q @ [nxt], nxt # seen, nxt # yellow))"

lemma visit_next_simps:
  "visit_next (q, seen, yellow) n =
     (if n \<in> set seen then (q, seen, yellow) else (q @ [n], n # seen, n # yellow))"
  by (simp add: visit_next_def)

definition bfs_measure :: "edge list \<Rightarrow> string list \<Rightarrow> string list \<Rightarrow> nat" where
  "bfs_measure edges q seen = length q + card (ed_ToUnit ` set edges - set seen)"

lemma visit_next_measure:
  assumes "set nxts \<subseteq> ed_ToUnit ` set edges"
    and "foldl visit_next (q, seen, yellow) nxts = (q', seen', yellow')"
  shows "bfs_measure edges q' seen' \<le> bfs_measure edges q seen"
  using assms
proof (induction nxts arbitrary: q seen yellow)
  case (Cons n ns)
  show ?case
  proof (cases "n \<in> set seen")
    case True
    with Cons show ?thesis by (simp add: visit_next_simps)
  next
    case False
    let ?A = "ed_ToUnit ` set edges - set seen"
    have "n \<in> ?A" using False Cons.prems(1) by simp
    then have "Suc (card (?A - {n})) = card ?A" by (intro card_Suc_Diff1) simp
    moreover have "?A - {n} = ed_ToUnit ` set edges - set (n # seen)" by auto
    ultimately have "card ?A = Suc (card (ed_ToUnit ` set edges - set (n # seen)))" by simp
    then have "bfs_measure edges (q @ [n]) (n # seen) = bfs_measure edges q seen"
      unfolding bfs_measure_def by (simp only: length_append list.size)
    moreover have "foldl visit_next (q @ [n], n # seen, n # yellow) ns = (q', seen', yellow')"
      using Cons.prems(2) False by (simp add: visit_next_simps)
    then have "bfs_measure edges q' seen' \<le> bfs_measure edges (q @ [n]) (n # seen)"
      using Cons.prems(1) by (intro Cons.IH) auto
    ultimately show ?thesis by linarith
  qed
qed simp

function bfs :: "edge list \<Rightarrow> string list \<Rightarrow> string list \<Rightarrow> string list \<Rightarrow> string list" where
  "bfs edges [] seen yellow = yellow"
| "bfs edges (cur # q) seen yellow =
     (let (q1, seen1, yellow1) = foldl visit_next (q, seen, yellow) (adj edges cur)
      in bfs edges q1 seen1 yellow1)"
  by pat_completeness auto
termination
proof (relation "measure (\<lambda>(edges, q, seen, _). bfs_measure edges q seen)")
  fix edges cur q seen yellow x q1 y seen1 yellow1
  assume "x = foldl visit_next (q, seen, yellow) (adj edges cur)" "(q1, y) = x" "(seen1, yellow1) = y"
  then have "foldl visit_next (q, seen, yellow) (adj edges cur) = (q1, seen1, yellow1)" by simp
  then have "bfs_measure edges q1 seen1 \<le> bfs_measure edges q seen"
    by (rule visit_next_measure [rotated]) (auto simp: adj_def)
  then show "((edges, q1, seen1, yellow1), edges, cur # q, seen, yellow)
      \<in> measure (\<lambda>(edges, q, seen, _). bfs_measure edges q seen)"
    by (simp add: bfs_measure_def)
qed simp

definition yellow_units :: "edge list \<Rightarrow> string list" where
  "yellow_units edges = bfs edges (red_units edges) (red_units edges) []"

definition incoming_summary :: "edge list \<Rightarrow> summary" where
  "incoming_summary incoming =
     \<lparr>su_IncomingOK = length (filter (\<lambda>e. ed_Status e = ''ok'') incoming),
      su_IncomingPending = length (filter (\<lambda>e. ed_Status e = ''pending'') incoming),
      su_IncomingUnknown =
        length (filter (\<lambda>e. ed_Status e \<noteq> ''ok'' \<and> ed_Status e \<noteq> ''pending'') incoming)\<rparr>"

text \<open>The order of the incoming edges; a status that is not in the map of ranks has rank 0.\<close>

definition status_rank :: "string \<Rightarrow> nat" where
  "status_rank s = (if s = ''unknown'' then 1 else if s = ''ok'' then 2 else 0)"

definition incoming_less :: "edge \<Rightarrow> edge \<Rightarrow> bool" where
  "incoming_less a b =
     (if ed_Status a = ed_Status b then ed_FromUnit a < ed_FromUnit b
      else status_rank (ed_Status a) < status_rank (ed_Status b))"

fun insert_edge :: "edge \<Rightarrow> edge list \<Rightarrow> edge list" where
  "insert_edge e [] = [e]"
| "insert_edge e (f # fs) = (if incoming_less f e then f # insert_edge e fs else e # f # fs)"

definition status_of :: "edge list \<Rightarrow> string \<Rightarrow> string" where
  "status_of edges u =
     (if u \<in> set (red_units edges) then ''red''
      else if u \<in> set (yellow_units edges) then ''yellow'' else ''green'')"

definition green_status :: "string \<Rightarrow> unit_status" where
  "green_status unitID =
     \<lparr>us_StateID = unitID, us_Status = ''green'', us_Incoming = [],
      us_Summary = \<lparr>su_IncomingOK = 0, su_IncomingPending = 0, su_IncomingUnknown = 0\<rparr>\<rparr>"

definition ComputeUnitStatus ::
  "'s state_ops \<Rightarrow> graph_env \<Rightarrow> string \<Rightarrow> 's \<Rightarrow> unit_status \<times> 's" where
  "ComputeUnitStatus ops env unitID s =
     (case so_Download ops SystemGraphUnitID s of
        (Inl _, s1) \<Rightarrow> (green_status unitID, s1)
      | (Inr b, s1) \<Rightarrow>
          if length b = 0 then (green_status unitID, s1)
          else
            (case ge_unmarshal env b of
               None \<Rightarrow> (green_status unitID, s1)
             | Some st \<Rightarrow>
                 (let normTarget = normalizeUnitID unitID;
                      edges = graph_edges env st;
                      incoming = filter (\<lambda>e. ed_ToUnit e = normTarget) edges
                  in (\<lparr>us_StateID = unitID, us_Status = status_of edges normTarget,
                       us_Incoming = foldr insert_edge incoming [],
                       us_Summary = incoming_summary incoming\<rparr>, s1))))"

end
