(* ===== verification/BackendHandler.thy ===== *)
theory BackendHandler
  imports DepGraph
begin

text \<open>
  The HTTP backend protocol of Terraform (\<open>taco/internal/backend/handler.go\<close>) over any store of
  states.  A request is what the handlers read of it; a successful update also starts the refresh
  of the dependency graph in the background, which is a task of the server until it runs.
\<close>

section \<open>Requests and responses\<close>

record request =
  rq_Method :: string
  rq_Path :: string
  rq_Param :: string
  rq_Body :: "bytes option"
  rq_Header :: "(string \<times> string) list"
  rq_Query :: "(string \<times> string) list"

datatype body = NoContent | JsonError string | Blob bytes | LockBody lock_info

record response =
  rs_Status :: nat
  rs_Body :: body

text \<open>Decoding a lock of a request, and the \<open>ID\<close> of an unlock request, into zero values: what is
  not decoded stays empty.  The clock, and a fresh UUID.\<close>

record backend_env =
  be_lock :: "bytes \<Rightarrow> lock_info"
  be_unlock_id :: "bytes \<Rightarrow> string"
  be_uuid :: string
  be_now :: nat

record 's server =
  sv_store :: 's
  sv_tasks :: "(string \<times> bytes) list"

definition header :: "request \<Rightarrow> string \<Rightarrow> string" where
  "header rq k = (case map_of (rq_Header rq) k of None \<Rightarrow> [] | Some v \<Rightarrow> v)"

definition query :: "request \<Rightarrow> string \<Rightarrow> string" where
  "query rq k = (case map_of (rq_Query rq) k of None \<Rightarrow> [] | Some v \<Rightarrow> v)"

definition respond :: "nat \<Rightarrow> body \<Rightarrow> 's server \<Rightarrow> response \<times> 's server" where
  "respond st b w = (\<lparr>rs_Status = st, rs_Body = b\<rparr>, w)"

definition backend_prefix :: string where
  "backend_prefix = ''/v1/backend/''"

definition extractID :: "request \<Rightarrow> string" where
  "extractID rq =
     (case str_index (rq_Path rq) backend_prefix of
        Some idx \<Rightarrow> drop (idx + length backend_prefix) (rq_Path rq)
      | None \<Rightarrow> rq_Param rq)"

definition unit_not_found :: "string \<Rightarrow> string" where
  "unit_not_found i =
     ''Unit not found. Please create the unit first using '' @ quoted (''taco unit create '' @ i) @
     '' or the opentaco_unit Terraform resource.''"

section \<open>The handlers\<close>

definition GetState :: "'s state_ops \<Rightarrow> request \<Rightarrow> 's server \<Rightarrow> response \<times> 's server" where
  "GetState ops rq w =
     (case so_Download ops (extractID rq) (sv_store w) of
        (Inl e, s) \<Rightarrow>
          (let w1 = w\<lparr>sv_store := s\<rparr> in
           if e = ErrNotFound then respond 404 NoContent w1
           else respond 500 (JsonError ''Failed to retrieve state'') w1)
      | (Inr data, s) \<Rightarrow> respond 200 (Blob data) (w\<lparr>sv_store := s\<rparr>))"

text \<open>The lock ID of an update, from the header or the query.\<close>

definition update_lock_id :: "request \<Rightarrow> string" where
  "update_lock_id rq =
     (let lockID = header rq ''X-Terraform-Lock-ID'';
          lockID = (if lockID = [] then query rq ''ID'' else lockID)
      in if lockID = [] then query rq ''id'' else lockID)"

text \<open>The current lock, for the answer; its error is dropped, with no lock then.\<close>

definition current_lock :: "'s state_ops \<Rightarrow> string \<Rightarrow> 's \<Rightarrow> lock_info option \<times> 's" where
  "current_lock ops i s =
     (case so_GetLock ops i s of (Inl _, s') \<Rightarrow> (None, s') | (Inr l, s') \<Rightarrow> (l, s'))"

definition UpdateState ::
  "'s state_ops \<Rightarrow> backend_env \<Rightarrow> request \<Rightarrow> 's server \<Rightarrow> response \<times> 's server" where
  "UpdateState ops env rq w =
     (let i = extractID rq in
      case so_Get ops i (sv_store w) of
        (Inl e, s) \<Rightarrow>
          (let w1 = w\<lparr>sv_store := s\<rparr> in
           if e = ErrNotFound
           then respond 404 (JsonError (unit_not_found i)) w1
           else respond 500 (JsonError ''Failed to check unit existence'') w1)
      | (Inr _, s) \<Rightarrow>
          (case rq_Body rq of
             None \<Rightarrow> respond 400 (JsonError ''Failed to read request body'') (w\<lparr>sv_store := s\<rparr>)
           | Some data \<Rightarrow>
               (case so_Upload ops (be_now env) i data (update_lock_id rq) s of
                  (Inl e, s1) \<Rightarrow>
                    if e = ErrLockConflict then
                      (case current_lock ops i s1 of
                         (Some lock, s2) \<Rightarrow> respond 409 (LockBody lock) (w\<lparr>sv_store := s2\<rparr>)
                       | (None, s2) \<Rightarrow>
                           respond 409 (JsonError ''State is locked'') (w\<lparr>sv_store := s2\<rparr>))
                    else respond 500 (JsonError ''Failed to update state'') (w\<lparr>sv_store := s1\<rparr>)
                | (Inr _, s1) \<Rightarrow>
                    respond 200 NoContent
                      (w\<lparr>sv_store := s1, sv_tasks := sv_tasks w @ [(i, data)]\<rparr>))))"

definition requested_lock :: "backend_env \<Rightarrow> request \<Rightarrow> lock_info" where
  "requested_lock env rq =
     (let l = (case rq_Body rq of
                 None \<Rightarrow> \<lparr>li_ID = [], li_Who = [], li_Version = [], li_Created = 0\<rparr>
               | Some b \<Rightarrow> if length b > 0 then be_lock env b
                           else \<lparr>li_ID = [], li_Who = [], li_Version = [], li_Created = 0\<rparr>)
      in \<lparr>li_ID = (if li_ID l = [] then be_uuid env else li_ID l),
          li_Who = (if li_Who l = [] then ''terraform'' else li_Who l),
          li_Version = (if li_Version l = [] then ''1.0.0'' else li_Version l),
          li_Created = be_now env\<rparr>)"

definition handler_lock ::
  "'s state_ops \<Rightarrow> backend_env \<Rightarrow> request \<Rightarrow> 's server \<Rightarrow> response \<times> 's server" where
  "handler_lock ops env rq w =
     (let i = extractID rq; lockInfo = requested_lock env rq in
      case so_Lock ops i lockInfo (sv_store w) of
        (Inl e, s) \<Rightarrow>
          (let w1 = w\<lparr>sv_store := s\<rparr> in
           if e = ErrNotFound
           then respond 404 (JsonError (unit_not_found i)) w1
           else if e = ErrLockConflict then
             (case current_lock ops i s of
                (Some currentLock, s1) \<Rightarrow> respond 423 (LockBody currentLock) (w\<lparr>sv_store := s1\<rparr>)
              | (None, s1) \<Rightarrow>
                  respond 409 (JsonError ''State is already locked'') (w\<lparr>sv_store := s1\<rparr>))
           else respond 500 (JsonError ''Failed to acquire lock'') w1)
      | (Inr _, s) \<Rightarrow> respond 200 (LockBody lockInfo) (w\<lparr>sv_store := s\<rparr>))"

definition requested_unlock :: "backend_env \<Rightarrow> request \<Rightarrow> string" where
  "requested_unlock env rq =
     (let i = (case rq_Body rq of None \<Rightarrow> [] | Some b \<Rightarrow> if length b > 0 then be_unlock_id env b else [])
      in if i = [] then header rq ''X-Terraform-Lock-ID'' else i)"

definition handler_unlock ::
  "'s state_ops \<Rightarrow> backend_env \<Rightarrow> request \<Rightarrow> 's server \<Rightarrow> response \<times> 's server" where
  "handler_unlock ops env rq w =
     (let lockID = requested_unlock env rq in
      if lockID = [] then respond 400 (JsonError ''Lock ID required'') w
      else
        (case so_Unlock ops (extractID rq) lockID (sv_store w) of
           (Inl e, s) \<Rightarrow>
             (let w1 = w\<lparr>sv_store := s\<rparr> in
              if e = ErrNotFound then respond 404 (JsonError ''State not found'') w1
              else if e = ErrLockConflict then respond 409 (JsonError ''Lock ID mismatch'') w1
              else respond 500 (JsonError ''Failed to release lock'') w1)
         | (Inr _, s) \<Rightarrow> respond 200 NoContent (w\<lparr>sv_store := s\<rparr>)))"

definition HandleLockUnlock ::
  "'s state_ops \<Rightarrow> backend_env \<Rightarrow> request \<Rightarrow> 's server \<Rightarrow> response \<times> 's server" where
  "HandleLockUnlock ops env rq w =
     (if rq_Method rq = ''LOCK'' then handler_lock ops env rq w
      else if rq_Method rq = ''UNLOCK'' then handler_unlock ops env rq w
      else respond 405 (JsonError ''Method not allowed'') w)"

text \<open>The routes of \<open>routes.go\<close>: reads and updates, and all else to the locks.\<close>

definition backend_route ::
  "'s state_ops \<Rightarrow> backend_env \<Rightarrow> request \<Rightarrow> 's server \<Rightarrow> response \<times> 's server" where
  "backend_route ops env rq w =
     (if rq_Method rq = ''GET'' then GetState ops rq w
      else if rq_Method rq = ''POST'' \<or> rq_Method rq = ''PUT'' then UpdateState ops env rq w
      else HandleLockUnlock ops env rq w)"

text \<open>What the server does next: answer a request, or run the first background task.\<close>

datatype server_step = Serve backend_env request | RunTask graph_env

definition server_step :: "'s state_ops \<Rightarrow> server_step \<Rightarrow> 's server \<Rightarrow> 's server" where
  "server_step ops st w =
     (case st of
        Serve env rq \<Rightarrow> snd (backend_route ops env rq w)
      | RunTask genv \<Rightarrow>
          (case sv_tasks w of
             [] \<Rightarrow> w
           | (u, d) # ts \<Rightarrow>
               w\<lparr>sv_store := UpdateGraphOnWrite ops genv u d (sv_store w), sv_tasks := ts\<rparr>))"

text \<open>The lock a request carries.\<close>

definition carried_lock :: "backend_env \<Rightarrow> request \<Rightarrow> string" where
  "carried_lock env rq =
     (if rq_Method rq = ''POST'' \<or> rq_Method rq = ''PUT'' then update_lock_id rq
      else if rq_Method rq = ''UNLOCK'' then requested_unlock env rq else [])"

end
