(* ===== verification/DepGraphProps.thy ===== *)
theory DepGraphProps
  imports DepGraph MemStoreProps
begin

text \<open>
  What the dependency graph shows: the colour of a unit in terms of reachability, how a write moves
  an edge between its statuses, and that refreshing the graph touches nothing but the graph's own
  unit and gives its lock back.
\<close>

section \<open>The search\<close>

definition edge_rel :: "edge list \<Rightarrow> (string \<times> string) set" where
  "edge_rel edges = (\<lambda>e. (ed_FromUnit e, ed_ToUnit e)) ` set edges"

lemma set_adj: "set (adj edges u) = edge_rel edges `` {u}"
  by (auto simp: adj_def edge_rel_def)

lemma foldl_visit_next:
  "foldl visit_next (q, seen, yellow) ns = (q', seen', yellow') \<Longrightarrow>
   set seen' = set seen \<union> set ns \<and> set q \<subseteq> set q' \<and> set q' \<subseteq> set q \<union> set ns \<and>
   set seen' - set seen \<subseteq> set q' \<and> set yellow' = set yellow \<union> (set ns - set seen)"
proof (induction ns arbitrary: q seen yellow)
  case (Cons n ns)
  show ?case
  proof (cases "n \<in> set seen")
    case True
    with Cons.prems have "foldl visit_next (q, seen, yellow) ns = (q', seen', yellow')"
      by (simp add: visit_next_simps)
    from Cons.IH [OF this] True show ?thesis by auto
  next
    case False
    with Cons.prems have
      "foldl visit_next (q @ [n], n # seen, n # yellow) ns = (q', seen', yellow')"
      by (simp add: visit_next_simps)
    from Cons.IH [OF this] False show ?thesis by auto
  qed
qed auto

lemma closed_Image_rtrancl: "R \<subseteq> S \<Longrightarrow> E `` S \<subseteq> S \<Longrightarrow> E\<^sup>* `` R \<subseteq> S"
proof
  fix x assume "R \<subseteq> S" and "E `` S \<subseteq> S" and "x \<in> E\<^sup>* `` R"
  then obtain r where "r \<in> S" and "(r, x) \<in> E\<^sup>*" by auto
  from this(2,1) \<open>E `` S \<subseteq> S\<close> show "x \<in> S" by (induction rule: rtrancl_induct) auto
qed

lemma bfs_reaches:
  assumes "set q \<subseteq> set seen" and "R \<subseteq> set seen" and "set seen \<subseteq> (edge_rel edges)\<^sup>* `` R"
    and "\<forall>x \<in> set seen - set q. edge_rel edges `` {x} \<subseteq> set seen" and "set yellow = set seen - R"
  shows "set (bfs edges q seen yellow) = (edge_rel edges)\<^sup>* `` R - R"
  using assms
proof (induction edges q seen yellow rule: bfs.induct)
  case (1 edges seen yellow)
  then have "edge_rel edges `` set seen \<subseteq> set seen" by auto
  with 1 have "(edge_rel edges)\<^sup>* `` R \<subseteq> set seen" by (intro closed_Image_rtrancl)
  with 1 show ?case by auto
next
  case (2 edges cur q seen yellow)
  obtain q1 seen1 yellow1 where
    step: "foldl visit_next (q, seen, yellow) (adj edges cur) = (q1, seen1, yellow1)"
    by (metis prod_cases3)
  note f = foldl_visit_next [OF step, unfolded set_adj]
  have "set (bfs edges q1 seen1 yellow1) = (edge_rel edges)\<^sup>* `` R - R"
  proof (rule "2.IH" [OF step [symmetric] refl refl])
    show "set q1 \<subseteq> set seen1" using f "2.prems"(1) by auto
    show "R \<subseteq> set seen1" using f "2.prems"(2) by auto
    have "cur \<in> (edge_rel edges)\<^sup>* `` R" using "2.prems"(1,3) by auto
    then have "edge_rel edges `` {cur} \<subseteq> (edge_rel edges)\<^sup>* `` R"
      by (auto intro: rtrancl.rtrancl_into_rtrancl)
    with f "2.prems"(3) show "set seen1 \<subseteq> (edge_rel edges)\<^sup>* `` R" by auto
    show "\<forall>x \<in> set seen1 - set q1. edge_rel edges `` {x} \<subseteq> set seen1"
    proof
      fix x assume x: "x \<in> set seen1 - set q1"
      with f have "x \<in> set seen" and "x \<notin> set q" by auto
      with "2.prems"(4) f show "edge_rel edges `` {x} \<subseteq> set seen1"
        by (cases "x = cur") auto
    qed
    show "set yellow1 = set seen1 - R" using f "2.prems"(2,5) by auto
  qed
  then show ?case by (simp add: step)
qed

lemma set_yellow_units:
  "set (yellow_units edges) =
     (edge_rel edges)\<^sup>* `` set (red_units edges) - set (red_units edges)"
  unfolding yellow_units_def by (rule bfs_reaches) auto

lemma set_red_units: "set (red_units edges) = {ed_ToUnit e | e. e \<in> set edges \<and> ed_Status e = ''pending''}"
  by (auto simp: red_units_def)

lemma mset_insert_edges: "mset (foldr insert_edge es []) = mset es"
proof -
  have "mset (insert_edge e fs) = add_mset e (mset fs)" for e fs
    by (induction fs) auto
  then show ?thesis by (induction es) auto
qed

section \<open>One edge\<close>

lemma getString_JString [simp]: "getString env (Some (JString s)) = s"
  by (simp add: getString_def)

lemma attr_update:
  "attr env (AList.update k (JString v) a) j = (if j = k then v else attr env a j)"
  by simp

lemmas edge_keys = put_attr_def Let_def

lemma source_refresh_present:
  assumes "map_of outs fromOut = Some v"
  shows "attr env (fst (source_refresh env (Some outs) fromOut (attr env a ''status'') (a, c))) ''in_digest'' =
      digestValue env v"
    and "attr env (fst (source_refresh env (Some outs) fromOut (attr env a ''status'') (a, c))) ''status'' =
      (if digestValue env v \<noteq> [] \<and> digestValue env v = attr env a ''out_digest''
       then ''ok'' else ''pending'')"
    and "attr env (fst (source_refresh env (Some outs) fromOut (attr env a ''status'') (a, c))) ''out_digest'' =
      attr env a ''out_digest''"
proof -
  define d where "d = digestValue env v"
  define a1 where "a1 = (if attr env a ''in_digest'' \<noteq> d
     then AList.update ''last_in_at'' (JString (ge_now env)) (AList.update ''in_digest'' (JString d) a)
     else a)"
  define new where "new = (if d \<noteq> [] \<and> d = attr env a ''out_digest'' then ''ok'' else ''pending'')"
  have a1: "attr env a1 ''in_digest'' = d" "attr env a1 ''out_digest'' = attr env a ''out_digest''"
      "attr env a1 ''status'' = attr env a ''status''"
    by (cases "attr env a ''in_digest'' = d"; simp add: a1_def)+
  have "fst (source_refresh env (Some outs) fromOut (attr env a ''status'') (a, c)) =
      (if attr env a ''status'' \<noteq> new then AList.update ''status'' (JString new) a1 else a1)"
    using a1(2) unfolding source_refresh_def Let_def option.case assms d_def [symmetric] a1_def new_def
      put_attr_def
    by (cases "attr env a ''in_digest'' = d") auto
  moreover have "attr env (if attr env a ''status'' \<noteq> new then AList.update ''status'' (JString new) a1 else a1) k =
      (if k = ''status'' then new else attr env a1 k)" for k
    using a1(3) by (cases "attr env a ''status'' = new") auto
  ultimately show "attr env (fst (source_refresh env (Some outs) fromOut (attr env a ''status'') (a, c))) ''in_digest'' = digestValue env v"
    and "attr env (fst (source_refresh env (Some outs) fromOut (attr env a ''status'') (a, c))) ''status'' =
      (if digestValue env v \<noteq> [] \<and> digestValue env v = attr env a ''out_digest'' then ''ok'' else ''pending'')"
    and "attr env (fst (source_refresh env (Some outs) fromOut (attr env a ''status'') (a, c))) ''out_digest'' =
      attr env a ''out_digest''"
    using a1 by (simp_all add: d_def new_def)
qed

lemma source_refresh_absent:
  assumes "outputs = None \<or> (\<exists>outs. outputs = Some outs \<and> map_of outs fromOut = None)"
  shows "attr env (fst (source_refresh env outputs fromOut (attr env a ''status'') (a, c))) ''status'' =
      ''unknown''"
    and "attr env (fst (source_refresh env outputs fromOut (attr env a ''status'') (a, c))) ''out_digest'' =
      attr env a ''out_digest''"
    and "attr env (fst (source_refresh env outputs fromOut (attr env a ''status'') (a, c))) ''in_digest'' =
      attr env a ''in_digest''"
proof -
  have eq: "source_refresh env outputs fromOut st ac =
      (if st \<noteq> ''unknown'' then put_attr ''status'' ''unknown'' ac else ac)" for st ac
    using assms by (elim disjE exE conjE) (simp_all add: source_refresh_def)
  show "attr env (fst (source_refresh env outputs fromOut (attr env a ''status'') (a, c))) ''status'' =
      ''unknown''"
    and "attr env (fst (source_refresh env outputs fromOut (attr env a ''status'') (a, c))) ''out_digest'' =
      attr env a ''out_digest''"
    and "attr env (fst (source_refresh env outputs fromOut (attr env a ''status'') (a, c))) ''in_digest'' =
      attr env a ''in_digest''"
    by (simp_all add: eq put_attr_def)
qed

lemma source_refresh_frame:
  assumes "j \<noteq> ''in_digest''" and "j \<noteq> ''status''" and "j \<noteq> ''last_in_at''"
  shows "map_of (fst (source_refresh env outputs fromOut st (a, c))) j = map_of a j"
proof -
  have put: "map_of (fst (put_attr ''status'' x ac)) j = map_of (fst ac) j" for x ac
    using assms(2) by (simp add: put_attr_def)
  have "map_of (AList.update ''last_in_at'' x (AList.update ''in_digest'' y a)) j = map_of a j" for x y
    using assms(1,3) by simp
  then have ite: "map_of (fst (if b then (AList.update ''last_in_at'' x (AList.update ''in_digest'' y a), True)
      else (a, c))) j = map_of a j" for b x y
    by (cases b) simp_all
  show ?thesis
    unfolding source_refresh_def Let_def fst_conv
    by (simp only: if_distrib [of "\<lambda>ac. map_of (fst ac) j"] put ite fst_conv if_cancel
        split: option.split) (simp add: assms)
qed

lemma target_acknowledge_attrs:
  shows "attr env (fst (target_acknowledge env (attr env a ''status'') (a, c))) ''in_digest'' =
      attr env a ''in_digest''"
    and "attr env (fst (target_acknowledge env (attr env a ''status'') (a, c))) ''out_digest'' =
      (if attr env a ''in_digest'' = [] then attr env a ''out_digest'' else attr env a ''in_digest'')"
    and "attr env (fst (target_acknowledge env (attr env a ''status'') (a, c))) ''status'' =
      (if attr env a ''in_digest'' = [] then attr env a ''status'' else ''ok'')"
  by (simp_all add: target_acknowledge_def put_attr_def Let_def)

lemma target_acknowledge_frame:
  assumes "j \<noteq> ''out_digest''" and "j \<noteq> ''status''" and "j \<noteq> ''last_out_at''"
  shows "map_of (fst (target_acknowledge env st (a, c))) j = map_of a j"
  using assms by (simp add: target_acknowledge_def put_attr_def Let_def)


lemma update_edge_cases:
  "update_edge env n outputs a =
     (let ac1 = (if normalizeUnitID (attr env a ''from_unit_id'') = n
                 then source_refresh env outputs (attr env a ''from_output'') (attr env a ''status'') (a, False)
                 else (a, False))
      in if normalizeUnitID (attr env a ''to_unit_id'') = n
         then target_acknowledge env (attr env a ''status'') ac1 else ac1)"
  by (simp add: update_edge_def Let_def)

lemma update_edge_source:
  "normalizeUnitID (attr env a ''from_unit_id'') = n \<Longrightarrow>
   normalizeUnitID (attr env a ''to_unit_id'') \<noteq> n \<Longrightarrow>
   fst (update_edge env n outputs a) =
     fst (source_refresh env outputs (attr env a ''from_output'') (attr env a ''status'') (a, False))"
  by (simp add: update_edge_cases)

lemma update_edge_target:
  "normalizeUnitID (attr env a ''from_unit_id'') \<noteq> n \<Longrightarrow>
   normalizeUnitID (attr env a ''to_unit_id'') = n \<Longrightarrow>
   fst (update_edge env n outputs a) =
     fst (target_acknowledge env (attr env a ''status'') (a, False))"
  by (simp add: update_edge_cases)

lemma missing_output:
  "\<forall>outs. outputs = Some outs \<longrightarrow> map_of outs out = None \<Longrightarrow>
   outputs = None \<or> (\<exists>outs. outputs = Some outs \<and> map_of outs out = None)"
  by (cases outputs) auto

lemma update_edge_frame:
  assumes "j \<noteq> ''in_digest''" and "j \<noteq> ''out_digest''" and "j \<noteq> ''status''"
    and "j \<noteq> ''last_in_at''" and "j \<noteq> ''last_out_at''"
  shows "map_of (fst (update_edge env n outputs a)) j = map_of a j"
proof -
  have t: "map_of (fst (target_acknowledge env st ac)) j = map_of (fst ac) j" for st ac
    using target_acknowledge_frame [OF assms(2,3,5), of env st "fst ac" "snd ac"] by simp
  show ?thesis
    unfolding update_edge_cases Let_def
    by (simp only: if_distrib [of "\<lambda>ac. map_of (fst ac) j"] t fst_conv if_cancel
        source_refresh_frame [OF assms(1,3,4)])
qed

section \<open>Properties\<close>

text \<open>Claim C21: a unit is shown red exactly when an edge into it is pending, yellow exactly when
  it is not red itself but a chain of edges leads to it from a red unit, and green otherwise; the
  search ends on cyclic graphs too.\<close>

theorem unit_status_colour:
  "status_of edges u =
     (if \<exists>e \<in> set edges. ed_ToUnit e = u \<and> ed_Status e = ''pending'' then ''red''
      else if \<exists>e \<in> set edges. ed_Status e = ''pending'' \<and> (ed_ToUnit e, u) \<in> (edge_rel edges)\<^sup>*
      then ''yellow'' else ''green'')"
proof -
  have r: "u \<in> set (red_units edges) \<longleftrightarrow> (\<exists>e \<in> set edges. ed_ToUnit e = u \<and> ed_Status e = ''pending'')"
    unfolding set_red_units by blast
  have y: "u \<in> set (yellow_units edges) \<longleftrightarrow> u \<notin> set (red_units edges) \<and>
      (\<exists>e \<in> set edges. ed_Status e = ''pending'' \<and> (ed_ToUnit e, u) \<in> (edge_rel edges)\<^sup>*)"
    unfolding set_yellow_units set_red_units by blast
  show ?thesis
    unfolding status_of_def y r by (rule if_cong [OF refl refl]) (rule if_cong, blast+)
qed

text \<open>A write to a unit leaves the edges of other units alone; an edge from it that
  finds its output in the new state carries that output's digest and is ok exactly when the target
  has seen the same digest, and pending otherwise; one that does not becomes unknown; an edge to it
  from another unit is acknowledged, if there is anything to acknowledge.\<close>

theorem edge_after_write:
  fixes env n outputs a
  defines "a' \<equiv> fst (update_edge env n outputs a)"
    and "src \<equiv> normalizeUnitID (attr env a ''from_unit_id'') = n"
    and "tgt \<equiv> normalizeUnitID (attr env a ''to_unit_id'') = n"
  shows "(\<not> src \<longrightarrow> \<not> tgt \<longrightarrow> update_edge env n outputs a = (a, False)) \<and>
    (\<forall>outs v. src \<longrightarrow> \<not> tgt \<longrightarrow> outputs = Some outs \<longrightarrow>
       map_of outs (attr env a ''from_output'') = Some v \<longrightarrow>
       attr env a' ''in_digest'' = digestValue env v \<and>
       attr env a' ''out_digest'' = attr env a ''out_digest'' \<and>
       attr env a' ''status'' = (if digestValue env v \<noteq> [] \<and>
          digestValue env v = attr env a ''out_digest'' then ''ok'' else ''pending'')) \<and>
    (src \<longrightarrow> \<not> tgt \<longrightarrow>
       (\<forall>outs. outputs = Some outs \<longrightarrow> map_of outs (attr env a ''from_output'') = None) \<longrightarrow>
       attr env a' ''status'' = ''unknown'' \<and>
       attr env a' ''in_digest'' = attr env a ''in_digest'' \<and>
       attr env a' ''out_digest'' = attr env a ''out_digest'') \<and>
    (\<not> src \<longrightarrow> tgt \<longrightarrow>
       attr env a' ''in_digest'' = attr env a ''in_digest'' \<and>
       (attr env a ''in_digest'' \<noteq> [] \<longrightarrow>
          attr env a' ''out_digest'' = attr env a ''in_digest'' \<and> attr env a' ''status'' = ''ok''))"
proof (intro conjI allI impI, goal_cases)
  case 1
  then show ?case unfolding src_def tgt_def by (simp add: update_edge_cases)
next
  case (2 outs v)
  with source_refresh_present(1) [OF 2(4)] show ?case
    unfolding src_def tgt_def a'_def by (simp add: update_edge_source)
next
  case (3 outs v)
  with source_refresh_present(3) [OF 3(4)] show ?case
    unfolding src_def tgt_def a'_def by (simp add: update_edge_source)
next
  case (4 outs v)
  with source_refresh_present(2) [OF 4(4)] show ?case
    unfolding src_def tgt_def a'_def by (simp add: update_edge_source)
next
  case 5
  with source_refresh_absent(1) [OF missing_output [OF 5(3)]] show ?case
    unfolding src_def tgt_def a'_def by (simp add: update_edge_source)
next
  case 6
  with source_refresh_absent(3) [OF missing_output [OF 6(3)]] show ?case
    unfolding src_def tgt_def a'_def by (simp add: update_edge_source)
next
  case 7
  with source_refresh_absent(2) [OF missing_output [OF 7(3)]] show ?case
    unfolding src_def tgt_def a'_def by (simp add: update_edge_source)
qed (simp_all add: src_def tgt_def a'_def update_edge_target target_acknowledge_attrs)

definition plain_graph_env :: graph_env where
  "plain_graph_env =
     \<lparr>ge_unmarshal = (\<lambda>_. None), ge_marshal = (\<lambda>_. None), ge_outputs = (\<lambda>_. None),
      ge_quote = (\<lambda>s. s), ge_encode = (\<lambda>_. []), ge_digest = (\<lambda>s. s), ge_nano = 7, ge_now = ''now''\<rparr>"

definition example_edge :: attributes where
  "example_edge = [(''from_unit_id'', JString ''net/''), (''to_unit_id'', JString ''app''),
     (''from_output'', JString ''vpc''), (''out_digest'', JString ''v1''),
     (''status'', JString ''ok'')]"

lemma example_edge_ends:
  "normalizeUnitID (attr plain_graph_env example_edge ''from_unit_id'') = ''net''"
  "normalizeUnitID (attr plain_graph_env example_edge ''to_unit_id'') \<noteq> ''net''"
  "map_of [(''vpc'', JString ''v2'')] (attr plain_graph_env example_edge ''from_output'') =
     Some (JString ''v2'')"
  "digestValue plain_graph_env (JString ''v2'') = ''v2''"
  "attr plain_graph_env example_edge ''out_digest'' = ''v1''"
  by code_simp+

theorem edge_after_write_witness:
  "attr plain_graph_env (fst (update_edge plain_graph_env ''net'' (Some [(''vpc'', JString ''v2'')])
     example_edge)) ''status'' = ''pending''"
  using edge_after_write [where env = plain_graph_env and n = "''net''"
      and outputs = "Some [(''vpc'', JString ''v2'')]" and a = example_edge]
    example_edge_ends by simp

section \<open>The graph's unit\<close>

context state_store
begin

lemma rewrite_graph_frame:
  assumes "inv s"
  shows "inv (rewrite_graph ops env u d s) \<and> holder (rewrite_graph ops env u d s) = holder s \<and>
    (\<forall>k. k \<noteq> key SystemGraphUnitID \<longrightarrow> content (rewrite_graph ops env u d s) k = content s k)"
proof -
  obtain y s1 where dl: "so_Download ops SystemGraphUnitID s = (y, s1)" by force
  note d1 = Download_law [OF assms dl]
  then have "inv s1" by blast
  have up: "inv s2 \<and> holder s2 = holder s1 \<and>
      (\<forall>k. k \<noteq> key SystemGraphUnitID \<longrightarrow> content s2 k = content s1 k)"
    if "s2 = snd (so_Upload ops now SystemGraphUnitID b l s1)" for s2 now b l
    using Upload_law [OF \<open>inv s1\<close>, of now SystemGraphUnitID b l "fst (so_Upload ops now SystemGraphUnitID b l s1)" s2] that
    by auto
  have "rewrite_graph ops env u d s = s1 \<or>
      (\<exists>now b l. rewrite_graph ops env u d s = snd (so_Upload ops now SystemGraphUnitID b l s1))"
    by (auto simp: rewrite_graph_def dl Let_def split: sum.split option.split prod.split)
  with d1 up show ?thesis by auto
qed

lemma UpdateGraphOnWrite_frame:
  assumes "inv s" and "s' = UpdateGraphOnWrite ops env u d s"
  shows "inv s' \<and>
    (\<forall>k. k \<noteq> key SystemGraphUnitID \<longrightarrow> content s' k = content s k \<and> holder s' k = holder s k) \<and>
    (holder s (key SystemGraphUnitID) \<noteq> None \<longrightarrow> content s' = content s \<and> holder s' = holder s)"
proof -
  obtain x s1 where lk: "so_Lock ops SystemGraphUnitID (graph_lock env) s = (x, s1)" by force
  note l1 = Lock_law [OF assms(1) lk]
  show ?thesis
  proof (cases x)
    case (Inl e)
    with l1 assms(2) lk show ?thesis by (simp add: UpdateGraphOnWrite_def)
  next
    case (Inr v)
    let ?s2 = "rewrite_graph ops env u d s1"
    obtain v s2 where ul: "so_Unlock ops SystemGraphUnitID (li_ID (graph_lock env)) ?s2 = (v, s2)"
      by force
    have s': "s' = s2"
      using assms(2) lk Inr ul by (simp add: UpdateGraphOnWrite_def)
    from l1 Inr have s1: "inv s1" "content s1 = content s" "holder s (key SystemGraphUnitID) = None"
        "holder s1 = (holder s)(key SystemGraphUnitID \<mapsto> graph_lock env)" by auto
    note r = rewrite_graph_frame [OF s1(1), of env u d]
    have i2: "inv ?s2" using r by blast
    note u = Unlock_law [OF i2 ul]
    show ?thesis
      unfolding s' using r u s1 by (cases "v = Inr ()") auto
  qed
qed

end

context guarded_store
begin

lemma Get_keeps: "inv s \<Longrightarrow> inv (snd (so_Get ops i s)) \<and> guarded content holder k L s (snd (so_Get ops i s))"
  by (rule Get_guarded) (simp_all add: prod_eq_iff)

lemma Download_keeps:
  "inv s \<Longrightarrow> inv (snd (so_Download ops i s)) \<and> guarded content holder k L s (snd (so_Download ops i s))"
  by (rule Download_guarded) (simp_all add: prod_eq_iff)

lemma GetLock_keeps:
  "inv s \<Longrightarrow> inv (snd (so_GetLock ops i s)) \<and> guarded content holder k L s (snd (so_GetLock ops i s))"
  by (rule GetLock_guarded) (simp_all add: prod_eq_iff)

lemma Upload_keeps:
  "inv s \<Longrightarrow> (key i = k \<longrightarrow> l \<noteq> L) \<Longrightarrow>
   inv (snd (so_Upload ops now i d l s)) \<and> guarded content holder k L s (snd (so_Upload ops now i d l s))"
  by (rule Upload_guarded) (simp_all add: prod_eq_iff)

lemma Lock_keeps:
  "inv s \<Longrightarrow> inv (snd (so_Lock ops i l s)) \<and> guarded content holder k L s (snd (so_Lock ops i l s))"
  by (rule Lock_guarded) (simp_all add: prod_eq_iff)

lemma Unlock_keeps:
  "inv s \<Longrightarrow> (key i = k \<longrightarrow> l \<noteq> L) \<Longrightarrow>
   inv (snd (so_Unlock ops i l s)) \<and> guarded content holder k L s (snd (so_Unlock ops i l s))"
  by (rule Unlock_guarded) (simp_all add: prod_eq_iff)

text \<open>Two steps in a row.\<close>

lemma keeps_trans:
  "inv t \<and> guarded content holder k L s t \<Longrightarrow>
   (inv t \<Longrightarrow> inv u \<and> guarded content holder k L t u) \<Longrightarrow>
   inv u \<and> guarded content holder k L s u"
  by (blast intro: guarded_trans)

lemma rewrite_graph_keeps:
  assumes "inv s" and "k \<noteq> key SystemGraphUnitID"
  shows "inv (rewrite_graph ops env u d s) \<and> guarded content holder k L s (rewrite_graph ops env u d s)"
proof -
  obtain y s1 where dl: "so_Download ops SystemGraphUnitID s = (y, s1)" by force
  from Download_keeps [OF assms(1), of SystemGraphUnitID k L] dl
  have s1: "inv s1 \<and> guarded content holder k L s s1" by simp
  have "rewrite_graph ops env u d s = s1 \<or>
      (\<exists>now b l. rewrite_graph ops env u d s = snd (so_Upload ops now SystemGraphUnitID b l s1))"
    by (auto simp: rewrite_graph_def dl Let_def split: sum.split option.split prod.split)
  then show ?thesis
    using s1 keeps_trans [OF s1 Upload_keeps] assms(2) by auto
qed

lemma UpdateGraphOnWrite_keeps:
  assumes "inv s" and "k \<noteq> key SystemGraphUnitID"
  shows "inv (UpdateGraphOnWrite ops env u d s) \<and>
    guarded content holder k L s (UpdateGraphOnWrite ops env u d s)"
proof -
  obtain x s1 where lk: "so_Lock ops SystemGraphUnitID (graph_lock env) s = (x, s1)" by force
  from Lock_keeps [OF assms(1), of SystemGraphUnitID "graph_lock env" k L] lk
  have s1: "inv s1 \<and> guarded content holder k L s s1" by simp
  then have "inv (rewrite_graph ops env u d s1) \<and> guarded content holder k L s (rewrite_graph ops env u d s1)"
    by (rule keeps_trans) (rule rewrite_graph_keeps [OF _ assms(2)])
  then have "inv (snd (so_Unlock ops SystemGraphUnitID (li_ID (graph_lock env)) (rewrite_graph ops env u d s1))) \<and>
      guarded content holder k L s
        (snd (so_Unlock ops SystemGraphUnitID (li_ID (graph_lock env)) (rewrite_graph ops env u d s1)))"
    by (rule keeps_trans) (rule Unlock_keeps, use assms(2) in simp_all)
  with s1 show ?thesis
    by (cases x) (simp_all add: UpdateGraphOnWrite_def lk)
qed

end

lemma mem_Unlock_held:
  assumes "mem_inv env m" and "mem_holder m i = Some l"
  shows "mem_holder (snd (mem_Unlock i (li_ID l) m)) i = None"
proof -
  obtain u where u: "map_of m i = Some u" "um_LockInfo (ud_metadata u) = Some l"
    using assms(2) by (auto simp: mem_holder_def bind_eq_Some_conv)
  with mem_invD [OF assms(1) u(1)] show ?thesis
    by (simp add: mem_Unlock_def unit_inv_def)
qed

text \<open>On the store in memory, refreshing the graph after a write changes no other unit,
  does nothing at all while the graph's unit is locked or missing, and leaves every lock as it was,
  its own given back on every path.\<close>

theorem graph_refresh_frame:
  assumes "mem_inv menv m" and "m' = UpdateGraphOnWrite (mem_ops menv) env u d m"
  shows "(\<forall>k. k \<noteq> SystemGraphUnitID \<longrightarrow> mem_content m' k = mem_content m k) \<and>
    mem_holder m' = mem_holder m \<and>
    (mem_holder m SystemGraphUnitID \<noteq> None \<or> mem_content m SystemGraphUnitID = None \<longrightarrow>
       mem_content m' = mem_content m)"
proof -
  note frame = mem.UpdateGraphOnWrite_frame [OF assms]
  obtain x m1 where lk: "mem_Lock SystemGraphUnitID (graph_lock env) m = (x, m1)" by force
  have h: "mem_holder m' SystemGraphUnitID = mem_holder m SystemGraphUnitID"
  proof (cases x)
    case (Inl e)
    with lk assms(2) have "m' = m1" by (simp add: UpdateGraphOnWrite_def mem_ops_def)
    with mem.Lock_law [of menv m SystemGraphUnitID "graph_lock env" x m1] assms(1) lk Inl
    show ?thesis by (simp add: mem_ops_def)
  next
    case (Inr v)
    let ?m2 = "rewrite_graph (mem_ops menv) env u d m1"
    from mem.Lock_law [of menv m SystemGraphUnitID "graph_lock env" x m1] assms(1) lk Inr
    have m1: "mem_inv menv m1" "mem_holder m SystemGraphUnitID = None"
        "mem_holder m1 = (mem_holder m)(SystemGraphUnitID \<mapsto> graph_lock env)"
      by (simp_all add: mem_ops_def)
    from mem.rewrite_graph_frame [OF m1(1), of env u d]
    have m2: "mem_inv menv ?m2" "mem_holder ?m2 SystemGraphUnitID = Some (graph_lock env)"
      by (simp_all add: m1(3))
    from lk Inr assms(2)
    have "m' = snd (mem_Unlock SystemGraphUnitID (li_ID (graph_lock env)) ?m2)"
      by (simp add: UpdateGraphOnWrite_def mem_ops_def)
    with mem_Unlock_held [OF m2] m1(2) show ?thesis by simp
  qed
  show ?thesis
  proof (intro conjI impI)
    show "\<forall>k. k \<noteq> SystemGraphUnitID \<longrightarrow> mem_content m' k = mem_content m k"
      using frame by blast
    show "mem_holder m' = mem_holder m"
    proof
      fix k show "mem_holder m' k = mem_holder m k"
        using frame h by (cases "k = SystemGraphUnitID") auto
    qed
    assume "mem_holder m SystemGraphUnitID \<noteq> None \<or> mem_content m SystemGraphUnitID = None"
    then show "mem_content m' = mem_content m"
    proof
      assume "mem_content m SystemGraphUnitID = None"
      then show ?thesis
        using assms(2) by (simp add: UpdateGraphOnWrite_def mem_ops_def mem_Lock_def mem_content_def)
    qed (use frame in blast)
  qed
qed

definition graph_store :: mem_store where
  "graph_store = snd (mem_Upload example_env 1 SystemGraphUnitID ''{}'' [] (snd (mem_Upload example_env 1 ''net'' ''x'' [] [])))"

theorem graph_refresh_frame_witness:
  "mem_content (UpdateGraphOnWrite (mem_ops example_env)
     (plain_graph_env\<lparr>ge_unmarshal := (\<lambda>_. Some \<lparr>tf_Serial = 1, tf_Lineage = [], tf_Resources =
        [\<lparr>tf_Mode = [], tf_Type = ''opentaco_dependency'', tf_Name = [], tf_Provider = [],
          tf_Instances = [\<lparr>tf_Attributes = Some example_edge\<rparr>]\<rparr>]\<rparr>),
        ge_marshal := (\<lambda>_. Some ''new'')\<rparr>) ''net'' ''y'' graph_store) ''net'' = Some ''x''"
proof -
  have inv: "mem_inv example_env graph_store"
    using mem_calls_inv [of example_env "[]"
        "[CUpload 1 ''net'' ''x'' [], CUpload 1 SystemGraphUnitID ''{}'' []]"]
    by (simp add: graph_store_def mem_call_def mem_inv_def)
  have "''net'' \<noteq> SystemGraphUnitID" and "mem_content graph_store ''net'' = Some ''x''"
    by (simp add: SystemGraphUnitID_def, code_simp)
  with graph_refresh_frame [OF inv refl] show ?thesis by simp
qed

end
