(* ===== verification/BackendProps.thy ===== *)
theory BackendProps
  imports BackendHandler DepGraphProps
begin

text \<open>
  What a Terraform client can rely on when it talks to the state server: its lock protects the
  state against everyone who does not present it, also while the graph is refreshed in the
  background, and the answers tell the truth about the store.
\<close>

section \<open>Over any store that keeps the contract\<close>

lemma respond_store [simp]: "sv_store (snd (respond st b w)) = sv_store w"
  by (simp add: respond_def)

lemma fst_respond [simp]: "fst (respond st b w) = \<lparr>rs_Status = st, rs_Body = b\<rparr>"
  by (simp add: respond_def)

context state_store
begin

lemma current_lock_law:
  assumes "inv s" and "current_lock ops i s = (l, s')"
  shows "inv s' \<and> content s' = content s \<and> holder s' = holder s \<and>
    (l \<noteq> None \<longrightarrow> holder s (key i) = l)"
proof -
  obtain x t where g: "so_GetLock ops i s = (x, t)" by force
  with GetLock_law [OF assms(1) g] assms(2) show ?thesis
    by (cases x) (auto simp: current_lock_def)
qed

lemma GetState_law:
  assumes "inv (sv_store w)" and "GetState ops rq w = (r, w')"
  shows "inv (sv_store w') \<and> content (sv_store w') = content (sv_store w) \<and>
    holder (sv_store w') = holder (sv_store w) \<and>
    (rs_Status r = 200 \<longrightarrow> (\<exists>d. content (sv_store w) (key (extractID rq)) = Some d \<and> rs_Body r = Blob d))"
proof -
  obtain x s where d: "so_Download ops (extractID rq) (sv_store w) = (x, s)" by force
  with Download_law [OF assms(1) d] assms(2) show ?thesis
    by (cases x) (auto simp: GetState_def respond_def Let_def split: if_splits)
qed

lemma UpdateState_law:
  assumes "inv (sv_store w)" and "UpdateState ops env rq w = (r, w')"
  shows "inv (sv_store w') \<and> holder (sv_store w') = holder (sv_store w) \<and>
    (content (sv_store w') = content (sv_store w) \<or>
     (\<exists>d. rq_Body rq = Some d \<and>
        content (sv_store w') = (content (sv_store w))(key (extractID rq) \<mapsto> d) \<and>
        (\<forall>l. holder (sv_store w) (key (extractID rq)) = Some l \<longrightarrow> li_ID l = update_lock_id rq))) \<and>
    (rs_Status r = 200 \<longrightarrow> rq_Body rq \<noteq> None \<and>
       content (sv_store w') (key (extractID rq)) = rq_Body rq)"
proof -
  obtain g s where g: "so_Get ops (extractID rq) (sv_store w) = (g, s)" by force
  note gl = Get_law [OF assms(1) g]
  show ?thesis
  proof (cases "\<exists>m d. g = Inr m \<and> rq_Body rq = Some d")
    case False
    with assms(2) gl g show ?thesis
      by (cases g) (auto simp: UpdateState_def respond_def Let_def split: if_splits option.splits)
  next
    case True
    then obtain m d where md: "g = Inr m" "rq_Body rq = Some d" by blast
    obtain u s1 where u: "so_Upload ops (be_now env) (extractID rq) d (update_lock_id rq) s = (u, s1)"
      by force
    from gl have "inv s" by blast
    note ul = Upload_law [OF this u]
    obtain l s2 where c: "current_lock ops (extractID rq) s1 = (l, s2)" by force
    from ul have "inv s1" by blast
    note cl = current_lock_law [OF this c]
    show ?thesis
    proof (cases u)
      case (Inl e)
      have "rs_Status r \<noteq> 200 \<and> (sv_store w' = s1 \<or> sv_store w' = s2)"
        using assms(2) g md u c Inl
        by (auto simp: UpdateState_def respond_def Let_def split: if_splits option.splits)
      with gl ul cl md show ?thesis by auto
    next
      case (Inr v)
      then have "sv_store w' = s1" and "u = Inr ()"
        using assms(2) g md u by (auto simp: UpdateState_def respond_def Let_def)
      with gl ul md show ?thesis by auto
    qed
  qed
qed

lemma handler_lock_law:
  assumes "inv (sv_store w)" and "handler_lock ops env rq w = (r, w')"
  shows "inv (sv_store w') \<and> content (sv_store w') = content (sv_store w) \<and>
    (rs_Status r = 200 \<longrightarrow> holder (sv_store w) (key (extractID rq)) = None \<and>
       holder (sv_store w') =
         (holder (sv_store w))(key (extractID rq) \<mapsto> requested_lock env rq) \<and>
       rs_Body r = LockBody (requested_lock env rq)) \<and>
    (rs_Status r \<noteq> 200 \<longrightarrow> holder (sv_store w') = holder (sv_store w))"
proof -
  obtain x s where l: "so_Lock ops (extractID rq) (requested_lock env rq) (sv_store w) = (x, s)" by force
  note ll = Lock_law [OF assms(1) l]
  obtain cl s1 where c: "current_lock ops (extractID rq) s = (cl, s1)" by force
  from ll have "inv s" by blast
  note cl = current_lock_law [OF this c]
  show ?thesis
  proof (cases x)
    case (Inl e)
    have "rs_Status r \<noteq> 200 \<and> (sv_store w' = s \<or> sv_store w' = s1)"
      using assms(2) l c Inl
      by (auto simp: handler_lock_def respond_def Let_def split: if_splits option.splits)
    with ll cl Inl show ?thesis by auto
  next
    case (Inr v)
    then have "sv_store w' = s" and "r = \<lparr>rs_Status = 200, rs_Body = LockBody (requested_lock env rq)\<rparr>"
      using assms(2) l by (auto simp: handler_lock_def respond_def Let_def)
    with ll Inr show ?thesis by simp
  qed
qed

lemma handler_unlock_law:
  assumes "inv (sv_store w)" and "handler_unlock ops env rq w = (r, w')"
  shows "inv (sv_store w') \<and> content (sv_store w') = content (sv_store w) \<and>
    (rs_Status r = 200 \<longrightarrow>
       (\<exists>l. holder (sv_store w) (key (extractID rq)) = Some l \<and> li_ID l = requested_unlock env rq) \<and>
       holder (sv_store w') = (holder (sv_store w))(key (extractID rq) := None)) \<and>
    (rs_Status r \<noteq> 200 \<longrightarrow> holder (sv_store w') = holder (sv_store w))"
proof -
  obtain x s where u: "so_Unlock ops (extractID rq) (requested_unlock env rq) (sv_store w) = (x, s)"
    by force
  note ul = Unlock_law [OF assms(1) u]
  show ?thesis
  proof (cases "requested_unlock env rq = []")
    case True
    with assms show ?thesis by (auto simp: handler_unlock_def respond_def)
  next
    case False
    with assms(2) ul u show ?thesis
      by (cases x) (auto simp: handler_unlock_def respond_def Let_def split: if_splits)
  qed
qed

end

section \<open>Over any store that protects locked units\<close>

context guarded_store
begin

lemma current_lock_keeps:
  "inv s \<Longrightarrow> inv (snd (current_lock ops i s)) \<and> guarded content holder k L s (snd (current_lock ops i s))"
  using GetLock_keeps [of s i k L] by (auto simp: current_lock_def split: prod.split sum.split)

lemma GetState_keeps:
  "inv (sv_store w) \<Longrightarrow>
   inv (sv_store (snd (GetState ops rq w))) \<and>
   guarded content holder k L (sv_store w) (sv_store (snd (GetState ops rq w)))"
  using Download_keeps [of "sv_store w" "extractID rq" k L]
  by (auto simp: GetState_def Let_def split: prod.split sum.split)

lemma UpdateState_keeps:
  assumes "inv (sv_store w)" and "key (extractID rq) = k \<longrightarrow> update_lock_id rq \<noteq> L"
  shows "inv (sv_store (snd (UpdateState ops env rq w))) \<and>
    guarded content holder k L (sv_store w) (sv_store (snd (UpdateState ops env rq w)))"
proof -
  obtain g s where g: "so_Get ops (extractID rq) (sv_store w) = (g, s)" by force
  from Get_keeps [OF assms(1), of "extractID rq" k L] g
  have s: "inv s \<and> guarded content holder k L (sv_store w) s" by simp
  show ?thesis
  proof (cases "\<exists>m d. g = Inr m \<and> rq_Body rq = Some d")
    case False
    with g have "sv_store (snd (UpdateState ops env rq w)) = s"
      by (cases g) (auto simp: UpdateState_def Let_def split: option.split)
    with s show ?thesis by simp
  next
    case True
    then obtain m d where md: "g = Inr m" "rq_Body rq = Some d" by blast
    obtain u s1 where u: "so_Upload ops (be_now env) (extractID rq) d (update_lock_id rq) s = (u, s1)"
      by force
    obtain l s2 where c: "current_lock ops (extractID rq) s1 = (l, s2)" by force
    have s1: "inv s1 \<and> guarded content holder k L (sv_store w) s1"
      using keeps_trans [OF s Upload_keeps [OF _ assms(2)]] s u by (metis snd_conv)
    then have s2: "inv s2 \<and> guarded content holder k L (sv_store w) s2"
      using keeps_trans [OF s1 current_lock_keeps] c by (metis snd_conv)
    have "sv_store (snd (UpdateState ops env rq w)) \<in> {s1, s2}"
      using g md u c by (auto simp: UpdateState_def Let_def split: sum.split option.split)
    with s1 s2 show ?thesis by auto
  qed
qed

lemma handler_lock_keeps:
  assumes "inv (sv_store w)"
  shows "inv (sv_store (snd (handler_lock ops env rq w))) \<and>
    guarded content holder k L (sv_store w) (sv_store (snd (handler_lock ops env rq w)))"
proof -
  obtain x s where l: "so_Lock ops (extractID rq) (requested_lock env rq) (sv_store w) = (x, s)" by force
  obtain cl s1 where c: "current_lock ops (extractID rq) s = (cl, s1)" by force
  from Lock_keeps [OF assms, of "extractID rq" "requested_lock env rq" k L] l
  have s: "inv s \<and> guarded content holder k L (sv_store w) s" by simp
  then have s1: "inv s1 \<and> guarded content holder k L (sv_store w) s1"
    using keeps_trans [OF s current_lock_keeps] c by (metis snd_conv)
  have "sv_store (snd (handler_lock ops env rq w)) \<in> {s, s1}"
    using l c by (auto simp: handler_lock_def Let_def split: sum.split option.split)
  with s s1 show ?thesis by auto
qed

lemma handler_unlock_keeps:
  assumes "inv (sv_store w)" and "key (extractID rq) = k \<longrightarrow> requested_unlock env rq \<noteq> L"
  shows "inv (sv_store (snd (handler_unlock ops env rq w))) \<and>
    guarded content holder k L (sv_store w) (sv_store (snd (handler_unlock ops env rq w)))"
  using Unlock_keeps [OF assms] assms(1)
  by (auto simp: handler_unlock_def Let_def guarded_refl split: prod.split sum.split)

lemma backend_route_keeps:
  assumes "inv (sv_store w)" and "key (extractID rq) = k \<longrightarrow> carried_lock env rq \<noteq> L"
  shows "inv (sv_store (snd (backend_route ops env rq w))) \<and>
    guarded content holder k L (sv_store w) (sv_store (snd (backend_route ops env rq w)))"
proof -
  obtain r w' where rw: "backend_route ops env rq w = (r, w')" by force
  consider (get) "GetState ops rq w = (r, w')"
    | (put) "UpdateState ops env rq w = (r, w')" "carried_lock env rq = update_lock_id rq"
    | (lock) "handler_lock ops env rq w = (r, w')"
    | (unlock) "handler_unlock ops env rq w = (r, w')" "carried_lock env rq = requested_unlock env rq"
    | (other) "w' = w"
    using rw
    by (auto simp: backend_route_def HandleLockUnlock_def carried_lock_def respond_def
        split: if_splits)
  then have "inv (sv_store w') \<and> guarded content holder k L (sv_store w) (sv_store w')"
  proof cases
    case get
    with GetState_keeps [OF assms(1), of rq k L] show ?thesis by simp
  next
    case put
    with UpdateState_keeps [OF assms(1), of rq k L env] assms(2) show ?thesis by simp
  next
    case lock
    with handler_lock_keeps [OF assms(1), of env rq k L] show ?thesis by simp
  next
    case unlock
    with handler_unlock_keeps [OF assms(1), of rq k env L] assms(2) show ?thesis by simp
  next
    case other
    with assms(1) show ?thesis by (simp add: guarded_refl)
  qed
  then show ?thesis by (simp add: rw)
qed

lemma server_step_keeps:
  assumes "inv (sv_store w)" and "k \<noteq> key SystemGraphUnitID"
    and "\<forall>env rq. st = Serve env rq \<longrightarrow> key (extractID rq) = k \<longrightarrow> carried_lock env rq \<noteq> L"
  shows "inv (sv_store (server_step ops st w)) \<and>
    guarded content holder k L (sv_store w) (sv_store (server_step ops st w))"
proof (cases st)
  case (Serve env rq)
  with assms(3) backend_route_keeps [OF assms(1), of rq k env L] show ?thesis
    by (simp add: server_step_def)
next
  case (RunTask genv)
  with assms(1,2) UpdateGraphOnWrite_keeps [OF assms(1,2)] show ?thesis
    by (auto simp: server_step_def guarded_refl split: list.split)
qed

end

text \<open>A run of the server, in which each step may reach the store with operations of its own: those
  of the caller's organisation and principal.\<close>

lemma server_run_keeps:
  assumes "\<And>c. guarded_store (ops c) key content holder I"
    and "I (sv_store w)" and "k \<noteq> key SystemGraphUnitID"
    and "\<forall>c env rq. (c, Serve env rq) \<in> set sts \<longrightarrow> key (extractID rq) = k \<longrightarrow> carried_lock env rq \<noteq> L"
  shows "I (sv_store (fold (\<lambda>(c, st). server_step (ops c) st) sts w)) \<and>
    guarded content holder k L (sv_store w) (sv_store (fold (\<lambda>(c, st). server_step (ops c) st) sts w))"
  using assms(2,4)
proof (induction sts arbitrary: w)
  case Nil
  then show ?case by (simp add: guarded_refl)
next
  case (Cons cst sts)
  obtain c st where cst: "cst = (c, st)" by force
  have "\<forall>env rq. st = Serve env rq \<longrightarrow> key (extractID rq) = k \<longrightarrow> carried_lock env rq \<noteq> L"
    using Cons.prems(2) cst by auto
  note s = guarded_store.server_step_keeps [OF assms(1) Cons.prems(1) assms(3) this, of c]
  then have i: "I (sv_store (server_step (ops c) st w))" by blast
  note Cons.IH [OF i]
  then show ?case
    using s Cons.prems(2) cst by (auto intro: guarded_trans)
qed

section \<open>Properties\<close>


text \<open>A client that asks for the lock of a unit someone else holds is answered with 500,
  not with the 423 and the holder's lock that the handler has for a conflict: the store in memory
  wraps the conflict, and the handler compares it by identity.\<close>

theorem lock_conflict_answered_500:
  assumes "mem_inv menv (sv_store w)" and "mem_holder (sv_store w) (extractID rq) = Some l"
  shows "handler_lock (mem_ops menv) env rq w =
    (\<lparr>rs_Status = 500, rs_Body = JsonError ''Failed to acquire lock''\<rparr>, w)"
proof -
  obtain u where u: "map_of (sv_store w) (extractID rq) = Some u" "um_LockInfo (ud_metadata u) = Some l"
    using assms(2) by (auto simp: mem_holder_def bind_eq_Some_conv)
  from mem_invD [OF assms(1) u(1)] u(2) have "um_Locked (ud_metadata u)"
    by (simp add: unit_inv_def)
  with u show ?thesis
    by (simp add: handler_lock_def mem_ops_def mem_Lock_def Let_def respond_def)
qed

section \<open>Witnesses\<close>

definition held_lock :: lock_info where
  "held_lock = \<lparr>li_ID = ''L1'', li_Who = ''me'', li_Version = ''1'', li_Created = 3\<rparr>"

definition locked_server :: "mem_store server" where
  "locked_server =
     \<lparr>sv_store = snd (mem_Lock ''net'' held_lock (snd (mem_Upload example_env 1 ''net'' ''x'' [] []))),
      sv_tasks = [(''app'', ''y'')]\<rparr>"

definition example_backend_env :: backend_env where
  "example_backend_env =
     \<lparr>be_lock = (\<lambda>_. held_lock), be_unlock_id = (\<lambda>b. b), be_uuid = ''u'', be_now = 9\<rparr>"

definition example_request :: "string \<Rightarrow> string \<Rightarrow> request" where
  "example_request method b =
     \<lparr>rq_Method = method, rq_Path = ''/v1/backend/net'', rq_Param = [], rq_Body = Some b,
      rq_Header = [], rq_Query = []\<rparr>"

lemma locked_server_facts:
  "mem_inv example_env (sv_store locked_server)"
  "mem_holder (sv_store locked_server) ''net'' = Some held_lock"
  "mem_content (sv_store locked_server) ''net'' = Some ''x''"
  "extractID (example_request m b) = ''net''"
proof -
  show "mem_inv example_env (sv_store locked_server)"
    using mem_calls_inv [of example_env "[]" "[CUpload 1 ''net'' ''x'' [], CLock ''net'' held_lock]"]
    by (simp add: locked_server_def mem_call_def mem_inv_def)
  have "str_index ''/v1/backend/net'' backend_prefix = Some 0" by code_simp
  then show "extractID (example_request m b) = ''net''"
    by (simp add: extractID_def example_request_def backend_prefix_def)
qed code_simp+

lemma example_method: "rq_Method (example_request m b) = m"
  by (simp add: example_request_def)


theorem lock_conflict_answered_500_witness:
  "rs_Status (fst (handler_lock (mem_ops example_env) example_backend_env
     (example_request ''LOCK'' ''b'') locked_server)) = 500"
  using lock_conflict_answered_500 [OF locked_server_facts(1), of "example_request ''LOCK'' ''b''" held_lock]
    locked_server_facts(2,4) by simp

end
