(* ===== verification/AuthRepo.thy ===== *)
theory AuthRepo
  imports TacoRbacProps UnitRepoProps BackendProps
begin

text \<open>
  The repository that the handlers get when access control is on
  (\<open>taco/internal/repositories/authorizing_repository.go\<close>): every operation first asks the manager
  of \<open>TacoRbac\<close> whether the caller may do it, then passes on to the repository it wraps.
\<close>

section \<open>The decorator\<close>

text \<open>What a request's context carries, and the state: the access tables and the wrapped store.\<close>

record context_info =
  cx_principal :: "principal option"
  cx_org :: "string option"

record 's auth_state =
  as_rbac :: "rbac_tables fdb"
  as_repo :: 's

definition on_repo :: "('a, 's) store_op \<Rightarrow> ('a, 's auth_state) store_op" where
  "on_repo f st = (case f (as_repo st) of (x, s) \<Rightarrow> (x, st\<lparr>as_repo := s\<rparr>))"

definition on_rbac :: "'a rbac_act \<Rightarrow> ('a, 's auth_state) store_op" where
  "on_rbac f st =
     (case f (as_rbac st) of
        (Ok a, d) \<Rightarrow> (Inr a, st\<lparr>as_rbac := d\<rparr>)
      | (Err e, d) \<Rightarrow> (Inl (OtherError e), st\<lparr>as_rbac := d\<rparr>)
      | (Panic m, d) \<Rightarrow> (Inl Panicked, st\<lparr>as_rbac := d\<rparr>))"

definition with_principal ::
  "context_info \<Rightarrow> (principal \<Rightarrow> ('a, 's auth_state) store_op) \<Rightarrow> ('a, 's auth_state) store_op" where
  "with_principal cx f st =
     (case cx_principal cx of None \<Rightarrow> (Inl ErrUnauthorized, st) | Some pr \<Rightarrow> f pr st)"

definition check_then ::
  "rbac_env \<Rightarrow> context_info \<Rightarrow> string \<Rightarrow> string \<Rightarrow> ('a, 's) store_op \<Rightarrow> ('a, 's auth_state) store_op" where
  "check_then env cx action resource f =
     with_principal cx (\<lambda>pr.
       op_bind (on_rbac (Can env (cx_org cx) pr action resource)) (\<lambda>allowed st.
         if \<not> allowed then (Inl ErrForbidden, st) else on_repo f st))"

definition auth_Get :: "rbac_env \<Rightarrow> context_info \<Rightarrow> 's state_ops \<Rightarrow> string \<Rightarrow> (unit_metadata, 's auth_state) store_op" where
  "auth_Get env cx ops i = check_then env cx ActionUnitRead i (so_Get ops i)"

definition auth_Download :: "rbac_env \<Rightarrow> context_info \<Rightarrow> 's state_ops \<Rightarrow> string \<Rightarrow> (bytes, 's auth_state) store_op" where
  "auth_Download env cx ops i = check_then env cx ActionUnitRead i (so_Download ops i)"

definition auth_GetLock ::
  "rbac_env \<Rightarrow> context_info \<Rightarrow> 's state_ops \<Rightarrow> string \<Rightarrow> (lock_info option, 's auth_state) store_op" where
  "auth_GetLock env cx ops i = check_then env cx ActionUnitRead i (so_GetLock ops i)"

definition auth_Upload ::
  "rbac_env \<Rightarrow> context_info \<Rightarrow> 's state_ops \<Rightarrow> nat \<Rightarrow> string \<Rightarrow> bytes \<Rightarrow> string \<Rightarrow> (unit, 's auth_state) store_op" where
  "auth_Upload env cx ops now i data lockID =
     check_then env cx ActionUnitWrite i (so_Upload ops now i data lockID)"

definition auth_Lock ::
  "rbac_env \<Rightarrow> context_info \<Rightarrow> 's state_ops \<Rightarrow> string \<Rightarrow> lock_info \<Rightarrow> (unit, 's auth_state) store_op" where
  "auth_Lock env cx ops i info = check_then env cx ActionUnitLock i (so_Lock ops i info)"

definition auth_Unlock ::
  "rbac_env \<Rightarrow> context_info \<Rightarrow> 's state_ops \<Rightarrow> string \<Rightarrow> string \<Rightarrow> (unit, 's auth_state) store_op" where
  "auth_Unlock env cx ops i lockID = check_then env cx ActionUnitLock i (so_Unlock ops i lockID)"

definition auth_ops :: "rbac_env \<Rightarrow> context_info \<Rightarrow> 's state_ops \<Rightarrow> 's auth_state state_ops" where
  "auth_ops env cx ops =
     \<lparr>so_Get = auth_Get env cx ops, so_Download = auth_Download env cx ops,
      so_GetLock = auth_GetLock env cx ops, so_Upload = auth_Upload env cx ops,
      so_Lock = auth_Lock env cx ops, so_Unlock = auth_Unlock env cx ops\<rparr>"

definition auth_Create ::
  "rbac_env \<Rightarrow> context_info \<Rightarrow> 's unit_repository \<Rightarrow> string \<Rightarrow> string \<Rightarrow> (unit_metadata, 's auth_state) store_op" where
  "auth_Create env cx repo orgID name = check_then env cx ActionUnitWrite name (ur_Create repo orgID name)"

definition auth_List ::
  "rbac_env \<Rightarrow> context_info \<Rightarrow> 's unit_repository \<Rightarrow> string \<Rightarrow> string \<Rightarrow>
   (unit_metadata list, 's auth_state) store_op" where
  "auth_List env cx repo orgID pre =
     with_principal cx (\<lambda>pr.
     op_bind (on_repo (ur_List repo orgID pre)) (\<lambda>allUnits.
     op_bind (on_rbac (FilterUnitsByReadAccess env (cx_org cx) pr (map um_ID allUnits))) (\<lambda>filteredIDs.
       op_return (filter (\<lambda>u. um_ID u \<in> set filteredIDs) allUnits))))"

definition auth_Delete ::
  "rbac_env \<Rightarrow> context_info \<Rightarrow> 's unit_repository \<Rightarrow> string \<Rightarrow> (unit, 's auth_state) store_op" where
  "auth_Delete env cx repo i = check_then env cx ActionUnitDelete i (ur_Delete repo i)"

definition auth_ListVersions ::
  "rbac_env \<Rightarrow> context_info \<Rightarrow> 's unit_repository \<Rightarrow> string \<Rightarrow> (version_info list, 's auth_state) store_op" where
  "auth_ListVersions env cx repo i = check_then env cx ActionUnitRead i (ur_ListVersions repo i)"

definition auth_RestoreVersion ::
  "rbac_env \<Rightarrow> context_info \<Rightarrow> 's unit_repository \<Rightarrow> nat \<Rightarrow> string \<Rightarrow> nat \<Rightarrow> string \<Rightarrow>
   (unit, 's auth_state) store_op" where
  "auth_RestoreVersion env cx repo now i versionTimestamp lockID =
     check_then env cx ActionUnitWrite i (ur_RestoreVersion repo now i versionTimestamp lockID)"

section \<open>What a check lets through\<close>

text \<open>The caller may do it: it has an organisation and a principal that the tables authorise.\<close>

definition may :: "rbac_env \<Rightarrow> context_info \<Rightarrow> rbac_tables \<Rightarrow> string \<Rightarrow> string \<Rightarrow> bool" where
  "may env cx t action resource \<longleftrightarrow>
     (\<exists>pr orgID. cx_principal cx = Some pr \<and> cx_org cx = Some orgID \<and>
        authorized env t orgID (pr_Subject pr) action resource)"

lemma Can_tables: "Can env g pr action resource d = (x, d') \<Longrightarrow> fdb_data d' = fdb_data d"
  using Can_data [of env g pr action resource d] by simp

lemma check_then_cases:
  assumes "check_then env cx action resource f st = (x, st')"
  obtains (refused) e where "x = Inl e" "as_repo st' = as_repo st"
      "fdb_data (as_rbac st') = fdb_data (as_rbac st)"
  | (passed) s where "may env cx (fdb_data (as_rbac st)) action resource"
      "f (as_repo st) = (x, s)" "as_repo st' = s" "fdb_data (as_rbac st') = fdb_data (as_rbac st)"
proof (cases "cx_principal cx")
  case None
  with assms refused show thesis by (auto simp: check_then_def with_principal_def)
next
  case (Some pr)
  obtain a d where c: "Can env (cx_org cx) pr action resource (as_rbac st) = (a, d)" by force
  note d = Can_tables [OF c]
  show thesis
  proof (cases "a = Ok True")
    case False
    with assms Some c d refused show thesis
      by (cases a) (auto simp: check_then_def with_principal_def op_bind_def on_rbac_def)
  next
    case True
    with Can_True [of env "cx_org cx" pr action resource "as_rbac st" d] c
    have "may env cx (fdb_data (as_rbac st)) action resource" using Some by (auto simp: may_def)
    moreover obtain s where "f (as_repo st) = (x, s)" "st' = st\<lparr>as_rbac := d, as_repo := s\<rparr>"
      using assms Some c True
      by (auto simp: check_then_def with_principal_def op_bind_def on_rbac_def on_repo_def split: prod.splits)
    ultimately show thesis using passed d by auto
  qed
qed

text \<open>What a store gives the decorator gives too.\<close>

lemma check_then_guarded:
  assumes "\<And>s x s'. I s \<Longrightarrow> f s = (x, s') \<Longrightarrow> I s' \<and> guarded c h k L s s'"
    and "I (as_repo st)" and "check_then env cx action resource f st = (x, st')"
  shows "I (as_repo st') \<and> guarded (\<lambda>st. c (as_repo st)) (\<lambda>st. h (as_repo st)) k L st st'"
  using assms(3)
proof (cases rule: check_then_cases)
  case refused
  with assms(2) show ?thesis by (simp add: guarded_def)
next
  case (passed s)
  from assms(1) [OF assms(2) passed(2)] passed(3) show ?thesis by (simp add: guarded_def)
qed

lemma auth_guarded:
  assumes "guarded_store ops key c h I"
  shows "guarded_store (auth_ops env cx ops) key (\<lambda>st. c (as_repo st)) (\<lambda>st. h (as_repo st))
    (\<lambda>st. I (as_repo st))"
proof (unfold_locales, unfold auth_ops_def state_ops.simps auth_Get_def auth_Download_def
    auth_GetLock_def auth_Upload_def auth_Lock_def auth_Unlock_def)
qed (rule check_then_guarded [OF guarded_store.Get_guarded [OF assms]]
    check_then_guarded [OF guarded_store.Download_guarded [OF assms]]
    check_then_guarded [OF guarded_store.GetLock_guarded [OF assms]]
    check_then_guarded [OF guarded_store.Upload_guarded [OF assms]]
    check_then_guarded [OF guarded_store.Lock_guarded [OF assms]]
    check_then_guarded [OF guarded_store.Unlock_guarded [OF assms]]; assumption)+

interpretation authrepo: guarded_store "auth_ops env cx (repo_ops (mem_ops menv))" "\<lambda>i. i"
  "\<lambda>st. repo_content mem_content (as_repo st)" "\<lambda>st. repo_holder mem_holder (as_repo st)"
  "\<lambda>st. repo_inv (mem_inv menv) (as_repo st)"
  by (rule auth_guarded [OF memrepo.repo.guarded_store_axioms])

section \<open>Properties\<close>

text \<open>An operation reaches the wrapped store, or returns a value, only if the caller may do it.\<close>

definition needs ::
  "rbac_env \<Rightarrow> context_info \<Rightarrow> string \<Rightarrow> string \<Rightarrow> ('a, 's auth_state) store_op \<Rightarrow> bool" where
  "needs env cx action resource f \<longleftrightarrow>
     (\<forall>st. let (x, st') = f st in
        fdb_data (as_rbac st') = fdb_data (as_rbac st) \<and>
        (may env cx (fdb_data (as_rbac st)) action resource \<or>
         as_repo st' = as_repo st \<and> (\<exists>e. x = Inl e)))"

lemma check_then_needs: "needs env cx action resource (check_then env cx action resource f)"
proof -
  have "fdb_data (as_rbac st') = fdb_data (as_rbac st) \<and>
      (may env cx (fdb_data (as_rbac st)) action resource \<or> as_repo st' = as_repo st \<and> (\<exists>e. x = Inl e))"
    if "check_then env cx action resource f st = (x, st')" for st x st'
    using that by (cases rule: check_then_cases) auto
  then show ?thesis by (auto simp: needs_def Let_def)
qed

text \<open>Claim C3: with access control on, an operation on a unit reaches the repository, or returns a
  value, only for a caller that the tables authorise for it: reading needs the read permission,
  storing and restoring the write permission, locking and unlocking the lock permission, deleting the
  delete permission, all on the unit's identifier, and creating the write permission on its name;
  and it changes no access table.\<close>

theorem repository_needs_permission:
  "needs env cx ActionUnitRead i (auth_Get env cx ops i) \<and>
   needs env cx ActionUnitRead i (auth_Download env cx ops i) \<and>
   needs env cx ActionUnitRead i (auth_GetLock env cx ops i) \<and>
   needs env cx ActionUnitWrite i (auth_Upload env cx ops now i data lockID) \<and>
   needs env cx ActionUnitLock i (auth_Lock env cx ops i info) \<and>
   needs env cx ActionUnitLock i (auth_Unlock env cx ops i lockID) \<and>
   needs env cx ActionUnitDelete i (auth_Delete env cx repo i) \<and>
   needs env cx ActionUnitRead i (auth_ListVersions env cx repo i) \<and>
   needs env cx ActionUnitWrite i (auth_RestoreVersion env cx repo now i t lockID) \<and>
   needs env cx ActionUnitWrite name (auth_Create env cx repo orgID name)"
  by (simp add: check_then_needs auth_Get_def auth_Download_def auth_GetLock_def auth_Upload_def auth_Lock_def
      auth_Unlock_def auth_Delete_def auth_ListVersions_def auth_RestoreVersion_def auth_Create_def)

text \<open>A listing shows only units of the repository's listing that the caller may read.\<close>

theorem listing_shows_readable:
  assumes "auth_List env cx repo orgID pre st = (Inr us, st')" and "u \<in> set us"
  shows "may env cx (fdb_data (as_rbac st)) ActionUnitRead (um_ID u) \<and>
    (\<exists>all s. ur_List repo orgID pre (as_repo st) = (Inr all, s) \<and> u \<in> set all)"
proof -
  obtain pr where pr: "cx_principal cx = Some pr"
    using assms(1) by (auto simp: auth_List_def with_principal_def split: option.splits)
  obtain a s where l: "ur_List repo orgID pre (as_repo st) = (a, s)" by force
  obtain all where a: "a = Inr all"
    using assms(1) pr l by (cases a) (auto simp: auth_List_def with_principal_def op_bind_def on_repo_def)
  obtain y d where f: "FilterUnitsByReadAccess env (cx_org cx) pr (map um_ID all) (as_rbac st) = (y, d)" by force
  obtain ids where ids: "y = Ok ids" "us = filter (\<lambda>u. um_ID u \<in> set ids) all"
    using assms(1) pr l a f
    by (cases y) (auto simp: auth_List_def with_principal_def op_bind_def on_repo_def on_rbac_def op_return_def)
  with FilterUnits_Ok [OF f [unfolded ids(1)]] assms(2) pr l a show ?thesis by (auto simp: may_def)
qed


section \<open>Witnesses\<close>

definition example_auth :: "mem_store repo auth_state" where
  "example_auth = \<lparr>as_rbac = healthy example_tables, as_repo = example_repo []\<rparr>"

definition ann :: context_info where
  "ann = \<lparr>cx_principal = Some example_principal, cx_org = Some ''o''\<rparr>"

definition stranger :: context_info where
  "stranger = \<lparr>cx_principal = Some (example_principal\<lparr>pr_Subject := ''bob''\<rparr>), cx_org = Some ''o''\<rparr>"

theorem listing_shows_readable_witness:
  "may example_rbac ann example_tables ActionUnitRead ''u1''"
proof -
  let ?l = "auth_List example_rbac ann (unit_repo example_repo_env (mem_blobs example_env)) ''o'' [] example_auth"
  have "(case fst ?l of Inl _ \<Rightarrow> [] | Inr us \<Rightarrow> map um_ID us) = [''u1'', ''u2'']" by code_simp
  then obtain u v st' where l: "?l = (Inr [u, v], st')" and u: "um_ID u = ''u1''"
    by (cases ?l) (auto simp: map_eq_Cons_conv split: sum.splits)
  from listing_shows_readable [OF l, of u] u show ?thesis by (simp add: example_auth_def)
qed

definition locked_auth_server :: "mem_store repo auth_state server" where
  "locked_auth_server =
     \<lparr>sv_store = snd (auth_Lock example_rbac ann (repo_ops (mem_ops example_env)) ''u1'' held_lock example_auth),
      sv_tasks = [(''u2'', ''y'')]\<rparr>"

definition u1_request :: "string \<Rightarrow> string \<Rightarrow> request" where
  "u1_request method b =
     \<lparr>rq_Method = method, rq_Path = ''/v1/backend/u1'', rq_Param = [], rq_Body = Some b,
      rq_Header = [], rq_Query = []\<rparr>"

lemma locked_auth_facts:
  "repo_holder mem_holder (as_repo (sv_store locked_auth_server)) ''u1'' = Some held_lock"
  "repo_content mem_content (as_repo (sv_store locked_auth_server)) ''u1'' = Some ''x''"
  "rp_blob (as_repo (sv_store locked_auth_server)) = snd (mem_Lock ''o/u1'' held_lock example_blobs)"
  "list_all (\<lambda>u. CHR ''/'' \<notin> set (un_ID u)) (ut_units (tables (as_repo (sv_store locked_auth_server))))"
  by code_simp+

lemma locked_auth_inv: "repo_inv (mem_inv example_env) (as_repo (sv_store locked_auth_server))"
proof -
  have "mem_inv example_env (snd (mem_Lock ''o/u1'' held_lock example_blobs))"
    using mem_Lock_inv [OF example_repo_facts(4)] by (metis prod.collapse)
  with locked_auth_facts(3,4) show ?thesis
    by (simp add: repo_inv_def plain_ids_def list_all_iff)
qed


end
