(* ===== verification/RunWorld.thy ===== *)
theory RunWorld
  imports Locking
begin

text \<open>
  The world of a run of the CLI.  All that the runner does outside its own memory is an event: a run of
  the Terraform executable, of a command, a call of the plan storage, of the reporter, of a policy, of
  the pull-request service.  The state keeps the trace of the events, and what comes back is a function
  of the trace so far, so the environment may change its mind between two calls.

  \<open>emits P f\<close> says that \<open>f\<close> only adds events with \<open>P\<close>; the collection \<open>emits\<close> proves it by
  following the structure of \<open>f\<close>.
\<close>

section \<open>Events\<close>

text \<open>How the reporter formats a text: title, and whether a collapsible comment is open.\<close>

datatype formatter =
    AsCollapsibleComment string bool | AsComment string
  | TerraformOutputAsCollapsibleComment string bool | TerraformOutputAsComment string
  | IdentityFormatter

type_synonym env_vars = "(string \<times> string) list"

text \<open>A process has a program, its arguments, the directory it runs in and what is added to the
  environment; a shell script has its text besides.\<close>

datatype event =
    EProcess string "string list" string env_vars
  | EScript string "string list" string string env_vars
  | EPlanExists string string
  | ERetrievePlan string string string
  | EStorePlan string string string
  | EDeletePlan string string
  | ECreateFile string
  | EReadFile string
  | ERemoveFile string
  | EReport string formatter
  | ESuppress
  | EFlush
  | EUsage string string string
  | EHttpGet string
  | EUserTeams string string
  | EApprovals int
  | ERego string string
  | EIsMerged int
  | EIsMergeable int
  | ECombinedStatus int
  | EMergePullRequest int string
  | EPublishComment int string
  | ECredentials string string
  | EJobStatus "string list" "nat list"
  | EUpdateComment "string list" int string
  | ENotify string string string

text \<open>The world of a runner: the locks with the comments on them, the trace, and the map of
  variables for commands that the job's steps share.\<close>

record 's run_world =
  rw_lock :: "'s lock_world"
  rw_trace :: "event list"
  rw_run_env :: "env_vars option"

definition ask :: "event \<Rightarrow> (event list \<Rightarrow> 'r) \<Rightarrow> ('r, 's run_world) act" where
  "ask ev f w = (Ok (f (rw_trace w)), w\<lparr>rw_trace := rw_trace w @ [ev]\<rparr>)"

definition tell :: "event \<Rightarrow> (unit, 's run_world) act" where
  "tell ev = ask ev (\<lambda>_. ())"

definition on_lock_world :: "('a, 's lock_world) act \<Rightarrow> ('a, 's run_world) act" where
  "on_lock_world f w = (let (x, l) = f (rw_lock w) in (x, w\<lparr>rw_lock := l\<rparr>))"

section \<open>What an action adds to the trace\<close>

named_theorems emits \<open>the events an action may add\<close>

definition adds :: "(event \<Rightarrow> bool) \<Rightarrow> 's run_world \<Rightarrow> 's run_world \<Rightarrow> bool" where
  "adds P w w' \<longleftrightarrow> (\<exists>es. rw_trace w' = rw_trace w @ es \<and> (\<forall>e \<in> set es. P e))"

definition emits :: "(event \<Rightarrow> bool) \<Rightarrow> ('a, 's run_world) act \<Rightarrow> bool" where
  "emits P f \<longleftrightarrow> (\<forall>w. adds P w (snd (f w)))"

lemma adds_refl [simp, intro]: "adds P w w"
  by (simp add: adds_def)

lemma adds_trans [trans]: "adds P u v \<Longrightarrow> adds P v w \<Longrightarrow> adds P u w"
  by (fastforce simp: adds_def)

lemma adds_mono: "adds P u v \<Longrightarrow> (\<And>e. P e \<Longrightarrow> Q e) \<Longrightarrow> adds Q u v"
  by (auto simp: adds_def)

lemma adds_trace: "rw_trace w' = rw_trace w \<Longrightarrow> adds P w w'"
  by (simp add: adds_def)

lemma emitsD: "emits P f \<Longrightarrow> f w = (r, w') \<Longrightarrow> adds P w w'"
  by (metis emits_def snd_conv)

lemma emits_mono: "emits P f \<Longrightarrow> (\<And>e. P e \<Longrightarrow> Q e) \<Longrightarrow> emits Q f"
  by (auto simp: emits_def intro: adds_mono)

lemma emits_ret [emits]: "emits P (act_ret a)"
  and emits_err [emits]: "emits P (act_err e)"
  and emits_panic [emits]: "emits P (act_panic m)"
  and emits_of [emits]: "emits P (act_of r)"
  by (simp_all add: emits_def)

lemma emits_gets [emits]: "emits P (act_gets h)"
  by (simp add: emits_def)

lemma emits_bind [emits]:
  "emits P f \<Longrightarrow> (\<And>a. emits P (g a)) \<Longrightarrow> emits P (act_bind f g)"
  unfolding emits_def
  by (auto simp: act_bind_def split: prod.splits res.splits intro: adds_trans dest: spec)

lemma emits_wrap [emits]: "emits P f \<Longrightarrow> emits P (act_wrap m f)"
  and emits_try [emits]: "emits P f \<Longrightarrow> emits P (act_try f)"
  by (simp_all add: emits_def)

lemma emits_ask [emits]: "P ev \<Longrightarrow> emits P (ask ev f)"
  by (auto simp: emits_def ask_def adds_def)

lemma emits_tell [emits]: "P ev \<Longrightarrow> emits P (tell ev)"
  by (simp add: tell_def emits_ask)

lemma emits_on_lock_world [emits]: "emits P (on_lock_world f)"
  by (auto simp: emits_def on_lock_world_def Let_def split: prod.splits intro: adds_trace)

lemma emits_modify: "(\<And>w. rw_trace (h w) = rw_trace w) \<Longrightarrow> emits P (act_modify h)"
  by (simp add: emits_def adds_trace)

lemma emits_all [emits]: "(\<And>x. emits P (f x)) \<Longrightarrow> emits P (act_all f xs)"
  by (induction xs) (simp_all add: emits_bind emits_ret del: act_ret_def)

text \<open>An event among the new ones comes from the part of a sequence that may add it.\<close>

definition fires :: "(event \<Rightarrow> bool) \<Rightarrow> 's run_world \<Rightarrow> 's run_world \<Rightarrow> bool" where
  "fires P w w' \<longleftrightarrow> \<not> adds (\<lambda>e. \<not> P e) w w'"

lemma fires_newI: "e \<in> set (drop (length (rw_trace w)) (rw_trace w')) \<Longrightarrow> P e \<Longrightarrow> fires P w w'"
  by (auto simp: fires_def adds_def)

lemma fires_bindE:
  assumes "act_bind f g w = (r, w')" and "fires P w w'" and "emits (\<lambda>e. \<not> P e) f"
  obtains a w1 where "f w = (Ok a, w1)" and "g a w1 = (r, w')" and "adds (\<lambda>e. \<not> P e) w w1"
    and "fires P w1 w'"
proof -
  obtain x w1 where x: "f w = (x, w1)" by fastforce
  have w1: "adds (\<lambda>e. \<not> P e) w w1" using emitsD [OF assms(3) x] .
  show thesis
  proof (cases x)
    case (Ok a)
    with assms(1) x have "g a w1 = (r, w')" by simp
    moreover have "fires P w1 w'"
      using assms(2) w1 adds_trans unfolding fires_def by blast
    ultimately show ?thesis using that x w1 Ok by blast
  next
    case (Err e)
    with assms x w1 show ?thesis by (simp add: fires_def)
  next
    case (Panic m)
    with assms x w1 show ?thesis by (simp add: fires_def)
  qed
qed

lemma fires_not_emits: "f w = (r, w') \<Longrightarrow> fires P w w' \<Longrightarrow> emits (\<lambda>e. \<not> P e) f \<Longrightarrow> False"
  unfolding fires_def using emitsD by blast

lemma act_try_Inr: "act_try f w = (Ok (Inr a), w') \<longleftrightarrow> f w = (Ok a, w')"
  and act_try_Inl: "act_try f w = (Ok (Inl e), w') \<longleftrightarrow> f w = (Err e, w')"
  by (auto simp: act_try_def split: prod.splits res.splits)

lemma act_wrap_world: "act_wrap m f w = (r, w') \<Longrightarrow> \<exists>x. f w = (x, w')"
  by (metis act_wrap_snd prod.collapse snd_conv)

section \<open>Actions that leave the locks alone\<close>

named_theorems keeps_locks \<open>the actions that do not touch the locks\<close>

definition lock_free :: "('a, 's run_world) act \<Rightarrow> bool" where
  "lock_free f \<longleftrightarrow> (\<forall>w. rw_lock (snd (f w)) = rw_lock w)"

lemma lock_freeD: "lock_free f \<Longrightarrow> f w = (r, w') \<Longrightarrow> rw_lock w' = rw_lock w"
  by (metis lock_free_def snd_conv)

lemma lock_free_ret [keeps_locks]: "lock_free (act_ret a)"
  and lock_free_err [keeps_locks]: "lock_free (act_err e)"
  and lock_free_panic [keeps_locks]: "lock_free (act_panic m)"
  and lock_free_of [keeps_locks]: "lock_free (act_of r)"
  and lock_free_gets [keeps_locks]: "lock_free (act_gets h)"
  by (simp_all add: lock_free_def)

lemma lock_free_bind [keeps_locks]:
  "lock_free f \<Longrightarrow> (\<And>a. lock_free (g a)) \<Longrightarrow> lock_free (act_bind f g)"
  unfolding lock_free_def
  by (auto simp: act_bind_def split: prod.splits res.splits dest: spec) (metis snd_conv)+

lemma lock_free_wrap [keeps_locks]: "lock_free f \<Longrightarrow> lock_free (act_wrap m f)"
  and lock_free_try [keeps_locks]: "lock_free f \<Longrightarrow> lock_free (act_try f)"
  by (simp_all add: lock_free_def)

lemma lock_free_ask [keeps_locks]: "lock_free (ask ev f)"
  and lock_free_tell [keeps_locks]: "lock_free (tell ev)"
  by (simp_all add: lock_free_def ask_def tell_def)

lemma lock_free_modify: "(\<And>w. rw_lock (h w) = rw_lock w) \<Longrightarrow> lock_free (act_modify h)"
  by (simp add: lock_free_def)

end
