(* ===== verification/IacTools.thy ===== *)
theory IacTools
  imports RunWorld
begin

text \<open>
  The infrastructure tools: \<open>libs/execution/tf.go\<close>, \<open>opentofu.go\<close>, \<open>terragrunt.go\<close>,
  \<open>pulumi.go\<close>, with \<open>runners.go\<close>, \<open>utils.go\<close> and \<open>io_writer_filtered.go\<close>.  A tool is the
  Go interface \<open>TerraformExecutor\<close> as a record of operations; each of its methods runs processes.
  The operating system says what a process writes, its exit code and its error; Go's regular
  expressions are the argument \<open>pe_regexp\<close>, that compiles a pattern to its \<open>ReplaceAll\<close> with
  \<open><REDACTED>\<close>.
\<close>

section \<open>Processes\<close>

record process_result =
  ps_stdout :: "string list"
  ps_stderr :: "string list"
  ps_exit :: int
  ps_error :: "error option"

record process_env =
  pe_run :: "event list \<Rightarrow> process_result"
  pe_getenv :: "string \<Rightarrow> string"
  pe_regexp :: "string \<Rightarrow> error + (string \<Rightarrow> string)"
  pe_temp_file :: "event list \<Rightarrow> error + string"

text \<open>\<open>os.ExpandEnv\<close>: the variable after a dollar sign, in braces or not, is replaced; bad syntax is
  removed, and a dollar sign before anything else stays.\<close>

definition is_shell_special :: "char \<Rightarrow> bool" where
  "is_shell_special c \<longleftrightarrow> c \<in> set ''*#$@!?-0123456789''"

definition is_alpha_num :: "char \<Rightarrow> bool" where
  "is_alpha_num c \<longleftrightarrow>
     (let n = (of_char c :: nat) in
      c = CHR ''_'' \<or> 48 \<le> n \<and> n \<le> 57 \<or> 97 \<le> n \<and> n \<le> 122 \<or> 65 \<le> n \<and> n \<le> 90)"

text \<open>The name and the number of bytes it takes, for the text after a dollar sign.\<close>

definition getShellName :: "string \<Rightarrow> string \<times> nat" where
  "getShellName s =
     (case s of
        [] \<Rightarrow> ([], 0)
      | c # rest \<Rightarrow>
          if c = CHR ''{'' then
            (if 2 < length s \<and> is_shell_special (s ! 1) \<and> s ! 2 = CHR ''}'' then ([s ! 1], 3)
             else
               (let name = takeWhile (\<lambda>c. c \<noteq> CHR ''}'') rest in
                if length name = length rest then ([], 1)
                else if name = [] then ([], 2) else (name, length name + 2)))
          else if is_shell_special c then ([c], 1)
          else (let name = takeWhile is_alpha_num s in (name, length name)))"

function ExpandEnv :: "(string \<Rightarrow> string) \<Rightarrow> string \<Rightarrow> string" where
  "ExpandEnv getenv s =
     (case s of
        [] \<Rightarrow> []
      | c # rest \<Rightarrow>
          if c = CHR ''$'' \<and> rest \<noteq> [] then
            (let (name, n) = getShellName rest in
             (if name = [] then if n > 0 then [] else [c] else getenv name) @
             ExpandEnv getenv (drop n rest))
          else c # ExpandEnv getenv rest)"
  by auto
termination
  by (relation "measure (\<lambda>(_, s). length s)") auto

declare ExpandEnv.simps [simp del]

definition expand_args :: "(string \<Rightarrow> string) \<Rightarrow> string list \<Rightarrow> string list" where
  "expand_args getenv args = filter (\<lambda>s. s \<noteq> []) (map (\<lambda>p. trim_space (ExpandEnv getenv p)) args)"

definition stringToRegex :: "process_env \<Rightarrow> string option \<Rightarrow> error + (string \<Rightarrow> string) option" where
  "stringToRegex env pattern =
     (case pattern of
        None \<Rightarrow> Inr None
      | Some p \<Rightarrow>
          (case pe_regexp env p of
             Inl e \<Rightarrow> Inl (''regex for filter is invalid: '' @ e)
           | Inr r \<Rightarrow> Inr (Some r)))"

text \<open>\<open>FilteringWriter\<close>: each write is filtered by itself; its buffer gets what the writes leave.\<close>

definition FilteringWriter_Write :: "(string \<Rightarrow> string) option \<Rightarrow> string \<Rightarrow> string" where
  "FilteringWriter_Write pattern p = (case pattern of None \<Rightarrow> p | Some r \<Rightarrow> r p)"

definition filtered :: "(string \<Rightarrow> string) option \<Rightarrow> string list \<Rightarrow> string" where
  "filtered pattern writes = concat (map (FilteringWriter_Write pattern) writes)"

type_synonym run_result = "string \<times> string \<times> int \<times> error option"

definition run_process ::
  "process_env \<Rightarrow> string \<Rightarrow> string list \<Rightarrow> string \<Rightarrow> env_vars \<Rightarrow> (string \<Rightarrow> string) option \<Rightarrow>
   (run_result, 's run_world) act" where
  "run_process env binary args dir envs regEx =
     act_bind (ask (EProcess binary args dir envs) (pe_run env)) (\<lambda>r.
       act_ret (filtered regEx (ps_stdout r), filtered regEx (ps_stderr r), ps_exit r, ps_error r))"

text \<open>The runners of the tools.  Terragrunt's passes the arguments it was given, not the expanded
  ones, and adds to the environment.\<close>

definition runTerraformCommand ::
  "process_env \<Rightarrow> string \<Rightarrow> string \<Rightarrow> env_vars \<Rightarrow> string option \<Rightarrow> string list \<Rightarrow>
   (run_result, 's run_world) act" where
  "runTerraformCommand env dir command envs filterRegex arg =
     (case stringToRegex env filterRegex of
        Inl e \<Rightarrow> act_ret ([], [], 0, Some e)
      | Inr regEx \<Rightarrow> run_process env ''terraform'' (expand_args (pe_getenv env) (command # arg)) dir envs regEx)"

definition runOpentofuCommand ::
  "process_env \<Rightarrow> string \<Rightarrow> string \<Rightarrow> env_vars \<Rightarrow> string option \<Rightarrow> string list \<Rightarrow>
   (run_result, 's run_world) act" where
  "runOpentofuCommand env dir command envs filterRegex arg =
     (case stringToRegex env filterRegex of
        Inl e \<Rightarrow> act_ret ([], [], 0, Some e)
      | Inr regEx \<Rightarrow> run_process env ''tofu'' (expand_args (pe_getenv env) (command # arg)) dir envs regEx)"

definition terragrunt_envs :: env_vars where
  "terragrunt_envs =
     [(''TF_CLI_ARGS'', ''-no-color''), (''TF_IN_AUTOMATION'', ''true''),
      (''TERRAGRUNT_FORWARD_TF_STDOUT'', ''1''), (''TERRAGRUNT_NO_COLOR'', ''true''),
      (''TERRAGRUNT_NON_INTERACTIVE'', ''true''), (''TG_NO_COLOR'', ''true''),
      (''TG_NON_INTERACTIVE'', ''true''), (''TG_TF_FORWARD_STDOUT'', ''true'')]"

definition runTerragruntCommand ::
  "process_env \<Rightarrow> string \<Rightarrow> string \<Rightarrow> env_vars \<Rightarrow> string option \<Rightarrow> string list \<Rightarrow>
   (run_result, 's run_world) act" where
  "runTerragruntCommand env dir command envs filterRegex arg =
     (case stringToRegex env filterRegex of
        Inl e \<Rightarrow> act_ret ([], [], 0, Some e)
      | Inr regEx \<Rightarrow> run_process env ''terragrunt'' (command # arg) dir (terragrunt_envs @ envs) regEx)"

text \<open>Pulumi's writes \<open>PULUMI_CI\<close> into the map it is given; every later use of that map writes it
  again.\<close>

definition runPululmiCommand ::
  "process_env \<Rightarrow> string \<Rightarrow> string \<Rightarrow> env_vars \<Rightarrow> string list \<Rightarrow> (run_result, 's run_world) act" where
  "runPululmiCommand env dir command envs arg =
     run_process env ''pulumi'' (expand_args (pe_getenv env) (command # arg)) dir
       (AList.update ''PULUMI_CI'' ''true'' envs) None"

section \<open>The interface\<close>

type_synonym tool_out = "string \<times> string \<times> error option"

record 's iac_tool =
  t_Init :: "string list \<Rightarrow> env_vars \<Rightarrow> (tool_out, 's run_world) act"
  t_Apply :: "string list \<Rightarrow> string option \<Rightarrow> env_vars \<Rightarrow> (tool_out, 's run_world) act"
  t_Destroy :: "string list \<Rightarrow> env_vars \<Rightarrow> (tool_out, 's run_world) act"
  t_Plan :: "string list \<Rightarrow> env_vars \<Rightarrow> string \<Rightarrow> string option \<Rightarrow> (bool \<times> tool_out, 's run_world) act"
  t_Show :: "string list \<Rightarrow> env_vars \<Rightarrow> string \<Rightarrow> bool \<Rightarrow> (tool_out, 's run_world) act"

text \<open>What is left of a run without its exit code; the output is dropped with the error where the
  code does so.\<close>

definition outputs :: "run_result \<Rightarrow> tool_out" where
  "outputs r = (case r of (stdout, stderr, _, err) \<Rightarrow> (stdout, stderr, err))"

definition outputs_or_error :: "run_result \<Rightarrow> tool_out" where
  "outputs_or_error r =
     (case r of (stdout, stderr, _, err) \<Rightarrow>
        case err of Some e \<Rightarrow> ([], [], Some e) | None \<Rightarrow> (stdout, stderr, None))"

text \<open>Exit code 2 of a plan says that there are changes.\<close>

definition plan_outputs :: "run_result \<Rightarrow> bool \<times> tool_out" where
  "plan_outputs r =
     (case r of (stdout, stderr, statusCode, err) \<Rightarrow>
        if err \<noteq> None \<and> statusCode \<noteq> 2 then (False, [], [], err)
        else (statusCode = 2, stdout, stderr, None))"

section \<open>Terraform\<close>

definition formatTerraformWorkspaces :: "string \<Rightarrow> string" where
  "formatTerraformWorkspaces list =
     concat (map (\<lambda>c. if c = CHR ''*'' \<or> c = CHR '' '' then [] else if c = CHR 0x0A then [CHR '',''] else [c])
       (trim_space list))"

definition switch_to_workspace ::
  "(string list \<Rightarrow> (run_result, 's run_world) act) \<Rightarrow> string \<Rightarrow> (error option, 's run_world) act" where
  "switch_to_workspace run ws =
     act_bind (run [''list'']) (\<lambda>(workspaces, _, _, err).
       case err of
         Some e \<Rightarrow> act_ret (Some e)
       | None \<Rightarrow>
           act_bind (run [if str_contains (formatTerraformWorkspaces workspaces) ws then ''select'' else ''new'', ws])
             (\<lambda>(_, _, _, err). act_ret err))"

definition Terraform_switchToWorkspace ::
  "process_env \<Rightarrow> string \<Rightarrow> string \<Rightarrow> env_vars \<Rightarrow> (error option, 's run_world) act" where
  "Terraform_switchToWorkspace env dir ws envs =
     switch_to_workspace (runTerraformCommand env dir ''workspace'' envs None) ws"

definition Terraform_Init ::
  "process_env \<Rightarrow> string \<Rightarrow> string \<Rightarrow> string list \<Rightarrow> env_vars \<Rightarrow> (tool_out, 's run_world) act" where
  "Terraform_Init env dir ws params envs =
     act_bind (runTerraformCommand env dir ''init'' envs None (params @ [''-input=false'', ''-no-color''])) (\<lambda>r.
       if ws \<noteq> ''default'' then
         act_bind (Terraform_switchToWorkspace env dir ws envs) (\<lambda>werr.
           case werr of Some e \<Rightarrow> act_ret ([], [], Some e) | None \<Rightarrow> act_ret (outputs r))
       else act_ret (outputs r))"

definition plan_arg :: "string option \<Rightarrow> string list" where
  "plan_arg plan = (case plan of None \<Rightarrow> [] | Some p \<Rightarrow> [p])"

definition Terraform_Apply ::
  "process_env \<Rightarrow> string \<Rightarrow> string list \<Rightarrow> string option \<Rightarrow> env_vars \<Rightarrow> (tool_out, 's run_world) act" where
  "Terraform_Apply env dir params plan envs =
     act_bind (runTerraformCommand env dir ''apply'' envs None
         (params @ [''-lock-timeout=3m'', ''-input=false'', ''-no-color'', ''-auto-approve''] @ plan_arg plan))
       (\<lambda>r. act_ret (outputs r))"

definition Terraform_Destroy ::
  "process_env \<Rightarrow> string \<Rightarrow> string list \<Rightarrow> env_vars \<Rightarrow> (tool_out, 's run_world) act" where
  "Terraform_Destroy env dir params envs =
     act_bind (runTerraformCommand env dir ''destroy'' envs None
         (params @ [''-input=false'', ''-no-color'', ''-auto-approve'']))
       (\<lambda>r. act_ret (outputs r))"

definition out_arg :: "string \<Rightarrow> string list" where
  "out_arg planArtefactFilePath = (if planArtefactFilePath \<noteq> [] then [''-out'', planArtefactFilePath] else [])"

definition Terraform_Plan ::
  "process_env \<Rightarrow> string \<Rightarrow> string list \<Rightarrow> env_vars \<Rightarrow> string \<Rightarrow> string option \<Rightarrow>
   (bool \<times> tool_out, 's run_world) act" where
  "Terraform_Plan env dir params envs planArtefactFilePath filterRegex =
     act_bind (runTerraformCommand env dir ''plan'' envs filterRegex
         (params @ [''-input=false'', ''-no-color'', ''-detailed-exitcode''] @ out_arg planArtefactFilePath @
          [''-lock-timeout=3m'']))
       (\<lambda>r. act_ret (plan_outputs r))"

definition show_params :: "string list \<Rightarrow> string \<Rightarrow> bool \<Rightarrow> string list" where
  "show_params params planArtefactFilePath returnJson =
     params @ [''-no-color''] @ (if returnJson then [''-json''] else []) @ [planArtefactFilePath]"

definition Terraform_Show ::
  "process_env \<Rightarrow> string \<Rightarrow> string list \<Rightarrow> env_vars \<Rightarrow> string \<Rightarrow> bool \<Rightarrow> (tool_out, 's run_world) act" where
  "Terraform_Show env dir params envs planArtefactFilePath returnJson =
     act_bind (runTerraformCommand env dir ''show'' envs None (show_params params planArtefactFilePath returnJson))
       (\<lambda>r. act_ret (outputs_or_error r))"

definition Terraform :: "process_env \<Rightarrow> string \<Rightarrow> string \<Rightarrow> 's iac_tool" where
  "Terraform env dir ws =
     \<lparr>t_Init = Terraform_Init env dir ws, t_Apply = Terraform_Apply env dir, t_Destroy = Terraform_Destroy env dir,
      t_Plan = Terraform_Plan env dir, t_Show = Terraform_Show env dir\<rparr>"

section \<open>OpenTofu\<close>

definition OpenTofu_switchToWorkspace ::
  "process_env \<Rightarrow> string \<Rightarrow> string \<Rightarrow> env_vars \<Rightarrow> (error option, 's run_world) act" where
  "OpenTofu_switchToWorkspace env dir ws envs =
     switch_to_workspace (runOpentofuCommand env dir ''workspace'' envs None) ws"

text \<open>Before an apply, a plan and a destroy: the workspace, unless it is the default one.\<close>

definition in_workspace ::
  "process_env \<Rightarrow> string \<Rightarrow> string \<Rightarrow> env_vars \<Rightarrow> (error \<Rightarrow> 'a) \<Rightarrow> ('a, 's run_world) act \<Rightarrow> ('a, 's run_world) act" where
  "in_workspace env dir ws envs failed f =
     (if ws \<noteq> ''default'' then
        act_bind (OpenTofu_switchToWorkspace env dir ws envs) (\<lambda>err.
          case err of Some e \<Rightarrow> act_ret (failed e) | None \<Rightarrow> f)
      else f)"

definition OpenTofu_Init ::
  "process_env \<Rightarrow> string \<Rightarrow> string list \<Rightarrow> env_vars \<Rightarrow> (tool_out, 's run_world) act" where
  "OpenTofu_Init env dir params envs =
     act_bind (runOpentofuCommand env dir ''init'' envs None (params @ [''-input=false'', ''-no-color'']))
       (\<lambda>r. act_ret (outputs r))"

definition OpenTofu_Apply ::
  "process_env \<Rightarrow> string \<Rightarrow> string \<Rightarrow> string list \<Rightarrow> string option \<Rightarrow> env_vars \<Rightarrow> (tool_out, 's run_world) act" where
  "OpenTofu_Apply env dir ws params plan envs =
     in_workspace env dir ws envs (\<lambda>e. ([], [], Some e))
       (act_bind (runOpentofuCommand env dir ''apply'' envs None
           (params @ [''-lock-timeout=3m'', ''-input=false'', ''-no-color'', ''-auto-approve''] @ plan_arg plan))
         (\<lambda>r. act_ret (outputs r)))"

definition OpenTofu_Plan ::
  "process_env \<Rightarrow> string \<Rightarrow> string \<Rightarrow> string list \<Rightarrow> env_vars \<Rightarrow> string \<Rightarrow> string option \<Rightarrow>
   (bool \<times> tool_out, 's run_world) act" where
  "OpenTofu_Plan env dir ws params envs planArtefactFilePath filterRegex =
     in_workspace env dir ws envs (\<lambda>e. (False, [], [], Some e))
       (act_bind (runOpentofuCommand env dir ''plan'' envs filterRegex
           (params @ out_arg planArtefactFilePath @ [''-lock-timeout=3m''] @
            [''-input=false'', ''-no-color'', ''-detailed-exitcode'']))
         (\<lambda>r. act_ret (plan_outputs r)))"

definition OpenTofu_Show ::
  "process_env \<Rightarrow> string \<Rightarrow> string list \<Rightarrow> env_vars \<Rightarrow> string \<Rightarrow> bool \<Rightarrow> (tool_out, 's run_world) act" where
  "OpenTofu_Show env dir params envs planArtefactFilePath returnJson =
     act_bind (runOpentofuCommand env dir ''show'' envs None (show_params params planArtefactFilePath returnJson))
       (\<lambda>r. act_ret (outputs_or_error r))"

definition OpenTofu_Destroy ::
  "process_env \<Rightarrow> string \<Rightarrow> string \<Rightarrow> string list \<Rightarrow> env_vars \<Rightarrow> (tool_out, 's run_world) act" where
  "OpenTofu_Destroy env dir ws params envs =
     in_workspace env dir ws envs (\<lambda>e. ([], [], Some e))
       (act_bind (runOpentofuCommand env dir ''destroy'' envs None
           (params @ [''-input=false'', ''-no-color'', ''-auto-approve'']))
         (\<lambda>r. act_ret (outputs r)))"

definition OpenTofu :: "process_env \<Rightarrow> string \<Rightarrow> string \<Rightarrow> 's iac_tool" where
  "OpenTofu env dir ws =
     \<lparr>t_Init = OpenTofu_Init env dir, t_Apply = OpenTofu_Apply env dir ws, t_Destroy = OpenTofu_Destroy env dir ws,
      t_Plan = OpenTofu_Plan env dir ws, t_Show = OpenTofu_Show env dir\<rparr>"

section \<open>Terragrunt\<close>

definition Terragrunt_Init ::
  "process_env \<Rightarrow> string \<Rightarrow> string list \<Rightarrow> env_vars \<Rightarrow> (tool_out, 's run_world) act" where
  "Terragrunt_Init env dir params envs =
     act_bind (runTerragruntCommand env dir ''init'' envs None params) (\<lambda>r. act_ret (outputs r))"

definition Terragrunt_Apply ::
  "process_env \<Rightarrow> string \<Rightarrow> string list \<Rightarrow> string option \<Rightarrow> env_vars \<Rightarrow> (tool_out, 's run_world) act" where
  "Terragrunt_Apply env dir params plan envs =
     act_bind (runTerragruntCommand env dir ''apply'' envs None
         (params @ [''-lock-timeout=3m'', ''--auto-approve''] @ plan_arg plan))
       (\<lambda>r. act_ret (outputs r))"

definition Terragrunt_Destroy ::
  "process_env \<Rightarrow> string \<Rightarrow> string list \<Rightarrow> env_vars \<Rightarrow> (tool_out, 's run_world) act" where
  "Terragrunt_Destroy env dir params envs =
     act_bind (runTerragruntCommand env dir ''destroy'' envs None (params @ [''--auto-approve'']))
       (\<lambda>r. act_ret (outputs r))"

definition Terragrunt_Plan ::
  "process_env \<Rightarrow> string \<Rightarrow> string list \<Rightarrow> env_vars \<Rightarrow> string \<Rightarrow> string option \<Rightarrow>
   (bool \<times> tool_out, 's run_world) act" where
  "Terragrunt_Plan env dir params envs planArtefactFilePath filterRegex =
     act_bind (runTerragruntCommand env dir ''plan'' envs filterRegex
         (params @ out_arg planArtefactFilePath @ [''-lock-timeout=3m'']))
       (\<lambda>r. act_ret (True, outputs r))"

definition Terragrunt_Show ::
  "process_env \<Rightarrow> string \<Rightarrow> string list \<Rightarrow> env_vars \<Rightarrow> string \<Rightarrow> bool \<Rightarrow> (tool_out, 's run_world) act" where
  "Terragrunt_Show env dir params envs planArtefactFilePath returnJson =
     act_bind (runTerragruntCommand env dir ''show'' envs None (show_params params planArtefactFilePath returnJson))
       (\<lambda>r. act_ret (outputs r))"

definition Terragrunt :: "process_env \<Rightarrow> string \<Rightarrow> 's iac_tool" where
  "Terragrunt env dir =
     \<lparr>t_Init = Terragrunt_Init env dir, t_Apply = Terragrunt_Apply env dir, t_Destroy = Terragrunt_Destroy env dir,
      t_Plan = Terragrunt_Plan env dir, t_Show = Terragrunt_Show env dir\<rparr>"

section \<open>Pulumi\<close>

text \<open>The error of \<open>selectStack\<close> is not looked at by its callers.\<close>

definition Pulumi_selectStack :: "process_env \<Rightarrow> string \<Rightarrow> string \<Rightarrow> (error option, 's run_world) act" where
  "Pulumi_selectStack env dir stack =
     act_bind (runPululmiCommand env dir ''stack'' [] [''select'', stack]) (\<lambda>(_, _, _, err). act_ret err)"

definition Pulumi_Init ::
  "process_env \<Rightarrow> string \<Rightarrow> string list \<Rightarrow> env_vars \<Rightarrow> (tool_out, 's run_world) act" where
  "Pulumi_Init env dir params envs =
     act_bind (runPululmiCommand env dir ''install'' envs params) (\<lambda>(stdout, stderr, _, err).
       case err of
         Some e \<Rightarrow> act_ret (stdout, stderr, Some e)
       | None \<Rightarrow>
           act_bind (runPululmiCommand env dir ''login'' envs params) (\<lambda>r. act_ret (outputs r)))"

definition Pulumi_Apply ::
  "process_env \<Rightarrow> string \<Rightarrow> string \<Rightarrow> string list \<Rightarrow> string option \<Rightarrow> env_vars \<Rightarrow> (tool_out, 's run_world) act" where
  "Pulumi_Apply env dir stack params plan envs =
     act_bind (Pulumi_selectStack env dir stack) (\<lambda>_.
     act_bind (runPululmiCommand env dir ''up'' envs
         (params @ [''--yes''] @ (case plan of None \<Rightarrow> [] | Some p \<Rightarrow> [''--plan'', p])))
       (\<lambda>r. act_ret (outputs r)))"

definition Pulumi_Plan ::
  "process_env \<Rightarrow> string \<Rightarrow> string \<Rightarrow> string list \<Rightarrow> env_vars \<Rightarrow> string \<Rightarrow> string option \<Rightarrow>
   (bool \<times> tool_out, 's run_world) act" where
  "Pulumi_Plan env dir stack params envs planArtefactFilePath filterRegex =
     act_bind (Pulumi_selectStack env dir stack) (\<lambda>_.
     act_bind (runPululmiCommand env dir ''preview'' envs (params @ [''--save-plan'', planArtefactFilePath]))
       (\<lambda>r. act_ret (plan_outputs r)))"

definition Pulumi_Show ::
  "process_env \<Rightarrow> string \<Rightarrow> string \<Rightarrow> string list \<Rightarrow> env_vars \<Rightarrow> string \<Rightarrow> bool \<Rightarrow> (tool_out, 's run_world) act" where
  "Pulumi_Show env dir stack params envs planArtefactFilePath returnJson =
     act_bind (Pulumi_selectStack env dir stack) (\<lambda>_.
     act_bind (runPululmiCommand env dir ''preview'' envs (params @ (if returnJson then [''--json''] else [])))
       (\<lambda>r. act_ret (snd (plan_outputs r))))"

definition Pulumi_Destroy ::
  "process_env \<Rightarrow> string \<Rightarrow> string \<Rightarrow> string list \<Rightarrow> env_vars \<Rightarrow> (tool_out, 's run_world) act" where
  "Pulumi_Destroy env dir stack params envs =
     act_bind (Pulumi_selectStack env dir stack) (\<lambda>_.
     act_bind (runPululmiCommand env dir ''destroy'' envs (params @ [''--yes'']))
       (\<lambda>r. act_ret (outputs r)))"

definition Pulumi :: "process_env \<Rightarrow> string \<Rightarrow> string \<Rightarrow> 's iac_tool" where
  "Pulumi env dir stack =
     \<lparr>t_Init = Pulumi_Init env dir, t_Apply = Pulumi_Apply env dir stack,
      t_Destroy = Pulumi_Destroy env dir stack, t_Plan = Pulumi_Plan env dir stack, t_Show = Pulumi_Show env dir stack\<rparr>"

section \<open>Commands\<close>

text \<open>\<open>CommandRunner\<close>: the commands become a script for the shell, \<open>bash -eo pipefail\<close> when none is
  named.\<close>

definition CommandRunner_Run ::
  "process_env \<Rightarrow> string \<Rightarrow> string \<Rightarrow> string list \<Rightarrow> env_vars \<Rightarrow> (tool_out, 's run_world) act" where
  "CommandRunner_Run env workingDir shell commands envs =
     (let (shell, args) = (if shell = [] then (''bash'', [''-eo'', ''pipefail'']) else (shell, [])) in
      act_bind (act_gets (\<lambda>w. pe_temp_file env (rw_trace w))) (\<lambda>f.
      case f of
        Inl e \<Rightarrow> act_ret ([], [], Some (''error creating script file: '' @ e))
      | Inr scriptFile \<Rightarrow>
          act_bind (ask (EScript shell (args @ [scriptFile]) (concat (map (\<lambda>c. c @ [CHR 0x0A]) commands)) workingDir envs)
              (pe_run env)) (\<lambda>r.
            act_ret (concat (ps_stdout r), concat (ps_stderr r),
              map_option (\<lambda>e. ''error: '' @ e) (ps_error r)))))"

section \<open>What a tool promises\<close>

text \<open>The processes that change the infrastructure.\<close>

definition changing_commands :: "(string \<times> string) list" where
  "changing_commands =
     [(''terraform'', ''apply''), (''terraform'', ''destroy''), (''tofu'', ''apply''), (''tofu'', ''destroy''),
      (''terragrunt'', ''apply''), (''terragrunt'', ''destroy''), (''pulumi'', ''up''), (''pulumi'', ''destroy'')]"

fun changes :: "event \<Rightarrow> bool" where
  "changes (EProcess b (c # _) _ _) = ((b, c) \<in> set changing_commands)"
| "changes _ = False"

fun is_process :: "event \<Rightarrow> bool" where
  "is_process (EProcess _ _ _ _) = True"
| "is_process _ = False"

definition reads :: "event \<Rightarrow> bool" where
  "reads e \<longleftrightarrow> is_process e \<and> \<not> changes e"

locale tool_contract =
  fixes tool :: "'s iac_tool"
  assumes init_reads: "emits reads (t_Init tool params envs)"
    and plan_reads: "emits reads (t_Plan tool params envs path regex)"
    and show_reads: "emits reads (t_Show tool params envs path json)"
    and apply_processes: "emits is_process (t_Apply tool params plan envs)"
    and destroy_processes: "emits is_process (t_Destroy tool params envs)"
    and init_lock_free: "lock_free (t_Init tool params envs)"
    and plan_lock_free: "lock_free (t_Plan tool params envs path regex)"
    and show_lock_free: "lock_free (t_Show tool params envs path json)"
    and apply_lock_free: "lock_free (t_Apply tool params plan envs)"
    and destroy_lock_free: "lock_free (t_Destroy tool params envs)"

lemma ExpandEnv_no_dollar: "CHR ''$'' \<notin> set s \<Longrightarrow> ExpandEnv g s = s"
proof (induction s)
  case Nil
  then show ?case by (simp add: ExpandEnv.simps)
next
  case (Cons c s)
  then show ?case by (subst ExpandEnv.simps) auto
qed

lemma expand_args_Cons:
  assumes "CHR ''$'' \<notin> set c" and "trim_space c = c" and "c \<noteq> []"
  shows "expand_args g (c # args) = c # expand_args g args"
  using assms by (simp add: expand_args_def ExpandEnv_no_dollar)

lemma run_process_emits: "P (EProcess b args dir envs) \<Longrightarrow> emits P (run_process env b args dir envs r)"
  unfolding run_process_def by (intro emits)

lemma run_process_lock_free: "lock_free (run_process env b args dir envs r)"
  unfolding run_process_def by (intro keeps_locks)

text \<open>Each runner, for a command that only reads and for any command.\<close>

lemma plain_command:
  assumes "c \<in> set [''init'', ''plan'', ''show'', ''workspace'', ''apply'', ''destroy'', ''up'', ''stack'',
                     ''preview'', ''install'', ''login'']"
  shows "expand_args g (c # args) = c # expand_args g args"
proof (rule expand_args_Cons)
  show "CHR ''$'' \<notin> set c" and "trim_space c = c" and "c \<noteq> []"
    using assms by (auto simp: trim_space_def trim_set_def is_space_def)
qed

lemma runTerraformCommand_reads [emits]:
  "c \<in> set [''init'', ''plan'', ''show'', ''workspace''] \<Longrightarrow>
   emits reads (runTerraformCommand env dir c envs r args)"
  unfolding runTerraformCommand_def
  by (auto split: sum.split intro!: emits run_process_emits simp: plain_command reads_def changing_commands_def
      simp del: act_ret_def)

lemma runOpentofuCommand_reads [emits]:
  "c \<in> set [''init'', ''plan'', ''show'', ''workspace''] \<Longrightarrow>
   emits reads (runOpentofuCommand env dir c envs r args)"
  unfolding runOpentofuCommand_def
  by (auto split: sum.split intro!: emits run_process_emits simp: plain_command reads_def changing_commands_def
      simp del: act_ret_def)

lemma runTerragruntCommand_reads [emits]:
  "c \<in> set [''init'', ''plan'', ''show''] \<Longrightarrow> emits reads (runTerragruntCommand env dir c envs r args)"
  unfolding runTerragruntCommand_def
  by (auto split: sum.split intro!: emits run_process_emits simp: reads_def changing_commands_def
      simp del: act_ret_def)

lemma runPululmiCommand_reads [emits]:
  "c \<in> set [''install'', ''login'', ''stack'', ''preview''] \<Longrightarrow> emits reads (runPululmiCommand env dir c envs args)"
  unfolding runPululmiCommand_def
  by (auto intro!: run_process_emits simp: plain_command reads_def changing_commands_def)

lemma runners_process [emits]:
  "emits is_process (runTerraformCommand env dir c envs r args)"
  "emits is_process (runOpentofuCommand env dir c envs r args)"
  "emits is_process (runTerragruntCommand env dir c envs r args)"
  "emits is_process (runPululmiCommand env dir c envs args)"
  unfolding runTerraformCommand_def runOpentofuCommand_def runTerragruntCommand_def runPululmiCommand_def
  by (auto split: sum.split intro!: emits run_process_emits simp del: act_ret_def)

lemma runners_lock_free [keeps_locks]:
  "lock_free (runTerraformCommand env dir c envs r args)"
  "lock_free (runOpentofuCommand env dir c envs r args)"
  "lock_free (runTerragruntCommand env dir c envs r args)"
  "lock_free (runPululmiCommand env dir c envs args)"
  unfolding runTerraformCommand_def runOpentofuCommand_def runTerragruntCommand_def runPululmiCommand_def
  by (auto split: sum.split intro!: keeps_locks run_process_lock_free simp del: act_ret_def)

lemma reads_is_process: "emits reads f \<Longrightarrow> emits is_process f"
  by (erule emits_mono) (simp add: reads_def)

lemma switch_emits [emits]: "(\<And>a. emits P (run a)) \<Longrightarrow> emits P (switch_to_workspace run ws)"
  unfolding switch_to_workspace_def
  by (auto intro!: emits split: option.split simp del: act_ret_def)

lemma switch_lock_free [keeps_locks]: "(\<And>a. lock_free (run a)) \<Longrightarrow> lock_free (switch_to_workspace run ws)"
  unfolding switch_to_workspace_def
  by (auto intro!: keeps_locks split: option.split simp del: act_ret_def)

lemmas terraform_defs = Terraform_Init_def Terraform_Apply_def Terraform_Destroy_def Terraform_Plan_def
  Terraform_Show_def Terraform_switchToWorkspace_def

lemmas opentofu_defs = OpenTofu_Init_def OpenTofu_Apply_def OpenTofu_Destroy_def OpenTofu_Plan_def
  OpenTofu_Show_def in_workspace_def OpenTofu_switchToWorkspace_def

lemmas terragrunt_defs = Terragrunt_Init_def Terragrunt_Apply_def Terragrunt_Destroy_def Terragrunt_Plan_def
  Terragrunt_Show_def

lemmas pulumi_defs = Pulumi_Init_def Pulumi_Apply_def Pulumi_Destroy_def Pulumi_Plan_def Pulumi_Show_def
  Pulumi_selectStack_def

interpretation terraform: tool_contract "Terraform env dir ws" for env dir ws
  by unfold_locales
    (auto simp: Terraform_def terraform_defs simp del: act_ret_def intro!: emits keeps_locks
      split: option.split)

interpretation opentofu: tool_contract "OpenTofu env dir ws" for env dir ws
  by unfold_locales
    (auto simp: OpenTofu_def opentofu_defs simp del: act_ret_def intro!: emits keeps_locks
      split: option.split)

interpretation terragrunt: tool_contract "Terragrunt env dir" for env dir
  by unfold_locales
    (auto simp: Terragrunt_def terragrunt_defs simp del: act_ret_def intro!: emits keeps_locks)

interpretation pulumi: tool_contract "Pulumi env dir stack" for env dir stack
  by unfold_locales
    (auto simp: Pulumi_def pulumi_defs simp del: act_ret_def intro!: emits keeps_locks
      split: option.split)

end
