(* ===== verification/IacUtils.thy ===== *)
theory IacUtils
  imports Prelude "HOL-Library.Char_ord" "HOL-Library.List_Lexorder"
begin

text \<open>
  What a plan and the output of an apply say: \<open>libs/iac_utils\<close>.  \<open>json.Unmarshal\<close> into the types of
  \<open>terraform-json\<close> and \<open>tf-summarize\<close>, which are not part of the repository, are arguments.  The
  counters are Go's 64-bit \<open>uint\<close>, with the wrap-around written out where a sum can reach it.
\<close>

section \<open>Summaries\<close>

record iac_summary =
  is_created :: nat
  is_updated :: nat
  is_deleted :: nat

definition no_summary :: iac_summary where
  "no_summary = \<lparr>is_created = 0, is_updated = 0, is_deleted = 0\<rparr>"

text \<open>What \<open>terraform-json\<close> makes of a plan: address and actions of each resource, the actions of
  each output.\<close>

record plan_json =
  pj_resource_changes :: "(string \<times> string list) list"
  pj_output_changes :: "(string \<times> string list) list"

definition parseTerraformPlanOutput :: "(string \<Rightarrow> error + plan_json) \<Rightarrow> string \<Rightarrow> error + plan_json" where
  "parseTerraformPlanOutput parse json =
     (case parse json of Inl e \<Rightarrow> Inl (''Unable to parse the plan file: '' @ e) | Inr p \<Rightarrow> Inr p)"

definition is_no_op :: "string \<times> string list \<Rightarrow> bool" where
  "is_no_op change \<longleftrightarrow> length (snd change) = 1 \<and> snd change ! 0 = ''no-op''"

text \<open>The loop over the resources reads the first action of each; one without actions is an index
  out of range.\<close>

fun count_changes :: "(string \<times> string list) list \<Rightarrow> iac_summary \<Rightarrow> iac_summary res" where
  "count_changes [] s = Ok s"
| "count_changes ((_, actions) # cs) s =
     (case actions of
        [] \<Rightarrow> Panic ''index out of range''
      | a # _ \<Rightarrow> count_changes cs
          (if a = ''create'' then s\<lparr>is_created := is_created s + 1\<rparr>
           else if a = ''delete'' then s\<lparr>is_deleted := is_deleted s + 1\<rparr>
           else if a = ''update'' then s\<lparr>is_updated := is_updated s + 1\<rparr> else s))"

definition GetSummaryFromPlanJson ::
  "(string \<Rightarrow> error + plan_json) \<Rightarrow> string \<Rightarrow> (bool \<times> iac_summary) res" where
  "GetSummaryFromPlanJson parse planJson =
     (case parseTerraformPlanOutput parse planJson of
        Inl e \<Rightarrow> Err (''Error while parsing json file: '' @ e)
      | Inr tfplan \<Rightarrow>
          (let isPlanEmpty = list_all is_no_op (pj_resource_changes tfplan) \<and>
                 list_all is_no_op (pj_output_changes tfplan) in
           res_bind (count_changes (pj_resource_changes tfplan) no_summary) (\<lambda>planSummary.
             Ok (isPlanEmpty, planSummary))))"

text \<open>Pulumi's preview has the counts; a Go \<open>int\<close> becomes a \<open>uint\<close> modulo \<open>2 ^ 64\<close>.\<close>

definition to_uint :: "int \<Rightarrow> nat" where
  "to_uint i = nat (i mod 2 ^ 64)"

definition Pulumi_GetSummaryFromPlanJson ::
  "(string \<Rightarrow> error + int \<times> int \<times> int) \<Rightarrow> string \<Rightarrow> (bool \<times> iac_summary) res" where
  "Pulumi_GetSummaryFromPlanJson parse planJson =
     (case parse planJson of
        Inl e \<Rightarrow> Err e
      | Inr (create, update, delete) \<Rightarrow>
          (let summary = \<lparr>is_created = to_uint create, is_updated = to_uint update, is_deleted = to_uint delete\<rparr>;
               total = (is_created summary + is_updated summary + is_deleted summary) mod 2 ^ 64
           in Ok (total = 0, summary)))"

section \<open>The output of an apply\<close>

text \<open>\<open>bufio.Scanner\<close> by lines: a carriage return before the newline is dropped, and a line that
  does not fit the buffer of 64 KiB with its newline stops the scan.\<close>

definition max_line :: int where
  "max_line = 65535"

definition drop_cr :: "string \<Rightarrow> string" where
  "drop_cr l = (if l \<noteq> [] \<and> last l = CHR 0x0D then butlast l else l)"

fun scan_lines :: "string list \<Rightarrow> string list" where
  "scan_lines [] = []"
| "scan_lines (l # ls) =
     (if int (length l) > max_line then []
      else if ls = [] \<and> l = [] then [] else drop_cr l # scan_lines ls)"

text \<open>The digits and the text after them, when there is a digit and what follows begins with
  \<open>sep\<close>.\<close>

definition match_count :: "string \<Rightarrow> string \<Rightarrow> (string \<times> string) option" where
  "match_count sep s =
     (let ds = takeWhile (\<lambda>c. char_digit c \<noteq> None) s; rest = drop (length ds) s in
      if ds \<noteq> [] \<and> has_prefix rest sep then Some (ds, drop (length sep) rest) else None)"

definition match_summary_at :: "string \<Rightarrow> (string \<times> string \<times> string) option" where
  "match_summary_at s =
     Option.bind (match_count '' added, '' s) (\<lambda>(a, s).
     Option.bind (match_count '' changed, '' s) (\<lambda>(c, s).
     Option.bind (match_count '' destroyed'' s) (\<lambda>(d, _). Some (a, c, d))))"

text \<open>\<open>(\d+) added, (\d+) changed, (\d+) destroyed\<close>, the leftmost match.\<close>

fun match_summary :: "string \<Rightarrow> (string \<times> string \<times> string) option" where
  "match_summary s =
     (case match_summary_at s of
        Some m \<Rightarrow> Some m
      | None \<Rightarrow> (case s of [] \<Rightarrow> None | _ # t \<Rightarrow> match_summary t))"

declare match_summary.simps [simp del]

text \<open>\<open>fmt.Sscanf\<close> into a \<open>uint\<close>: a number that does not fit leaves the variable as it is.\<close>

definition scan_uint :: "string \<Rightarrow> nat \<Rightarrow> nat" where
  "scan_uint ds old = (case parse_nat ds of Some n \<Rightarrow> if int n < 2 ^ 64 then n else old | None \<Rightarrow> old)"

fun summary_of_lines :: "string list \<Rightarrow> iac_summary option \<Rightarrow> iac_summary option" where
  "summary_of_lines [] s = s"
| "summary_of_lines (l # ls) s =
     (case match_summary l of
        None \<Rightarrow> summary_of_lines ls s
      | Some (a, c, d) \<Rightarrow>
          (let old = (case s of None \<Rightarrow> no_summary | Some s \<Rightarrow> s) in
           summary_of_lines ls (Some \<lparr>is_created = scan_uint a (is_created old),
             is_updated = scan_uint c (is_updated old), is_deleted = scan_uint d (is_deleted old)\<rparr>)))"

definition GetSummaryFromApplyOutput :: "string \<Rightarrow> error option \<times> iac_summary" where
  "GetSummaryFromApplyOutput applyOutput =
     (case summary_of_lines (scan_lines (split_char (CHR 0x0A) applyOutput)) None of
        None \<Rightarrow> (Some ''could not find resources line in terraform apply output'', no_summary)
      | Some s \<Rightarrow> (None, s))"

section \<open>Footprints\<close>

type_synonym footprint = "string list"

text \<open>The addresses in byte order, one after the other.\<close>

definition footprint_hash :: "footprint \<Rightarrow> string" where
  "footprint_hash f = concat (sort f)"

definition GetPlanFootprint :: "(string \<Rightarrow> error + plan_json) \<Rightarrow> string \<Rightarrow> error + footprint" where
  "GetPlanFootprint parse planJson =
     (case parseTerraformPlanOutput parse planJson of
        Inl e \<Rightarrow> Inl e | Inr tfplan \<Rightarrow> Inr (map fst (pj_resource_changes tfplan)))"

definition PerformPlanSimilarityCheck :: "footprint \<Rightarrow> footprint \<Rightarrow> bool" where
  "PerformPlanSimilarityCheck f1 f2 \<longleftrightarrow> footprint_hash f1 = footprint_hash f2"

definition SimilarityCheck :: "footprint list \<Rightarrow> bool" where
  "SimilarityCheck footprints =
     (if length footprints < 2 then True
      else (let footprintHashes = map footprint_hash footprints in
            list_all (\<lambda>f. f = footprintHashes ! 0) footprintHashes))"

section \<open>The interface\<close>

record iac_utils =
  iu_plan_summary :: "string \<Rightarrow> (bool \<times> iac_summary) res"
  iu_apply_summary :: "string \<Rightarrow> error option \<times> iac_summary"
  iu_summarize :: "string \<Rightarrow> error + string"

definition TerraformUtils :: "(string \<Rightarrow> error + plan_json) \<Rightarrow> (string \<Rightarrow> error + string) \<Rightarrow> iac_utils" where
  "TerraformUtils parse summarize =
     \<lparr>iu_plan_summary = GetSummaryFromPlanJson parse, iu_apply_summary = GetSummaryFromApplyOutput,
      iu_summarize = summarize\<rparr>"

definition PulumiUtils :: "(string \<Rightarrow> error + int \<times> int \<times> int) \<Rightarrow> iac_utils" where
  "PulumiUtils parse =
     \<lparr>iu_plan_summary = Pulumi_GetSummaryFromPlanJson parse, iu_apply_summary = GetSummaryFromApplyOutput,
      iu_summarize = (\<lambda>_. Inr [])\<rparr>"

end
