(* ===== verification/Executor.thy ===== *)
theory Executor
  imports IacTools IacUtils
begin

text \<open>
  Running the steps of a workflow: \<open>libs/execution/execution.go\<close>.  The tool is a record of operations
  (\<open>IacTools\<close>); the plan storage (a Go interface), the files and the environment variables are the
  answers of an \<open>exec_env\<close>.
\<close>

section \<open>Cleaning up the output\<close>

fun last_index :: "string \<Rightarrow> string \<Rightarrow> nat option" where
  "last_index s p =
     (case s of
        [] \<Rightarrow> if p = [] then Some 0 else None
      | _ # t \<Rightarrow>
          (case last_index t p of
             Some i \<Rightarrow> Some (Suc i)
           | None \<Rightarrow> if has_prefix s p then Some 0 else None))"

declare last_index.simps [simp del]

text \<open>The first match of eleven horizontal lines (three bytes each) and at least one character
  more, to the end of the line.\<close>

definition rule_line :: string where
  "rule_line = concat (replicate 11 [CHR 0xE2, CHR 0x94, CHR 0x80])"

fun match_rule :: "string \<Rightarrow> string option" where
  "match_rule s =
     (let rest = takeWhile (\<lambda>c. c \<noteq> CHR 0x0A) (drop (length rule_line) s) in
      if has_prefix s rule_line \<and> rest \<noteq> [] then Some (rule_line @ rest)
      else (case s of [] \<Rightarrow> None | _ # t \<Rightarrow> match_rule t))"

declare match_rule.simps [simp del]

definition start_delimiters :: "string list" where
  "start_delimiters =
     [''Terraform will perform the following actions:'', ''OpenTofu will perform the following actions:'',
      ''No changes. Your infrastructure matches the configuration.'']"

text \<open>The slice at the end is written with its bounds check.\<close>

definition slice :: "string \<Rightarrow> nat \<Rightarrow> nat \<Rightarrow> string res" where
  "slice s a b = (if a \<le> b \<and> b \<le> length s then Ok (take (b - a) (drop a s)) else Panic ''slice bounds out of range'')"

definition cleanupTerraformOutput :: "(string \<Rightarrow> string option) option \<Rightarrow> string \<Rightarrow> string res" where
  "cleanupTerraformOutput regex stdout0 =
     (let stdout = (case str_index stdout0 ''Initializing the backend...'' of
                      None \<Rightarrow> stdout0 | Some i \<Rightarrow> drop i stdout0);
          indices = List.map_filter (\<lambda>d. case str_index stdout d of
                      Some i \<Rightarrow> if i > 0 then Some i else None | None \<Rightarrow> None) start_delimiters;
          startPos = (case indices of [] \<Rightarrow> 0 | i # _ \<Rightarrow> i);
          endPos = (case Option.bind regex (\<lambda>find. find stdout) of
                      None \<Rightarrow> length stdout
                    | Some firstMatch \<Rightarrow>
                        (case last_index stdout firstMatch of
                           None \<Rightarrow> length firstMatch - 1
                         | Some i \<Rightarrow> i + length firstMatch));
          endPos = (if endPos \<le> startPos then length stdout else endPos)
      in slice stdout startPos endPos)"

definition cleanupTerraformApply :: "string \<Rightarrow> string res" where
  "cleanupTerraformApply stdout = cleanupTerraformOutput None stdout"

definition cleanupTerraformPlan :: "string \<Rightarrow> string res" where
  "cleanupTerraformPlan stdout = cleanupTerraformOutput (Some match_rule) stdout"

section \<open>The executor\<close>

text \<open>The tool, the plan storage, the files, the environment variables and whether the reporter
  supports Markdown.\<close>

record 's exec_env =
  xe_tool :: "'s iac_tool"
  xe_process :: process_env
  xe_plan_exists :: "event list \<Rightarrow> error + bool"
  xe_retrieve :: "event list \<Rightarrow> error + string option"
  xe_store :: "event list \<Rightarrow> error option"
  xe_delete :: "event list \<Rightarrow> error option"
  xe_create_file :: "event list \<Rightarrow> error option"
  xe_read_file :: "event list \<Rightarrow> error + string"
  xe_digger_out :: "event list \<Rightarrow> string option"
  xe_markdown :: bool
  xe_iac :: iac_utils

record digger_executor =
  de_ProjectNamespace :: string
  de_ProjectName :: string
  de_ProjectPath :: string
  de_PRNumber :: "int option"
  de_StateEnvVars :: env_vars
  de_CommandEnvVars :: env_vars
  de_ApplyStage :: "stage option"
  de_PlanStage :: "stage option"
  de_PlanStorage :: bool

definition ArtifactName :: "digger_executor \<Rightarrow> string" where
  "ArtifactName d = de_ProjectName d"

definition StoredPlanFilePath :: "digger_executor \<Rightarrow> string" where
  "StoredPlanFilePath d =
     (case de_PRNumber d of
        Some n \<Rightarrow> replace_all (de_ProjectNamespace d) ''/'' ''-'' @ ''-'' @ itoa n @ ''-'' @
          de_ProjectName d @ ''.tfplan''
      | None \<Rightarrow> replace_all (de_ProjectNamespace d) ''/'' ''-'' @ ''-'' @ de_ProjectName d @ ''.tfplan'')"

definition LocalPlanFilePath :: "digger_executor \<Rightarrow> string" where
  "LocalPlanFilePath d = path_Join [de_ProjectPath d, StoredPlanFilePath d]"

definition executor_projectId :: "digger_executor \<Rightarrow> string" where
  "executor_projectId d = de_ProjectNamespace d @ ''#'' @ de_ProjectName d"

text \<open>Reports: an error of the reporter is only logged.\<close>

definition reportError :: "'s exec_env \<Rightarrow> string \<Rightarrow> (unit, 's run_world) act" where
  "reportError env stderr =
     tell (EReport stderr (if xe_markdown env then AsCollapsibleComment ''Error during init.'' False
                           else AsComment ''Error during init.''))"

definition reportApplyError :: "'s exec_env \<Rightarrow> string \<Rightarrow> (unit, 's run_world) act" where
  "reportApplyError env err =
     tell (EReport err (if xe_markdown env then AsCollapsibleComment ''Error during applying.'' False
                        else AsComment ''Error during applying.''))"

definition reportTerraformApplyOutput :: "'s exec_env \<Rightarrow> string \<Rightarrow> (unit, 's run_world) act" where
  "reportTerraformApplyOutput env applyOutput =
     tell (EReport applyOutput
       (if xe_markdown env then TerraformOutputAsCollapsibleComment ''Apply output'' False
        else TerraformOutputAsComment ''Apply output''))"

definition reportTerraformError :: "'s exec_env \<Rightarrow> string \<Rightarrow> (unit, 's run_world) act" where
  "reportTerraformError env stderr =
     tell (EReport stderr
       (if xe_markdown env then TerraformOutputAsCollapsibleComment ''Error during init.'' False
        else TerraformOutputAsComment ''Error during init.''))"

definition reportAdditionalOutput :: "'s exec_env \<Rightarrow> string \<Rightarrow> (unit, 's run_world) act" where
  "reportAdditionalOutput env pid =
     act_bind (ask (EReadFile (pe_getenv (xe_process env) ''DIGGER_OUT'')) (xe_digger_out env)) (\<lambda>out.
       case out of
         None \<Rightarrow> act_ret ()
       | Some outputStr \<Rightarrow>
           act_bind
             (if length outputStr > 0 then
                tell (EReport outputStr
                  (if xe_markdown env
                   then TerraformOutputAsCollapsibleComment
                     (''Additional output for <b>'' @ pid @ ''</b>'') False
                   else TerraformOutputAsComment (''Additional output for '' @ pid)))
              else act_ret ())
             (\<lambda>_. tell (ERemoveFile (pe_getenv (xe_process env) ''DIGGER_OUT''))))"

text \<open>The commands of a \<open>run\<close> step; the variables for it are a map that the job's steps share, made
  when there is none.\<close>

definition run_commands :: "'s exec_env \<Rightarrow> step \<Rightarrow> string list" where
  "run_commands env st =
     (if pe_getenv (xe_process env) ''ACTIVATE_VENV'' = ''true''
      then [''source '' @ pe_getenv (xe_process env) ''GITHUB_WORKSPACE'' @ ''/.venv/bin/activate''] else []) @
     [st_Value st]"

definition ensure_run_env :: "(unit, 's run_world) act" where
  "ensure_run_env = act_modify (\<lambda>w. w\<lparr>rw_run_env := Some (case rw_run_env w of None \<Rightarrow> [] | Some m \<Rightarrow> m)\<rparr>)"

definition set_planfile :: "string \<Rightarrow> (unit, 's run_world) act" where
  "set_planfile f =
     act_modify (\<lambda>w. w\<lparr>rw_run_env := map_option (AList.update ''DIGGER_PLANFILE'' f) (rw_run_env w)\<rparr>)"

definition run_command :: "'s exec_env \<Rightarrow> digger_executor \<Rightarrow> step \<Rightarrow> (tool_out, 's run_world) act" where
  "run_command env d st w =
     CommandRunner_Run (xe_process env) (de_ProjectPath d) (st_Shell st) (run_commands env st)
       (case rw_run_env w of None \<Rightarrow> [] | Some m \<Rightarrow> m) w"

definition is_nonempty_file :: "digger_executor \<Rightarrow> string" where
  "is_nonempty_file d =
     (let f = LocalPlanFilePath d; stored = StoredPlanFilePath d in
      case str_index f stored of
        None \<Rightarrow> f
      | Some i \<Rightarrow> take i f @ ''isNonEmptyPlan.txt'' @ drop (i + length stored) f)"

text \<open>The plan, its JSON and summary, after it was run: the files and the storage.\<close>

definition store_plan :: "'s exec_env \<Rightarrow> digger_executor \<Rightarrow> (unit, 's run_world) act" where
  "store_plan env d =
     (if \<not> de_PlanStorage d then act_ret ()
      else
        act_bind (ask (EReadFile (LocalPlanFilePath d)) (xe_read_file env)) (\<lambda>r.
          case r of
            Inl e \<Rightarrow> act_err (''error reading file bytes: '' @ e)
          | Inr fileBytes \<Rightarrow>
              act_bind (ask (EStorePlan fileBytes (ArtifactName d) (StoredPlanFilePath d)) (xe_store env))
                (\<lambda>e. case e of
                   Some e \<Rightarrow> act_err (''error storing artifact file: '' @ e)
                 | None \<Rightarrow> act_ret ())))"

definition postProcessPlan ::
  "'s exec_env \<Rightarrow> digger_executor \<Rightarrow> string \<Rightarrow> (string \<times> string \<times> iac_summary \<times> bool, 's run_world) act" where
  "postProcessPlan env d stdout =
     act_bind (t_Show (xe_tool env) [] (de_CommandEnvVars d) (LocalPlanFilePath d) True) (\<lambda>(json, _, err).
     case err of
       Some e \<Rightarrow> act_err (''error running terraform show: '' @ e)
     | None \<Rightarrow>
         act_bind (act_wrap (\<lambda>e. ''error checking for empty plan: '' @ e) (act_of (iu_plan_summary (xe_iac env) json)))
           (\<lambda>(isEmptyPlan, planSummary).
         act_bind
           (if \<not> isEmptyPlan then
              act_bind (ask (ECreateFile (is_nonempty_file d)) (xe_create_file env)) (\<lambda>e.
                case e of Some e \<Rightarrow> act_err (''unable to create file: '' @ e) | None \<Rightarrow> act_ret ())
            else act_ret ()) (\<lambda>_.
         act_bind (store_plan env d) (\<lambda>_.
         act_bind (act_of (cleanupTerraformPlan stdout)) (\<lambda>cleanedUpPlan.
           act_ret (cleanedUpPlan, json, planSummary, isEmptyPlan))))))"

text \<open>What the steps of a plan compute: the plan, its JSON, its summary and whether it is empty.\<close>

type_synonym plan_state = "string \<times> string \<times> iac_summary \<times> bool"

definition no_plan :: plan_state where
  "no_plan = ([], [], no_summary, True)"

definition default_steps :: "string \<Rightarrow> step list" where
  "default_steps action =
     map (\<lambda>a. \<lparr>st_Action = a, st_Value = [], st_ExtraArgs = [], st_Shell = []\<rparr>) [''init'', action]"

definition stage_steps :: "stage option \<Rightarrow> string \<Rightarrow> step list" where
  "stage_steps st action = (case st of Some s \<Rightarrow> sg_Steps s | None \<Rightarrow> default_steps action)"

definition post_process_or_report ::
  "'s exec_env \<Rightarrow> digger_executor \<Rightarrow> string \<Rightarrow> (plan_state, 's run_world) act" where
  "post_process_or_report env d stdout =
     act_bind (act_try (postProcessPlan env d stdout)) (\<lambda>r.
       case r of
         Inl e \<Rightarrow> act_bind (reportError env e) (\<lambda>_. act_err (''error post processing plan: '' @ e))
       | Inr s \<Rightarrow> act_ret s)"

definition plan_step ::
  "'s exec_env \<Rightarrow> digger_executor \<Rightarrow> step \<Rightarrow> plan_state \<Rightarrow> (plan_state, 's run_world) act" where
  "plan_step env d st ps =
     (if st_Action st = ''init'' then
        act_bind (t_Init (xe_tool env) (st_ExtraArgs st) (de_StateEnvVars d)) (\<lambda>(_, stderr, err).
          case err of
            Some e \<Rightarrow> act_bind (reportError env stderr) (\<lambda>_. act_err (''error running init: '' @ e))
          | None \<Rightarrow> act_ret ps)
      else if st_Action st = ''plan'' then
        (case de_PlanStage d of
           None \<Rightarrow> act_panic ''nil pointer dereference''
         | Some stage \<Rightarrow>
             act_bind (t_Plan (xe_tool env) (st_ExtraArgs st) (de_CommandEnvVars d) (LocalPlanFilePath d)
                 (sg_FilterRegex stage)) (\<lambda>(_, stdout, stderr, err).
               case err of
                 Some e \<Rightarrow>
                   act_bind (reportTerraformError env stderr) (\<lambda>_.
                     act_err (''error executing plan: '' @ e @ '', stdout: '' @ stdout @ '', stderr: '' @ stderr))
               | None \<Rightarrow> post_process_or_report env d stdout))
      else if st_Action st = ''run'' then
        act_bind (set_planfile (LocalPlanFilePath d)) (\<lambda>_.
        act_bind (run_command env d st) (\<lambda>(_, _, err).
          case err of
            Some e \<Rightarrow> act_bind (reportError env e) (\<lambda>_. act_err (''error running command: '' @ e))
          | None \<Rightarrow> act_ret ps))
      else act_ret ps)"

fun run_steps :: "(step \<Rightarrow> 'p \<Rightarrow> ('p, 's run_world) act) \<Rightarrow> step list \<Rightarrow> 'p \<Rightarrow> ('p, 's run_world) act" where
  "run_steps f [] p = act_ret p"
| "run_steps f (st # sts) p = act_bind (f st p) (run_steps f sts)"

record plan_result =
  pr_Summary :: "iac_summary option"
  pr_Performed :: bool
  pr_NonEmpty :: bool
  pr_Plan :: string
  pr_Json :: string

definition executor_Plan :: "'s exec_env \<Rightarrow> digger_executor \<Rightarrow> (plan_result, 's run_world) act" where
  "executor_Plan env d =
     (let planSteps = stage_steps (de_PlanStage d) ''plan'';
          hasPlanStep = list_ex (\<lambda>st. st_Action st = ''plan'') planSteps
      in
      act_bind ensure_run_env (\<lambda>_.
      act_bind (run_steps (plan_step env d) planSteps no_plan) (\<lambda>ps.
      act_bind
        (if \<not> hasPlanStep then
           act_bind (t_Show (xe_tool env) [] (de_CommandEnvVars d) (LocalPlanFilePath d) False)
             (\<lambda>(rawPlan, _, err).
              case err of
                Some e \<Rightarrow> act_bind (reportTerraformError env e) (\<lambda>_. act_err (''error running terraform show: '' @ e))
              | None \<Rightarrow> post_process_or_report env d rawPlan)
         else act_ret ps) (\<lambda>(plan, json, summary, isEmptyPlan).
      act_bind (reportAdditionalOutput env (executor_projectId d)) (\<lambda>_.
        act_ret \<lparr>pr_Summary = Some summary, pr_Performed = True, pr_NonEmpty = \<not> isEmptyPlan, pr_Plan = plan,
          pr_Json = json\<rparr>)))))"

text \<open>\<open>Apply\<close>: the output that goes with an error is not used by any caller.\<close>

record apply_result =
  ap_Summary :: "iac_summary option"
  ap_Performed :: bool
  ap_Output :: string

definition apply_step ::
  "'s exec_env \<Rightarrow> digger_executor \<Rightarrow> string option \<Rightarrow> step \<Rightarrow> iac_summary \<times> string \<Rightarrow>
   (iac_summary \<times> string, 's run_world) act" where
  "apply_step env d plansFilename st so =
     (if st_Action st = ''init'' then
        act_bind (t_Init (xe_tool env) (st_ExtraArgs st) (de_StateEnvVars d)) (\<lambda>(_, stderr, err).
          case err of
            Some e \<Rightarrow> act_bind (reportTerraformError env stderr) (\<lambda>_. act_err (''error running init: '' @ e))
          | None \<Rightarrow> act_ret so)
      else if st_Action st = ''apply'' then
        act_bind (t_Apply (xe_tool env) (st_ExtraArgs st) plansFilename (de_CommandEnvVars d))
          (\<lambda>(stdout, stderr, err).
        act_bind (act_of (cleanupTerraformApply stdout)) (\<lambda>applyOutput.
        act_bind (reportTerraformApplyOutput env applyOutput) (\<lambda>_.
          case err of
            Some e \<Rightarrow> act_bind (reportApplyError env e) (\<lambda>_. act_err (''error executing apply: '' @ e))
          | None \<Rightarrow> act_ret (snd (iu_apply_summary (xe_iac env) stdout), applyOutput))))
      else if st_Action st = ''run'' then
        act_bind (case plansFilename of None \<Rightarrow> act_ret () | Some f \<Rightarrow> set_planfile f) (\<lambda>_.
        act_bind (run_command env d st) (\<lambda>(_, _, err).
          case err of
            Some e \<Rightarrow> act_err (''error running command: '' @ e)
          | None \<Rightarrow> act_ret so))
      else act_ret so)"

definition retrieve_plan :: "'s exec_env \<Rightarrow> digger_executor \<Rightarrow> (string option, 's run_world) act" where
  "retrieve_plan env d =
     act_bind (ask (ERetrievePlan (LocalPlanFilePath d) (ArtifactName d) (StoredPlanFilePath d)) (xe_retrieve env))
       (\<lambda>r. case r of Inl e \<Rightarrow> act_err e | Inr f \<Rightarrow> act_ret f)"

definition executor_Apply :: "'s exec_env \<Rightarrow> digger_executor \<Rightarrow> (apply_result, 's run_world) act" where
  "executor_Apply env d =
     act_bind
       (if de_PlanStorage d
        then act_wrap (\<lambda>e. ''error retrieving plan: '' @ e) (retrieve_plan env d) else act_ret None)
       (\<lambda>plansFilename.
     act_bind ensure_run_env (\<lambda>_.
     act_bind (run_steps (apply_step env d plansFilename) (stage_steps (de_ApplyStage d) ''apply'') (no_summary, []))
       (\<lambda>(summary, applyOutput).
     act_bind (reportAdditionalOutput env (executor_projectId d)) (\<lambda>_.
       act_ret \<lparr>ap_Summary = Some summary, ap_Performed = True, ap_Output = applyOutput\<rparr>))))"

definition executor_Destroy :: "'s exec_env \<Rightarrow> digger_executor \<Rightarrow> (bool, 's run_world) act" where
  "executor_Destroy env d =
     act_bind (t_Init (xe_tool env) [] (de_StateEnvVars d)) (\<lambda>(_, stderr, err).
       case err of
         Some e \<Rightarrow> act_bind (reportError env stderr) (\<lambda>_. act_err (''error running init: '' @ e))
       | None \<Rightarrow>
           act_bind (t_Destroy (xe_tool env) [''-lock-timeout=3m''] (de_CommandEnvVars d)) (\<lambda>_. act_ret True))"

definition RetrievePlanJson :: "'s exec_env \<Rightarrow> digger_executor \<Rightarrow> (string, 's run_world) act" where
  "RetrievePlanJson env d =
     (if \<not> de_PlanStorage d then act_panic ''nil pointer dereference''
      else
        act_bind (ask (EPlanExists (ArtifactName d) (StoredPlanFilePath d)) (xe_plan_exists env)) (\<lambda>ex.
        case ex of
          Inl e \<Rightarrow> act_err (''failed to check if stored plan exists. '' @ e)
        | Inr False \<Rightarrow> act_err ''stored plan does not exist''
        | Inr True \<Rightarrow>
            act_bind (act_wrap (\<lambda>e. ''failed to retrieve stored plan path. '' @ e) (retrieve_plan env d)) (\<lambda>storedPlanPath.
            case de_PlanStage d of
              None \<Rightarrow> act_panic ''nil pointer dereference''
            | Some stage \<Rightarrow>
                act_bind
                  (case find (\<lambda>st. st_Action st = ''init'') (sg_Steps stage) of
                     Some st \<Rightarrow> act_bind (t_Init (xe_tool env) (st_ExtraArgs st) (de_StateEnvVars d)) (\<lambda>_. act_ret ())
                   | None \<Rightarrow> act_ret ())
                  (\<lambda>_. case storedPlanPath of
                     None \<Rightarrow> act_panic ''nil pointer dereference''
                   | Some f \<Rightarrow>
                       act_bind (t_Show (xe_tool env) [] (de_CommandEnvVars d) f True) (\<lambda>(json, _, _).
                         act_ret json)))))"

section \<open>With the project's lock\<close>

definition locking_Plan ::
  "'s lock_ops \<Rightarrow> pr_env \<Rightarrow> pr_lock \<Rightarrow> 's exec_env \<Rightarrow> digger_executor \<Rightarrow> (plan_result, 's run_world) act" where
  "locking_Plan ops penv p env d =
     act_bind (act_wrap (\<lambda>e. ''digger plan, error locking project: '' @ e) (on_lock_world (Lock ops penv p)))
       (\<lambda>locked. if locked then executor_Plan env d
          else act_ret \<lparr>pr_Summary = None, pr_Performed = False, pr_NonEmpty = False, pr_Plan = [], pr_Json = []\<rparr>)"

definition locking_Apply ::
  "'s lock_ops \<Rightarrow> pr_env \<Rightarrow> pr_lock \<Rightarrow> 's exec_env \<Rightarrow> digger_executor \<Rightarrow> (apply_result, 's run_world) act" where
  "locking_Apply ops penv p env d =
     act_bind (act_wrap (\<lambda>e. ''digger apply, error locking project: '' @ e) (on_lock_world (Lock ops penv p)))
       (\<lambda>locked. if locked then executor_Apply env d
          else act_ret \<lparr>ap_Summary = None, ap_Performed = False, ap_Output = ''couldn'' @ [CHR 0x27] @ ''t lock ''\<rparr>)"

definition locking_Destroy ::
  "'s lock_ops \<Rightarrow> pr_env \<Rightarrow> pr_lock \<Rightarrow> 's exec_env \<Rightarrow> digger_executor \<Rightarrow> (bool, 's run_world) act" where
  "locking_Destroy ops penv p env d =
     act_bind (act_wrap (\<lambda>e. ''digger destroy, error locking project: '' @ e) (on_lock_world (Lock ops penv p)))
       (\<lambda>locked. if locked then executor_Destroy env d else act_ret False)"

definition locking_Unlock :: "'s lock_ops \<Rightarrow> pr_env \<Rightarrow> pr_lock \<Rightarrow> (unit, 's run_world) act" where
  "locking_Unlock ops penv p =
     act_wrap (\<lambda>e. ''failed to acquire lock: '' @ LockId p @ '', '' @ e) (on_lock_world (ForceUnlock ops penv p))"

definition locking_Lock :: "'s lock_ops \<Rightarrow> pr_env \<Rightarrow> pr_lock \<Rightarrow> (unit, 's run_world) act" where
  "locking_Lock ops penv p =
     act_bind (act_wrap (\<lambda>e. ''failed to acquire lock: '' @ LockId p @ '', '' @ e) (on_lock_world (Lock ops penv p)))
       (\<lambda>_. act_ret ())"

end
