(* ===== verification/Policy.thy ===== *)
theory Policy
  imports IacTools
begin

text \<open>
  Policies: \<open>libs/policy/policy.go\<close> and \<open>providers.go\<close>.  A \<open>Checker\<close> is a record of operations;
  \<open>DiggerPolicyChecker\<close> fetches its policies from the Digger API over HTTP and evaluates them with OPA,
  whose \<open>rego\<close> package is not part of the repository and is an argument, as the HTTP client is.

  \<open>access_decides\<close> says exactly when an action is allowed; that an empty policy, or one whose body
  cannot be read, allows it is part of the statement.
\<close>

section \<open>The Digger API\<close>

text \<open>A response: its status and its body, \<open>None\<close> when reading the body fails.\<close>

record http_response =
  hr_StatusCode :: int
  hr_Body :: "string option"

text \<open>A value of an expression of a Rego result; \<open>None\<close> in a slice is a value that is no string.\<close>

datatype rego_value = RegoBool bool | RegoSlice "string option list" | RegoOther

datatype policy_input =
    AccessInput string string "string list" "string list" "string list" string string
  | PlanInput string
  | DriftInput string string

text \<open>The environment: the URL of the host with a path, if it parses, and whether the request can be
  made; the HTTP client; the user's teams and the approvals; OPA's compiler and evaluation (its results,
  each a list of expressions); whether a text is JSON for a Go map.\<close>

record policy_env =
  po_url :: "string \<Rightarrow> string \<Rightarrow> error + string"
  po_request :: "string \<Rightarrow> error option"
  po_get :: "event list \<Rightarrow> error + http_response"
  po_teams :: "event list \<Rightarrow> error + string list"
  po_approvals :: "event list \<Rightarrow> string list"
  po_prepare :: "string \<Rightarrow> string \<Rightarrow> error option"
  po_eval :: "string \<Rightarrow> string \<Rightarrow> policy_input \<Rightarrow> rego_value list list"
  po_json :: "string \<Rightarrow> error option"

record http_provider =
  hp_DiggerHost :: string
  hp_DiggerOrganisation :: string

text \<open>One request: content and status.  A body that cannot be read is an empty one.\<close>

definition fetch_policy ::
  "policy_env \<Rightarrow> http_provider \<Rightarrow> string \<Rightarrow> (string \<times> int, 's run_world) act" where
  "fetch_policy env p path =
     (case po_url env (hp_DiggerHost p) path of
        Inl e \<Rightarrow> act_err (''not able to parse digger cloud url: '' @ e)
      | Inr url \<Rightarrow>
          (case po_request env url of
             Some e \<Rightarrow> act_err e
           | None \<Rightarrow>
               act_bind (ask (EHttpGet url) (po_get env)) (\<lambda>r.
                 case r of
                   Inl e \<Rightarrow> act_err e
                 | Inr resp \<Rightarrow>
                     act_ret (case hr_Body resp of None \<Rightarrow> [] | Some body \<Rightarrow> body, hr_StatusCode resp))))"

definition getAccessPolicyForOrganisation ::
  "policy_env \<Rightarrow> http_provider \<Rightarrow> (string \<times> int, 's run_world) act" where
  "getAccessPolicyForOrganisation env p =
     fetch_policy env p (''/orgs/'' @ hp_DiggerOrganisation p @ ''/access-policy'')"

definition getPlanPolicyForOrganisation ::
  "policy_env \<Rightarrow> http_provider \<Rightarrow> (string \<times> int, 's run_world) act" where
  "getPlanPolicyForOrganisation env p =
     fetch_policy env p (''/orgs/'' @ hp_DiggerOrganisation p @ ''/plan-policy'')"

definition getDriftPolicyForOrganisation ::
  "policy_env \<Rightarrow> http_provider \<Rightarrow> (string \<times> int, 's run_world) act" where
  "getDriftPolicyForOrganisation env p =
     fetch_policy env p (''/orgs/'' @ hp_DiggerOrganisation p @ ''/drift-policy'')"

definition getAccessPolicyForNamespace ::
  "policy_env \<Rightarrow> http_provider \<Rightarrow> string \<Rightarrow> string \<Rightarrow> (string \<times> int, 's run_world) act" where
  "getAccessPolicyForNamespace env p namespace project =
     fetch_policy env p (''/repos/'' @ namespace @ ''/projects/'' @ project @ ''/access-policy'')"

definition getPlanPolicyForNamespace ::
  "policy_env \<Rightarrow> http_provider \<Rightarrow> string \<Rightarrow> string \<Rightarrow> (string \<times> int, 's run_world) act" where
  "getPlanPolicyForNamespace env p namespace project =
     fetch_policy env p (''/repos/'' @ namespace @ ''/projects/'' @ project @ ''/plan-policy'')"

definition DefaultAccessPolicy :: string where
  "DefaultAccessPolicy =
     [CHR 0x0A] @ ''package digger'' @ [CHR 0x0A] @ ''default allow = true'' @ [CHR 0x0A] @
     ''allow = (count(input.planPolicyViolations) == 0)'' @ [CHR 0x0A]"

definition organisation_error :: "string \<Rightarrow> int \<Rightarrow> error" where
  "organisation_error content status =
     ''unexpected response while fetching organisation policy: '' @ content @ '', code '' @ itoa status"

definition project_error :: "string \<Rightarrow> int \<Rightarrow> error" where
  "project_error content status =
     ''unexpected response while fetching project policy: '' @ content @ '' code '' @ itoa status"

definition GetAccessPolicy ::
  "policy_env \<Rightarrow> http_provider \<Rightarrow> string \<Rightarrow> string \<Rightarrow> string \<Rightarrow> (string, 's run_world) act" where
  "GetAccessPolicy env p organisation repo project =
     act_bind (act_wrap (\<lambda>e. ''error while fetching access policy for namespace: '' @ e)
         (getAccessPolicyForNamespace env p (organisation @ ''-'' @ repo) project)) (\<lambda>(content, status).
     if status = 200 \<and> content \<noteq> [] then act_ret content
     else if status = 200 \<and> content = [] \<or> status = 404 then
       act_bind (act_wrap (\<lambda>e. ''error while fetching access policy for organisation: '' @ e)
           (getAccessPolicyForOrganisation env p)) (\<lambda>(content, status).
         if status = 200 then act_ret content
         else if status = 404 then act_ret DefaultAccessPolicy
         else act_err (organisation_error content status))
     else act_err (project_error content status))"

definition GetPlanPolicy ::
  "policy_env \<Rightarrow> http_provider \<Rightarrow> string \<Rightarrow> string \<Rightarrow> string \<Rightarrow> (string, 's run_world) act" where
  "GetPlanPolicy env p organisation repo project =
     act_bind (getPlanPolicyForNamespace env p (organisation @ ''-'' @ repo) project) (\<lambda>(content, status).
     if status = 200 \<and> content \<noteq> [] then act_ret content
     else if status = 200 \<and> content = [] \<or> status = 404 then
       act_bind (getPlanPolicyForOrganisation env p) (\<lambda>(content, status).
         if status = 200 then act_ret content
         else if status = 404 then act_ret []
         else act_err (organisation_error content status))
     else act_err (project_error content status))"

definition GetDriftPolicy :: "policy_env \<Rightarrow> http_provider \<Rightarrow> (string, 's run_world) act" where
  "GetDriftPolicy env p =
     act_bind (getDriftPolicyForOrganisation env p) (\<lambda>(content, status).
       if status = 200 then act_ret content
       else if status = 404 then act_ret []
       else act_err (organisation_error content status))"

section \<open>The checkers\<close>

text \<open>What a check of the access policy is asked for; \<open>ar_pr\<close> says whether there is a pull-request
  service.\<close>

record access_request =
  ar_pr :: bool
  ar_organisation :: string
  ar_repository :: string
  ar_project :: string
  ar_dir :: string
  ar_command :: string
  ar_prNumber :: "int option"
  ar_requestedBy :: string
  ar_violations :: "string list"

record 's checker =
  ck_access :: "access_request \<Rightarrow> (bool, 's run_world) act"
  ck_plan :: "string \<Rightarrow> string \<Rightarrow> string \<Rightarrow> string \<Rightarrow> string \<Rightarrow> (bool \<times> string list, 's run_world) act"
  ck_drift :: "string \<Rightarrow> string \<Rightarrow> string \<Rightarrow> (bool, 's run_world) act"

definition NoOpPolicyChecker :: "'s checker" where
  "NoOpPolicyChecker =
     \<lparr>ck_access = (\<lambda>_. act_ret True), ck_plan = (\<lambda>_ _ _ _ _. act_ret (True, [])),
      ck_drift = (\<lambda>_ _ _. act_ret True)\<rparr>"

fun all_true :: "rego_value list \<Rightarrow> bool res" where
  "all_true [] = Ok True"
| "all_true (RegoBool b # vs) = (if b then all_true vs else Ok False)"
| "all_true (_ # vs) = Err ''decision is not a boolean''"

text \<open>The expressions of the first result.\<close>

definition rego_expressions ::
  "policy_env \<Rightarrow> string \<Rightarrow> string \<Rightarrow> policy_input \<Rightarrow> (rego_value list, 's run_world) act" where
  "rego_expressions env query policy input =
     (case po_prepare env query policy of
        Some e \<Rightarrow> act_err e
      | None \<Rightarrow>
          act_bind (tell (ERego query policy)) (\<lambda>_.
            case po_eval env query policy input of
              [] \<Rightarrow> act_err ''no result found''
            | [] # _ \<Rightarrow> act_err ''no result found''
            | expressions # _ \<Rightarrow> act_ret expressions))"

definition CheckAccessPolicy ::
  "policy_env \<Rightarrow> http_provider \<Rightarrow> access_request \<Rightarrow> (bool, 's run_world) act" where
  "CheckAccessPolicy env p q =
     act_bind (GetAccessPolicy env p (ar_organisation q) (ar_repository q) (ar_project q)) (\<lambda>policy.
     act_bind (ask (EUserTeams (ar_organisation q) (ar_requestedBy q)) (po_teams env)) (\<lambda>r.
     act_bind
       (case (ar_pr q, ar_prNumber q) of
          (True, Some n) \<Rightarrow> ask (EApprovals n) (po_approvals env)
        | _ \<Rightarrow> act_ret []) (\<lambda>approvals.
       (let teams = (case r of Inl _ \<Rightarrow> [] | Inr ts \<Rightarrow> ts);
            input = AccessInput (ar_requestedBy q) (ar_organisation q) teams approvals (ar_violations q)
                      (ar_command q) (ar_project q)
        in if policy = [] then act_ret True
           else act_bind (rego_expressions env ''data.digger.allow'' policy input) (\<lambda>expressions.
                  act_of (all_true expressions))))))"

fun collect_denials :: "rego_value list \<Rightarrow> string list \<Rightarrow> string list res" where
  "collect_denials [] acc = Ok acc"
| "collect_denials (RegoSlice ds # vs) acc =
     (if None \<in> set ds then Panic ''interface conversion''
      else collect_denials vs (acc @ List.map_filter (\<lambda>d. d) ds))"
| "collect_denials (_ # vs) acc = Err ''decision is not a slice of interfaces''"

definition CheckPlanPolicy ::
  "policy_env \<Rightarrow> http_provider \<Rightarrow> string \<Rightarrow> string \<Rightarrow> string \<Rightarrow> string \<Rightarrow> string \<Rightarrow>
   (bool \<times> string list, 's run_world) act" where
  "CheckPlanPolicy env p repo organisation project dir planOutput =
     act_bind (act_wrap (\<lambda>e. ''failed get plan policy: '' @ e) (GetPlanPolicy env p organisation repo project))
       (\<lambda>policy.
     case po_json env planOutput of
       Some e \<Rightarrow> act_err (''failed to parse json terraform output to map: '' @ e)
     | None \<Rightarrow>
         if policy = [] then act_ret (True, [])
         else
           act_bind (rego_expressions env ''data.digger.deny'' policy (PlanInput planOutput)) (\<lambda>expressions.
           act_bind (act_of (collect_denials expressions [])) (\<lambda>decisionsResult.
             if length decisionsResult > 0 then act_ret (False, decisionsResult) else act_ret (True, []))))"

definition CheckDriftPolicy ::
  "policy_env \<Rightarrow> http_provider \<Rightarrow> string \<Rightarrow> string \<Rightarrow> string \<Rightarrow> (bool, 's run_world) act" where
  "CheckDriftPolicy env p organisation repo project =
     act_bind (GetDriftPolicy env p) (\<lambda>policy.
       if policy = [] then act_ret True
       else act_bind (rego_expressions env ''data.digger.enable'' policy (DriftInput organisation project))
              (\<lambda>expressions. act_of (all_true expressions)))"

definition DiggerPolicyChecker :: "policy_env \<Rightarrow> http_provider \<Rightarrow> 's checker" where
  "DiggerPolicyChecker env p =
     \<lparr>ck_access = CheckAccessPolicy env p, ck_plan = CheckPlanPolicy env p, ck_drift = CheckDriftPolicy env p\<rparr>"

definition NewPolicyChecker ::
  "policy_env \<Rightarrow> (string \<Rightarrow> string) \<Rightarrow> string \<Rightarrow> string \<Rightarrow> 's checker" where
  "NewPolicyChecker env getenv hostname organisationName =
     (if getenv ''NO_BACKEND'' = ''true'' then NoOpPolicyChecker
      else DiggerPolicyChecker env \<lparr>hp_DiggerHost = hostname, hp_DiggerOrganisation = organisationName\<rparr>)"

section \<open>What a checker promises\<close>

locale checker_contract =
  fixes checker :: "'s checker"
  assumes access_quiet: "emits (\<lambda>e. \<not> is_process e) (ck_access checker q)"
    and plan_quiet: "emits (\<lambda>e. \<not> is_process e) (ck_plan checker r o' n d pl)"
    and drift_quiet: "emits (\<lambda>e. \<not> is_process e) (ck_drift checker o' r n)"
    and access_lock_free: "lock_free (ck_access checker q)"
    and plan_policy_lock_free: "lock_free (ck_plan checker r o' n d pl)"
    and drift_lock_free: "lock_free (ck_drift checker o' r n)"

lemmas fetch_defs = fetch_policy_def getAccessPolicyForOrganisation_def getPlanPolicyForOrganisation_def
  getDriftPolicyForOrganisation_def getAccessPolicyForNamespace_def getPlanPolicyForNamespace_def

lemma fetch_quiet [emits]: "emits (\<lambda>e. \<not> is_process e) (fetch_policy env p path)"
  and fetch_lock_free [keeps_locks]: "lock_free (fetch_policy env p path)"
  unfolding fetch_policy_def
  by (auto intro!: emits keeps_locks split: sum.split option.split simp del: act_ret_def act_err_def)

lemma rego_quiet [emits]: "emits (\<lambda>e. \<not> is_process e) (rego_expressions env q pol i)"
  and rego_lock_free [keeps_locks]: "lock_free (rego_expressions env q pol i)"
  unfolding rego_expressions_def
  by (auto intro!: emits keeps_locks split: option.split list.split simp del: act_ret_def act_err_def)

lemma policies_quiet [emits]:
  "emits (\<lambda>e. \<not> is_process e) (GetAccessPolicy env p o' r n)"
  "emits (\<lambda>e. \<not> is_process e) (GetPlanPolicy env p o' r n)"
  "emits (\<lambda>e. \<not> is_process e) (GetDriftPolicy env p)"
  unfolding GetAccessPolicy_def GetPlanPolicy_def GetDriftPolicy_def fetch_defs(2-)
  by (auto intro!: emits simp del: act_ret_def act_err_def)

lemma policies_lock_free [keeps_locks]:
  "lock_free (GetAccessPolicy env p o' r n)" "lock_free (GetPlanPolicy env p o' r n)"
  "lock_free (GetDriftPolicy env p)"
  unfolding GetAccessPolicy_def GetPlanPolicy_def GetDriftPolicy_def fetch_defs(2-)
  by (auto intro!: keeps_locks simp del: act_ret_def act_err_def)

interpretation digger_checker: checker_contract "DiggerPolicyChecker env p" for env p
proof (unfold_locales)
  note d = DiggerPolicyChecker_def CheckAccessPolicy_def CheckPlanPolicy_def CheckDriftPolicy_def
  show "emits (\<lambda>e. \<not> is_process e) (ck_access (DiggerPolicyChecker env p) q)" for q
    by (auto simp: d Let_def simp del: act_ret_def act_of_def intro!: emits split: bool.split option.split)
  show "emits (\<lambda>e. \<not> is_process e) (ck_plan (DiggerPolicyChecker env p) r o' n dr pl)" for r o' n dr pl
    by (auto simp: d simp del: act_ret_def act_of_def act_err_def intro!: emits split: option.split)
  show "emits (\<lambda>e. \<not> is_process e) (ck_drift (DiggerPolicyChecker env p) o' r n)" for o' r n
    by (auto simp: d simp del: act_ret_def act_of_def intro!: emits)
  show "lock_free (ck_access (DiggerPolicyChecker env p) q)" for q
    by (auto simp: d Let_def simp del: act_ret_def act_of_def intro!: keeps_locks split: bool.split option.split)
  show "lock_free (ck_plan (DiggerPolicyChecker env p) r o' n dr pl)" for r o' n dr pl
    by (auto simp: d simp del: act_ret_def act_of_def act_err_def intro!: keeps_locks split: option.split)
  show "lock_free (ck_drift (DiggerPolicyChecker env p) o' r n)" for o' r n
    by (auto simp: d simp del: act_ret_def act_of_def intro!: keeps_locks)
qed

interpretation noop_checker: checker_contract NoOpPolicyChecker
  by unfold_locales (auto simp: NoOpPolicyChecker_def intro!: emits keeps_locks simp del: act_ret_def)

interpretation new_checker: checker_contract "NewPolicyChecker env getenv hostname organisationName"
  for env getenv hostname organisationName
  unfolding NewPolicyChecker_def
  by (cases "getenv ''NO_BACKEND'' = ''true''")
    (simp_all add: noop_checker.checker_contract_axioms digger_checker.checker_contract_axioms)

end
