(* ===== verification/AwsAuth.thy ===== *)
theory AwsAuth
  imports IacTools
begin

text \<open>
  The AWS credentials of a job: \<open>libs/scheduler/aws.go\<close>.  The AWS SDK and the HTTP client are an
  \<open>aws_env\<close>.  A job is a Go struct whose stages are behind pointers and whose environment variables are
  maps: what is written through them the caller's copy of the job sees too, so
  \<open>PopulateAwsCredentialsEnvVarsForJob\<close> returns the job it filled and the job its caller is left with.
  The maps of a job are never nil here, as \<open>ConvertProjectsToJobs\<close> makes them.
\<close>

record aws_creds =
  cr_AccessKeyID :: string
  cr_SecretAccessKey :: string
  cr_SessionToken :: string

text \<open>The provider of a role, the SDK's configuration of a region, an HTTP request for the identity
  token (a failed request, a body that is no JSON, or the value), Cognito's two calls, and STS.\<close>

record 'p aws_env =
  ae_retrieve :: "event list \<Rightarrow> 'p \<Rightarrow> error + aws_creds"
  ae_load_config :: "string \<Rightarrow> error option"
  ae_token_request :: "event list \<Rightarrow> error + (error + string)"
  ae_get_id :: "event list \<Rightarrow> error + string"
  ae_get_credentials :: "event list \<Rightarrow> error + aws_creds"
  ae_assume_role :: "event list \<Rightarrow> error + aws_creds"

definition ask_or_err :: "event \<Rightarrow> (event list \<Rightarrow> error + 'a) \<Rightarrow> ('a, 's run_world) act" where
  "ask_or_err ev f = act_bind (ask ev f) (\<lambda>r. case r of Inl e \<Rightarrow> act_err e | Inr a \<Rightarrow> act_ret a)"

definition retrieveBackendConfigArgs ::
  "'p aws_env \<Rightarrow> 'p \<Rightarrow> (string list, 's run_world) act" where
  "retrieveBackendConfigArgs env provider =
     act_bind (act_wrap (\<lambda>e. ''populateKeys: Could not retrieve keys from provider '' @ e)
         (ask_or_err (ECredentials ''retrieve'' []) (\<lambda>t. ae_retrieve env t provider))) (\<lambda>creds.
       act_ret [''-backend-config=access_key='' @ cr_AccessKeyID creds,
         ''-backend-config=secret_key='' @ cr_SecretAccessKey creds,
         ''-backend-config=token='' @ cr_SessionToken creds])"

definition aws_keys :: "aws_creds \<Rightarrow> env_vars" where
  "aws_keys creds =
     [(''AWS_ACCESS_KEY_ID'', cr_AccessKeyID creds), (''AWS_SECRET_ACCESS_KEY'', cr_SecretAccessKey creds),
      (''AWS_SESSION_TOKEN'', cr_SessionToken creds)]"

definition populateKeys :: "'p aws_env \<Rightarrow> env_vars \<Rightarrow> 'p \<Rightarrow> (env_vars, 's run_world) act" where
  "populateKeys env envs provider =
     act_bind (act_wrap (\<lambda>e. ''populateKeys: Could not retrieve keys from provider '' @ e)
         (ask_or_err (ECredentials ''retrieve'' []) (\<lambda>t. ae_retrieve env t provider))) (\<lambda>creds.
       act_ret (foldl (\<lambda>m (k, v). AList.update k v m) envs (aws_keys creds)))"

datatype auth_strategy = BackendConfig | TerragruntAuth | Cognito

definition GetAuthStrategy :: "'p job \<Rightarrow> auth_strategy" where
  "GetAuthStrategy job =
     (if j_Terragrunt job \<and> j_CognitoOidcConfig job = None then TerragruntAuth
      else if j_CognitoOidcConfig job \<noteq> None then Cognito
      else BackendConfig)"

text \<open>The arguments go to the first step of a stage; a stage without steps is an index out of range.\<close>

definition add_init_args :: "string list \<Rightarrow> stage option \<Rightarrow> stage option res" where
  "add_init_args args st =
     (case st of
        None \<Rightarrow> Ok None
      | Some s \<Rightarrow>
          (case sg_Steps s of
             [] \<Rightarrow> Panic ''index out of range''
           | x # xs \<Rightarrow> Ok (Some (s\<lparr>sg_Steps := x\<lparr>st_ExtraArgs := st_ExtraArgs x @ args\<rparr> # xs\<rparr>))))"

definition populate_command ::
  "'p aws_env \<Rightarrow> 'p job \<Rightarrow> ('p job, 's run_world) act" where
  "populate_command env job =
     (case j_CommandEnvProvider job of
        None \<Rightarrow> act_ret job
      | Some p \<Rightarrow>
          act_bind (act_wrap (\<lambda>e. ''failed to get (command) keys from role: '' @ e)
              (populateKeys env (j_CommandEnvVars job) p))
            (\<lambda>m. act_ret (job\<lparr>j_CommandEnvVars := m\<rparr>)))"

definition AuthBackendConfig :: "'p aws_env \<Rightarrow> 'p job \<Rightarrow> ('p job, 's run_world) act" where
  "AuthBackendConfig env job =
     act_bind
       (case j_StateEnvProvider job of
          None \<Rightarrow> act_ret job
        | Some p \<Rightarrow>
            act_bind (act_wrap (\<lambda>e. ''failed to get (state) keys from role: '' @ e)
                (retrieveBackendConfigArgs env p)) (\<lambda>backendConfigArgs.
            act_bind (act_of (add_init_args backendConfigArgs (j_PlanStage job))) (\<lambda>plan.
            act_bind (act_of (add_init_args backendConfigArgs (j_ApplyStage job))) (\<lambda>apply.
              act_ret (job\<lparr>j_PlanStage := plan, j_ApplyStage := apply\<rparr>)))))
       (populate_command env)"

definition AuthTerragrunt :: "'p aws_env \<Rightarrow> 'p job \<Rightarrow> ('p job, 's run_world) act" where
  "AuthTerragrunt env job =
     act_bind
       (case j_StateEnvProvider job of
          None \<Rightarrow> act_ret job
        | Some p \<Rightarrow>
            act_bind (act_wrap (\<lambda>e. ''failed to get (state) keys from role: '' @ e)
                (populateKeys env (j_StateEnvVars job) p))
              (\<lambda>m. act_ret (job\<lparr>j_StateEnvVars := m\<rparr>)))
       (populate_command env)"

section \<open>Cognito\<close>

text \<open>The token fetcher of GitHub Actions.\<close>

definition GetIdentityToken :: "'p aws_env \<Rightarrow> string \<Rightarrow> (string, 's run_world) act" where
  "GetIdentityToken env audience =
     (let audienceDomain = (if audience = [] then ''sts.amazonaws.com'' else audience) in
      act_bind (ask_or_err (ECredentials ''identity token'' audienceDomain) (ae_token_request env)) (\<lambda>parsed.
        case parsed of
          Inl e \<Rightarrow> act_err (''failed to decode token response: '' @ e)
        | Inr v \<Rightarrow> act_ret v))"

definition github_idp :: string where
  "github_idp = ''token.actions.githubusercontent.com''"

definition GetCognitoToken ::
  "'p aws_env \<Rightarrow> cognito_config \<Rightarrow> string \<Rightarrow> (env_vars, 's run_world) act" where
  "GetCognitoToken env cognitoConfig idpName =
     (if idpName \<noteq> github_idp then act_err ''only github actions is supported''
      else if CognitoPoolId cognitoConfig = [] then
        act_err ''no AWS Cognito Pool Id found for project''
      else if AwsAccountId cognitoConfig = [] \<or> AwsRegion cognitoConfig = [] then
        act_err ''account information could not be determined in order to fetch Cognito token''
      else
        (case ae_load_config env (AwsRegion cognitoConfig) of
           Some e \<Rightarrow> act_err (''unable to load AWS SDK config in GetCognitoToken(), '' @ e)
         | None \<Rightarrow>
             act_bind (act_wrap (\<lambda>e. ''failed to get access token in GetCognitoToken(): '' @ e)
                 (GetIdentityToken env ''cognito-identity.amazonaws.com'')) (\<lambda>accessToken.
             act_bind (act_wrap (\<lambda>e. ''failed to get a valid cognito id token: '' @ e)
                 (ask_or_err (ECredentials (CognitoPoolId cognitoConfig) accessToken) (ae_get_id env)))
               (\<lambda>identityId.
             act_bind (act_wrap (\<lambda>e. ''failed to get a valid cognito id token: '' @ e)
                 (ask_or_err (ECredentials identityId accessToken) (ae_get_credentials env)))
               (\<lambda>creds. act_ret (aws_keys creds))))))"

definition assume_role_keys ::
  "'p aws_env \<Rightarrow> string \<Rightarrow> string \<Rightarrow> string \<Rightarrow> (env_vars, 's run_world) act" where
  "assume_role_keys env what arn session =
     act_bind (act_wrap (\<lambda>e. ''failed to assume role for '' @ what @ '' '' @ e)
         (ask_or_err (ECredentials arn session) (ae_assume_role env))) (\<lambda>creds. act_ret (aws_keys creds))"

definition assume_roles :: "'p aws_env \<Rightarrow> 'p job \<Rightarrow> ('p job, 's run_world) act" where
  "assume_roles env job =
     act_bind
       (if j_StateRoleArn job \<noteq> [] then
          act_bind (assume_role_keys env ''state'' (j_StateRoleArn job) (j_ProjectName job @ ''-state''))
            (\<lambda>m. act_ret (job\<lparr>j_StateEnvVars := m\<rparr>))
        else act_ret job) (\<lambda>job.
     if j_CommandRoleArn job \<noteq> [] then
       act_bind (assume_role_keys env ''command'' (j_CommandRoleArn job) (j_ProjectName job @ ''-command''))
         (\<lambda>m. act_ret (job\<lparr>j_CommandEnvVars := m\<rparr>))
     else act_ret job)"

definition AuthCognito :: "'p aws_env \<Rightarrow> 'p job \<Rightarrow> ('p job, 's run_world) act" where
  "AuthCognito env job =
     (case j_CognitoOidcConfig job of
        None \<Rightarrow> act_panic ''nil pointer dereference''
      | Some cfg \<Rightarrow>
          act_bind (act_wrap (\<lambda>e. ''failed to get Cognito token: '' @ e) (GetCognitoToken env cfg github_idp))
            (\<lambda>creds.
          if j_CommandEnvProvider job \<noteq> None \<or> j_StateEnvProvider job \<noteq> None then
            (case ae_load_config env (AwsRegion cfg) of
               Some e \<Rightarrow> act_err (''failed to create AWS config '' @ e)
             | None \<Rightarrow>
                 assume_roles env job)
          else act_ret (job\<lparr>j_StateEnvVars := creds, j_CommandEnvVars := creds\<rparr>)))"

section \<open>Filling a job\<close>

text \<open>When one of the two maps is empty it becomes the other.\<close>

definition copy_env_vars :: "'p job \<Rightarrow> 'p job" where
  "copy_env_vars job =
     (let job = (if j_StateEnvVars job = [] \<and> j_CommandEnvVars job \<noteq> []
                 then job\<lparr>j_StateEnvVars := j_CommandEnvVars job\<rparr> else job)
      in (if j_StateEnvVars job \<noteq> [] \<and> j_CommandEnvVars job = []
          then job\<lparr>j_CommandEnvVars := j_StateEnvVars job\<rparr> else job))"

text \<open>The job it filled, and the caller's: the first two strategies write through the stages and the
  maps, Cognito's sets new maps.\<close>

definition PopulateAwsCredentialsEnvVarsForJob ::
  "'p aws_env \<Rightarrow> 'p job \<Rightarrow> ('p job \<times> 'p job, 's run_world) act" where
  "PopulateAwsCredentialsEnvVarsForJob env job =
     (case GetAuthStrategy job of
        Cognito \<Rightarrow> act_bind (AuthCognito env job) (\<lambda>j. act_ret (copy_env_vars j, job))
      | TerragruntAuth \<Rightarrow> act_bind (AuthTerragrunt env job) (\<lambda>j. act_ret (copy_env_vars j, j))
      | BackendConfig \<Rightarrow> act_bind (AuthBackendConfig env job) (\<lambda>j. act_ret (copy_env_vars j, j)))"

section \<open>No process, no lock\<close>

lemma ask_or_err_quiet [emits]: "P ev \<Longrightarrow> emits P (ask_or_err ev f)"
  and ask_or_err_lock_free [keeps_locks]: "lock_free (ask_or_err ev f)"
  unfolding ask_or_err_def
  by (auto intro!: emits keeps_locks split: sum.split simp del: act_ret_def act_err_def)

lemma retrieveBackendConfigArgs_quiet [emits]: "emits (\<lambda>e. \<not> is_process e) (retrieveBackendConfigArgs env p)"
  and retrieveBackendConfigArgs_lock_free [keeps_locks]: "lock_free (retrieveBackendConfigArgs env p)"
  unfolding retrieveBackendConfigArgs_def Let_def
  by (auto intro!: emits keeps_locks split: auth_strategy.split option.split sum.split
      simp del: act_ret_def act_err_def act_of_def act_panic_def)

lemma populateKeys_quiet [emits]: "emits (\<lambda>e. \<not> is_process e) (populateKeys env m p)"
  and populateKeys_lock_free [keeps_locks]: "lock_free (populateKeys env m p)"
  unfolding populateKeys_def Let_def
  by (auto intro!: emits keeps_locks split: auth_strategy.split option.split sum.split
      simp del: act_ret_def act_err_def act_of_def act_panic_def)

lemma populate_command_quiet [emits]: "emits (\<lambda>e. \<not> is_process e) (populate_command env job)"
  and populate_command_lock_free [keeps_locks]: "lock_free (populate_command env job)"
  unfolding populate_command_def Let_def
  by (auto intro!: emits keeps_locks split: auth_strategy.split option.split sum.split
      simp del: act_ret_def act_err_def act_of_def act_panic_def)

lemma AuthBackendConfig_quiet [emits]: "emits (\<lambda>e. \<not> is_process e) (AuthBackendConfig env job)"
  and AuthBackendConfig_lock_free [keeps_locks]: "lock_free (AuthBackendConfig env job)"
  unfolding AuthBackendConfig_def Let_def
  by (auto intro!: emits keeps_locks split: auth_strategy.split option.split sum.split
      simp del: act_ret_def act_err_def act_of_def act_panic_def)

lemma AuthTerragrunt_quiet [emits]: "emits (\<lambda>e. \<not> is_process e) (AuthTerragrunt env job)"
  and AuthTerragrunt_lock_free [keeps_locks]: "lock_free (AuthTerragrunt env job)"
  unfolding AuthTerragrunt_def Let_def
  by (auto intro!: emits keeps_locks split: auth_strategy.split option.split sum.split
      simp del: act_ret_def act_err_def act_of_def act_panic_def)

lemma GetIdentityToken_quiet [emits]: "emits (\<lambda>e. \<not> is_process e) (GetIdentityToken env a)"
  and GetIdentityToken_lock_free [keeps_locks]: "lock_free (GetIdentityToken env a)"
  unfolding GetIdentityToken_def Let_def
  by (auto intro!: emits keeps_locks split: auth_strategy.split option.split sum.split
      simp del: act_ret_def act_err_def act_of_def act_panic_def)

lemma GetCognitoToken_quiet [emits]: "emits (\<lambda>e. \<not> is_process e) (GetCognitoToken env c i)"
  and GetCognitoToken_lock_free [keeps_locks]: "lock_free (GetCognitoToken env c i)"
  unfolding GetCognitoToken_def Let_def
  by (auto intro!: emits keeps_locks split: auth_strategy.split option.split sum.split
      simp del: act_ret_def act_err_def act_of_def act_panic_def)

lemma assume_role_quiet [emits]: "emits (\<lambda>e. \<not> is_process e) (assume_role_keys env w a s)"
  and assume_role_lock_free [keeps_locks]: "lock_free (assume_role_keys env w a s)"
  unfolding assume_role_keys_def Let_def
  by (auto intro!: emits keeps_locks split: auth_strategy.split option.split sum.split
      simp del: act_ret_def act_err_def act_of_def act_panic_def)

lemma assume_roles_quiet [emits]: "emits (\<lambda>e. \<not> is_process e) (assume_roles env job)"
  and assume_roles_lock_free [keeps_locks]: "lock_free (assume_roles env job)"
  unfolding assume_roles_def Let_def
  by (auto intro!: emits keeps_locks split: auth_strategy.split option.split sum.split
      simp del: act_ret_def act_err_def act_of_def act_panic_def)

lemma AuthCognito_quiet [emits]: "emits (\<lambda>e. \<not> is_process e) (AuthCognito env job)"
  and AuthCognito_lock_free [keeps_locks]: "lock_free (AuthCognito env job)"
  unfolding AuthCognito_def Let_def
  by (auto intro!: emits keeps_locks split: auth_strategy.split option.split sum.split
      simp del: act_ret_def act_err_def act_of_def act_panic_def)

lemma PopulateAwsCredentialsEnvVarsForJob_quiet [emits]: "emits (\<lambda>e. \<not> is_process e) (PopulateAwsCredentialsEnvVarsForJob env job)"
  and PopulateAwsCredentialsEnvVarsForJob_lock_free [keeps_locks]: "lock_free (PopulateAwsCredentialsEnvVarsForJob env job)"
  unfolding PopulateAwsCredentialsEnvVarsForJob_def Let_def
  by (auto intro!: emits keeps_locks split: auth_strategy.split option.split sum.split
      simp del: act_ret_def act_err_def act_of_def act_panic_def)

end
