(* ===== verification/Runner.thy ===== *)
theory Runner
  imports Executor Policy AwsAuth SchedulerOps
begin

text \<open>
  The runner of the CLI: \<open>cli/pkg/digger/digger.go\<close>.  \<open>RunJobs\<close> runs the commands of the jobs of a
  pull request, \<open>RunJob\<close> those of one job without one.  The reporter, the pull-request service, the
  backend's API and the drift notification are Go interfaces whose answers the \<open>runner_env\<close> gives.
  \<open>os.Exit\<close> and \<open>log.Fatal\<close> are the panic \<open>exited\<close>, which runs no deferred call.
\<close>

section \<open>The environment\<close>

record ('s, 'p) runner_env =
  rn_lock :: "'s lock_ops"
  rn_pr_env :: pr_env
  rn_exec :: "'s exec_env"
  rn_storage :: bool
  rn_parse_plan :: "string \<Rightarrow> error + plan_json"
  rn_summarize :: "string \<Rightarrow> error + string"
  rn_parse_preview :: "string \<Rightarrow> error + int \<times> int \<times> int"
  rn_checker :: "'s checker"
  rn_aws :: "'p aws_env"
  rn_workingDir :: string
  rn_is_merged :: "event list \<Rightarrow> error + bool"
  rn_is_mergeable :: "event list \<Rightarrow> error + bool"
  rn_combined_status :: "event list \<Rightarrow> error + string"
  rn_merge :: "event list \<Rightarrow> error option"
  rn_flush :: "event list \<Rightarrow> error + string \<times> string"
  rn_publish :: "event list \<Rightarrow> error + string"
  rn_job_status :: "event list \<Rightarrow> error + serialized_job list option"
  rn_update_comment :: "event list \<Rightarrow> error option"
  rn_notify :: "(event list \<Rightarrow> error option) option"

definition exited :: string where
  "exited = ''exit status 1''"

definition exit_process :: "('a, 's run_world) act" where
  "exit_process = act_panic exited"

definition getenv_of :: "('s, 'p) runner_env \<Rightarrow> string \<Rightarrow> string" where
  "getenv_of env = pe_getenv (xe_process (rn_exec env))"

definition markdown :: "('s, 'p) runner_env \<Rightarrow> bool" where
  "markdown env = xe_markdown (rn_exec env)"

definition CI_None :: string where "CI_None = ''''"

definition DetectCI :: "(string \<Rightarrow> string) \<Rightarrow> string" where
  "DetectCI getenv =
     (if getenv ''GITHUB_ACTIONS'' \<noteq> [] then ''github''
      else if getenv ''GITLAB_CI'' \<noteq> [] then ''gitlab''
      else if getenv ''BITBUCKET_BUILD_NUMBER'' \<noteq> [] then ''bitbucket''
      else if getenv ''AZURE_CI'' \<noteq> [] then ''azure''
      else CI_None)"

section \<open>Reports\<close>

text \<open>An error of the reporter is only logged.\<close>

definition report_as :: "('s, 'p) runner_env \<Rightarrow> string \<Rightarrow> string \<Rightarrow> string \<Rightarrow> (unit, 's run_world) act" where
  "report_as env msg title plain =
     tell (EReport msg (if markdown env then AsCollapsibleComment title False else AsComment plain))"

definition policy_error_message :: "string \<Rightarrow> string \<Rightarrow> string" where
  "policy_error_message requestedBy command =
     ''User '' @ requestedBy @ '' is not allowed to perform action: '' @ command @ ''. Check your policies :x:''"

definition reportPolicyError ::
  "('s, 'p) runner_env \<Rightarrow> string \<Rightarrow> string \<Rightarrow> string \<Rightarrow> (string, 's run_world) act" where
  "reportPolicyError env project command requestedBy =
     (let msg = policy_error_message requestedBy command in
      act_bind (report_as env msg (''Policy violation for <b>'' @ project @ '' - '' @ command @ ''</b>'')
          (''Policy violation for '' @ project @ '' - '' @ command))
        (\<lambda>_. act_ret msg))"

definition reportApplyMergeabilityError :: "('s, 'p) runner_env \<Rightarrow> (string, 's run_world) act" where
  "reportApplyMergeabilityError env =
     (let comment = ''cannot perform Apply since the PR is not currently mergeable'' in
      act_bind (report_as env comment ''Apply error'' ''Apply error'') (\<lambda>_. act_ret comment))"

definition reportTerraformPlanOutput :: "('s, 'p) runner_env \<Rightarrow> string \<Rightarrow> (unit, 's run_world) act" where
  "reportTerraformPlanOutput env plan =
     tell (EReport plan (if markdown env then TerraformOutputAsCollapsibleComment ''Plan output'' True
                         else TerraformOutputAsComment ''Plan output''))"

definition reportPlanSummary :: "('s, 'p) runner_env \<Rightarrow> string \<Rightarrow> (unit, 's run_world) act" where
  "reportPlanSummary env summary = report_as env (CHR 0x0A # summary) ''Plan summary'' ''Plan summary''"

definition reportEmptyPlanOutput :: "string \<Rightarrow> (unit, 's run_world) act" where
  "reportEmptyPlanOutput lock_id =
     act_bind (tell (EReport ([CHR 0xE2, CHR 0x86, CHR 0x92] @ '' No changes in terraform output for '' @ lock_id)
         IdentityFormatter)) (\<lambda>_. tell ESuppress)"

definition shell_escape :: "string \<Rightarrow> string" where
  "shell_escape s =
     concat (map (\<lambda>c. if c \<in> set ([CHR 0x60, CHR 0x22, CHR 0x27] @ '' $&|;()'') then [CHR 0x5C, c] else [c]) s)"

definition fence :: string where
  "fence = [CHR 0x60, CHR 0x60, CHR 0x60]"

definition example_commands :: "string \<Rightarrow> string" where
  "example_commands project =
     [CHR 0x0A, CHR 0xE2, CHR 0x96, CHR 0xB6, CHR 0xEF, CHR 0xB8, CHR 0x8F] @
     '' To apply these changes, run the following command:'' @ [CHR 0x0A, CHR 0x0A] @ fence @ ''bash'' @
     [CHR 0x0A] @ ''digger apply -p '' @ shell_escape project @ [CHR 0x0A] @ fence @
     [CHR 0x0A, CHR 0x0A, CHR 0xE2, CHR 0x8F, CHR 0xA9] @ '' To apply all changes in this PR:'' @ [CHR 0x0A] @
     fence @ ''bash'' @ [CHR 0x0A] @ ''digger apply'' @ [CHR 0x0A] @ fence @
     [CHR 0x0A, CHR 0x0A, CHR 0xF0, CHR 0x9F, CHR 0x9A, CHR 0xAE] @ '' To unlock all projects in this PR:'' @
     [CHR 0x0A] @ fence @ ''bash'' @ [CHR 0x0A] @ ''digger unlock'' @ [CHR 0x0A] @ fence @ [CHR 0x0A]"

definition FormatAndReportExampleCommands ::
  "('s, 'p) runner_env \<Rightarrow> string \<Rightarrow> (unit, 's run_world) act" where
  "FormatAndReportExampleCommands env project =
     report_as env (example_commands project) ''Instructions'' ''Instructions''"

section \<open>One command\<close>

record exec_result =
  er_OperationType :: string
  er_TerraformOutput :: string
  er_PlanResult :: "(iac_summary \<times> string) option"
  er_ApplyResult :: "iac_summary option"

definition empty_result :: exec_result where
  "empty_result =
     \<lparr>er_OperationType = [], er_TerraformOutput = [], er_PlanResult = None, er_ApplyResult = None\<rparr>"

definition GetTerraformSummary :: "exec_result \<Rightarrow> iac_summary" where
  "GetTerraformSummary r =
     (case (er_PlanResult r, er_ApplyResult r) of
        (Some (s, _), a) \<Rightarrow>
          if er_OperationType r = ''plan'' then s
          else (case a of
                  Some s \<Rightarrow> if er_OperationType r = ''apply'' then s else no_summary
                | None \<Rightarrow> no_summary)
      | (None, Some s) \<Rightarrow> if er_OperationType r = ''apply'' then s else no_summary
      | (None, None) \<Rightarrow> no_summary)"

text \<open>The tool and the utilities of a job.\<close>

definition tool_of :: "('s, 'p) runner_env \<Rightarrow> 'p job \<Rightarrow> string \<Rightarrow> 's iac_tool" where
  "tool_of env job projectPath =
     (let p = xe_process (rn_exec env) in
      if j_Terragrunt job then Terragrunt p projectPath
      else if j_OpenTofu job then OpenTofu p projectPath (j_ProjectWorkspace job)
      else if j_Pulumi job then Pulumi p projectPath (j_ProjectWorkspace job)
      else Terraform p projectPath (j_ProjectWorkspace job))"

definition iac_utils_of :: "('s, 'p) runner_env \<Rightarrow> 'p job \<Rightarrow> iac_utils" where
  "iac_utils_of env job =
     (if j_Terragrunt job \<or> j_OpenTofu job then TerraformUtils (rn_parse_plan env) (rn_summarize env)
      else if j_Pulumi job then PulumiUtils (rn_parse_preview env)
      else TerraformUtils (rn_parse_plan env) (rn_summarize env))"

definition exec_env_of :: "('s, 'p) runner_env \<Rightarrow> 'p job \<Rightarrow> 's exec_env" where
  "exec_env_of env job =
     (rn_exec env)\<lparr>xe_tool := tool_of env job (path_Join [rn_workingDir env, j_ProjectDir job]),
        xe_iac := iac_utils_of env job\<rparr>"

definition executor_of :: "('s, 'p) runner_env \<Rightarrow> 'p job \<Rightarrow> string \<Rightarrow> digger_executor" where
  "executor_of env job namespace =
     \<lparr>de_ProjectNamespace = namespace, de_ProjectName = j_ProjectName job,
      de_ProjectPath = path_Join [rn_workingDir env, j_ProjectDir job], de_PRNumber = j_PullRequestNumber job,
      de_StateEnvVars = j_StateEnvVars job, de_CommandEnvVars = j_CommandEnvVars job,
      de_ApplyStage = j_ApplyStage job, de_PlanStage = j_PlanStage job, de_PlanStorage = rn_storage env\<rparr>"

definition access_request_of ::
  "'p job \<Rightarrow> string \<times> string \<Rightarrow> string \<Rightarrow> string list \<Rightarrow> access_request" where
  "access_request_of job scm command violations =
     \<lparr>ar_pr = True, ar_organisation = fst scm, ar_repository = snd scm, ar_project = j_ProjectName job,
      ar_dir = j_ProjectDir job, ar_command = command, ar_prNumber = j_PullRequestNumber job,
      ar_requestedBy = j_RequestedBy job, ar_violations = violations\<rparr>"

text \<open>Organisation and repository: the first two parts of the namespace.\<close>

definition split_namespace :: "string \<Rightarrow> (string \<times> string) res" where
  "split_namespace namespace =
     (case split_char (CHR ''/'') namespace of
        a # b # _ \<Rightarrow> Ok (a, b)
      | _ \<Rightarrow> Panic ''index out of range'')"

definition plan_result_of :: "plan_result \<Rightarrow> (exec_result, 's run_world) act" where
  "plan_result_of r =
     (case pr_Summary r of
        None \<Rightarrow> act_panic ''nil pointer dereference''
      | Some s \<Rightarrow> act_ret \<lparr>er_OperationType = ''plan'', er_TerraformOutput = pr_Plan r,
          er_PlanResult = Some (s, pr_Json r), er_ApplyResult = None\<rparr>)"

text \<open>A plan with changes: its report, the plan policy and the reports of that.\<close>

definition plan_failed_message :: "string list \<Rightarrow> string" where
  "plan_failed_message messages =
     ''Terraform plan failed validation checks :x:<br>'' @
     join_with ''<br>'' (map (\<lambda>m. ''    '' @ m) messages)"

definition validate_plan ::
  "('s, 'p) runner_env \<Rightarrow> 'p job \<Rightarrow> string \<times> string \<Rightarrow> plan_result \<Rightarrow> (unit, 's run_world) act" where
  "validate_plan env job scm r =
     act_bind (reportTerraformPlanOutput env (pr_Plan r)) (\<lambda>_.
     act_bind (act_wrap (\<lambda>e. ''Failed to validate plan. '' @ e)
         (ck_plan (rn_checker env) (snd scm) (fst scm) (j_ProjectName job) (j_ProjectDir job) (pr_Json r)))
       (\<lambda>(planIsAllowed, messages).
     let summary = ''Terraform plan validation check ('' @ j_ProjectName job @ '')'';
         planSummary = (case iu_summarize (iac_utils_of env job) (pr_Json r) of Inl _ \<Rightarrow> [] | Inr s \<Rightarrow> s)
     in if \<not> planIsAllowed then
          act_bind (report_as env (plan_failed_message messages) summary summary)
            (\<lambda>_. act_err ''Plan is not allowed'')
        else
          act_bind (report_as env ''Terraform plan validation checks succeeded :white_check_mark:'' summary summary)
            (\<lambda>_.
          act_bind (reportPlanSummary env planSummary) (\<lambda>_.
            FormatAndReportExampleCommands env (j_ProjectName job)))))"

text \<open>The commands of \<open>run\<close>; each gives the result and what it says of the applies.\<close>

definition run_plan ::
  "('s, 'p) runner_env \<Rightarrow> 'p job \<Rightarrow> string \<times> string \<Rightarrow> pr_lock \<Rightarrow> (exec_result, 's run_world) act" where
  "run_plan env job scm p =
     act_bind (tell (EUsage (j_RequestedBy job) (j_EventName job) ''plan'')) (\<lambda>_.
     act_bind (act_wrap (\<lambda>e. ''Failed to Run digger plan command. '' @ e)
         (locking_Plan (rn_lock env) (rn_pr_env env) p (exec_env_of env job) (executor_of env job (j_Namespace job))))
       (\<lambda>r.
     if pr_Performed r then
       act_bind (if pr_NonEmpty r then validate_plan env job scm r else reportEmptyPlanOutput (LockId p))
         (\<lambda>_. plan_result_of r)
     else act_ret empty_result))"

text \<open>The violations that the access policy of an apply is asked with: those of the stored plan, when
  plans are uploaded.\<close>

definition plan_violations ::
  "('s, 'p) runner_env \<Rightarrow> 'p job \<Rightarrow> string \<times> string \<Rightarrow> (string list, 's run_world) act" where
  "plan_violations env job scm =
     (if getenv_of env ''PLAN_UPLOAD_DESTINATION'' \<noteq> [] then
        act_bind (act_wrap (\<lambda>e. ''Failed to retrieve stored plan. '' @ e)
            (RetrievePlanJson (exec_env_of env job) (executor_of env job (j_Namespace job)))) (\<lambda>json.
        act_bind (act_wrap (\<lambda>e. ''Failed to check plan policy. '' @ e)
            (ck_plan (rn_checker env) (snd scm) (fst scm) (j_ProjectName job) (j_ProjectDir job) json))
          (\<lambda>(_, violations). act_ret violations))
      else act_ret [])"

definition apply_result_of :: "apply_result \<Rightarrow> (exec_result, 's run_world) act" where
  "apply_result_of r =
     (case ap_Summary r of
        None \<Rightarrow> act_panic ''nil pointer dereference''
      | Some s \<Rightarrow> act_ret \<lparr>er_OperationType = ''apply'', er_TerraformOutput = ap_Output r,
          er_PlanResult = None, er_ApplyResult = Some s\<rparr>)"

definition ask_service ::
  "event \<Rightarrow> (event list \<Rightarrow> error + 'a) \<Rightarrow> string \<Rightarrow> ('a, 's run_world) act" where
  "ask_service ev f msg = act_wrap (\<lambda>e. msg @ e) (ask_or_err ev f)"

text \<open>The guards of an apply, each an error that ends it.\<close>

definition check_mergeable :: "('s, 'p) runner_env \<Rightarrow> 'p job \<Rightarrow> int \<Rightarrow> (unit, 's run_world) act" where
  "check_mergeable env job n =
     act_bind (ask_service (EIsMerged n) (rn_is_merged env) ''Failed to check if PR is merged. '') (\<lambda>isMerged.
     act_bind (ask_service (EIsMergeable n) (rn_is_mergeable env) ''Failed to check if PR is mergeable. '')
       (\<lambda>isMergeable.
     if \<not> isMergeable \<and> \<not> isMerged \<and> \<not> j_SkipMergeCheck job then
       act_bind (reportApplyMergeabilityError env) (\<lambda>comment. act_err comment)
     else act_ret ()))"

definition check_apply_policy ::
  "('s, 'p) runner_env \<Rightarrow> 'p job \<Rightarrow> string \<times> string \<Rightarrow> string list \<Rightarrow> (unit, 's run_world) act" where
  "check_apply_policy env job scm violations =
     act_bind (act_wrap (\<lambda>e. ''Failed to run plan policy check before apply. '' @ e)
         (ck_access (rn_checker env) (access_request_of job scm ''digger apply'' violations))) (\<lambda>allowedToApply.
     if \<not> allowedToApply then
       act_bind (reportPolicyError env (j_ProjectName job) ''digger apply'' (j_RequestedBy job))
         (\<lambda>msg. act_err msg)
     else act_ret ())"

definition run_apply ::
  "('s, 'p) runner_env \<Rightarrow> 'p job \<Rightarrow> string \<times> string \<Rightarrow> int \<Rightarrow> pr_lock \<Rightarrow>
   (exec_result \<times> bool, 's run_world) act" where
  "run_apply env job scm n p =
     act_bind (tell (EUsage (j_RequestedBy job) (j_EventName job) ''apply'')) (\<lambda>_.
     act_bind (check_mergeable env job n) (\<lambda>_.
     act_bind (plan_violations env job scm) (\<lambda>violations.
     act_bind (check_apply_policy env job scm violations) (\<lambda>_.
     act_bind (act_wrap (\<lambda>e. ''Failed to run digger apply command. '' @ e)
         (locking_Apply (rn_lock env) (rn_pr_env env) p (exec_env_of env job)
           (executor_of env job (j_Namespace job)))) (\<lambda>r.
     act_bind (apply_result_of r) (\<lambda>result. act_ret (result, ap_Performed r)))))))"

definition run_destroy ::
  "('s, 'p) runner_env \<Rightarrow> 'p job \<Rightarrow> pr_lock \<Rightarrow> (exec_result, 's run_world) act" where
  "run_destroy env job p =
     act_bind (tell (EUsage (j_RequestedBy job) (j_EventName job) ''destroy'')) (\<lambda>_.
     act_bind (act_wrap (\<lambda>e. ''failed to Run digger apply command. '' @ e)
         (locking_Destroy (rn_lock env) (rn_pr_env env) p (exec_env_of env job)
           (executor_of env job (j_Namespace job))))
       (\<lambda>_. act_ret empty_result))"

definition run_unlock ::
  "('s, 'p) runner_env \<Rightarrow> 'p job \<Rightarrow> pr_lock \<Rightarrow> (exec_result, 's run_world) act" where
  "run_unlock env job p =
     (let d = executor_of env job (j_Namespace job) in
      act_bind (tell (EUsage (j_RequestedBy job) (j_EventName job) ''unlock'')) (\<lambda>_.
      act_bind (act_wrap (\<lambda>e. ''Failed to unlock project. '' @ e)
          (locking_Unlock (rn_lock env) (rn_pr_env env) p)) (\<lambda>_.
      act_bind (if rn_storage env then tell (EDeletePlan (ArtifactName d) (StoredPlanFilePath d)) else act_ret ())
        (\<lambda>_. act_ret empty_result))))"

definition run_lock ::
  "('s, 'p) runner_env \<Rightarrow> 'p job \<Rightarrow> pr_lock \<Rightarrow> (exec_result, 's run_world) act" where
  "run_lock env job p =
     act_bind (tell (EUsage (j_RequestedBy job) (j_EventName job) ''lock'')) (\<lambda>_.
     act_bind (act_wrap (\<lambda>e. ''Failed to lock project. '' @ e) (locking_Lock (rn_lock env) (rn_pr_env env) p))
       (\<lambda>_. act_ret empty_result))"

type_synonym applies = "(string \<times> bool) list"

text \<open>\<open>run\<close> gives the result, the map of applies and the caller's job, whose stages and maps the
  credentials were written through.  When it fails the caller sets the map's entry itself.\<close>

definition run_command_of ::
  "('s, 'p) runner_env \<Rightarrow> string \<Rightarrow> 'p job \<Rightarrow> string \<times> string \<Rightarrow> int \<Rightarrow> pr_lock \<Rightarrow> applies \<Rightarrow>
   (exec_result \<times> applies, 's run_world) act" where
  "run_command_of env command job scm n p applies =
     (if command = ''digger plan'' then act_bind (run_plan env job scm p) (\<lambda>r. act_ret (r, applies))
      else if command = ''digger apply'' then
        act_bind (run_apply env job scm n p) (\<lambda>(r, performed).
          act_ret (r, AList.update (j_ProjectName job) performed applies))
      else if command = ''digger destroy'' then act_bind (run_destroy env job p) (\<lambda>r. act_ret (r, applies))
      else if command = ''digger unlock'' then act_bind (run_unlock env job p) (\<lambda>r. act_ret (r, applies))
      else if command = ''digger lock'' then act_bind (run_lock env job p) (\<lambda>r. act_ret (r, applies))
      else act_err (''Command '' @ quoted command @ '' is not supported''))"

definition populate_or_exit ::
  "('s, 'p) runner_env \<Rightarrow> 'p job \<Rightarrow> ('p job \<times> 'p job, 's run_world) act" where
  "populate_or_exit env job =
     act_bind (act_try (PopulateAwsCredentialsEnvVarsForJob (rn_aws env) job)) (\<lambda>r.
       case r of Inl _ \<Rightarrow> exit_process | Inr js \<Rightarrow> act_ret js)"

definition run ::
  "('s, 'p) runner_env \<Rightarrow> string \<Rightarrow> 'p job \<Rightarrow> string \<times> string \<Rightarrow> applies \<Rightarrow>
   (exec_result \<times> applies \<times> 'p job, 's run_world) act" where
  "run env command job scm applies =
     act_bind (act_wrap (\<lambda>e. ''error checking policy: '' @ e)
         (ck_access (rn_checker env) (access_request_of job scm command []))) (\<lambda>allowedToPerformCommand.
     if \<not> allowedToPerformCommand then
       act_bind (reportPolicyError env (j_ProjectName job) command (j_RequestedBy job)) (\<lambda>msg. act_err msg)
     else
       act_bind (populate_or_exit env job) (\<lambda>(job, callers_job).
       case j_PullRequestNumber job of
         None \<Rightarrow> act_panic ''nil pointer dereference''
       | Some n \<Rightarrow>
           act_bind (run_command_of env command job scm n
               \<lparr>pr_project = j_ProjectName job, pr_namespace = j_Namespace job, pr_number = n\<rparr> applies)
             (\<lambda>(r, applies). act_ret (r, applies, callers_job))))"

section \<open>The jobs of a pull request\<close>

text \<open>The commands of one job: the last result, and the map.\<close>

fun run_job_commands ::
  "('s, 'p) runner_env \<Rightarrow> string \<times> string \<Rightarrow> string list \<Rightarrow> 'p job \<Rightarrow> exec_result \<Rightarrow> applies \<Rightarrow>
   (exec_result \<times> applies, 's run_world) act" where
  "run_job_commands env scm [] job res applies = act_ret (res, applies)"
| "run_job_commands env scm (command # cs) job res applies =
     act_bind (act_wrap (\<lambda>e. ''error checking policy: '' @ e)
         (ck_access (rn_checker env) (access_request_of job scm command []))) (\<lambda>allowed.
     if \<not> allowed then
       act_bind (reportPolicyError env (j_ProjectName job) command (j_RequestedBy job)) (\<lambda>_.
         run_job_commands env scm cs job res (AList.update (j_ProjectName job) False applies))
     else
       act_bind (act_try (run env command job scm applies)) (\<lambda>r.
         case r of
           Inl _ \<Rightarrow> act_ret (res, AList.update (j_ProjectName job) False applies)
         | Inr (res, applies, job) \<Rightarrow> run_job_commands env scm cs job res applies))"

fun run_jobs ::
  "('s, 'p) runner_env \<Rightarrow> 'p job list \<Rightarrow> applies \<Rightarrow> (exec_result list \<times> applies, 's run_world) act" where
  "run_jobs env [] applies = act_ret ([], applies)"
| "run_jobs env (job # jobs) applies =
     act_bind (act_of (split_namespace (j_Namespace job))) (\<lambda>scm.
     act_bind (act_modify (\<lambda>w. w\<lparr>rw_run_env := Some (j_RunEnvVars job)\<rparr>)) (\<lambda>_.
     act_bind (run_job_commands env scm (j_Commands job) job empty_result applies) (\<lambda>(res, applies).
     act_bind (run_jobs env jobs applies) (\<lambda>(rs, applies).
       act_ret (res # rs, applies)))))"

definition flush_warning :: "string \<Rightarrow> error \<Rightarrow> string" where
  "flush_warning project e =
     '':yellow_circle: Warning: failed to post report for project '' @ project @ '', received error: '' @ e @
     ''.'' @ [CHR 0x0A, CHR 0x0A] @ '' you may review details in the job logs''"

text \<open>The report to the backend of a run whose applies all succeeded: of the first job only.\<close>

definition report_final_status ::
  "('s, 'p) runner_env \<Rightarrow> string \<Rightarrow> bool \<Rightarrow> string \<Rightarrow> 'p job list \<Rightarrow> exec_result list \<Rightarrow>
   (unit, 's run_world) act" where
  "report_final_status env jobId reportTerraformOutput prCommentId jobs results =
     (case jobs of
        [] \<Rightarrow> act_panic ''index out of range''
      | currentJob # _ \<Rightarrow>
          act_bind (ask EFlush (rn_flush env)) (\<lambda>f.
          act_bind
            (case f of
               Inr comment \<Rightarrow> act_ret comment
             | Inl e \<Rightarrow>
                 (case j_PullRequestNumber currentJob of
                    None \<Rightarrow> act_panic ''nil pointer dereference''
                  | Some n \<Rightarrow>
                      act_bind (ask (EPublishComment n (flush_warning (j_ProjectName currentJob) e)) (rn_publish env))
                        (\<lambda>cmt. case cmt of
                           Inl _ \<Rightarrow> act_err (''failed to post reporter error comment, aborting. Error: '' @ e)
                         | Inr url \<Rightarrow> act_ret ([], url)))) (\<lambda>(jobPrCommentId, jobPrCommentUrl).
          case j_PullRequestNumber currentJob of
            None \<Rightarrow> act_panic ''nil pointer dereference''
          | Some prNumber \<Rightarrow>
              (let summary = GetTerraformSummary (hd results);
                   terraformOutput = (if reportTerraformOutput then er_TerraformOutput (hd results) else []) in
               act_bind (act_wrap (\<lambda>e. ''error while running command: '' @ e)
                   (ask_or_err (EJobStatus [j_Namespace currentJob, j_ProjectName currentJob, jobId, ''succeeded'',
                        jobPrCommentUrl, jobPrCommentId, terraformOutput]
                      [is_created summary, is_updated summary, is_deleted summary]) (rn_job_status env)))
                 (\<lambda>batchResult.
                 case batchResult of
                   None \<Rightarrow> act_ret ()
                 | Some bjobs \<Rightarrow>
                     act_bind (ask (EUpdateComment (map sj_DiggerJobId bjobs) prNumber prCommentId)
                         (rn_update_comment env)) (\<lambda>e.
                       case e of Some e \<Rightarrow> act_err e | None \<Rightarrow> act_ret ()))))))"

definition RunJobs_body ::
  "('s, 'p) runner_env \<Rightarrow> string \<Rightarrow> bool \<Rightarrow> bool \<Rightarrow> string \<Rightarrow> 'p job list \<Rightarrow> (bool \<times> bool, 's run_world) act" where
  "RunJobs_body env jobId reportFinalStatusToBackend reportTerraformOutput prCommentId jobs =
     act_bind (run_jobs env jobs []) (\<lambda>(results, applies).
     let allAppliesSuccess = list_all (\<lambda>(_, success). success) applies;
         atLeastOneApply = length applies > 0
     in
       act_bind
         (if allAppliesSuccess \<and> reportFinalStatusToBackend
          then report_final_status env jobId reportTerraformOutput prCommentId jobs results else act_ret ())
         (\<lambda>_. act_ret (allAppliesSuccess, atLeastOneApply)))"

text \<open>The deferred \<open>Flush\<close> runs on a return and on a panic, not on an exit of the process.\<close>

definition RunJobs ::
  "('s, 'p) runner_env \<Rightarrow> string \<Rightarrow> bool \<Rightarrow> bool \<Rightarrow> string \<Rightarrow> 'p job list \<Rightarrow> (bool \<times> bool, 's run_world) act" where
  "RunJobs env jobId reportFinalStatusToBackend reportTerraformOutput prCommentId jobs w =
     (let (r, w1) = RunJobs_body env jobId reportFinalStatusToBackend reportTerraformOutput prCommentId jobs w
      in if r = Panic exited then (r, w1) else (r, snd (tell EFlush w1)))"

section \<open>One job, without a pull request\<close>

definition runDriftDetection ::
  "('s, 'p) runner_env \<Rightarrow> string \<times> string \<Rightarrow> 'p job \<Rightarrow> string \<Rightarrow> digger_executor \<Rightarrow> (string, 's run_world) act" where
  "runDriftDetection env scm job requestedBy d =
     act_bind (tell (EUsage requestedBy (j_EventName job) ''drift-detect'')) (\<lambda>_.
     act_bind (act_wrap (\<lambda>e. ''failed to check drift policy. '' @ e)
         (ck_drift (rn_checker env) (fst scm) (snd scm) (j_ProjectName job))) (\<lambda>policyEnabled.
     if \<not> policyEnabled then
       act_ret ''skipping this drift application since it is not enabled for this project''
     else
       act_bind (act_wrap (\<lambda>e. ''failed to Run digger plan command. '' @ e) (executor_Plan (exec_env_of env job) d))
         (\<lambda>r.
       if pr_Performed r \<and> pr_NonEmpty r then
         (case rn_notify env of
            None \<Rightarrow> act_ret (pr_Plan r)
          | Some notify \<Rightarrow>
              act_bind (ask (ENotify (j_ProjectName job) (fst scm @ ''/'' @ snd scm) (pr_Plan r)) notify) (\<lambda>e.
                case e of Some e \<Rightarrow> act_err (''failed to send drift. '' @ e) | None \<Rightarrow> act_ret (pr_Plan r)))
       else act_ret (pr_Plan r))))"

definition access_request_no_pr :: "'p job \<Rightarrow> string \<times> string \<Rightarrow> string \<Rightarrow> string \<Rightarrow> access_request" where
  "access_request_no_pr job scm command requestedBy =
     \<lparr>ar_pr = False, ar_organisation = fst scm, ar_repository = snd scm, ar_project = j_ProjectName job,
      ar_dir = j_ProjectDir job, ar_command = command, ar_prNumber = None, ar_requestedBy = requestedBy,
      ar_violations = []\<rparr>"

text \<open>The reporter of \<open>RunJob\<close>'s executor is the one that logs: it supports no Markdown.\<close>

definition run_single_command ::
  "('s, 'p) runner_env \<Rightarrow> string \<times> string \<Rightarrow> string \<Rightarrow> 'p job \<Rightarrow> string \<Rightarrow> digger_executor \<Rightarrow>
   (unit, 's run_world) act" where
  "run_single_command env scm requestedBy job command d =
     (let xenv = (exec_env_of env job)\<lparr>xe_markdown := False\<rparr> in
      if command = ''digger plan'' then
        act_bind (tell (EUsage requestedBy (j_EventName job) ''plan'')) (\<lambda>_.
        act_bind (act_wrap (\<lambda>e. ''Failed to Run digger plan command. '' @ e) (executor_Plan xenv d)) (\<lambda>r.
        act_bind (act_wrap (\<lambda>e. ''Failed to validate plan '' @ e)
            (ck_plan (rn_checker env) (snd scm) (fst scm) (j_ProjectName job) (j_ProjectDir job) (pr_Json r)))
          (\<lambda>(planIsAllowed, _). if \<not> planIsAllowed then act_err ''Plan is not allowed'' else act_ret ())))
      else if command = ''digger apply'' then
        act_bind (tell (EUsage requestedBy (j_EventName job) ''apply'')) (\<lambda>_.
        act_bind (act_wrap (\<lambda>e. ''Failed to Run digger apply command. '' @ e) (executor_Apply xenv d))
          (\<lambda>_. act_ret ()))
      else if command = ''digger destroy'' then
        act_bind (tell (EUsage requestedBy (j_EventName job) ''destroy'')) (\<lambda>_.
        act_bind (act_wrap (\<lambda>e. ''failed to Run digger apply command. '' @ e) (executor_Destroy xenv d))
          (\<lambda>_. act_ret ()))
      else if command = ''digger drift-detect'' then
        act_bind (act_wrap (\<lambda>e. ''failed to Run digger drift-detect command. '' @ e)
            (runDriftDetection (env\<lparr>rn_exec := (rn_exec env)\<lparr>xe_markdown := False\<rparr>\<rparr>) scm job requestedBy d))
          (\<lambda>_. act_ret ())
      else act_ret ())"

text \<open>Here the job is the function's own variable, so what \<open>PopulateAwsCredentialsEnvVarsForJob\<close> fills
  stays for the next command.\<close>

fun run_single ::
  "('s, 'p) runner_env \<Rightarrow> string \<times> string \<Rightarrow> string \<Rightarrow> string \<Rightarrow> string list \<Rightarrow> 'p job \<Rightarrow> (unit, 's run_world) act" where
  "run_single env scm repo requestedBy [] job = act_ret ()"
| "run_single env scm repo requestedBy (command # cs) job =
     act_bind (act_wrap (\<lambda>e. ''error checking policy: '' @ e)
         (ck_access (rn_checker env) (access_request_no_pr job scm command requestedBy))) (\<lambda>allowed.
     if \<not> allowed then
       act_err (''User '' @ requestedBy @ '' is not allowed to perform action: '' @ command @
         ''. Check your policies'')
     else
       act_bind (populate_or_exit env job) (\<lambda>(job, _).
       act_bind (run_single_command env scm requestedBy job command (executor_of env job repo)) (\<lambda>_.
         run_single env scm repo requestedBy cs job)))"

definition RunJob ::
  "('s, 'p) runner_env \<Rightarrow> 'p job \<Rightarrow> string \<Rightarrow> string \<Rightarrow> (unit, 's run_world) act" where
  "RunJob env job repo requestedBy =
     act_bind (act_of (split_namespace repo)) (\<lambda>scm.
     act_bind (act_modify (\<lambda>w. w\<lparr>rw_run_env := Some (j_RunEnvVars job)\<rparr>)) (\<lambda>_.
       run_single env scm repo requestedBy (j_Commands job) job))"

section \<open>Merging\<close>

text \<open>The sort of the third-party graph library is an argument.\<close>

definition SortedCommandsByDependency ::
  "error + string list \<Rightarrow> 'p job list \<Rightarrow> 'p job list res" where
  "SortedCommandsByDependency sortedGraph project =
     (case sortedGraph of
        Inl _ \<Rightarrow> Panic exited
      | Inr ns \<Rightarrow> Ok (concat (map (\<lambda>node. filter (\<lambda>c. j_ProjectName c = node) project) ns)))"

definition ask_or_exit :: "event \<Rightarrow> (event list \<Rightarrow> error + 'a) \<Rightarrow> ('a, 's run_world) act" where
  "ask_or_exit ev f = act_bind (ask ev f) (\<lambda>r. case r of Inl _ \<Rightarrow> exit_process | Inr a \<Rightarrow> act_ret a)"

definition MergePullRequest ::
  "('s, 'p) runner_env \<Rightarrow> int \<Rightarrow> string \<Rightarrow> (unit, 's run_world) act" where
  "MergePullRequest env prNumber mergeStrategy =
     act_bind (ask_or_exit (EIsMerged prNumber) (rn_is_merged env)) (\<lambda>isMerged.
     if isMerged then act_ret ()
     else
       act_bind (ask_or_exit (ECombinedStatus prNumber) (rn_combined_status env)) (\<lambda>combinedStatus.
       if combinedStatus \<noteq> ''success'' then exit_process
       else
         act_bind (ask_or_exit (EIsMergeable prNumber) (rn_is_mergeable env)) (\<lambda>prIsMergeable.
         if \<not> prIsMergeable then exit_process
         else
           act_bind (ask (EMergePullRequest prNumber mergeStrategy) (rn_merge env)) (\<lambda>e.
             case e of Some _ \<Rightarrow> exit_process | None \<Rightarrow> act_ret ()))))"

end
