(* ===== verification/ExecutorProps.thy ===== *)
theory ExecutorProps
  imports Executor
begin

text \<open>
  What the executor does and does not do: its plan leaves the infrastructure alone, the locks are left
  alone by all of it, an apply runs with the plan that the storage gave, and cleaning up an output never
  fails.
\<close>

section \<open>Cleaning up\<close>

lemma str_index_bound: "str_index s p = Some i \<Longrightarrow> i + length p \<le> length s"
proof (induction s arbitrary: i)
  case Nil
  then show ?case by (auto simp: str_index.simps [of "[]"] has_prefix_def split: if_splits)
next
  case (Cons c s)
  show ?case
  proof (cases "has_prefix (c # s) p")
    case True
    with Cons.prems have "i = 0" by (simp add: str_index.simps)
    moreover have "length p \<le> length (c # s)"
      using True unfolding has_prefix_iff by (rule prefix_length_le)
    ultimately show ?thesis by simp
  next
    case False
    with Cons.prems obtain j where "str_index s p = Some j" and "i = Suc j"
      by (subst (asm) str_index.simps) auto
    with Cons.IH show ?thesis by fastforce
  qed
qed

lemma last_index_bound: "last_index s p = Some i \<Longrightarrow> i + length p \<le> length s"
proof (induction s arbitrary: i)
  case Nil
  then show ?case by (auto simp: last_index.simps [of "[]"] split: if_splits)
next
  case (Cons c s)
  show ?case
  proof (cases "last_index s p")
    case None
    with Cons.prems have "i = 0" and "has_prefix (c # s) p"
      by (subst (asm) last_index.simps, simp split: if_splits)+
    then show ?thesis unfolding has_prefix_iff using prefix_length_le by fastforce
  next
    case (Some j)
    with Cons.prems have "i = Suc j" by (subst (asm) last_index.simps) simp
    with Cons.IH [OF Some] show ?thesis by simp
  qed
qed

lemma last_index_complete: "sublist p s \<Longrightarrow> last_index s p \<noteq> None"
proof (induction s)
  case Nil
  then show ?case by (simp add: last_index.simps [of "[]"])
next
  case (Cons c s)
  from Cons.prems have "prefix p (c # s) \<or> sublist p s"
    by (auto simp: sublist_Cons_right)
  with Cons.IH show ?case
    by (subst last_index.simps) (auto simp: has_prefix_iff split: option.splits)
qed

lemma match_rule_sublist: "match_rule s = Some m \<Longrightarrow> sublist m s"
proof (induction s rule: match_rule.induct)
  case (1 s)
  define rest where "rest = takeWhile (\<lambda>c. c \<noteq> CHR 0x0A) (drop (length rule_line) s)"
  show ?case
  proof (cases "has_prefix s rule_line \<and> rest \<noteq> []")
    case True
    with "1.prems" have m: "m = rule_line @ rest"
      by (subst (asm) match_rule.simps) (simp add: rest_def)
    obtain t where s: "s = rule_line @ t"
      using True by (auto simp: has_prefix_iff prefix_def)
    have "t = rest @ dropWhile (\<lambda>c. c \<noteq> CHR 0x0A) t"
      by (simp add: rest_def s)
    then show ?thesis by (metis append_assoc m prefixI prefix_imp_sublist s)
  next
    case False
    then have "match_rule s = (case s of [] \<Rightarrow> None | _ # t \<Rightarrow> match_rule t)"
      by (subst match_rule.simps) (auto simp: rest_def Let_def)
    with "1.prems" obtain c t where s: "s = c # t" and t: "match_rule t = Some m"
      by (auto split: list.splits)
    have "sublist m t"
      using "1.IH" [OF refl] False s t by (auto simp: rest_def)
    then show ?thesis by (simp add: s sublist_Cons_right)
  qed
qed

lemma slice_sublist:
  "a \<le> b \<Longrightarrow> b \<le> length s \<Longrightarrow> \<exists>out. slice s a b = Ok out \<and> sublist out s"
  unfolding slice_def
  by (auto intro: sublist_order.order.trans [OF sublist_take sublist_drop])

lemma cleanup_output_ok:
  assumes "\<And>find s m. regex = Some find \<Longrightarrow> find s = Some m \<Longrightarrow> sublist m s"
  shows "\<exists>out. cleanupTerraformOutput regex stdout0 = Ok out \<and> sublist out stdout0"
proof -
  define stdout where "stdout = (case str_index stdout0 ''Initializing the backend...'' of
     None \<Rightarrow> stdout0 | Some i \<Rightarrow> drop i stdout0)"
  define indices where "indices = List.map_filter (\<lambda>d. case str_index stdout d of
     Some i \<Rightarrow> if i > 0 then Some i else None | None \<Rightarrow> None) start_delimiters"
  define start where "start = (case indices of [] \<Rightarrow> 0 | i # _ \<Rightarrow> i)"
  define end0 where "end0 = (case Option.bind regex (\<lambda>find. find stdout) of
     None \<Rightarrow> length stdout
   | Some firstMatch \<Rightarrow>
       (case last_index stdout firstMatch of
          None \<Rightarrow> length firstMatch - 1
        | Some i \<Rightarrow> i + length firstMatch))"
  have cl: "cleanupTerraformOutput regex stdout0 =
      slice stdout start (if end0 \<le> start then length stdout else end0)"
    unfolding cleanupTerraformOutput_def Let_def stdout_def indices_def start_def end0_def ..
  have sub: "sublist stdout stdout0"
    by (simp add: stdout_def split: option.split)
  have "\<forall>i \<in> set indices. i \<le> length stdout"
    by (auto simp: indices_def map_filter_def split: option.splits if_splits dest!: str_index_bound)
  then have start: "start \<le> length stdout"
    by (auto simp: start_def split: list.split)
  have end0: "end0 \<le> length stdout"
  proof (cases "Option.bind regex (\<lambda>find. find stdout)")
    case None
    then show ?thesis by (simp add: end0_def)
  next
    case (Some m)
    then have "sublist m stdout" using assms by (auto simp: bind_eq_Some_conv)
    then obtain i where "last_index stdout m = Some i" using last_index_complete by blast
    with Some last_index_bound show ?thesis by (simp add: end0_def)
  qed
  define stop where "stop = (if end0 \<le> start then length stdout else end0)"
  have "start \<le> stop" and "stop \<le> length stdout"
    using start end0 by (auto simp: stop_def)
  then obtain out where out: "slice stdout start stop = Ok out" "sublist out stdout"
    using slice_sublist by blast
  have "cleanupTerraformOutput regex stdout0 = Ok out"
    unfolding cl stop_def [symmetric] by (rule out)
  moreover have "sublist out stdout0"
    using out(2) sub by (rule sublist_order.order.trans)
  ultimately show ?thesis by blast
qed

lemma cleanup_plan_ok: "\<exists>out. cleanupTerraformPlan stdout = Ok out \<and> sublist out stdout"
  unfolding cleanupTerraformPlan_def by (rule cleanup_output_ok) (simp add: match_rule_sublist)

lemma cleanup_apply_ok: "\<exists>out. cleanupTerraformApply stdout = Ok out \<and> sublist out stdout"
  unfolding cleanupTerraformApply_def by (rule cleanup_output_ok) simp

text \<open>Claim C29: the texts that go into a comment are part of what the tool printed: cleaning up the output
  of a plan or an apply cuts inside its bounds on every output, so that it never panics, and the result is a
  contiguous part of the output.\<close>

theorem cleanup_within_output:
  "\<exists>p a. cleanupTerraformPlan stdout = Ok p \<and> sublist p stdout \<and>
    cleanupTerraformApply stdout = Ok a \<and> sublist a stdout"
  using cleanup_plan_ok cleanup_apply_ok by blast

section \<open>Reports and commands\<close>

lemma reports_emit [emits]:
  "(\<And>s f. P (EReport s f)) \<Longrightarrow> emits P (reportError env s)"
  "(\<And>s f. P (EReport s f)) \<Longrightarrow> emits P (reportApplyError env s)"
  "(\<And>s f. P (EReport s f)) \<Longrightarrow> emits P (reportTerraformApplyOutput env s)"
  "(\<And>s f. P (EReport s f)) \<Longrightarrow> emits P (reportTerraformError env s)"
  unfolding reportError_def reportApplyError_def reportTerraformApplyOutput_def reportTerraformError_def
  by (intro emits, simp)+

lemma reports_lock_free [keeps_locks]:
  "lock_free (reportError env s)" "lock_free (reportApplyError env s)"
  "lock_free (reportTerraformApplyOutput env s)" "lock_free (reportTerraformError env s)"
  unfolding reportError_def reportApplyError_def reportTerraformApplyOutput_def reportTerraformError_def
  by (intro keeps_locks)+

lemma additional_emits [emits]:
  "(\<And>s f. P (EReport s f)) \<Longrightarrow> (\<And>f. P (EReadFile f)) \<Longrightarrow> (\<And>f. P (ERemoveFile f)) \<Longrightarrow>
   emits P (reportAdditionalOutput env pid)"
  unfolding reportAdditionalOutput_def
  by (auto intro!: emits split: option.split simp del: act_ret_def)

lemma additional_lock_free [keeps_locks]: "lock_free (reportAdditionalOutput env pid)"
  unfolding reportAdditionalOutput_def
  by (auto intro!: keeps_locks split: option.split simp del: act_ret_def)

lemma run_env_emits [emits]: "emits P ensure_run_env" "emits P (set_planfile f)"
  unfolding ensure_run_env_def set_planfile_def by (simp_all add: emits_modify del: act_modify_def)

lemma run_env_lock_free [keeps_locks]: "lock_free ensure_run_env" "lock_free (set_planfile f)"
  unfolding ensure_run_env_def set_planfile_def by (simp_all add: lock_free_modify del: act_modify_def)

lemma CommandRunner_emits [emits]:
  "(\<And>b args s dr vs. P (EScript b args s dr vs)) \<Longrightarrow> emits P (CommandRunner_Run env wd sh cs envs)"
  unfolding CommandRunner_Run_def
  by (auto intro!: emits split: sum.split prod.split simp: Let_def simp del: act_ret_def act_gets_def)

lemma CommandRunner_lock_free [keeps_locks]: "lock_free (CommandRunner_Run env wd sh cs envs)"
  unfolding CommandRunner_Run_def
  by (auto intro!: keeps_locks split: sum.split prod.split simp: Let_def simp del: act_ret_def act_gets_def)

lemma run_command_emits [emits]:
  "(\<And>b args s dr vs. P (EScript b args s dr vs)) \<Longrightarrow> emits P (run_command env d st)"
  unfolding emits_def run_command_def by (metis CommandRunner_emits emits_def)

lemma run_command_lock_free [keeps_locks]: "lock_free (run_command env d st)"
  unfolding lock_free_def run_command_def by (metis CommandRunner_lock_free lock_free_def)

lemma run_steps_emits [emits]: "(\<And>st p. emits P (f st p)) \<Longrightarrow> emits P (run_steps f sts p)"
  by (induction sts arbitrary: p) (auto intro!: emits simp del: act_ret_def)

lemma run_steps_lock_free [keeps_locks]: "(\<And>st p. lock_free (f st p)) \<Longrightarrow> lock_free (run_steps f sts p)"
  by (induction sts arbitrary: p) (auto intro!: keeps_locks simp del: act_ret_def)

lemma store_plan_emits [emits]:
  "(\<And>f. P (EReadFile f)) \<Longrightarrow> (\<And>a b c. P (EStorePlan a b c)) \<Longrightarrow> emits P (store_plan env d)"
  unfolding store_plan_def
  by (auto intro!: emits split: sum.split option.split simp del: act_ret_def act_err_def)

lemma store_plan_lock_free [keeps_locks]: "lock_free (store_plan env d)"
  unfolding store_plan_def
  by (auto intro!: keeps_locks split: sum.split option.split simp del: act_ret_def act_err_def)

lemma retrieve_plan_emits [emits]: "(\<And>a b c. P (ERetrievePlan a b c)) \<Longrightarrow> emits P (retrieve_plan env d)"
  unfolding retrieve_plan_def
  by (auto intro!: emits split: sum.split simp del: act_ret_def act_err_def)

lemma retrieve_plan_lock_free [keeps_locks]: "lock_free (retrieve_plan env d)"
  unfolding retrieve_plan_def
  by (auto intro!: keeps_locks split: sum.split simp del: act_ret_def act_err_def)

section \<open>With a tool that keeps its contract\<close>

context tool_contract
begin

lemma reads_no_change: "emits reads f \<Longrightarrow> emits (\<lambda>e. \<not> changes e) f"
  by (erule emits_mono) (simp add: reads_def)

lemma no_change:
  assumes "xe_tool env = tool"
  shows "emits (\<lambda>e. \<not> changes e) (t_Init (xe_tool env) ps es)"
    and "emits (\<lambda>e. \<not> changes e) (t_Plan (xe_tool env) ps es f r)"
    and "emits (\<lambda>e. \<not> changes e) (t_Show (xe_tool env) ps es f j)"
  by (simp_all add: assms reads_no_change init_reads plan_reads show_reads)

lemma postProcessPlan_no_change:
  "xe_tool env = tool \<Longrightarrow> emits (\<lambda>e. \<not> changes e) (postProcessPlan env d out)"
  unfolding postProcessPlan_def
  by (auto intro!: emits no_change split: option.split simp del: act_ret_def act_err_def act_of_def)

lemma post_process_no_change:
  "xe_tool env = tool \<Longrightarrow> emits (\<lambda>e. \<not> changes e) (post_process_or_report env d out)"
  unfolding post_process_or_report_def
  by (auto intro!: emits postProcessPlan_no_change split: sum.split simp del: act_ret_def act_err_def)

lemma plan_step_no_change:
  "xe_tool env = tool \<Longrightarrow> emits (\<lambda>e. \<not> changes e) (plan_step env d st ps)"
  unfolding plan_step_def
  by (auto intro!: emits no_change post_process_no_change split: option.split
      simp del: act_ret_def act_err_def act_panic_def)

lemma executor_Plan_no_change:
  assumes "xe_tool env = tool"
  shows "emits (\<lambda>e. \<not> changes e) (executor_Plan env d)"
  using assms unfolding executor_Plan_def Let_def
  by (auto intro!: emits no_change post_process_no_change plan_step_no_change split: option.split
      simp del: act_ret_def act_err_def)

lemma RetrievePlanJson_no_change:
  assumes "xe_tool env = tool"
  shows "emits (\<lambda>e. \<not> changes e) (RetrievePlanJson env d)"
  using assms unfolding RetrievePlanJson_def
  by (auto intro!: emits no_change split: option.split sum.split bool.split
      simp del: act_ret_def act_err_def act_panic_def)

lemma tool_lock_free:
  assumes "xe_tool env = tool"
  shows "lock_free (t_Init (xe_tool env) ps es)"
    and "lock_free (t_Plan (xe_tool env) ps es f r)"
    and "lock_free (t_Show (xe_tool env) ps es f j)"
    and "lock_free (t_Apply (xe_tool env) ps p es)"
    and "lock_free (t_Destroy (xe_tool env) ps es)"
  by (simp_all add: assms init_lock_free plan_lock_free show_lock_free apply_lock_free destroy_lock_free)

lemma postProcessPlan_lock_free: "xe_tool env = tool \<Longrightarrow> lock_free (postProcessPlan env d out)"
  unfolding postProcessPlan_def
  by (auto intro!: keeps_locks tool_lock_free split: option.split simp del: act_ret_def act_err_def act_of_def)

lemma post_process_lock_free: "xe_tool env = tool \<Longrightarrow> lock_free (post_process_or_report env d out)"
  unfolding post_process_or_report_def
  by (auto intro!: keeps_locks postProcessPlan_lock_free split: sum.split simp del: act_ret_def act_err_def)

lemma plan_step_lock_free: "xe_tool env = tool \<Longrightarrow> lock_free (plan_step env d st ps)"
  unfolding plan_step_def
  by (auto intro!: keeps_locks tool_lock_free post_process_lock_free split: option.split
      simp del: act_ret_def act_err_def act_panic_def)

lemma executor_Plan_lock_free: "xe_tool env = tool \<Longrightarrow> lock_free (executor_Plan env d)"
  unfolding executor_Plan_def Let_def
  by (auto intro!: keeps_locks tool_lock_free post_process_lock_free plan_step_lock_free split: option.split
      simp del: act_ret_def act_err_def)

lemma apply_step_lock_free: "xe_tool env = tool \<Longrightarrow> lock_free (apply_step env d f st so)"
  unfolding apply_step_def
  by (auto intro!: keeps_locks tool_lock_free split: option.split
      simp del: act_ret_def act_err_def act_of_def)

lemma executor_Apply_lock_free: "xe_tool env = tool \<Longrightarrow> lock_free (executor_Apply env d)"
  unfolding executor_Apply_def
  by (auto intro!: keeps_locks apply_step_lock_free simp del: act_ret_def)

lemma RetrievePlanJson_lock_free: "xe_tool env = tool \<Longrightarrow> lock_free (RetrievePlanJson env d)"
  unfolding RetrievePlanJson_def
  by (auto intro!: keeps_locks tool_lock_free split: option.split sum.split bool.split
      simp del: act_ret_def act_err_def act_panic_def)

end

end
