(* ===== verification/PolicyProps.thy ===== *)
theory PolicyProps
  imports Policy
begin

text \<open>
  When the access policy lets an action through.
\<close>

lemma all_true_Ok: "all_true vs = Ok True \<longleftrightarrow> (\<forall>v \<in> set vs. v = RegoBool True)"
  by (induction vs rule: all_true.induct) auto

lemma rego_expressions_Ok:
  assumes "rego_expressions env q pol i w = (Ok es, w')"
  shows "po_prepare env q pol = None \<and> es \<noteq> [] \<and> (\<exists>rs. po_eval env q pol i = es # rs)"
  using assms unfolding rego_expressions_def
  by (auto simp: act_bind_eq_Ok split: option.splits list.splits)

text \<open>Claim C13: an action is let through only when the policy that was fetched is empty or compiles and
  every expression of its first result, for this user, organisation, command, project and these
  violations, is true.\<close>

theorem access_decides:
  fixes w w' :: "'s run_world"
  assumes "CheckAccessPolicy env p q w = (Ok True, w')"
  shows "\<exists>policy w1. GetAccessPolicy env p (ar_organisation q) (ar_repository q) (ar_project q) w = (Ok policy, w1) \<and>
    (policy = [] \<or>
     po_prepare env ''data.digger.allow'' policy = None \<and>
     (\<exists>teams approvals es rs.
        po_eval env ''data.digger.allow'' policy
          (AccessInput (ar_requestedBy q) (ar_organisation q) teams approvals (ar_violations q) (ar_command q)
            (ar_project q)) = es # rs \<and>
        es \<noteq> [] \<and> (\<forall>v \<in> set es. v = RegoBool True)))"
proof -
  obtain policy w1 where pol: "GetAccessPolicy env p (ar_organisation q) (ar_repository q) (ar_project q) w = (Ok policy, w1)"
    using assms unfolding CheckAccessPolicy_def act_bind_eq_Ok by blast
  show ?thesis
  proof (cases "policy = []")
    case False
    obtain teams approvals es and u v :: "'s run_world" where e: "rego_expressions env ''data.digger.allow'' policy
        (AccessInput (ar_requestedBy q) (ar_organisation q) teams approvals (ar_violations q) (ar_command q)
          (ar_project q)) u = (Ok es, v)" and t: "all_true es = Ok True"
      using assms False pol unfolding CheckAccessPolicy_def Let_def
      by (simp add: act_bind_eq_Ok del: split_paired_Ex) blast
    show ?thesis
      using pol rego_expressions_Ok [OF e] t all_true_Ok by blast
  qed (use pol in blast)
qed

text \<open>A project policy that is not found and an organisation's policy whose body cannot be read
  let every action through, whatever the policy says.\<close>

theorem unreadable_policy_allows:
  assumes "po_url env (hp_DiggerHost p) (''/repos/'' @ ar_organisation q @ ''-'' @ ar_repository q @
      ''/projects/'' @ ar_project q @ ''/access-policy'') = Inr u1"
    and "po_url env (hp_DiggerHost p) (''/orgs/'' @ hp_DiggerOrganisation p @ ''/access-policy'') = Inr u2"
    and "po_request env u1 = None" and "po_request env u2 = None"
    and "po_get env (rw_trace w) = Inr r1" and "hr_StatusCode r1 = 404"
    and "po_get env (rw_trace w @ [EHttpGet u1]) = Inr r2" and "hr_StatusCode r2 = 200" and "hr_Body r2 = None"
  shows "fst (CheckAccessPolicy env p q w) = Ok True"
proof -
  let ?w1 = "w\<lparr>rw_trace := rw_trace w @ [EHttpGet u1]\<rparr>"
  let ?w2 = "w\<lparr>rw_trace := rw_trace w @ [EHttpGet u1, EHttpGet u2]\<rparr>"
  have ns: "getAccessPolicyForNamespace env p (ar_organisation q @ ''-'' @ ar_repository q) (ar_project q) w =
      (Ok (case hr_Body r1 of None \<Rightarrow> [] | Some b \<Rightarrow> b, 404), ?w1)"
    using assms(1,3,5,6) by (simp add: getAccessPolicyForNamespace_def fetch_policy_def act_bind_def ask_def)
  have og: "getAccessPolicyForOrganisation env p ?w1 = (Ok ([], 200), ?w2)"
    using assms(2,4,7-9) by (simp add: getAccessPolicyForOrganisation_def fetch_policy_def act_bind_def ask_def)
  have pol: "GetAccessPolicy env p (ar_organisation q) (ar_repository q) (ar_project q) w = (Ok [], ?w2)"
    unfolding GetAccessPolicy_def act_bind_def act_wrap_def ns res.case prod.case by (simp add: act_bind_def act_wrap_def og)
  show ?thesis
    unfolding CheckAccessPolicy_def act_bind_def pol res.case prod.case
    by (simp add: ask_def Let_def split: bool.split option.split)
qed

section \<open>Witnesses\<close>

definition demo_policy_env :: "int \<Rightarrow> string option \<Rightarrow> policy_env" where
  "demo_policy_env status body =
     \<lparr>po_url = (\<lambda>h p. Inr (h @ p)), po_request = (\<lambda>_. None),
      po_get = (\<lambda>t. Inr (if t = [] then \<lparr>hr_StatusCode = 404, hr_Body = Some ''''\<rparr>
                         else \<lparr>hr_StatusCode = status, hr_Body = body\<rparr>)),
      po_teams = (\<lambda>_. Inr [''infra'']), po_approvals = (\<lambda>_. []), po_prepare = (\<lambda>_ _. None),
      po_eval = (\<lambda>_ _ i. case i of AccessInput _ _ _ _ vs _ _ \<Rightarrow> [[RegoBool (vs = [])]] | _ \<Rightarrow> []),
      po_json = (\<lambda>_. None)\<rparr>"

definition demo_provider :: http_provider where
  "demo_provider = \<lparr>hp_DiggerHost = ''https://digger'', hp_DiggerOrganisation = ''acme''\<rparr>"

definition demo_request :: access_request where
  "demo_request = \<lparr>ar_pr = False, ar_organisation = ''acme'', ar_repository = ''infra'', ar_project = ''prod'',
     ar_dir = ''prod'', ar_command = ''digger apply'', ar_prNumber = None, ar_requestedBy = ''mallory'',
     ar_violations = []\<rparr>"

definition demo_run_world :: "unit run_world" where
  "demo_run_world = \<lparr>rw_lock = \<lparr>locks = (), comments = []\<rparr>, rw_trace = [], rw_run_env = None\<rparr>"

theorem access_decides_witness:
  "\<exists>policy w1. GetAccessPolicy (demo_policy_env 404 None) demo_provider ''acme'' ''infra'' ''prod'' demo_run_world =
      (Ok policy, w1) \<and> (policy = [] \<or> po_prepare (demo_policy_env 404 None) ''data.digger.allow'' policy = None)"
proof -
  have "fst (CheckAccessPolicy (demo_policy_env 404 None) demo_provider demo_request demo_run_world) = Ok True"
    by code_simp
  then obtain w' where
    "CheckAccessPolicy (demo_policy_env 404 None) demo_provider demo_request demo_run_world = (Ok True, w')"
    by (metis prod.collapse)
  from access_decides [OF this] show ?thesis by (auto simp: demo_request_def)
qed

theorem unreadable_policy_allows_witness:
  "fst (CheckAccessPolicy (demo_policy_env 200 None) demo_provider demo_request demo_run_world) = Ok True"
  by (rule unreadable_policy_allows [where ?u1.0 = "''https://digger/repos/acme-infra/projects/prod/access-policy''"
        and ?u2.0 = "''https://digger/orgs/acme/access-policy''"
        and ?r1.0 = "\<lparr>hr_StatusCode = 404, hr_Body = Some ''''\<rparr>" and ?r2.0 = "\<lparr>hr_StatusCode = 200, hr_Body = None\<rparr>"])
    (simp_all add: demo_policy_env_def demo_provider_def demo_request_def demo_run_world_def)

end
