(* ===== verification/RunnerProps.thy ===== *)
theory RunnerProps
  imports Runner ExecutorProps PolicyProps
begin

text \<open>
  What a run of the CLI may do.  The commands other than an apply and a destroy run no process that
  changes the infrastructure; an apply runs one only after the pull request was found mergeable, the
  access policy allowed it with the violations of the stored plan, and the project's lock was taken.
\<close>

section \<open>The tool of a job keeps the contract\<close>

lemma tool_of_contract: "tool_contract (tool_of env job path)"
  unfolding tool_of_def Let_def
  by (simp add: terraform.tool_contract_axioms opentofu.tool_contract_axioms
      terragrunt.tool_contract_axioms pulumi.tool_contract_axioms)

lemma exec_env_tool: "xe_tool (exec_env_of env job) = tool_of env job (path_Join [rn_workingDir env, j_ProjectDir job])"
  by (simp add: exec_env_of_def)

lemmas job_plan_no_change [emits] = tool_contract.executor_Plan_no_change [OF tool_of_contract exec_env_tool]
lemmas job_retrieve_no_change [emits] = tool_contract.RetrievePlanJson_no_change [OF tool_of_contract exec_env_tool]
lemmas job_apply_lock_free [keeps_locks] = tool_contract.executor_Apply_lock_free [OF tool_of_contract exec_env_tool]
lemmas job_plan_lock_free [keeps_locks] = tool_contract.executor_Plan_lock_free [OF tool_of_contract exec_env_tool]
lemmas job_retrieve_lock_free [keeps_locks] =
  tool_contract.RetrievePlanJson_lock_free [OF tool_of_contract exec_env_tool]

lemma quiet_no_change: "emits (\<lambda>e. \<not> is_process e) f \<Longrightarrow> emits (\<lambda>e. \<not> changes e) f"
  by (erule emits_mono, rename_tac e, case_tac e) (auto elim: changes.elims)

lemma populate_no_change [emits]: "emits (\<lambda>e. \<not> changes e) (PopulateAwsCredentialsEnvVarsForJob env job)"
  by (intro quiet_no_change emits)

lemma report_as_emits [emits]: "(\<And>s f. P (EReport s f)) \<Longrightarrow> emits P (report_as env m t p)"
  unfolding report_as_def by (intro emits) simp

lemma runner_reports_emit [emits]:
  "(\<And>s f. P (EReport s f)) \<Longrightarrow> emits P (reportPolicyError env q c r)"
  "(\<And>s f. P (EReport s f)) \<Longrightarrow> emits P (reportApplyMergeabilityError env)"
  "(\<And>s f. P (EReport s f)) \<Longrightarrow> emits P (reportTerraformPlanOutput env pl)"
  "(\<And>s f. P (EReport s f)) \<Longrightarrow> emits P (reportPlanSummary env pl)"
  "(\<And>s f. P (EReport s f)) \<Longrightarrow> P ESuppress \<Longrightarrow> emits P (reportEmptyPlanOutput l)"
  "(\<And>s f. P (EReport s f)) \<Longrightarrow> emits P (FormatAndReportExampleCommands env q)"
  unfolding reportPolicyError_def reportApplyMergeabilityError_def reportTerraformPlanOutput_def
    reportPlanSummary_def reportEmptyPlanOutput_def FormatAndReportExampleCommands_def Let_def
  by (intro emits; simp)+

lemma locking_Plan_no_change [emits]:
  "emits (\<lambda>e. \<not> changes e) (locking_Plan ops penv p (exec_env_of env job) d)"
  unfolding locking_Plan_def by (auto intro!: emits simp del: act_ret_def)

lemma ask_service_emits [emits]: "P ev \<Longrightarrow> emits P (ask_service ev f m)"
  unfolding ask_service_def by (intro emits)

lemma populate_or_exit_no_change [emits]: "emits (\<lambda>e. \<not> changes e) (populate_or_exit env job)"
  unfolding populate_or_exit_def exit_process_def
  by (auto intro!: emits split: sum.split simp del: act_ret_def act_panic_def)

lemma results_emit [emits]: "emits P (plan_result_of r)" "emits P (apply_result_of a)"
  unfolding plan_result_of_def apply_result_of_def
  by (auto intro!: emits split: option.split simp del: act_ret_def act_panic_def)

section \<open>The credentials do not change what a job is\<close>

definition identity :: "'p job \<Rightarrow> string \<times> string \<times> int option \<times> string \<times> string \<times> bool" where
  "identity j =
     (j_ProjectName j, j_ProjectDir j, j_PullRequestNumber j, j_RequestedBy j, j_Namespace j, j_SkipMergeCheck j)"

lemma identity_updates [simp]:
  "identity (j\<lparr>j_StateEnvVars := m\<rparr>) = identity j"
  "identity (j\<lparr>j_CommandEnvVars := m\<rparr>) = identity j"
  "identity (j\<lparr>j_PlanStage := p, j_ApplyStage := a\<rparr>) = identity j"
  "identity (j\<lparr>j_StateEnvVars := m, j_CommandEnvVars := m'\<rparr>) = identity j"
  by (simp_all add: identity_def)

lemma copy_env_vars_identity [simp]: "identity (copy_env_vars j) = identity j"
  by (simp add: copy_env_vars_def Let_def)

abbreviation same :: "'p job \<Rightarrow> 'p job \<Rightarrow> bool" where
  "same job j \<equiv> identity j = identity job"

lemma populate_command_same: "yields (same job) (populate_command env job)"
  unfolding populate_command_def
  by (auto intro!: yields_parts split: option.split simp del: act_ret_def)

lemma populate_command_trans: "same job j \<Longrightarrow> yields (same job) (populate_command env j)"
  using populate_command_same [of j env] by (simp add: yields_def)

lemma AuthBackendConfig_same: "yields (same job) (AuthBackendConfig env job)"
  unfolding AuthBackendConfig_def
proof (rule yields_bind [where Q = "same job"])
  show "yields (same job)
       (case j_StateEnvProvider job of
          None \<Rightarrow> act_ret job
        | Some p \<Rightarrow>
            act_bind (act_wrap (\<lambda>e. ''failed to get (state) keys from role: '' @ e)
                (retrieveBackendConfigArgs env p)) (\<lambda>backendConfigArgs.
            act_bind (act_of (add_init_args backendConfigArgs (j_PlanStage job))) (\<lambda>plan.
            act_bind (act_of (add_init_args backendConfigArgs (j_ApplyStage job))) (\<lambda>apply.
              act_ret (job\<lparr>j_PlanStage := plan, j_ApplyStage := apply\<rparr>)))))"
    by (auto intro!: yields_parts split: option.split simp del: act_ret_def act_of_def)
qed (rule populate_command_trans)

lemma AuthTerragrunt_same: "yields (same job) (AuthTerragrunt env job)"
  unfolding AuthTerragrunt_def
proof (rule yields_bind [where Q = "same job"])
  show "yields (same job)
       (case j_StateEnvProvider job of
          None \<Rightarrow> act_ret job
        | Some p \<Rightarrow>
            act_bind (act_wrap (\<lambda>e. ''failed to get (state) keys from role: '' @ e)
                (populateKeys env (j_StateEnvVars job) p))
              (\<lambda>m. act_ret (job\<lparr>j_StateEnvVars := m\<rparr>)))"
    by (auto intro!: yields_parts split: option.split simp del: act_ret_def)
qed (rule populate_command_trans)

lemma assume_roles_same: "yields (same job) (assume_roles env job)"
  unfolding assume_roles_def
  by (rule yields_bind [where Q = "same job"]) (auto intro!: yields_parts simp del: act_ret_def)

lemma AuthCognito_same: "yields (same job) (AuthCognito env job)"
  unfolding AuthCognito_def
  by (cases "j_CognitoOidcConfig job")
    (auto intro!: yields_parts assume_roles_same
      split: option.split simp del: act_ret_def act_err_def act_panic_def)

lemma populate_or_exit_identity:
  assumes "populate_or_exit env job w = (Ok (j, c), w')"
  shows "identity j = identity job"
proof -
  obtain r w1 where "act_try (PopulateAwsCredentialsEnvVarsForJob (rn_aws env) job) w = (Ok r, w1)"
    and "(case r of Inl _ \<Rightarrow> exit_process | Inr js \<Rightarrow> act_ret js) w1 = (Ok (j, c), w')"
    using assms unfolding populate_or_exit_def act_bind_eq_Ok by blast
  then have "PopulateAwsCredentialsEnvVarsForJob (rn_aws env) job w = (Ok (j, c), w')"
    by (cases r) (auto simp: exit_process_def act_try_Inr)
  then show ?thesis
    by (auto simp: PopulateAwsCredentialsEnvVarsForJob_def act_bind_eq_Ok split: auth_strategy.splits
        dest: yieldsD [OF AuthBackendConfig_same] yieldsD [OF AuthTerragrunt_same] yieldsD [OF AuthCognito_same])
qed

lemma identity_request:
  "identity j = identity job \<Longrightarrow> access_request_of j scm c vs = access_request_of job scm c vs"
  by (simp add: identity_def access_request_of_def)

section \<open>The guards of an apply\<close>

lemma ask_service_Ok:
  "ask_service ev f m w = (Ok a, w') \<Longrightarrow> f (rw_trace w) = Inr a \<and> rw_trace w' = rw_trace w @ [ev]"
  by (auto simp: ask_service_def ask_or_err_def act_bind_eq_Ok ask_def split: sum.splits)

lemma check_mergeable_Ok:
  assumes "check_mergeable env job n w = (Ok u, w')"
  shows "j_SkipMergeCheck job \<or> (\<exists>t. prefix (rw_trace w) t \<and> prefix t (rw_trace w') \<and>
    (rn_is_merged env t = Inr True \<or> rn_is_mergeable env t = Inr True))"
proof -
  obtain merged w1 mergeable w2 where m: "ask_service (EIsMerged n) (rn_is_merged env) ''Failed to check if PR is merged. '' w = (Ok merged, w1)"
    "ask_service (EIsMergeable n) (rn_is_mergeable env) ''Failed to check if PR is mergeable. '' w1 = (Ok mergeable, w2)"
    and last: "(if \<not> mergeable \<and> \<not> merged \<and> \<not> j_SkipMergeCheck job then
       act_bind (reportApplyMergeabilityError env) (\<lambda>comment. act_err comment) else act_ret ()) w2 = (Ok u, w')"
    using assms unfolding check_mergeable_def act_bind_eq_Ok by blast
  have ok: "mergeable \<or> merged \<or> j_SkipMergeCheck job" and w': "w' = w2"
    using last by (auto simp: act_bind_eq_Ok split: if_splits)
  have "rn_is_merged env (rw_trace w) = Inr merged" and "rn_is_mergeable env (rw_trace w1) = Inr mergeable"
    and "prefix (rw_trace w) (rw_trace w1)" and "prefix (rw_trace w1) (rw_trace w')"
    using ask_service_Ok [OF m(1)] ask_service_Ok [OF m(2)] w' by simp_all
  then show ?thesis
    using ok by (cases "j_SkipMergeCheck job"; cases mergeable) (auto dest: prefix_order.trans)
qed

lemma check_apply_policy_Ok:
  assumes "check_apply_policy env job scm vs w = (Ok u, w')"
  shows "ck_access (rn_checker env) (access_request_of job scm ''digger apply'' vs) w = (Ok True, w')"
  using assms by (auto simp: check_apply_policy_def act_bind_eq_Ok split: if_splits)

lemma plan_violations_Ok:
  assumes "plan_violations env job scm w = (Ok vs, w')" and "getenv_of env ''PLAN_UPLOAD_DESTINATION'' \<noteq> []"
  shows "\<exists>u json u' ok.
    RetrievePlanJson (exec_env_of env job) (executor_of env job (j_Namespace job)) u = (Ok json, u') \<and>
    ck_plan (rn_checker env) (snd scm) (fst scm) (j_ProjectName job) (j_ProjectDir job) json u' = (Ok (ok, vs), w')"
  using assms by (auto simp: plan_violations_def act_bind_eq_Ok split: prod.splits)

lemma check_mergeable_no_change [emits]: "emits (\<lambda>e. \<not> changes e) (check_mergeable env job n)"
  unfolding check_mergeable_def by (auto intro!: emits simp del: act_ret_def act_err_def)

lemma lock_no_change: "emits (\<lambda>e. \<not> changes e) (act_wrap m (on_lock_world f))"
  by (intro emits)

lemma locking_Apply_fires:
  assumes "locking_Apply ops penv p xenv d w = (r, w')" and "fires changes w w'"
  shows "\<exists>w3. on_lock_world (Lock ops penv p) w = (Ok True, w3) \<and> executor_Apply xenv d w3 = (r, w') \<and>
    adds (\<lambda>e. \<not> changes e) w w3"
proof -
  from assms obtain locked w3 where l: "act_wrap (\<lambda>e. ''digger apply, error locking project: '' @ e)
      (on_lock_world (Lock ops penv p)) w = (Ok locked, w3)"
    and rest: "(if locked then executor_Apply xenv d
       else act_ret \<lparr>ap_Summary = None, ap_Performed = False, ap_Output = ''couldn'' @ [CHR 0x27] @ ''t lock ''\<rparr>) w3 = (r, w')"
    and w3: "adds (\<lambda>e. \<not> changes e) w w3" and fire: "fires changes w3 w'"
    unfolding locking_Apply_def by (rule fires_bindE) (rule lock_no_change)
  have "locked"
    using rest fire by (auto simp: fires_def split: if_splits)
  with l rest w3 show ?thesis by auto
qed

section \<open>With a checker that keeps its contract\<close>

context checker_contract
begin

lemma checker_no_change:
  assumes "rn_checker env = checker"
  shows "emits (\<lambda>e. \<not> changes e) (ck_access (rn_checker env) q)"
    and "emits (\<lambda>e. \<not> changes e) (ck_plan (rn_checker env) r og n d pl)"
    and "emits (\<lambda>e. \<not> changes e) (ck_drift (rn_checker env) og r n)"
  by (simp_all add: assms quiet_no_change access_quiet plan_quiet drift_quiet)

lemma validate_plan_no_change:
  "rn_checker env = checker \<Longrightarrow> emits (\<lambda>e. \<not> changes e) (validate_plan env job scm r)"
  unfolding validate_plan_def Let_def
  by (auto intro!: emits checker_no_change simp del: act_err_def)

lemma run_plan_no_change:
  "rn_checker env = checker \<Longrightarrow> emits (\<lambda>e. \<not> changes e) (run_plan env job scm p)"
  unfolding run_plan_def
  by (auto intro!: emits validate_plan_no_change simp del: act_ret_def)

lemma plan_violations_no_change:
  "rn_checker env = checker \<Longrightarrow> emits (\<lambda>e. \<not> changes e) (plan_violations env job scm)"
  unfolding plan_violations_def
  by (auto intro!: emits checker_no_change simp del: act_ret_def)

lemma run_unlock_no_change: "emits (\<lambda>e. \<not> changes e) (run_unlock env job p)"
  unfolding run_unlock_def locking_Unlock_def Let_def
  by (auto intro!: emits simp del: act_ret_def)

lemma run_lock_no_change: "emits (\<lambda>e. \<not> changes e) (run_lock env job p)"
  unfolding run_lock_def locking_Lock_def
  by (auto intro!: emits simp del: act_ret_def)

lemma run_no_change:
  assumes "rn_checker env = checker" and "command \<notin> {''digger apply'', ''digger destroy''}"
  shows "emits (\<lambda>e. \<not> changes e) (run env command job scm applies)"
proof -
  have "emits (\<lambda>e. \<not> changes e) (run_command_of env command j scm n p applies)" for j n p
    using assms unfolding run_command_of_def
    by (auto intro!: emits run_plan_no_change run_unlock_no_change run_lock_no_change
        simp del: act_ret_def act_err_def)
  then show ?thesis
    using assms(1) unfolding run_def
    by (auto intro!: emits checker_no_change split: option.split
        simp del: act_ret_def act_err_def act_panic_def)
qed

text \<open>What held when an apply process ran: \<open>w1\<close> is the world in which the access policy was asked,
  \<open>w2\<close> the one in which the lock was taken, \<open>w3\<close> the one the executor started in.\<close>

lemma check_apply_policy_no_change:
  "rn_checker env = checker \<Longrightarrow> emits (\<lambda>e. \<not> changes e) (check_apply_policy env job scm vs)"
  unfolding check_apply_policy_def
  by (auto intro!: emits checker_no_change simp del: act_ret_def act_err_def)

text \<open>What held when an apply process ran: \<open>w1\<close> is the world in which the access policy was asked,
  \<open>w2\<close> the one in which the lock was taken, \<open>w3\<close> the one the executor started in.\<close>

lemma run_apply_guarded:
  assumes env: "rn_checker env = checker"
    and r: "run_apply env job scm n p w = (r, w')" and fire: "fires changes w w'"
  shows "\<exists>vs w1 w2 w3 x.
      (j_SkipMergeCheck job \<or> (\<exists>t. prefix (rw_trace w) t \<and> prefix t (rw_trace w1) \<and>
         (rn_is_merged env t = Inr True \<or> rn_is_mergeable env t = Inr True))) \<and>
      (getenv_of env ''PLAN_UPLOAD_DESTINATION'' \<noteq> [] \<longrightarrow> (\<exists>u json u' ok.
         RetrievePlanJson (exec_env_of env job) (executor_of env job (j_Namespace job)) u = (Ok json, u') \<and>
         ck_plan (rn_checker env) (snd scm) (fst scm) (j_ProjectName job) (j_ProjectDir job) json u' = (Ok (ok, vs), w1))) \<and>
      ck_access (rn_checker env) (access_request_of job scm ''digger apply'' vs) w1 = (Ok True, w2) \<and>
      on_lock_world (Lock (rn_lock env) (rn_pr_env env) p) w2 = (Ok True, w3) \<and>
      executor_Apply (exec_env_of env job) (executor_of env job (j_Namespace job)) w3 = (x, w') \<and>
      adds (\<lambda>e. \<not> changes e) w w3"
proof -
  note n = emits_tell check_mergeable_no_change plan_violations_no_change [OF env]
    check_apply_policy_no_change [OF env]
  obtain u0 v0 where v0: "tell (EUsage (j_RequestedBy job) (j_EventName job) ''apply'') w = (Ok u0, v0)"
    and r0: "act_bind (check_mergeable env job n) (\<lambda>_.
     act_bind (plan_violations env job scm) (\<lambda>violations.
     act_bind (check_apply_policy env job scm violations) (\<lambda>_.
     act_bind (act_wrap (\<lambda>e. ''Failed to run digger apply command. '' @ e)
         (locking_Apply (rn_lock env) (rn_pr_env env) p (exec_env_of env job)
           (executor_of env job (j_Namespace job)))) (\<lambda>r.
     act_bind (apply_result_of r) (\<lambda>result. act_ret (result, ap_Performed r)))))) v0 = (r, w')"
    and a0: "adds (\<lambda>e. \<not> changes e) w v0" and f0: "fires changes v0 w'"
    using r fire unfolding run_apply_def by (rule fires_bindE) (simp add: emits_tell)
  obtain u1 v1 where v1: "check_mergeable env job n v0 = (Ok u1, v1)"
    and r1: "act_bind (plan_violations env job scm) (\<lambda>violations.
     act_bind (check_apply_policy env job scm violations) (\<lambda>_.
     act_bind (act_wrap (\<lambda>e. ''Failed to run digger apply command. '' @ e)
         (locking_Apply (rn_lock env) (rn_pr_env env) p (exec_env_of env job)
           (executor_of env job (j_Namespace job)))) (\<lambda>r.
     act_bind (apply_result_of r) (\<lambda>result. act_ret (result, ap_Performed r))))) v1 = (r, w')"
    and a1: "adds (\<lambda>e. \<not> changes e) v0 v1" and f1: "fires changes v1 w'"
    using r0 f0 by (rule fires_bindE) (rule n)
  obtain vs w1 where vs: "plan_violations env job scm v1 = (Ok vs, w1)"
    and r2: "act_bind (check_apply_policy env job scm vs) (\<lambda>_.
     act_bind (act_wrap (\<lambda>e. ''Failed to run digger apply command. '' @ e)
         (locking_Apply (rn_lock env) (rn_pr_env env) p (exec_env_of env job)
           (executor_of env job (j_Namespace job)))) (\<lambda>r.
     act_bind (apply_result_of r) (\<lambda>result. act_ret (result, ap_Performed r)))) w1 = (r, w')"
    and a2: "adds (\<lambda>e. \<not> changes e) v1 w1" and f2: "fires changes w1 w'"
    using r1 f1 by (rule fires_bindE) (rule n)
  obtain u2 w2 where w2: "check_apply_policy env job scm vs w1 = (Ok u2, w2)"
    and r3: "act_bind (act_wrap (\<lambda>e. ''Failed to run digger apply command. '' @ e)
         (locking_Apply (rn_lock env) (rn_pr_env env) p (exec_env_of env job)
           (executor_of env job (j_Namespace job)))) (\<lambda>r.
     act_bind (apply_result_of r) (\<lambda>result. act_ret (result, ap_Performed r))) w2 = (r, w')"
    and a3: "adds (\<lambda>e. \<not> changes e) w1 w2" and f3: "fires changes w2 w'"
    using r2 f2 by (rule fires_bindE) (rule n)
  obtain v3 x3 where w3: "act_wrap (\<lambda>e. ''Failed to run digger apply command. '' @ e)
         (locking_Apply (rn_lock env) (rn_pr_env env) p (exec_env_of env job)
           (executor_of env job (j_Namespace job))) w2 = (x3, v3)"
    by fastforce
  have "w' = v3"
    using r3 w3 by (auto simp: act_bind_def apply_result_of_def split: res.splits prod.splits option.splits)
  then obtain x where l: "locking_Apply (rn_lock env) (rn_pr_env env) p (exec_env_of env job)
           (executor_of env job (j_Namespace job)) w2 = (x, w')"
    using act_wrap_world [OF w3] by blast
  obtain w3 where w3: "on_lock_world (Lock (rn_lock env) (rn_pr_env env) p) w2 = (Ok True, w3)"
    "executor_Apply (exec_env_of env job) (executor_of env job (j_Namespace job)) w3 = (x, w')"
    "adds (\<lambda>e. \<not> changes e) w2 w3"
    using locking_Apply_fires [OF l f3] by blast
  have "prefix (rw_trace w) (rw_trace v0)" and "prefix (rw_trace v1) (rw_trace w1)"
    using a0 a2 by (auto simp: adds_def)
  then have m: "j_SkipMergeCheck job \<or> (\<exists>t. prefix (rw_trace w) t \<and> prefix t (rw_trace w1) \<and>
       (rn_is_merged env t = Inr True \<or> rn_is_mergeable env t = Inr True))"
    using check_mergeable_Ok [OF v1] prefix_order.trans by blast
  have "adds (\<lambda>e. \<not> changes e) w w3"
    using a0 a1 a2 a3 w3(3) adds_trans by blast
  with m plan_violations_Ok [OF vs] check_apply_policy_Ok [OF w2] w3(1,2) show ?thesis by blast
qed

end

section \<open>What a command may change\<close>

lemma adds_new: "adds P w w' \<Longrightarrow> \<forall>e \<in> set (drop (length (rw_trace w)) (rw_trace w')). P e"
  by (auto simp: adds_def)

text \<open>Claim C8: whatever its environment answers, a command other than an apply and a destroy runs no
  process that changes the infrastructure.  The scripts of \<open>run\<close> steps are the workflow's own.\<close>

theorem only_apply_and_destroy_change:
  assumes "rn_checker env = NewPolicyChecker pe getenv host org"
    and "command \<notin> {''digger apply'', ''digger destroy''}"
    and "run env command job scm applies w = (r, w')"
  shows "\<forall>e \<in> set (drop (length (rw_trace w)) (rw_trace w')). \<not> changes e"
  using new_checker.run_no_change [OF assms(1,2)] assms(3) by (intro adds_new) (rule emitsD)

lemma run_apply_inv:
  assumes env: "rn_checker env = NewPolicyChecker pe getenv host org"
    and r: "run env ''digger apply'' job scm applies w = (r, w')" and fire: "fires changes w w'"
  shows "\<exists>j n x v. identity j = identity job \<and> j_PullRequestNumber job = Some n \<and> adds (\<lambda>e. \<not> changes e) w v \<and>
    run_apply env j scm n \<lparr>pr_project = j_ProjectName job, pr_namespace = j_Namespace job, pr_number = n\<rparr> v = (x, w') \<and>
    fires changes v w'"
proof -
  note nc = new_checker.checker_no_change [OF env]
  obtain a v0 where v0: "adds (\<lambda>e. \<not> changes e) w v0" and f0: "fires changes v0 w'"
    and r0: "(if \<not> a then
       act_bind (reportPolicyError env (j_ProjectName job) ''digger apply'' (j_RequestedBy job)) (\<lambda>msg. act_err msg)
     else
       act_bind (populate_or_exit env job) (\<lambda>(job, callers_job).
       case j_PullRequestNumber job of
         None \<Rightarrow> act_panic ''nil pointer dereference''
       | Some n \<Rightarrow>
           act_bind (run_command_of env ''digger apply'' job scm n
               \<lparr>pr_project = j_ProjectName job, pr_namespace = j_Namespace job, pr_number = n\<rparr> applies)
             (\<lambda>(r, applies). act_ret (r, applies, callers_job)))) v0 = (r, w')"
    using r fire unfolding run_def by (rule fires_bindE) (intro emits nc)
  have a
  proof (rule ccontr)
    assume "\<not> a"
    with r0 have "act_bind (reportPolicyError env (j_ProjectName job) ''digger apply'' (j_RequestedBy job))
        (\<lambda>msg. act_err msg) v0 = (r, w')" by simp
    then show False
      using f0 by (rule fires_not_emits) (auto intro!: emits simp del: act_err_def)
  qed
  with r0 have r0: "act_bind (populate_or_exit env job) (\<lambda>(job, callers_job).
       case j_PullRequestNumber job of
         None \<Rightarrow> act_panic ''nil pointer dereference''
       | Some n \<Rightarrow>
           act_bind (run_command_of env ''digger apply'' job scm n
               \<lparr>pr_project = j_ProjectName job, pr_namespace = j_Namespace job, pr_number = n\<rparr> applies)
             (\<lambda>(r, applies). act_ret (r, applies, callers_job))) v0 = (r, w')" by simp
  obtain jc v1 where jc: "populate_or_exit env job v0 = (Ok jc, v1)"
    and v1: "adds (\<lambda>e. \<not> changes e) v0 v1" and f1: "fires changes v1 w'"
    and r1: "(case jc of (job, callers_job) \<Rightarrow>
       case j_PullRequestNumber job of
         None \<Rightarrow> act_panic ''nil pointer dereference''
       | Some n \<Rightarrow>
           act_bind (run_command_of env ''digger apply'' job scm n
               \<lparr>pr_project = j_ProjectName job, pr_namespace = j_Namespace job, pr_number = n\<rparr> applies)
             (\<lambda>(r, applies). act_ret (r, applies, callers_job))) v1 = (r, w')"
    using r0 f0 by (rule fires_bindE) (rule populate_or_exit_no_change)
  obtain j c where jc_eq: "jc = (j, c)" by fastforce
  have same: "identity j = identity job"
    using populate_or_exit_identity jc jc_eq by blast
  obtain n where n: "j_PullRequestNumber j = Some n"
    using r1 f1 jc_eq by (cases "j_PullRequestNumber j") (auto simp: fires_def)
  define p where "p = \<lparr>pr_project = j_ProjectName j, pr_namespace = j_Namespace j, pr_number = n\<rparr>"
  have "act_bind (run_command_of env ''digger apply'' j scm n p applies)
      (\<lambda>(r, applies). act_ret (r, applies, c)) v1 = (r, w')"
    using r1 jc_eq n p_def by simp
  then have "snd (run_command_of env ''digger apply'' j scm n p applies v1) = w'"
    by (auto simp: act_bind_def split: prod.splits res.splits)
  moreover have "snd (run_command_of env ''digger apply'' j scm n p applies v1) = snd (run_apply env j scm n p v1)"
    by (simp add: run_command_of_def) (auto simp: act_bind_def split: prod.splits res.splits)
  ultimately obtain x where x: "run_apply env j scm n p v1 = (x, w')"
    by (metis prod.collapse)
  have "p = \<lparr>pr_project = j_ProjectName job, pr_namespace = j_Namespace job, pr_number = n\<rparr>"
    and "j_PullRequestNumber job = Some n"
    using same n by (simp_all add: p_def identity_def)
  with same x f1 adds_trans [OF v0 v1] show ?thesis by blast
qed

text \<open>Claim C4: when a \<open>digger apply\<close> runs a process that changes the infrastructure, then before that,
  in this order: the pull request was found mergeable or merged, unless the job skips that check; the
  plan policy was asked about the stored plan, when plans are uploaded; the access policy allowed the apply
  for the violations so found; and the pull request took the project's lock, which is left as it then was.
  All that the executor does comes after.\<close>

theorem apply_is_guarded:
  fixes env :: "('s, 'p) runner_env"
  assumes "rn_checker env = NewPolicyChecker pe getenv host org"
    and "run env ''digger apply'' job scm applies w = (r, w')"
    and "e \<in> set (drop (length (rw_trace w)) (rw_trace w'))" and "changes e"
  shows "\<exists>j n vs w1 w2 w3 x. identity j = identity job \<and> j_PullRequestNumber job = Some n \<and>
    (j_SkipMergeCheck job \<or> (\<exists>t. prefix (rw_trace w) t \<and> prefix t (rw_trace w1) \<and>
       (rn_is_merged env t = Inr True \<or> rn_is_mergeable env t = Inr True))) \<and>
    (getenv_of env ''PLAN_UPLOAD_DESTINATION'' \<noteq> [] \<longrightarrow> (\<exists>u json u' ok.
       RetrievePlanJson (exec_env_of env j) (executor_of env j (j_Namespace job)) u = (Ok json, u') \<and>
       ck_plan (rn_checker env) (snd scm) (fst scm) (j_ProjectName job) (j_ProjectDir job) json u' = (Ok (ok, vs), w1))) \<and>
    ck_access (rn_checker env) (access_request_of job scm ''digger apply'' vs) w1 = (Ok True, w2) \<and>
    on_lock_world (Lock (rn_lock env) (rn_pr_env env)
      \<lparr>pr_project = j_ProjectName job, pr_namespace = j_Namespace job, pr_number = n\<rparr>) w2 = (Ok True, w3) \<and>
    executor_Apply (exec_env_of env j) (executor_of env j (j_Namespace job)) w3 = (x, w') \<and>
    rw_lock w' = rw_lock w3 \<and> adds (\<lambda>e. \<not> changes e) w w3"
proof -
  have "fires changes w w'" using fires_newI assms(3,4) .
  then obtain j n y v where j: "identity j = identity job" "j_PullRequestNumber job = Some n"
    and v: "adds (\<lambda>e. \<not> changes e) w v"
    and y: "run_apply env j scm n \<lparr>pr_project = j_ProjectName job, pr_namespace = j_Namespace job, pr_number = n\<rparr> v = (y, w')"
    and f: "fires changes v w'"
    using run_apply_inv [OF assms(1,2)] by blast
  have id: "j_SkipMergeCheck j = j_SkipMergeCheck job" "j_Namespace j = j_Namespace job"
    "j_ProjectName j = j_ProjectName job" "j_ProjectDir j = j_ProjectDir job"
    using j(1) by (simp_all add: identity_def)
  obtain vs w1 w2 w3 x where g:
    "j_SkipMergeCheck j \<or> (\<exists>t. prefix (rw_trace v) t \<and> prefix t (rw_trace w1) \<and>
       (rn_is_merged env t = Inr True \<or> rn_is_mergeable env t = Inr True))"
    "getenv_of env ''PLAN_UPLOAD_DESTINATION'' \<noteq> [] \<longrightarrow> (\<exists>u json u' ok.
       RetrievePlanJson (exec_env_of env j) (executor_of env j (j_Namespace j)) u = (Ok json, u') \<and>
       ck_plan (rn_checker env) (snd scm) (fst scm) (j_ProjectName j) (j_ProjectDir j) json u' = (Ok (ok, vs), w1))"
    "ck_access (rn_checker env) (access_request_of j scm ''digger apply'' vs) w1 = (Ok True, w2)"
    "on_lock_world (Lock (rn_lock env) (rn_pr_env env)
      \<lparr>pr_project = j_ProjectName job, pr_namespace = j_Namespace job, pr_number = n\<rparr>) w2 = (Ok True, w3)"
    "executor_Apply (exec_env_of env j) (executor_of env j (j_Namespace j)) w3 = (x, w')"
    "adds (\<lambda>e. \<not> changes e) v w3"
    using new_checker.run_apply_guarded [OF assms(1) y f] by blast
  have "prefix (rw_trace w) (rw_trace v)" using v by (auto simp: adds_def)
  then have m: "j_SkipMergeCheck job \<or> (\<exists>t. prefix (rw_trace w) t \<and> prefix t (rw_trace w1) \<and>
       (rn_is_merged env t = Inr True \<or> rn_is_mergeable env t = Inr True))"
    using g(1) id(1) by (auto dest: prefix_order.trans)
  have lk: "rw_lock w' = rw_lock w3"
    using lock_freeD [OF job_apply_lock_free g(5)] .
  show ?thesis
    by (intro exI conjI) (rule j m g(2) [unfolded id] g(3) [unfolded identity_request [OF j(1)]] g(4)
      g(5) [unfolded id] lk adds_trans [OF v g(6)])+
qed

text \<open>An apply whose lock is not taken, without an error of the lock provider, panics on the
  summary it does not have; nothing was applied.\<close>

theorem unlocked_apply_panics:
  assumes "check_mergeable env job n (snd (tell (EUsage (j_RequestedBy job) (j_EventName job) ''apply'') w)) = (Ok (), w1)"
    and "plan_violations env job scm w1 = (Ok vs, w2)"
    and "check_apply_policy env job scm vs w2 = (Ok (), w3)"
    and "on_lock_world (Lock (rn_lock env) (rn_pr_env env) p) w3 = (Ok False, w4)"
  shows "run_apply env job scm n p w = (Panic ''nil pointer dereference'', w4)"
proof -
  have t: "tell (EUsage (j_RequestedBy job) (j_EventName job) ''apply'') w =
      (Ok (), snd (tell (EUsage (j_RequestedBy job) (j_EventName job) ''apply'') w))"
    by (simp add: tell_def ask_def)
  have l: "locking_Apply (rn_lock env) (rn_pr_env env) p (exec_env_of env job) (executor_of env job (j_Namespace job)) w3 =
      (Ok \<lparr>ap_Summary = None, ap_Performed = False, ap_Output = ''couldn'' @ [CHR 0x27] @ ''t lock ''\<rparr>, w4)"
    using assms(4) by (simp add: locking_Apply_def act_bind_def act_wrap_def)
  show ?thesis
    unfolding run_apply_def act_bind_Ok [where f = "tell _", OF t] act_bind_Ok [where f = "check_mergeable _ _ _", OF assms(1)]
      act_bind_Ok [where f = "plan_violations _ _ _", OF assms(2)] act_bind_Ok [where f = "check_apply_policy _ _ _ _", OF assms(3)]
    by (simp add: act_bind_def act_wrap_def l apply_result_of_def)
qed

section \<open>Witnesses\<close>

text \<open>Terraform on a workflow without stages, no plan storage, and a lock that nobody holds;
  \<open>free\<close> says whether the provider gives it.\<close>

definition demo_process_env :: process_env where
  "demo_process_env =
     \<lparr>pe_run = (\<lambda>_. \<lparr>ps_stdout = [''Apply complete!''], ps_stderr = [], ps_exit = 0, ps_error = None\<rparr>),
      pe_getenv = (\<lambda>_. []), pe_regexp = (\<lambda>_. Inr (\<lambda>s. s)), pe_temp_file = (\<lambda>_. Inr ''/tmp/run-script'')\<rparr>"

definition demo_plan_json :: plan_json where
  "demo_plan_json = \<lparr>pj_resource_changes = [(''null_resource.a'', [''create''])], pj_output_changes = []\<rparr>"

definition demo_exec_env :: "unit exec_env" where
  "demo_exec_env =
     \<lparr>xe_tool = Terraform demo_process_env [] ''default'', xe_process = demo_process_env,
      xe_plan_exists = (\<lambda>_. Inr False), xe_retrieve = (\<lambda>_. Inr None), xe_store = (\<lambda>_. None), xe_delete = (\<lambda>_. None),
      xe_create_file = (\<lambda>_. None), xe_read_file = (\<lambda>_. Inr []), xe_digger_out = (\<lambda>_. None), xe_markdown = True,
      xe_iac = TerraformUtils (\<lambda>_. Inr demo_plan_json) (\<lambda>_. Inr [])\<rparr>"

definition demo_aws_env :: "unit aws_env" where
  "demo_aws_env =
     \<lparr>ae_retrieve = (\<lambda>_ _. Inl ''no''), ae_load_config = (\<lambda>_. None), ae_token_request = (\<lambda>_. Inl ''no''),
      ae_get_id = (\<lambda>_. Inl ''no''), ae_get_credentials = (\<lambda>_. Inl ''no''), ae_assume_role = (\<lambda>_. Inl ''no'')\<rparr>"

definition demo_runner_env :: "bool \<Rightarrow> (unit, unit) runner_env" where
  "demo_runner_env free =
     \<lparr>rn_lock = \<lparr>op_lock = (\<lambda>_ _. act_ret free), op_unlock = (\<lambda>_. act_ret True), op_get = (\<lambda>_. act_ret None)\<rparr>,
      rn_pr_env = \<lparr>supports_markdown = True, is_closed = (\<lambda>_. Inr False)\<rparr>,
      rn_exec = demo_exec_env, rn_storage = False, rn_parse_plan = (\<lambda>_. Inr demo_plan_json),
      rn_summarize = (\<lambda>_. Inr []), rn_parse_preview = (\<lambda>_. Inr (0, 0, 0)),
      rn_checker = NewPolicyChecker (demo_policy_env 404 None) (\<lambda>_. []) ''https://digger'' ''acme'',
      rn_aws = demo_aws_env, rn_workingDir = ''/w'', rn_is_merged = (\<lambda>_. Inr False),
      rn_is_mergeable = (\<lambda>_. Inr True), rn_combined_status = (\<lambda>_. Inr ''success''), rn_merge = (\<lambda>_. None),
      rn_flush = (\<lambda>_. Inr ([], [])), rn_publish = (\<lambda>_. Inr []), rn_job_status = (\<lambda>_. Inr None),
      rn_update_comment = (\<lambda>_. None), rn_notify = None\<rparr>"

definition demo_job :: "unit job" where
  "demo_job =
     \<lparr>j_ProjectName = ''prod'', j_ProjectAlias = [], j_ProjectDir = ''prod'', j_ProjectWorkspace = ''default'',
      j_ProjectWorkflow = ''default'', j_Layer = 0, j_Terragrunt = False, j_OpenTofu = False, j_Pulumi = False,
      j_Commands = [''digger apply''], j_ApplyStage = None, j_PlanStage = None, j_PullRequestNumber = Some 7,
      j_EventName = ''issue_comment'', j_RequestedBy = ''alice'', j_Namespace = ''acme/infra'', j_RunEnvVars = [],
      j_StateEnvVars = [], j_CommandEnvVars = [], j_StateEnvProvider = None, j_StateRoleArn = [],
      j_CommandEnvProvider = None, j_CommandRoleArn = [], j_CognitoOidcConfig = None, j_SkipMergeCheck = False\<rparr>"

definition demo_apply_event :: event where
  "demo_apply_event =
     EProcess ''terraform'' [''apply'', ''-lock-timeout=3m'', ''-input=false'', ''-no-color'', ''-auto-approve''] ''/w/prod'' []"

definition demo_run :: "string \<Rightarrow> (exec_result \<times> applies \<times> unit job) res \<times> unit run_world" where
  "demo_run command = run (demo_runner_env True) command demo_job (''acme'', ''infra'') [] demo_run_world"

lemma demo_checker:
  "rn_checker (demo_runner_env f) = NewPolicyChecker (demo_policy_env 404 None) (\<lambda>_. []) ''https://digger'' ''acme''"
  by (simp add: demo_runner_env_def)

lemma demo_run_applies:
  "demo_apply_event \<in> set (drop (length (rw_trace demo_run_world)) (rw_trace (snd (demo_run ''digger apply''))))"
  by code_simp

theorem apply_is_guarded_witness:
  "\<exists>vs w1 w2. ck_access (rn_checker (demo_runner_env True))
     (access_request_of demo_job (''acme'', ''infra'') ''digger apply'' vs) w1 = (Ok True, w2)"
proof -
  have "run (demo_runner_env True) ''digger apply'' demo_job (''acme'', ''infra'') [] demo_run_world =
      (fst (demo_run ''digger apply''), snd (demo_run ''digger apply''))"
    by (simp add: demo_run_def)
  moreover have "changes demo_apply_event" by code_simp
  ultimately show ?thesis
    using apply_is_guarded [OF demo_checker _ demo_run_applies] by blast
qed

theorem only_apply_and_destroy_change_witness:
  "list_all (\<lambda>e. \<not> changes e) (drop (length (rw_trace demo_run_world)) (rw_trace (snd (demo_run ''digger plan''))))"
  unfolding list_all_iff
proof (rule only_apply_and_destroy_change [OF demo_checker])
  show "''digger plan'' \<notin> {''digger apply'', ''digger destroy''}" by simp
  show "run (demo_runner_env True) ''digger plan'' demo_job (''acme'', ''infra'') [] demo_run_world =
      (fst (demo_run ''digger plan''), snd (demo_run ''digger plan''))"
    by (simp add: demo_run_def)
qed

definition demo_lock :: pr_lock where
  "demo_lock = \<lparr>pr_project = ''prod'', pr_namespace = ''acme/infra'', pr_number = 7\<rparr>"

theorem unlocked_apply_panics_witness:
  "fst (run_apply (demo_runner_env False) demo_job (''acme'', ''infra'') 7 demo_lock demo_run_world) =
     Panic ''nil pointer dereference''"
proof -
  let ?e = "demo_runner_env False" and ?scm = "(''acme'', ''infra'')"
  define w0 where "w0 = snd (tell (EUsage (j_RequestedBy demo_job) (j_EventName demo_job) ''apply'') demo_run_world)"
  define w1 where "w1 = snd (check_mergeable ?e demo_job 7 w0)"
  define w2 where "w2 = snd (plan_violations ?e demo_job ?scm w1)"
  define w3 where "w3 = snd (check_apply_policy ?e demo_job ?scm [] w2)"
  define w4 where "w4 = snd (on_lock_world (Lock (rn_lock ?e) (rn_pr_env ?e) demo_lock) w3)"
  note defs = w0_def w1_def w2_def w3_def w4_def
  have "fst (check_mergeable ?e demo_job 7 w0) = Ok ()" and "fst (plan_violations ?e demo_job ?scm w1) = Ok []"
    and "fst (check_apply_policy ?e demo_job ?scm [] w2) = Ok ()"
    and "fst (on_lock_world (Lock (rn_lock ?e) (rn_pr_env ?e) demo_lock) w3) = Ok False"
    unfolding defs by code_simp+
  then have "check_mergeable ?e demo_job 7 w0 = (Ok (), w1)" "plan_violations ?e demo_job ?scm w1 = (Ok [], w2)"
    "check_apply_policy ?e demo_job ?scm [] w2 = (Ok (), w3)"
    "on_lock_world (Lock (rn_lock ?e) (rn_pr_env ?e) demo_lock) w3 = (Ok False, w4)"
    unfolding w1_def w2_def w3_def w4_def by (simp_all add: prod_eq_iff)
  from unlocked_apply_panics [OF this(1) [unfolded w0_def] this(2-4)] show ?thesis by simp
qed

end
