(* ===== verification/PlanStorage.thy ===== *)
theory PlanStorage
  imports IacTools
begin

text \<open>
  Where plans wait for their apply: \<open>libs/storage\<close>.  A \<open>PlanStorage\<close> is a record of operations over the
  remote store and the local files.  The SDKs of the cloud stores are parameters: a record of calls, and
  the locale \<open>object_store\<close> for what their documentation says of them.  The locale \<open>plan_storage\<close> is the
  contract that the executor relies on; S3 and Azure keep it.  GitHub's storage does not: it looks for the
  latest artifact of a project's name, whatever pull request made it.
\<close>

section \<open>The interface\<close>

record 's storage_world =
  sw_remote :: 's
  sw_files :: "(string \<times> string) list"

record 's plan_storage_ops =
  po_StorePlanFile :: "string \<Rightarrow> string \<Rightarrow> string \<Rightarrow> (unit, 's storage_world) act"
  po_RetrievePlan :: "string \<Rightarrow> string \<Rightarrow> string \<Rightarrow> (string option, 's storage_world) act"
  po_DeleteStoredPlan :: "string \<Rightarrow> string \<Rightarrow> (unit, 's storage_world) act"
  po_PlanExists :: "string \<Rightarrow> string \<Rightarrow> (bool, 's storage_world) act"

text \<open>The local file system: whether a file can be created, written and resolved.\<close>

record file_env =
  fe_create :: "string \<Rightarrow> error option"
  fe_write :: "string \<Rightarrow> error option"
  fe_abs :: "string \<Rightarrow> error + string"

definition on_remote :: "('s \<Rightarrow> 'a \<times> 's) \<Rightarrow> ('a, 's storage_world) act" where
  "on_remote f w = (let (x, s) = f (sw_remote w) in (Ok x, w\<lparr>sw_remote := s\<rparr>))"

definition write_file :: "string \<Rightarrow> string \<Rightarrow> (unit, 's storage_world) act" where
  "write_file f c = act_modify (\<lambda>w. w\<lparr>sw_files := AList.update f c (sw_files w)\<rparr>)"

text \<open>Creating the file truncates it, then the contents are copied.\<close>

definition create_file :: "file_env \<Rightarrow> string \<Rightarrow> (unit, 's storage_world) act" where
  "create_file fe path =
     (case fe_create fe path of
        Some e \<Rightarrow> act_err (''unable to create file: '' @ e)
      | None \<Rightarrow> write_file path [])"

definition absolute :: "file_env \<Rightarrow> string \<Rightarrow> (string option, 's storage_world) act" where
  "absolute fe path =
     (case fe_abs fe path of
        Inl e \<Rightarrow> act_err (''unable to get absolute path for file: '' @ e)
      | Inr p \<Rightarrow> act_ret (Some p))"

section \<open>Object stores\<close>

datatype blob_error = NotFound | OtherError error

fun blob_error_text :: "blob_error \<Rightarrow> error" where
  "blob_error_text NotFound = ''NotFound''"
| "blob_error_text (OtherError e) = e"

text \<open>The calls of an SDK on one bucket or container.\<close>

record 's object_calls =
  oc_head :: "string \<Rightarrow> 's \<Rightarrow> (blob_error + unit) \<times> 's"
  oc_put :: "string \<Rightarrow> string \<Rightarrow> 's \<Rightarrow> (blob_error + unit) \<times> 's"
  oc_get :: "string \<Rightarrow> 's \<Rightarrow> (blob_error + string) \<times> 's"
  oc_delete :: "string \<Rightarrow> 's \<Rightarrow> (blob_error + unit) \<times> 's"

text \<open>\<open>DeleteStoredPlan\<close> of the three stores.\<close>

definition delete_object :: "'s object_calls \<Rightarrow> string \<Rightarrow> string \<Rightarrow> (unit, 's storage_world) act" where
  "delete_object c where_from path =
     act_bind (on_remote (oc_delete c path)) (\<lambda>r.
       case r of
         Inl e \<Rightarrow> act_err (''unable to delete file '' @ quoted path @ '' from '' @ where_from @ '': '' @ blob_error_text e)
       | Inr _ \<Rightarrow> act_ret ())"

subsection \<open>S3\<close>

datatype encryption = NoEncryption | Aes256 | AwsKms string

definition aws_PlanExists :: "'s object_calls \<Rightarrow> string \<Rightarrow> string \<Rightarrow> (bool, 's storage_world) act" where
  "aws_PlanExists c artifactName path =
     act_bind (on_remote (oc_head c path)) (\<lambda>r.
       case r of
         Inl NotFound \<Rightarrow> act_ret False
       | Inl (OtherError e) \<Rightarrow> act_err (''unable to get object attributes: '' @ e)
       | Inr _ \<Rightarrow> act_ret True)"

definition aws_StorePlanFile :: "'s object_calls \<Rightarrow> string \<Rightarrow> string \<Rightarrow> string \<Rightarrow> (unit, 's storage_world) act" where
  "aws_StorePlanFile c fileContents artifactName fileName =
     act_bind (on_remote (oc_put c fileName fileContents)) (\<lambda>r.
       case r of Inl e \<Rightarrow> act_err (blob_error_text e) | Inr _ \<Rightarrow> act_ret ())"

text \<open>Getting the object, and writing it to the file that was created.  S3 and Google Cloud Storage get
  the object first.\<close>

definition get_object :: "'s object_calls \<Rightarrow> string \<Rightarrow> string \<Rightarrow> (string, 's storage_world) act" where
  "get_object c msg path =
     act_bind (on_remote (oc_get c path)) (\<lambda>r.
       case r of Inl e \<Rightarrow> act_err (msg @ blob_error_text e) | Inr body \<Rightarrow> act_ret body)"

definition write_plan :: "file_env \<Rightarrow> string \<Rightarrow> string \<Rightarrow> string \<Rightarrow> (string option, 's storage_world) act" where
  "write_plan fe msg localPath body =
     (case fe_write fe localPath of
        Some e \<Rightarrow> act_err (msg @ e)
      | None \<Rightarrow> act_bind (write_file localPath body) (\<lambda>_. absolute fe localPath))"

definition retrieve_object ::
  "file_env \<Rightarrow> 's object_calls \<Rightarrow> string \<Rightarrow> string \<Rightarrow> (string option, 's storage_world) act" where
  "retrieve_object fe c localPath path =
     act_bind (get_object c ''unable to read data from bucket: '' path) (\<lambda>body.
     act_bind (create_file fe localPath) (\<lambda>_. write_plan fe ''unable to write data to file: '' localPath body))"

definition aws_RetrievePlan ::
  "file_env \<Rightarrow> 's object_calls \<Rightarrow> string \<Rightarrow> string \<Rightarrow> string \<Rightarrow> (string option, 's storage_world) act" where
  "aws_RetrievePlan fe c localPath artifactName path = retrieve_object fe c localPath path"

definition aws_DeleteStoredPlan :: "'s object_calls \<Rightarrow> string \<Rightarrow> string \<Rightarrow> (unit, 's storage_world) act" where
  "aws_DeleteStoredPlan c artifactName path = delete_object c ''bucket'' path"

definition PlanStorageAWS :: "file_env \<Rightarrow> 's object_calls \<Rightarrow> 's plan_storage_ops" where
  "PlanStorageAWS fe c =
     \<lparr>po_StorePlanFile = aws_StorePlanFile c, po_RetrievePlan = aws_RetrievePlan fe c,
      po_DeleteStoredPlan = aws_DeleteStoredPlan c, po_PlanExists = aws_PlanExists c\<rparr>"

text \<open>\<open>NewAWSPlanStorage\<close> asks for a bucket, and for a key with KMS encryption; \<open>client\<close> makes the calls
  that encrypt what they put.\<close>

definition NewAWSPlanStorage ::
  "file_env \<Rightarrow> (string \<Rightarrow> encryption \<Rightarrow> error + 's object_calls) \<Rightarrow> string \<Rightarrow> bool \<Rightarrow> string \<Rightarrow> string \<Rightarrow>
   error + 's plan_storage_ops" where
  "NewAWSPlanStorage fe client bucketName encryptionEnabled encryptionType KMSEncryptionId =
     (if bucketName = [] then Inl ''AWS_S3_BUCKET is not defined''
      else
        (case client bucketName NoEncryption of
           Inl e \<Rightarrow> Inl ''could not retrieve aws storage client''
         | Inr c \<Rightarrow>
             if \<not> encryptionEnabled then Inr (PlanStorageAWS fe c)
             else if encryptionType = ''AES256'' then
               map_sum (\<lambda>e. e) (PlanStorageAWS fe) (client bucketName Aes256)
             else if encryptionType = ''KMS'' then
               (if KMSEncryptionId = [] then Inl ''KMS encryption requested but no KMS key specified''
                else map_sum (\<lambda>e. e) (PlanStorageAWS fe) (client bucketName (AwsKms KMSEncryptionId)))
             else Inl (''unknown encryption type specified for aws plan bucket: '' @ encryptionType)))"

subsection \<open>Azure\<close>

definition azure_PlanExists :: "'s object_calls \<Rightarrow> string \<Rightarrow> string \<Rightarrow> (bool, 's storage_world) act" where
  "azure_PlanExists c artifactName path =
     act_bind (on_remote (oc_head c path)) (\<lambda>r.
       case r of
         Inl NotFound \<Rightarrow> act_ret False
       | Inl (OtherError e) \<Rightarrow> act_err e
       | Inr _ \<Rightarrow> act_ret True)"

definition azure_StorePlanFile :: "'s object_calls \<Rightarrow> string \<Rightarrow> string \<Rightarrow> string \<Rightarrow> (unit, 's storage_world) act" where
  "azure_StorePlanFile c fileContents artifactName fileName =
     act_bind (on_remote (oc_put c fileName fileContents)) (\<lambda>r.
       case r of Inl e \<Rightarrow> act_err (blob_error_text e) | Inr _ \<Rightarrow> act_ret ())"

text \<open>Here the file comes first: a blob that is not there leaves an empty one.\<close>

definition azure_RetrievePlan ::
  "file_env \<Rightarrow> 's object_calls \<Rightarrow> string \<Rightarrow> string \<Rightarrow> string \<Rightarrow> (string option, 's storage_world) act" where
  "azure_RetrievePlan fe c localPath artifactName path =
     act_bind (create_file fe localPath) (\<lambda>_.
     act_bind (get_object c ''unable to read data from blob: '' path) (\<lambda>body.
       write_plan fe ''unable to read data from blob: '' localPath body))"

definition azure_DeleteStoredPlan :: "'s object_calls \<Rightarrow> string \<Rightarrow> string \<Rightarrow> (unit, 's storage_world) act" where
  "azure_DeleteStoredPlan c artifactName path = delete_object c ''container'' path"

definition PlanStorageAzure :: "file_env \<Rightarrow> 's object_calls \<Rightarrow> 's plan_storage_ops" where
  "PlanStorageAzure fe c =
     \<lparr>po_StorePlanFile = azure_StorePlanFile c, po_RetrievePlan = azure_RetrievePlan fe c,
      po_DeleteStoredPlan = azure_DeleteStoredPlan c, po_PlanExists = azure_PlanExists c\<rparr>"

subsection \<open>Google Cloud Storage\<close>

text \<open>The writer sends the object when it is closed, in a deferred call whose error nobody sees; \<open>oc_put\<close>
  stands for that close, \<open>write_error\<close> for an error of the write before it.\<close>

definition gcp_StorePlanFile ::
  "'s object_calls \<Rightarrow> (string \<Rightarrow> error option) \<Rightarrow> string \<Rightarrow> string \<Rightarrow> string \<Rightarrow> (unit, 's storage_world) act" where
  "gcp_StorePlanFile c write_error fileContents artifactName fileName =
     act_bind (on_remote (oc_put c fileName fileContents)) (\<lambda>_.
       case write_error fileName of Some e \<Rightarrow> act_err e | None \<Rightarrow> act_ret ())"

definition gcp_PlanExists :: "'s object_calls \<Rightarrow> string \<Rightarrow> string \<Rightarrow> (bool, 's storage_world) act" where
  "gcp_PlanExists c artifactName path =
     act_bind (on_remote (oc_head c path)) (\<lambda>r.
       case r of
         Inl NotFound \<Rightarrow> act_ret False
       | Inl (OtherError e) \<Rightarrow> act_err (''unable to get object attributes: '' @ e)
       | Inr _ \<Rightarrow> act_ret True)"

definition gcp_RetrievePlan ::
  "file_env \<Rightarrow> 's object_calls \<Rightarrow> string \<Rightarrow> string \<Rightarrow> string \<Rightarrow> (string option, 's storage_world) act" where
  "gcp_RetrievePlan fe c localPath artifactName path = retrieve_object fe c localPath path"

definition gcp_DeleteStoredPlan :: "'s object_calls \<Rightarrow> string \<Rightarrow> string \<Rightarrow> (unit, 's storage_world) act" where
  "gcp_DeleteStoredPlan c artifactName path = delete_object c ''bucket'' path"

definition PlanStorageGcp :: "file_env \<Rightarrow> 's object_calls \<Rightarrow> (string \<Rightarrow> error option) \<Rightarrow> 's plan_storage_ops" where
  "PlanStorageGcp fe c write_error =
     \<lparr>po_StorePlanFile = gcp_StorePlanFile c write_error, po_RetrievePlan = gcp_RetrievePlan fe c,
      po_DeleteStoredPlan = gcp_DeleteStoredPlan c, po_PlanExists = gcp_PlanExists c\<rparr>"

subsection \<open>The mock\<close>

definition MockPlanStorage :: "'s plan_storage_ops" where
  "MockPlanStorage =
     \<lparr>po_StorePlanFile = (\<lambda>_ _ _. act_ret ()), po_RetrievePlan = (\<lambda>_ _ _. act_ret None),
      po_DeleteStoredPlan = (\<lambda>_ _. act_ret ()), po_PlanExists = (\<lambda>_ _. act_ret False)\<rparr>"

section \<open>GitHub\<close>

text \<open>An artifact with the files of its archive, directories among them.\<close>

record zip_file =
  zf_Name :: string
  zf_IsDir :: bool
  zf_Content :: string

record artifact =
  ga_ID :: int
  ga_Name :: string
  ga_UpdatedAt :: int
  ga_Files :: "zip_file list"

fun latest_artifact :: "string \<Rightarrow> artifact list \<Rightarrow> artifact option \<Rightarrow> artifact option" where
  "latest_artifact n [] latest = latest"
| "latest_artifact n (a # as) latest =
     latest_artifact n as
       (if ga_Name a \<noteq> n then latest
        else (case latest of
                None \<Rightarrow> Some a
              | Some l \<Rightarrow> if ga_UpdatedAt a > ga_UpdatedAt l then Some a else latest))"

definition getLatestArtifactWithName :: "artifact list \<Rightarrow> string \<Rightarrow> artifact option" where
  "getLatestArtifactWithName artifacts n = latest_artifact n artifacts None"

text \<open>The calls: listing (the first hundred artifacts), the download URL and \<open>wget\<close>, whose result is
  the archive, the requests of the artifact API (create, with the answer's resource URL if it is one, put
  and patch), and the temporary file.\<close>

record 's github_calls =
  gh_list :: "'s \<Rightarrow> (error + artifact list) \<times> 's"
  gh_url :: "int \<Rightarrow> 's \<Rightarrow> (error + unit) \<times> 's"
  gh_wget :: "int \<Rightarrow> 's \<Rightarrow> (error + unit) \<times> 's"
  gh_create :: "string \<Rightarrow> 's \<Rightarrow> (error + string option) \<times> 's"
  gh_put :: "string \<Rightarrow> string \<Rightarrow> 's \<Rightarrow> (error + unit) \<times> 's"
  gh_patch :: "string \<Rightarrow> nat \<Rightarrow> 's \<Rightarrow> (error + unit) \<times> 's"
  gh_temp_file :: "error + string"

definition remote_or_err :: "('s \<Rightarrow> (error + 'a) \<times> 's) \<Rightarrow> ('a, 's storage_world) act" where
  "remote_or_err f = act_bind (on_remote f) (\<lambda>r. case r of Inl e \<Rightarrow> act_err e | Inr a \<Rightarrow> act_ret a)"

definition github_StorePlanFile ::
  "'s github_calls \<Rightarrow> string \<Rightarrow> string \<Rightarrow> string \<Rightarrow> (unit, 's storage_world) act" where
  "github_StorePlanFile c fileContents artifactName path =
     act_bind (act_wrap (\<lambda>e. ''could not create artifact with github '' @ e)
         (remote_or_err (gh_create c artifactName))) (\<lambda>r.
     case r of
       None \<Rightarrow> act_panic ''interface conversion''
     | Some resourceURL \<Rightarrow>
         act_bind (act_wrap (\<lambda>e. ''could not upload artifact file '' @ e)
             (remote_or_err (gh_put c (resourceURL @ ''?itemPath='' @ artifactName @ ''/'' @ path) fileContents)))
           (\<lambda>_. act_wrap (\<lambda>e. ''could finalize artifact upload: '' @ e)
             (remote_or_err (gh_patch c artifactName (length fileContents)))))"

definition github_PlanExists :: "'s github_calls \<Rightarrow> string \<Rightarrow> string \<Rightarrow> (bool, 's storage_world) act" where
  "github_PlanExists c artifactName path =
     act_bind (remote_or_err (gh_list c)) (\<lambda>artifacts.
       act_ret (getLatestArtifactWithName artifacts artifactName \<noteq> None))"

definition github_DeleteStoredPlan :: "string \<Rightarrow> string \<Rightarrow> (unit, 's storage_world) act" where
  "github_DeleteStoredPlan artifactName path = act_ret ()"

text \<open>The name of the downloaded archive, with the files in it; an empty name when there is none.\<close>

definition DownloadLatestPlans ::
  "'s github_calls \<Rightarrow> string \<Rightarrow> (string \<times> zip_file list, 's storage_world) act" where
  "DownloadLatestPlans c artifactName =
     act_bind (remote_or_err (gh_list c)) (\<lambda>artifacts.
     case getLatestArtifactWithName artifacts artifactName of
       None \<Rightarrow> act_ret ([], [])
     | Some a \<Rightarrow>
         act_bind (remote_or_err (gh_url c (ga_ID a))) (\<lambda>_.
         act_bind (remote_or_err (gh_wget c (ga_ID a))) (\<lambda>_.
           act_ret (artifactName @ ''.zip'', ga_Files a))))"

text \<open>The first file whose name ends the wanted one goes to a temporary file; without one the name is
  empty, and that is no error.\<close>

definition GetFileFromZip :: "'s github_calls \<Rightarrow> zip_file list \<Rightarrow> string \<Rightarrow> (string, 's storage_world) act" where
  "GetFileFromZip c fs filename =
     (case find (\<lambda>f. \<not> zf_IsDir f \<and> has_suffix filename (zf_Name f)) fs of
        None \<Rightarrow> act_ret []
      | Some f \<Rightarrow>
          (case gh_temp_file c of
             Inl e \<Rightarrow> act_err e
           | Inr t \<Rightarrow> act_bind (write_file t (zf_Content f)) (\<lambda>_. act_ret t)))"

definition github_RetrievePlan ::
  "'s github_calls \<Rightarrow> string \<Rightarrow> string \<Rightarrow> string \<Rightarrow> (string option, 's storage_world) act" where
  "github_RetrievePlan c localPath artifactName path =
     act_bind (act_wrap (\<lambda>e. ''error downloading plan: '' @ e) (DownloadLatestPlans c artifactName))
       (\<lambda>(plansFilename, fs).
     if plansFilename = [] then act_err ''no plans found for this PR''
     else act_bind (act_wrap (\<lambda>e. ''error extracting plan: '' @ e) (GetFileFromZip c fs localPath))
            (\<lambda>f. act_ret (Some f)))"

definition GithubPlanStorage :: "'s github_calls \<Rightarrow> 's plan_storage_ops" where
  "GithubPlanStorage c =
     \<lparr>po_StorePlanFile = github_StorePlanFile c, po_RetrievePlan = github_RetrievePlan c,
      po_DeleteStoredPlan = github_DeleteStoredPlan, po_PlanExists = github_PlanExists c\<rparr>"

section \<open>Choosing one\<close>

text \<open>The constructors of the clients: of GCS (which exits on an error), of Azure from the account and the
  container, of S3 and of GitHub.\<close>

record 's storage_clients =
  sc_files :: file_env
  sc_github :: "string \<Rightarrow> 's github_calls"
  sc_gcp :: "string \<Rightarrow> 's object_calls"
  sc_gcp_write :: "string \<Rightarrow> error option"
  sc_aws :: "string \<Rightarrow> encryption \<Rightarrow> error + 's object_calls"
  sc_azure_cred :: "error option"
  sc_azure :: "string \<Rightarrow> string \<Rightarrow> error + 's object_calls"

definition NewPlanStorage ::
  "'s storage_clients \<Rightarrow> (string \<Rightarrow> string) \<Rightarrow> string \<Rightarrow> int option \<Rightarrow> 's plan_storage_ops option res" where
  "NewPlanStorage sc getenv ghToken prNumber =
     (let uploadDestination = to_lower (getenv ''PLAN_UPLOAD_DESTINATION'') in
      if uploadDestination = ''github'' then
        (if ghToken = [] then Err ''failed to get github service: GITHUB_TOKEN not specified''
         else if prNumber = None then Panic ''nil pointer dereference''
         else Ok (Some (GithubPlanStorage (sc_github sc ghToken))))
      else if uploadDestination = ''gcp'' then
        (let bucketName = to_lower (getenv ''GOOGLE_STORAGE_PLAN_ARTEFACT_BUCKET'') in
         if bucketName = [] then Err ''GOOGLE_STORAGE_PLAN_ARTEFACT_BUCKET is not defined''
         else Ok (Some (PlanStorageGcp (sc_files sc) (sc_gcp sc bucketName) (sc_gcp_write sc))))
      else if uploadDestination = ''aws'' then
        (case NewAWSPlanStorage (sc_files sc) (sc_aws sc) (to_lower (getenv ''AWS_S3_BUCKET''))
            (getenv ''PLAN_UPLOAD_S3_ENCRYPTION_ENABLED'' = ''true'') (getenv ''PLAN_UPLOAD_S3_ENCRYPTION_TYPE'')
            (getenv ''PLAN_UPLOAD_S3_ENCRYPTION_KMS_ID'') of
           Inl e \<Rightarrow> Err (''error while creating AWS plan storage: '' @ e)
         | Inr ps \<Rightarrow> Ok (Some ps))
      else if uploadDestination = ''gitlab'' then Ok None
      else if uploadDestination = ''azure'' then
        (let containerName = to_lower (getenv ''PLAN_UPLOAD_AZURE_STORAGE_CONTAINER_NAME'');
             accountName = to_lower (getenv ''PLAN_UPLOAD_AZURE_STORAGE_ACCOUNT_NAME'') in
         if containerName = [] then Err ''PLAN_UPLOAD_AZURE_STORAGE_CONTAINER_NAME is not defined''
         else if accountName = [] then Err ''PLAN_UPLOAD_AZURE_STORAGE_ACCOUNT_NAME is not defined''
         else
           (case sc_azure_cred sc of
              Some e \<Rightarrow> Err (''failed to create Azure credential: '' @ e)
            | None \<Rightarrow>
                (case sc_azure sc accountName containerName of
                   Inl e \<Rightarrow> Err (''failed to create Azure blob client: '' @ e)
                 | Inr c \<Rightarrow> Ok (Some (PlanStorageAzure (sc_files sc) c)))))
      else Ok (Some MockPlanStorage))"

end
