(* ===== verification/PlanStorageProps.thy ===== *)
theory PlanStorageProps
  imports PlanStorage ExecutorProps
begin

text \<open>
  What a stored plan is worth: with S3 and Azure, retrieving it gives what was stored, whatever happened
  to other plans in between; with GitHub, an artifact of another pull request makes the apply run
  without a plan.
\<close>

section \<open>Contracts\<close>

locale object_store =
  fixes c :: "'s object_calls"
    and objects :: "'s \<Rightarrow> string \<Rightarrow> string option"
  assumes put_law: "oc_put c k v s = (Inr u, s') \<Longrightarrow> objects s' = (objects s)(k \<mapsto> v)"
    and put_frame: "oc_put c k v s = (r, s') \<Longrightarrow> k' \<noteq> k \<Longrightarrow> objects s' k' = objects s k'"
    and get_law: "oc_get c k s = (Inr v, s') \<Longrightarrow> objects s k = Some v"
    and get_frame: "oc_get c k s = (g, s') \<Longrightarrow> objects s' = objects s"
    and head_found: "oc_head c k s = (Inr u, s') \<Longrightarrow> objects s k \<noteq> None"
    and head_not_found: "oc_head c k s = (Inl NotFound, s') \<Longrightarrow> objects s k = None"
    and head_frame: "oc_head c k s = (r, s') \<Longrightarrow> objects s' = objects s"
    and delete_law: "oc_delete c k s = (Inr u, s') \<Longrightarrow> objects s' = (objects s)(k := None)"
    and delete_frame: "oc_delete c k s = (r, s') \<Longrightarrow> k' \<noteq> k \<Longrightarrow> objects s' k' = objects s k'"

locale plan_store =
  fixes ops :: "'s plan_storage_ops"
    and plans :: "'s \<Rightarrow> string \<Rightarrow> string option"
  assumes store_law: "po_StorePlanFile ops v a k w = (Ok u, w') \<Longrightarrow> plans (sw_remote w') k = Some v"
    and store_frame: "po_StorePlanFile ops v a k w = (r, w') \<Longrightarrow> k' \<noteq> k \<Longrightarrow>
      plans (sw_remote w') k' = plans (sw_remote w) k'"
    and retrieve_law: "po_RetrievePlan ops l a k w = (Ok x, w') \<Longrightarrow>
      \<exists>f v. x = Some f \<and> plans (sw_remote w) k = Some v \<and> map_of (sw_files w') l = Some v"
    and retrieve_frame: "po_RetrievePlan ops l a k w = (g, w') \<Longrightarrow> plans (sw_remote w') = plans (sw_remote w)"
    and delete_law: "po_DeleteStoredPlan ops a k w = (Ok u, w') \<Longrightarrow> plans (sw_remote w') k = None"
    and delete_frame: "po_DeleteStoredPlan ops a k w = (r, w') \<Longrightarrow> k' \<noteq> k \<Longrightarrow>
      plans (sw_remote w') k' = plans (sw_remote w) k'"
    and exists_law: "po_PlanExists ops a k w = (Ok b, w') \<Longrightarrow> b \<longleftrightarrow> plans (sw_remote w) k \<noteq> None"
    and exists_frame: "po_PlanExists ops a k w = (h, w') \<Longrightarrow> plans (sw_remote w') = plans (sw_remote w)"

text \<open>The calls of other runs.\<close>

datatype plan_call = StoreCall string string string | RetrieveCall string string string
  | DeleteCall string string | ExistsCall string string

fun do_call :: "'s plan_storage_ops \<Rightarrow> plan_call \<Rightarrow> 's storage_world \<Rightarrow> 's storage_world" where
  "do_call ops (StoreCall v a k) w = snd (po_StorePlanFile ops v a k w)"
| "do_call ops (RetrieveCall l a k) w = snd (po_RetrievePlan ops l a k w)"
| "do_call ops (DeleteCall a k) w = snd (po_DeleteStoredPlan ops a k w)"
| "do_call ops (ExistsCall a k) w = snd (po_PlanExists ops a k w)"

fun writes :: "plan_call \<Rightarrow> string \<Rightarrow> bool" where
  "writes (StoreCall _ _ k) k' = (k = k')"
| "writes (DeleteCall _ k) k' = (k = k')"
| "writes _ _ = False"

context plan_store
begin

lemma do_call_frame: "\<not> writes call k \<Longrightarrow> plans (sw_remote (do_call ops call w)) k = plans (sw_remote w) k"
proof (cases call)
  case (StoreCall v a k')
  assume "\<not> writes call k"
  with StoreCall have "k \<noteq> k'" by auto
  from store_frame [OF surjective_pairing this] show ?thesis by (simp add: StoreCall)
next
  case (RetrieveCall l a k')
  show ?thesis using retrieve_frame [OF surjective_pairing] by (simp add: RetrieveCall)
next
  case (DeleteCall a k')
  assume "\<not> writes call k"
  with DeleteCall have "k \<noteq> k'" by auto
  from delete_frame [OF surjective_pairing this] show ?thesis by (simp add: DeleteCall)
next
  case (ExistsCall a k')
  show ?thesis using exists_frame [OF surjective_pairing] by (simp add: ExistsCall)
qed

lemma calls_frame: "\<forall>call \<in> set calls. \<not> writes call k \<Longrightarrow>
    plans (sw_remote (fold (do_call ops) calls w)) k = plans (sw_remote w) k"
  by (induction calls arbitrary: w) (simp_all add: do_call_frame)

lemma retrieve_after_store:
  assumes "po_StorePlanFile ops v a k w = (Ok u, w1)" and "\<forall>call \<in> set calls. \<not> writes call k"
    and "po_RetrievePlan ops l a' k (fold (do_call ops) calls w1) = (Ok x, w2)"
  shows "\<exists>f. x = Some f \<and> map_of (sw_files w2) l = Some v"
  using store_law [OF assms(1)] calls_frame [OF assms(2)] retrieve_law [OF assms(3)] by auto

end

lemma on_remote_Ok: "on_remote f w = (r, w') \<longleftrightarrow>
    (\<exists>x s. f (sw_remote w) = (x, s) \<and> r = Ok x \<and> w' = w\<lparr>sw_remote := s\<rparr>)"
  by (auto simp: on_remote_def split: prod.splits)

text \<open>What happens to the files only leaves the remote store alone.\<close>

definition local_only :: "('a, 's storage_world) act \<Rightarrow> bool" where
  "local_only f \<longleftrightarrow> (\<forall>w. sw_remote (snd (f w)) = sw_remote w)"

lemma local_onlyD: "local_only f \<Longrightarrow> f w = (r, w') \<Longrightarrow> sw_remote w' = sw_remote w"
  by (metis local_only_def snd_conv)

lemma local_only_bind: "local_only f \<Longrightarrow> (\<And>a. local_only (g a)) \<Longrightarrow> local_only (act_bind f g)"
  unfolding local_only_def by (auto simp: act_bind_def split: prod.splits res.splits) (metis snd_conv)+

lemma local_only_parts:
  "local_only (act_ret a)" "local_only (act_err e)" "local_only (write_file f v)"
  "local_only (create_file fe f)" "local_only (absolute fe f)"
  by (auto simp: local_only_def write_file_def create_file_def absolute_def split: option.splits sum.splits)

lemma write_plan_local: "local_only (write_plan fe m l v)"
  unfolding write_plan_def
  by (auto intro!: local_only_bind local_only_parts split: option.split simp del: act_err_def)

lemma write_plan_Ok:
  "write_plan fe m l v w = (Ok x, w') \<Longrightarrow> \<exists>f. x = Some f \<and> map_of (sw_files w') l = Some v"
  by (auto simp: write_plan_def act_bind_eq_Ok absolute_def write_file_def split: option.splits sum.splits)

context object_store
begin

lemma get_object_Ok: "get_object c m k w = (Ok v, w') \<Longrightarrow> objects (sw_remote w) k = Some v"
  by (cases "oc_get c k (sw_remote w)"; cases "fst (oc_get c k (sw_remote w))")
    (auto simp: get_object_def act_bind_def on_remote_def dest: get_law)

lemma get_object_frame:
  assumes "get_object c m k w = (r, w')"
  shows "objects (sw_remote w') = objects (sw_remote w)"
proof -
  obtain x s where g: "oc_get c k (sw_remote w) = (x, s)" by fastforce
  have "sw_remote w' = s"
    using assms g by (auto simp: get_object_def act_bind_def on_remote_def split: sum.splits)
  with get_frame [OF g] show ?thesis by simp
qed

lemma remote_then_local:
  assumes "act_bind f g w = (r, w')" and "\<And>x w1. f w = (x, w1) \<Longrightarrow> objects (sw_remote w1) = objects (sw_remote w)"
    and "\<And>a. local_only (g a)"
  shows "objects (sw_remote w') = objects (sw_remote w)"
proof (cases "f w")
  case (Pair x w1)
  note f = assms(2) [OF Pair]
  show ?thesis
  proof (cases x)
    case (Ok a)
    with assms(1) Pair have "g a w1 = (r, w')" by simp
    from local_onlyD [OF assms(3) this] f show ?thesis by simp
  qed (use assms(1) Pair f in auto)
qed

lemma retrieve_object_frame:
  assumes "retrieve_object fe c l k w = (r, w')"
  shows "objects (sw_remote w') = objects (sw_remote w)"
  using assms unfolding retrieve_object_def
  by (rule remote_then_local) (auto intro!: get_object_frame local_only_bind local_only_parts write_plan_local)

lemma retrieve_object_Ok:
  assumes "retrieve_object fe c l k w = (Ok x, w')"
  shows "\<exists>f v. x = Some f \<and> objects (sw_remote w) k = Some v \<and> map_of (sw_files w') l = Some v"
proof -
  obtain v w1 w2 where "get_object c ''unable to read data from bucket: '' k w = (Ok v, w1)"
    and "write_plan fe ''unable to write data to file: '' l v w2 = (Ok x, w')"
    using assms unfolding retrieve_object_def act_bind_eq_Ok by blast
  with get_object_Ok write_plan_Ok show ?thesis by blast
qed

lemma put_remote:
  assumes "act_bind (on_remote (oc_put c k v)) (\<lambda>r. case r of Inl e \<Rightarrow> act_err (h e) | Inr _ \<Rightarrow> act_ret ()) w = (x, w')"
  shows "(x = Ok () \<longrightarrow> objects (sw_remote w') k = Some v) \<and>
    (\<forall>k'. k' \<noteq> k \<longrightarrow> objects (sw_remote w') k' = objects (sw_remote w) k')"
proof -
  obtain r s where p: "oc_put c k v (sw_remote w) = (r, s)" by fastforce
  then have "sw_remote w' = s" and "x = Ok () \<Longrightarrow> r = Inr ()"
    using assms by (auto simp: act_bind_def on_remote_def split: sum.splits)
  with put_law put_frame [OF p] p show ?thesis by auto
qed

lemma delete_remote:
  assumes "delete_object c m k w = (x, w')"
  shows "(x = Ok () \<longrightarrow> objects (sw_remote w') k = None) \<and>
    (\<forall>k'. k' \<noteq> k \<longrightarrow> objects (sw_remote w') k' = objects (sw_remote w) k')"
proof -
  obtain r s where p: "oc_delete c k (sw_remote w) = (r, s)" by fastforce
  then have "sw_remote w' = s" and "x = Ok () \<Longrightarrow> r = Inr ()"
    using assms by (auto simp: delete_object_def act_bind_def on_remote_def split: sum.splits)
  with delete_law delete_frame [OF p] p show ?thesis by auto
qed

lemma head_remote:
  assumes "act_bind (on_remote (oc_head c k)) (\<lambda>r.
       case r of Inl NotFound \<Rightarrow> act_ret False | Inl (OtherError e) \<Rightarrow> act_err (h e) | Inr _ \<Rightarrow> act_ret True) w = (x, w')"
  shows "objects (sw_remote w') = objects (sw_remote w) \<and>
    (\<forall>b. x = Ok b \<longrightarrow> b = (objects (sw_remote w) k \<noteq> None))"
proof -
  obtain r s where p: "oc_head c k (sw_remote w) = (r, s)" by fastforce
  show ?thesis
  proof (cases r)
    case (Inl e)
    with p assms head_frame [OF p] head_not_found show ?thesis
      by (cases e) (auto simp: act_bind_def on_remote_def)
  next
    case (Inr u)
    with p assms head_frame [OF p] head_found [of k _ u] show ?thesis
      by (auto simp: act_bind_def on_remote_def)
  qed
qed

lemma aws_retrieve_frame:
  "aws_RetrievePlan fe c l a k w = (r, w') \<Longrightarrow> objects (sw_remote w') = objects (sw_remote w)"
  unfolding aws_RetrievePlan_def by (rule retrieve_object_frame)

lemma aws_retrieve_Ok: "aws_RetrievePlan fe c l a k w = (Ok x, w') \<Longrightarrow>
    \<exists>f v. x = Some f \<and> objects (sw_remote w) k = Some v \<and> map_of (sw_files w') l = Some v"
  unfolding aws_RetrievePlan_def by (rule retrieve_object_Ok)

lemma aws_put: "aws_StorePlanFile c v a k w = (x, w') \<Longrightarrow>
    (x = Ok () \<longrightarrow> objects (sw_remote w') k = Some v) \<and>
    (\<forall>k'. k' \<noteq> k \<longrightarrow> objects (sw_remote w') k' = objects (sw_remote w) k')"
  unfolding aws_StorePlanFile_def by (rule put_remote)

lemma aws_delete: "aws_DeleteStoredPlan c a k w = (x, w') \<Longrightarrow>
    (x = Ok () \<longrightarrow> objects (sw_remote w') k = None) \<and>
    (\<forall>k'. k' \<noteq> k \<longrightarrow> objects (sw_remote w') k' = objects (sw_remote w) k')"
  unfolding aws_DeleteStoredPlan_def by (rule delete_remote)

lemma aws_exists: "aws_PlanExists c a k w = (x, w') \<Longrightarrow>
    objects (sw_remote w') = objects (sw_remote w) \<and>
    (\<forall>b. x = Ok b \<longrightarrow> b = (objects (sw_remote w) k \<noteq> None))"
  unfolding aws_PlanExists_def by (rule head_remote)

lemma aws_plan_store: "plan_store (PlanStorageAWS fe c) objects"
proof
  note d = PlanStorageAWS_def plan_storage_ops.simps
  fix v a k k' l :: string and w w' x g r b u h'
  show "po_StorePlanFile (PlanStorageAWS fe c) v a k w = (Ok u, w') \<Longrightarrow> objects (sw_remote w') k = Some v"
    unfolding d using aws_put [of v a k w "Ok ()" w'] by simp
  show "po_StorePlanFile (PlanStorageAWS fe c) v a k w = (r, w') \<Longrightarrow> k' \<noteq> k \<Longrightarrow>
      objects (sw_remote w') k' = objects (sw_remote w) k'"
    unfolding d using aws_put [of v a k w r w'] by simp
  show "po_RetrievePlan (PlanStorageAWS fe c) l a k w = (Ok x, w') \<Longrightarrow>
      \<exists>f v. x = Some f \<and> objects (sw_remote w) k = Some v \<and> map_of (sw_files w') l = Some v"
    unfolding d by (rule aws_retrieve_Ok)
  show "po_RetrievePlan (PlanStorageAWS fe c) l a k w = (g, w') \<Longrightarrow> objects (sw_remote w') = objects (sw_remote w)"
    unfolding d by (rule aws_retrieve_frame)
  show "po_DeleteStoredPlan (PlanStorageAWS fe c) a k w = (Ok u, w') \<Longrightarrow> objects (sw_remote w') k = None"
    unfolding d using aws_delete [of a k w "Ok ()" w'] by simp
  show "po_DeleteStoredPlan (PlanStorageAWS fe c) a k w = (r, w') \<Longrightarrow> k' \<noteq> k \<Longrightarrow>
      objects (sw_remote w') k' = objects (sw_remote w) k'"
    unfolding d using aws_delete [of a k w r w'] by simp
  show "po_PlanExists (PlanStorageAWS fe c) a k w = (Ok b, w') \<Longrightarrow> b \<longleftrightarrow> objects (sw_remote w) k \<noteq> None"
    unfolding d using aws_exists [of a k w "Ok b" w'] by simp
  show "po_PlanExists (PlanStorageAWS fe c) a k w = (h', w') \<Longrightarrow> objects (sw_remote w') = objects (sw_remote w)"
    unfolding d using aws_exists [of a k w h' w'] by simp
qed

sublocale aws: plan_store "PlanStorageAWS fe c" objects for fe
  by (rule aws_plan_store)

lemma azure_retrieve_frame:
  assumes "azure_RetrievePlan fe c l a k w = (r, w')"
  shows "objects (sw_remote w') = objects (sw_remote w)"
proof (cases "create_file fe l w")
  case (Pair x w1)
  then have "sw_remote w1 = sw_remote w" using local_onlyD local_only_parts(4) by blast
  moreover have "objects (sw_remote w') = objects (sw_remote w1)"
  proof (cases x)
    case (Ok u)
    with Pair assms have "act_bind (get_object c ''unable to read data from blob: '' k)
        (\<lambda>body. write_plan fe ''unable to read data from blob: '' l body) w1 = (r, w')"
      by (simp add: azure_RetrievePlan_def)
    then show ?thesis by (rule remote_then_local) (auto intro: get_object_frame write_plan_local)
  qed (use Pair assms in \<open>auto simp: azure_RetrievePlan_def\<close>)
  ultimately show ?thesis by simp
qed

lemma azure_retrieve_Ok:
  assumes "azure_RetrievePlan fe c l a k w = (Ok x, w')"
  shows "\<exists>f v. x = Some f \<and> objects (sw_remote w) k = Some v \<and> map_of (sw_files w') l = Some v"
proof -
  obtain u w1 v w2 where "create_file fe l w = (Ok u, w1)"
    and "get_object c ''unable to read data from blob: '' k w1 = (Ok v, w2)"
    and "write_plan fe ''unable to read data from blob: '' l v w2 = (Ok x, w')"
    using assms unfolding azure_RetrievePlan_def act_bind_eq_Ok by blast
  then have "sw_remote w1 = sw_remote w" and "objects (sw_remote w1) k = Some v"
    and "\<exists>f. x = Some f \<and> map_of (sw_files w') l = Some v"
    by (auto dest: local_onlyD [OF local_only_parts(4)] get_object_Ok write_plan_Ok)
  then show ?thesis by auto
qed

lemma azure_put: "azure_StorePlanFile c v a k w = (x, w') \<Longrightarrow>
    (x = Ok () \<longrightarrow> objects (sw_remote w') k = Some v) \<and>
    (\<forall>k'. k' \<noteq> k \<longrightarrow> objects (sw_remote w') k' = objects (sw_remote w) k')"
  unfolding azure_StorePlanFile_def by (rule put_remote)

lemma azure_delete: "azure_DeleteStoredPlan c a k w = (x, w') \<Longrightarrow>
    (x = Ok () \<longrightarrow> objects (sw_remote w') k = None) \<and>
    (\<forall>k'. k' \<noteq> k \<longrightarrow> objects (sw_remote w') k' = objects (sw_remote w) k')"
  unfolding azure_DeleteStoredPlan_def by (rule delete_remote)

lemma azure_exists: "azure_PlanExists c a k w = (x, w') \<Longrightarrow>
    objects (sw_remote w') = objects (sw_remote w) \<and>
    (\<forall>b. x = Ok b \<longrightarrow> b = (objects (sw_remote w) k \<noteq> None))"
  unfolding azure_PlanExists_def by (rule head_remote)

lemma azure_plan_store: "plan_store (PlanStorageAzure fe c) objects"
proof
  note d = PlanStorageAzure_def plan_storage_ops.simps
  fix v a k k' l :: string and w w' x g r b u h'
  show "po_StorePlanFile (PlanStorageAzure fe c) v a k w = (Ok u, w') \<Longrightarrow> objects (sw_remote w') k = Some v"
    unfolding d using azure_put [of v a k w "Ok ()" w'] by simp
  show "po_StorePlanFile (PlanStorageAzure fe c) v a k w = (r, w') \<Longrightarrow> k' \<noteq> k \<Longrightarrow>
      objects (sw_remote w') k' = objects (sw_remote w) k'"
    unfolding d using azure_put [of v a k w r w'] by simp
  show "po_RetrievePlan (PlanStorageAzure fe c) l a k w = (Ok x, w') \<Longrightarrow>
      \<exists>f v. x = Some f \<and> objects (sw_remote w) k = Some v \<and> map_of (sw_files w') l = Some v"
    unfolding d by (rule azure_retrieve_Ok)
  show "po_RetrievePlan (PlanStorageAzure fe c) l a k w = (g, w') \<Longrightarrow> objects (sw_remote w') = objects (sw_remote w)"
    unfolding d by (rule azure_retrieve_frame)
  show "po_DeleteStoredPlan (PlanStorageAzure fe c) a k w = (Ok u, w') \<Longrightarrow> objects (sw_remote w') k = None"
    unfolding d using azure_delete [of a k w "Ok ()" w'] by simp
  show "po_DeleteStoredPlan (PlanStorageAzure fe c) a k w = (r, w') \<Longrightarrow> k' \<noteq> k \<Longrightarrow>
      objects (sw_remote w') k' = objects (sw_remote w) k'"
    unfolding d using azure_delete [of a k w r w'] by simp
  show "po_PlanExists (PlanStorageAzure fe c) a k w = (Ok b, w') \<Longrightarrow> b \<longleftrightarrow> objects (sw_remote w) k \<noteq> None"
    unfolding d using azure_exists [of a k w "Ok b" w'] by simp
  show "po_PlanExists (PlanStorageAzure fe c) a k w = (h', w') \<Longrightarrow> objects (sw_remote w') = objects (sw_remote w)"
    unfolding d using azure_exists [of a k w h' w'] by simp
qed

sublocale azure: plan_store "PlanStorageAzure fe c" objects for fe
  by (rule azure_plan_store)

end

section \<open>The contracts on a store in memory\<close>

text \<open>An object store kept as an association list, which refuses empty keys; a key that is not there is
  \<open>NotFound\<close>, as S3 and Azure answer.\<close>

type_synonym bucket = "(string \<times> string) list"

definition bucket_calls :: "bucket object_calls" where
  "bucket_calls =
     \<lparr>oc_head = (\<lambda>k s. (case map_of s k of None \<Rightarrow> Inl NotFound | Some _ \<Rightarrow> Inr (), s)),
      oc_put = (\<lambda>k v s. if k = [] then (Inl (OtherError ''EmptyKey''), s) else (Inr (), AList.update k v s)),
      oc_get = (\<lambda>k s. (case map_of s k of None \<Rightarrow> Inl NotFound | Some v \<Rightarrow> Inr v, s)),
      oc_delete = (\<lambda>k s. (Inr (), AList.delete k s))\<rparr>"

lemma bucket_object_store: "object_store bucket_calls map_of"
  by unfold_locales
    (auto simp: bucket_calls_def update_conv' delete_conv' split: option.splits if_splits)

interpretation bucket: object_store bucket_calls map_of
  by (rule bucket_object_store)

section \<open>Round trips\<close>

text \<open>Claim C20: a plan kept in S3 or Azure Blob Storage comes back unchanged: when storing it under a key
  succeeded, and retrieving that key succeeds after any calls of other runs that do not write the key, then
  the local file holds exactly the stored contents, and the retrieval names a file.  The SDK's calls are the
  parameter, with the laws of \<open>object_store\<close> as the hypothesis.\<close>

theorem stored_plan_comes_back:
  assumes "object_store c objects"
    and "ops = PlanStorageAWS fe c \<or> ops = PlanStorageAzure fe c"
    and "po_StorePlanFile ops v a k w = (Ok u, w1)"
    and "\<forall>call \<in> set calls. \<not> writes call k"
    and "po_RetrievePlan ops l a' k (fold (do_call ops) calls w1) = (Ok x, w2)"
  shows "\<exists>f. x = Some f \<and> map_of (sw_files w2) l = Some v"
proof -
  have "plan_store ops objects"
    using assms(2) object_store.aws_plan_store [OF assms(1)] object_store.azure_plan_store [OF assms(1)] by blast
  then show ?thesis by (rule plan_store.retrieve_after_store) (use assms(3-5) in auto)
qed

definition open_files :: file_env where
  "open_files = \<lparr>fe_create = (\<lambda>_. None), fe_write = (\<lambda>_. None), fe_abs = (\<lambda>p. Inr (''/w/'' @ p))\<rparr>"

text \<open>A plan of pull request 1, with one of pull request 2 stored and deleted meanwhile.\<close>

lemma stored_plan_comes_back_witness:
  "let ops = PlanStorageAWS open_files bucket_calls;
       w1 = snd (po_StorePlanFile ops ''plan'' ''p'' ''r-1-p'' \<lparr>sw_remote = [], sw_files = []\<rparr>);
       w2 = snd (po_RetrievePlan ops ''l'' ''p'' ''r-1-p''
              (fold (do_call ops) [StoreCall ''other'' ''p'' ''r-2-p'', DeleteCall ''p'' ''r-2-p''] w1))
   in map_of (sw_files w2) ''l'' = Some ''plan''"
proof -
  let ?ops = "PlanStorageAWS open_files bucket_calls"
  let ?r = "po_StorePlanFile ?ops ''plan'' ''p'' ''r-1-p'' \<lparr>sw_remote = [], sw_files = []\<rparr>"
  let ?q = "po_RetrievePlan ?ops ''l'' ''p'' ''r-1-p''
              (fold (do_call ?ops) [StoreCall ''other'' ''p'' ''r-2-p'', DeleteCall ''p'' ''r-2-p''] (snd ?r))"
  have "fst ?r = Ok ()" and "fst ?q = Ok (Some ''/w/l'')" by code_simp+
  then have "?r = (Ok (), snd ?r)" and "?q = (Ok (Some ''/w/l''), snd ?q)" by (simp_all add: prod_eq_iff)
  from stored_plan_comes_back [OF bucket_object_store _ this(1) _ this(2)]
  show ?thesis unfolding Let_def by auto
qed

section \<open>Google Cloud Storage\<close>

text \<open>Storing a plan reports success also when the object never arrived.\<close>

lemma gcp_store_ignores_put:
  "write_error k = None \<Longrightarrow> fst (po_StorePlanFile (PlanStorageGcp fe c write_error) v a k w) = Ok ()"
  by (simp add: PlanStorageGcp_def gcp_StorePlanFile_def act_bind_def on_remote_def split: prod.split)

section \<open>GitHub\<close>

lemma trim_space_Nil: "trim_space [] = []"
  by code_simp

lemma expand_args_empty_plan: "expand_args g (c # params @ xs @ plan_arg (Some [])) = expand_args g (c # params @ xs @ plan_arg None)"
  by (simp add: expand_args_def ExpandEnv_no_dollar plan_arg_def trim_space_Nil)

text \<open>The tools drop an empty argument, so that an empty plan is no plan.\<close>

lemma empty_plan_is_no_plan:
  "Terraform_Apply env dir params (Some []) envs = Terraform_Apply env dir params None envs"
  "OpenTofu_Apply env dir ws params (Some []) envs = OpenTofu_Apply env dir ws params None envs"
  unfolding Terraform_Apply_def OpenTofu_Apply_def runTerraformCommand_def runOpentofuCommand_def append_assoc
    expand_args_empty_plan
  by (rule refl)+

text \<open>GitHub's plan storage looks for the latest artifact of the project's name, whatever pull
  request made it.  When that artifact holds no file that ends the local path (the plan of another pull
  request), the retrieval succeeds with an empty file name, and applying with that name is, for Terraform and
  OpenTofu, the command without a plan: what is applied is not what was planned and approved.\<close>

theorem github_other_plan_applies_without_plan:
  assumes "gh_list c (sw_remote w) = (Inr artifacts, s1)"
    and "getLatestArtifactWithName artifacts n = Some latest"
    and "gh_url c (ga_ID latest) s1 = (Inr (), s2)" and "gh_wget c (ga_ID latest) s2 = (Inr (), s3)"
    and "\<forall>f \<in> set (ga_Files latest). zf_IsDir f \<or> \<not> has_suffix l (zf_Name f)"
  shows "\<exists>f. po_RetrievePlan (GithubPlanStorage c) l n k w = (Ok (Some f), w\<lparr>sw_remote := s3\<rparr>) \<and>
    Terraform_Apply env dir params (Some f) envs = Terraform_Apply env dir params None envs \<and>
    OpenTofu_Apply env dir ws params (Some f) envs = OpenTofu_Apply env dir ws params None envs"
proof -
  have "find (\<lambda>f. \<not> zf_IsDir f \<and> has_suffix l (zf_Name f)) (ga_Files latest) = None"
    using assms(5) by (auto simp: find_None_iff)
  then have "po_RetrievePlan (GithubPlanStorage c) l n k w = (Ok (Some []), w\<lparr>sw_remote := s3\<rparr>)"
    using assms(1-4)
    by (simp add: GithubPlanStorage_def github_RetrievePlan_def DownloadLatestPlans_def GetFileFromZip_def
        remote_or_err_def act_bind_def act_wrap_def on_remote_def)
  with empty_plan_is_no_plan show ?thesis by blast
qed

definition other_plan :: artifact where
  "other_plan = \<lparr>ga_ID = 7, ga_Name = ''dev'', ga_UpdatedAt = 5,
     ga_Files = [\<lparr>zf_Name = ''r-2-dev.tfplan'', zf_IsDir = False, zf_Content = ''x''\<rparr>]\<rparr>"

definition one_artifact :: "unit github_calls" where
  "one_artifact = \<lparr>gh_list = (\<lambda>s. (Inr [other_plan], s)), gh_url = (\<lambda>_ s. (Inr (), s)),
     gh_wget = (\<lambda>_ s. (Inr (), s)), gh_create = (\<lambda>_ s. (Inr None, s)), gh_put = (\<lambda>_ _ s. (Inr (), s)),
     gh_patch = (\<lambda>_ _ s. (Inr (), s)), gh_temp_file = Inr ''/tmp/t''\<rparr>"

lemma github_other_plan_applies_without_plan_witness:
  "\<forall>env. \<exists>f. po_RetrievePlan (GithubPlanStorage one_artifact) ''dev/r-1-dev.tfplan'' ''dev'' ''r-1-dev.tfplan''
        \<lparr>sw_remote = (), sw_files = []\<rparr> = (Ok (Some f), \<lparr>sw_remote = (), sw_files = []\<rparr>\<lparr>sw_remote := ()\<rparr>) \<and>
     Terraform_Apply env ''dev'' [] (Some f) [] = Terraform_Apply env ''dev'' [] None [] \<and>
     OpenTofu_Apply env ''dev'' ''default'' [] (Some f) [] = OpenTofu_Apply env ''dev'' ''default'' [] None []"
proof
  fix env
  have l: "getLatestArtifactWithName [other_plan] ''dev'' = Some other_plan" by code_simp
  have n: "\<forall>f \<in> set (ga_Files other_plan). zf_IsDir f \<or> \<not> has_suffix ''dev/r-1-dev.tfplan'' (zf_Name f)"
    by code_simp
  show "\<exists>f. po_RetrievePlan (GithubPlanStorage one_artifact) ''dev/r-1-dev.tfplan'' ''dev'' ''r-1-dev.tfplan''
        \<lparr>sw_remote = (), sw_files = []\<rparr> = (Ok (Some f), \<lparr>sw_remote = (), sw_files = []\<rparr>\<lparr>sw_remote := ()\<rparr>) \<and>
     Terraform_Apply env ''dev'' [] (Some f) [] = Terraform_Apply env ''dev'' [] None [] \<and>
     OpenTofu_Apply env ''dev'' ''default'' [] (Some f) [] = OpenTofu_Apply env ''dev'' ''default'' [] None []"
    by (rule github_other_plan_applies_without_plan [OF _ l _ _ n]) (simp_all add: one_artifact_def)
qed

text \<open>The names of stored plans do not tell a namespace from a project.\<close>

lemma StoredPlanFilePath_collides:
  "de_PRNumber d = Some n \<Longrightarrow> de_ProjectNamespace d = ''o/r'' \<Longrightarrow> de_ProjectName d = ''p'' \<Longrightarrow>
   de_PRNumber e = Some n \<Longrightarrow> de_ProjectNamespace e = ''o-r'' \<Longrightarrow> de_ProjectName e = ''p'' \<Longrightarrow>
   StoredPlanFilePath d = StoredPlanFilePath e"
proof -
  have "replace_all ''o/r'' ''/'' ''-'' = replace_all ''o-r'' ''/'' ''-''" by code_simp
  then show "de_PRNumber d = Some n \<Longrightarrow> de_ProjectNamespace d = ''o/r'' \<Longrightarrow> de_ProjectName d = ''p'' \<Longrightarrow>
   de_PRNumber e = Some n \<Longrightarrow> de_ProjectNamespace e = ''o-r'' \<Longrightarrow> de_ProjectName e = ''p'' \<Longrightarrow>
   StoredPlanFilePath d = StoredPlanFilePath e" by (simp add: StoredPlanFilePath_def)
qed

end
