(* ===== verification/Events.thy ===== *)
theory Events
  imports SchedulerOps GraphLib
begin

text \<open>
  From a pull request to jobs: which projects its files modify (\<open>libs/digger_config/digger_config.go\<close>,
  \<open>utils.go\<close>), which of them a comment selects, which others depend on them, and the jobs of a comment
  (\<open>libs/ci/generic\<close>).  The matching of glob patterns (\<open>doublestar\<close>), the splitting of a comment into words
  (\<open>shlex\<close>) and the breadth-first search of the graph package are parameters.
\<close>

section \<open>Projects of a configuration\<close>

fun find_project :: "string \<Rightarrow> project list \<Rightarrow> project option" where
  "find_project n [] = None"
| "find_project n (p # ps) = (if n = Name p then Some p else find_project n ps)"

definition GetProject :: "digger_config \<Rightarrow> string \<Rightarrow> project option" where
  "GetProject c projectName = find_project projectName (Projects c)"

definition GetProjects :: "digger_config \<Rightarrow> string \<Rightarrow> project list" where
  "GetProjects c projectName =
     (if projectName = [] then Projects c
      else (case GetProject c projectName of None \<Rightarrow> [] | Some p \<Rightarrow> [p]))"

definition GetDirectory :: "digger_config \<Rightarrow> string \<Rightarrow> string" where
  "GetDirectory c projectName = (case GetProject c projectName of None \<Rightarrow> [] | Some p \<Rightarrow> Dir p)"

definition GetWorkflow :: "digger_config \<Rightarrow> string \<Rightarrow> workflow option" where
  "GetWorkflow c workflowName = map_of (Workflows c) workflowName"

section \<open>Matching files\<close>

definition GetPatternsRelativeToRepo :: "string \<Rightarrow> string list \<Rightarrow> string list" where
  "GetPatternsRelativeToRepo projectPath patterns = map (\<lambda>p. path_Join [projectPath, p]) patterns"

definition NormalizeFileName :: "string \<Rightarrow> string" where
  "NormalizeFileName fileName = path_Clean (path_Join [''/'', fileName])"

definition GetDirNameFromPath :: "string \<Rightarrow> string" where
  "GetDirNameFromPath filePath = path_Dir filePath"

definition GetDirNamesFromPaths :: "string list \<Rightarrow> string list" where
  "GetDirNamesFromPaths filePaths = map GetDirNameFromPath filePaths"

type_synonym glob = "string \<Rightarrow> string \<Rightarrow> error + bool"

text \<open>The first pattern that matches ends the loop; a pattern that is malformed panics.\<close>

fun any_match :: "glob \<Rightarrow> string \<Rightarrow> string list \<Rightarrow> bool res" where
  "any_match glob f [] = Ok False"
| "any_match glob f (p # ps) =
     (case glob p f of
        Inl e \<Rightarrow> Panic e
      | Inr True \<Rightarrow> Ok True
      | Inr False \<Rightarrow> any_match glob f ps)"

text \<open>The patterns are normalised in place, so the caller sees them so afterwards.\<close>

definition MatchIncludeExcludePatternsToFile ::
  "glob \<Rightarrow> string \<Rightarrow> string list \<Rightarrow> string list \<Rightarrow> (bool \<times> string list \<times> string list) res" where
  "MatchIncludeExcludePatternsToFile glob fileToMatch includePatterns excludePatterns =
     (let f = NormalizeFileName fileToMatch;
          inc = map NormalizeFileName includePatterns;
          exc = map NormalizeFileName excludePatterns
      in res_bind (any_match glob f inc) (\<lambda>matching.
         res_bind (any_match glob f exc) (\<lambda>excluded.
           Ok (matching \<and> \<not> excluded, inc, exc))))"

text \<open>A pattern that starts with a dot is relative to the project.\<close>

definition resolve_pattern :: "string \<Rightarrow> string \<Rightarrow> string" where
  "resolve_pattern dir pattern = (if has_prefix pattern ''.'' then path_Join [dir, pattern] else pattern)"

definition include_patterns :: "project \<Rightarrow> string list" where
  "include_patterns p =
     map (resolve_pattern (Dir p)) (IncludePatterns p) @
     [if \<not> Terragrunt p then path_Join [Dir p, ''**'', ''*''] else path_Join [Dir p, ''*'']]"

definition exclude_patterns :: "project \<Rightarrow> string list" where
  "exclude_patterns p = map (resolve_pattern (Dir p)) (ExcludePatterns p)"

text \<open>The changed files against one project: whether one matches, and the directories of those that do.\<close>

fun match_files ::
  "glob \<Rightarrow> string list \<Rightarrow> string list \<Rightarrow> string list \<Rightarrow> bool \<times> string list \<Rightarrow> (bool \<times> string list) res" where
  "match_files glob [] inc exc st = Ok st"
| "match_files glob (f # fs) inc exc (added, dirs) =
     res_bind (MatchIncludeExcludePatternsToFile glob f inc exc) (\<lambda>(m, inc, exc).
       match_files glob fs inc exc
         (if m then (True, if path_Dir f \<in> set dirs then dirs else dirs @ [path_Dir f]) else (added, dirs)))"

text \<open>\<open>ProjectToSourceMapping\<close>, without the comment ids that are filled in later.\<close>

record source_mapping =
  ImpactingLocations :: "string list"

fun modified_projects ::
  "glob \<Rightarrow> string list \<Rightarrow> project list \<Rightarrow> project list \<times> (string \<times> source_mapping) list \<Rightarrow>
   (project list \<times> (string \<times> source_mapping) list) res" where
  "modified_projects glob changedFiles [] st = Ok st"
| "modified_projects glob changedFiles (p # ps) (result, mapping) =
     res_bind (match_files glob changedFiles (include_patterns p) (exclude_patterns p) (False, [])) (\<lambda>(m, dirs).
       modified_projects glob changedFiles ps
         (if m then result @ [p] else result, AList.update (Name p) \<lparr>ImpactingLocations = dirs\<rparr> mapping))"

definition GetModifiedProjects ::
  "glob \<Rightarrow> digger_config \<Rightarrow> string list \<Rightarrow> (project list \<times> (string \<times> source_mapping) list) res" where
  "GetModifiedProjects glob c changedFiles = modified_projects glob changedFiles (Projects c) ([], [])"

section \<open>Flags of a comment\<close>

record comment_parts =
  cp_Projects :: "string list"
  cp_Layer :: int
  cp_Directories :: "string list"

text \<open>\<open>flag.Parse\<close> of the standard library for the flags the comment may have: all of them take a value.
  It ends at the first word that is no flag, or after two dashes; every error is the same to the caller.\<close>

definition flag_name :: "string \<Rightarrow> string option" where
  "flag_name s =
     (if length s < 2 \<or> hd s \<noteq> CHR ''-'' then None
      else if s ! 1 = CHR ''-'' then Some (drop 2 s) else Some (drop 1 s))"

text \<open>The flag and its value, if the name carries one.\<close>

definition split_flag :: "string \<Rightarrow> string \<times> string option" where
  "split_flag n =
     (let key = takeWhile (\<lambda>c. c \<noteq> CHR ''='') n
      in (key, if key = n then None else Some (drop (Suc (length key)) n)))"

text \<open>The layer may be given once, and has to be a number; the record's layer with whether it was seen.\<close>

definition set_flag :: "string \<Rightarrow> string \<Rightarrow> comment_parts \<times> bool \<Rightarrow> (comment_parts \<times> bool) option" where
  "set_flag key v st =
     (case st of (cp, seen) \<Rightarrow>
       if key = ''p'' \<or> key = ''project'' then Some (cp\<lparr>cp_Projects := cp_Projects cp @ [v]\<rparr>, seen)
       else if key = ''d'' \<or> key = ''directory'' then Some (cp\<lparr>cp_Directories := cp_Directories cp @ [v]\<rparr>, seen)
       else if key = ''layer'' then
         (if seen then None
          else map_option (\<lambda>i. (cp\<lparr>cp_Layer := i\<rparr>, True)) (atoi v))
       else None)"

fun parse_flags :: "string list \<Rightarrow> comment_parts \<times> bool \<Rightarrow> (comment_parts \<times> bool) option" where
  "parse_flags [] st = Some st"
| "parse_flags (s # args) st =
     (case flag_name s of
        None \<Rightarrow> Some st
      | Some n \<Rightarrow>
          if s = ''--'' then Some st
          else if n = [] \<or> hd n = CHR ''-'' \<or> hd n = CHR ''='' then None
          else
            (case split_flag n of
               (key, Some v) \<Rightarrow> Option.bind (set_flag key v st) (parse_flags args)
             | (key, None) \<Rightarrow>
                 (case args of
                    [] \<Rightarrow> None
                  | v # rest \<Rightarrow> Option.bind (set_flag key v st) (parse_flags rest))))"

definition ParseDiggerCommentFlags :: "(string \<Rightarrow> error + string list) \<Rightarrow> string \<Rightarrow> error + comment_parts" where
  "ParseDiggerCommentFlags shlex comment0 =
     (let comment = trim_space comment0 in
      case shlex comment of
        Inl e \<Rightarrow> Inl (''failed to split input '' @ e)
      | Inr args \<Rightarrow>
          if length args < 2 then Inl (''incorrect operation specified: ('' @ comment @ '') err: <nil>'')
          else
            (case parse_flags (drop 2 args) (\<lparr>cp_Projects = [], cp_Layer = -1, cp_Directories = []\<rparr>, False) of
               None \<Rightarrow> Inl (''failed to parse input '' @ comment)
             | Some (cp, _) \<Rightarrow>
                 if cp_Layer cp \<noteq> -1 \<and> (cp_Projects cp \<noteq> [] \<or> cp_Directories cp \<noteq> [])
                 then Inl ''cannot mix --layer with -p or -d'' else Inr cp))"

section \<open>Filters\<close>

text \<open>\<open>DefaultBranchName\<close> is the placeholder of a project without a branch.\<close>

definition FilterTargetBranchForImpactedProjects :: "project list \<Rightarrow> string \<Rightarrow> string \<Rightarrow> project list" where
  "FilterTargetBranchForImpactedProjects impactedProjects defaultBranch targetBranch =
     filter (\<lambda>p. (if Branch p = ''__default__'' then defaultBranch else Branch p) = targetBranch) impactedProjects"

definition projects_of_flags :: "project list \<Rightarrow> comment_parts \<Rightarrow> error + project list" where
  "projects_of_flags impactedProjects cp =
     (case find (\<lambda>n. n \<notin> Name ` set impactedProjects) (cp_Projects cp) of
        Some n \<Rightarrow> Inl (''project '' @ n @ '' not found in the list of impacted projects'')
      | None \<Rightarrow>
          Inr (filter (\<lambda>p. Name p \<in> set (cp_Projects cp)) impactedProjects @
               filter (\<lambda>p. Dir p \<in> set (cp_Directories cp)) impactedProjects))"

definition FilterOutProjectsFromComment ::
  "(string \<Rightarrow> error + string list) \<Rightarrow> project list \<Rightarrow> string \<Rightarrow> error + project list" where
  "FilterOutProjectsFromComment shlex impactedProjects comment =
     (case ParseDiggerCommentFlags shlex comment of
        Inl e \<Rightarrow> Inl (''invalid comment: '' @ e)
      | Inr cp \<Rightarrow>
          if cp_Layer cp \<noteq> -1 then Inr (filter (\<lambda>p. int (Layer p) = cp_Layer cp) impactedProjects)
          else if cp_Projects cp \<noteq> [] \<or> cp_Directories cp \<noteq> [] then projects_of_flags impactedProjects cp
          else Inr impactedProjects)"

section \<open>Dependants\<close>

text \<open>The state of the search: the projects found, the projects impacted so far, the visited names.\<close>

type_synonym dependants = "project list \<times> (string \<times> project) list \<times> string list"

text \<open>The function that is called at each vertex; it answers whether to stop the search.\<close>

definition visit_vertex ::
  "('g, project) graph_ops \<Rightarrow> 'g \<Rightarrow> string \<Rightarrow> dependants \<Rightarrow> bool \<times> dependants" where
  "visit_vertex lib g node st =
     (case st of (found, impacted, visited) \<Rightarrow>
       case g_vertex lib g node of
         None \<Rightarrow> (True, st)
       | Some currentProject \<Rightarrow>
           if node \<in> set visited then (True, st)
           else if map_of impacted node \<noteq> None then (False, found @ [currentProject], impacted, node # visited)
           else if \<exists>parent \<in> set (case map_of (g_predecessors lib g) node of None \<Rightarrow> [] | Some ps \<Rightarrow> ps).
               map_of impacted parent \<noteq> None
           then (False, found @ [currentProject], AList.update node currentProject impacted, node # visited)
           else (False, st))"

fun visit_until :: "('g, project) graph_ops \<Rightarrow> 'g \<Rightarrow> string list \<Rightarrow> dependants \<Rightarrow> dependants" where
  "visit_until lib g [] st = st"
| "visit_until lib g (n # ns) st =
     (let (stop, st') = visit_vertex lib g n st in if stop then st' else visit_until lib g ns st')"

text \<open>\<open>bfs\<close> is the order in which the package's breadth-first search visits the vertices.\<close>

fun search_roots ::
  "('g, project) graph_ops \<Rightarrow> ('g \<Rightarrow> string \<Rightarrow> graph_err + string list) \<Rightarrow> 'g \<Rightarrow> (string \<times> string list) list \<Rightarrow>
   dependants \<Rightarrow> error + dependants" where
  "search_roots lib bfs g [] st = Inr st"
| "search_roots lib bfs g ((node, parents) # rest) st =
     (if parents = [] then
        (case bfs g node of
           Inl e \<Rightarrow> Inl (graph_err_text e)
         | Inr order \<Rightarrow> search_roots lib bfs g rest (visit_until lib g order st))
      else search_roots lib bfs g rest st)"

definition FindAllProjectsDependantOnImpactedProjects ::
  "('g, project) graph_ops \<Rightarrow> ('g \<Rightarrow> string \<Rightarrow> graph_err + string list) \<Rightarrow> project list \<Rightarrow> 'g \<Rightarrow>
   error + project list" where
  "FindAllProjectsDependantOnImpactedProjects lib bfs impactedProjects g =
     (let impacted = foldl (\<lambda>m p. AList.update (Name p) p m) [] impactedProjects
      in map_sum (\<lambda>e. e) fst (search_roots lib bfs g (g_predecessors lib g) ([], impacted, [])))"

section \<open>Jobs\<close>

definition GetRunEnvVars :: "string \<Rightarrow> string \<Rightarrow> string \<Rightarrow> string \<Rightarrow> (string \<times> string) list" where
  "GetRunEnvVars defaultBranch prBranch projectName projectDir =
     [(''DEFAULT_BRANCH'', defaultBranch), (''PR_BRANCH'', prBranch), (''PROJECT_NAME'', projectName),
      (''PROJECT_DIR'', projectDir)]"

record comment_event_result =
  ce_SourceMapping :: "(string \<times> source_mapping) list"
  ce_PRNumber :: int
  ce_AllImpactedProjects :: "project list"

text \<open>\<open>changed\<close> is the answer of the CI service.\<close>

definition impacted_projects ::
  "glob \<Rightarrow> ('g, project) graph_ops \<Rightarrow> ('g \<Rightarrow> string \<Rightarrow> graph_err + string list) \<Rightarrow> digger_config \<Rightarrow> 'g \<Rightarrow>
   error + string list \<Rightarrow> (project list \<Rightarrow> project list) \<Rightarrow> (project list \<times> (string \<times> source_mapping) list) res" where
  "impacted_projects glob lib bfs c g changed select =
     (case changed of
        Inl e \<Rightarrow> Err ''could not get changed files''
      | Inr changedFiles \<Rightarrow>
          res_bind (GetModifiedProjects glob c changedFiles) (\<lambda>(ps, mapping).
            if DependencyMode c = ''hard'' then
              (case FindAllProjectsDependantOnImpactedProjects lib bfs (select ps) g of
                 Inl e \<Rightarrow> Err ''failed to find all projects dependant on impacted projects''
               | Inr qs \<Rightarrow> Ok (qs, mapping))
            else Ok (select ps, mapping)))"

definition ProcessIssueCommentEvent ::
  "glob \<Rightarrow> ('g, project) graph_ops \<Rightarrow> ('g \<Rightarrow> string \<Rightarrow> graph_err + string list) \<Rightarrow> int \<Rightarrow> digger_config \<Rightarrow> 'g \<Rightarrow>
   error + string list \<Rightarrow> comment_event_result res" where
  "ProcessIssueCommentEvent glob lib bfs prNumber c g changed =
     res_bind (impacted_projects glob lib bfs c g changed (\<lambda>ps. ps)) (\<lambda>(ps, mapping).
       Ok \<lparr>ce_SourceMapping = mapping, ce_PRNumber = prNumber, ce_AllImpactedProjects = ps\<rparr>)"

text \<open>The fields that every conversion of an event to jobs fills from the project and its workflow.\<close>

definition base_job ::
  "(string \<Rightarrow> string) \<Rightarrow> (string \<Rightarrow> string \<Rightarrow> 'p option) \<Rightarrow> bool \<Rightarrow> workflow \<Rightarrow> project \<Rightarrow> 'p job" where
  "base_job getenv mk interpolate w p =
     (let envs = CollectTerraformEnvConfig getenv (EnvVars w) interpolate;
          provs = GetStateAndCommandProviders mk p
      in \<lparr>j_ProjectName = Name p, j_ProjectAlias = [], j_ProjectDir = Dir p, j_ProjectWorkspace = Workspace p,
          j_ProjectWorkflow = [], j_Layer = 0, j_Terragrunt = Terragrunt p, j_OpenTofu = OpenTofu p,
          j_Pulumi = Pulumi p, j_Commands = [], j_ApplyStage = ToConfigStage (Apply w),
          j_PlanStage = ToConfigStage (Plan w), j_PullRequestNumber = None, j_EventName = [], j_RequestedBy = [],
          j_Namespace = [], j_RunEnvVars = [], j_StateEnvVars = fst envs, j_CommandEnvVars = snd envs,
          j_StateEnvProvider = fst provs, j_StateRoleArn = [], j_CommandEnvProvider = snd provs,
          j_CommandRoleArn = [], j_CognitoOidcConfig = None, j_SkipMergeCheck = False\<rparr>)"

definition with_roles :: "project \<Rightarrow> 'p job \<Rightarrow> 'p job" where
  "with_roles p j =
     j\<lparr>j_StateRoleArn := (case AwsRoleToAssume p of None \<Rightarrow> [] | Some r \<Rightarrow> StateRole r),
       j_CommandRoleArn := (case AwsRoleToAssume p of None \<Rightarrow> [] | Some r \<Rightarrow> CommandRole r),
       j_CognitoOidcConfig := AwsCognitoOidcConfig p\<rparr>"

text \<open>What a comment's jobs share.\<close>

record job_request =
  jr_command :: string
  jr_event :: string
  jr_repo :: string
  jr_requestedBy :: string
  jr_issue :: "int option"
  jr_defaultBranch :: string
  jr_prBranch :: string
  jr_interpolate :: bool

definition comment_job ::
  "(string \<Rightarrow> string) \<Rightarrow> (string \<Rightarrow> string \<Rightarrow> 'p option) \<Rightarrow> job_request \<Rightarrow> workflow \<Rightarrow> project \<Rightarrow> 'p job" where
  "comment_job getenv mk q w p =
     (with_roles p (base_job getenv mk (jr_interpolate q) w p))
       \<lparr>j_ProjectAlias := Alias p, j_ProjectWorkflow := Workflow p, j_Commands := [jr_command q],
        j_RunEnvVars := GetRunEnvVars (jr_defaultBranch q) (jr_prBranch q) (Name p) (Dir p),
        j_PullRequestNumber := jr_issue q, j_EventName := jr_event q, j_Namespace := jr_repo q,
        j_RequestedBy := jr_requestedBy q,
        j_SkipMergeCheck :=
          (case Configuration w of Some c \<Rightarrow> SkipMergeCheck c | None \<Rightarrow> ''mergeable'' \<notin> set (ApplyRequirements p))\<rparr>"

definition no_workflow :: "project \<Rightarrow> error" where
  "no_workflow p = ''failed to find workflow config '' @ quoted (Workflow p) @ '' for project '' @ quoted (Name p)"

definition CreateJobsForProjects ::
  "(string \<Rightarrow> string) \<Rightarrow> (string \<Rightarrow> string \<Rightarrow> 'p option) \<Rightarrow> job_request \<Rightarrow> (string \<times> workflow) list \<Rightarrow>
   project list \<Rightarrow> 'p job list res" where
  "CreateJobsForProjects getenv mk q workflows projects =
     res_map (\<lambda>p. case map_of workflows (Workflow p) of
         None \<Rightarrow> Err (no_workflow p)
       | Some w \<Rightarrow> Ok (comment_job getenv mk q w p)) projects"

definition comment_commands :: "string list" where
  "comment_commands = [''digger plan'', ''digger apply'', ''digger unlock'', ''digger lock'']"

text \<open>The last supported command that starts the comment.\<close>

definition command_of_comment :: "string \<Rightarrow> string option" where
  "command_of_comment diggerCommand =
     foldl (\<lambda>r c. if has_prefix diggerCommand c then Some c else r) None comment_commands"

definition ConvertIssueCommentEventToJobs ::
  "(string \<Rightarrow> string) \<Rightarrow> (string \<Rightarrow> string \<Rightarrow> 'p option) \<Rightarrow> string \<Rightarrow> string \<Rightarrow> int \<Rightarrow> string \<Rightarrow> project list \<Rightarrow>
   project list \<Rightarrow> (string \<times> workflow) list \<Rightarrow> string \<Rightarrow> string \<Rightarrow> bool \<Rightarrow> ('p job list \<times> bool) res" where
  "ConvertIssueCommentEventToJobs getenv mk repoFullName requestedBy prNumber commentBody
       impactedProjectsForComment allImpactedProjects workflows prBranch defaultBranch interpolate =
     (let coversAllImpactedProjects = (length impactedProjectsForComment = length allImpactedProjects);
          diggerCommand = trim_space (to_lower commentBody)
      in case command_of_comment diggerCommand of
           None \<Rightarrow> Err (''command is not supported: '' @ diggerCommand)
         | Some commandToRun \<Rightarrow>
             res_bind (CreateJobsForProjects getenv mk
                 \<lparr>jr_command = commandToRun, jr_event = ''issue_comment'', jr_repo = repoFullName,
                  jr_requestedBy = requestedBy, jr_issue = Some prNumber, jr_defaultBranch = defaultBranch,
                  jr_prBranch = prBranch, jr_interpolate = interpolate\<rparr>
                 workflows impactedProjectsForComment)
               (\<lambda>jobs. Ok (jobs, coversAllImpactedProjects)))"

end
