(* ===== verification/CiEvents.thy ===== *)
theory CiEvents
  imports Events
begin

text \<open>
  The events of the four CI services and their jobs: \<open>libs/ci/github\<close>, \<open>gitlab\<close>, \<open>bitbucket\<close>,
  \<open>azure\<close> and \<open>libs/ci/utils.go\<close>; and what GitHub's service reads from its API.  A workflow without a
  configuration is a nil pointer where a job's commands are taken from it.
\<close>

section \<open>Flags in the text of a comment\<close>

definition is_project_char :: "char \<Rightarrow> bool" where
  "is_project_char c \<longleftrightarrow>
     (let n = (of_char c :: nat) in
      48 \<le> n \<and> n \<le> 57 \<or> 97 \<le> n \<and> n \<le> 122 \<or> 65 \<le> n \<and> n \<le> 90 \<or> c = CHR ''-'' \<or> c = CHR ''_'')"

text \<open>The first match of \<open>-p\<close>, a space and a name.\<close>

fun ParseProjectName :: "string \<Rightarrow> string" where
  "ParseProjectName s =
     (let name = takeWhile is_project_char (drop 3 s) in
      if has_prefix s ''-p '' \<and> name \<noteq> [] then name
      else (case s of [] \<Rightarrow> [] | _ # t \<Rightarrow> ParseProjectName t))"

declare ParseProjectName.simps [simp del]

definition is_re_space :: "char \<Rightarrow> bool" where
  "is_re_space c \<longleftrightarrow> c \<in> {CHR '' '', CHR 0x09, CHR 0x0A, CHR 0x0C, CHR 0x0D}"

text \<open>All matches of \<open>-w\<close> with a value after space, or at the end of the text (then the value is empty).\<close>

function workspace_matches :: "string \<Rightarrow> string list" where
  "workspace_matches s =
     (case s of
        [] \<Rightarrow> []
      | c # t \<Rightarrow>
          let rest = drop 2 s;
              sp = takeWhile is_re_space rest;
              w = takeWhile (\<lambda>c. \<not> is_re_space c) (dropWhile is_re_space rest)
          in if has_prefix s ''-w'' \<and> rest = [] then [[]]
             else if has_prefix s ''-w'' \<and> sp \<noteq> [] \<and> w \<noteq> [] then w # workspace_matches (drop (length sp + length w) rest)
             else workspace_matches t)"
  by pat_completeness auto
termination by (relation "measure length") auto

declare workspace_matches.simps [simp del]

definition ParseWorkspace :: "string \<Rightarrow> error + string" where
  "ParseWorkspace comment =
     (case workspace_matches comment of
        [] \<Rightarrow> Inr []
      | [w] \<Rightarrow> if w = [] then Inl ''no value found after -w flag'' else Inr w
      | _ \<Rightarrow> Inl ''more than one -w flag found'')"

section \<open>Jobs of an event\<close>

definition no_workflow_config :: "project \<Rightarrow> error" where
  "no_workflow_config p =
     ''failed to find workflow digger_config '' @ quoted (Workflow p) @ '' for project '' @ quoted (Name p)"

definition skip_merge_of :: "workflow \<Rightarrow> bool" where
  "skip_merge_of w = (case Configuration w of Some c \<Rightarrow> SkipMergeCheck c | None \<Rightarrow> False)"

text \<open>\<open>workflow.Configuration.\<dots>\<close>.\<close>

definition commands_of :: "(workflow_configuration \<Rightarrow> string list) \<Rightarrow> workflow \<Rightarrow> string list res" where
  "commands_of f w = (case Configuration w of None \<Rightarrow> Panic ''nil pointer dereference'' | Some c \<Rightarrow> Ok (f c))"

text \<open>A job for each project whose workflow exists.\<close>

definition jobs_for ::
  "(project \<Rightarrow> error) \<Rightarrow> (string \<times> workflow) list \<Rightarrow> (project \<Rightarrow> workflow \<Rightarrow> 'a res) \<Rightarrow> project list \<Rightarrow> 'a list res" where
  "jobs_for no_wf workflows f ps =
     res_map (\<lambda>p. case map_of workflows (Workflow p) of None \<Rightarrow> Err (no_wf p) | Some w \<Rightarrow> f p w) ps"

text \<open>On which projects a comment runs, and whether it covers all impacted ones.\<close>

definition requested_projects :: "project list \<Rightarrow> project option \<Rightarrow> error + project list \<times> bool" where
  "requested_projects impactedProjects requestedProject =
     (case requestedProject of
        None \<Rightarrow> Inr (impactedProjects, True)
      | Some r \<Rightarrow>
          (case impactedProjects of
             [p] \<Rightarrow> if Name p \<noteq> Name r
                    then Inl (''requested project '' @ Name r @ '' is not impacted by this PR'')
                    else Inr (impactedProjects, True)
           | [] \<Rightarrow> Inr (impactedProjects, True)
           | _ \<Rightarrow> Inr ([r], False)))"

text \<open>A comment may contain several commands: each makes its own jobs.\<close>

definition jobs_of_commands ::
  "string \<Rightarrow> (string \<Rightarrow> project \<Rightarrow> 'p job res) \<Rightarrow> project list \<Rightarrow> 'p job list res" where
  "jobs_of_commands diggerCommand f ps =
     res_foldl (\<lambda>jobs c.
       if str_contains diggerCommand c then res_bind (res_map (f c) ps) (\<lambda>js. Ok (jobs @ js)) else Ok jobs)
       [] comment_commands"

definition in_workspace_of :: "string \<Rightarrow> 'p job \<Rightarrow> 'p job res" where
  "in_workspace_of diggerCommand j =
     (case ParseWorkspace diggerCommand of
        Inl e \<Rightarrow> Err e
      | Inr ws \<Rightarrow> Ok (if ws \<noteq> [] then j\<lparr>j_ProjectWorkspace := ws\<rparr> else j))"

text \<open>The project of a comment has to be among the modified ones.\<close>

definition find_requested ::
  "project list \<Rightarrow> string \<Rightarrow> (project list \<times> project option) res" where
  "find_requested impactedProjects requestedProject =
     (if requestedProject = [] then Ok (impactedProjects, None)
      else (case find_project requestedProject impactedProjects of
              Some p \<Rightarrow> Ok (impactedProjects, Some p)
            | None \<Rightarrow> Err ''requested project not found in modified projects''))"

definition modified_or_err :: "glob \<Rightarrow> digger_config \<Rightarrow> (error \<Rightarrow> error) \<Rightarrow> error + string list \<Rightarrow> project list res" where
  "modified_or_err glob c msg changed =
     (case changed of
        Inl e \<Rightarrow> Err (msg e)
      | Inr files \<Rightarrow> res_bind (GetModifiedProjects glob c files) (\<lambda>(ps, _). Ok ps))"

section \<open>GitHub\<close>

text \<open>A pull-request event, all of whose fields GitHub fills.\<close>

record gh_pull_event =
  gp_Action :: string
  gp_Number :: int
  gp_Merged :: bool
  gp_BaseRef :: string
  gp_HeadRef :: string
  gp_DefaultBranch :: string
  gp_FullName :: string
  gp_Sender :: string

definition gh_job ::
  "(string \<Rightarrow> string) \<Rightarrow> (string \<Rightarrow> string \<Rightarrow> 'p option) \<Rightarrow> bool \<Rightarrow> gh_pull_event \<Rightarrow> string \<Rightarrow> string list \<Rightarrow>
   workflow \<Rightarrow> project \<Rightarrow> 'p job" where
  "gh_job getenv mk interpolate ev eventName commands w p =
     (with_roles p (base_job getenv mk interpolate w p))
       \<lparr>j_ProjectAlias := Alias p, j_ProjectWorkflow := Workflow p, j_Layer := Layer p, j_Commands := commands,
        j_RunEnvVars := GetRunEnvVars (gp_DefaultBranch ev) (gp_HeadRef ev) (Name p) (Dir p),
        j_PullRequestNumber := Some (gp_Number ev), j_EventName := eventName, j_Namespace := gp_FullName ev,
        j_RequestedBy := gp_Sender ev, j_SkipMergeCheck := skip_merge_of w\<rparr>"

text \<open>The commands of the event's action and the name the job gets for the event; other actions have no
  job.\<close>

definition gh_event_commands ::
  "digger_config \<Rightarrow> gh_pull_event \<Rightarrow> workflow \<Rightarrow> (string list \<times> string) option res" where
  "gh_event_commands c ev w =
     (if gp_Action ev = ''closed'' \<and> gp_Merged ev \<and> gp_BaseRef ev = gp_DefaultBranch ev then
        res_bind (commands_of OnCommitToDefault w) (\<lambda>cs. Ok (Some (cs, ''pull_request'')))
      else if gp_Action ev \<in> {''opened'', ''reopened'', ''synchronize''} then
        res_bind (commands_of OnPullRequestPushed w) (\<lambda>cs. Ok (Some (cs, ''pull_request'')))
      else if gp_Action ev = ''closed'' then
        res_bind (commands_of OnPullRequestClosed w) (\<lambda>cs. Ok (Some (cs, ''pull_request'')))
      else if gp_Action ev = ''converted_to_draft'' then
        res_bind (commands_of OnPullRequestConvertedToDraft w) (\<lambda>cs.
          Ok (Some (if \<not> AllowDraftPRs c \<and> cs = [] then [''digger unlock''] else cs,
                    ''pull_request_converted_to_draft'')))
      else Ok None)"

definition gh_ConvertPullRequestEventToJobs ::
  "(string \<Rightarrow> string) \<Rightarrow> (string \<Rightarrow> string \<Rightarrow> 'p option) \<Rightarrow> gh_pull_event \<Rightarrow> project list \<Rightarrow> digger_config \<Rightarrow> bool \<Rightarrow>
   ('p job list \<times> bool) res" where
  "gh_ConvertPullRequestEventToJobs getenv mk ev impactedProjects c interpolate =
     res_bind (jobs_for no_workflow (Workflows c) (\<lambda>p w.
         res_bind (gh_event_commands c ev w) (\<lambda>r.
           Ok (map_option (\<lambda>(cs, name). gh_job getenv mk interpolate ev name cs w p) r))) impactedProjects)
       (\<lambda>js. Ok (List.map_filter (\<lambda>j. j) js, True))"

datatype gh_event = PullRequestEvent int | IssueCommentEvent int string | MergeGroupEvent | OtherEvent

definition ProcessGitHubEvent ::
  "glob \<Rightarrow> gh_event \<Rightarrow> digger_config \<Rightarrow> (int \<Rightarrow> error + string list) \<Rightarrow>
   (project list \<times> project option \<times> int) res" where
  "ProcessGitHubEvent glob ev c changedFiles =
     (case ev of
        PullRequestEvent n \<Rightarrow>
          res_bind (modified_or_err glob c (\<lambda>_. ''could not get changed files'') (changedFiles n)) (\<lambda>ps.
            Ok (ps, None, n))
      | IssueCommentEvent n body \<Rightarrow>
          res_bind (modified_or_err glob c (\<lambda>_. ''could not get changed files'') (changedFiles n)) (\<lambda>ps.
          res_bind (find_requested ps (ParseProjectName body)) (\<lambda>(ps, r). Ok (ps, r, n)))
      | MergeGroupEvent \<Rightarrow> Err ''unhandled merge group event''
      | OtherEvent \<Rightarrow> Err ''unsupported event type'')"

definition ProcessGitHubPullRequestEvent ::
  "glob \<Rightarrow> ('g, project) graph_ops \<Rightarrow> ('g \<Rightarrow> string \<Rightarrow> graph_err + string list) \<Rightarrow> gh_pull_event \<Rightarrow>
   digger_config \<Rightarrow> 'g \<Rightarrow> error + string list \<Rightarrow> (project list \<times> (string \<times> source_mapping) list \<times> int) res" where
  "ProcessGitHubPullRequestEvent glob lib bfs ev c g changed =
     res_bind (impacted_projects glob lib bfs c g changed
         (\<lambda>ps. FilterTargetBranchForImpactedProjects ps (gp_DefaultBranch ev) (gp_BaseRef ev)))
       (\<lambda>(ps, mapping). Ok (ps, mapping, gp_Number ev))"

definition ProcessGitHubPushEvent ::
  "glob \<Rightarrow> digger_config \<Rightarrow> error + string list \<Rightarrow>
   (project list \<times> (string \<times> source_mapping) list \<times> project option \<times> int) res" where
  "ProcessGitHubPushEvent glob c changed =
     (case changed of
        Inl e \<Rightarrow> Err ''could not get changed files''
      | Inr files \<Rightarrow> res_bind (GetModifiedProjects glob c files) (\<lambda>(ps, mapping). Ok (ps, mapping, None, 0)))"

definition issueCommentEventContainsComment :: "gh_event \<Rightarrow> string \<Rightarrow> bool" where
  "issueCommentEventContainsComment ev comment =
     (case ev of IssueCommentEvent _ body \<Rightarrow> str_contains body comment | _ \<Rightarrow> False)"

definition CheckIfHelpComment :: "gh_event \<Rightarrow> bool" where
  "CheckIfHelpComment ev = issueCommentEventContainsComment ev ''digger help''"

definition CheckIfShowProjectsComment :: "gh_event \<Rightarrow> bool" where
  "CheckIfShowProjectsComment ev = issueCommentEventContainsComment ev ''digger show-projects''"

section \<open>GitLab\<close>

text \<open>The webhook's merge event.\<close>

record gl_merge_event =
  gm_Action :: string
  gm_IID :: int
  gm_TargetBranch :: string
  gm_SourceBranch :: string
  gm_DefaultBranch :: string
  gm_PathWithNamespace :: string
  gm_Username :: string

definition ProcessGitlabPullRequestEvent ::
  "glob \<Rightarrow> ('g, project) graph_ops \<Rightarrow> ('g \<Rightarrow> string \<Rightarrow> graph_err + string list) \<Rightarrow> gl_merge_event \<Rightarrow>
   digger_config \<Rightarrow> 'g \<Rightarrow> error + string list \<Rightarrow> (project list \<times> (string \<times> source_mapping) list \<times> int) res" where
  "ProcessGitlabPullRequestEvent glob lib bfs ev c g changed =
     res_bind (impacted_projects glob lib bfs c g changed (\<lambda>ps. ps)) (\<lambda>(ps, mapping). Ok (ps, mapping, gm_IID ev))"

definition gl_hook_job ::
  "(string \<Rightarrow> string) \<Rightarrow> (string \<Rightarrow> string \<Rightarrow> 'p option) \<Rightarrow> gl_merge_event \<Rightarrow> string \<Rightarrow> string list \<Rightarrow>
   workflow \<Rightarrow> project \<Rightarrow> 'p job" where
  "gl_hook_job getenv mk ev eventName commands w p =
     (base_job getenv mk False w p)
       \<lparr>j_ProjectWorkflow := Workflow p, j_Commands := commands,
        j_RunEnvVars := GetRunEnvVars (gm_DefaultBranch ev) (gm_SourceBranch ev) (Name p) (Dir p),
        j_PullRequestNumber := Some (gm_IID ev), j_EventName := eventName, j_Namespace := gm_PathWithNamespace ev,
        j_RequestedBy := gm_Username ev, j_SkipMergeCheck := skip_merge_of w\<rparr>"

text \<open>The jobs of a merge do not say whether the project is OpenTofu's or Pulumi's.\<close>

definition gl_hook_event_job ::
  "(string \<Rightarrow> string) \<Rightarrow> (string \<Rightarrow> string \<Rightarrow> 'p option) \<Rightarrow> gl_merge_event \<Rightarrow> digger_config \<Rightarrow> project \<Rightarrow> workflow \<Rightarrow>
   'p job option res" where
  "gl_hook_event_job getenv mk ev c p w =
     (if gm_Action ev = ''merge'' \<and> gm_TargetBranch ev = gm_DefaultBranch ev then
        res_bind (commands_of OnCommitToDefault w) (\<lambda>cs.
          Ok (Some ((gl_hook_job getenv mk ev ''pull_request'' cs w p)\<lparr>j_OpenTofu := False, j_Pulumi := False\<rparr>)))
      else if gm_Action ev \<in> {''open'', ''reopen'', ''synchronize''} then
        res_bind (commands_of OnPullRequestPushed w) (\<lambda>cs.
          Ok (Some (gl_hook_job getenv mk ev ''pull_request'' cs w p)))
      else if gm_Action ev = ''close'' then
        res_bind (commands_of OnPullRequestClosed w) (\<lambda>cs.
          Ok (Some (gl_hook_job getenv mk ev ''pull_request'' cs w p)))
      else if gm_Action ev = ''converted_to_draft'' then
        res_bind (commands_of OnPullRequestConvertedToDraft w) (\<lambda>cs.
          Ok (Some (gl_hook_job getenv mk ev ''pull_request_converted_to_draft''
            (if \<not> AllowDraftPRs c \<and> cs = [] then [''digger unlock''] else cs) w p)))
      else Ok None)"

definition gl_ConvertPullRequestEventToJobs ::
  "(string \<Rightarrow> string) \<Rightarrow> (string \<Rightarrow> string \<Rightarrow> 'p option) \<Rightarrow> gl_merge_event \<Rightarrow> project list \<Rightarrow> digger_config \<Rightarrow>
   ('p job list \<times> bool) res" where
  "gl_ConvertPullRequestEventToJobs getenv mk ev impactedProjects c =
     res_bind (jobs_for no_workflow (Workflows c) (gl_hook_event_job getenv mk ev c) impactedProjects)
       (\<lambda>js. Ok (List.map_filter (\<lambda>j. j) js, True))"

text \<open>The pipeline's context, from environment variables.\<close>

record gitlab_context =
  glc_EventType :: string
  glc_MergeRequestIId :: "int option"
  glc_ProjectNamespace :: string
  glc_UserName :: string
  glc_DiggerCommand :: string

definition ProcessGitLabEvent ::
  "glob \<Rightarrow> gitlab_context \<Rightarrow> digger_config \<Rightarrow> (int \<Rightarrow> error + string list) \<Rightarrow> (project list \<times> project option) res" where
  "ProcessGitLabEvent glob cx c changedFiles =
     (case glc_MergeRequestIId cx of
        None \<Rightarrow> Err ''value for 'Merge Request ID' parameter is not found''
      | Some n \<Rightarrow>
          res_bind (modified_or_err glob c (\<lambda>_. ''could not get changed files'') (changedFiles n)) (\<lambda>ps.
            if glc_EventType cx = ''merge_request_commented'' then
              find_requested ps (ParseProjectName (trim_space (to_lower (glc_DiggerCommand cx))))
            else Ok (ps, None)))"

definition gl_job ::
  "(string \<Rightarrow> string) \<Rightarrow> (string \<Rightarrow> string \<Rightarrow> 'p option) \<Rightarrow> gitlab_context \<Rightarrow> string list \<Rightarrow> workflow \<Rightarrow> project \<Rightarrow>
   'p job" where
  "gl_job getenv mk cx commands w p =
     (base_job getenv mk True w p)
       \<lparr>j_Commands := commands, j_PullRequestNumber := glc_MergeRequestIId cx, j_EventName := glc_EventType cx,
        j_RequestedBy := glc_UserName cx, j_Namespace := glc_ProjectNamespace cx\<rparr>"

text \<open>When a merge request is closed or merged, the state's provider is made when there is a role for the
  commands.\<close>

definition gl_closed_providers ::
  "(string \<Rightarrow> string \<Rightarrow> 'p option) \<Rightarrow> project \<Rightarrow> 'p option \<times> 'p option" where
  "gl_closed_providers mk p =
     (case AwsRoleToAssume p of
        None \<Rightarrow> (None, None)
      | Some r \<Rightarrow>
          if CommandRole r \<noteq> []
          then (GetProviderFromRole mk (StateRole r) (AwsRoleRegion r), GetProviderFromRole mk (CommandRole r) (AwsRoleRegion r))
          else (None, None))"

definition default_workflow_of :: "(string \<times> workflow) list \<Rightarrow> workflow" where
  "default_workflow_of workflows =
     (case map_of workflows ''default'' of
        Some w \<Rightarrow> w
      | None \<Rightarrow> \<lparr>EnvVars = None, Plan = None, Apply = None, Configuration = None\<rparr>)"

text \<open>A project whose workflow does not exist gets the default one on a comment.\<close>

definition workflow_or_default :: "(string \<times> workflow) list \<Rightarrow> project \<Rightarrow> workflow" where
  "workflow_or_default workflows p =
     (case map_of workflows (Workflow p) of Some w \<Rightarrow> w | None \<Rightarrow> default_workflow_of workflows)"

definition ConvertGitLabEventToCommands ::
  "(string \<Rightarrow> string) \<Rightarrow> (string \<Rightarrow> string \<Rightarrow> 'p option) \<Rightarrow> string \<Rightarrow> gitlab_context \<Rightarrow> project list \<Rightarrow>
   project option \<Rightarrow> (string \<times> workflow) list \<Rightarrow> ('p job list \<times> bool) res" where
  "ConvertGitLabEventToCommands getenv mk event cx impactedProjects requestedProject workflows =
     (if event \<in> {''merge_request_opened'', ''merge_request_reopened'', ''merge_request_updated''} then
        res_bind (jobs_for no_workflow_config workflows (\<lambda>p w.
            res_bind (commands_of OnPullRequestPushed w) (\<lambda>cs.
              Ok ((gl_job getenv mk cx cs w p)\<lparr>j_SkipMergeCheck := skip_merge_of w\<rparr>))) impactedProjects)
          (\<lambda>js. Ok (js, True))
      else if event \<in> {''merge_request_closed'', ''merge_request_merge''} then
        res_bind (jobs_for no_workflow_config workflows (\<lambda>p w.
            res_bind (commands_of OnPullRequestClosed w) (\<lambda>cs.
              Ok ((gl_job getenv mk cx cs w p)
                \<lparr>j_StateEnvProvider := fst (gl_closed_providers mk p),
                 j_CommandEnvProvider := snd (gl_closed_providers mk p)\<rparr>))) impactedProjects)
          (\<lambda>js. Ok (js, True))
      else if event = ''merge_request_commented'' then
        (case requested_projects impactedProjects requestedProject of
           Inl e \<Rightarrow> Err e
         | Inr (runForProjects, covers) \<Rightarrow>
             let diggerCommand = trim_space (to_lower (glc_DiggerCommand cx)) in
             res_bind (jobs_of_commands diggerCommand (\<lambda>c p.
                 in_workspace_of diggerCommand (gl_job getenv mk cx [c] (workflow_or_default workflows p) p))
               runForProjects) (\<lambda>js. Ok (js, covers)))
      else Err (''unsupported GitLab event type: {'' @ event @ ''}''))"

section \<open>Bitbucket\<close>

record bitbucket_context =
  bbc_PullRequestID :: "int option"
  bbc_RepositoryFullName :: string
  bbc_UserName :: string
  bbc_DiggerCommand :: string
  bbc_EventType :: string

definition ProcessBitbucketEvent ::
  "glob \<Rightarrow> bitbucket_context \<Rightarrow> digger_config \<Rightarrow> (int \<Rightarrow> error + string list) \<Rightarrow> (project list \<times> project option) res" where
  "ProcessBitbucketEvent glob cx c changedFiles =
     (case bbc_PullRequestID cx of
        None \<Rightarrow> Err ''pull request ID not found''
      | Some n \<Rightarrow>
          res_bind (modified_or_err glob c (\<lambda>e. ''could not get changed files: '' @ e) (changedFiles n)) (\<lambda>ps.
            if bbc_EventType cx = ''pullrequest:comment'' then
              find_requested ps (ParseProjectName (trim_space (to_lower (bbc_DiggerCommand cx))))
            else Ok (ps, None)))"

definition bb_job ::
  "(string \<Rightarrow> string) \<Rightarrow> (string \<Rightarrow> string \<Rightarrow> 'p option) \<Rightarrow> string \<Rightarrow> bitbucket_context \<Rightarrow> string list \<Rightarrow> workflow \<Rightarrow>
   project \<Rightarrow> 'p job" where
  "bb_job getenv mk event cx commands w p =
     (base_job getenv mk True w p)
       \<lparr>j_Commands := commands, j_PullRequestNumber := bbc_PullRequestID cx, j_EventName := event,
        j_RequestedBy := bbc_UserName cx, j_Namespace := bbc_RepositoryFullName cx\<rparr>"

definition ConvertBitbucketEventToCommands ::
  "(string \<Rightarrow> string) \<Rightarrow> (string \<Rightarrow> string \<Rightarrow> 'p option) \<Rightarrow> string \<Rightarrow> bitbucket_context \<Rightarrow> project list \<Rightarrow>
   project option \<Rightarrow> (string \<times> workflow) list \<Rightarrow> ('p job list \<times> bool) res" where
  "ConvertBitbucketEventToCommands getenv mk event cx impactedProjects requestedProject workflows =
     (if event \<in> {''pullrequest:created'', ''pullrequest:updated''} then
        res_bind (jobs_for no_workflow workflows (\<lambda>p w.
            res_bind (commands_of OnPullRequestPushed w) (\<lambda>cs.
              Ok ((bb_job getenv mk event cx cs w p)\<lparr>j_SkipMergeCheck := skip_merge_of w\<rparr>))) impactedProjects)
          (\<lambda>js. Ok (js, True))
      else if event = ''pullrequest:comment'' then
        (case requested_projects impactedProjects requestedProject of
           Inl e \<Rightarrow> Err e
         | Inr (runForProjects, covers) \<Rightarrow>
             let diggerCommand = trim_space (to_lower (bbc_DiggerCommand cx)) in
             res_bind (jobs_of_commands diggerCommand (\<lambda>c p.
                 in_workspace_of diggerCommand (bb_job getenv mk event cx [c] (workflow_or_default workflows p) p))
               runForProjects) (\<lambda>js. Ok (js, covers)))
      else Err (''unsupported Bitbucket event type: '' @ event))"

section \<open>Azure\<close>

datatype azure_event = AzurePrEvent int string | AzureCommentEvent int string | AzureOther

record azure_context =
  azc_EventType :: string
  azc_Event :: azure_event
  azc_ProjectName :: string
  azc_BaseUrl :: string

definition ProcessAzureReposEvent ::
  "glob \<Rightarrow> azure_event \<Rightarrow> digger_config \<Rightarrow> (int \<Rightarrow> error + string list) \<Rightarrow>
   (project list \<times> project option \<times> int) res" where
  "ProcessAzureReposEvent glob ev c changedFiles =
     (case ev of
        AzurePrEvent n _ \<Rightarrow>
          res_bind (modified_or_err glob c (\<lambda>e. ''could not get changed files: '' @ e) (changedFiles n)) (\<lambda>ps.
            Ok (ps, None, n))
      | AzureCommentEvent n body \<Rightarrow>
          res_bind (modified_or_err glob c (\<lambda>e. ''could not get changed files: '' @ e) (changedFiles n)) (\<lambda>ps.
          res_bind (find_requested ps (ParseProjectName body)) (\<lambda>(ps, r). Ok (ps, r, n)))
      | AzureOther \<Rightarrow> Err ''unsupported event type'')"

definition az_job ::
  "(string \<Rightarrow> string) \<Rightarrow> (string \<Rightarrow> string \<Rightarrow> 'p option) \<Rightarrow> azure_context \<Rightarrow> int \<Rightarrow> string list \<Rightarrow> workflow \<Rightarrow>
   project \<Rightarrow> 'p job" where
  "az_job getenv mk cx n commands w p =
     (base_job getenv mk True w p)
       \<lparr>j_Commands := commands, j_PullRequestNumber := Some n, j_EventName := azc_EventType cx,
        j_RequestedBy := azc_BaseUrl cx, j_Namespace := azc_BaseUrl cx @ ''/'' @ azc_ProjectName cx,
        j_SkipMergeCheck := skip_merge_of w\<rparr>"

text \<open>The type assertion on the event: it panics on the other kind.\<close>

definition pr_event :: "azure_event \<Rightarrow> (int \<times> string) res" where
  "pr_event ev = (case ev of AzurePrEvent n st \<Rightarrow> Ok (n, st) | _ \<Rightarrow> Panic ''interface conversion'')"

definition comment_event :: "azure_event \<Rightarrow> (int \<times> string) res" where
  "comment_event ev = (case ev of AzureCommentEvent n b \<Rightarrow> Ok (n, b) | _ \<Rightarrow> Panic ''interface conversion'')"

definition az_event_jobs ::
  "(string \<Rightarrow> string) \<Rightarrow> (string \<Rightarrow> string \<Rightarrow> 'p option) \<Rightarrow> azure_context \<Rightarrow> (workflow_configuration \<Rightarrow> string list) \<Rightarrow>
   (string \<times> workflow) list \<Rightarrow> project list \<Rightarrow> ('p job list \<times> bool) res" where
  "az_event_jobs getenv mk cx f workflows ps =
     res_bind (jobs_for no_workflow_config workflows (\<lambda>p w.
         res_bind (pr_event (azc_Event cx)) (\<lambda>(n, _).
         res_bind (commands_of f w) (\<lambda>cs. Ok (az_job getenv mk cx n cs w p)))) ps)
       (\<lambda>js. Ok (js, True))"

definition ConvertAzureEventToCommands ::
  "(string \<Rightarrow> string) \<Rightarrow> (string \<Rightarrow> string \<Rightarrow> 'p option) \<Rightarrow> azure_context \<Rightarrow> project list \<Rightarrow> project option \<Rightarrow>
   (string \<times> workflow) list \<Rightarrow> ('p job list \<times> bool) res" where
  "ConvertAzureEventToCommands getenv mk cx impactedProjects requestedProject workflows =
     (let ev = azc_EventType cx in
      if ev \<in> {''git.pullrequest.created'', ''git.pullrequest.updated'', ''git.pullrequest.reopened''} then
        az_event_jobs getenv mk cx OnPullRequestPushed workflows impactedProjects
      else if ev = ''git.pullrequest.closed'' then
        az_event_jobs getenv mk cx OnPullRequestClosed workflows impactedProjects
      else if ev = ''git.pullrequest.merged'' then
        res_bind (pr_event (azc_Event cx)) (\<lambda>(_, status).
          if status = ''completed'' then az_event_jobs getenv mk cx OnCommitToDefault workflows impactedProjects
          else Ok ([], True))
      else if ev = ''ms.vss-code.git-pullrequest-comment-event'' then
        res_bind (comment_event (azc_Event cx)) (\<lambda>(n, body).
          case requested_projects impactedProjects requestedProject of
            Inl e \<Rightarrow> Err e
          | Inr (runForProjects, covers) \<Rightarrow>
              let diggerCommand = to_lower body in
              res_bind (jobs_of_commands diggerCommand (\<lambda>c p.
                  case ParseWorkspace diggerCommand of
                    Inl e \<Rightarrow> Err e
                  | Inr _ \<Rightarrow>
                      (case map_of workflows (Workflow p) of
                         None \<Rightarrow> Err (no_workflow_config p)
                       | Some w \<Rightarrow> in_workspace_of diggerCommand (az_job getenv mk cx n [c] w p)))
                runForProjects) (\<lambda>js. Ok (js, covers)))
      else Err (''unsupported Azure event type: '' @ ev))"

end
