(* ===== verification/EventsProps.thy ===== *)
theory EventsProps
  imports Events
begin

text \<open>
  What the selection of projects guarantees: modified projects are those one of whose files matches, a
  comment only selects from the impacted ones, and in a dependency forest the dependants found are exactly
  the projects that depend on an impacted one; with two dependencies per project some get lost.
\<close>

section \<open>Modified projects\<close>

text \<open>A pattern matches when the glob library says so of the normalised names.\<close>

definition matches_any :: "glob \<Rightarrow> string \<Rightarrow> string list \<Rightarrow> bool" where
  "matches_any glob f ps \<longleftrightarrow> (\<exists>p \<in> set ps. glob (NormalizeFileName p) (NormalizeFileName f) = Inr True)"

definition modifies :: "glob \<Rightarrow> project \<Rightarrow> string \<Rightarrow> bool" where
  "modifies glob p f \<longleftrightarrow> matches_any glob f (include_patterns p) \<and> \<not> matches_any glob f (exclude_patterns p)"

definition well_formed :: "glob \<Rightarrow> string list \<Rightarrow> bool" where
  "well_formed glob ps \<longleftrightarrow> (\<forall>p \<in> set ps. \<forall>f. \<exists>b. glob (NormalizeFileName p) f = Inr b)"

lemma any_match_Ok:
  "well_formed glob ps \<Longrightarrow>
   any_match glob f (map NormalizeFileName ps) = Ok (\<exists>p \<in> set ps. glob (NormalizeFileName p) f = Inr True)"
proof (induction ps)
  case (Cons p ps)
  from Cons.prems obtain b where "glob (NormalizeFileName p) f = Inr b"
    unfolding well_formed_def by fastforce
  with Cons show ?case by (cases b) (auto simp: well_formed_def)
qed simp

lemma path_Clean_abs: "path_Clean (CHR ''/'' # p) = CHR ''/'' # join_with ''/'' (clean_segs True (CHR ''/'' # p))"
  by (simp add: path_Clean_def)

lemma NormalizeFileName_root: "\<exists>q. NormalizeFileName f = CHR ''/'' # join_with ''/'' (clean_segs True q)"
proof -
  have j: "\<exists>q. path_Join [''/'', f] = CHR ''/'' # join_with ''/'' (clean_segs True q)"
    by (auto simp: path_Join_def path_Clean_abs)
  then obtain q where q: "path_Join [''/'', f] = CHR ''/'' # join_with ''/'' (clean_segs True q)" by blast
  show ?thesis unfolding NormalizeFileName_def q path_Clean_abs clean_segs_rooted_idem by blast
qed

lemma clean_segs_slash: "clean_segs True (CHR ''/'' # s) = clean_segs True s"
  by (simp add: clean_segs_def clean_step_def)

lemma NormalizeFileName_idem [simp]: "NormalizeFileName (NormalizeFileName f) = NormalizeFileName f"
proof -
  obtain q where q: "NormalizeFileName f = CHR ''/'' # join_with ''/'' (clean_segs True q)"
    using NormalizeFileName_root by blast
  have "path_Join [''/'', CHR ''/'' # join_with ''/'' (clean_segs True q)] =
      CHR ''/'' # join_with ''/'' (clean_segs True q)"
    by (simp add: path_Join_def path_Clean_abs clean_segs_slash clean_segs_rooted_idem [unfolded clean_segs_slash])
  then show ?thesis
    unfolding q by (simp add: NormalizeFileName_def path_Clean_abs clean_segs_rooted_idem)
qed

lemma match_Ok:
  "well_formed glob inc \<Longrightarrow> well_formed glob exc \<Longrightarrow> MatchIncludeExcludePatternsToFile glob f inc exc =
     Ok (matches_any glob f inc \<and> \<not> matches_any glob f exc, map NormalizeFileName inc, map NormalizeFileName exc)"
  by (simp add: MatchIncludeExcludePatternsToFile_def any_match_Ok matches_any_def Let_def)

lemma well_formed_normalized [simp]: "well_formed glob (map NormalizeFileName ps) = well_formed glob ps"
  by (simp add: well_formed_def)

lemma matches_any_normalized [simp]:
  "matches_any glob f (map NormalizeFileName ps) = matches_any glob f ps"
  by (simp add: matches_any_def)

text \<open>The directories of the files that match, each once, in the order of the files.\<close>

definition hit_dirs :: "(string \<Rightarrow> bool) \<Rightarrow> string list \<Rightarrow> string list \<Rightarrow> string list" where
  "hit_dirs P fs ds = foldl (\<lambda>ds d. if d \<in> set ds then ds else ds @ [d]) ds (map path_Dir (filter P fs))"

lemma hit_dirs_set: "set (hit_dirs P fs ds) = set ds \<union> path_Dir ` {f \<in> set fs. P f}"
  unfolding hit_dirs_def by (induction fs arbitrary: ds) auto

lemma hit_dirs_distinct: "distinct ds \<Longrightarrow> distinct (hit_dirs P fs ds)"
  unfolding hit_dirs_def by (induction fs arbitrary: ds) auto

lemma match_files_Ok:
  assumes "well_formed glob inc" and "well_formed glob exc"
  shows "match_files glob fs inc exc (a, ds) =
     Ok (a \<or> (\<exists>f \<in> set fs. matches_any glob f inc \<and> \<not> matches_any glob f exc),
         hit_dirs (\<lambda>f. matches_any glob f inc \<and> \<not> matches_any glob f exc) fs ds)"
  using assms
proof (induction fs arbitrary: inc exc a ds)
  case (Cons f fs)
  show ?case
    using Cons.IH [of "map NormalizeFileName inc" "map NormalizeFileName exc"] Cons.prems
    by (auto simp: match_Ok hit_dirs_def)
qed (simp add: hit_dirs_def)

lemma modified_projects_Ok:
  assumes "\<forall>p \<in> set ps. well_formed glob (include_patterns p) \<and> well_formed glob (exclude_patterns p)"
  shows "modified_projects glob fs ps (result, mapping) =
     Ok (result @ filter (\<lambda>p. \<exists>f \<in> set fs. modifies glob p f) ps,
         foldl (\<lambda>m p. AList.update (Name p) \<lparr>ImpactingLocations = hit_dirs (modifies glob p) fs []\<rparr> m) mapping ps)"
  using assms
  by (induction ps arbitrary: result mapping) (simp_all add: match_files_Ok modifies_def [abs_def])

lemma map_of_foldl_update_frame:
  "k \<notin> g ` set qs \<Longrightarrow> map_of (foldl (\<lambda>m p. AList.update (g p) (h p) m) m qs) k = map_of m k"
  by (induction qs arbitrary: m) (auto simp: update_conv')

lemma map_of_foldl_update:
  "distinct (map g ps) \<Longrightarrow> p \<in> set ps \<Longrightarrow>
   map_of (foldl (\<lambda>m p. AList.update (g p) (h p) m) m ps) (g p) = Some (h p)"
proof (induction ps arbitrary: m)
  case (Cons q ps)
  show ?case
  proof (cases "p = q")
    case True
    with Cons.prems(1) map_of_foldl_update_frame [of "g q" g ps h] show ?thesis by (simp add: update_conv')
  qed (use Cons in auto)
qed simp

text \<open>Claim C31: when no pattern is malformed, the modified projects are exactly those of the configuration,
  in its order, for which some changed file matches one of the project's include patterns (its directory
  among them) and none of its exclude patterns; and, project names being distinct, the mapping gives for each
  project the directories of the files that hit it, each once.\<close>

theorem modified_projects_exact:
  assumes "\<forall>p \<in> set (Projects c). well_formed glob (include_patterns p) \<and> well_formed glob (exclude_patterns p)"
    and "distinct (map Name (Projects c))"
  shows "\<exists>mapping. GetModifiedProjects glob c files =
      Ok (filter (\<lambda>p. \<exists>f \<in> set files. modifies glob p f) (Projects c), mapping) \<and>
    (\<forall>p \<in> set (Projects c). \<exists>dirs. map_of mapping (Name p) = Some \<lparr>ImpactingLocations = dirs\<rparr> \<and>
       distinct dirs \<and> set dirs = path_Dir ` {f \<in> set files. modifies glob p f})"
proof -
  let ?h = "\<lambda>p. \<lparr>ImpactingLocations = hit_dirs (modifies glob p) files []\<rparr>"
  let ?m = "foldl (\<lambda>m p. AList.update (Name p) (?h p) m) [] (Projects c)"
  have "GetModifiedProjects glob c files =
      Ok (filter (\<lambda>p. \<exists>f \<in> set files. modifies glob p f) (Projects c), ?m)"
    unfolding GetModifiedProjects_def modified_projects_Ok [OF assms(1)] by simp
  moreover have "map_of ?m (Name p) = Some (?h p)" if "p \<in> set (Projects c)" for p
    using map_of_foldl_update [OF assms(2) that, where h = ?h] .
  ultimately show ?thesis using hit_dirs_set [of _ files "[]"] hit_dirs_distinct [of "[]" _ files] by fastforce
qed

section \<open>What a comment selects\<close>

text \<open>A comment selects only impacted projects: with a layer exactly those of the layer, with
  projects or directories exactly those named or lying there, each named project being impacted, and
  otherwise all of them.\<close>

theorem comment_selects_impacted:
  assumes "ParseDiggerCommentFlags shlex comment = Inr cp"
    and "FilterOutProjectsFromComment shlex impacted comment = Inr ps"
  shows "set ps = {p \<in> set impacted.
      if cp_Layer cp \<noteq> -1 then int (Layer p) = cp_Layer cp
      else cp_Projects cp = [] \<and> cp_Directories cp = [] \<or>
        Name p \<in> set (cp_Projects cp) \<or> Dir p \<in> set (cp_Directories cp)} \<and>
    (cp_Layer cp = -1 \<longrightarrow> set (cp_Projects cp) \<subseteq> Name ` set impacted)"
  using assms
  by (auto simp: FilterOutProjectsFromComment_def projects_of_flags_def find_None_iff split: option.splits if_splits)

section \<open>Dependants in a forest\<close>

text \<open>What the package's documentation says of a breadth-first search from a vertex: it visits the
  vertices that can be reached, each once, and each but the first after one it follows.\<close>

definition bfs_orders ::
  "('g \<Rightarrow> string \<Rightarrow> graph_err + string list) \<Rightarrow> 'g \<Rightarrow> (string \<times> string) set \<Rightarrow> string \<Rightarrow> bool" where
  "bfs_orders bfs g E s \<longleftrightarrow> (\<exists>order. bfs g s = Inr (s # order) \<and> distinct (s # order) \<and>
     set (s # order) = {v. (s, v) \<in> E\<^sup>*} \<and>
     (\<forall>xs v ys. order = xs @ v # ys \<longrightarrow> (\<exists>u \<in> set (s # xs). (u, v) \<in> E)))"

definition forest :: "(string \<times> string) set \<Rightarrow> bool" where
  "forest E \<longleftrightarrow> (\<forall>a b v. (a, v) \<in> E \<longrightarrow> (b, v) \<in> E \<longrightarrow> a = b)"

text \<open>The projects a list of impacted ones affects.\<close>

definition affected :: "(string \<times> string) set \<Rightarrow> project list \<Rightarrow> string \<Rightarrow> bool" where
  "affected E impacted v \<longleftrightarrow> (\<exists>p \<in> set impacted. (Name p, v) \<in> E\<^sup>*)"

lemma forest_common:
  assumes "forest E" and "(a, v) \<in> E\<^sup>*" and "(b, v) \<in> E\<^sup>*"
  shows "(a, b) \<in> E\<^sup>* \<or> (b, a) \<in> E\<^sup>*"
  using assms(2,3)
proof (induction arbitrary: b rule: rtrancl_induct)
  case (step y z)
  from step.prems show ?case
  proof (cases rule: rtranclE)
    case base
    with step.hyps show ?thesis by (meson rtrancl.rtrancl_into_rtrancl)
  next
    case (step y')
    with assms(1) \<open>(y, z) \<in> E\<close> have "y' = y" unfolding forest_def by blast
    with step(1) \<open>\<And>b. (b, y) \<in> E\<^sup>* \<Longrightarrow> (a, b) \<in> E\<^sup>* \<or> (b, a) \<in> E\<^sup>*\<close> show ?thesis by blast
  qed
qed auto

lemma affected_step: "affected E impacted u \<Longrightarrow> (u, v) \<in> E \<Longrightarrow> affected E impacted v"
  unfolding affected_def by (meson rtrancl.rtrancl_into_rtrancl)

lemma affected_cases:
  assumes "affected E impacted v"
  shows "v \<in> Name ` set impacted \<or> (\<exists>u. (u, v) \<in> E \<and> affected E impacted u)"
proof -
  obtain p where p: "p \<in> set impacted" "(Name p, v) \<in> E\<^sup>*" using assms unfolding affected_def by blast
  from p(2) show ?thesis by (cases rule: rtranclE) (use p(1) in \<open>auto simp: affected_def\<close>)
qed

text \<open>After the vertices \<open>S\<close> have been visited, those affected have been found, in the order of the visits.\<close>

definition found_inv ::
  "(string \<Rightarrow> project option) \<Rightarrow> (string \<times> string) set \<Rightarrow> project list \<Rightarrow> string set \<Rightarrow> dependants \<Rightarrow> bool" where
  "found_inv V E impacted S st \<longleftrightarrow>
     (case st of (found, imp, visited) \<Rightarrow>
       set visited = {v \<in> S. affected E impacted v} \<and> distinct visited \<and>
       found = map (the \<circ> V) (rev visited) \<and> dom (map_of imp) = Name ` set impacted \<union> set visited)"

lemma dom_foldl_update:
  "dom (map_of (foldl (\<lambda>m p. AList.update (g p) (h p) m) m ps)) = g ` set ps \<union> dom (map_of m)"
  by (induction ps arbitrary: m) (auto simp: update_conv')

text \<open>What the roots among some vertices reach.\<close>

definition trees :: "(string \<times> string) set \<Rightarrow> string set \<Rightarrow> string set" where
  "trees E K = {v. \<exists>k \<in> K. {u. (u, k) \<in> E} = {} \<and> (k, v) \<in> E\<^sup>*}"

lemma trees_insert:
  "trees E (insert k K) = (if {u. (u, k) \<in> E} = {} then {v. (k, v) \<in> E\<^sup>*} else {}) \<union> trees E K"
  by (auto simp: trees_def)

lemma trees_empty [simp]: "trees E {} = {}"
  by (simp add: trees_def)

lemma dom_update: "dom (map_of (AList.update k v m)) = insert k (dom (map_of m))"
  by (auto simp: update_conv')

text \<open>The graph package on projects, which are keyed by their names.\<close>

locale project_graph = graph_lib lib Name verts edges ginv
  for lib :: "('g, project) graph_ops"
    and verts :: "'g \<Rightarrow> string \<Rightarrow> project option"
    and edges :: "'g \<Rightarrow> (string \<times> string) set"
    and ginv :: "'g \<Rightarrow> bool"
begin

lemma predecessors_of:
  assumes "ginv g" and "verts g v = Some p"
  shows "set (case map_of (g_predecessors lib g) v of None \<Rightarrow> [] | Some ps \<Rightarrow> ps) = {u. (u, v) \<in> edges g}"
proof -
  obtain ss where "map_of (g_predecessors lib g) v = Some ss"
    using predecessors [OF assms(1), of v] assms(2) by (cases "map_of (g_predecessors lib g) v") auto
  with predecessors_sources [OF assms(1) this] show ?thesis by simp
qed

lemma visit_vertex_inv:
  assumes inv: "ginv g" and v: "verts g v = Some p" and st: "found_inv (verts g) (edges g) impacted S st"
    and new: "v \<notin> S" and before: "\<forall>u. (u, v) \<in> edges g \<longrightarrow> u \<in> S"
  shows "\<exists>st'. visit_vertex lib g v st = (False, st') \<and> found_inv (verts g) (edges g) impacted (insert v S) st'"
proof -
  let ?A = "affected (edges g) impacted"
  obtain found imp visited where s: "st = (found, imp, visited)" by (cases st) auto
  have vis: "set visited = {v \<in> S. ?A v}" "distinct visited" "found = map (the \<circ> verts g) (rev visited)"
    and imp: "dom (map_of imp) = Name ` set impacted \<union> set visited"
    using st by (auto simp: found_inv_def s)
  have notin: "v \<notin> set visited" using new vis(1) by blast
  have imp_A: "u \<in> dom (map_of imp) \<Longrightarrow> ?A u" for u
    using imp vis(1) by (auto simp: affected_def)
  let ?P = "\<exists>parent \<in> set (case map_of (g_predecessors lib g) v of None \<Rightarrow> [] | Some ps \<Rightarrow> ps).
      map_of imp parent \<noteq> None"
  have P: "?P \<longleftrightarrow> (\<exists>u. (u, v) \<in> edges g \<and> u \<in> dom (map_of imp))"
    unfolding predecessors_of [OF inv v] by auto
  have new_vis: "set (v # visited) = {x \<in> insert v S. ?A x}" if "?A v" using vis(1) that by auto
  consider (named) "v \<in> dom (map_of imp)" | (child) "v \<notin> dom (map_of imp)" "?P"
    | (none) "v \<notin> dom (map_of imp)" "\<not> ?P" by blast
  then show ?thesis
  proof cases
    case named
    then have "visit_vertex lib g v st = (False, (found @ [p], imp, v # visited))"
      using notin by (auto simp: visit_vertex_def s vertex [OF inv] v)
    moreover have "insert v (dom (map_of imp)) = dom (map_of imp)" using named by blast
    ultimately show ?thesis
      using new_vis imp_A [OF named] vis notin imp v by (auto simp: found_inv_def)
  next
    case child
    then have "visit_vertex lib g v st = (False, (found @ [p], AList.update v p imp, v # visited))"
      using notin by (simp add: visit_vertex_def s vertex [OF inv] v domIff)
    moreover have "?A v" using child(2) P imp_A affected_step by blast
    ultimately show ?thesis
      using new_vis vis notin imp v by (auto simp: found_inv_def dom_update simp del: update_conv')
  next
    case none
    then have "visit_vertex lib g v st = (False, st)"
      using notin by (simp add: visit_vertex_def s vertex [OF inv] v domIff)
    moreover have "\<not> ?A v"
    proof
      assume a: "?A v"
      from affected_cases [OF a] none(1) imp obtain u where "(u, v) \<in> edges g" "?A u" by auto
      with before vis(1) imp none(2) P show False by blast
    qed
    ultimately show ?thesis using st by (auto simp: found_inv_def s)
  qed
qed

lemma visit_until_inv:
  assumes "ginv g" and "found_inv (verts g) (edges g) impacted S st"
    and "distinct order" and "set order \<inter> S = {}" and "\<forall>v \<in> set order. verts g v \<noteq> None"
    and "\<forall>xs v ys. order = xs @ v # ys \<longrightarrow> (\<forall>u. (u, v) \<in> edges g \<longrightarrow> u \<in> S \<union> set xs)"
  shows "found_inv (verts g) (edges g) impacted (S \<union> set order) (visit_until lib g order st)"
  using assms(2-)
proof (induction order arbitrary: S st)
  case (Cons v order)
  from Cons.prems obtain p where v: "verts g v = Some p" by auto
  have "\<forall>u. (u, v) \<in> edges g \<longrightarrow> u \<in> S"
    using Cons.prems(5) [rule_format, of "[]" v order] by auto
  then obtain st' where st': "visit_vertex lib g v st = (False, st')"
    "found_inv (verts g) (edges g) impacted (insert v S) st'"
    using visit_vertex_inv [OF assms(1) v Cons.prems(1)] Cons.prems(3) by auto
  have "found_inv (verts g) (edges g) impacted (insert v S \<union> set order) (visit_until lib g order st')"
  proof (rule Cons.IH [OF st'(2)])
    show "\<forall>xs w ys. order = xs @ w # ys \<longrightarrow> (\<forall>u. (u, w) \<in> edges g \<longrightarrow> u \<in> insert v S \<union> set xs)"
      using Cons.prems(5) by (metis Cons_eq_appendI Un_insert_left Un_insert_right list.simps(15))
  qed (use Cons.prems in auto)
  then show ?case by (simp add: st'(1))
qed simp

text \<open>Searching from a root adds its tree.\<close>

lemma search_tree:
  assumes inv: "ginv g" and closed: "edges g \<subseteq> dom (verts g) \<times> dom (verts g)" and forest: "forest (edges g)"
    and r: "verts g r \<noteq> None" and root: "\<And>u. (u, r) \<notin> edges g"
    and bfs: "bfs_orders bfs g (edges g) r" and st: "found_inv (verts g) (edges g) impacted S st"
    and fresh: "{v. (r, v) \<in> (edges g)\<^sup>*} \<inter> S = {}"
  shows "\<exists>order. bfs g r = Inr order \<and>
    found_inv (verts g) (edges g) impacted (S \<union> {v. (r, v) \<in> (edges g)\<^sup>*}) (visit_until lib g order st)"
proof -
  obtain order where o: "bfs g r = Inr (r # order)" "distinct (r # order)"
    "set (r # order) = {v. (r, v) \<in> (edges g)\<^sup>*}"
    "\<And>xs v ys. order = xs @ v # ys \<Longrightarrow> \<exists>u \<in> set (r # xs). (u, v) \<in> edges g"
    using bfs unfolding bfs_orders_def by blast
  have before: "u \<in> set xs" if "r # order = xs @ v # ys" "(u, v) \<in> edges g" for xs v ys u
  proof (cases xs)
    case Nil
    with that root show ?thesis by simp
  next
    case (Cons x zs)
    with that(1) o(4) [of zs v ys] obtain u' where "u' \<in> set xs" "(u', v) \<in> edges g" by auto
    with that(2) forest show ?thesis unfolding forest_def by blast
  qed
  have "verts g v \<noteq> None" if "v \<in> set (r # order)" for v
  proof -
    have "(r, v) \<in> (edges g)\<^sup>*" using that o(3) by blast
    then show ?thesis by (cases rule: rtranclE) (use r closed in auto)
  qed
  then have "found_inv (verts g) (edges g) impacted (S \<union> set (r # order)) (visit_until lib g (r # order) st)"
    using inv st o(2,3) fresh before by (intro visit_until_inv) blast+
  with o(1,3) show ?thesis by auto
qed

lemma search_roots_inv:
  assumes inv: "ginv g" and closed: "edges g \<subseteq> dom (verts g) \<times> dom (verts g)" and forest: "forest (edges g)"
    and bfs: "\<forall>s \<in> dom (verts g). bfs_orders bfs g (edges g) s"
    and "distinct (map fst rest)"
    and "\<forall>(k, ps) \<in> set rest. k \<in> dom (verts g) \<and> set ps = {u. (u, k) \<in> edges g}"
    and "found_inv (verts g) (edges g) impacted S st"
    and "\<forall>k \<in> fst ` set rest. {u. (u, k) \<in> edges g} = {} \<longrightarrow> {v. (k, v) \<in> (edges g)\<^sup>*} \<inter> S = {}"
  shows "\<exists>st'. search_roots lib bfs g rest st = Inr st' \<and> found_inv (verts g) (edges g) impacted
    (S \<union> trees (edges g) (fst ` set rest)) st'"
  using assms(5-)
proof (induction rest arbitrary: S st)
  case (Cons kp rest)
  obtain k ps where kp: "kp = (k, ps)" by (cases kp)
  have k: "k \<in> dom (verts g)" "set ps = {u. (u, k) \<in> edges g}" using Cons.prems(2) kp by auto
  show ?case
  proof (cases "ps = []")
    case False
    then have "{u. (u, k) \<in> edges g} \<noteq> {}" using k(2) by (metis set_empty)
    moreover have "\<exists>st'. search_roots lib bfs g rest st = Inr st' \<and> found_inv (verts g) (edges g) impacted
      (S \<union> trees (edges g) (fst ` set rest)) st'"
      by (rule Cons.IH) (use Cons.prems in auto)
    ultimately show ?thesis using False by (simp add: kp trees_insert del: Collect_empty_eq)
  next
    case True
    then have root: "{u. (u, k) \<in> edges g} = {}" using k(2) by simp
    let ?T = "\<lambda>k. {v. (k, v) \<in> (edges g)\<^sup>*}"
    obtain order where o: "bfs g k = Inr order"
      "found_inv (verts g) (edges g) impacted (S \<union> ?T k) (visit_until lib g order st)"
      using search_tree [OF inv closed forest _ _ bfs [rule_format, OF k(1)] Cons.prems(3)] k(1) root Cons.prems(4) kp
      by auto
    have "?T k' \<inter> (S \<union> ?T k) = {}"
      if k': "k' \<in> fst ` set rest" "{u. (u, k') \<in> edges g} = {}" for k'
    proof -
      have "k' \<noteq> k" using Cons.prems(1) k'(1) kp by auto
      moreover have "k' = k" if "(k', v) \<in> (edges g)\<^sup>*" "(k, v) \<in> (edges g)\<^sup>*" for v
        using forest_common [OF forest that] root k'(2) by (auto elim: rtranclE)
      ultimately show ?thesis using Cons.prems(4) k' by auto
    qed
    then have "\<exists>st'. search_roots lib bfs g rest (visit_until lib g order st) = Inr st' \<and>
      found_inv (verts g) (edges g) impacted
      ((S \<union> ?T k) \<union> trees (edges g) (fst ` set rest)) st'"
      using Cons.prems(1,2) o(2) by (intro Cons.IH) auto
    then show ?thesis using True o(1) root by (simp add: kp trees_insert Un_assoc del: Collect_empty_eq)
  qed
qed simp

lemma reached_from_root:
  assumes "finite (edges g)" and "acyclic (edges g)" and "edges g \<subseteq> dom (verts g) \<times> dom (verts g)"
  shows "v \<in> dom (verts g) \<Longrightarrow> \<exists>k \<in> dom (verts g). {u. (u, k) \<in> edges g} = {} \<and> (k, v) \<in> (edges g)\<^sup>*"
  using finite_acyclic_wf [OF assms(1,2)]
proof (induction v rule: wf_induct_rule)
  case (less v)
  show ?case
  proof (cases "{u. (u, v) \<in> edges g} = {}")
    case False
    then obtain u where u: "(u, v) \<in> edges g" by blast
    with assms(3) less obtain k where "k \<in> dom (verts g)" "{u. (u, k) \<in> edges g} = {}" "(k, u) \<in> (edges g)\<^sup>*" by blast
    with u show ?thesis by (meson rtrancl.rtrancl_into_rtrancl)
  qed (use less in auto)
qed

end

text \<open>Claim C34: with hard dependencies, when no project depends on more than one other, the search finds
  exactly the impacted projects and those that depend on one of them, directly or through others, each
  once.  The graph package is the parameter; its laws and the documented order of its search are hypotheses.\<close>

theorem dependants_exact_in_forest:
  assumes "project_graph lib verts edges ginv" and "ginv g"
    and "edges g \<subseteq> dom (verts g) \<times> dom (verts g)" and "acyclic (edges g)" and "forest (edges g)"
    and "distinct (map fst (g_predecessors lib g))"
    and "\<forall>s \<in> dom (verts g). bfs_orders bfs g (edges g) s"
  shows "\<exists>vs. FindAllProjectsDependantOnImpactedProjects lib bfs impacted g = Inr (map (the \<circ> verts g) vs) \<and>
    distinct vs \<and> set vs = {v \<in> dom (verts g). affected (edges g) impacted v}"
proof -
  let ?K = "fst ` set (g_predecessors lib g)"
  note lib = assms(1) [unfolded project_graph_def]
  have keys: "?K = dom (verts g)"
  proof (rule set_eqI)
    fix k
    show "k \<in> ?K \<longleftrightarrow> k \<in> dom (verts g)"
      using graph_lib.predecessors [OF lib assms(2), of k] by (cases "verts g k") (simp_all add: map_of_eq_None_iff domIff)
  qed
  then have fin: "finite (edges g)"
    using assms(3) by (metis finite_SigmaI finite_imageI finite_set finite_subset)
  have preds: "\<forall>(k, ps) \<in> set (g_predecessors lib g). k \<in> dom (verts g) \<and> set ps = {u. (u, k) \<in> edges g}"
  proof (clarify, rule conjI)
    fix k ps
    assume m: "(k, ps) \<in> set (g_predecessors lib g)"
    show "k \<in> dom (verts g)" using keys m by force
    have "map_of (g_predecessors lib g) k = Some ps" using assms(6) m by (rule map_of_is_SomeI)
    from graph_lib.predecessors_sources [OF lib assms(2) this] show "set ps = {u. (u, k) \<in> edges g}" .
  qed
  have start: "found_inv (verts g) (edges g) impacted {} ([], foldl (\<lambda>m p. AList.update (Name p) p m) [] impacted, [])"
    by (simp add: found_inv_def dom_foldl_update)
  obtain st where st: "search_roots lib bfs g (g_predecessors lib g)
      ([], foldl (\<lambda>m p. AList.update (Name p) p m) [] impacted, []) = Inr st"
    "found_inv (verts g) (edges g) impacted ({} \<union> trees (edges g) ?K) st"
    using project_graph.search_roots_inv [OF assms(1,2,3,5,7,6) preds start] by auto
  have "trees (edges g) ?K = dom (verts g)"
    using project_graph.reached_from_root [OF assms(1) fin assms(4,3)] assms(3) keys
    by (auto simp: trees_def elim: rtranclE)
  with st show ?thesis
    by (cases st) (auto simp: FindAllProjectsDependantOnImpactedProjects_def found_inv_def
        intro!: exI [of _ "rev (snd (snd st))"])
qed

text \<open>The list graphs of \<open>GraphLib\<close> on projects keep the laws.\<close>

interpretation project_lists: project_graph "lg_ops Name" lg_vertex_map lg_edge_set "\<lambda>_. True"
  unfolding project_graph_def by (rule list_graph.graph_lib_axioms)

section \<open>Jobs of a comment\<close>

lemma last_prefix:
  "foldl (\<lambda>r c. if P c then Some c else r) r0 cs = Some c \<Longrightarrow> r0 = Some c \<or> c \<in> set cs \<and> P c"
  by (induction cs arbitrary: r0) (auto split: if_splits)

lemma CreateJobs_Ok:
  "CreateJobsForProjects getenv mk q workflows ps = Ok jobs \<longleftrightarrow>
   list_all2 (\<lambda>p j. \<exists>w. map_of workflows (Workflow p) = Some w \<and> j = comment_job getenv mk q w p) ps jobs"
  unfolding CreateJobsForProjects_def res_map_Ok_iff
  by (intro arg_cong [where f = "\<lambda>P. list_all2 P ps jobs"] ext) (auto split: option.splits)

lemma modified_projects_of:
  assumes "\<forall>p \<in> set (Projects c). well_formed glob (include_patterns p) \<and> well_formed glob (exclude_patterns p)"
    and "GetModifiedProjects glob c files = Ok (ps, m)"
  shows "ps = filter (\<lambda>p. \<exists>f \<in> set files. modifies glob p f) (Projects c)"
  using assms(2) unfolding GetModifiedProjects_def modified_projects_Ok [OF assms(1)] by auto

text \<open>Claim C33: the jobs of a comment are one for each selected project, in order, with that project's
  name, directory and workspace and the stages of its workflow, all with one command, a supported one that
  starts the comment; every selected project is impacted, and, with soft dependencies, modified by a changed
  file.\<close>

theorem comment_jobs_of_impacted:
  assumes "\<forall>p \<in> set (Projects c). well_formed glob (include_patterns p) \<and> well_formed glob (exclude_patterns p)"
    and "ProcessIssueCommentEvent glob lib bfs n c g (Inr files) = Ok r"
    and "FilterOutProjectsFromComment shlex (ce_AllImpactedProjects r) comment = Inr ps"
    and "ConvertIssueCommentEventToJobs getenv mk repo user n comment ps (ce_AllImpactedProjects r)
        (Workflows c) branch defaultBranch interpolate = Ok (jobs, covers)"
  shows "\<exists>command \<in> set comment_commands. prefix command (trim_space (to_lower comment)) \<and>
    list_all2 (\<lambda>p j. \<exists>w. map_of (Workflows c) (Workflow p) = Some w \<and>
        j_ProjectName j = Name p \<and> j_ProjectDir j = Dir p \<and> j_ProjectWorkspace j = Workspace p \<and>
        j_PlanStage j = ToConfigStage (Plan w) \<and> j_ApplyStage j = ToConfigStage (Apply w) \<and>
        j_Commands j = [command] \<and> j_PullRequestNumber j = Some n) ps jobs \<and>
    (\<forall>p \<in> set ps. p \<in> set (ce_AllImpactedProjects r) \<and>
      (DependencyMode c \<noteq> ''hard'' \<longrightarrow> p \<in> set (Projects c) \<and> (\<exists>f \<in> set files. modifies glob p f)))"
proof -
  obtain command jobs' where command: "command_of_comment (trim_space (to_lower comment)) = Some command"
    and jobs: "CreateJobsForProjects getenv mk
        \<lparr>jr_command = command, jr_event = ''issue_comment'', jr_repo = repo, jr_requestedBy = user,
         jr_issue = Some n, jr_defaultBranch = defaultBranch, jr_prBranch = branch, jr_interpolate = interpolate\<rparr>
        (Workflows c) ps = Ok jobs"
    using assms(4) by (auto simp: ConvertIssueCommentEventToJobs_def Let_def split: option.splits)
  have "command \<in> set comment_commands \<and> prefix command (trim_space (to_lower comment))"
    using last_prefix [OF command [unfolded command_of_comment_def]] by (simp add: has_prefix_iff)
  moreover have "list_all2 (\<lambda>p j. \<exists>w. map_of (Workflows c) (Workflow p) = Some w \<and>
        j_ProjectName j = Name p \<and> j_ProjectDir j = Dir p \<and> j_ProjectWorkspace j = Workspace p \<and>
        j_PlanStage j = ToConfigStage (Plan w) \<and> j_ApplyStage j = ToConfigStage (Apply w) \<and>
        j_Commands j = [command] \<and> j_PullRequestNumber j = Some n) ps jobs"
    using jobs unfolding CreateJobs_Ok
    by (rule list_all2_mono) (auto simp: comment_job_def with_roles_def base_job_def Let_def)
  moreover have "set ps \<subseteq> set (ce_AllImpactedProjects r)"
    using assms(3)
    by (auto simp: FilterOutProjectsFromComment_def projects_of_flags_def split: sum.splits option.splits if_splits)
  moreover have "set (ce_AllImpactedProjects r) \<subseteq>
      {p \<in> set (Projects c). \<exists>f \<in> set files. modifies glob p f}" if "DependencyMode c \<noteq> ''hard''"
    using assms(2) that
    by (auto simp: ProcessIssueCommentEvent_def impacted_projects_def dest: modified_projects_of [OF assms(1)])
  ultimately show ?thesis by blast
qed

section \<open>Examples\<close>

definition named :: "string \<Rightarrow> project" where
  "named n =
     \<lparr>BlockName = [], Name = n, Branch = ''__default__'', Alias = [], ApplyRequirements = [], Dir = n,
      Workspace = ''default'', Terragrunt = False, Layer = 0, OpenTofu = False, Pulumi = False,
      Workflow = ''default'', WorkflowFile = [], IncludePatterns = [], ExcludePatterns = [],
      DependencyProjects = [], DriftDetection = False, AwsRoleToAssume = None, AwsCognitoOidcConfig = None,
      Generated = False, PulumiStack = []\<rparr>"

text \<open>A breadth-first search of a list graph: the queue, and the vertices seen in the order they were put
  into it.  The number of vertices is fuel enough, as each is put into the queue once.\<close>

fun bfs_queue :: "nat \<Rightarrow> 'v list_graph \<Rightarrow> string list \<Rightarrow> string list \<Rightarrow> string list" where
  "bfs_queue 0 g queue seen = seen"
| "bfs_queue (Suc n) g [] seen = seen"
| "bfs_queue (Suc n) g (v # queue) seen =
     (let new = filter (\<lambda>t. t \<notin> set seen) (map snd (filter (\<lambda>e. fst e = v) (lg_edges g)))
      in bfs_queue n g (queue @ new) (seen @ new))"

definition lg_bfs :: "'v list_graph \<Rightarrow> string \<Rightarrow> graph_err + string list" where
  "lg_bfs g s =
     (if map_of (lg_verts g) s = None then Inl ErrVertexNotFound
      else Inr (bfs_queue (length (lg_verts g)) g [s] [s]))"

text \<open>\<open>c\<close> depends on \<open>a\<close> and \<open>b\<close>, and \<open>d\<close> on \<open>b\<close>; the files of \<open>c\<close> and \<open>d\<close> have changed.  The search
  from \<open>b\<close> meets \<open>c\<close> again, which was visited from \<open>a\<close>, and ends: \<open>d\<close> gets no job.\<close>

lemma second_dependency_loses_changed_project:
  "let g = \<lparr>lg_verts = [(''a'', named ''a''), (''b'', named ''b''), (''c'', named ''c''), (''d'', named ''d'')],
            lg_edges = [(''a'', ''c''), (''b'', ''c''), (''b'', ''d'')]\<rparr>
   in map_sum (\<lambda>e. e) (map Name)
        (FindAllProjectsDependantOnImpactedProjects (lg_ops Name) lg_bfs [named ''c'', named ''d''] g) = Inr [''c'']"
  by code_simp

text \<open>Selecting a project by its name and again by its directory counts it twice, so that the comment is
  taken to cover all impacted projects.\<close>

definition spaces :: "string \<Rightarrow> error + string list" where
  "spaces s = Inr (filter (\<lambda>w. w \<noteq> []) (split_char (CHR '' '') s))"

definition default_workflows :: "(string \<times> workflow) list" where
  "default_workflows = [(''default'', defaultWorkflow)]"

lemma duplicates_cover_all:
  "let impacted = [named ''a'', named ''b''] in
   case FilterOutProjectsFromComment spaces impacted ''digger apply -p a -d a'' of
     Inl _ \<Rightarrow> False
   | Inr ps \<Rightarrow>
       (case ConvertIssueCommentEventToJobs (\<lambda>_. []) (\<lambda>_ _. None :: unit option) ''o/r'' ''u'' 1
            ''digger apply -p a -d a'' ps impacted default_workflows ''br'' ''main'' False of
          Ok (jobs, covers) \<Rightarrow> map j_ProjectName jobs = [''a'', ''a''] \<and> covers
        | _ \<Rightarrow> False)"
  by code_simp

text \<open>A chain of two projects.\<close>

definition chain :: "project list_graph" where
  "chain = \<lparr>lg_verts = [(''a'', named ''a''), (''b'', named ''b'')], lg_edges = [(''a'', ''b'')]\<rparr>"

lemma chain_reach: "(u, v) \<in> {(''a'', ''b'')}\<^sup>* \<longleftrightarrow> u = v \<or> u = ''a'' \<and> v = ''b''"
proof
  assume "(u, v) \<in> {(''a'', ''b'')}\<^sup>*"
  then show "u = v \<or> u = ''a'' \<and> v = ''b''" by (induction rule: rtrancl_induct) auto
qed auto

theorem dependants_exact_in_forest_witness:
  "\<exists>vs. FindAllProjectsDependantOnImpactedProjects (lg_ops Name) lg_bfs [named ''a''] chain =
      Inr (map (the \<circ> lg_vertex_map chain) vs) \<and> distinct vs \<and> ''b'' \<in> set vs"
proof -
  have E: "lg_edge_set chain = {(''a'', ''b'')}" by (simp add: lg_edge_set_def chain_def)
  have V: "dom (lg_vertex_map chain) = {''a'', ''b''}" by (auto simp: lg_vertex_map_def chain_def)
  have reach: "{v. (''a'', v) \<in> {(''a'', ''b'')}\<^sup>*} = {''a'', ''b''}" "{v. (''b'', v) \<in> {(''a'', ''b'')}\<^sup>*} = {''b''}"
    by (auto simp: chain_reach)
  have a: "lg_bfs chain ''a'' = Inr (''a'' # [''b''])" and b: "lg_bfs chain ''b'' = Inr (''b'' # [])" by code_simp+
  have "bfs_orders lg_bfs chain {(''a'', ''b'')} ''a''" "bfs_orders lg_bfs chain {(''a'', ''b'')} ''b''"
    unfolding bfs_orders_def a b reach by (auto simp: Cons_eq_append_conv)
  then have "\<forall>s \<in> dom (lg_vertex_map chain). bfs_orders lg_bfs chain (lg_edge_set chain) s"
    unfolding V E by blast
  moreover have "acyclic (lg_edge_set chain)" "forest (lg_edge_set chain)"
    unfolding E by (auto simp: acyclic_insert forest_def)
  moreover have "distinct (map fst (g_predecessors (lg_ops Name) chain))" by code_simp
  moreover have "lg_edge_set chain \<subseteq> dom (lg_vertex_map chain) \<times> dom (lg_vertex_map chain)" unfolding V E by simp
  ultimately obtain vs where "FindAllProjectsDependantOnImpactedProjects (lg_ops Name) lg_bfs [named ''a''] chain =
      Inr (map (the \<circ> lg_vertex_map chain) vs)" "distinct vs"
    "set vs = {v \<in> {''a'', ''b''}. affected {(''a'', ''b'')} [named ''a''] v}"
    using dependants_exact_in_forest [OF project_lists.project_graph_axioms, of chain lg_bfs "[named ''a'']"]
    unfolding V E by blast
  then show ?thesis by (auto simp: affected_def named_def)
qed

text \<open>A glob library for patterns that end in asterisks.\<close>

definition star_glob :: glob where
  "star_glob p f = Inr (prefix (takeWhile (\<lambda>c. c \<noteq> CHR ''*'') p) f)"

definition two_projects :: digger_config where
  "two_projects =
     \<lparr>ApplyAfterMerge = False, AllowDraftPRs = False, CommentRenderMode = ''basic'', DependencyMode = ''soft'',
      DeletePriorComments = False, DisableDiggerApplyComment = False, DisableDiggerApplyStatusCheck = False,
      RespectLayers = False, PrLocks = True, Projects = [named ''a'', named ''b''], AutoMerge = False,
      AutoMergeStrategy = ''squash'', Telemetry = False, Workflows = default_workflows,
      MentionDriftedProjectsInPR = False, TraverseToNestedProjects = False,
      Reporting = \<lparr>AiSummary = False, CommentsEnabled = True\<rparr>, ReportTerraformOutputs = False\<rparr>"

lemma star_glob_well_formed: "well_formed star_glob ps"
  by (simp add: well_formed_def star_glob_def)

theorem modified_projects_exact_witness:
  "\<exists>mapping. GetModifiedProjects star_glob two_projects [''b/main.tf''] = Ok ([named ''b''], mapping)"
proof -
  have "distinct (map Name (Projects two_projects))" by code_simp
  moreover have "modifies star_glob (named ''b'') ''b/main.tf''" "\<not> modifies star_glob (named ''a'') ''b/main.tf''"
    by code_simp+
  ultimately show ?thesis
    using modified_projects_exact [of two_projects star_glob "[''b/main.tf'']"]
    by (auto simp: star_glob_well_formed two_projects_def)
qed

theorem comment_selects_impacted_witness:
  "\<exists>ps. FilterOutProjectsFromComment spaces [named ''a'', named ''b''] ''digger plan -d b'' = Inr ps \<and>
    set ps = {named ''b''}"
proof -
  have "ParseDiggerCommentFlags spaces ''digger plan -d b'' =
      Inr \<lparr>cp_Projects = [], cp_Layer = -1, cp_Directories = [''b'']\<rparr>" by code_simp
  moreover have "FilterOutProjectsFromComment spaces [named ''a'', named ''b''] ''digger plan -d b'' = Inr [named ''b'']"
    by code_simp
  ultimately show ?thesis
    using comment_selects_impacted [of spaces "''digger plan -d b''" _ "[named ''a'', named ''b'']" "[named ''b'']"]
    by auto
qed

definition change_result :: comment_event_result where
  "change_result = (case ProcessIssueCommentEvent star_glob (lg_ops Name) lg_bfs 7 two_projects chain (Inr [''b/main.tf''])
     of Ok r \<Rightarrow> r | _ \<Rightarrow> \<lparr>ce_SourceMapping = [], ce_PRNumber = 0, ce_AllImpactedProjects = []\<rparr>)"

theorem comment_jobs_of_impacted_witness:
  "\<exists>command. prefix command ''digger apply -p b'' \<and> command = ''digger apply'' \<and>
     modifies star_glob (named ''b'') ''b/main.tf''"
proof -
  let ?c = "''digger apply -p b''"
  let ?jobs = "ConvertIssueCommentEventToJobs (\<lambda>_. []) (\<lambda>_ _. None :: unit option) ''o/r'' ''u'' 7 ?c [named ''b'']
      (ce_AllImpactedProjects change_result) (Workflows two_projects) ''br'' ''main'' False"
  have r: "ProcessIssueCommentEvent star_glob (lg_ops Name) lg_bfs 7 two_projects chain (Inr [''b/main.tf'']) =
      Ok change_result" by code_simp
  have ps: "FilterOutProjectsFromComment spaces (ce_AllImpactedProjects change_result) ?c = Inr [named ''b'']"
    by code_simp
  have "case ?jobs of Ok _ \<Rightarrow> True | _ \<Rightarrow> False" by code_simp
  then obtain js covers where js: "?jobs = Ok (js, covers)" by (auto split: res.splits)
  from comment_jobs_of_impacted [OF _ r ps js] have
    "\<exists>command \<in> set comment_commands. prefix command (trim_space (to_lower ?c)) \<and>
       modifies star_glob (named ''b'') ''b/main.tf''"
    by (auto simp: star_glob_well_formed two_projects_def)
  moreover have "trim_space (to_lower ?c) = ?c" by code_simp
  ultimately show ?thesis unfolding comment_commands_def by (auto simp: prefix_def)
qed

end
