(* ===== verification/CiEventsProps.thy ===== *)
theory CiEventsProps
  imports CiEvents EventsProps
begin

text \<open>
  Which commands an event can run: those the workflow configures for pull requests, and those a comment
  contains; and what goes wrong with names in comments.
\<close>

section \<open>Jobs of an event\<close>

lemma jobs_for_Ok:
  "jobs_for e workflows f ps = Ok js \<longleftrightarrow>
   list_all2 (\<lambda>p j. \<exists>w. map_of workflows (Workflow p) = Some w \<and> f p w = Ok j) ps js"
  unfolding jobs_for_def res_map_Ok_iff
  by (intro arg_cong [where f = "\<lambda>P. list_all2 P ps js"] ext) (auto split: option.splits)

lemma jobs_for_member:
  assumes "jobs_for e workflows f ps = Ok js" and "j \<in> set js"
  shows "\<exists>p \<in> set ps. \<exists>w. map_of workflows (Workflow p) = Some w \<and> f p w = Ok j"
  using assms unfolding jobs_for_Ok by (induction rule: list_all2_induct) auto

text \<open>The commands a workflow configures for pull requests.\<close>

definition configured :: "(string \<times> workflow) list \<Rightarrow> project \<Rightarrow> string set" where
  "configured workflows p =
     (case map_of workflows (Workflow p) of
        None \<Rightarrow> {}
      | Some w \<Rightarrow>
          (case Configuration w of
             None \<Rightarrow> {}
           | Some c \<Rightarrow> set (OnPullRequestPushed c) \<union> set (OnPullRequestClosed c) \<union>
               set (OnPullRequestConvertedToDraft c) \<union> set (OnCommitToDefault c)))"

lemma commands_of_Ok: "commands_of f w = Ok cs \<longleftrightarrow> (\<exists>c. Configuration w = Some c \<and> cs = f c)"
  by (auto simp: commands_of_def split: option.splits)

text \<open>A job is one of an impacted project's and runs only commands that its workflow configures, or an
  unlock.\<close>

definition configured_job :: "(string \<times> workflow) list \<Rightarrow> project list \<Rightarrow> 'p job \<Rightarrow> bool" where
  "configured_job workflows ps j \<longleftrightarrow> (\<exists>p \<in> set ps. j_ProjectName j = Name p \<and> j_ProjectDir j = Dir p \<and>
     set (j_Commands j) \<subseteq> insert ''digger unlock'' (configured workflows p))"

lemma configured_jobI:
  "p \<in> set ps \<Longrightarrow> map_of workflows (Workflow p) = Some w \<Longrightarrow> Configuration w = Some c \<Longrightarrow>
   j_ProjectName j = Name p \<Longrightarrow> j_ProjectDir j = Dir p \<Longrightarrow>
   set (j_Commands j) \<subseteq> insert ''digger unlock'' (set (OnPullRequestPushed c) \<union> set (OnPullRequestClosed c) \<union>
     set (OnPullRequestConvertedToDraft c) \<union> set (OnCommitToDefault c)) \<Longrightarrow>
   configured_job workflows ps j"
  unfolding configured_job_def by (rule bexI [of _ p]) (simp_all add: configured_def)

lemmas job_defs = gh_job_def gl_hook_job_def gl_job_def bb_job_def az_job_def with_roles_def base_job_def Let_def

lemma gh_jobs_configured:
  assumes "gh_ConvertPullRequestEventToJobs getenv mk ev ps c i = Ok (js, covers)" and "j \<in> set js"
  shows "configured_job (Workflows c) ps j"
proof -
  obtain js' where js': "jobs_for no_workflow (Workflows c) (\<lambda>p w. res_bind (gh_event_commands c ev w) (\<lambda>r.
      Ok (map_option (\<lambda>(cs, name). gh_job getenv mk i ev name cs w p) r))) ps = Ok js'" "Some j \<in> set js'"
    using assms by (auto simp: gh_ConvertPullRequestEventToJobs_def map_filter_def)
  from jobs_for_member [OF this] obtain p w cs name where
    "p \<in> set ps" "map_of (Workflows c) (Workflow p) = Some w" "gh_event_commands c ev w = Ok (Some (cs, name))"
    and j: "j = gh_job getenv mk i ev name cs w p" by auto
  then show ?thesis
    by (auto simp: gh_event_commands_def commands_of_Ok job_defs intro!: configured_jobI split: if_splits)
qed

lemma gl_hook_jobs_configured:
  assumes "gl_ConvertPullRequestEventToJobs getenv mk ev ps c = Ok (js, covers)" and "j \<in> set js"
  shows "configured_job (Workflows c) ps j"
proof -
  obtain js' where js': "jobs_for no_workflow (Workflows c) (gl_hook_event_job getenv mk ev c) ps = Ok js'" "Some j \<in> set js'"
    using assms by (auto simp: gl_ConvertPullRequestEventToJobs_def map_filter_def)
  from jobs_for_member [OF this] obtain p w where
    "p \<in> set ps" "map_of (Workflows c) (Workflow p) = Some w" "gl_hook_event_job getenv mk ev c p w = Ok (Some j)" by auto
  then show ?thesis
    by (auto simp: gl_hook_event_job_def commands_of_Ok job_defs intro!: configured_jobI split: if_splits)
qed

lemma gl_jobs_configured:
  assumes "ConvertGitLabEventToCommands getenv mk event cx ps r workflows = Ok (js, covers)" and "j \<in> set js"
    and "event \<noteq> ''merge_request_commented''"
  shows "configured_job workflows ps j"
proof -
  consider (pushed) "jobs_for no_workflow_config workflows (\<lambda>p w. res_bind (commands_of OnPullRequestPushed w) (\<lambda>cs.
      Ok ((gl_job getenv mk cx cs w p)\<lparr>j_SkipMergeCheck := skip_merge_of w\<rparr>))) ps = Ok js"
    | (closed) "jobs_for no_workflow_config workflows (\<lambda>p w. res_bind (commands_of OnPullRequestClosed w) (\<lambda>cs.
      Ok ((gl_job getenv mk cx cs w p)\<lparr>j_StateEnvProvider := fst (gl_closed_providers mk p),
        j_CommandEnvProvider := snd (gl_closed_providers mk p)\<rparr>))) ps = Ok js"
    using assms(1,3) by (auto simp: ConvertGitLabEventToCommands_def simp del: insert_iff split: if_splits)
  then show ?thesis
  proof cases
    case pushed
    from jobs_for_member [OF this assms(2)] show ?thesis
      by (auto simp: commands_of_Ok job_defs intro!: configured_jobI)
  next
    case closed
    from jobs_for_member [OF this assms(2)] show ?thesis
      by (auto simp: commands_of_Ok job_defs intro!: configured_jobI)
  qed
qed

lemma bb_jobs_configured:
  assumes "ConvertBitbucketEventToCommands getenv mk event cx ps r workflows = Ok (js, covers)" and "j \<in> set js"
    and "event \<noteq> ''pullrequest:comment''"
  shows "configured_job workflows ps j"
proof -
  have "jobs_for no_workflow workflows (\<lambda>p w. res_bind (commands_of OnPullRequestPushed w) (\<lambda>cs.
      Ok ((bb_job getenv mk event cx cs w p)\<lparr>j_SkipMergeCheck := skip_merge_of w\<rparr>))) ps = Ok js"
    using assms(1,3) by (auto simp: ConvertBitbucketEventToCommands_def simp del: insert_iff split: if_splits)
  from jobs_for_member [OF this assms(2)] show ?thesis
    by (auto simp: commands_of_Ok job_defs intro!: configured_jobI)
qed

lemma az_event_jobs_configured:
  assumes "az_event_jobs getenv mk cx f workflows ps = Ok (js, covers)" and "j \<in> set js"
    and f: "\<And>c. set (f c) \<subseteq> set (OnPullRequestPushed c) \<union> set (OnPullRequestClosed c) \<union>
      set (OnPullRequestConvertedToDraft c) \<union> set (OnCommitToDefault c)"
  shows "configured_job workflows ps j"
proof -
  have "jobs_for no_workflow_config workflows (\<lambda>p w. res_bind (pr_event (azc_Event cx)) (\<lambda>(n, _).
      res_bind (commands_of f w) (\<lambda>cs. Ok (az_job getenv mk cx n cs w p)))) ps = Ok js"
    using assms(1) by (simp add: az_event_jobs_def)
  from jobs_for_member [OF this assms(2)] obtain p w c n where p: "p \<in> set ps" "map_of workflows (Workflow p) = Some w"
    "Configuration w = Some c" and j: "j = az_job getenv mk cx n (f c) w p" by (auto simp: commands_of_Ok)
  from p show ?thesis
    by (rule configured_jobI) (use f [of c] in \<open>auto simp: j job_defs\<close>)
qed

lemma az_jobs_configured:
  assumes "ConvertAzureEventToCommands getenv mk cx ps r workflows = Ok (js, covers)" and "j \<in> set js"
    and "azc_EventType cx \<noteq> ''ms.vss-code.git-pullrequest-comment-event''"
  shows "configured_job workflows ps j"
proof -
  let ?pushed = "azc_EventType cx \<in> {''git.pullrequest.created'', ''git.pullrequest.updated'', ''git.pullrequest.reopened''}"
  note d = assms(1) [unfolded ConvertAzureEventToCommands_def Let_def]
  consider "?pushed" | "\<not> ?pushed" "azc_EventType cx = ''git.pullrequest.closed''"
    | "\<not> ?pushed" "azc_EventType cx \<noteq> ''git.pullrequest.closed''" "azc_EventType cx = ''git.pullrequest.merged''"
    | "\<not> ?pushed" "azc_EventType cx \<noteq> ''git.pullrequest.closed''" "azc_EventType cx \<noteq> ''git.pullrequest.merged''" by blast
  then show ?thesis
  proof cases
    case 1
    then have "az_event_jobs getenv mk cx OnPullRequestPushed workflows ps = Ok (js, covers)"
      using d by (simp only: if_True)
    then show ?thesis by (rule az_event_jobs_configured) (use assms(2) in auto)
  next
    case 2
    then have "az_event_jobs getenv mk cx OnPullRequestClosed workflows ps = Ok (js, covers)"
      using d by (simp only: if_True if_False simp_thms)
    then show ?thesis by (rule az_event_jobs_configured) (use assms(2) in auto)
  next
    case 3
    then have "res_bind (pr_event (azc_Event cx)) (\<lambda>(_, status).
        if status = ''completed'' then az_event_jobs getenv mk cx OnCommitToDefault workflows ps
        else Ok ([], True)) = Ok (js, covers)"
      using d by (simp only: if_True if_False simp_thms)
    then have "az_event_jobs getenv mk cx OnCommitToDefault workflows ps = Ok (js, covers)"
      using assms(2) by (auto split: if_splits)
    then show ?thesis by (rule az_event_jobs_configured) (use assms(2) in auto)
  next
    case 4
    then show ?thesis using d assms(3) by (simp only: if_False res.distinct)
  qed
qed


definition opened :: gh_pull_event where
  "opened = \<lparr>gp_Action = ''opened'', gp_Number = 7, gp_Merged = False, gp_BaseRef = ''main'', gp_HeadRef = ''br'',
     gp_DefaultBranch = ''main'', gp_FullName = ''o/r'', gp_Sender = ''u''\<rparr>"


section \<open>Names in comments\<close>

text \<open>GitLab and Bitbucket look for the project of a comment in lower case, so that a project with a capital
  letter is never found.\<close>

lemma requested_project_lower_case:
  "ParseProjectName (trim_space (to_lower ''digger plan -p Prod'')) = ''prod'' \<and>
   find_requested [named ''Prod''] ''prod'' = Err ''requested project not found in modified projects''"
  by code_simp

text \<open>A project whose name ends in \<open>-w\<close> is taken for a workspace flag without a value.\<close>

lemma project_name_taken_for_workspace:
  "ParseWorkspace ''digger plan -p api-w'' = Inl ''no value found after -w flag''"
  by code_simp

text \<open>A dash and a name in another word count as the flag too.\<close>

lemma comment_runs_two_commands:
  "map_sum (\<lambda>e. e) (map j_Commands) (case jobs_of_commands ''digger plan and then digger apply''
       (\<lambda>c p. Ok ((base_job (\<lambda>_. []) (\<lambda>_ _. None :: unit option) False defaultWorkflow p)\<lparr>j_Commands := [c]\<rparr>)) [named ''a''] of
     Ok js \<Rightarrow> Inr js | _ \<Rightarrow> Inl ()) = Inr [[''digger plan''], [''digger apply'']]"
  by code_simp

end
