(* ===== verification/GithubCi.thy ===== *)
theory GithubCi
  imports Prelude
begin

text \<open>
  GitHub's CI service, \<open>libs/ci/github/github.go\<close>: what it makes of the answers of GitHub's API.  The API is
  a parameter: a function for each request, over a state of the remote side.  A paged listing goes on until
  the API names no next page, so it is a partial function.
\<close>

section \<open>Pages\<close>

text \<open>A page of a listing: its items and the number of the next page, 0 for none.\<close>

type_synonym 'a pages = "int \<Rightarrow> error + 'a list \<times> int"

partial_function (option) fetch_pages :: "'a pages \<Rightarrow> int \<Rightarrow> 'a list \<Rightarrow> (error + 'a list) option" where
  "fetch_pages get page acc =
     (case get page of
        Inl e \<Rightarrow> Some (Inl e)
      | Inr (items, nextPage) \<Rightarrow>
          if nextPage = 0 then Some (Inr (acc @ items)) else fetch_pages get nextPage (acc @ items))"

declare fetch_pages.simps [code]

definition wrap_error :: "string \<Rightarrow> error + 'a \<Rightarrow> error + 'a" where
  "wrap_error msg r = (case r of Inl e \<Rightarrow> Inl (msg @ e) | Inr a \<Rightarrow> Inr a)"

record gh_file =
  fi_Filename :: string
  fi_PreviousFilename :: "string option"

text \<open>A renamed file counts under both names.\<close>

definition file_names :: "gh_file list \<Rightarrow> string list" where
  "file_names files = concat (map (\<lambda>f. fi_Filename f # (case fi_PreviousFilename f of None \<Rightarrow> [] | Some p \<Rightarrow> [p])) files)"

definition GetChangedFiles :: "gh_file pages \<Rightarrow> (error + string list) option" where
  "GetChangedFiles get =
     map_option (\<lambda>r. map_sum (\<lambda>e. ''error getting pull request: '' @ e) file_names r) (fetch_pages get 0 [])"

definition GetChangedFilesForCommit :: "gh_file pages \<Rightarrow> (error + string list) option" where
  "GetChangedFilesForCommit get =
     map_option (\<lambda>r. map_sum (\<lambda>e. ''error getting commitfiles: '' @ e) file_names r) (fetch_pages get 0 [])"

record gh_issue =
  is_Number :: int
  is_Title :: string
  is_Body :: string
  is_PullRequestLinks :: bool
  is_State :: string

record ci_issue =
  ci_ID :: int
  ci_Title :: string
  ci_Body :: string

definition ListIssues :: "gh_issue pages \<Rightarrow> (error + ci_issue list) option" where
  "ListIssues get =
     map_option (\<lambda>r. map_sum (\<lambda>e. ''error getting pull request files: '' @ e)
         (\<lambda>issues. map (\<lambda>i. \<lparr>ci_ID = is_Number i, ci_Title = is_Title i, ci_Body = is_Body i\<rparr>)
            (filter (\<lambda>i. \<not> is_PullRequestLinks i) issues)) r)
       (fetch_pages get 0 [])"

record gh_comment =
  gc_ID :: "int option"
  gc_Body :: "string option"
  gc_HTMLURL :: "string option"

record ci_comment =
  cc_Id :: string
  cc_Body :: "string option"
  cc_Url :: string

definition ci_comment_of :: "gh_comment \<Rightarrow> ci_comment" where
  "ci_comment_of c =
     \<lparr>cc_Id = (case gc_ID c of None \<Rightarrow> [] | Some n \<Rightarrow> itoa n), cc_Body = gc_Body c,
      cc_Url = (case gc_HTMLURL c of None \<Rightarrow> [] | Some u \<Rightarrow> u)\<rparr>"

definition GetComments :: "gh_comment pages \<Rightarrow> (error + ci_comment list) option" where
  "GetComments get =
     map_option (\<lambda>r. map_sum (\<lambda>e. ''error getting pull request comments: '' @ e) (map ci_comment_of) r)
       (fetch_pages get 0 [])"

section \<open>Requests\<close>

record gh_pull =
  pl_Mergeable :: bool
  pl_MergeableState :: string
  pl_Merged :: bool
  pl_State :: string
  pl_HeadRef :: string
  pl_HeadSHA :: string
  pl_BaseRef :: string
  pl_BaseSHA :: string

datatype gh_write = CloseIssue int | MergePull int string string | CreateStatus string string string
  | CreateComment int string | EditIssueComment int string | DeleteIssueComment int | CreateReaction int string

record 's gh_api =
  api_issue :: "int \<Rightarrow> 's \<Rightarrow> error + gh_issue"
  api_pull :: "int \<Rightarrow> 's \<Rightarrow> error + gh_pull"
  api_combined_status :: "string \<Rightarrow> 's \<Rightarrow> error + string"
  api_compare :: "string \<Rightarrow> string \<Rightarrow> 's \<Rightarrow> error + int \<times> int"
  api_reviews :: "int \<Rightarrow> 's \<Rightarrow> (string \<times> string) list \<times> error option"
  api_branch :: "string \<Rightarrow> 's \<Rightarrow> (error \<times> int option) + string \<times> string"
  api_teams :: "string \<Rightarrow> 's \<Rightarrow> error + (string \<times> string) list"
  api_members :: "string \<Rightarrow> string \<Rightarrow> 's \<Rightarrow> string list"
  api_write :: "gh_write \<Rightarrow> 's \<Rightarrow> (error + gh_comment) \<times> 's"

text \<open>Reading, with the message of its error, and writing.\<close>

definition gh_read :: "string \<Rightarrow> ('s \<Rightarrow> error + 'a) \<Rightarrow> ('a, 's) act" where
  "gh_read msg f s = (case f s of Inl e \<Rightarrow> (Err (msg @ e), s) | Inr a \<Rightarrow> (Ok a, s))"

definition gh_do :: "'s gh_api \<Rightarrow> (error \<Rightarrow> error) \<Rightarrow> gh_write \<Rightarrow> (gh_comment, 's) act" where
  "gh_do api msg x s =
     (case api_write api x s of (Inl e, s') \<Rightarrow> (Err (msg e), s') | (Inr c, s') \<Rightarrow> (Ok c, s'))"

definition IsPullRequest :: "'s gh_api \<Rightarrow> int \<Rightarrow> (bool, 's) act" where
  "IsPullRequest api n =
     act_bind (gh_read ''error getting pull request (as issue): '' (api_issue api n)) (\<lambda>i.
       act_ret (is_PullRequestLinks i))"

text \<open>A number may be an issue's: it has no status, can always be merged, and is merged when closed.\<close>

definition SetStatus :: "'s gh_api \<Rightarrow> int \<Rightarrow> string \<Rightarrow> string \<Rightarrow> (unit, 's) act" where
  "SetStatus api n status statusContext =
     act_bind (act_wrap (\<lambda>e. ''error checking if pull request is issue: '' @ e) (IsPullRequest api n)) (\<lambda>isPull.
     if \<not> isPull then act_ret ()
     else act_bind (gh_read ''error getting pull request : '' (api_pull api n)) (\<lambda>pr.
          act_bind (gh_do api (\<lambda>e. e) (CreateStatus (pl_HeadSHA pr) status statusContext)) (\<lambda>_. act_ret ())))"

definition GetCombinedPullRequestStatus :: "'s gh_api \<Rightarrow> int \<Rightarrow> (string, 's) act" where
  "GetCombinedPullRequestStatus api n =
     act_bind (gh_read ''error getting pull request: '' (api_pull api n)) (\<lambda>pr.
       gh_read ''error getting combined status: '' (api_combined_status api (pl_HeadSHA pr)))"

definition gh_MergePullRequest :: "'s gh_api \<Rightarrow> int \<Rightarrow> string \<Rightarrow> (unit, 's) act" where
  "gh_MergePullRequest api n mergeStrategy =
     act_bind (act_wrap (\<lambda>e. ''error checking if PR is issue: '' @ e) (IsPullRequest api n)) (\<lambda>isPull.
     if \<not> isPull then
       act_bind (gh_do api (\<lambda>e. ''error closing issue (merging): '' @ e) (CloseIssue n)) (\<lambda>_. act_ret ())
     else act_bind (gh_read ''error getting pull request: '' (api_pull api n)) (\<lambda>pr.
          act_bind (gh_do api (\<lambda>e. e) (MergePull n mergeStrategy (pl_HeadSHA pr))) (\<lambda>_. act_ret ())))"

definition isMergeableState :: "string \<Rightarrow> bool" where
  "isMergeableState mergeableState \<longleftrightarrow> to_lower mergeableState \<in> {''clean'', ''unstable'', ''has_hooks''}"

definition IsMergeable :: "'s gh_api \<Rightarrow> int \<Rightarrow> (bool, 's) act" where
  "IsMergeable api n =
     act_bind (act_wrap (\<lambda>e. ''could not get pull request type: '' @ e) (IsPullRequest api n)) (\<lambda>isPull.
     if \<not> isPull then act_ret True
     else act_bind (gh_read ''error getting pull request: '' (api_pull api n)) (\<lambda>pr.
          act_ret (pl_Mergeable pr \<and> isMergeableState (pl_MergeableState pr))))"

definition IsMerged :: "'s gh_api \<Rightarrow> int \<Rightarrow> (bool, 's) act" where
  "IsMerged api n =
     act_bind (gh_read ''error getting pull request (as issue): '' (api_issue api n)) (\<lambda>issue.
     if \<not> is_PullRequestLinks issue then act_ret (is_State issue = ''closed'')
     else act_bind (gh_read ''error getting pull request: '' (api_pull api n)) (\<lambda>pr. act_ret (pl_Merged pr)))"

definition IsDivergedFromBranch :: "'s gh_api \<Rightarrow> string \<Rightarrow> string \<Rightarrow> (bool, 's) act" where
  "IsDivergedFromBranch api sourceBranch targetBranch =
     act_bind (gh_read (''failed to compare '' @ targetBranch @ ''..'' @ sourceBranch @ '': '')
         (api_compare api targetBranch sourceBranch)) (\<lambda>(ahead, behind).
       act_ret (ahead > 0 \<and> behind > 0))"

definition IsClosed :: "'s gh_api \<Rightarrow> int \<Rightarrow> (bool, 's) act" where
  "IsClosed api n =
     act_bind (gh_read ''error getting pull request: '' (api_pull api n)) (\<lambda>pr. act_ret (pl_State pr = ''closed''))"

definition GetBranchName :: "'s gh_api \<Rightarrow> int \<Rightarrow> (string \<times> string \<times> string \<times> string, 's) act" where
  "GetBranchName api n =
     act_bind (gh_read ''error getting pull request: '' (api_pull api n)) (\<lambda>pr.
       act_ret (pl_HeadRef pr, pl_HeadSHA pr, pl_BaseRef pr, pl_BaseSHA pr))"

definition GetHeadCommitFromBranch :: "'s gh_api \<Rightarrow> string \<Rightarrow> (string \<times> string, 's) act" where
  "GetHeadCommitFromBranch api branch =
     gh_read ''could not retrive branch details: ''
       (\<lambda>s. case api_branch api branch s of Inl (e, _) \<Rightarrow> Inl e | Inr r \<Rightarrow> Inr r)"

definition CheckBranchExists :: "'s gh_api \<Rightarrow> string \<Rightarrow> (bool, 's) act" where
  "CheckBranchExists api branchName s =
     (case api_branch api branchName s of
        Inl (e, code) \<Rightarrow> if code = Some 404 then (Ok False, s) else (Err e, s)
      | Inr _ \<Rightarrow> (Ok True, s))"

text \<open>Every review that approved counts, whatever its author said later; an error comes with what was read.\<close>

definition GetApprovals :: "'s gh_api \<Rightarrow> int \<Rightarrow> 's \<Rightarrow> (string list \<times> error option) \<times> 's" where
  "GetApprovals api n s =
     (case api_reviews api n s of (reviews, err) \<Rightarrow>
        ((map snd (filter (\<lambda>(state, _). state = ''APPROVED'') reviews), err), s))"

text \<open>The teams of an organisation, with their slugs, that list the user; an error of listing members is no
  members.\<close>

definition GetUserTeams :: "'s gh_api \<Rightarrow> string \<Rightarrow> string \<Rightarrow> (string list, 's) act" where
  "GetUserTeams api organisation user =
     act_bind (gh_read ''failed to list github teams: '' (api_teams api organisation)) (\<lambda>teams s.
       (Ok (map snd (filter (\<lambda>(slug, _). user \<in> set (api_members api organisation slug s)) teams)), s))"

section \<open>Comments\<close>

definition gh_PublishComment :: "'s gh_api \<Rightarrow> int \<Rightarrow> string \<Rightarrow> (ci_comment, 's) act" where
  "gh_PublishComment api n comment =
     act_bind (gh_do api (\<lambda>e. ''could not publish comment to PR '' @ itoa n @ '', '' @ e) (CreateComment n comment)) (\<lambda>c.
     case (gc_ID c, gc_HTMLURL c) of
       (Some i, Some u) \<Rightarrow> act_ret \<lparr>cc_Id = itoa i, cc_Body = gc_Body c, cc_Url = u\<rparr>
     | _ \<Rightarrow> act_panic ''nil pointer dereference'')"

definition with_comment_id :: "string \<Rightarrow> (int \<Rightarrow> (unit, 's) act) \<Rightarrow> (unit, 's) act" where
  "with_comment_id i f =
     (case atoi i of None \<Rightarrow> act_err (''could not convert id '' @ i @ '' to i64: '') | Some n \<Rightarrow> f n)"

definition EditComment :: "'s gh_api \<Rightarrow> int \<Rightarrow> string \<Rightarrow> string \<Rightarrow> (unit, 's) act" where
  "EditComment api n i comment =
     with_comment_id i (\<lambda>c. act_bind (gh_do api (\<lambda>e. e) (EditIssueComment c comment)) (\<lambda>_. act_ret ()))"

definition DeleteComment :: "'s gh_api \<Rightarrow> string \<Rightarrow> (unit, 's) act" where
  "DeleteComment api i =
     with_comment_id i (\<lambda>c. act_bind (gh_do api (\<lambda>e. e) (DeleteIssueComment c)) (\<lambda>_. act_ret ()))"

definition CreateCommentReaction :: "'s gh_api \<Rightarrow> string \<Rightarrow> string \<Rightarrow> (unit, 's) act" where
  "CreateCommentReaction api i reaction =
     with_comment_id i (\<lambda>c.
       act_bind (gh_do api (\<lambda>e. ''could not addd reaction to comment: '' @ e) (CreateReaction c reaction)) (\<lambda>_. act_ret ()))"

section \<open>Check runs\<close>

record check_output =
  co_Title :: "string option"
  co_Summary :: "string option"
  co_Text :: "string option"
  co_Annotations :: "string list"
  co_Images :: "string list"

record check_run =
  ck_Name :: string
  ck_Status :: "string option"
  ck_Conclusion :: "string option"
  ck_Output :: "check_output option"
  ck_Actions :: "string list"

record check_run_update =
  cu_Status :: "string option"
  cu_Conclusion :: "string option"
  cu_Title :: "string option"
  cu_Summary :: "string option"
  cu_Text :: "string option"
  cu_Actions :: "string list"

definition or_else :: "'a option \<Rightarrow> 'a option \<Rightarrow> 'a option" where
  "or_else x y = (case x of Some a \<Rightarrow> Some a | None \<Rightarrow> y)"

text \<open>The options of the request to GitHub: what is not given stays as it was, but for the actions, and for
  the conclusion, which is left out of the request.\<close>

definition check_run_options :: "check_run \<Rightarrow> check_run_update \<Rightarrow> check_run" where
  "check_run_options existing u =
     (let old = (case ck_Output existing of
                   Some out \<Rightarrow> out
                 | None \<Rightarrow> \<lparr>co_Title = None, co_Summary = None, co_Text = None, co_Annotations = [], co_Images = []\<rparr>)
      in \<lparr>ck_Name = ck_Name existing,
          ck_Status = or_else (cu_Status u) (ck_Status existing),
          ck_Conclusion = (case cu_Conclusion u of Some c \<Rightarrow> if c \<noteq> [] then Some c else None | None \<Rightarrow> None),
          ck_Output = Some \<lparr>co_Title = or_else (cu_Title u) (co_Title old), co_Summary = or_else (cu_Summary u) (co_Summary old),
            co_Text = or_else (cu_Text u) (co_Text old), co_Annotations = co_Annotations old, co_Images = co_Images old\<rparr>,
          ck_Actions = cu_Actions u\<rparr>)"

definition UpdateCheckRun ::
  "(int \<Rightarrow> 's \<Rightarrow> error + check_run) \<Rightarrow> (int \<Rightarrow> check_run \<Rightarrow> 's \<Rightarrow> (error + check_run) \<times> 's) \<Rightarrow> string \<Rightarrow>
   check_run_update \<Rightarrow> (check_run, 's) act" where
  "UpdateCheckRun get_run update_run checkRunId options =
     (case atoi checkRunId of
        None \<Rightarrow> act_err (''could not convert id '' @ checkRunId @ '' to i64: '')
      | Some n \<Rightarrow>
          act_bind (gh_read ''could not fetch existing check run: '' (get_run n)) (\<lambda>existing s.
            case update_run n (check_run_options existing options) s of
              (Inl e, s') \<Rightarrow> (Err e, s')
            | (Inr r, s') \<Rightarrow> (Ok r, s')))"

section \<open>Properties\<close>

text \<open>A listing whose pages are numbered upwards, as GitHub's are, ends.\<close>

lemma fetch_pages_returns:
  assumes "\<And>p items q. get p = Inr (items, q) \<Longrightarrow> q \<noteq> 0 \<Longrightarrow> p < q \<and> q \<le> bound"
  shows "\<exists>r. fetch_pages get page acc = Some r"
proof (induction "nat (bound - page)" arbitrary: page acc rule: less_induct)
  case less
  show ?case
  proof (cases "get page")
    case (Inl e)
    then show ?thesis by (subst fetch_pages.simps) simp
  next
    case (Inr x)
    obtain items q where x: "x = (items, q)" by (cases x)
    show ?thesis
    proof (cases "q = 0")
      case False
      with assms Inr x have "nat (bound - q) < nat (bound - page)" by force
      from less [OF this] show ?thesis by (subst fetch_pages.simps) (simp add: Inr x False)
    qed (subst fetch_pages.simps, simp add: Inr x)
  qed
qed

text \<open>The pages of a listing, from a page on.\<close>

fun listing :: "'a pages \<Rightarrow> int \<Rightarrow> 'a list list \<Rightarrow> bool" where
  "listing get page [] = False"
| "listing get page [items] = (get page = Inr (items, 0))"
| "listing get page (items # rest) = (\<exists>q. get page = Inr (items, q) \<and> q \<noteq> 0 \<and> listing get q rest)"

lemma fetch_pages_complete:
  "listing get page ps \<Longrightarrow> fetch_pages get page acc = Some (Inr (acc @ concat ps))"
proof (induction get page ps arbitrary: acc rule: listing.induct)
  case (2 get page items)
  then show ?case by (subst fetch_pages.simps) simp
next
  case (3 get page items x rest)
  then show ?case by (subst fetch_pages.simps) auto
qed simp

text \<open>Claim C36: collecting the changed files of a pull request reads every page: when the API's pages are
  numbered upwards it returns, and for any listing of the API it returns both names of every file of every
  page, in order.\<close>

theorem changed_files_complete:
  shows "((\<forall>p items q. get p = Inr (items, q) \<longrightarrow> q = 0 \<or> p < q \<and> q \<le> bound) \<longrightarrow> (\<exists>r. GetChangedFiles get = Some r)) \<and>
    (listing get 0 ps \<longrightarrow> GetChangedFiles get = Some (Inr (file_names (concat ps))))"
proof (intro conjI impI)
  assume "\<forall>p items q. get p = Inr (items, q) \<longrightarrow> q = 0 \<or> p < q \<and> q \<le> bound"
  then have "\<exists>r. fetch_pages get 0 [] = Some r" by (intro fetch_pages_returns [where bound = bound]) blast
  then show "\<exists>r. GetChangedFiles get = Some r" by (auto simp: GetChangedFiles_def)
next
  assume "listing get 0 ps"
  from fetch_pages_complete [OF this, of "[]"] show "GetChangedFiles get = Some (Inr (file_names (concat ps)))"
    by (simp add: GetChangedFiles_def)
qed

definition two_pages :: "gh_file pages" where
  "two_pages p =
     (if p = 0 then Inr ([\<lparr>fi_Filename = ''a'', fi_PreviousFilename = None\<rparr>], 2)
      else Inr ([\<lparr>fi_Filename = ''b'', fi_PreviousFilename = Some ''c''\<rparr>], 0))"

theorem changed_files_complete_witness:
  "GetChangedFiles two_pages = Some (Inr [''a'', ''b'', ''c''])"
proof -
  have "listing two_pages 0 [[\<lparr>fi_Filename = ''a'', fi_PreviousFilename = None\<rparr>],
      [\<lparr>fi_Filename = ''b'', fi_PreviousFilename = Some ''c''\<rparr>]]"
    by (simp add: two_pages_def)
  from changed_files_complete [THEN conjunct2, THEN mp, OF this] show ?thesis by (simp add: file_names_def)
qed

text \<open>Requests that only read leave the remote side alone.\<close>

lemma reads_keep_state:
  "snd (IsPullRequest api n s) = s" "snd (IsMergeable api n s) = s" "snd (IsMerged api n s) = s"
  "snd (IsClosed api n s) = s" "snd (GetCombinedPullRequestStatus api n s) = s"
  by (auto simp: IsPullRequest_def IsMergeable_def IsMerged_def IsClosed_def GetCombinedPullRequestStatus_def
      gh_read_def act_bind_def act_wrap_def split: sum.splits)

text \<open>What is not given in an update of a check run stays.\<close>

lemma check_run_options_keep:
  "ck_Output existing = Some out \<Longrightarrow>
   ck_Output (check_run_options existing \<lparr>cu_Status = None, cu_Conclusion = c, cu_Title = None, cu_Summary = None,
     cu_Text = None, cu_Actions = a\<rparr>) = Some out \<and>
   ck_Status (check_run_options existing \<lparr>cu_Status = None, cu_Conclusion = c, cu_Title = None, cu_Summary = None,
     cu_Text = None, cu_Actions = a\<rparr>) = ck_Status existing"
  by (simp add: check_run_options_def or_else_def)

text \<open>A reviewer who approved and then asked for changes still counts as approving.\<close>

lemma withdrawn_approval_counts:
  "api_reviews api n s = ([(''APPROVED'', u), (''CHANGES_REQUESTED'', u)], None) \<Longrightarrow>
   fst (GetApprovals api n s) = ([u], None)"
  by (simp add: GetApprovals_def)

end
