(* ===== verification/Reporting.thy ===== *)
theory Reporting
  imports Events IacUtils RunWorld GithubCi
begin

text \<open>
  Comments on a pull request (\<open>libs/comment_utils\<close>): the reporters, immediate and lazy, with their strategies; the
  comments that group projects by the directories that impact them; the summary of a batch.  The calls of the
  CI service are the record \<open>comment_calls\<close>, what its documentation promises is the locale \<open>comment_service\<close>.
\<close>

section \<open>Formats\<close>

text \<open>\<open>fmt.Sprintf\<close> on the part of a format after its only operand was used: a directive without an operand
  leaves a mark.  (Explicit argument indexes are not in the model.)\<close>

abbreviation "format_digits s \<equiv> dropWhile (\<lambda>c. c \<in> set ''0123456789'') s"

definition after_flags :: "string \<Rightarrow> string" where
  "after_flags s =
     (let w = format_digits (dropWhile (\<lambda>c. c \<in> set ''#0+- '') s)
      in case w of [] \<Rightarrow> [] | c # r \<Rightarrow> if c = CHR ''.'' then format_digits r else w)"

lemma after_flags_length: "length (after_flags s) \<le> length s"
proof -
  have d: "length (format_digits r) \<le> length r" for r :: string by (rule length_dropWhile_le)
  define w where "w = format_digits (dropWhile (\<lambda>c. c \<in> set ''#0+- '') s)"
  have w: "length w \<le> length s" unfolding w_def using d length_dropWhile_le le_trans by blast
  show ?thesis
  proof (cases w)
    case Nil
    then show ?thesis by (simp only: after_flags_def Let_def w_def [symmetric] list.case list.size)
  next
    case (Cons c r)
    have "length (format_digits r) \<le> length s" using d [of r] w Cons by simp
    then show ?thesis using w by (simp only: after_flags_def Let_def w_def [symmetric] Cons list.case split: if_split) simp
  qed
qed

function format_rest :: "string \<Rightarrow> string" where
  "format_rest s =
     (case s of
        [] \<Rightarrow> []
      | c # t \<Rightarrow>
          if c \<noteq> CHR ''%'' then c # format_rest t
          else (case after_flags t of
                  [] \<Rightarrow> ''%!(NOVERB)''
                | v # r \<Rightarrow> if v = CHR ''%'' then v # format_rest r else ''%!'' @ v # ''(MISSING)'' @ format_rest r))"
  by pat_completeness auto
termination
proof (relation "measure length", goal_cases)
  case (3 s c t v r)
  then show ?case using after_flags_length [of t] by simp
next
  case (4 s c t v r)
  then show ?case using after_flags_length [of t] by simp
qed auto

declare format_rest.simps [simp del]

abbreviation "newline \<equiv> [CHR 0x0A]"

definition open_tag :: "bool \<Rightarrow> string" where
  "open_tag open = (if open then ''open='' @ [CHR 0x22] @ ''true'' @ [CHR 0x22] else [])"

text \<open>The summary and the text are part of the format.\<close>

definition GetTerraformOutputAsCollapsibleComment :: "string \<Rightarrow> bool \<Rightarrow> string \<Rightarrow> string" where
  "GetTerraformOutputAsCollapsibleComment summary open comment =
     ''<details '' @ open_tag open @
     format_rest (''><summary>'' @ summary @ ''</summary>'' @ newline @ newline @ ''```terraform'' @ newline @ comment @
       newline @ ''```'' @ newline @ ''</details>'')"

definition GetTerraformOutputAsComment :: "string \<Rightarrow> string \<Rightarrow> string" where
  "GetTerraformOutputAsComment summary comment =
     summary @ newline @ ''```terraform'' @ newline @ comment @ newline @ ''```''"

definition collapsible_comment :: "string \<Rightarrow> bool \<Rightarrow> string \<Rightarrow> string" where
  "collapsible_comment summary open comment =
     ''<details '' @ open_tag open @
     format_rest (''><summary>'' @ summary @ ''</summary>'' @ newline @ ''  '' @ comment @ newline @ ''</details>'')"

definition plain_comment :: "string \<Rightarrow> string \<Rightarrow> string" where
  "plain_comment summary comment = summary @ newline @ comment"

text \<open>The formatters that the runner gives its reports.\<close>

fun comment_text :: "formatter \<Rightarrow> string \<Rightarrow> string" where
  "comment_text (AsCollapsibleComment summary open) = collapsible_comment summary open"
| "comment_text (AsComment summary) = plain_comment summary"
| "comment_text (TerraformOutputAsCollapsibleComment summary open) = GetTerraformOutputAsCollapsibleComment summary open"
| "comment_text (TerraformOutputAsComment summary) = GetTerraformOutputAsComment summary"
| "comment_text IdentityFormatter = (\<lambda>r. r)"

section \<open>Strategies\<close>

record 's comment_calls =
  cl_GetComments :: "int \<Rightarrow> (ci_comment list, 's) act"
  cl_PublishComment :: "int \<Rightarrow> string \<Rightarrow> (ci_comment, 's) act"
  cl_EditComment :: "int \<Rightarrow> string \<Rightarrow> string \<Rightarrow> (unit, 's) act"

text \<open>The first comment that contains the title: its id, body and URL.\<close>

fun find_titled :: "ci_comment list \<Rightarrow> string \<Rightarrow> (string \<times> string \<times> string) res" where
  "find_titled [] title = Ok ([], [], [])"
| "find_titled (c # cs) title =
     (case cc_Body c of
        None \<Rightarrow> Panic ''nil pointer dereference''
      | Some b \<Rightarrow> if str_contains b title then Ok (cc_Id c, b, cc_Url c) else find_titled cs title)"

text \<open>\<open>lines[1 : len(lines)-1]\<close>.\<close>

definition inner_lines :: "string \<Rightarrow> string res" where
  "inner_lines commentBody =
     (let lines = split_char CHR 0x0A commentBody in
      if length lines < 2 then Panic ''slice bounds out of range''
      else Ok (join_with newline (butlast (tl lines))))"

definition titled_comment :: "bool \<Rightarrow> string \<Rightarrow> string \<Rightarrow> string" where
  "titled_comment supportsCollapsible title text =
     (if \<not> supportsCollapsible then plain_comment title text else collapsible_comment title False text)"

definition upsertComment ::
  "'s comment_calls \<Rightarrow> int \<Rightarrow> string \<Rightarrow> (string \<Rightarrow> string) \<Rightarrow> ci_comment list \<Rightarrow> string \<Rightarrow> bool \<Rightarrow> (string \<times> string, 's) act" where
  "upsertComment calls prNumber report0 reportFormatter cs reportTitle supportsCollapsible =
     (let report = reportFormatter report0 in
      act_bind (act_of (find_titled cs reportTitle)) (\<lambda>(commentId, commentBody, commentUrl).
        if commentId = [] then
          act_bind (act_wrap (\<lambda>e. ''error publishing comment: '' @ e)
              (cl_PublishComment calls prNumber (titled_comment supportsCollapsible reportTitle report))) (\<lambda>c.
            act_ret (cc_Id c, cc_Url c))
        else
          act_bind (act_of (inner_lines commentBody)) (\<lambda>inner.
          act_bind (act_wrap (\<lambda>e. ''error editing comment: '' @ e)
              (cl_EditComment calls prNumber commentId
                (titled_comment supportsCollapsible reportTitle (inner @ newline @ newline @ report @ newline)))) (\<lambda>_.
            act_ret (commentId, commentUrl)))))"

text \<open>The time of a run is given as it is formatted.\<close>

datatype report_strategy = CommentPerRunStrategy string string | LatestRunCommentStrategy | MultipleCommentsStrategy

fun report_title :: "report_strategy \<Rightarrow> string" where
  "report_title (CommentPerRunStrategy title timeOfRun) =
     (if title \<noteq> [] then title @ '' '' @ timeOfRun else ''Digger run report at '' @ timeOfRun)"
| "report_title _ = ''Digger latest run report''"

definition strategy_Report ::
  "report_strategy \<Rightarrow> 's comment_calls \<Rightarrow> int \<Rightarrow> string \<Rightarrow> (string \<Rightarrow> string) \<Rightarrow> bool \<Rightarrow> (string \<times> string, 's) act" where
  "strategy_Report strategy calls prNumber report reportFormatter supportsCollapsible =
     (if strategy = MultipleCommentsStrategy then
        act_bind (cl_PublishComment calls prNumber (reportFormatter report)) (\<lambda>c. act_ret (cc_Id c, cc_Url c))
      else
        act_bind (act_wrap (\<lambda>e. ''error getting comments: '' @ e) (cl_GetComments calls prNumber)) (\<lambda>cs.
          upsertComment calls prNumber report reportFormatter cs (report_title strategy) supportsCollapsible))"

section \<open>Reporters\<close>

record 's ci_reporter =
  cr_CiService :: "'s comment_calls"
  cr_PrNumber :: int
  cr_IsSupportMarkdown :: bool
  cr_ReportStrategy :: report_strategy

definition ci_Report :: "'s ci_reporter \<Rightarrow> string \<Rightarrow> (string \<Rightarrow> string) \<Rightarrow> (string \<times> string, 's) act" where
  "ci_Report r report reportFormatting =
     strategy_Report (cr_ReportStrategy r) (cr_CiService r) (cr_PrNumber r) report reportFormatting (cr_IsSupportMarkdown r)"

definition ci_Flush :: "'s ci_reporter \<Rightarrow> (string \<times> string, 's) act" where
  "ci_Flush r = act_ret ([], [])"

definition ci_Suppress :: "'s ci_reporter \<Rightarrow> (unit, 's) act" where
  "ci_Suppress r = act_ret ()"

text \<open>The lazy reporter is changed by its methods: the state is the reporter with the remote side.\<close>

record 's lazy_reporter =
  lz_CiReporter :: "'s ci_reporter"
  lz_isSuppressed :: bool
  lz_reports :: "string list"
  lz_formatters :: "(string \<Rightarrow> string) list"

definition NewCiReporterLazy :: "'s ci_reporter \<Rightarrow> 's lazy_reporter" where
  "NewCiReporterLazy r = \<lparr>lz_CiReporter = r, lz_isSuppressed = False, lz_reports = [], lz_formatters = []\<rparr>"

definition lazy_Report :: "string \<Rightarrow> (string \<Rightarrow> string) \<Rightarrow> (string \<times> string, 's lazy_reporter \<times> 's) act" where
  "lazy_Report report reportFormatting =
     (\<lambda>(z, s). (Ok ([], []), (z\<lparr>lz_reports := lz_reports z @ [report], lz_formatters := lz_formatters z @ [reportFormatting]\<rparr>, s)))"

text \<open>Reports in order, up to the first error; the last comment is the answer.\<close>

fun report_all ::
  "'s ci_reporter \<Rightarrow> (string \<times> (string \<Rightarrow> string)) list \<Rightarrow> string \<times> string \<Rightarrow> (string \<times> string, 's) act" where
  "report_all r [] answer = act_ret answer"
| "report_all r ((report, f) # rest) answer = act_bind (ci_Report r report f) (report_all r rest)"

definition lazy_Flush :: "(string \<times> string, 's lazy_reporter \<times> 's) act" where
  "lazy_Flush =
     (\<lambda>(z, s).
       if lz_isSuppressed z then (Ok ([], []), (z, s))
       else
         (case report_all (lz_CiReporter z) (zip (lz_reports z) (lz_formatters z)) ([], []) s of
            (Ok c, s') \<Rightarrow> (Ok c, (z\<lparr>lz_formatters := [], lz_reports := []\<rparr>, s'))
          | (Err e, s') \<Rightarrow> (Err e, (z, s'))
          | (Panic m, s') \<Rightarrow> (Panic m, (z, s'))))"

definition lazy_Suppress :: "(unit, 's lazy_reporter \<times> 's) act" where
  "lazy_Suppress = (\<lambda>(z, s). (Ok (), (z\<lparr>lz_isSuppressed := True\<rparr>, s)))"

definition lazy_SupportsMarkdown :: "'s lazy_reporter \<Rightarrow> bool" where
  "lazy_SupportsMarkdown z = cr_IsSupportMarkdown (lz_CiReporter z)"

section \<open>Comments on groups of projects\<close>

record source_details =
  sd_SourceLocation :: string
  sd_CommentId :: string
  sd_Projects :: "string list"

text \<open>\<open>m[k] = append(m[k], v)\<close>.\<close>

definition gather :: "'k \<Rightarrow> 'v \<Rightarrow> ('k \<times> 'v list) list \<Rightarrow> ('k \<times> 'v list) list" where
  "gather k v m = AList.update k ((case map_of m k of None \<Rightarrow> [] | Some vs \<Rightarrow> vs) @ [v]) m"

definition add_location :: "string \<Rightarrow> (string \<times> string list) list \<Rightarrow> string \<Rightarrow> (string \<times> string list) list" where
  "add_location projectName m location =
     gather location projectName m"

definition source_locations :: "(string \<times> source_mapping) list \<Rightarrow> (string \<times> string list) list" where
  "source_locations mapping = foldl (\<lambda>m (n, sm). foldl (add_location n) m (ImpactingLocations sm)) [] mapping"

text \<open>\<open>now\<close> is the time at which a location is posted.\<close>

fun post_locations ::
  "'s comment_calls \<Rightarrow> (string \<Rightarrow> string) \<Rightarrow> int \<Rightarrow> (string \<times> string list) list \<Rightarrow> source_details list \<Rightarrow>
   (source_details list, 's) act" where
  "post_locations calls now prNumber [] details = act_ret details"
| "post_locations calls now prNumber ((location, projects) # rest) details =
     act_bind (act_wrap (\<lambda>e. ''error reporting source module comment: '' @ e)
         (ci_Report \<lparr>cr_CiService = calls, cr_PrNumber = prNumber, cr_IsSupportMarkdown = False,
             cr_ReportStrategy = CommentPerRunStrategy (''Report for location: '' @ location) (now location)\<rparr>
           ''Comment Reporter'' (\<lambda>_. []))) (\<lambda>(commentId, _).
       post_locations calls now prNumber rest
         (details @ [\<lparr>sd_SourceLocation = location, sd_CommentId = commentId, sd_Projects = projects\<rparr>]))"

definition PostInitialSourceComments ::
  "'s comment_calls \<Rightarrow> (string \<Rightarrow> string) \<Rightarrow> int \<Rightarrow> (string \<times> source_mapping) list \<Rightarrow> (source_details list, 's) act" where
  "PostInitialSourceComments calls now prNumber mapping =
     post_locations calls now prNumber (source_locations mapping) []"

text \<open>The footprint of each job; one without a footprint has the empty one.\<close>

fun footprints_of ::
  "(string \<Rightarrow> error + footprint) \<Rightarrow> serialized_job list \<Rightarrow> (string \<times> footprint) list \<Rightarrow> error + (string \<times> footprint) list" where
  "footprints_of unmarshal [] m = Inr m"
| "footprints_of unmarshal (j # js) m =
     (if sj_PlanFootprint j = [] then footprints_of unmarshal js (AList.update (sj_ProjectName j) [] m)
      else (case unmarshal (sj_PlanFootprint j) of
              Inl e \<Rightarrow> Inl (''could not unmarshal footprint: '' @ e)
            | Inr f \<Rightarrow> footprints_of unmarshal js (AList.update (sj_ProjectName j) f m)))"

text \<open>The job of a project whose plan has succeeded.\<close>

definition succeeded_job :: "(string \<times> serialized_job) list \<Rightarrow> string \<Rightarrow> serialized_job option" where
  "succeeded_job jobs project =
     (case map_of jobs project of
        None \<Rightarrow> None
      | Some j \<Rightarrow> if sj_Status j = DiggerJobSucceeded then Some j else None)"

definition group_text ::
  "bool \<Rightarrow> (string \<times> serialized_job) list \<Rightarrow> (string \<times> string) list \<Rightarrow> nat \<times> string \<Rightarrow> string" where
  "group_text allSimilar jobs outputs entry =
     (case entry of (i, project) \<Rightarrow>
       case succeeded_job jobs project of
         None \<Rightarrow> []
       | Some j \<Rightarrow>
           GetTerraformOutputAsCollapsibleComment (''Plan for '' @ GetProjectAlias j) (i = 0 \<or> \<not> allSimilar)
             (case map_of outputs project of None \<Rightarrow> [] | Some t \<Rightarrow> t) @ newline)"

definition group_UpdateComment ::
  "'s comment_calls \<Rightarrow> (string \<Rightarrow> error + footprint) \<Rightarrow> serialized_job list \<Rightarrow> int \<Rightarrow> source_details list \<Rightarrow> string \<Rightarrow>
   (string \<times> string) list \<Rightarrow> (unit, 's) act" where
  "group_UpdateComment calls unmarshal jobs prNumber details location outputs =
     (case find (\<lambda>d. sd_SourceLocation d = location) details of
        None \<Rightarrow> act_err ''location not found in sourcedetails list''
      | Some d \<Rightarrow>
          (case footprints_of unmarshal jobs [] of
             Inl e \<Rightarrow> act_err e
           | Inr fps \<Rightarrow>
               let jobMap = JobsToProjectMap jobs;
                   done = filter (\<lambda>p. succeeded_job jobMap p \<noteq> None) (sd_Projects d);
                   similar = SimilarityCheck (map (\<lambda>p. case map_of fps p of None \<Rightarrow> [] | Some f \<Rightarrow> f) done)
               in act_wrap (\<lambda>e. ''failed to edit comment: '' @ e)
                    (cl_EditComment calls prNumber (sd_CommentId d)
                      (''# Group: '' @ location @ '' (similar: '' @ (if similar then ''true'' else ''false'') @ '')'' @ newline @
                       concat (map (group_text similar jobMap outputs) (enumerate 0 (sd_Projects d)))))))"

text \<open>Absent entries of the maps stand for the zero values.\<close>

record project_source_detail =
  ps_ProjectName :: string
  ps_Source :: string
  ps_Job :: "serialized_job option"
  ps_JobSpec :: "job_json option"
  ps_PlanFootPrint :: "footprint option"

definition group_by :: "('a \<Rightarrow> 'k) \<Rightarrow> 'a list \<Rightarrow> ('k \<times> 'a list) list" where
  "group_by key xs = foldl (\<lambda>m x. gather (key x) x m) [] xs"

definition ImpactedSourcesMapToGroupMapping ::
  "(string \<times> source_mapping) list \<Rightarrow> (string \<times> serialized_job) list \<Rightarrow> (string \<times> job_json) list \<Rightarrow>
   (string \<times> footprint) list \<Rightarrow> (string \<times> project_source_detail list) list" where
  "ImpactedSourcesMapToGroupMapping impactedSources jobs specs footprints =
     group_by ps_Source (concat (map (\<lambda>(n, sm).
       map (\<lambda>l. \<lparr>ps_ProjectName = n, ps_Source = l, ps_Job = map_of jobs n, ps_JobSpec = map_of specs n,
                 ps_PlanFootPrint = map_of footprints n\<rparr>) (ImpactingLocations sm)) impactedSources))"

section \<open>The summary of a batch\<close>

definition fenced :: "string \<Rightarrow> string" where
  "fenced command = ''```bash'' @ newline @ command @ newline @ ''```'' @ newline"

definition formatExampleCommands :: string where
  "formatExampleCommands =
     newline @ ''<details>'' @ newline @ ''  <summary>Instructions</summary>'' @ newline @ newline @
     [CHR 0xE2, CHR 0x8F, CHR 0xA9] @ '' To apply these changes, run the following command:'' @ newline @ newline @
     fenced ''digger apply'' @ newline @
     [CHR 0xF0, CHR 0x9F, CHR 0x9A, CHR 0xAE] @ '' To unlock the projects in this PR run the following command:'' @ newline @
     fenced ''digger unlock'' @ ''</details>'' @ newline"

definition link :: "string \<Rightarrow> string \<Rightarrow> string" where
  "link url text = ''<a href='' @ quoted url @ ''>'' @ text @ ''</a>''"

definition summary_row :: "string \<Rightarrow> serialized_job \<Rightarrow> string" where
  "summary_row jobTypeTitle j =
     ''|'' @ job_status_ToEmoji (sj_Status j) @ '' **'' @ GetProjectAlias j @ ''** |'' @
     link (case sj_WorkflowRunUrl j of None \<Rightarrow> ''#'' | Some u \<Rightarrow> u) (job_status_ToString (sj_Status j)) @ '' | '' @
     link (sj_PRCommentUrl j) jobTypeTitle @ '' | '' @ itoa (int (sj_ResourcesCreated j)) @ '' | '' @
     itoa (int (sj_ResourcesUpdated j)) @ '' | '' @ itoa (int (sj_ResourcesDeleted j)) @ ''|'' @ newline"

definition summary_message :: "string \<Rightarrow> serialized_job list \<Rightarrow> string" where
  "summary_message jobTypeTitle jobs =
     ''| Project | Status | '' @ jobTypeTitle @ '' | + | ~ | - |'' @ newline @
     ''|---------|--------|------|---|---|---|'' @ newline @
     concat (map (summary_row jobTypeTitle) jobs) @ newline @ formatExampleCommands"

abbreviation "GithubCommentMaxLength \<equiv> 65536 :: nat"

definition trimmed :: "string \<Rightarrow> string" where
  "trimmed message =
     (if GithubCommentMaxLength < length message then
        let footer = ''[trimmed]'';
            trimLength = length message - GithubCommentMaxLength + length footer
        in take (length message - trimLength) message @ footer
      else message)"

text \<open>\<open>title_case\<close> is the package \<open>cases\<close>.  A failed edit is only logged.\<close>

definition basic_UpdateComment ::
  "'s comment_calls \<Rightarrow> (string \<Rightarrow> error + job_json) \<Rightarrow> (string \<Rightarrow> string) \<Rightarrow> serialized_job list \<Rightarrow> int \<Rightarrow> string \<Rightarrow>
   (unit, 's) act" where
  "basic_UpdateComment calls unmarshal title_case jobs prNumber prCommentId =
     (case GetJobSpecs unmarshal jobs of
        Inl e \<Rightarrow> act_err e
      | Inr [] \<Rightarrow> act_ret ()
      | Inr (spec # _) \<Rightarrow>
          act_bind (act_try (cl_EditComment calls prNumber prCommentId
              (trimmed (summary_message (title_case (jj_JobType spec)) jobs)))) (\<lambda>_. act_ret ()))"

definition noop_UpdateComment :: "serialized_job list \<Rightarrow> int \<Rightarrow> string \<Rightarrow> (unit, 's) act" where
  "noop_UpdateComment jobs prNumber prCommentId = act_ret ()"

section \<open>GitHub\<close>

text \<open>The calls of GitHub's client; \<open>pages\<close> is the listing of a pull request's comments.  A listing that
  never ends has no answer.\<close>

definition github_comment_calls :: "'s gh_api \<Rightarrow> (int \<Rightarrow> 's \<Rightarrow> gh_comment pages) \<Rightarrow> 's comment_calls" where
  "github_comment_calls api pages =
     \<lparr>cl_GetComments = (\<lambda>n s.
        case GetComments (pages n s) of
          None \<Rightarrow> (Panic ''does not return'', s)
        | Some (Inl e) \<Rightarrow> (Err e, s)
        | Some (Inr cs) \<Rightarrow> (Ok cs, s)),
      cl_PublishComment = gh_PublishComment api, cl_EditComment = EditComment api\<rparr>"

end
