(* ===== verification/ReportingProps.thy ===== *)
theory ReportingProps
  imports Reporting
begin

text \<open>
  What reports leave on a pull request: the comment of a run gathers all its reports in order, the lazy
  reporter does what the immediate one does, the comments of directories cover the impacted projects, and the
  summary stays within GitHub's bound.
\<close>

section \<open>The service\<close>

text \<open>What the services document of the comments of a pull request, \<open>view\<close>: their ids and bodies in order.\<close>

locale comment_service =
  fixes calls :: "'s comment_calls"
    and view :: "'s \<Rightarrow> int \<Rightarrow> (string \<times> string) list"
  assumes get_law: "cl_GetComments calls n s = (Ok cs, s') \<Longrightarrow>
      map (\<lambda>c. (cc_Id c, cc_Body c)) cs = map (\<lambda>(i, b). (i, Some b)) (view s n)"
    and get_frame: "cl_GetComments calls n s = (g, s') \<Longrightarrow> view s' = view s"
    and publish_law: "cl_PublishComment calls n b s = (Ok c, s') \<Longrightarrow> view s' n = view s n @ [(cc_Id c, b)]"
    and publish_frame: "cl_PublishComment calls n b s = (p, s') \<Longrightarrow> n' \<noteq> n \<Longrightarrow> view s' n' = view s n'"
    and edit_law: "cl_EditComment calls n i b s = (Ok u, s') \<Longrightarrow> i \<in> fst ` set (view s n) \<Longrightarrow>
      view s' n = map (\<lambda>(j, t). (j, if j = i then b else t)) (view s n)"
    and edit_frame: "cl_EditComment calls n i b s = (q, s') \<Longrightarrow> i \<in> fst ` set (view s n) \<Longrightarrow> n' \<noteq> n \<Longrightarrow>
      view s' n' = view s n'"
    and ids: "distinct (map fst (view s n)) \<and> [] \<notin> fst ` set (view s n)"

section \<open>Texts\<close>

lemma format_rest_plain: "CHR ''%'' \<notin> set s \<Longrightarrow> format_rest s = s"
proof (induction s)
  case (Cons c s)
  then show ?case by (subst format_rest.simps) (simp add: eq_commute [of c])
qed (simp add: format_rest.simps)

lemma collapsible_comment_plain:
  assumes "CHR ''%'' \<notin> set title" and "CHR ''%'' \<notin> set text"
  shows "collapsible_comment title False text =
    ''<details ><summary>'' @ title @ ''</summary>'' @ newline @ ''  '' @ text @ newline @ ''</details>''"
  unfolding collapsible_comment_def open_tag_def using assms by (subst format_rest_plain) auto

lemma str_contains_append: "str_contains (a @ p @ b) p"
proof (induction a)
  case Nil
  then show ?case by (simp add: str_contains_def str_index.simps [of "p @ b"])
next
  case (Cons x a)
  then show ?case by (auto simp: str_contains_def str_index.simps [of "x # a @ p @ b"])
qed

lemma split_char_append: "split_char c (t @ c # s) = split_char c t @ split_char c s"
  by (induction t) (auto split: list.splits)

lemma inner_lines_middle:
  assumes "CHR 0x0A \<notin> set a" and "CHR 0x0A \<notin> set z"
  shows "inner_lines (a @ newline @ t @ newline @ z) = Ok t"
proof -
  have "split_char CHR 0x0A (a @ newline @ t @ newline @ z) = [a] @ split_char CHR 0x0A t @ [z]"
    using assms by (simp add: split_char_append split_char_single)
  then show ?thesis by (simp add: inner_lines_def Let_def butlast_append)
qed

text \<open>Reports in order, with nothing but white space between them.\<close>

definition woven :: "string list \<Rightarrow> string \<Rightarrow> bool" where
  "woven rs t \<longleftrightarrow>
     (\<exists>ws w. length ws = length rs \<and> (\<forall>v \<in> set (w # ws). list_all is_space v) \<and> t = concat (map2 (@) ws rs) @ w)"

lemma woven_step:
  assumes "woven rs t" and "list_all is_space a" "list_all is_space b" "list_all is_space c"
  shows "woven (rs @ [r]) (a @ t @ b @ r @ c)"
proof -
  from assms(1) obtain ws w where w: "length ws = length rs" "\<forall>v \<in> set (w # ws). list_all is_space v"
    "t = concat (map2 (@) ws rs) @ w" unfolding woven_def by blast
  show ?thesis
  proof (cases ws)
    case Nil
    then show ?thesis unfolding woven_def using assms w
      by (intro exI [of _ "[a @ w @ b]"] exI [of _ c]) auto
  next
    case (Cons v vs)
    then obtain r0 rs' where rs: "rs = r0 # rs'" using w(1) by (cases rs) auto
    show ?thesis unfolding woven_def using assms w
      by (intro exI [of _ "(a @ v) # vs @ [w @ b]"] exI [of _ c]) (auto simp: Cons rs)
  qed
qed

lemma woven_pad:
  assumes "woven rs t" and "rs \<noteq> []" and "list_all is_space a" "list_all is_space c"
  shows "woven rs (a @ t @ c)"
proof -
  from assms(1) obtain ws w where w: "length ws = length rs" "\<forall>v \<in> set (w # ws). list_all is_space v"
    "t = concat (map2 (@) ws rs) @ w" unfolding woven_def by blast
  with assms(2) obtain v vs r rs' where "ws = v # vs" "rs = r # rs'" by (cases ws; cases rs) auto
  then show ?thesis unfolding woven_def using assms w
    by (intro exI [of _ "(a @ v) # vs"] exI [of _ "w @ c"]) auto
qed

lemma woven_one: "list_all is_space a \<Longrightarrow> list_all is_space c \<Longrightarrow> woven [r] (a @ r @ c)"
  unfolding woven_def by (intro exI [of _ "[a]"] exI [of _ c]) simp

section \<open>The comment of a run\<close>

abbreviation "titled title t \<equiv> ''<details ><summary>'' @ title @ ''</summary>'' @ t @ ''</details>''"

text \<open>The comment with the title holds the reports; it is the first with the title.\<close>

definition gathered :: "(string \<times> string) list \<Rightarrow> string \<Rightarrow> string list \<Rightarrow> (string \<times> string) list \<Rightarrow> bool" where
  "gathered old title rs now \<longleftrightarrow>
     (if rs = [] then now = old
      else \<exists>i b. now = old @ [(i, titled title (newline @ ''  '' @ b @ newline))] \<and> woven rs b \<and> CHR ''%'' \<notin> set b)"

lemma find_titled_absent:
  assumes "map (\<lambda>c. (cc_Id c, cc_Body c)) cs = map (\<lambda>(i, b). (i, Some b)) old"
    and "\<forall>(i, b) \<in> set old. \<not> str_contains b title"
  shows "find_titled (cs @ ds) title = find_titled ds title"
  using assms
proof (induction cs arbitrary: old)
  case (Cons c cs)
  then show ?case by (cases old) (auto split: option.splits)
qed simp

lemma find_titled_last:
  assumes "map (\<lambda>c. (cc_Id c, cc_Body c)) cs = map (\<lambda>(i, b). (i, Some b)) (old @ [(i, t)])"
    and "\<forall>(i, b) \<in> set old. \<not> str_contains b title" and "str_contains t title"
  shows "\<exists>u. find_titled cs title = Ok (i, t, u)"
proof -
  from assms(1) obtain cs' c where c: "cs = cs' @ [c]" by (cases cs rule: rev_cases) auto
  with assms(1) have "map (\<lambda>c. (cc_Id c, cc_Body c)) cs' = map (\<lambda>(i, b). (i, Some b)) old"
    and "cc_Id c = i" "cc_Body c = Some t" by auto
  with find_titled_absent [of cs' old title "[c]"] assms(2,3) show ?thesis by (simp add: c)
qed

context comment_service
begin

lemma upsert_first:
  assumes "upsertComment calls n report f cs title True s = (Ok x, s')"
    and "map (\<lambda>c. (cc_Id c, cc_Body c)) cs = map (\<lambda>(i, b). (i, Some b)) (view s n)"
    and "\<forall>(i, b) \<in> set (view s n). \<not> str_contains b title"
  shows "\<exists>i. view s' n = view s n @ [(i, collapsible_comment title False (f report))]"
proof -
  have "find_titled cs title = Ok ([], [], [])" using find_titled_absent [OF assms(2,3), of "[]"] by simp
  with assms(1) obtain c where
    "cl_PublishComment calls n (collapsible_comment title False (f report)) s = (Ok c, s')"
    by (auto simp: upsertComment_def Let_def act_bind_def act_wrap_def titled_comment_def split: prod.splits res.splits)
  from publish_law [OF this] show ?thesis by blast
qed

lemma upsert_next:
  assumes "upsertComment calls n report f cs title True s = (Ok x, s')"
    and "map (\<lambda>c. (cc_Id c, cc_Body c)) cs = map (\<lambda>(i, b). (i, Some b)) (view s n)"
    and "view s n = old @ [(i, t)]" and "\<forall>(i, b) \<in> set old. \<not> str_contains b title" and "str_contains t title"
    and "inner_lines t = Ok b"
  shows "view s' n = old @ [(i, collapsible_comment title False (b @ newline @ newline @ f report @ newline))]"
proof -
  obtain u where u: "find_titled cs title = Ok (i, t, u)"
    using find_titled_last [OF _ assms(4,5), of cs i] assms(2,3) by auto
  have i: "i \<noteq> []" "i \<notin> fst ` set old" using ids [of s n] assms(3) by auto
  from assms(1) u i(1) assms(6) have
    "cl_EditComment calls n i (collapsible_comment title False (b @ newline @ newline @ f report @ newline)) s = (Ok (), s')"
    by (auto simp: upsertComment_def Let_def act_bind_def act_wrap_def titled_comment_def split: prod.splits res.splits)
  from edit_law [OF this] assms(3) i(2) show ?thesis by (force intro: map_idI)
qed

lemma ci_Report_gathers:
  assumes "ci_Report r report f s = (Ok x, s')" and "cr_CiService r = calls"
    and "cr_ReportStrategy r \<noteq> MultipleCommentsStrategy" and "cr_IsSupportMarkdown r"
    and title: "title = report_title (cr_ReportStrategy r)" "set title \<inter> {CHR ''%'', CHR 0x0A} = {}"
    and "CHR ''%'' \<notin> set (f report)"
    and old: "\<forall>(i, b) \<in> set old. \<not> str_contains b title" and "gathered old title rs (view s (cr_PrNumber r))"
  shows "gathered old title (rs @ [f report]) (view s' (cr_PrNumber r))"
proof -
  let ?n = "cr_PrNumber r"
  obtain cs s1 where get: "cl_GetComments calls ?n s = (Ok cs, s1)"
    and up: "upsertComment calls ?n report f cs title True s1 = (Ok x, s')"
    using assms(1-4) title(1) by (auto simp: ci_Report_def strategy_Report_def act_bind_def act_wrap_def split: prod.splits res.splits)
  note v = get_frame [OF get]
  have cs: "map (\<lambda>c. (cc_Id c, cc_Body c)) cs = map (\<lambda>(i, b). (i, Some b)) (view s1 ?n)"
    using get_law [OF get] v by simp
  have nl: "CHR ''%'' \<notin> set title" "CHR 0x0A \<notin> set title" using title(2) by auto
  show ?thesis
  proof (cases "rs = []")
    case True
    then have "view s1 ?n = old" using assms(9) v by (simp add: gathered_def)
    moreover from this obtain i where "view s' ?n = old @ [(i, collapsible_comment title False (f report))]"
      using upsert_first [OF up cs] old by auto
    ultimately show ?thesis
      using woven_one [of "[]" "[]" "f report"] assms(7) nl True by (auto simp: gathered_def collapsible_comment_plain)
  next
    case False
    then obtain i b where now: "view s1 ?n = old @ [(i, titled title (newline @ ''  '' @ b @ newline))]"
      and b: "woven rs b" "CHR ''%'' \<notin> set b"
      using assms(9) v by (auto simp: gathered_def)
    have inner: "inner_lines (titled title (newline @ ''  '' @ b @ newline)) = Ok (''  '' @ b)"
      using inner_lines_middle [of "''<details ><summary>'' @ title @ ''</summary>''" "''</details>''" "''  '' @ b"] nl by simp
    have has: "str_contains (titled title (newline @ ''  '' @ b @ newline)) title"
      using str_contains_append [of "''<details ><summary>''" title] by simp
    let ?b = "''  '' @ b @ (newline @ newline) @ f report @ newline"
    have "view s' ?n = old @ [(i, collapsible_comment title False ((''  '' @ b) @ newline @ newline @ f report @ newline))]"
      by (rule upsert_next [OF up cs now old has inner])
    moreover have "CHR ''%'' \<notin> set ?b" using b(2) assms(7) by simp
    moreover have "woven (rs @ [f report]) ?b" by (rule woven_step [OF b(1)]) (simp_all add: is_space_def)
    ultimately show ?thesis using nl by (auto simp: gathered_def collapsible_comment_plain)
  qed
qed

lemma report_all_gathers:
  assumes "report_all r rfs answer s = (Ok x, s')" and "cr_CiService r = calls"
    and "cr_ReportStrategy r \<noteq> MultipleCommentsStrategy" and "cr_IsSupportMarkdown r"
    and "title = report_title (cr_ReportStrategy r)" "set title \<inter> {CHR ''%'', CHR 0x0A} = {}"
    and "\<forall>(report, f) \<in> set rfs. CHR ''%'' \<notin> set (f report)"
    and "\<forall>(i, b) \<in> set old. \<not> str_contains b title" and "gathered old title rs (view s (cr_PrNumber r))"
  shows "gathered old title (rs @ map (\<lambda>(report, f). f report) rfs) (view s' (cr_PrNumber r))"
  using assms(1,7,9)
proof (induction rfs arbitrary: rs answer s)
  case (Cons rf rfs)
  obtain report f where rf: "rf = (report, f)" by fastforce
  from Cons.prems(1) obtain y s1 where one: "ci_Report r report f s = (Ok y, s1)"
    and rest: "report_all r rfs y s1 = (Ok x, s')"
    by (auto simp: rf act_bind_def split: prod.splits res.splits)
  have "gathered old title (rs @ [f report]) (view s1 (cr_PrNumber r))"
    using ci_Report_gathers [OF one assms(2-6) _ assms(8) Cons.prems(3)] Cons.prems(2) rf by simp
  from Cons.IH [OF rest _ this] Cons.prems(2) show ?case by (simp add: rf)
qed simp

end


section \<open>GitHub keeps the contract\<close>

text \<open>The documented behaviour of GitHub's comments, \<open>remote\<close>: numbered, listed in order, changed by their
  number.\<close>

locale github_comments =
  fixes api :: "'s gh_api"
    and pages :: "int \<Rightarrow> 's \<Rightarrow> gh_comment pages"
    and remote :: "'s \<Rightarrow> int \<Rightarrow> (int \<times> string) list"
  assumes pages_law: "\<exists>ps. listing (pages n s) 0 ps \<and>
      map (\<lambda>c. (gc_ID c, gc_Body c)) (concat ps) = map (\<lambda>(i, b). (Some i, Some b)) (remote s n)"
    and create_law: "api_write api (CreateComment n b) s = (Inr c, s') \<Longrightarrow> gc_ID c = Some i \<Longrightarrow>
      remote s' n = remote s n @ [(i, b)]"
    and create_frame: "api_write api (CreateComment n b) s = (r, s') \<Longrightarrow> n' \<noteq> n \<Longrightarrow> remote s' n' = remote s n'"
    and edit_law: "api_write api (EditIssueComment i b) s = (Inr c, s') \<Longrightarrow>
      remote s' n = map (\<lambda>(j, t). (j, if j = i then b else t)) (remote s n)"
    and edit_frame: "api_write api (EditIssueComment i b) s = (q, s') \<Longrightarrow> i \<notin> fst ` set (remote s n) \<Longrightarrow>
      remote s' n = remote s n"
    and numbers: "distinct (map fst (remote s n)) \<and> (\<forall>i \<in> fst ` set (remote s n). - (2 ^ 63) \<le> i \<and> i < 2 ^ 63)"
    and unshared: "n' \<noteq> n \<Longrightarrow> fst ` set (remote s n') \<inter> fst ` set (remote s n) = {}"
begin

abbreviation "texts s n \<equiv> map (\<lambda>(i, b). (itoa i, b)) (remote s n)"

lemma itoa_number: "i \<in> fst ` set (remote s n) \<Longrightarrow> atoi (itoa i) = Some i"
  using numbers [of s n] by (intro atoi_itoa) auto

lemma itoa_eq_number:
  "i \<in> fst ` set (remote s n) \<Longrightarrow> atoi t = Some j \<Longrightarrow> itoa i = t \<Longrightarrow> i = j"
  using itoa_number by fastforce

lemma get_comments:
  assumes "cl_GetComments (github_comment_calls api pages) n s = (Ok cs, s')"
  shows "map (\<lambda>c. (cc_Id c, cc_Body c)) cs = map (\<lambda>(i, b). (i, Some b)) (texts s n)"
proof -
  obtain ps where ps: "listing (pages n s) 0 ps"
    "map (\<lambda>c. (gc_ID c, gc_Body c)) (concat ps) = map (\<lambda>(i, b). (Some i, Some b)) (remote s n)"
    using pages_law by blast
  from assms fetch_pages_complete [OF ps(1), of "[]"] have cs: "cs = map ci_comment_of (concat ps)"
    by (simp add: github_comment_calls_def GetComments_def)
  have "map (\<lambda>c. (cc_Id (ci_comment_of c), cc_Body (ci_comment_of c))) xs = map (\<lambda>(i, b). (i, Some b)) (map (\<lambda>(i, b). (itoa i, b)) ys)"
    if "map (\<lambda>c. (gc_ID c, gc_Body c)) xs = map (\<lambda>(i, b). (Some i, Some b)) ys" for xs ys
    using that by (induction xs arbitrary: ys) (auto simp: ci_comment_of_def)
  from this [OF ps(2)] show ?thesis by (simp add: cs o_def)
qed

lemma edit_comment:
  assumes "EditComment api n t b s = (r, s')"
  obtains "s' = s" "atoi t = None" "\<exists>e. r = Err e" |
    i x where "atoi t = Some i" "api_write api (EditIssueComment i b) s = (x, s')" "r = Ok () \<longleftrightarrow> (\<exists>c. x = Inr c)"
  using assms
  by (auto simp: EditComment_def with_comment_id_def gh_do_def act_bind_def split: option.splits sum.splits prod.splits)

lemma itoa_texts: "t \<in> fst ` set (texts s n) \<longleftrightarrow> (\<exists>i \<in> fst ` set (remote s n). t = itoa i)"
  by force

lemma contract: "comment_service (github_comment_calls api pages) texts"
proof
  fix n n' :: int and s s' cs g b c p i u q
  let ?c = "github_comment_calls api pages"
  show "cl_GetComments ?c n s = (Ok cs, s') \<Longrightarrow> map (\<lambda>c. (cc_Id c, cc_Body c)) cs = map (\<lambda>(i, b). (i, Some b)) (texts s n)"
    by (rule get_comments)
  show "texts s' = texts s" if "cl_GetComments ?c n s = (g, s')"
    using that by (auto simp: github_comment_calls_def split: option.splits sum.splits)
  show "texts s' n = texts s n @ [(cc_Id c, b)]" if "cl_PublishComment ?c n b s = (Ok c, s')"
    using that create_law
    by (auto simp: github_comment_calls_def gh_PublishComment_def gh_do_def act_bind_def
        split: sum.splits prod.splits option.splits)
  show "texts s' n' = texts s n'" if "cl_PublishComment ?c n b s = (p, s')" "n' \<noteq> n"
    using that create_frame
    by (auto simp: github_comment_calls_def gh_PublishComment_def gh_do_def act_bind_def
        split: sum.splits prod.splits option.splits)
  show "texts s' n = map (\<lambda>(j, t). (j, if j = i then b else t)) (texts s n)"
    if e: "cl_EditComment ?c n i b s = (Ok u, s')" and i: "i \<in> fst ` set (texts s n)"
  proof -
    from e have "EditComment api n i b s = (Ok (), s')" by (simp add: github_comment_calls_def)
    then show ?thesis
    proof (cases rule: edit_comment)
      case (2 j x)
      then have r: "remote s' n = map (\<lambda>(k, t). (k, if k = j then b else t)) (remote s n)"
        using edit_law by blast
      from i obtain m where m: "m \<in> fst ` set (remote s n)" "i = itoa m" using itoa_texts by blast
      have mj: "m = j" using itoa_eq_number [OF m(1) 2(1)] m(2) by simp
      have same: "itoa k = i \<longleftrightarrow> k = j" if "(k, t) \<in> set (remote s n)" for k t
      proof -
        have "k \<in> fst ` set (remote s n)" using that by force
        from itoa_eq_number [OF this 2(1)] m(2) mj show ?thesis by metis
      qed
      show ?thesis unfolding r map_map by (rule map_cong [OF refl]) (clarsimp simp: same)
    qed simp
  qed
  show "texts s' n' = texts s n'"
    if e: "cl_EditComment ?c n i b s = (q, s')" and i: "i \<in> fst ` set (texts s n)" and n: "n' \<noteq> n"
  proof -
    from e have "EditComment api n i b s = (q, s')" by (simp add: github_comment_calls_def)
    then show ?thesis
    proof (cases rule: edit_comment)
      case (2 j x)
      from i obtain k where k: "k \<in> fst ` set (remote s n)" "i = itoa k" using itoa_texts by blast
      with itoa_eq_number [OF k(1) 2(1)] unshared [OF n, of s] have "j \<notin> fst ` set (remote s n')" by auto
      from edit_frame [OF 2(2) this] show ?thesis by simp
    qed simp
  qed
  show "distinct (map fst (texts s n)) \<and> [] \<notin> fst ` set (texts s n)"
  proof
    have "inj_on itoa (fst ` set (remote s n))" by (intro inj_onI) (metis itoa_number option.inject)
    moreover have "map fst (texts s n) = map itoa (map fst (remote s n))" by (simp add: comp_def case_prod_unfold)
    ultimately show "distinct (map fst (texts s n))" using numbers [of s n] by (simp only: distinct_map set_map)
    show "[] \<notin> fst ` set (texts s n)"
    proof
      assume "[] \<in> fst ` set (texts s n)"
      then obtain i where "i \<in> fst ` set (remote s n)" "itoa i = []" using itoa_texts by metis
      with itoa_number [of i] show False by (simp add: atoi_def)
    qed
  qed
qed

end

text \<open>A board of comments that behaves so: each has its pull request, its number and its body.\<close>

type_synonym board = "(int \<times> int \<times> string) list"

definition board_ok :: "board \<Rightarrow> bool" where
  "board_ok s \<longleftrightarrow> distinct (map (\<lambda>(n, i, b). i) s) \<and> list_all (\<lambda>(n, i, b). 0 \<le> i \<and> i < 2 ^ 63) s"

definition board_remote :: "board \<Rightarrow> int \<Rightarrow> (int \<times> string) list" where
  "board_remote s n = (if board_ok s then map snd (filter (\<lambda>(m, c). m = n) s) else [])"

definition board_fresh :: "board \<Rightarrow> int" where
  "board_fresh s = foldr (\<lambda>(n, i, b) m. max (i + 1) m) s 1"

definition board_comment :: "int \<times> string \<Rightarrow> gh_comment" where
  "board_comment = (\<lambda>(i, b). \<lparr>gc_ID = Some i, gc_Body = Some b, gc_HTMLURL = Some ''url''\<rparr>)"

fun board_write :: "gh_write \<Rightarrow> board \<Rightarrow> (error + gh_comment) \<times> board" where
  "board_write (CreateComment n b) s =
     (if board_ok s \<and> board_fresh s < 2 ^ 63
      then (Inr (board_comment (board_fresh s, b)), s @ [(n, board_fresh s, b)]) else (Inl ''refused'', s))"
| "board_write (EditIssueComment i b) s =
     (Inr (board_comment (i, b)), map (\<lambda>(m, j, t). (m, j, if j = i then b else t)) s)"
| "board_write x s = (Inl ''refused'', s)"

definition board_api :: "board gh_api" where
  "board_api =
     \<lparr>api_issue = (\<lambda>_ _. Inl []), api_pull = (\<lambda>_ _. Inl []), api_combined_status = (\<lambda>_ _. Inl []),
      api_compare = (\<lambda>_ _ _. Inl []), api_reviews = (\<lambda>_ _. ([], None)), api_branch = (\<lambda>_ _. Inl ([], None)),
      api_teams = (\<lambda>_ _. Inl []), api_members = (\<lambda>_ _ _. []), api_write = board_write\<rparr>"

definition board_pages :: "int \<Rightarrow> board \<Rightarrow> gh_comment pages" where
  "board_pages n s page = Inr (map board_comment (board_remote s n), 0)"

lemma board_fresh_bound: "(n, i, b) \<in> set s \<Longrightarrow> i < board_fresh s"
  unfolding board_fresh_def by (induction s) (auto simp: max_def)

lemma board_fresh_pos: "1 \<le> board_fresh s"
  unfolding board_fresh_def by (induction s) (auto simp: max_def)

lemma board_ok_edit: "board_ok (map (\<lambda>(m, j, t). (m, j, if j = i then b else t)) s) = board_ok s"
  by (auto simp: board_ok_def list_all_iff comp_def case_prod_unfold)

lemma board_edit_unseen:
  "i \<notin> fst ` snd ` {x \<in> set s. fst x = n} \<Longrightarrow>
   filter (\<lambda>(m, c). m = n) (map (\<lambda>(m, j, t). (m, j, if j = i then b else t)) s) = filter (\<lambda>(m, c). m = n) s"
  by (induction s) force+

interpretation board: github_comments board_api board_pages board_remote
proof
  fix n n' i :: int and b s c s' r q
  show "\<exists>ps. listing (board_pages n s) 0 ps \<and>
      map (\<lambda>c. (gc_ID c, gc_Body c)) (concat ps) = map (\<lambda>(i, b). (Some i, Some b)) (board_remote s n)"
    by (rule exI [of _ "[map board_comment (board_remote s n)]"])
      (simp add: board_pages_def board_comment_def comp_def case_prod_unfold)
  show "api_write board_api (CreateComment n b) s = (Inr c, s') \<Longrightarrow> gc_ID c = Some i \<Longrightarrow>
      board_remote s' n = board_remote s n @ [(i, b)]"
    using board_fresh_bound [of _ _ _ s] board_fresh_pos [of s]
    by (force simp: board_api_def board_comment_def board_remote_def board_ok_def split: if_splits)
  show "api_write board_api (CreateComment n b) s = (r, s') \<Longrightarrow> n' \<noteq> n \<Longrightarrow> board_remote s' n' = board_remote s n'"
    using board_fresh_bound [of _ _ _ s] board_fresh_pos [of s]
    by (force simp: board_api_def board_comment_def board_remote_def board_ok_def split: if_splits)
  show "api_write board_api (EditIssueComment i b) s = (Inr c, s') \<Longrightarrow>
      board_remote s' n = map (\<lambda>(j, t). (j, if j = i then b else t)) (board_remote s n)"
    by (auto simp: board_api_def board_remote_def board_ok_edit [unfolded case_prod_unfold] filter_map comp_def case_prod_unfold)
  show "api_write board_api (EditIssueComment i b) s = (q, s') \<Longrightarrow> i \<notin> fst ` set (board_remote s n) \<Longrightarrow>
      board_remote s' n = board_remote s n"
    using board_edit_unseen [of i s n b]
    by (auto simp: board_api_def board_remote_def board_ok_edit [unfolded case_prod_unfold] case_prod_unfold split: if_splits)
  show "distinct (map fst (board_remote s n)) \<and> (\<forall>i \<in> fst ` set (board_remote s n). - (2 ^ 63) \<le> i \<and> i < 2 ^ 63)"
    by (fastforce simp: board_remote_def board_ok_def list_all_iff distinct_map inj_on_def case_prod_unfold)
  show "n' \<noteq> n \<Longrightarrow> fst ` set (board_remote s n') \<inter> fst ` set (board_remote s n) = {}"
    by (force simp: board_remote_def board_ok_def distinct_map inj_on_def)
qed

interpretation github_service: comment_service "github_comment_calls board_api board_pages" board.texts
  by (rule board.contract)

definition run_reporter :: "board ci_reporter" where
  "run_reporter =
     \<lparr>cr_CiService = github_comment_calls board_api board_pages, cr_PrNumber = 7, cr_IsSupportMarkdown = True,
      cr_ReportStrategy = CommentPerRunStrategy ''Plan'' ''2024-01-01''\<rparr>"

definition two_reports :: "(string \<times> (string \<Rightarrow> string)) list" where
  "two_reports = [(''a'', comment_text IdentityFormatter), (''b'', comment_text (AsComment ''c''))]"


section \<open>The lazy reporter\<close>

fun lazy_run :: "(string \<times> (string \<Rightarrow> string)) list \<Rightarrow> (string \<times> string, 's lazy_reporter \<times> 's) act" where
  "lazy_run [] = lazy_Flush"
| "lazy_run ((report, f) # rest) = act_bind (lazy_Report report f) (\<lambda>_. lazy_run rest)"

lemma lazy_run_buffers:
  "lazy_run rfs (z, s) =
     lazy_Flush (z\<lparr>lz_reports := lz_reports z @ map fst rfs, lz_formatters := lz_formatters z @ map snd rfs\<rparr>, s)"
  by (induction rfs arbitrary: z) (auto simp: lazy_Report_def act_bind_def)

text \<open>Reporting lazily and then flushing does to the pull request exactly what reporting at once
  does, with the same answer.  The buffers are empty after a success; after an error they keep all reports,
  those sent included.\<close>

theorem lazy_reports_like_direct:
  shows "lazy_run rfs (NewCiReporterLazy r, s) =
    (case report_all r rfs ([], []) s of
       (Ok c, s') \<Rightarrow> (Ok c, (NewCiReporterLazy r, s'))
     | (Err e, s') \<Rightarrow> (Err e, ((NewCiReporterLazy r)\<lparr>lz_reports := map fst rfs, lz_formatters := map snd rfs\<rparr>, s'))
     | (Panic m, s') \<Rightarrow> (Panic m, ((NewCiReporterLazy r)\<lparr>lz_reports := map fst rfs, lz_formatters := map snd rfs\<rparr>, s')))"
  unfolding lazy_run_buffers
  by (simp add: NewCiReporterLazy_def lazy_Flush_def zip_map_fst_snd split: prod.splits res.splits)

text \<open>So a flush after a failed one sends what was sent again.\<close>

lemma failed_flush_keeps_reports: "lazy_Flush (z, s) = (Err e, (z', s')) \<Longrightarrow> z' = z"
  by (auto simp: lazy_Flush_def split: prod.splits res.splits if_splits)

lemma suppressed_flush_is_silent: "lz_isSuppressed z \<Longrightarrow> lazy_Flush (z, s) = (Ok ([], []), (z, s))"
  by (simp add: lazy_Flush_def)

text \<open>A service that does not fold comments loses the last line of a run's first report with its second; a comment
  of one line that mentions the title is enough for a panic.\<close>

lemma plain_report_loses_line:
  "case report_all (run_reporter\<lparr>cr_IsSupportMarkdown := False\<rparr>)
      [(''line 1'' @ newline @ ''line 2'', \<lambda>r. r), (''next'', \<lambda>r. r)] ([], []) [] of
     (Ok _, s') \<Rightarrow> board.texts s' 7 =
       [(''1'', ''Plan 2024-01-01'' @ newline @ ''line 1'' @ newline @ newline @ ''next'' @ newline)]
   | _ \<Rightarrow> False"
  by code_simp

lemma title_in_one_line_panics:
  "case ci_Report run_reporter ''a'' (\<lambda>r. r) [(7, 1, ''see Plan 2024-01-01'')] of (Panic _, _) \<Rightarrow> True | _ \<Rightarrow> False"
  by code_simp

lemma percent_sign_is_mangled: "format_rest ''100% done'' = ''100%!d(MISSING)one''"
  by code_simp

section \<open>Groups\<close>

lemma gather_keys: "set (map fst (gather k v m)) = insert k (set (map fst m))"
  by (auto simp: gather_def update_conv' dom_update)

lemma foldl_gather_distinct: "distinct (map fst m) \<Longrightarrow> distinct (map fst (foldl (\<lambda>m x. gather (key x) (val x) m) m xs))"
  by (induction xs arbitrary: m) (simp_all add: gather_def distinct_update)

lemma foldl_gather:
  "map_of (foldl (\<lambda>m x. gather (key x) (val x) m) m xs) k =
     (if k \<in> key ` set xs
      then Some ((case map_of m k of None \<Rightarrow> [] | Some vs \<Rightarrow> vs) @ map val (filter (\<lambda>x. key x = k) xs))
      else map_of m k)"
proof (induction xs arbitrary: m)
  case (Cons x xs)
  have "filter (\<lambda>x. key x = k) xs = []" if "k \<notin> key ` set xs" using that by (auto simp: filter_empty_conv)
  with Cons.IH [of "gather (key x) (val x) m"] show ?case by (auto simp: gather_def update_conv')
qed simp

lemma foldl_gather_keys:
  "set (map fst (foldl (\<lambda>m x. gather (key x) (val x) m) [] xs)) = key ` set xs"
proof -
  have "dom (map_of (foldl (\<lambda>m x. gather (key x) (val x) m) [] xs)) = key ` set xs"
    by (auto simp: foldl_gather dom_def)
  then show ?thesis by (simp add: dom_map_of_conv_image_fst)
qed

text \<open>A project with each location that impacts it.\<close>

definition located :: "(string \<times> source_mapping) list \<Rightarrow> (string \<times> string) list" where
  "located mapping = concat (map (\<lambda>(n, sm). map (\<lambda>l. (n, l)) (ImpactingLocations sm)) mapping)"

lemma source_locations_gather:
  "source_locations mapping = foldl (\<lambda>m x. gather (snd x) (fst x) m) [] (located mapping)"
proof -
  have one: "foldl (add_location n) m ls = foldl (\<lambda>m x. gather (snd x) (fst x) m) m (map (\<lambda>l. (n, l)) ls)" for n m ls
    by (induction ls arbitrary: m) (simp_all add: add_location_def)
  have "foldl (\<lambda>m (n, sm). foldl (add_location n) m (ImpactingLocations sm)) m mapping =
      foldl (\<lambda>m x. gather (snd x) (fst x) m) m (located mapping)" for m
    by (induction mapping arbitrary: m) (auto simp: located_def one)
  then show ?thesis by (simp add: source_locations_def)
qed

lemma post_locations_details:
  "post_locations calls now n ls details s = (Ok ds, s') \<Longrightarrow>
   map (\<lambda>d. (sd_SourceLocation d, sd_Projects d)) ds = map (\<lambda>d. (sd_SourceLocation d, sd_Projects d)) details @ ls"
  by (induction calls now n ls details arbitrary: s rule: post_locations.induct)
    (auto simp: act_bind_def act_wrap_def split: prod.splits res.splits)

text \<open>The initial comments cover the impacted projects: posting them gives one entry for each
  directory that impacts a project, with exactly the projects it impacts.\<close>

theorem source_comments_cover_projects:
  assumes "PostInitialSourceComments calls now n mapping s = (Ok ds, s')"
  shows "distinct (map sd_SourceLocation ds) \<and>
    set (map sd_SourceLocation ds) = (\<Union>(p, sm) \<in> set mapping. set (ImpactingLocations sm)) \<and>
    (\<forall>d \<in> set ds. set (sd_Projects d) =
       {p. \<exists>sm. (p, sm) \<in> set mapping \<and> sd_SourceLocation d \<in> set (ImpactingLocations sm)})"
proof -
  let ?m = "foldl (\<lambda>m x. gather (snd x) (fst x) m) [] (located mapping)"
  have ds: "map (\<lambda>d. (sd_SourceLocation d, sd_Projects d)) ds = ?m"
    using post_locations_details [of calls now n _ "[]" s ds s'] assms
    by (simp add: PostInitialSourceComments_def source_locations_gather)
  from arg_cong [OF ds, of "map fst"] have locations: "map sd_SourceLocation ds = map fst ?m" by (simp add: comp_def)
  have distinct: "distinct (map fst ?m)" by (rule foldl_gather_distinct) simp
  have keys: "set (map fst ?m) = snd ` set (located mapping)" by (rule foldl_gather_keys)
  have "set (sd_Projects d) = {p. (p, sd_SourceLocation d) \<in> set (located mapping)}" if "d \<in> set ds" for d
  proof -
    have "(sd_SourceLocation d, sd_Projects d) \<in> set ?m" using that unfolding ds [symmetric] by auto
    then have "map_of ?m (sd_SourceLocation d) = Some (sd_Projects d)" using distinct by simp
    then have "sd_Projects d = map fst (filter (\<lambda>x. snd x = sd_SourceLocation d) (located mapping))"
      by (simp add: foldl_gather split: if_splits)
    then show ?thesis by force
  qed
  moreover have "(p, l) \<in> set (located mapping) \<longleftrightarrow> (\<exists>sm. (p, sm) \<in> set mapping \<and> l \<in> set (ImpactingLocations sm))" for p l
    by (auto simp: located_def)
  moreover have "snd ` set (located mapping) = (\<Union>(p, sm) \<in> set mapping. set (ImpactingLocations sm))"
    by (force simp: located_def)
  ultimately show ?thesis using distinct keys unfolding locations by simp
qed

definition two_sources :: "(string \<times> source_mapping) list" where
  "two_sources = [(''p'', \<lparr>ImpactingLocations = [''a'', ''m'']\<rparr>), (''q'', \<lparr>ImpactingLocations = [''m'']\<rparr>)]"

theorem source_comments_cover_projects_witness:
  "case PostInitialSourceComments (github_comment_calls board_api board_pages) (\<lambda>_. ''now'') 7 two_sources [] of
     (Ok ds, s') \<Rightarrow> set (map sd_SourceLocation ds) = {''a'', ''m''}
   | _ \<Rightarrow> False"
proof -
  let ?r = "PostInitialSourceComments (github_comment_calls board_api board_pages) (\<lambda>_. ''now'') 7 two_sources []"
  have "case ?r of (Ok ds, s') \<Rightarrow> True | _ \<Rightarrow> False" by code_simp
  then obtain ds s' where r: "?r = (Ok ds, s')" by (auto split: prod.splits res.splits)
  from source_comments_cover_projects [OF this]
  have "set (map sd_SourceLocation ds) = (\<Union>(p, sm) \<in> set two_sources. set (ImpactingLocations sm))" by blast
  also have "\<dots> = {''a'', ''m''}" by (simp add: two_sources_def insert_commute)
  finally show ?thesis by (simp only: r prod.case res.case)
qed

section \<open>The bound of the summary\<close>

lemma trimmed_bound: "length (trimmed m) \<le> 65536"
  by (simp add: trimmed_def Let_def)

lemma trimmed_short: "length m \<le> 65536 \<Longrightarrow> trimmed m = m"
  by (simp add: trimmed_def)

text \<open>Updating the summary depends only on edits within GitHub's bound.\<close>

lemma summary_within_bound:
  assumes "\<And>t. length t \<le> 65536 \<Longrightarrow> cl_EditComment c n i t = cl_EditComment c' n i t"
  shows "basic_UpdateComment c unmarshal title_case jobs n i = basic_UpdateComment c' unmarshal title_case jobs n i"
  unfolding basic_UpdateComment_def using assms [OF trimmed_bound] by (simp split: sum.splits list.splits)

end
