(* ===== verification/S3Store.thy ===== *)
theory S3Store
  imports MemStore UnitRepo
begin

text \<open>
  The store of units in an S3 bucket (\<open>taco/internal/storage/s3store.go\<close>): a unit is an object with its state, an
  object with its lock while it is locked, and one object for each archived version.  The client of the SDK is
  the record \<open>s3_client\<close>, each of whose calls may fail with the code of an error; SHA-256, JSON, the clock and the
  format of a time in a key are parameters (\<open>s3_env\<close>).
\<close>

section \<open>The client\<close>

type_synonym ('a, 's) sdk_call = "'s \<Rightarrow> (string + 'a) \<times> 's"

record s3_object =
  ob_Key :: string
  ob_Size :: nat
  ob_LastModified :: "nat option"

text \<open>A page of a listing: its objects, whether it is truncated, and the token of the next.\<close>

record s3_page =
  pg_Contents :: "s3_object list"
  pg_IsTruncated :: bool
  pg_NextContinuationToken :: "string option"

text \<open>A copy names its source with the bucket; a head has the length and the time of an object.\<close>

record 's s3_client =
  s3_Head :: "string \<Rightarrow> (nat option \<times> nat option, 's) sdk_call"
  s3_Get :: "string \<Rightarrow> (bytes, 's) sdk_call"
  s3_Put :: "string \<Rightarrow> bytes \<Rightarrow> (unit, 's) sdk_call"
  s3_Copy :: "string \<Rightarrow> string \<Rightarrow> (unit, 's) sdk_call"
  s3_Delete :: "string \<Rightarrow> (unit, 's) sdk_call"
  s3_List :: "string \<Rightarrow> string option \<Rightarrow> (s3_page, 's) sdk_call"

text \<open>\<open>se_pages\<close> bounds the pages of a listing that are read.\<close>

record s3_env =
  se_bucket :: string
  se_prefix :: string
  se_max_versions_var :: string
  se_hash8 :: "bytes \<Rightarrow> string"
  se_format :: "nat \<Rightarrow> string"
  se_parse :: "string \<Rightarrow> nat option"
  se_marshal :: "lock_info \<Rightarrow> bytes"
  se_unmarshal :: "bytes \<Rightarrow> error + lock_info"
  se_now :: nat
  se_pages :: nat

definition NewS3Store :: "s3_env \<Rightarrow> string \<Rightarrow> string \<Rightarrow> error + s3_env" where
  "NewS3Store env bucket pre =
     (if bucket = [] then Inl ''s3 bucket is required''
      else Inr (env\<lparr>se_bucket := bucket, se_prefix := trim_set (\<lambda>c. c = CHR ''/'') pre\<rparr>))"

section \<open>Keys\<close>

definition s3_key :: "s3_env \<Rightarrow> string list \<Rightarrow> string" where
  "s3_key env parts =
     (let key = join_with ''/'' parts in if se_prefix env \<noteq> [] then se_prefix env @ ''/'' @ key else key)"

definition unit_name :: "string \<Rightarrow> string" where
  "unit_name = trim_set (\<lambda>c. c = CHR ''/'')"

definition s3_objKey :: "s3_env \<Rightarrow> string \<Rightarrow> string" where
  "s3_objKey env i = s3_key env [unit_name i, ''terraform.tfstate'']"

definition s3_lockKey :: "s3_env \<Rightarrow> string \<Rightarrow> string" where
  "s3_lockKey env i = s3_key env [unit_name i, ''terraform.tfstate.lock'']"

definition versionKeyWithHash :: "s3_env \<Rightarrow> string \<Rightarrow> nat \<Rightarrow> bytes \<Rightarrow> string" where
  "versionKeyWithHash env i timestamp data =
     s3_key env [unit_name i, ''versions'',
       ''v-'' @ se_format env timestamp @ ''-'' @ se_hash8 env data @ ''.tfstate'']"

definition isNotFound :: "string \<Rightarrow> bool" where
  "isNotFound code \<longleftrightarrow> code = ''NotFound'' \<or> code = ''NoSuchKey''"

definition sdk_error :: "string \<Rightarrow> store_error" where
  "sdk_error code = (if isNotFound code then ErrNotFound else OtherError code)"

section \<open>Calls\<close>

text \<open>A call whose error is looked at, and one whose error is returned.\<close>

definition sdk_try :: "('a, 's) sdk_call \<Rightarrow> (string + 'a, 's) store_op" where
  "sdk_try f s = (case f s of (r, s') \<Rightarrow> (Inr r, s'))"

definition sdk_do :: "(string \<Rightarrow> store_error) \<Rightarrow> ('a, 's) sdk_call \<Rightarrow> ('a, 's) store_op" where
  "sdk_do msg f s = (case f s of (Inl e, s') \<Rightarrow> (Inl (msg e), s') | (Inr a, s') \<Rightarrow> (Inr a, s'))"

definition op_fail :: "store_error \<Rightarrow> ('a, 's) store_op" where
  "op_fail e s = (Inl e, s)"

definition op_try :: "('a, 's) store_op \<Rightarrow> (store_error + 'a, 's) store_op" where
  "op_try f s = (case f s of (r, s') \<Rightarrow> (Inr r, s'))"

section \<open>Operations\<close>

definition initialState :: "string \<Rightarrow> bytes" where
  "initialState lineage =
     (let q = [CHR 0x22]; nl = [CHR 0x0A]; field = (\<lambda>n v. ''  '' @ q @ n @ q @ '': '' @ v) in
      ''{'' @ nl @ field ''version'' ''4,'' @ nl @ field ''terraform_version'' (q @ ''1.0.0'' @ q @ '','') @ nl @
      field ''serial'' ''0,'' @ nl @ field ''lineage'' (q @ lineage @ q @ '','') @ nl @
      field ''outputs'' ''{},'' @ nl @ field ''resources'' ''[]'' @ nl @ ''}'')"

definition s3_Create ::
  "s3_env \<Rightarrow> 's s3_client \<Rightarrow> string \<Rightarrow> nat \<Rightarrow> string \<Rightarrow> (unit_metadata, 's) store_op" where
  "s3_Create env c lineage now i =
     op_bind (sdk_try (s3_Head c (s3_objKey env i))) (\<lambda>r.
       case r of
         Inr _ \<Rightarrow> op_fail ErrAlreadyExists
       | Inl e \<Rightarrow>
           if \<not> isNotFound e then op_fail (OtherError e)
           else op_bind (sdk_do OtherError (s3_Put c (s3_objKey env i) (initialState lineage))) (\<lambda>_.
             op_return (zero_metadata\<lparr>um_ID := i, um_Size := length (initialState lineage), um_Updated := now\<rparr>)))"

definition s3_GetLock :: "s3_env \<Rightarrow> 's s3_client \<Rightarrow> string \<Rightarrow> (lock_info option, 's) store_op" where
  "s3_GetLock env c i =
     op_bind (sdk_try (s3_Get c (s3_lockKey env i))) (\<lambda>r.
       case r of
         Inl e \<Rightarrow> if isNotFound e then op_return None else op_fail (OtherError e)
       | Inr b \<Rightarrow>
           (case se_unmarshal env b of Inl e \<Rightarrow> op_fail (OtherError e) | Inr li \<Rightarrow> op_return (Some li)))"

text \<open>An error of reading the lock counts as no lock.\<close>

definition s3_GetMeta :: "s3_env \<Rightarrow> 's s3_client \<Rightarrow> string \<Rightarrow> (unit_metadata, 's) store_op" where
  "s3_GetMeta env c i =
     op_bind (sdk_do sdk_error (s3_Head c (s3_objKey env i))) (\<lambda>(size, modified).
     op_bind (op_try (s3_GetLock env c i)) (\<lambda>l.
       let li = (case l of Inl _ \<Rightarrow> None | Inr li \<Rightarrow> li) in
       op_return (zero_metadata\<lparr>um_ID := i, um_Size := (case size of None \<Rightarrow> 0 | Some n \<Rightarrow> n),
         um_Updated := (case modified of None \<Rightarrow> se_now env | Some t \<Rightarrow> t),
         um_Locked := li \<noteq> None, um_LockInfo := li\<rparr>)))"

text \<open>A listing, page by page.\<close>

fun list_objects ::
  "'s s3_client \<Rightarrow> string \<Rightarrow> nat \<Rightarrow> string option \<Rightarrow> s3_object list \<Rightarrow> (s3_object list, 's) store_op" where
  "list_objects c pre 0 token acc = op_fail (OtherError ''listing does not end'')"
| "list_objects c pre (Suc n) token acc =
     op_bind (sdk_do OtherError (s3_List c pre token)) (\<lambda>resp.
       if pg_IsTruncated resp \<and> pg_NextContinuationToken resp \<noteq> None
       then list_objects c pre n (pg_NextContinuationToken resp) (acc @ pg_Contents resp)
       else op_return (acc @ pg_Contents resp))"

definition list_prefix :: "s3_env \<Rightarrow> string \<Rightarrow> string" where
  "list_prefix env pre =
     (if trim_space pre \<noteq> [] then s3_key env [unit_name pre] @ ''/''
      else if se_prefix env \<noteq> [] then se_prefix env @ ''/'' else [])"

definition listed_unit :: "s3_env \<Rightarrow> s3_object \<Rightarrow> unit_metadata option" where
  "listed_unit env ob =
     (let k = ob_Key ob in
      if \<not> has_suffix k ''/terraform.tfstate'' then None
      else (let trimmed = (if se_prefix env \<noteq> [] then trim_prefix k (se_prefix env @ ''/'') else k)
            in Some (zero_metadata\<lparr>um_ID := trim_suffix trimmed ''/terraform.tfstate'', um_Size := ob_Size ob,
                 um_Updated := (case ob_LastModified ob of None \<Rightarrow> 0 | Some t \<Rightarrow> t)\<rparr>)))"

definition s3_ListUnits :: "s3_env \<Rightarrow> 's s3_client \<Rightarrow> string \<Rightarrow> (unit_metadata list, 's) store_op" where
  "s3_ListUnits env c pre =
     op_bind (list_objects c (list_prefix env pre) (se_pages env) None []) (\<lambda>obs.
       op_return (List.map_filter (listed_unit env) obs))"

definition s3_DeleteUnit :: "s3_env \<Rightarrow> 's s3_client \<Rightarrow> string \<Rightarrow> (unit, 's) store_op" where
  "s3_DeleteUnit env c i =
     op_bind (sdk_do sdk_error (s3_Head c (s3_objKey env i))) (\<lambda>_.
     op_bind (sdk_try (s3_Delete c (s3_objKey env i))) (\<lambda>_.
     op_bind (sdk_try (s3_Delete c (s3_lockKey env i))) (\<lambda>_.
       op_return ())))"

definition s3_Download :: "s3_env \<Rightarrow> 's s3_client \<Rightarrow> string \<Rightarrow> (bytes, 's) store_op" where
  "s3_Download env c i = sdk_do sdk_error (s3_Get c (s3_objKey env i))"

definition s3_DownloadBlob :: "s3_env \<Rightarrow> 's s3_client \<Rightarrow> string \<Rightarrow> (bytes, 's) store_op" where
  "s3_DownloadBlob env c key = sdk_do sdk_error (s3_Get c (s3_key env [key]))"

definition s3_UploadBlob :: "s3_env \<Rightarrow> 's s3_client \<Rightarrow> string \<Rightarrow> bytes \<Rightarrow> (unit, 's) store_op" where
  "s3_UploadBlob env c key data = sdk_do OtherError (s3_Put c (s3_key env [key]) data)"

section \<open>Versions\<close>

text \<open>\<open>filepath.Base\<close> of a key, and \<open>strings.LastIndex\<close> with the two parts around the dash.\<close>

definition base_name :: "string \<Rightarrow> string" where
  "base_name k =
     (if k = [] then ''.''
      else (let t = rev (dropWhile (\<lambda>c. c = CHR ''/'') (rev k)) in
            if t = [] then ''/'' else rev (takeWhile (\<lambda>c. c \<noteq> CHR ''/'') (rev t))))"

definition split_last_dash :: "string \<Rightarrow> (string \<times> string) option" where
  "split_last_dash s =
     (if CHR ''-'' \<in> set s
      then Some (rev (tl (dropWhile (\<lambda>c. c \<noteq> CHR ''-'') (rev s))), rev (takeWhile (\<lambda>c. c \<noteq> CHR ''-'') (rev s)))
      else None)"

definition listed_version :: "s3_env \<Rightarrow> s3_object \<Rightarrow> version_info option" where
  "listed_version env ob =
     (let filename = base_name (ob_Key ob) in
      if \<not> has_prefix filename ''v-'' \<or> \<not> has_suffix filename ''.tfstate'' then None
      else
        (case split_last_dash (trim_prefix (trim_suffix filename ''.tfstate'') ''v-'') of
           None \<Rightarrow> None
         | Some (timestampStr, hashStr) \<Rightarrow>
             map_option (\<lambda>t. \<lparr>vi_Timestamp = t, vi_Hash = hashStr, vi_Size = ob_Size ob, vi_S3Key = ob_Key ob\<rparr>)
               (se_parse env timestampStr)))"

definition s3_ListVersions :: "s3_env \<Rightarrow> 's s3_client \<Rightarrow> string \<Rightarrow> (version_info list, 's) store_op" where
  "s3_ListVersions env c i =
     op_bind (list_objects c (s3_key env [unit_name i, ''versions''] @ ''/'') (se_pages env) None []) (\<lambda>obs.
       op_return (newest_first vi_Timestamp (List.map_filter (listed_version env) obs)))"

text \<open>Every old version is tried, whatever fails.\<close>

fun delete_versions :: "'s s3_client \<Rightarrow> version_info list \<Rightarrow> string list \<Rightarrow> (string list, 's) store_op" where
  "delete_versions c [] errs = op_return errs"
| "delete_versions c (v # vs) errs =
     op_bind (sdk_try (s3_Delete c (vi_S3Key v))) (\<lambda>r.
       delete_versions c vs
         (case r of Inl e \<Rightarrow> errs @ [''failed to delete '' @ vi_S3Key v @ '': '' @ e] | Inr _ \<Rightarrow> errs))"

definition s3_cleanupOldVersions :: "s3_env \<Rightarrow> 's s3_client \<Rightarrow> string \<Rightarrow> (unit, 's) store_op" where
  "s3_cleanupOldVersions env c i =
     (let maxVersions = getMaxVersions (se_max_versions_var env) in
      op_bind (s3_ListVersions env c i) (\<lambda>versions.
        if length versions \<le> maxVersions then op_return ()
        else op_bind (delete_versions c (drop maxVersions versions) []) (\<lambda>errs.
          if errs \<noteq> [] then op_fail (OtherError (''cleanup partially failed: '' @ join_with ''; '' errs))
          else op_return ())))"

definition copy_source :: "s3_env \<Rightarrow> string \<Rightarrow> string" where
  "copy_source env k = se_bucket env @ ''/'' @ k"

text \<open>The current state becomes a version.\<close>

definition s3_archive :: "s3_env \<Rightarrow> 's s3_client \<Rightarrow> nat \<Rightarrow> string \<Rightarrow> string \<Rightarrow> (unit, 's) store_op" where
  "s3_archive env c now i msg =
     op_bind (op_try (s3_Download env c i)) (\<lambda>r.
       case r of
         Inl e \<Rightarrow> op_fail (WrappedError e ''failed to read current state for archiving: '')
       | Inr currentData \<Rightarrow>
           sdk_do (\<lambda>e. OtherError (msg @ e))
             (s3_Copy c (copy_source env (s3_objKey env i)) (versionKeyWithHash env i now currentData)))"

definition s3_Upload ::
  "s3_env \<Rightarrow> 's s3_client \<Rightarrow> nat \<Rightarrow> string \<Rightarrow> bytes \<Rightarrow> string \<Rightarrow> (unit, 's) store_op" where
  "s3_Upload env c now i data lockID =
     op_bind (s3_GetMeta env c i) (\<lambda>meta.
       if lock_refuses lockID meta then op_fail ErrLockConflict
       else
         op_bind
           (if um_Size meta > 0 then
              op_bind (s3_archive env c now i ''failed to archive current version: '') (\<lambda>_.
              op_bind (op_try (s3_cleanupOldVersions env c i)) (\<lambda>_. op_return ()))
            else op_return ()) (\<lambda>_.
         sdk_do OtherError (s3_Put c (s3_objKey env i) data)))"

definition s3_RestoreVersion ::
  "s3_env \<Rightarrow> 's s3_client \<Rightarrow> nat \<Rightarrow> string \<Rightarrow> nat \<Rightarrow> string \<Rightarrow> (unit, 's) store_op" where
  "s3_RestoreVersion env c now i versionTimestamp lockID =
     op_bind (op_try (s3_ListVersions env c i)) (\<lambda>r.
       case r of
         Inl e \<Rightarrow> op_fail (WrappedError e ''failed to list versions: '')
       | Inr versions \<Rightarrow>
           (case find (\<lambda>v. vi_Timestamp v = versionTimestamp) versions of
              None \<Rightarrow> op_fail (OtherError ''version not found for timestamp'')
            | Some targetVersion \<Rightarrow>
                op_bind (s3_GetMeta env c i) (\<lambda>meta.
                  if lock_refuses lockID meta then op_fail ErrLockConflict
                  else
                    op_bind
                      (if um_Size meta > 0 then s3_archive env c now i ''failed to archive current before restore: ''
                       else op_return ()) (\<lambda>_.
                    sdk_do (\<lambda>e. OtherError (''failed to restore version: '' @ e))
                      (s3_Copy c (copy_source env (vi_S3Key targetVersion)) (s3_objKey env i))))))"

section \<open>Locks\<close>

text \<open>\<open>Lock\<close> looks first and writes then.\<close>

definition s3_lock_free :: "s3_env \<Rightarrow> 's s3_client \<Rightarrow> string \<Rightarrow> (unit, 's) store_op" where
  "s3_lock_free env c i =
     op_bind (sdk_do sdk_error (s3_Head c (s3_objKey env i))) (\<lambda>_.
     op_bind (sdk_try (s3_Head c (s3_lockKey env i))) (\<lambda>r.
       case r of
         Inr _ \<Rightarrow> op_fail (WrappedError ErrLockConflict ''unit already locked'')
       | Inl e \<Rightarrow> if \<not> isNotFound e then op_fail (OtherError e) else op_return ()))"

definition s3_lock_put :: "s3_env \<Rightarrow> 's s3_client \<Rightarrow> string \<Rightarrow> lock_info \<Rightarrow> (unit, 's) store_op" where
  "s3_lock_put env c i info = sdk_do OtherError (s3_Put c (s3_lockKey env i) (se_marshal env info))"

definition s3_Lock :: "s3_env \<Rightarrow> 's s3_client \<Rightarrow> string \<Rightarrow> lock_info \<Rightarrow> (unit, 's) store_op" where
  "s3_Lock env c i info = op_bind (s3_lock_free env c i) (\<lambda>_. s3_lock_put env c i info)"

definition s3_Unlock :: "s3_env \<Rightarrow> 's s3_client \<Rightarrow> string \<Rightarrow> string \<Rightarrow> (unit, 's) store_op" where
  "s3_Unlock env c i lockID =
     op_bind (s3_GetLock env c i) (\<lambda>l.
       case l of
         None \<Rightarrow> op_fail (OtherError ''unit is not locked'')
       | Some li \<Rightarrow>
           if li_ID li \<noteq> lockID then op_fail ErrLockConflict
           else sdk_do OtherError (s3_Delete c (s3_lockKey env i)))"

definition s3_ops :: "s3_env \<Rightarrow> 's s3_client \<Rightarrow> 's state_ops" where
  "s3_ops env c =
     \<lparr>so_Get = s3_GetMeta env c, so_Download = s3_Download env c, so_GetLock = s3_GetLock env c,
      so_Upload = s3_Upload env c, so_Lock = s3_Lock env c, so_Unlock = s3_Unlock env c\<rparr>"

end
