(* ===== verification/S3StoreProps.thy ===== *)
theory S3StoreProps
  imports S3Store BackendProps
begin

text \<open>
  What the store in S3 keeps: over a bucket with the documented behaviour, and as long as the objects of locks can
  be read, no call without its lock ID changes a locked unit.  The lemmas at the end show why both conditions on
  the locks are needed.
\<close>

section \<open>The contract of the bucket\<close>

text \<open>\<open>objects\<close> is what the bucket holds.  A write that fails may still have been done.\<close>

locale s3_api =
  fixes env :: s3_env
    and c :: "'s s3_client"
    and objects :: "'s \<Rightarrow> string \<Rightarrow> bytes option"
  assumes head_found: "s3_Head c k s = (Inr h, s') \<Longrightarrow> objects s k \<noteq> None \<and> fst h = map_option length (objects s k)"
    and head_missing: "s3_Head c k s = (Inl e, s') \<Longrightarrow> isNotFound e \<Longrightarrow> objects s k = None"
    and head_frame: "s3_Head c k s = (r, s') \<Longrightarrow> objects s' = objects s"
    and get_found: "s3_Get c k s = (Inr b, s') \<Longrightarrow> objects s k = Some b"
    and get_missing: "s3_Get c k s = (Inl e, s') \<Longrightarrow> isNotFound e \<Longrightarrow> objects s k = None"
    and get_frame: "s3_Get c k s = (g, s') \<Longrightarrow> objects s' = objects s"
    and put_done: "s3_Put c k b s = (Inr u, s') \<Longrightarrow> objects s' = (objects s)(k \<mapsto> b)"
    and put_failed: "s3_Put c k b s = (Inl e, s') \<Longrightarrow> objects s' = objects s \<or> objects s' = (objects s)(k \<mapsto> b)"
    and copy_done: "s3_Copy c (copy_source env j) k s = (Inr u, s') \<Longrightarrow>
      objects s j \<noteq> None \<and> objects s' = (objects s)(k := objects s j)"
    and copy_failed: "s3_Copy c src k s = (Inl e, s') \<Longrightarrow>
      objects s' = objects s \<or> (\<exists>b. objects s' = (objects s)(k \<mapsto> b))"
    and delete_done: "s3_Delete c k s = (Inr u, s') \<Longrightarrow> objects s' = (objects s)(k := None)"
    and delete_failed: "s3_Delete c k s = (Inl e, s') \<Longrightarrow>
      objects s' = objects s \<or> objects s' = (objects s)(k := None)"
    and list_frame: "s3_List c pre token s = (l, s') \<Longrightarrow> objects s' = objects s"
    and unmarshal_marshal: "se_unmarshal env (se_marshal env li) = Inr li"
    and plain_names: "CHR ''/'' \<notin> set (se_format env t)" "CHR ''/'' \<notin> set (se_hash8 env b)"

text \<open>The bucket answers whether there is a lock.\<close>

locale s3_locks_readable = s3_api env c objects
  for env :: s3_env and c :: "'s s3_client" and objects :: "'s \<Rightarrow> string \<Rightarrow> bytes option" +
  assumes lock_read: "s3_Get c (s3_lockKey env i) s = (Inl e, s') \<Longrightarrow> isNotFound e"

section \<open>Keys\<close>

lemma base_name_segment:
  assumes "CHR ''/'' \<notin> set t" and "t \<noteq> []"
  shows "base_name (p @ ''/'' @ t) = t"
proof -
  let ?k = "p @ ''/'' @ t"
  obtain x y where t: "rev t = x # y" using assms(2) by (cases "rev t") auto
  have "x \<noteq> CHR ''/''" using assms(1) t by (metis list.set_intros(1) set_rev)
  then have "dropWhile (\<lambda>c. c = CHR ''/'') (rev ?k) = rev ?k" by (simp add: t)
  moreover have "takeWhile (\<lambda>c. c \<noteq> CHR ''/'') (rev ?k) = rev t"
    using assms(1) by (simp add: takeWhile_append)
  ultimately show ?thesis by (simp only: base_name_def Let_def rev_rev_ident append_is_Nil_conv list.distinct simp_thms if_False)
qed

definition key_prefix :: "s3_env \<Rightarrow> string" where
  "key_prefix env = (if se_prefix env \<noteq> [] then se_prefix env @ ''/'' else [])"

lemma s3_key_two: "s3_key env [a, b] = key_prefix env @ a @ ''/'' @ b"
  by (simp add: s3_key_def key_prefix_def)

lemma s3_key_three: "s3_key env [a, b, d] = (key_prefix env @ a @ ''/'' @ b) @ ''/'' @ d"
  by (simp add: s3_key_def key_prefix_def Let_def)

lemma objKey_eq: "s3_objKey env i = key_prefix env @ unit_name i @ ''/'' @ ''terraform.tfstate''"
  by (simp only: s3_objKey_def s3_key_two)

lemma lockKey_eq: "s3_lockKey env i = key_prefix env @ unit_name i @ ''/'' @ ''terraform.tfstate.lock''"
  by (simp only: s3_lockKey_def s3_key_two)

text \<open>The kinds of keys are told apart by the last segment.\<close>

lemma base_names:
  "base_name (s3_objKey env i) = ''terraform.tfstate''"
  "base_name (s3_lockKey env i) = ''terraform.tfstate.lock''"
  using base_name_segment [of "''terraform.tfstate''" "key_prefix env @ unit_name i"]
    base_name_segment [of "''terraform.tfstate.lock''" "key_prefix env @ unit_name i"]
  by (simp_all add: objKey_eq lockKey_eq)

lemma unit_name_of_key:
  "s3_objKey env i = s3_objKey env j \<longleftrightarrow> unit_name i = unit_name j"
  "s3_lockKey env i = s3_lockKey env j \<longleftrightarrow> unit_name i = unit_name j"
  by (simp_all add: objKey_eq lockKey_eq)

lemma keys_differ: "s3_objKey env i \<noteq> s3_lockKey env j"
proof
  assume "s3_objKey env i = s3_lockKey env j"
  from arg_cong [OF this, of base_name] show False by (simp add: base_names)
qed

section \<open>The abstraction\<close>

abbreviation "state_key env k \<equiv> key_prefix env @ k @ ''/'' @ ''terraform.tfstate''"
abbreviation "lock_key env k \<equiv> key_prefix env @ k @ ''/'' @ ''terraform.tfstate.lock''"

definition s3_content :: "s3_env \<Rightarrow> ('s \<Rightarrow> string \<Rightarrow> bytes option) \<Rightarrow> 's \<Rightarrow> string \<Rightarrow> bytes option" where
  "s3_content env objects s k = objects s (state_key env k)"

definition s3_holder :: "s3_env \<Rightarrow> ('s \<Rightarrow> string \<Rightarrow> bytes option) \<Rightarrow> 's \<Rightarrow> string \<Rightarrow> lock_info option" where
  "s3_holder env objects s k =
     Option.bind (objects s (lock_key env k)) (\<lambda>b. case se_unmarshal env b of Inl _ \<Rightarrow> None | Inr li \<Rightarrow> Some li)"

text \<open>The objects of locks are locks.\<close>

definition s3_inv :: "s3_env \<Rightarrow> ('s \<Rightarrow> string \<Rightarrow> bytes option) \<Rightarrow> 's \<Rightarrow> bool" where
  "s3_inv env objects s \<longleftrightarrow> (\<forall>k b. objects s (lock_key env k) = Some b \<longrightarrow> (\<exists>li. se_unmarshal env b = Inr li))"

text \<open>An operation that changes only the objects of the keys \<open>K\<close>.\<close>

definition changes_only :: "('s \<Rightarrow> string \<Rightarrow> bytes option) \<Rightarrow> string set \<Rightarrow> ('a, 's) store_op \<Rightarrow> bool" where
  "changes_only objects K f \<longleftrightarrow> (\<forall>s r s' k. f s = (r, s') \<longrightarrow> k \<notin> K \<longrightarrow> objects s' k = objects s k)"

lemma changes_onlyD: "changes_only objects K f \<Longrightarrow> f s = (r, s') \<Longrightarrow> k \<notin> K \<Longrightarrow> objects s' k = objects s k"
  unfolding changes_only_def by blast

lemma changes_only_mono: "changes_only objects K f \<Longrightarrow> K \<subseteq> K' \<Longrightarrow> changes_only objects K' f"
  unfolding changes_only_def by blast

lemma changes_only_bind:
  assumes "changes_only objects K f" and "\<And>s a s'. f s = (Inr a, s') \<Longrightarrow> changes_only objects K (g a)"
  shows "changes_only objects K (op_bind f g)"
  unfolding changes_only_def
proof (intro allI impI)
  fix s r s' k
  assume r: "op_bind f g s = (r, s')" and k: "k \<notin> K"
  obtain x s1 where f: "f s = (x, s1)" by fastforce
  show "objects s' k = objects s k"
  proof (cases x)
    case (Inl e)
    with r f changes_onlyD [OF assms(1) f k] show ?thesis by (simp add: op_bind_def)
  next
    case (Inr a)
    with r f have "g a s1 = (r, s')" by (simp add: op_bind_def)
    from changes_onlyD [OF assms(2) [OF f [unfolded Inr]] this k] changes_onlyD [OF assms(1) f k] show ?thesis by simp
  qed
qed

lemma changes_only_simple:
  "changes_only objects K (op_return a)" "changes_only objects K (op_fail e)"
  "changes_only objects K f \<Longrightarrow> changes_only objects K (op_try f)"
  by (auto simp: changes_only_def op_return_def op_fail_def op_try_def split: prod.splits)

lemma changes_only_sdk:
  assumes "\<And>s r s' k. f s = (r, s') \<Longrightarrow> k \<notin> K \<Longrightarrow> objects s' k = objects s k"
  shows "changes_only objects K (sdk_do m f)" "changes_only objects K (sdk_try f)"
proof -
  have "objects s' k = objects s k" if "sdk_do m f s = (r, s')" "k \<notin> K" for s r s' k
    using that assms by (cases "f s"; cases "fst (f s)") (auto simp: sdk_do_def)
  then show "changes_only objects K (sdk_do m f)" by (simp add: changes_only_def)
  show "changes_only objects K (sdk_try f)"
    using assms by (auto simp: changes_only_def sdk_try_def split: prod.splits)
qed

abbreviation "version_keys \<equiv> {k. has_prefix (base_name k) ''v-''}"

context s3_api
begin

lemma reads_change_nothing:
  "changes_only objects {} (s3_GetLock env c i)" "changes_only objects {} (s3_GetMeta env c i)"
  "changes_only objects {} (s3_Download env c i)" "changes_only objects {} (s3_DownloadBlob env c i)"
  "changes_only objects {} (s3_lock_free env c i)"
proof -
  have head: "changes_only objects {} (sdk_do m (s3_Head c k))" "changes_only objects {} (sdk_try (s3_Head c k))" for m k
    by (rule changes_only_sdk; metis head_frame)+
  have get: "changes_only objects {} (sdk_do m (s3_Get c k))" "changes_only objects {} (sdk_try (s3_Get c k))" for m k
    by (rule changes_only_sdk; metis get_frame)+
  show lock: "changes_only objects {} (s3_GetLock env c i)"
    unfolding s3_GetLock_def by (rule changes_only_bind [OF get(2)]) (auto simp: changes_only_simple split: sum.split)
  show "changes_only objects {} (s3_GetMeta env c i)"
    unfolding s3_GetMeta_def Let_def
    by (rule changes_only_bind [OF head(1)])
      (auto intro!: changes_only_bind changes_only_simple(1) changes_only_simple(3) [OF lock] split: prod.split)
  show "changes_only objects {} (s3_Download env c i)" unfolding s3_Download_def by (rule get)
  show "changes_only objects {} (s3_DownloadBlob env c i)" unfolding s3_DownloadBlob_def by (rule get)
  show "changes_only objects {} (s3_lock_free env c i)"
    unfolding s3_lock_free_def
    by (rule changes_only_bind [OF head(1)], rule changes_only_bind [OF head(2)])
      (auto simp: changes_only_simple split: sum.split)
qed

lemma list_changes_nothing: "changes_only objects {} (list_objects c pre n token acc)"
proof (induction n arbitrary: token acc)
  case 0
  then show ?case by (simp add: changes_only_simple)
next
  case (Suc n)
  have "changes_only objects {} (sdk_do m (s3_List c pre token))" for m
    by (rule changes_only_sdk; metis list_frame)
  then show ?case using Suc by (auto intro!: changes_only_bind simp: changes_only_simple)
qed

lemma versions_change_nothing: "changes_only objects {} (s3_ListVersions env c i)"
  unfolding s3_ListVersions_def
  by (rule changes_only_bind [OF list_changes_nothing]) (simp add: changes_only_simple)

lemma listed_versions_keys:
  assumes "s3_ListVersions env c i s = (Inr vs, s')" and "v \<in> set vs"
  shows "vi_S3Key v \<in> version_keys"
proof -
  obtain obs where "vs = newest_first vi_Timestamp (List.map_filter (listed_version env) obs)"
    using assms(1) by (auto simp: s3_ListVersions_def op_bind_def op_return_def split: prod.splits sum.splits)
  with assms(2) obtain ob where "listed_version env ob = Some v"
    by (auto simp: newest_first_def List.map_filter_def)
  then show ?thesis by (auto simp: listed_version_def Let_def split: if_splits option.splits)
qed

lemma delete_versions_changes:
  "(\<forall>v \<in> set vs. vi_S3Key v \<in> K) \<Longrightarrow> changes_only objects K (delete_versions c vs errs)"
proof (induction vs arbitrary: errs)
  case (Cons v vs)
  have "changes_only objects K (sdk_try (s3_Delete c (vi_S3Key v)))"
  proof (rule changes_only_sdk)
    fix s r s' k
    assume "s3_Delete c (vi_S3Key v) s = (r, s')" and "k \<notin> K"
    with Cons.prems delete_done [of "vi_S3Key v" s _ s'] delete_failed [of "vi_S3Key v" s _ s']
    show "objects s' k = objects s k" by (cases r) (auto simp: fun_upd_def)
  qed
  with Cons show ?case by (auto intro!: changes_only_bind)
qed (simp add: changes_only_simple)

lemma cleanup_changes: "changes_only objects version_keys (s3_cleanupOldVersions env c i)"
  unfolding s3_cleanupOldVersions_def Let_def
proof (rule changes_only_bind [OF changes_only_mono [OF versions_change_nothing]], simp)
  fix s versions s'
  assume v: "s3_ListVersions env c i s = (Inr versions, s')"
  have "\<forall>v \<in> set (drop n versions). vi_S3Key v \<in> version_keys" for n
    using listed_versions_keys [OF v] by (meson in_set_dropD)
  from delete_versions_changes [OF this]
  show "changes_only objects version_keys
      (if length versions \<le> getMaxVersions (se_max_versions_var env) then op_return ()
       else op_bind (delete_versions c (drop (getMaxVersions (se_max_versions_var env)) versions) []) (\<lambda>errs.
         if errs \<noteq> [] then op_fail (OtherError (''cleanup partially failed: '' @ join_with ''; '' errs)) else op_return ()))"
    by (auto intro!: changes_only_bind simp: changes_only_simple)
qed

lemma version_key: "versionKeyWithHash env i now b \<in> version_keys"
proof -
  let ?n = "''v-'' @ se_format env now @ ''-'' @ se_hash8 env b @ ''.tfstate''"
  have "CHR ''/'' \<notin> set ?n" using plain_names by simp
  from base_name_segment [OF this, of "key_prefix env @ unit_name i @ ''/'' @ ''versions''"]
  have "base_name (versionKeyWithHash env i now b) = ?n"
    by (simp only: versionKeyWithHash_def s3_key_three) simp
  then show ?thesis by (simp add: has_prefix_def)
qed

lemma archive_changes: "changes_only objects version_keys (s3_archive env c now i msg)"
  unfolding s3_archive_def
proof (rule changes_only_bind [OF changes_only_simple(3) [OF changes_only_mono [OF reads_change_nothing(3)]]], simp)
  fix r
  have "changes_only objects version_keys (sdk_do m (s3_Copy c (copy_source env j) (versionKeyWithHash env i now b)))" for m j b
  proof (rule changes_only_sdk)
    fix s r s' k
    assume "s3_Copy c (copy_source env j) (versionKeyWithHash env i now b) s = (r, s')" and "k \<notin> version_keys"
    with version_key [of i now b] copy_done [of j "versionKeyWithHash env i now b" s _ s']
      copy_failed [of "copy_source env j" "versionKeyWithHash env i now b" s _ s']
    show "objects s' k = objects s k" by (cases r) (auto simp: fun_upd_def split: if_splits)
  qed
  then show "changes_only objects version_keys
      (case r of Inl e \<Rightarrow> op_fail (WrappedError e ''failed to read current state for archiving: '')
       | Inr b \<Rightarrow> sdk_do (\<lambda>e. OtherError (msg @ e)) (s3_Copy c (copy_source env (s3_objKey env i)) (versionKeyWithHash env i now b)))"
    by (simp add: changes_only_simple split: sum.split)
qed

lemma state_key: "s3_objKey env i = state_key env (unit_name i)" and lock_key: "s3_lockKey env i = lock_key env (unit_name i)"
  by (simp_all add: objKey_eq lockKey_eq)

lemma no_version_keys: "state_key env k \<notin> version_keys" "lock_key env k \<notin> version_keys"
  using base_name_segment [of "''terraform.tfstate''" "key_prefix env @ k"]
    base_name_segment [of "''terraform.tfstate.lock''" "key_prefix env @ k"]
  by (simp_all add: has_prefix_def)

lemma put_changes: "changes_only objects {k} (sdk_do m (s3_Put c k b))"
proof (rule changes_only_sdk)
  fix s r s' j
  assume "s3_Put c k b s = (r, s')" and "j \<notin> {k}"
  with put_done [of k b s _ s'] put_failed [of k b s _ s'] show "objects s' j = objects s j" by (cases r) auto
qed

lemma same_objects_guarded:
  assumes "\<And>k. objects s' (state_key env k) = objects s (state_key env k)"
    and "\<And>k. objects s' (lock_key env k) = objects s (lock_key env k)"
  shows "s3_inv env objects s' = s3_inv env objects s \<and>
    s3_content env objects s' = s3_content env objects s \<and> s3_holder env objects s' = s3_holder env objects s"
  by (simp add: s3_inv_def s3_content_def s3_holder_def fun_eq_iff assms del: append.simps append_assoc)

lemma nothing_changed:
  assumes "changes_only objects K f" and "f s = (r, s')" and "K \<subseteq> version_keys"
  shows "s3_inv env objects s' = s3_inv env objects s \<and>
    s3_content env objects s' = s3_content env objects s \<and> s3_holder env objects s' = s3_holder env objects s"
  using changes_onlyD [OF assms(1,2)] no_version_keys assms(3) by (intro same_objects_guarded) blast+

end

context s3_locks_readable
begin

abbreviation "Inv \<equiv> s3_inv env objects"
abbreviation "Content \<equiv> s3_content env objects"
abbreviation "Holder \<equiv> s3_holder env objects"

lemma GetLock_holder:
  assumes "Inv s" and "s3_GetLock env c i s = (x, s')"
  shows "x = Inr (Holder s (unit_name i))"
proof -
  obtain r s1 where g: "s3_Get c (s3_lockKey env i) s = (r, s1)" by fastforce
  show ?thesis
  proof (cases r)
    case (Inl e)
    with lock_read g have e: "isNotFound e" by blast
    from get_missing [OF g [unfolded Inl] e] have "objects s (lock_key env (unit_name i)) = None"
      by (simp only: lock_key)
    then have "Holder s (unit_name i) = None" by (simp add: s3_holder_def del: append.simps)
    with assms(2) g e Inl show ?thesis by (simp add: s3_GetLock_def op_bind_def sdk_try_def op_return_def)
  next
    case (Inr b)
    from get_found [OF g [unfolded Inr]] have b: "objects s (lock_key env (unit_name i)) = Some b" by (simp only: lock_key)
    with assms(1) obtain li where li: "se_unmarshal env b = Inr li" unfolding s3_inv_def by blast
    have "Holder s (unit_name i) = Some li" by (simp add: s3_holder_def b li del: append.simps)
    with assms(2) g li Inr show ?thesis by (simp add: s3_GetLock_def op_bind_def sdk_try_def op_return_def)
  qed
qed

lemma GetMeta_holder:
  assumes "Inv s" and "s3_GetMeta env c i s = (Inr m, s')"
  shows "um_LockInfo m = Holder s (unit_name i)" "um_Locked m = (um_LockInfo m \<noteq> None)" "Content s (unit_name i) \<noteq> None"
proof -
  obtain h s1 where h: "s3_Head c (s3_objKey env i) s = (Inr h, s1)"
    using assms(2) by (cases "s3_Head c (s3_objKey env i) s"; cases "fst (s3_Head c (s3_objKey env i) s)")
      (auto simp: s3_GetMeta_def op_bind_def sdk_do_def)
  obtain x s2 where g: "s3_GetLock env c i s1 = (x, s2)" by fastforce
  have "Inv s1" "Holder s1 = Holder s"
    using assms(1) head_frame [OF h] by (simp_all add: s3_inv_def s3_holder_def fun_eq_iff del: append.simps)
  with GetLock_holder [OF _ g] have x: "x = Inr (Holder s (unit_name i))" by simp
  have "um_LockInfo m = Holder s (unit_name i) \<and> um_Locked m = (um_LockInfo m \<noteq> None)"
    using assms(2) h g x
    by (auto simp: s3_GetMeta_def op_bind_def sdk_do_def op_try_def op_return_def zero_metadata_def Let_def split: prod.splits)
  then show "um_LockInfo m = Holder s (unit_name i)" "um_Locked m = (um_LockInfo m \<noteq> None)" by auto
  from head_found [OF h] show "Content s (unit_name i) \<noteq> None" by (simp only: s3_content_def state_key) blast
qed

lemma put_state:
  assumes "sdk_do m (s3_Put c (s3_objKey env i) data) s = (u, s')"
  shows "Inv s' = Inv s" and "Holder s' = Holder s"
    and "Content s' = Content s \<or> Content s' = (Content s)(unit_name i \<mapsto> data)"
    and "u = Inr () \<Longrightarrow> Content s' = (Content s)(unit_name i \<mapsto> data)"
proof -
  have d: "lock_key env k \<noteq> state_key env (unit_name i)" for k
    using keys_differ [of env i k] base_name_segment [of "''terraform.tfstate''" "key_prefix env @ unit_name i"]
      base_name_segment [of "''terraform.tfstate.lock''" "key_prefix env @ k"]
    by (auto dest: arg_cong [of _ _ base_name])
  have l: "objects s' (lock_key env k) = objects s (lock_key env k)" for k
    using changes_onlyD [OF put_changes assms, of "lock_key env k"] d [of k] by (simp only: state_key singleton_iff not_False_eq_True)
  show "Inv s' = Inv s" "Holder s' = Holder s"
    by (simp_all only: s3_inv_def s3_holder_def fun_eq_iff l simp_thms)
  have "objects s' = objects s \<or> objects s' = (objects s)(state_key env (unit_name i) \<mapsto> data)"
    "u = Inr () \<Longrightarrow> objects s' = (objects s)(state_key env (unit_name i) \<mapsto> data)"
    using assms put_done put_failed unfolding state_key
    by (cases "s3_Put c (state_key env (unit_name i)) data s"; cases "fst (s3_Put c (state_key env (unit_name i)) data s)";
        fastforce simp: sdk_do_def state_key)+
  then show "Content s' = Content s \<or> Content s' = (Content s)(unit_name i \<mapsto> data)"
    "u = Inr () \<Longrightarrow> Content s' = (Content s)(unit_name i \<mapsto> data)"
    by (auto simp: s3_content_def fun_eq_iff)
qed

lemma Upload_effect:
  assumes inv: "Inv s" and u: "s3_Upload env c now i data lockID s = (u, s')"
  shows "Inv s' \<and> Holder s' = Holder s \<and>
    (Content s' = Content s \<or>
     Content s' = (Content s)(unit_name i \<mapsto> data) \<and> (\<forall>l. Holder s (unit_name i) = Some l \<longrightarrow> li_ID l = lockID)) \<and>
    (u = Inr () \<longrightarrow> Content s' = (Content s)(unit_name i \<mapsto> data) \<and>
       (\<forall>l. Holder s (unit_name i) = Some l \<longrightarrow> li_ID l = lockID))"
proof -
  obtain x s1 where g: "s3_GetMeta env c i s = (x, s1)" by fastforce
  from nothing_changed [OF reads_change_nothing(2) g]
  have s1: "Inv s1" "Content s1 = Content s" "Holder s1 = Holder s" using inv by auto
  let ?mid = "\<lambda>meta. if um_Size meta > 0 then
        op_bind (s3_archive env c now i ''failed to archive current version: '') (\<lambda>_.
        op_bind (op_try (s3_cleanupOldVersions env c i)) (\<lambda>_. op_return ()))
      else op_return ()"
  consider (stop) e where "s' = s1" "u = Inl e"
    | (go) m where "x = Inr m" "\<not> lock_refuses lockID m"
        "op_bind (?mid m) (\<lambda>_. sdk_do OtherError (s3_Put c (s3_objKey env i) data)) s1 = (u, s')"
    using u g by (cases x) (auto simp: s3_Upload_def op_bind_def op_fail_def split: if_splits)
  then show ?thesis
  proof cases
    case stop
    then show ?thesis using s1 by simp
  next
    case (go m)
    have mid: "changes_only objects version_keys (?mid m)"
      using archive_changes cleanup_changes by (auto intro!: changes_only_bind simp: changes_only_simple)
    obtain y s2 where y: "?mid m s1 = (y, s2)" by fastforce
    from nothing_changed [OF mid y] s1
    have s2: "Inv s2" "Content s2 = Content s" "Holder s2 = Holder s" by auto
    have lock: "\<forall>l. Holder s (unit_name i) = Some l \<longrightarrow> li_ID l = lockID"
      using GetMeta_holder [OF inv g [unfolded go(1)]] go(2) by (auto simp: lock_refuses_iff)
    show ?thesis
    proof (cases y)
      case (Inl e)
      then show ?thesis using go(3) y s2 by (auto simp: op_bind_def)
    next
      case (Inr z)
      then have "sdk_do OtherError (s3_Put c (s3_objKey env i) data) s2 = (u, s')" using go(3) y by (simp add: op_bind_def)
      from put_state [OF this] s2 lock show ?thesis by auto
    qed
  qed
qed

lemma Lock_effect:
  assumes inv: "Inv s" and u: "s3_Lock env c i info s = (u, s')"
  shows "Inv s' \<and> Content s' = Content s \<and>
    (Holder s' = Holder s \<or> Holder s (unit_name i) = None \<and> Holder s' = (Holder s)(unit_name i \<mapsto> info)) \<and>
    (u = Inr () \<longrightarrow> Holder s (unit_name i) = None \<and> Holder s' = (Holder s)(unit_name i \<mapsto> info))"
proof -
  obtain x s1 where f: "s3_lock_free env c i s = (x, s1)" by fastforce
  from nothing_changed [OF reads_change_nothing(5) f]
  have s1: "Inv s1" "Content s1 = Content s" "Holder s1 = Holder s" using inv by auto
  show ?thesis
  proof (cases x)
    case (Inl e)
    then show ?thesis using u f s1 by (auto simp: s3_Lock_def op_bind_def)
  next
    case (Inr z)
    then have put: "sdk_do OtherError (s3_Put c (s3_lockKey env i) (se_marshal env info)) s1 = (u, s')"
      using u f by (simp add: s3_Lock_def s3_lock_put_def op_bind_def)
    have "objects s (lock_key env (unit_name i)) = None"
    proof -
      obtain h s2 where h: "s3_Head c (s3_objKey env i) s = (h, s2)" by fastforce
      obtain r s3 where r: "s3_Head c (s3_lockKey env i) s2 = (r, s3)" by fastforce
      have "\<exists>e. r = Inl e \<and> isNotFound e"
        using f h r Inr by (auto simp: s3_lock_free_def op_bind_def sdk_do_def sdk_try_def op_fail_def split: sum.splits if_splits)
      with head_missing [of "s3_lockKey env i" s2 _ s3] r head_frame [OF h] show ?thesis by (auto simp: lock_key)
    qed
    then have free: "Holder s (unit_name i) = None" by (simp add: s3_holder_def del: append.simps)
    have st: "objects s' (state_key env k) = objects s1 (state_key env k)" for k
    proof -
      have "state_key env k \<noteq> lock_key env (unit_name i)"
        using base_name_segment [of "''terraform.tfstate''" "key_prefix env @ k"]
          base_name_segment [of "''terraform.tfstate.lock''" "key_prefix env @ unit_name i"]
        by (auto dest: arg_cong [of _ _ base_name])
      with changes_onlyD [OF put_changes put, of "state_key env k"] show ?thesis
        by (simp only: lock_key singleton_iff not_False_eq_True)
    qed
    have o: "objects s' = objects s1 \<or> objects s' = (objects s1)(lock_key env (unit_name i) \<mapsto> se_marshal env info)"
      "u = Inr () \<Longrightarrow> objects s' = (objects s1)(lock_key env (unit_name i) \<mapsto> se_marshal env info)"
      using put put_done put_failed unfolding lock_key
      by (cases "s3_Put c (lock_key env (unit_name i)) (se_marshal env info) s1";
          cases "fst (s3_Put c (lock_key env (unit_name i)) (se_marshal env info) s1)"; fastforce simp: sdk_do_def lock_key)+
    have c: "Content s' = Content s" using st s1(2) by (simp add: s3_content_def fun_eq_iff del: append.simps)
    have w: "Inv s' \<and> Holder s' = (Holder s)(unit_name i \<mapsto> info)"
      if "objects s' = (objects s1)(lock_key env (unit_name i) \<mapsto> se_marshal env info)"
      using s1(1,3) unmarshal_marshal [of info] unfolding s3_inv_def s3_holder_def that by (auto simp: fun_eq_iff)
    have v: "Inv s' \<and> Holder s' = Holder s" if "objects s' = objects s1"
      using s1(1,3) unfolding s3_inv_def s3_holder_def that by auto
    from o(1) v w c free have "Inv s' \<and> Content s' = Content s \<and>
      (Holder s' = Holder s \<or> Holder s (unit_name i) = None \<and> Holder s' = (Holder s)(unit_name i \<mapsto> info))" by blast
    moreover have "u = Inr () \<Longrightarrow> Holder s (unit_name i) = None \<and> Holder s' = (Holder s)(unit_name i \<mapsto> info)"
      using w [OF o(2)] free by simp
    ultimately show ?thesis by blast
  qed
qed

lemma Unlock_effect:
  assumes inv: "Inv s" and u: "s3_Unlock env c i lockID s = (u, s')"
  shows "Inv s' \<and> Content s' = Content s \<and>
    (Holder s' = Holder s \<or>
     (\<exists>l. Holder s (unit_name i) = Some l \<and> li_ID l = lockID) \<and> Holder s' = (Holder s)(unit_name i := None)) \<and>
    (u = Inr () \<longrightarrow> (\<exists>l. Holder s (unit_name i) = Some l \<and> li_ID l = lockID) \<and>
       Holder s' = (Holder s)(unit_name i := None))"
proof -
  obtain x s1 where g: "s3_GetLock env c i s = (x, s1)" by fastforce
  from nothing_changed [OF reads_change_nothing(1) g]
  have s1: "Inv s1" "Content s1 = Content s" "Holder s1 = Holder s" using inv by auto
  note x = GetLock_holder [OF inv g]
  consider (stop) e where "s' = s1" "u = Inl e"
    | (go) l where "Holder s (unit_name i) = Some l" "li_ID l = lockID"
        "sdk_do OtherError (s3_Delete c (s3_lockKey env i)) s1 = (u, s')"
    using u g x by (auto simp: s3_Unlock_def op_bind_def op_fail_def split: option.splits if_splits)
  then show ?thesis
  proof cases
    case stop
    then show ?thesis using s1 by simp
  next
    case (go l)
    let ?k = "lock_key env (unit_name i)"
    have o: "objects s' = objects s1 \<or> objects s' = (objects s1)(?k := None)"
      "u = Inr () \<Longrightarrow> objects s' = (objects s1)(?k := None)"
      using go(3) delete_done delete_failed unfolding lock_key
      by (cases "s3_Delete c ?k s1"; cases "fst (s3_Delete c ?k s1)"; fastforce simp: sdk_do_def lock_key)+
    have "state_key env k \<noteq> ?k" for k
      using base_name_segment [of "''terraform.tfstate''" "key_prefix env @ k"]
        base_name_segment [of "''terraform.tfstate.lock''" "key_prefix env @ unit_name i"]
      by (auto dest: arg_cong [of _ _ base_name])
    with o(1) have "objects s' (state_key env k) = objects s1 (state_key env k)" for k by auto
    then have c: "Content s' = Content s" using s1(2) by (simp add: s3_content_def fun_eq_iff del: append.simps)
    have w: "Inv s' \<and> Holder s' = (Holder s)(unit_name i := None)" if "objects s' = (objects s1)(?k := None)"
      using s1(1,3) unfolding s3_inv_def s3_holder_def that by (auto simp: fun_eq_iff)
    have v: "Inv s' \<and> Holder s' = Holder s" if "objects s' = objects s1"
      using s1(1,3) unfolding s3_inv_def s3_holder_def that by auto
    have "u = Inr () \<Longrightarrow> (\<exists>l. Holder s (unit_name i) = Some l \<and> li_ID l = lockID) \<and>
        Holder s' = (Holder s)(unit_name i := None)"
      using w [OF o(2)] go(1,2) by blast
    moreover from o(1) v w c go(1,2) have "Inv s' \<and> Content s' = Content s \<and>
      (Holder s' = Holder s \<or>
       (\<exists>l. Holder s (unit_name i) = Some l \<and> li_ID l = lockID) \<and> Holder s' = (Holder s)(unit_name i := None))" by blast
    ultimately show ?thesis by blast
  qed
qed

lemma guarded_ops: "guarded_store (s3_ops env c) unit_name Content Holder Inv"
proof (unfold_locales, unfold s3_ops_def state_ops.simps)
  fix s i x s' k L
  show "Inv s' \<and> guarded Content Holder k L s s'" if "Inv s" "s3_GetMeta env c i s = (x, s')"
    using nothing_changed [OF reads_change_nothing(2) that(2)] that(1) by (auto intro: guarded_same)
next
  fix s i y s' k L
  show "Inv s' \<and> guarded Content Holder k L s s'" if "Inv s" "s3_Download env c i s = (y, s')"
    using nothing_changed [OF reads_change_nothing(3) that(2)] that(1) by (auto intro: guarded_same)
next
  fix s i z s' k L
  show "Inv s' \<and> guarded Content Holder k L s s'" if "Inv s" "s3_GetLock env c i s = (z, s')"
    using nothing_changed [OF reads_change_nothing(1) that(2)] that(1) by (auto intro: guarded_same)
next
  fix s now i data lockID u s' k L
  show "Inv s' \<and> guarded Content Holder k L s s'"
    if "Inv s" "s3_Upload env c now i data lockID s = (u, s')" "unit_name i = k \<longrightarrow> lockID \<noteq> L"
    using Upload_effect [OF that(1,2)] that(3) by (auto simp: guarded_def)
next
  fix s i info u s' k L
  show "Inv s' \<and> guarded Content Holder k L s s'" if "Inv s" "s3_Lock env c i info s = (u, s')"
    using Lock_effect [OF that] by (auto simp: guarded_def)
next
  fix s i lockID u s' k L
  show "Inv s' \<and> guarded Content Holder k L s s'"
    if "Inv s" "s3_Unlock env c i lockID s = (u, s')" "unit_name i = k \<longrightarrow> lockID \<noteq> L"
    using Unlock_effect [OF that(1,2)] that(3) by (auto simp: guarded_def)
qed

end

section \<open>A bucket\<close>

text \<open>Objects in a list; reads of the keys \<open>slow\<close> fail.\<close>

type_synonym s3_bucket = "(string \<times> bytes) list"

definition s3_source :: "string \<Rightarrow> string" where
  "s3_source src = drop 2 src"

definition bucket_client :: "string set \<Rightarrow> s3_bucket s3_client" where
  "bucket_client slow =
     \<lparr>s3_Head = (\<lambda>k s. (case map_of s k of None \<Rightarrow> Inl ''NotFound'' | Some b \<Rightarrow> Inr (Some (length b), Some 0), s)),
      s3_Get = (\<lambda>k s. (if k \<in> slow then Inl ''SlowDown''
         else (case map_of s k of None \<Rightarrow> Inl ''NoSuchKey'' | Some b \<Rightarrow> Inr b), s)),
      s3_Put = (\<lambda>k b s. (Inr (), AList.update k b s)),
      s3_Copy = (\<lambda>src k s. case map_of s (s3_source src) of
         None \<Rightarrow> (Inl ''NoSuchKey'', s) | Some b \<Rightarrow> (Inr (), AList.update k b s)),
      s3_Delete = (\<lambda>k s. (Inr (), AList.delete k s)),
      s3_List = (\<lambda>pre token s.
         (Inr \<lparr>pg_Contents = map (\<lambda>(k, b). \<lparr>ob_Key = k, ob_Size = length b, ob_LastModified = Some 0\<rparr>)
                 (filter (\<lambda>(k, b). has_prefix k pre) s),
               pg_IsTruncated = False, pg_NextContinuationToken = None\<rparr>, s))\<rparr>"

text \<open>A form for locks: each character is preceded by a mark, and a dot ends a field.\<close>

definition put_field :: "string \<Rightarrow> bytes" where
  "put_field v = concat (map (\<lambda>c. [CHR ''x'', c]) v) @ ''.''"

fun take_field :: "bytes \<Rightarrow> string \<times> bytes" where
  "take_field (m # c # b) = (if m = CHR ''x'' then (case take_field b of (v, r) \<Rightarrow> (c # v, r)) else ([], c # b))"
| "take_field (m # []) = ([], [])"
| "take_field [] = ([], [])"

lemma take_put_field: "take_field (put_field v @ r) = (v, r)"
proof (induction v)
  case Nil
  then show ?case by (cases r) (simp_all add: put_field_def)
qed (simp add: put_field_def)

definition example_s3_env :: s3_env where
  "example_s3_env =
     \<lparr>se_bucket = ''b'', se_prefix = ''pre'', se_max_versions_var = [], se_hash8 = (\<lambda>_. ''h''),
      se_format = (\<lambda>t. replicate t CHR ''t''), se_parse = (\<lambda>s. Some (length s)),
      se_marshal = (\<lambda>li. put_field (li_ID li) @ put_field (li_Who li) @ put_field (li_Version li) @
        put_field (replicate (li_Created li) CHR ''t'')),
      se_unmarshal = (\<lambda>b. case take_field b of (i, b) \<Rightarrow> case take_field b of (who, b) \<Rightarrow>
        case take_field b of (version, b) \<Rightarrow> case take_field b of (t, _) \<Rightarrow>
          Inr \<lparr>li_ID = i, li_Who = who, li_Version = version, li_Created = length t\<rparr>),
      se_now = 0, se_pages = 3\<rparr>"

lemma bucket_s3_api: "s3_api example_s3_env (bucket_client slow) map_of"
proof
  fix li t b
  show "se_unmarshal example_s3_env (se_marshal example_s3_env li) = Inr li"
    using take_put_field [of _ "[]"] by (simp add: example_s3_env_def take_put_field)
  show "CHR ''/'' \<notin> set (se_format example_s3_env t)" "CHR ''/'' \<notin> set (se_hash8 example_s3_env b)"
    by (simp_all add: example_s3_env_def)
qed (auto simp: bucket_client_def isNotFound_def update_conv' delete_conv' copy_source_def example_s3_env_def s3_source_def
      split: option.splits if_splits)

interpretation s3_bucket: s3_locks_readable example_s3_env "bucket_client {}" map_of
proof (intro s3_locks_readable.intro s3_locks_readable_axioms.intro bucket_s3_api)
  show "s3_Get (bucket_client {}) (s3_lockKey example_s3_env i) s = (Inl e, s') \<Longrightarrow> isNotFound e" for i s e s'
    by (auto simp: bucket_client_def isNotFound_def split: option.splits)
qed

interpretation s3_store: guarded_store "s3_ops example_s3_env (bucket_client {})" unit_name
  "s3_content example_s3_env map_of" "s3_holder example_s3_env map_of" "s3_inv example_s3_env map_of"
  by (rule s3_bucket.guarded_ops)

section \<open>Properties\<close>


text \<open>Claim C15: the operations of the store in S3 do what they say: an upload that succeeds leaves exactly its data,
  and only over no lock or its own; a lock that is taken was free; an unlock gives up the lock it names; and no
  operation does one of these things beside.\<close>

theorem s3_operations_true:
  assumes "s3_locks_readable env c objects" and "s3_inv env objects s"
  shows "(s3_Upload env c now i data lockID s = (Inr (), s1) \<longrightarrow>
      s3_content env objects s1 = (s3_content env objects s)(unit_name i \<mapsto> data) \<and>
      (\<forall>l. s3_holder env objects s (unit_name i) = Some l \<longrightarrow> li_ID l = lockID) \<and>
      s3_holder env objects s1 = s3_holder env objects s) \<and>
    (s3_Lock env c i info s = (Inr (), s2) \<longrightarrow>
      s3_holder env objects s (unit_name i) = None \<and>
      s3_holder env objects s2 = (s3_holder env objects s)(unit_name i \<mapsto> info) \<and>
      s3_content env objects s2 = s3_content env objects s) \<and>
    (s3_Unlock env c i lockID s = (Inr (), s3) \<longrightarrow>
      (\<exists>l. s3_holder env objects s (unit_name i) = Some l \<and> li_ID l = lockID) \<and>
      s3_holder env objects s3 = (s3_holder env objects s)(unit_name i := None) \<and>
      s3_content env objects s3 = s3_content env objects s)"
  using s3_locks_readable.Upload_effect [OF assms, of now i data lockID "Inr ()" s1]
    s3_locks_readable.Lock_effect [OF assms, of i info "Inr ()" s2]
    s3_locks_readable.Unlock_effect [OF assms, of i lockID "Inr ()" s3]
  by blast

section \<open>Witnesses\<close>

definition locked_bucket :: s3_bucket where
  "locked_bucket =
     snd (s3_Lock example_s3_env (bucket_client {}) ''net'' held_lock
       [(''pre/net/terraform.tfstate'', ''x''), (''pre/app/terraform.tfstate'', ''y'')])"

definition locked_s3_server :: "s3_bucket server" where
  "locked_s3_server = \<lparr>sv_store = locked_bucket, sv_tasks = []\<rparr>"

lemma locked_bucket_facts:
  "s3_inv example_s3_env map_of locked_bucket"
  "s3_holder example_s3_env map_of locked_bucket ''net'' = Some held_lock"
  "s3_content example_s3_env map_of locked_bucket ''net'' = Some ''x''"
  "unit_name ''net'' = ''net''"
proof -
  show "s3_inv example_s3_env map_of locked_bucket"
    by (simp add: s3_inv_def example_s3_env_def split: prod.split)
qed code_simp+


theorem s3_operations_true_witness:
  "case s3_Unlock example_s3_env (bucket_client {}) ''net'' ''L1'' locked_bucket of
     (Inr _, s) \<Rightarrow> s3_holder example_s3_env map_of s ''net'' = None
   | _ \<Rightarrow> False"
proof -
  have "case s3_Unlock example_s3_env (bucket_client {}) ''net'' ''L1'' locked_bucket of (Inr _, s) \<Rightarrow> True | _ \<Rightarrow> False"
    by code_simp
  then obtain s where s: "s3_Unlock example_s3_env (bucket_client {}) ''net'' ''L1'' locked_bucket = (Inr (), s)"
    by (auto split: prod.splits sum.splits)
  from s3_operations_true [OF s3_bucket.s3_locks_readable_axioms locked_bucket_facts(1), THEN conjunct2, THEN conjunct2, THEN mp, OF s]
  show ?thesis by (simp add: s locked_bucket_facts(4))
qed

section \<open>What goes wrong\<close>

text \<open>When the lock cannot be read, an upload without a lock goes through.\<close>

lemma unreadable_lock_lets_upload_through:
  "case s3_Upload example_s3_env (bucket_client {''pre/net/terraform.tfstate.lock''}) 9 ''net'' ''evil'' [] locked_bucket of
     (Inr _, s) \<Rightarrow> s3_content example_s3_env map_of s ''net'' = Some ''evil''
   | _ \<Rightarrow> False"
  by code_simp

text \<open>Two callers that lock at the same time both get the lock: each looks before either writes.\<close>

lemma two_lockers_both_succeed:
  "let c = bucket_client {}; s = [(''pre/net/terraform.tfstate'', ''x'')];
       (a, s) = s3_lock_free example_s3_env c ''net'' s; (b, s) = s3_lock_free example_s3_env c ''net'' s;
       (a', s) = s3_lock_put example_s3_env c ''net'' held_lock s;
       (b', s) = s3_lock_put example_s3_env c ''net'' (held_lock\<lparr>li_ID := ''L2''\<rparr>) s
   in a = Inr () \<and> a' = Inr () \<and> b = Inr () \<and> b' = Inr () \<and>
      map_option li_ID (s3_holder example_s3_env map_of s ''net'') = Some ''L2''"
  by code_simp

text \<open>The versions of a unit whose name lies below another's directory of versions count as the other's.\<close>

lemma nested_versions_are_listed:
  "case s3_ListVersions example_s3_env (bucket_client {}) ''net''
      [(''pre/net/versions/x/versions/v-tt-h.tfstate'', ''other'')] of
     (Inr [v], _) \<Rightarrow> vi_S3Key v = ''pre/net/versions/x/versions/v-tt-h.tfstate''
   | _ \<Rightarrow> False"
  by code_simp

end
