(* ===== verification/JobStatus.thy ===== *)
theory JobStatus
  imports JobScheduler ConfigConvert Reporting
begin

text \<open>
  What the backend does when a runner reports the status of its job: the handler
  \<open>SetJobStatusForProject\<close> of \<open>controllers/projects.go\<close>, with the check runs of
  \<open>controllers/projects_helpers.go\<close> and the comments of \<open>utils/comment_utils.go\<close>.  The world is the
  database and the triggered workflows, the calls that were made to the version-control service and to the service
  that writes summaries, and the tasks that the handler leaves behind (goroutines); what a call answers is a
  function of the calls so far.  Reports to the analytics service are left out.
\<close>

section \<open>The world\<close>

text \<open>The options of a check run to create; no caller gives it actions.\<close>

record check_request =
  cq_Name :: string
  cq_HeadSHA :: string
  cq_Status :: string
  cq_Conclusion :: "string option"
  cq_Title :: string
  cq_Summary :: string
  cq_Text :: string

datatype remote_call =
    RMerge int string
  | RPublish int string
  | REdit int string string
  | RDelete string
  | RCheckRun string check_run_update
  | RSummary string string string
  | RReact string string
  | RCreateCheck check_request
  | RGenerate string string string
  | RCreateTree string string string
  | RCreateCommit string string string
  | RUpdateRef string string

datatype background =
    JobCompleted string loaded_job
  | CommentUpdate "digger_batch option"

record backend_world =
  bw_sched :: sched_world
  bw_calls :: "remote_call list"
  bw_tasks :: "background list"

text \<open>A remote call answers with a text: the id of a published comment or of a created check run, the summary
  that was written, the SHA of a git object.  The
  tables of organisations and of GitHub installations are not among the model's tables: their queries are
  parameters, as is the listing of the workflow runs of the last five minutes, with the steps of their jobs.\<close>

record 'g backend_env =
  be_sched :: sched_env
  be_graph :: "('g, project) graph_ops"
  be_parse_yaml :: "string \<Rightarrow> error + digger_config_yaml"
  be_organisation :: "string \<Rightarrow> error + unit"
  be_installation :: "string \<Rightarrow> error + int"
  be_app_ids :: "int \<Rightarrow> error + int list"
  be_app_client :: "int \<Rightarrow> int \<Rightarrow> error + unit"
  be_github_client :: "remote_call list \<Rightarrow> digger_batch \<Rightarrow> error + unit"
  be_gitlab_service :: "remote_call list \<Rightarrow> digger_batch \<Rightarrow> error + unit"
  be_remote :: "remote_call list \<Rightarrow> remote_call \<Rightarrow> error + string"
  be_comments :: "remote_call list \<Rightarrow> int \<Rightarrow> error + ci_comment list"
  be_runs :: "string \<Rightarrow> string \<Rightarrow> error + int list"
  be_run_steps :: "string \<Rightarrow> string \<Rightarrow> int \<Rightarrow> error + string list list"
  be_title_case :: "string \<Rightarrow> string"
  be_marshal_footprint :: "footprint \<Rightarrow> error + string"
  be_unmarshal_footprint :: "string \<Rightarrow> error + footprint"
  be_source_details :: "string option \<Rightarrow> error + source_details list"

abbreviation "be_getenv env \<equiv> se_getenv (be_sched env)"

definition on_sched :: "('a, sched_world) act \<Rightarrow> ('a, backend_world) act" where
  "on_sched f w = (let (x, s) = f (bw_sched w) in (x, w\<lparr>bw_sched := s\<rparr>))"

definition on_tables :: "('a, tables fdb) act \<Rightarrow> ('a, backend_world) act" where
  "on_tables f = on_sched (on_db f)"

definition of_sum :: "error + 'a \<Rightarrow> ('a, 's) act" where
  "of_sum r = (case r of Inl e \<Rightarrow> act_err e | Inr a \<Rightarrow> act_ret a)"

definition remote :: "'g backend_env \<Rightarrow> remote_call \<Rightarrow> (string, backend_world) act" where
  "remote env c w = of_sum (be_remote env (bw_calls w) c) (w\<lparr>bw_calls := bw_calls w @ [c]\<rparr>)"

definition spawn :: "background \<Rightarrow> (unit, backend_world) act" where
  "spawn b = act_modify (\<lambda>w. w\<lparr>bw_tasks := bw_tasks w @ [b]\<rparr>)"

text \<open>An error that is only logged.\<close>

definition logged :: "('a, 's) act \<Rightarrow> (unit, 's) act" where
  "logged f = act_bind (act_try f) (\<lambda>_. act_ret ())"

section \<open>Services of a batch (\<open>utils/comment_utils.go\<close>, \<open>utils/github.go\<close>)\<close>

definition github_client :: "'g backend_env \<Rightarrow> digger_batch \<Rightarrow> (unit, backend_world) act" where
  "github_client env batch w = of_sum (be_github_client env (bw_calls w) batch) w"

definition GetGithubService :: "'g backend_env \<Rightarrow> digger_batch \<Rightarrow> (unit, backend_world) act" where
  "GetGithubService env batch =
     act_wrap (\<lambda>e. ''Error creating github app client: '' @ e) (github_client env batch)"

definition GetPrServiceFromBatch :: "'g backend_env \<Rightarrow> digger_batch \<Rightarrow> (unit, backend_world) act" where
  "GetPrServiceFromBatch env batch =
     (if db_VCS batch = ''github'' then GetGithubService env batch
      else if db_VCS batch = ''gitlab'' then (\<lambda>w. of_sum (be_gitlab_service env (bw_calls w) batch) w)
      else act_err (''could not retrieve a service for '' @ db_VCS batch))"

definition PostCommentForBatch :: "'g backend_env \<Rightarrow> digger_batch \<Rightarrow> string \<Rightarrow> (unit, backend_world) act" where
  "PostCommentForBatch env batch comment =
     (if db_VCS batch = ''github'' then
        act_bind (act_wrap (\<lambda>e. ''error getting ghService: '' @ e) (GetGithubService env batch)) (\<lambda>_.
        act_bind (act_wrap (\<lambda>e. ''error publishing comment ('' @ comment @ ''): '' @ e)
            (remote env (RPublish (db_PrNumber batch) comment))) (\<lambda>_. act_ret ()))
      else act_ret ())"

text \<open>The first run one of whose jobs has a step that names the job.\<close>

fun find_workflow_run :: "'g backend_env \<Rightarrow> string \<Rightarrow> string \<Rightarrow> string \<Rightarrow> int list \<Rightarrow> error + int" where
  "find_workflow_run env repoOwner repoName jobId [] = Inl ''workflow not found''"
| "find_workflow_run env repoOwner repoName jobId (r # rs) =
     (case be_run_steps env repoOwner repoName r of
        Inl e \<Rightarrow> Inl (''error listing workflow jobs for run '' @ itoa r @ '' '' @ e)
      | Inr jobs \<Rightarrow>
          if list_ex (list_ex (\<lambda>step. str_contains step jobId)) jobs then Inr r
          else find_workflow_run env repoOwner repoName jobId rs)"

definition GetGithubHostname :: "(string \<Rightarrow> string) \<Rightarrow> string" where
  "GetGithubHostname getenv =
     (let githubHostname = getenv ''DIGGER_GITHUB_HOSTNAME''
      in if githubHostname = [] then ''github.com'' else githubHostname)"

definition GetWorkflowIdAndUrlFromDiggerJobId ::
  "'g backend_env \<Rightarrow> string \<Rightarrow> string \<Rightarrow> string \<Rightarrow> error + int \<times> string" where
  "GetWorkflowIdAndUrlFromDiggerJobId env repoOwner repoName diggerJobID =
     (case be_runs env repoOwner repoName of
        Inl e \<Rightarrow> Inl (''error listing workflow runs '' @ e)
      | Inr runs \<Rightarrow>
          (case find_workflow_run env repoOwner repoName diggerJobID runs of
             Inl e \<Rightarrow> Inl e
           | Inr r \<Rightarrow> Inr (r, ''https://'' @ GetGithubHostname (be_getenv env) @ ''/'' @ repoOwner @ ''/'' @ repoName @
               ''/actions/runs/'' @ itoa r)))"

section \<open>Serialized jobs and batches (\<open>models/scheduler.go\<close>)\<close>

definition spec_bytes :: "digger_job \<Rightarrow> string" where
  "spec_bytes j = (case dj_SerializedJobSpec j of None \<Rightarrow> [] | Some s \<Rightarrow> s)"

definition job_MapToJsonStruct :: "(string \<Rightarrow> error + job_json) \<Rightarrow> digger_job \<Rightarrow> error + serialized_job" where
  "job_MapToJsonStruct unmarshal j =
     (case unmarshal (spec_bytes j) of
        Inl e \<Rightarrow> Inl e
      | Inr spec \<Rightarrow> Inr
          \<lparr>sj_DiggerJobId = dj_DiggerJobID j, sj_Status = dj_Status j, sj_ProjectName = jj_ProjectName spec,
           sj_ProjectAlias = jj_ProjectAlias spec, sj_JobString = spec_bytes j,
           sj_PlanFootprint = (case dj_PlanFootprint j of None \<Rightarrow> [] | Some f \<Rightarrow> f),
           sj_PRCommentUrl = dj_PRCommentUrl j, sj_WorkflowRunUrl = dj_WorkflowRunUrl j,
           sj_ResourcesCreated = js_ResourcesCreated (dj_Summary j),
           sj_ResourcesDeleted = js_ResourcesDeleted (dj_Summary j),
           sj_ResourcesUpdated = js_ResourcesUpdated (dj_Summary j)\<rparr>)"

fun serialize_jobs :: "(string \<Rightarrow> error + job_json) \<Rightarrow> digger_job list \<Rightarrow> error + serialized_job list" where
  "serialize_jobs unmarshal [] = Inr []"
| "serialize_jobs unmarshal (j # js) =
     (case job_MapToJsonStruct unmarshal j of
        Inl e \<Rightarrow> Inl (''error mapping job to struct (ID: '' @ itoa (int (dj_ID j)) @ ''); '' @ e)
      | Inr s \<Rightarrow> (case serialize_jobs unmarshal js of Inl e \<Rightarrow> Inl e | Inr ss \<Rightarrow> Inr (s # ss)))"

definition batch_MapToJsonStruct ::
  "(string \<Rightarrow> error + job_json) \<Rightarrow> digger_batch \<Rightarrow> (serialized_batch, tables fdb) act" where
  "batch_MapToJsonStruct unmarshal b =
     act_bind (act_wrap (\<lambda>e. ''could not unmarshall digger batch: '' @ e) (GetDiggerJobsForBatch (db_ID b))) (\<lambda>jobs.
     act_bind (of_sum (serialize_jobs unmarshal (map fst jobs))) (\<lambda>serializedJobs.
       act_ret \<lparr>sb_ID = db_ID b, sb_PrNumber = db_PrNumber b, sb_Status = db_Status b,
                sb_BranchName = db_BranchName b, sb_RepoFullName = db_RepoFullName b,
                sb_RepoOwner = db_RepoOwner b, sb_RepoName = db_RepoName b,
                sb_BatchType = db_BatchType b, sb_Jobs = serializedJobs\<rparr>))"

section \<open>The comment with the state of the jobs (\<open>utils/comment_utils.go\<close>)\<close>

definition realtime_name :: "(string \<Rightarrow> error + job_json) \<Rightarrow> digger_job \<Rightarrow> string" where
  "realtime_name unmarshal j =
     (case dj_SerializedJobSpec j of
        None \<Rightarrow> ''Unknown''
      | Some s \<Rightarrow>
          (case unmarshal s of
             Inl _ \<Rightarrow> ''Unknown''
           | Inr spec \<Rightarrow> if jj_ProjectAlias spec \<noteq> [] then jj_ProjectAlias spec else jj_ProjectName spec))"

definition realtime_row :: "(string \<Rightarrow> error + job_json) \<Rightarrow> string \<Rightarrow> digger_job \<Rightarrow> string" where
  "realtime_row unmarshal jobTypeTitle j =
     ''|'' @ job_status_ToEmoji (dj_Status j) @ '' **'' @ realtime_name unmarshal j @ ''** |'' @
     link (case dj_WorkflowRunUrl j of None \<Rightarrow> ''#'' | Some u \<Rightarrow> u) (job_status_ToString (dj_Status j)) @ '' | '' @
     link (case dj_CheckRunUrl j of None \<Rightarrow> ''#'' | Some u \<Rightarrow> u) jobTypeTitle @ '' | '' @
     itoa (int (js_ResourcesCreated (dj_Summary j))) @ '' | '' @
     itoa (int (js_ResourcesUpdated (dj_Summary j))) @ '' | '' @
     itoa (int (js_ResourcesDeleted (dj_Summary j))) @ ''|'' @ newline"

definition realtime_trimmed :: "string \<Rightarrow> string" where
  "realtime_trimmed message =
     (let n = int (length message); maxLength = 65536 in
      if maxLength < n then
        let footer = newline @ newline @ ''[Message truncated due to length limits]'';
            trimLength = n - maxLength + int (length footer)
        in take (nat (n - trimLength)) message @ footer
      else message)"

definition GenerateRealtimeCommentMessage ::
  "'g backend_env \<Rightarrow> digger_job list \<Rightarrow> digger_command \<Rightarrow> error + string" where
  "GenerateRealtimeCommentMessage env jobs batchType =
     (if length jobs = 0 then Inl ''no jobs provided''
      else
        let jobTypeTitle = be_title_case env (command_string batchType) in
        Inr (realtime_trimmed
          (''| Project | Status | '' @ jobTypeTitle @ '' | + | ~ | - |'' @ newline @
           ''|---------|--------|------|---|---|---|'' @ newline @
           concat (map (realtime_row (se_unmarshal (be_sched env)) jobTypeTitle) jobs) @
           newline @ formatExampleCommands)))"

definition UpdateOrCreateSummaryComment ::
  "'g backend_env \<Rightarrow> digger_batch \<Rightarrow> string \<Rightarrow> (int option, backend_world) act" where
  "UpdateOrCreateSummaryComment env batch message =
     (let create =
        act_bind (act_wrap (\<lambda>e. ''failed to create comment: '' @ e)
            (remote env (RPublish (db_PrNumber batch) message))) (\<lambda>i.
          case atoi i of None \<Rightarrow> act_err ''failed to parse comment ID: '' | Some n \<Rightarrow> act_ret (Some n))
      in case db_CommentId batch of
           None \<Rightarrow> create
         | Some c \<Rightarrow>
             act_bind (act_try (remote env (REdit (db_PrNumber batch) (itoa c) message))) (\<lambda>r.
               case r of Inl _ \<Rightarrow> create | Inr _ \<Rightarrow> act_ret (Some c)))"

definition UpdatePRCommentRealtime :: "'g backend_env \<Rightarrow> digger_batch \<Rightarrow> (unit, backend_world) act" where
  "UpdatePRCommentRealtime env batch =
     act_bind (act_wrap (\<lambda>e. ''error getting PR service: '' @ e) (GetPrServiceFromBatch env batch)) (\<lambda>_.
     act_bind (act_wrap (\<lambda>e. ''error getting jobs for batch: '' @ e)
         (on_tables (GetDiggerJobsForBatch (db_ID batch)))) (\<lambda>jobs.
     if length jobs = 0 then act_ret ()
     else
       act_bind (act_wrap (\<lambda>e. ''error requerying batch: '' @ e) (on_tables (GetDiggerBatch (db_ID batch)))) (\<lambda>freshBatch.
       act_bind (act_wrap (\<lambda>e. ''error requerying jobs for batch: '' @ e)
           (on_tables (GetDiggerJobsForBatch (db_ID batch)))) (\<lambda>freshJobs.
       if db_CommentId freshBatch = None then act_ret ()
       else if length freshJobs = 0 then act_ret ()
       else
         act_bind (act_wrap (\<lambda>e. ''error generating comment message: '' @ e)
             (of_sum (GenerateRealtimeCommentMessage env (map fst freshJobs) (db_BatchType freshBatch)))) (\<lambda>message.
         act_bind (act_wrap (\<lambda>e. ''error updating summary comment: '' @ e)
             (UpdateOrCreateSummaryComment env freshBatch message)) (\<lambda>commentId.
         if db_CommentId freshBatch = None \<and> commentId \<noteq> None then
           act_wrap (\<lambda>e. ''error saving comment ID to batch: '' @ e)
             (on_tables (UpdateDiggerBatch (freshBatch\<lparr>db_CommentId := commentId\<rparr>)))
         else act_ret ()))))))"

section \<open>Check runs (\<open>controllers/projects_helpers.go\<close>)\<close>

text \<open>The configuration of a batch is the text of the repository's \<open>digger.yml\<close>.  The two functions that
  convert it differ in the text of the error.\<close>

definition LoadDiggerConfigYamlFromString :: "'g backend_env \<Rightarrow> string \<Rightarrow> digger_config_yaml res" where
  "LoadDiggerConfigYamlFromString env yamlString =
     (case be_parse_yaml env yamlString of Inl e \<Rightarrow> Err (''error parsing yaml: '' @ e) | Inr y \<Rightarrow> Ok y)"

definition batch_yaml :: "'g backend_env \<Rightarrow> digger_batch \<Rightarrow> (digger_config_yaml, backend_world) act" where
  "batch_yaml env batch =
     act_wrap (\<lambda>e. ''error loading digger config from batch: '' @ e)
       (act_of (LoadDiggerConfigYamlFromString env (db_DiggerConfig batch)))"

definition batch_config :: "'g backend_env \<Rightarrow> string \<Rightarrow> digger_batch \<Rightarrow> (digger_config, backend_world) act" where
  "batch_config env msg batch =
     act_bind (batch_yaml env batch) (\<lambda>y.
     act_bind (act_wrap (\<lambda>e. msg @ e) (act_of (ConvertDiggerYamlToConfig (be_graph env) y))) (\<lambda>(config, _).
       act_ret config))"

definition summary_endpoint :: "'g backend_env \<Rightarrow> string" where
  "summary_endpoint env = be_getenv env ''DIGGER_AI_SUMMARY_ENDPOINT''"

definition GetAiSummaryFromTerraformPlans :: "'g backend_env \<Rightarrow> string \<Rightarrow> (string, backend_world) act" where
  "GetAiSummaryFromTerraformPlans env plans =
     remote env (RSummary plans (summary_endpoint env) (be_getenv env ''DIGGER_AI_SUMMARY_API_TOKEN''))"

text \<open>The texts of the jobs, up to the first one whose spec cannot be read.\<close>

fun terraform_outputs :: "(string \<Rightarrow> error + job_json) \<Rightarrow> (string \<Rightarrow> string \<Rightarrow> string) \<Rightarrow> digger_job list \<Rightarrow> error + string" where
  "terraform_outputs unmarshal fmt [] = Inr []"
| "terraform_outputs unmarshal fmt (j # js) =
     (case unmarshal (spec_bytes j) of
        Inl e \<Rightarrow> Inl (''could not summarize plans due to unmarshalling error: '' @ e)
      | Inr spec \<Rightarrow>
          (case terraform_outputs unmarshal fmt js of
             Inl e \<Rightarrow> Inl e
           | Inr rest \<Rightarrow> Inr (fmt (jj_ProjectName spec) (dj_TerraformOutput j) @ rest)))"

definition ai_summary_text :: "string \<Rightarrow> string" where
  "ai_summary_text aiSummary =
     (if aiSummary \<noteq> ''FOUR_OH_FOUR'' then '':sparkles: **AI summary (experimental):** '' @ aiSummary else [])"

definition GenerateChecksSummaryForBatch :: "'g backend_env \<Rightarrow> digger_batch \<Rightarrow> (string, backend_world) act" where
  "GenerateChecksSummaryForBatch env batch =
     (if summary_endpoint env = [] then act_err ''could not generate AI summary, ai summary endpoint missing''
      else
        act_bind (act_wrap (\<lambda>e. ''could not get jobs for batch: '' @ e)
            (on_tables (GetDiggerJobsForBatch (db_ID batch)))) (\<lambda>jobs.
        act_bind (of_sum (terraform_outputs (se_unmarshal (be_sched env))
            (\<lambda>name output. ''<PLAN_START>terraform output for '' @ name @ '': '' @ output @ '' <PLAN_END>'' @ newline @ newline)
            (map fst jobs))) (\<lambda>outputs.
        act_bind (act_wrap (\<lambda>e. ''could not summarize terraform outputs: '' @ e)
            (GetAiSummaryFromTerraformPlans env outputs)) (\<lambda>aiSummary.
          act_ret (ai_summary_text aiSummary)))))"

definition GenerateChecksSummaryForJob :: "'g backend_env \<Rightarrow> digger_job \<Rightarrow> (string, backend_world) act" where
  "GenerateChecksSummaryForJob env j =
     (if summary_endpoint env = [] then act_err ''could not generate AI summary, ai summary endpoint missing''
      else if dj_TerraformOutput j = [] then act_ret []
      else
        act_bind (act_wrap (\<lambda>e. ''could not summarize terraform outputs: '' @ e)
            (GetAiSummaryFromTerraformPlans env
              (''<PLAN_START>Terraform output for: '' @ dj_TerraformOutput j @ ''<PLAN_END>'' @ newline @ newline))) (\<lambda>aiSummary.
          act_ret
            ((case dj_WorkflowRunUrl j of
                None \<Rightarrow> []
              | Some u \<Rightarrow> '':link: '' @ link u ''CI job'' @ newline @ newline) @ ai_summary_text aiSummary)))"

text \<open>The one action that a check run offers, by its identifier: applying the batch.\<close>

definition GetActionsForBatch :: "digger_batch \<Rightarrow> string list" where
  "GetActionsForBatch batch =
     (if db_Status batch = BatchJobSucceeded then [''abatch:'' @ db_DiggerBatchID batch] else [])"

definition GetActionsForJob :: "digger_job \<Rightarrow> digger_batch \<Rightarrow> string list" where
  "GetActionsForJob j batch =
     (if dj_Status j = DiggerJobSucceeded then [''abatch:'' @ db_DiggerBatchID batch] else [])"

text \<open>The summary of a check run is empty when it could not be written; a failed update is only logged.\<close>

definition or_empty :: "(string, 's) act \<Rightarrow> (string, 's) act" where
  "or_empty f = act_bind (act_try f) (\<lambda>r. act_ret (case r of Inl _ \<Rightarrow> [] | Inr s \<Rightarrow> s))"

definition UpdateCheckRunForBatch :: "'g backend_env \<Rightarrow> digger_batch \<Rightarrow> (unit, backend_world) act" where
  "UpdateCheckRunForBatch env batch =
     (case db_CheckRunId batch of
        None \<Rightarrow> act_err ''error checking run id, found nil batch''
      | Some checkRunId \<Rightarrow>
          if db_VCS batch \<noteq> ''github'' then act_err ''We only support github VCS for modern checks at the moment''
          else
            act_bind (act_wrap (\<lambda>e. ''error getting github service: '' @ e) (GetPrServiceFromBatch env batch)) (\<lambda>_.
            act_bind (batch_config env ''error converting Digger YAML to config: '' batch) (\<lambda>config.
            act_bind (act_wrap (\<lambda>e. ''error mapping batch to json struct: '' @ e)
                (on_tables (batch_MapToJsonStruct (se_unmarshal (be_sched env)) batch))) (\<lambda>serialized.
            act_bind (act_wrap (\<lambda>e. ''error getting jobs for batch: '' @ e)
                (on_tables (GetDiggerJobsForBatch (db_ID batch)))) (\<lambda>jobs.
            act_bind (act_wrap (\<lambda>e. ''error generating realtime comment message: '' @ e)
                (of_sum (GenerateRealtimeCommentMessage env (map fst jobs) (db_BatchType batch)))) (\<lambda>message.
            act_bind (or_empty (GenerateChecksSummaryForBatch env batch)) (\<lambda>summary.
            let opts = (\<lambda>title. \<lparr>cu_Status = Some (ToCheckRunStatus (sb_Status serialized)),
                  cu_Conclusion = ToCheckRunConclusion (sb_Status serialized), cu_Title = Some title,
                  cu_Summary = Some summary, cu_Text = Some message, cu_Actions = GetActionsForBatch batch\<rparr>)
            in if db_BatchType batch = CmdPlan then logged (remote env (RCheckRun checkRunId (opts ''Plans Summary'')))
               else if \<not> DisableDiggerApplyStatusCheck config
               then logged (remote env (RCheckRun checkRunId (opts ''Apply Summary'')))
               else act_ret ())))))))"

definition counts_title :: "digger_job_summary \<Rightarrow> string \<Rightarrow> string \<Rightarrow> string \<Rightarrow> string" where
  "counts_title s c u d =
     itoa (int (js_ResourcesCreated s)) @ c @ itoa (int (js_ResourcesUpdated s)) @ u @
     itoa (int (js_ResourcesDeleted s)) @ d"

definition UpdateCheckRunForJob :: "'g backend_env \<Rightarrow> loaded_job \<Rightarrow> (unit, backend_world) act" where
  "UpdateCheckRunForJob env jb =
     (let job = fst jb in
      act_bind (act_of (deref (snd jb))) (\<lambda>batch.
      if db_VCS batch \<noteq> ''github'' then act_err ''Error updating PR status for job only github is supported''
      else case dj_CheckRunId job of
        None \<Rightarrow> act_err ''Error updating PR status, could not find checkRunId in job''
      | Some checkRunId \<Rightarrow>
          act_bind (act_wrap (\<lambda>e. ''error getting github service: '' @ e) (GetPrServiceFromBatch env batch)) (\<lambda>_.
          act_bind (act_wrap (\<lambda>e. ''could not unmarshal json string: '' @ e)
              (of_sum (se_unmarshal (be_sched env) (spec_bytes job)))) (\<lambda>jobSpec.
          act_bind (act_wrap (\<lambda>e. ''could not get status check for job: '' @ e)
              (of_sum (GetCheckRunStatusForJob (dj_Status job)))) (\<lambda>status.
          act_bind (act_wrap (\<lambda>e. ''could not get conclusion for job: '' @ e)
              (of_sum (GetCheckRunConclusionForJob (dj_Status job)))) (\<lambda>conclusion.
          act_bind (or_empty (GenerateChecksSummaryForJob env job)) (\<lambda>summary.
          logged (remote env (RCheckRun checkRunId
            \<lparr>cu_Status = Some status, cu_Conclusion = Some conclusion,
             cu_Title = Some (if json_IsPlan jobSpec
                              then counts_title (dj_Summary job) '' to create '' '' to update '' '' to delete''
                              else counts_title (dj_Summary job) '' created '' '' updated '' '' deleted''),
             cu_Summary = Some summary,
             cu_Text = Some (''```terraform'' @ newline @ dj_TerraformOutput job @ ''```'' @ newline),
             cu_Actions = GetActionsForJob job batch\<rparr>))))))))) "

section \<open>After a batch (\<open>controllers/projects.go\<close>)\<close>

text \<open>A failure of the edit that reports a failure is only logged.\<close>

definition report_failure :: "'g backend_env \<Rightarrow> digger_batch \<Rightarrow> string \<Rightarrow> error \<Rightarrow> ('a, backend_world) act" where
  "report_failure env batch msg e =
     act_bind (logged (remote env (REdit (db_PrNumber batch) (db_AiSummaryCommentId batch)
         ('':x: could not generate AI summary '' @ newline @ newline @ '' '' @ msg)))) (\<lambda>_. act_err e)"

text \<open>Without a service the error path calls a method of the nil service.\<close>

definition CreateTerraformOutputsSummary :: "'g backend_env \<Rightarrow> digger_batch \<Rightarrow> (unit, backend_world) act" where
  "CreateTerraformOutputsSummary env batch =
     act_bind (batch_config env ''error converting Digger YAML to config: '' batch) (\<lambda>config.
     if \<not> (db_Status batch = BatchJobSucceeded \<and> AiSummary (Reporting config)) then act_ret ()
     else
       act_bind (act_try (GetPrServiceFromBatch env batch)) (\<lambda>r.
       case r of Inl _ \<Rightarrow> act_panic ''nil pointer dereference''
       | Inr _ \<Rightarrow>
         if db_AiSummaryCommentId batch = [] then
           act_bind (logged (remote env (RPublish (db_PrNumber batch)
             ('':x: could not generate AI summary '' @ newline @ newline @ '' could not communicate with github'')))) (\<lambda>_.
           act_err ''could not post summary comment, initial comment not found'')
         else if summary_endpoint env = [] then
           report_failure env batch ''AI summary endpoint not configured''
             ''could not generate AI summary, ai summary endpoint missing''
         else
           act_bind (act_try (on_tables (GetDiggerJobsForBatch (db_ID batch)))) (\<lambda>r.
           case r of Inl e \<Rightarrow> report_failure env batch ''error fetching jobs'' (''could not get jobs for batch: '' @ e)
           | Inr jobs \<Rightarrow>
             (case terraform_outputs (se_unmarshal (be_sched env))
                 (\<lambda>name output. ''<PLAN_START>terraform output for '' @ name @ '' <PLAN_END>'' @ newline @ newline @ output)
                 (map fst jobs) of
                Inl e \<Rightarrow> report_failure env batch ''error fetching job spec'' e
              | Inr outputs \<Rightarrow>
                  act_bind (act_try (GetAiSummaryFromTerraformPlans env outputs)) (\<lambda>r.
                  case r of
                    Inl e \<Rightarrow> report_failure env batch ''error generating summary from plans''
                               (''could not summarize terraform outputs: '' @ e)
                  | Inr summary \<Rightarrow>
                      act_wrap (\<lambda>e. ''failed to update comment with AI summary: '' @ e)
                        (act_bind (remote env (REdit (db_PrNumber batch) (db_AiSummaryCommentId batch)
                           (''## AI summary for terraform outputs '' @ newline @ newline @ summary))) (\<lambda>_. act_ret ())))))))"

definition merge_pull_request :: "'g backend_env \<Rightarrow> digger_batch \<Rightarrow> string \<Rightarrow> (unit, backend_world) act" where
  "merge_pull_request env batch strategy =
     act_bind (act_wrap (\<lambda>e. ''error getting github service: '' @ e) (GetPrServiceFromBatch env batch)) (\<lambda>_.
     act_bind (act_wrap (\<lambda>e. ''error merging pull request: '' @ e)
         (remote env (RMerge (db_PrNumber batch) strategy))) (\<lambda>_. act_ret ()))"

definition AutomergePRforBatchIfEnabled :: "'g backend_env \<Rightarrow> digger_batch \<Rightarrow> (unit, backend_world) act" where
  "AutomergePRforBatchIfEnabled env batch =
     act_bind (batch_config env ''error loading digger config from yaml: '' batch) (\<lambda>config.
     act_bind (act_try (on_tables (AllImpactedProjectApplied (db_RepoFullName batch) (db_CommitSha batch)))) (\<lambda>r.
     let allApplied = (case r of Inl _ \<Rightarrow> db_CoverAllImpactedProjects batch | Inr (b, _) \<Rightarrow> b) in
     if db_Status batch = BatchJobSucceeded \<and> db_BatchType batch = CmdApply \<and> allApplied \<and> AutoMerge config
     then merge_pull_request env batch (AutoMergeStrategy config)
     else act_ret ()))"

definition delete_comment :: "'g backend_env \<Rightarrow> string \<Rightarrow> (unit, backend_world) act" where
  "delete_comment env i = logged (remote env (RDelete i))"

definition delete_job_comment :: "'g backend_env \<Rightarrow> loaded_job \<Rightarrow> (unit, backend_world) act" where
  "delete_job_comment env jb =
     (case dj_PRCommentId (fst jb) of None \<Rightarrow> act_ret () | Some c \<Rightarrow> delete_comment env (itoa c))"

definition delete_batch_comments :: "'g backend_env \<Rightarrow> digger_batch \<Rightarrow> digger_batch \<Rightarrow> (unit, backend_world) act" where
  "delete_batch_comments env batch prBatch =
     (if db_ID prBatch = db_ID batch then act_ret ()
      else
        act_bind (act_try (on_tables (GetDiggerJobsForBatch (db_ID prBatch)))) (\<lambda>r.
        case r of Inl _ \<Rightarrow> act_ret ()
        | Inr jobs \<Rightarrow>
          act_bind (act_all (delete_job_comment env) jobs) (\<lambda>_.
          act_bind (case db_CommentId prBatch of None \<Rightarrow> act_ret () | Some c \<Rightarrow> delete_comment env (itoa c)) (\<lambda>_.
          if db_AiSummaryCommentId prBatch \<noteq> [] then delete_comment env (db_AiSummaryCommentId prBatch)
          else act_ret ()))))"

definition DeleteOlderPRCommentsIfEnabled :: "'g backend_env \<Rightarrow> digger_batch \<Rightarrow> (unit, backend_world) act" where
  "DeleteOlderPRCommentsIfEnabled env batch =
     act_bind (batch_config env ''error loading digger config from yaml: '' batch) (\<lambda>config.
     if (db_Status batch = BatchJobSucceeded \<or> db_Status batch = BatchJobFailed) \<and> db_BatchType batch = CmdPlan \<and>
        db_CoverAllImpactedProjects batch \<and> DeletePriorComments config
     then
       act_bind (act_wrap (\<lambda>e. ''error getting github service: '' @ e) (GetPrServiceFromBatch env batch)) (\<lambda>_.
       act_bind (act_wrap (\<lambda>e. ''error getting github service: '' @ e)
           (on_tables (GetDiggerBatchesForPR (db_RepoFullName batch) (db_PrNumber batch)))) (\<lambda>prBatches.
       if list_ex (\<lambda>b. db_BatchType b = CmdApply) prBatches then act_ret ()
       else act_all (delete_batch_comments env batch) prBatches))
     else act_ret ())"

text \<open>The comments of a batch that group its projects.\<close>

definition comment_service_calls :: "'g backend_env \<Rightarrow> backend_world comment_calls" where
  "comment_service_calls env =
     \<lparr>cl_GetComments = (\<lambda>n w. of_sum (be_comments env (bw_calls w) n) w),
      cl_PublishComment = (\<lambda>n body. act_bind (remote env (RPublish n body)) (\<lambda>i.
        act_ret \<lparr>cc_Id = i, cc_Body = Some body, cc_Url = []\<rparr>)),
      cl_EditComment = (\<lambda>n i body. act_bind (remote env (REdit n i body)) (\<lambda>_. act_ret ()))\<rparr>"

fun project_outputs :: "serialized_job list \<Rightarrow> (string \<times> string) list \<Rightarrow> ((string \<times> string) list, tables fdb) act" where
  "project_outputs [] m = act_ret m"
| "project_outputs (s # ss) m =
     act_bind (act_wrap (\<lambda>e. ''could not get digger job: '' @ e) (GetDiggerJob (sj_DiggerJobId s))) (\<lambda>(job, _).
       project_outputs ss (AList.update (sj_ProjectName s) (dj_TerraformOutput job) m))"

definition UpdateCommentsForBatchGroup ::
  "'g backend_env \<Rightarrow> digger_batch \<Rightarrow> serialized_job list \<Rightarrow> (unit, backend_world) act" where
  "UpdateCommentsForBatchGroup env batch serializedJobs =
     act_bind (batch_yaml env batch) (\<lambda>y.
     if CommentRenderMode_y y \<noteq> Some ''group_by_module'' then act_ret ()
     else if db_BatchType batch \<noteq> CmdPlan \<and> db_BatchType batch \<noteq> CmdApply then act_ret ()
     else
       act_bind (act_wrap (\<lambda>e. ''error getting GitHub service: '' @ e) (GetGithubService env batch)) (\<lambda>_.
       act_bind (act_wrap (\<lambda>e. ''failed to unmarshal sourceDetails: '' @ e)
           (of_sum (be_source_details env (db_SourceDetails batch)))) (\<lambda>details.
       act_bind (on_tables (project_outputs serializedJobs [])) (\<lambda>outputs.
         act_all (\<lambda>d. logged (group_UpdateComment (comment_service_calls env) (be_unmarshal_footprint env) serializedJobs
             (db_PrNumber batch) details (sd_SourceLocation d) outputs)) details))))"

section \<open>The status of a job\<close>

record job_status_request =
  rq_Status :: string
  rq_JobSummary :: "iac_summary option"
  rq_Footprint :: "footprint option"
  rq_PrCommentUrl :: string
  rq_PrCommentId :: string
  rq_TerraformOutput :: string
  rq_WorkflowUrl :: string

text \<open>What the caller is told: a status code with a message, or the batch.\<close>

datatype status_answer = Problem nat string | Answer serialized_batch

definition or_problem ::
  "string \<Rightarrow> ('a, 's) act \<Rightarrow> ('a \<Rightarrow> (status_answer, 's) act) \<Rightarrow> (status_answer, 's) act" where
  "or_problem msg f g =
     act_bind (act_try f) (\<lambda>r. case r of Inl _ \<Rightarrow> act_ret (Problem 500 msg) | Inr a \<Rightarrow> g a)"

text \<open>The result is the job, whose URL is set even if saving it fails, with the error.\<close>

definition updateWorkflowUrlForJob ::
  "'g backend_env \<Rightarrow> loaded_job \<Rightarrow> (error option \<times> digger_job, backend_world) act" where
  "updateWorkflowUrlForJob env jb =
     (let job = fst jb; failed = (\<lambda>e. act_ret (Some e, job)) in
      if dj_WorkflowRunUrl job \<noteq> None \<and> dj_WorkflowRunUrl job \<noteq> Some ''#'' \<and> dj_WorkflowRunUrl job \<noteq> Some []
      then act_ret (None, job)
      else
        act_bind (act_of (deref (snd jb))) (\<lambda>batch.
        act_bind (act_try (github_client env batch)) (\<lambda>r.
        case r of
          Inl e \<Rightarrow> failed (''error creating GitHub client for workflow URL update: '' @ e)
        | Inr _ \<Rightarrow>
            (case GetWorkflowIdAndUrlFromDiggerJobId env (db_RepoOwner batch) (db_RepoName batch) (dj_DiggerJobID job) of
               Inl e \<Rightarrow> failed (''error getting workflow ID from job: '' @ e)
             | Inr (_, url) \<Rightarrow>
                 if url \<noteq> ''#'' \<and> url \<noteq> [] then
                   (let job' = job\<lparr>dj_WorkflowRunUrl := Some url\<rparr> in
                    act_bind (act_try (on_tables (UpdateDiggerJob job'))) (\<lambda>r.
                      act_ret (case r of Inl e \<Rightarrow> Some (''error updating job with workflow URL: '' @ e) | Inr _ \<Rightarrow> None,
                               job')))
                 else failed (''workflow URL not found for job (workflowUrl returned: '' @ url @ '')'')))))"

text \<open>\<open>Save\<close> of the row that \<open>GetImpactedProjectSingle\<close> found; without one it inserts a row.\<close>

fun update_first :: "('a \<Rightarrow> bool) \<Rightarrow> 'a \<Rightarrow> 'a list \<Rightarrow> 'a list" where
  "update_first P x [] = [x]"
| "update_first P x (y # ys) = (if P y then x # ys else y # update_first P x ys)"

definition save_impacted :: "string \<Rightarrow> string \<Rightarrow> impacted_project \<Rightarrow> (unit, tables fdb) act" where
  "save_impacted repoFullName commitSha p =
     fdb_write (\<lambda>t. t\<lparr>t_impacted :=
       update_first (\<lambda>q. ip_RepoFullName q = repoFullName \<and> ip_CommitSha q = commitSha) p (t_impacted t)\<rparr>)"

definition mark_impacted :: "digger_batch \<Rightarrow> string \<Rightarrow> (unit, tables fdb) act" where
  "mark_impacted batch projectName =
     act_bind (act_try (GetImpactedProjectSingle (db_RepoFullName batch) (db_CommitSha batch) projectName)) (\<lambda>r.
     case r of Inl _ \<Rightarrow> act_ret ()
     | Inr p \<Rightarrow>
         logged (save_impacted (db_RepoFullName batch) (db_CommitSha batch)
           (p\<lparr>ip_Planned := ip_Planned p \<or> db_BatchType batch = CmdPlan,
              ip_Applied := ip_Applied p \<or> db_BatchType batch = CmdApply\<rparr>)))"

text \<open>Recording a status: \<open>Inl\<close> is an early answer, \<open>Inr\<close> the job as it is now.\<close>

definition save_then ::
  "string \<Rightarrow> digger_job \<Rightarrow> (unit, backend_world) act \<Rightarrow> (status_answer + digger_job, backend_world) act" where
  "save_then msg job rest =
     act_bind (act_try (on_tables (UpdateDiggerJob job))) (\<lambda>r.
     case r of Inl _ \<Rightarrow> act_ret (Inl (Problem 500 msg))
     | Inr _ \<Rightarrow> act_bind rest (\<lambda>_. act_ret (Inr job)))"

definition store_summary :: "digger_job \<Rightarrow> iac_summary option \<Rightarrow> (unit, backend_world) act" where
  "store_summary job s =
     (case s of None \<Rightarrow> act_ret ()
      | Some s \<Rightarrow> logged (on_tables (UpdateDiggerJobSummary (dj_DiggerJobID job) (is_created s) (is_updated s) (is_deleted s))))"

definition record_success ::
  "'g backend_env \<Rightarrow> string \<Rightarrow> job_status_request \<Rightarrow> loaded_job \<Rightarrow>
   (status_answer + digger_job, backend_world) act" where
  "record_success env orgId req jb =
     act_bind (act_of (deref (snd jb))) (\<lambda>batch.
     let job = (fst jb)\<lparr>dj_Status := DiggerJobSucceeded, dj_TerraformOutput := rq_TerraformOutput req\<rparr> in
     case (case rq_Footprint req of None \<Rightarrow> Inr (dj_PlanFootprint (fst jb))
           | Some f \<Rightarrow> map_sum (\<lambda>e. e) Some (be_marshal_footprint env f)) of
       Inl _ \<Rightarrow> act_ret (Inl (Problem 500 ''Error marshalling plan footprint''))
     | Inr footprint \<Rightarrow>
         act_bind (on_tables (mark_impacted batch (dj_ProjectName job))) (\<lambda>_.
         let job' = job\<lparr>dj_PlanFootprint := footprint, dj_PRCommentUrl := rq_PrCommentUrl req,
                       dj_PRCommentId := atoi (rq_PrCommentId req)\<rparr> in
         save_then ''Error saving job'' job'
           (act_bind (spawn (JobCompleted orgId (job', snd jb))) (\<lambda>_.
            act_bind (store_summary job' (rq_JobSummary req)) (\<lambda>_.
              spawn (CommentUpdate (snd jb)))))))"

definition record_status ::
  "'g backend_env \<Rightarrow> string \<Rightarrow> job_status_request \<Rightarrow> loaded_job \<Rightarrow>
   (status_answer + digger_job, backend_world) act" where
  "record_status env orgId req jb =
     (let job = fst jb; comment = spawn (CommentUpdate (snd jb)) in
      if rq_Status req = ''created'' then
        save_then ''Error updating job status'' (job\<lparr>dj_Status := DiggerJobCreated\<rparr>) comment
      else if rq_Status req = ''triggered'' then
        save_then ''Error updating job status'' (job\<lparr>dj_Status := DiggerJobTriggered\<rparr>) comment
      else if rq_Status req = ''started'' then
        save_then ''Error updating job status''
          (job\<lparr>dj_Status := DiggerJobStarted,
               dj_WorkflowRunUrl := (if rq_WorkflowUrl req \<noteq> [] then Some (rq_WorkflowUrl req) else dj_WorkflowRunUrl job)\<rparr>)
          comment
      else if rq_Status req = ''succeeded'' then record_success env orgId req jb
      else if rq_Status req = ''failed'' then
        save_then ''Error saving job''
          (job\<lparr>dj_Status := DiggerJobFailed, dj_TerraformOutput := rq_TerraformOutput req\<rparr>) comment
      else
        act_ret (Inl (Problem 400 (''Unexpected job status: '' @ rq_Status req @
          ''. Valid statuses are: created, triggered, started, succeeded, failed''))))"

text \<open>What follows the update of the batch and the check runs; \<open>r\<close> is the outcome of merging.\<close>

definition after_automerge ::
  "'g backend_env \<Rightarrow> digger_batch \<Rightarrow> error + unit \<Rightarrow> (status_answer, backend_world) act" where
  "after_automerge env batch r =
     act_bind (case r of
         Inr _ \<Rightarrow> act_ret ()
       | Inl e \<Rightarrow> logged (PostCommentForBatch env batch
           ('':yellow_circle: Warning could not automerge PR, please remember to merge it manually. Error: ('' @ e @ '')''))) (\<lambda>_.
     act_bind (logged (DeleteOlderPRCommentsIfEnabled env batch)) (\<lambda>_.
     or_problem ''Error getting batch details''
       (on_tables (batch_MapToJsonStruct (se_unmarshal (be_sched env)) batch)) (\<lambda>res.
     act_bind (logged (UpdateCommentsForBatchGroup env batch (sb_Jobs res))) (\<lambda>_.
       act_ret (Answer res)))))"

definition finish_batch :: "'g backend_env \<Rightarrow> digger_batch \<Rightarrow> (status_answer, backend_world) act" where
  "finish_batch env batch =
     act_bind (if db_ReportTerraformOutputs batch then logged (CreateTerraformOutputsSummary env batch) else act_ret ()) (\<lambda>_.
     act_bind (act_try (AutomergePRforBatchIfEnabled env batch)) (after_automerge env batch))"

definition refresh_checks ::
  "'g backend_env \<Rightarrow> string \<Rightarrow> digger_batch \<Rightarrow> (status_answer, backend_world) act" where
  "refresh_checks env jobId batch =
     or_problem ''Error getting refreshed batch'' (on_tables (GetDiggerBatch (db_ID batch))) (\<lambda>refreshedBatch.
     or_problem ''Error updating aggregate status check'' (UpdateCheckRunForBatch env refreshedBatch) (\<lambda>_.
     or_problem ''Error getting refreshed job'' (on_tables (GetDiggerJob jobId)) (\<lambda>refreshedJob.
     or_problem ''Error updating aggregate status check'' (UpdateCheckRunForJob env refreshedJob) (\<lambda>_.
       finish_batch env batch))))"

definition update_batch :: "'g backend_env \<Rightarrow> string \<Rightarrow> loaded_job \<Rightarrow> (status_answer, backend_world) act" where
  "update_batch env jobId jb =
     act_bind (updateWorkflowUrlForJob env jb) (\<lambda>(_, job).
     or_problem ''Error saving job'' (on_tables (UpdateDiggerJob job)) (\<lambda>_.
     act_bind (act_of (deref (snd jb))) (\<lambda>batch0.
     or_problem ''Error updating batch status'' (on_tables (UpdateBatchStatus batch0)) (refresh_checks env jobId))))"

text \<open>The organisation of the caller, if the token gave one, and the request, if its body could be read.\<close>

definition SetJobStatusForProject ::
  "'g backend_env \<Rightarrow> string \<Rightarrow> string option \<Rightarrow> job_status_request option \<Rightarrow> (status_answer, backend_world) act" where
  "SetJobStatusForProject env jobId orgId request =
     (case orgId of
        None \<Rightarrow> act_ret (Problem 403 ''Not allowed to access this resource'')
      | Some org \<Rightarrow>
          (case request of
             None \<Rightarrow> act_ret (Problem 400 ''Error binding JSON'')
           | Some req \<Rightarrow>
               or_problem ''Error fetching job'' (on_tables (GetDiggerJob jobId)) (\<lambda>jb.
               act_bind (act_of (deref (dj_BatchID (fst jb)))) (\<lambda>_.
               or_problem ''Error fetching organisation'' (of_sum (be_organisation env org)) (\<lambda>_.
               act_bind (record_status env org req jb) (\<lambda>r.
               case r of Inl early \<Rightarrow> act_ret early
               | Inr job \<Rightarrow> update_batch env jobId (job, snd jb)))))))"

section \<open>Tasks in the background\<close>

definition complete_job :: "'g backend_env \<Rightarrow> string \<Rightarrow> loaded_job \<Rightarrow> (unit, backend_world) act" where
  "complete_job env orgId jb =
     act_bind (of_sum (be_installation env orgId)) (\<lambda>installationId.
     act_bind (of_sum (be_app_ids env installationId)) (\<lambda>installations.
     if installations = [] then act_ret ()
     else
       act_bind (on_tables (GetDiggerJobLink (dj_DiggerJobID (fst jb)))) (\<lambda>r.
       act_bind (act_of (deref r)) (\<lambda>jobLink.
       if \<not> str_contains (gl_RepoFullName jobLink) ''/'' then act_ret ()
       else
         act_bind (of_sum (be_app_client env (hd installations) installationId)) (\<lambda>_.
         act_bind (act_of (deref (snd jb))) (\<lambda>batch.
           on_sched (DiggerJobCompleted (be_sched env) (db_ID batch) (fst jb))))))))"

text \<open>A task logs its errors and recovers from a panic.\<close>

definition run_background :: "'g backend_env \<Rightarrow> background \<Rightarrow> backend_world \<Rightarrow> backend_world" where
  "run_background env b w =
     (case b of
        JobCompleted orgId jb \<Rightarrow> snd (complete_job env orgId jb w)
      | CommentUpdate batch \<Rightarrow>
          snd (act_bind (act_of (deref batch)) (UpdatePRCommentRealtime env) w))"

end
