(* ===== verification/JobStatusProps.thy ===== *)
theory JobStatusProps
  imports JobStatus JobSchedulerProps RunWorld ConfigProps
begin

text \<open>
  What a report of a job's status can do.  The proofs follow the handler's structure: a change of the world that
  every step makes within a reflexive and transitive relation is one the handler makes within it (the locale
  \<open>world_change\<close>, interpreted on the relations below).
\<close>

section \<open>Changes of the world\<close>

definition within :: "('s \<Rightarrow> 's \<Rightarrow> bool) \<Rightarrow> ('a, 's) act \<Rightarrow> bool" where
  "within R f \<longleftrightarrow> (\<forall>s. R s (snd (f s)))"

lemma withinD: "within R f \<Longrightarrow> f s = (r, s') \<Longrightarrow> R s s'"
  by (metis snd_conv within_def)

lemma withinI: "(\<And>s r s'. f s = (r, s') \<Longrightarrow> R s s') \<Longrightarrow> within R f"
  by (metis prod.collapse within_def)

locale world_change =
  fixes R :: "'s \<Rightarrow> 's \<Rightarrow> bool"
  assumes refl: "R u u"
    and trans: "R u v \<Longrightarrow> R v w \<Longrightarrow> R u w"
begin

lemma pure:
  "within R (act_ret a)" "within R (act_err e)" "within R (act_panic m)" "within R (act_of r)" "within R (of_sum x)"
  by (auto simp: within_def of_sum_def refl split: sum.splits)

lemma bind: "within R f \<Longrightarrow> (\<And>a. within R (g a)) \<Longrightarrow> within R (act_bind f g)"
  unfolding within_def act_bind_def by (auto split: prod.splits res.splits intro: trans) (metis snd_conv trans)+

lemma wrap: "within R f \<Longrightarrow> within R (act_wrap m f)"
  and tried: "within R f \<Longrightarrow> within R (act_try f)"
  by (simp_all add: within_def)

lemma log: "within R f \<Longrightarrow> within R (logged f)"
  unfolding logged_def by (intro bind tried pure)

lemma all: "(\<And>x. within R (f x)) \<Longrightarrow> within R (act_all f xs)"
  by (induction xs) (simp_all add: bind pure del: act_ret_def)

lemma problem: "within R f \<Longrightarrow> (\<And>a. within R (g a)) \<Longrightarrow> within R (or_problem msg f g)"
proof -
  assume f: "within R f" and g: "\<And>a. within R (g a)"
  have "within R (case r of Inl _ \<Rightarrow> act_ret (Problem 500 msg) | Inr a \<Rightarrow> g a)" for r
    by (cases r) (simp_all add: g pure del: act_ret_def)
  with f show ?thesis unfolding or_problem_def by (intro bind tried)
qed

lemma empty: "within R f \<Longrightarrow> within R (or_empty f)"
  unfolding or_empty_def by (intro bind tried pure)

lemmas rules = pure bind wrap tried log all problem empty

lemma bind_post:
  assumes "within R f" and "\<And>u a v. f u = (Ok a, v) \<Longrightarrow> Q a" and "\<And>a. Q a \<Longrightarrow> within R (g a)"
  shows "within R (act_bind f g)"
proof (rule withinI)
  fix s r s'
  assume b: "act_bind f g s = (r, s')"
  obtain x s1 where x: "f s = (x, s1)" by fastforce
  have s1: "R s s1" using withinD [OF assms(1) x] .
  show "R s s'"
  proof (cases x)
    case (Ok a)
    with b x have "g a s1 = (r, s')" by simp
    with withinD [OF assms(3)] assms(2) x Ok s1 trans show ?thesis by blast
  qed (use b x s1 in auto)
qed

text \<open>A change that is not within the relation happens after the steps that are.\<close>

lemma bindE:
  assumes "act_bind f g u = (r, v)" and "\<not> R u v" and "within R f"
  obtains a w where "f u = (Ok a, w)" and "g a w = (r, v)" and "R u w" and "\<not> R w v"
proof -
  obtain x w where x: "f u = (x, w)" by fastforce
  have w: "R u w" using withinD [OF assms(3) x] .
  show thesis
  proof (cases x)
    case (Ok a)
    with assms(1) x have "g a w = (r, v)" by simp
    moreover have "\<not> R w v" using assms(2) w trans by blast
    ultimately show ?thesis using that x w Ok by blast
  qed (use assms x w in auto)
qed

lemma problemE:
  assumes "or_problem msg f g u = (r, v)" and "\<not> R u v" and "within R f"
  obtains a w where "f u = (Ok a, w)" and "g a w = (r, v)" and "R u w" and "\<not> R w v"
proof -
  from bindE [OF assms(1) [unfolded or_problem_def] assms(2) tried [OF assms(3)]] obtain x w where
    x: "act_try f u = (Ok x, w)" and g: "(case x of Inl _ \<Rightarrow> act_ret (Problem 500 msg) | Inr a \<Rightarrow> g a) w = (r, v)"
    and w: "R u w" "\<not> R w v" by blast
  show thesis
  proof (cases x)
    case (Inl e)
    with g w refl show ?thesis by simp
  next
    case (Inr a)
    with x g w that show ?thesis by (simp add: act_try_Inr)
  qed
qed

end

text \<open>The tables, and the merges that were asked for.\<close>

abbreviation "tables_of w \<equiv> data (bw_sched w)"

definition merges :: "backend_world \<Rightarrow> remote_call list" where
  "merges w = filter (\<lambda>c. case c of RMerge _ _ \<Rightarrow> True | _ \<Rightarrow> False) (bw_calls w)"

definition no_merge :: "backend_world \<Rightarrow> backend_world \<Rightarrow> bool" where
  "no_merge w w' \<longleftrightarrow> merges w' = merges w"

definition quiet :: "backend_world \<Rightarrow> backend_world \<Rightarrow> bool" where
  "quiet w w' \<longleftrightarrow> merges w' = merges w \<and> tables_of w' = tables_of w"

interpretation no_merge: world_change no_merge
  by unfold_locales (simp_all add: no_merge_def)

interpretation quiet: world_change quiet
  by unfold_locales (simp_all add: quiet_def)

lemma quiet_no_merge: "within quiet f \<Longrightarrow> within no_merge f"
  by (simp add: within_def quiet_def no_merge_def)

lemma on_tables_eq:
  "on_tables f w = (x, w') \<Longrightarrow>
   f (sw_db (bw_sched w)) = (x, sw_db (bw_sched w')) \<and> bw_calls w' = bw_calls w \<and> bw_tasks w' = bw_tasks w"
  by (auto simp: on_tables_def on_sched_def Let_def dest!: on_db_eq split: prod.splits)

lemma no_merge_tables: "within no_merge (on_tables f)"
  by (rule withinI) (auto simp: no_merge_def merges_def dest: on_tables_eq)

lemma no_merge_sched: "within no_merge (on_sched f)"
  by (rule withinI) (auto simp: no_merge_def merges_def on_sched_def Let_def split: prod.splits)

definition reads :: "('a, tables fdb) act \<Rightarrow> bool" where
  "reads f \<longleftrightarrow> within (\<lambda>d d'. fdb_data d' = fdb_data d) f"

interpretation same_data: world_change "\<lambda>d d' :: tables fdb. fdb_data d' = fdb_data d"
  by unfold_locales simp_all

lemma reads_fdb: "reads (fdb_read q)"
  by (simp add: reads_def within_def)

lemmas reads_rules = same_data.rules [folded reads_def]

lemma quiet_tables: "reads f \<Longrightarrow> within quiet (on_tables f)"
  unfolding reads_def
  by (rule withinI) (auto simp: quiet_def merges_def dest!: on_tables_eq dest: withinD)

lemma quiet_remote: "(\<And>n s. c \<noteq> RMerge n s) \<Longrightarrow> within quiet (remote env c)"
  by (rule withinI) (cases c; auto simp: quiet_def merges_def remote_def of_sum_def split: sum.splits)

lemma no_merge_spawn: "within no_merge (spawn b)"
  by (simp add: within_def spawn_def no_merge_def merges_def)

text \<open>Queries.\<close>

lemma reads_queries:
  "reads (GetDiggerJob jobId)" "reads (GetDiggerJobsForBatch batchId)" "reads (GetDiggerBatch batchId)"
  "reads (GetDiggerBatchesForPR repo n)" "reads (GetImpactedProjectSingle repo sha name)"
  "reads (AllImpactedProjectApplied repo sha)"
  unfolding GetDiggerJob_read GetDiggerJobsForBatch_def GetDiggerBatch_def GetDiggerBatchesForPR_def
    GetImpactedProjectSingle_def AllImpactedProjectApplied_def GetImpactedProjects_def
  by (auto intro!: reads_fdb reads_rules simp del: act_ret_def act_err_def)

lemma reads_batch_MapToJsonStruct: "reads (batch_MapToJsonStruct unmarshal b)"
  unfolding batch_MapToJsonStruct_def by (intro reads_rules reads_queries)

lemma reads_project_outputs: "reads (project_outputs ss m)"
  by (induction ss arbitrary: m)
    (auto intro!: reads_rules reads_queries simp del: act_ret_def)

lemmas quiet_reads =
  quiet_tables [OF reads_queries(1)] quiet_tables [OF reads_queries(2)] quiet_tables [OF reads_queries(3)]
  quiet_tables [OF reads_queries(4)] quiet_tables [OF reads_queries(5)] quiet_tables [OF reads_queries(6)]
  quiet_tables [OF reads_batch_MapToJsonStruct] quiet_tables [OF reads_project_outputs]

section \<open>What only merges do\<close>

lemma quiet_service:
  "within quiet (GetPrServiceFromBatch env b)" "within quiet (GetGithubService env b)" "within quiet (github_client env b)"
  by (auto simp: within_def GetPrServiceFromBatch_def GetGithubService_def github_client_def of_sum_def act_wrap_def
      quiet_def split: sum.splits)

lemma quiet_config: "within quiet (batch_yaml env b)" "within quiet (batch_config env msg b)"
  unfolding batch_config_def batch_yaml_def
  by (auto intro!: quiet.rules split: prod.splits simp del: act_ret_def act_of_def)

lemmas quiet_steps = quiet.rules quiet_reads quiet_service quiet_config quiet_remote

lemma quiet_summary: "within quiet (GetAiSummaryFromTerraformPlans env plans)"
  unfolding GetAiSummaryFromTerraformPlans_def by (rule quiet_remote) simp

lemma quiet_check_summaries:
  "within quiet (GenerateChecksSummaryForBatch env b)" "within quiet (GenerateChecksSummaryForJob env j)"
  unfolding GenerateChecksSummaryForBatch_def GenerateChecksSummaryForJob_def
  by (auto intro!: quiet_steps quiet_summary simp del: act_ret_def act_err_def)

lemma quiet_UpdateCheckRunForBatch: "within quiet (UpdateCheckRunForBatch env b)"
  unfolding UpdateCheckRunForBatch_def Let_def
  by (auto intro!: quiet_steps quiet_check_summaries split: option.split simp del: act_ret_def act_err_def)

lemma quiet_UpdateCheckRunForJob: "within quiet (UpdateCheckRunForJob env jb)"
  unfolding UpdateCheckRunForJob_def Let_def
  by (auto intro!: quiet_steps quiet_check_summaries split: option.split simp del: act_ret_def act_err_def act_of_def)

lemma quiet_report_failure: "within quiet (report_failure env b msg e)"
  unfolding report_failure_def by (auto intro!: quiet_steps simp del: act_err_def)

lemma quiet_CreateTerraformOutputsSummary: "within quiet (CreateTerraformOutputsSummary env b)"
  unfolding CreateTerraformOutputsSummary_def
  by (auto intro!: quiet_steps quiet_report_failure quiet_summary split: sum.split
      simp del: act_ret_def act_err_def act_panic_def)

lemma quiet_PostCommentForBatch: "within quiet (PostCommentForBatch env b c)"
  unfolding PostCommentForBatch_def by (auto intro!: quiet_steps simp del: act_ret_def)

lemma quiet_delete_comment: "within quiet (delete_comment env i)"
  unfolding delete_comment_def by (auto intro!: quiet_steps)

lemma quiet_delete_batch_comments: "within quiet (delete_batch_comments env b p)"
  unfolding delete_batch_comments_def delete_job_comment_def
  by (auto intro!: quiet_steps quiet_delete_comment split: sum.split option.split simp del: act_ret_def)

lemma quiet_DeleteOlderPRCommentsIfEnabled: "within quiet (DeleteOlderPRCommentsIfEnabled env b)"
  unfolding DeleteOlderPRCommentsIfEnabled_def
  by (auto intro!: quiet_steps quiet_delete_batch_comments simp del: act_ret_def)

lemma quiet_group_UpdateComment:
  "within quiet (group_UpdateComment (comment_service_calls env) unmarshal jobs n details location outputs)"
  unfolding group_UpdateComment_def comment_service_calls_def Let_def
  by (auto intro!: quiet_steps split: option.split sum.split simp del: act_ret_def act_err_def)

lemma quiet_UpdateCommentsForBatchGroup: "within quiet (UpdateCommentsForBatchGroup env b jobs)"
  unfolding UpdateCommentsForBatchGroup_def
  by (auto intro!: quiet_steps quiet_group_UpdateComment simp del: act_ret_def)

lemma no_merge_save_then: "within no_merge rest \<Longrightarrow> within no_merge (save_then msg job rest)"
  unfolding save_then_def
  by (auto intro!: no_merge.rules no_merge_tables split: sum.split simp del: act_ret_def)

lemma no_merge_record_status: "within no_merge (record_status env org req jb)"
  unfolding record_status_def record_success_def store_summary_def Let_def
  by (auto intro!: no_merge.rules no_merge_tables no_merge_spawn no_merge_save_then split: sum.split option.split
      simp del: act_ret_def act_of_def)

section \<open>Merging\<close>

lemma act_wrap_Ok: "act_wrap m f w = (Ok a, w') \<longleftrightarrow> f w = (Ok a, w')"
  by simp

lemma batch_config_Ok:
  assumes "batch_config env msg b w = (Ok config, w')"
  obtains y g where "be_parse_yaml env (db_DiggerConfig b) = Inr y"
    and "ConvertDiggerYamlToConfig (be_graph env) y = Ok (config, g)"
  using assms
  by (auto simp: batch_config_def batch_yaml_def LoadDiggerConfigYamlFromString_def act_bind_def act_wrap_def
      split: sum.splits res.splits prod.splits)

definition impacted_by :: "digger_batch \<Rightarrow> impacted_project \<Rightarrow> bool" where
  "impacted_by b p \<longleftrightarrow> ip_RepoFullName p = db_RepoFullName b \<and> ip_CommitSha p = db_CommitSha b"

definition all_applied :: "tables \<Rightarrow> digger_batch \<Rightarrow> bool" where
  "all_applied t b \<longleftrightarrow>
     (\<exists>p \<in> set (t_impacted t). impacted_by b p) \<and> (\<forall>p \<in> set (t_impacted t). impacted_by b p \<longrightarrow> ip_Applied p)"

lemma AllImpactedProjectApplied_Ok:
  assumes "AllImpactedProjectApplied (db_RepoFullName b) (db_CommitSha b) d = (Ok (True, ps), d')"
  shows "all_applied (fdb_data d) b"
proof -
  obtain qs d1 where q: "GetImpactedProjects (db_RepoFullName b) (db_CommitSha b) d = (Ok qs, d1)"
    and c: "length qs \<noteq> 0" "length (filter (\<lambda>p. ip_Applied p = False) qs) = 0"
    using assms by (auto simp: AllImpactedProjectApplied_def act_bind_def split: prod.splits res.splits if_splits)
  from fdb_read_Ok [OF q [unfolded GetImpactedProjects_def]] have
    "qs = filter (impacted_by b) (t_impacted (fdb_data d))" by (simp add: impacted_by_def [abs_def])
  with c show ?thesis by (auto simp: all_applied_def filter_empty_conv)
qed

lemma remote_merge:
  "remote env (RMerge n s) w = (x, w') \<Longrightarrow> merges w' = merges w @ [RMerge n s] \<and> tables_of w' = tables_of w"
  by (auto simp: remote_def of_sum_def merges_def split: sum.splits)

text \<open>A merge that the backend asks for, and why it may.\<close>

definition may_merge :: "'g backend_env \<Rightarrow> tables \<Rightarrow> digger_batch \<Rightarrow> remote_call \<Rightarrow> bool" where
  "may_merge env t b c \<longleftrightarrow>
     (\<exists>y config g. be_parse_yaml env (db_DiggerConfig b) = Inr y \<and>
        ConvertDiggerYamlToConfig (be_graph env) y = Ok (config, g) \<and> AutoMerge config \<and>
        c = RMerge (db_PrNumber b) (AutoMergeStrategy config)) \<and>
     db_BatchType b = CmdApply \<and> (db_CoverAllImpactedProjects b \<or> all_applied t b)"

lemma merge_pull_request_merges:
  assumes f: "merge_pull_request env b strategy w = (r, w')" and m: "\<not> no_merge w w'"
  shows "merges w' = merges w @ [RMerge (db_PrNumber b) strategy] \<and> tables_of w' = tables_of w"
proof -
  from no_merge.bindE [OF f [unfolded merge_pull_request_def] m quiet_no_merge [OF quiet.wrap [OF quiet_service(1)]]]
  obtain a w1 where
    f1: "act_wrap (\<lambda>e. ''error getting github service: '' @ e) (GetPrServiceFromBatch env b) w = (Ok a, w1)" and
    f2: "act_bind (act_wrap (\<lambda>e. ''error merging pull request: '' @ e) (remote env (RMerge (db_PrNumber b) strategy)))
      (\<lambda>_. act_ret ()) w1 = (r, w')" by blast
  have q1: "quiet w w1" using withinD [OF quiet.wrap [OF quiet_service(1)] f1] .
  obtain y where "remote env (RMerge (db_PrNumber b) strategy) w1 = (y, w')"
    using f2 by (cases "remote env (RMerge (db_PrNumber b) strategy) w1")
      (auto simp: act_bind_def act_wrap_def split: res.splits)
  from remote_merge [OF this] q1 show ?thesis by (simp add: quiet_def)
qed

lemma automerge_guarded:
  assumes f: "AutomergePRforBatchIfEnabled env b w = (r, w')" and m: "\<not> no_merge w w'"
  shows "db_Status b = BatchJobSucceeded \<and>
    (\<exists>c. may_merge env (tables_of w) b c \<and> merges w' = merges w @ [c]) \<and> tables_of w' = tables_of w"
proof -
  define msg where "msg = ''error loading digger config from yaml: ''"
  note f' = f [unfolded AutomergePRforBatchIfEnabled_def msg_def [symmetric]]
  from no_merge.bindE [OF f' m quiet_no_merge [OF quiet_config(2)]] obtain config w1 where
    c: "batch_config env msg b w = (Ok config, w1)" and m1: "\<not> no_merge w1 w'" and
    f1: "act_bind (act_try (on_tables (AllImpactedProjectApplied (db_RepoFullName b) (db_CommitSha b)))) (\<lambda>r.
     let allApplied = (case r of Inl _ \<Rightarrow> db_CoverAllImpactedProjects b | Inr (b, _) \<Rightarrow> b) in
     if db_Status b = BatchJobSucceeded \<and> db_BatchType b = CmdApply \<and> allApplied \<and> AutoMerge config
     then merge_pull_request env b (AutoMergeStrategy config) else act_ret ()) w1 = (r, w')" by blast
  have q1: "quiet w w1" using withinD [OF quiet_config(2) c] .
  from no_merge.bindE [OF f1 m1 quiet_no_merge [OF quiet.tried [OF quiet_reads(6)]]] obtain x w2 where
    x: "act_try (on_tables (AllImpactedProjectApplied (db_RepoFullName b) (db_CommitSha b))) w1 = (Ok x, w2)" and
    f2: "(let allApplied = (case x of Inl _ \<Rightarrow> db_CoverAllImpactedProjects b | Inr (b, _) \<Rightarrow> b) in
     if db_Status b = BatchJobSucceeded \<and> db_BatchType b = CmdApply \<and> allApplied \<and> AutoMerge config
     then merge_pull_request env b (AutoMergeStrategy config) else act_ret ()) w2 = (r, w')"
    and m2: "\<not> no_merge w2 w'" by blast
  have q2: "quiet w1 w2" using withinD [OF quiet.tried [OF quiet_reads(6)] x] .
  from f2 m2 no_merge.refl have
    g: "db_Status b = BatchJobSucceeded" "db_BatchType b = CmdApply" "AutoMerge config"
      "(case x of Inl _ \<Rightarrow> db_CoverAllImpactedProjects b | Inr (b, _) \<Rightarrow> b)" and
    f3: "merge_pull_request env b (AutoMergeStrategy config) w2 = (r, w')"
    by (auto simp: Let_def split: if_splits)
  have applied: "db_CoverAllImpactedProjects b \<or> all_applied (tables_of w) b"
  proof (cases x)
    case (Inr p)
    with g(4) obtain ps where "x = Inr (True, ps)" by (cases p) auto
    with x have "on_tables (AllImpactedProjectApplied (db_RepoFullName b) (db_CommitSha b)) w1 = (Ok (True, ps), w2)"
      by (simp add: act_try_Inr)
    from AllImpactedProjectApplied_Ok [OF conjunct1 [OF on_tables_eq [OF this]]] q1 show ?thesis
      by (simp add: quiet_def)
  qed (use g(4) in simp)
  from merge_pull_request_merges [OF f3 m2] q1 q2 have
    w': "merges w' = merges w @ [RMerge (db_PrNumber b) (AutoMergeStrategy config)]" "tables_of w' = tables_of w"
    by (auto simp: quiet_def)
  from batch_config_Ok [OF c] g applied have
    "may_merge env (tables_of w) b (RMerge (db_PrNumber b) (AutoMergeStrategy config))"
    unfolding may_merge_def by metis
  with w' g(1) show ?thesis by blast
qed

definition same_tables :: "backend_world \<Rightarrow> backend_world \<Rightarrow> bool" where
  "same_tables w w' \<longleftrightarrow> tables_of w' = tables_of w"

interpretation same_tables: world_change same_tables
  by unfold_locales (simp_all add: same_tables_def)

lemma quiet_same_tables: "within quiet f \<Longrightarrow> within same_tables f"
  by (simp add: within_def quiet_def same_tables_def)

lemma quiet_after_automerge: "within quiet (after_automerge env b r)"
  unfolding after_automerge_def
  by (auto intro!: quiet_steps quiet_PostCommentForBatch quiet_DeleteOlderPRCommentsIfEnabled
      quiet_UpdateCommentsForBatchGroup split: sum.split simp del: act_ret_def)

lemma same_tables_remote: "within same_tables (remote env c)"
  by (rule withinI) (auto simp: same_tables_def remote_def of_sum_def split: sum.splits)

lemma same_tables_automerge: "within same_tables (AutomergePRforBatchIfEnabled env b)"
  unfolding AutomergePRforBatchIfEnabled_def merge_pull_request_def Let_def
  by (auto intro!: same_tables.rules same_tables_remote quiet_same_tables [OF quiet_config(2)]
      quiet_same_tables [OF quiet_service(1)] quiet_same_tables [OF quiet_reads(6)] simp del: act_ret_def)

lemma quiet_report_outputs:
  "within quiet (if db_ReportTerraformOutputs b then logged (CreateTerraformOutputsSummary env b) else act_ret ())"
  by (auto intro!: quiet.rules quiet_CreateTerraformOutputsSummary simp del: act_ret_def)

lemma same_tables_finish_batch: "within same_tables (finish_batch env b)"
  unfolding finish_batch_def
  by (intro same_tables.rules same_tables_automerge quiet_same_tables [OF quiet_after_automerge]
      quiet_same_tables [OF quiet_report_outputs])

lemma finish_batch_guarded:
  assumes f: "finish_batch env b w = (r, w')" and m: "\<not> no_merge w w'"
  shows "db_Status b = BatchJobSucceeded \<and> (\<exists>c. may_merge env (tables_of w) b c \<and> merges w' = merges w @ [c])"
proof -
  from no_merge.bindE [OF f [unfolded finish_batch_def] m quiet_no_merge [OF quiet_report_outputs]] obtain w1 where
    o: "\<exists>a. (if db_ReportTerraformOutputs b then logged (CreateTerraformOutputsSummary env b) else act_ret ()) w = (Ok a, w1)" and
    f1: "act_bind (act_try (AutomergePRforBatchIfEnabled env b)) (after_automerge env b) w1 = (r, w')" and
    m1: "\<not> no_merge w1 w'" by blast
  have q1: "quiet w w1" using o withinD [OF quiet_report_outputs] by blast
  obtain x w2 where a: "AutomergePRforBatchIfEnabled env b w1 = (x, w2)" by fastforce
  have q2: "quiet w2 w'"
  proof (cases x)
    case (Panic e)
    with f1 a have "w' = w2" by (simp add: act_bind_def act_try_def)
    then show ?thesis by (simp add: quiet_def)
  qed (use f1 a in \<open>auto simp: act_bind_def act_try_def intro: withinD [OF quiet_after_automerge]\<close>)
  then have "\<not> no_merge w1 w2" using m1 by (simp add: no_merge_def quiet_def)
  from automerge_guarded [OF a this] q1 q2 show ?thesis by (simp add: quiet_def)
qed

text \<open>The status of the batch after its jobs were looked at.\<close>

lemma UpdateBatchStatus_outcome:
  assumes "UpdateBatchStatus b d = (Ok b', d')"
  shows "t_jobs (fdb_data d') = t_jobs (fdb_data d) \<and> t_impacted (fdb_data d') = t_impacted (fdb_data d) \<and>
    (b' = b \<or> b' = b\<lparr>db_Status := BatchJobSucceeded\<rparr> \<and>
       (\<forall>j \<in> set (t_jobs (fdb_data d')). dj_BatchID j = Some (db_ID b) \<longrightarrow> dj_Status j = DiggerJobSucceeded))"
proof (cases "db_Status b = BatchJobInvalidated \<or> db_Status b = BatchJobFailed \<or> db_Status b = BatchJobSucceeded")
  case True
  with assms show ?thesis by (simp add: UpdateBatchStatus_def)
next
  case False
  let ?js = "filter (\<lambda>j. dj_BatchID j = Some (db_ID b)) (t_jobs (fdb_data d))"
  let ?all = "\<lambda>js. foldl (\<lambda>b j. if dj_Status j \<noteq> DiggerJobSucceeded then False else b) True js"
  have all: "?all js = (\<forall>j \<in> set js. dj_Status j = DiggerJobSucceeded)" for js
  proof -
    have "foldl (\<lambda>b j. if dj_Status j \<noteq> DiggerJobSucceeded then False else b) v js =
        (v \<and> (\<forall>j \<in> set js. dj_Status j = DiggerJobSucceeded))" for v
      by (induction js arbitrary: v) auto
    then show ?thesis by simp
  qed
  obtain x d1 where q: "fdb_read (\<lambda>t. filter (\<lambda>j. dj_BatchID j = Some (db_ID b)) (t_jobs t)) d = (x, d1)" by fastforce
  have d1: "fdb_data d1 = fdb_data d" using fdb_read_data q by (metis snd_conv)
  show ?thesis
  proof (cases x)
    case (Ok js)
    have js: "js = ?js" using fdb_read_Ok [OF q [unfolded Ok]] by simp
    show ?thesis
    proof (cases "?all js")
      case True
      let ?u = "\<lambda>t. t\<lparr>t_batches := save_by db_ID (b\<lparr>db_Status := BatchJobSucceeded\<rparr>) (t_batches t)\<rparr>"
      obtain y d2 where u: "fdb_write ?u d1 = (y, d2)" by fastforce
      have d2: "fdb_data d2 = fdb_data d1 \<or> fdb_data d2 = ?u (fdb_data d1)"
        using fdb_write_data [of ?u d1] u by simp
      from assms False q Ok True u have "b' = b\<lparr>db_Status := BatchJobSucceeded\<rparr>" "d' = d2"
        by (cases y; simp add: UpdateBatchStatus_def act_bind_def act_try_def Let_def)+
      moreover have "\<forall>j \<in> set ?js. dj_Status j = DiggerJobSucceeded" using True js all by metis
      moreover have "t_jobs (fdb_data d2) = t_jobs (fdb_data d)" "t_impacted (fdb_data d2) = t_impacted (fdb_data d)"
        using d1 d2 by auto
      ultimately show ?thesis by simp
    next
      case not: False
      with assms False q Ok d1 show ?thesis by (simp add: UpdateBatchStatus_def act_bind_def Let_def)
    qed
  qed (use assms False q in \<open>auto simp: UpdateBatchStatus_def act_bind_def\<close>)
qed

lemma quiet_refresh_queries:
  "within quiet (on_tables (GetDiggerBatch i))" "within quiet (on_tables (GetDiggerJob jobId))"
  by (rule quiet_reads)+

lemma refresh_checks_guarded:
  assumes f: "refresh_checks env jobId b w = (r, w')" and m: "\<not> no_merge w w'"
  shows "db_Status b = BatchJobSucceeded \<and> (\<exists>c. may_merge env (tables_of w) b c \<and> merges w' = merges w @ [c])"
proof -
  note quiet_nm = quiet_no_merge [OF quiet_reads(3)] quiet_no_merge [OF quiet_UpdateCheckRunForBatch]
    quiet_no_merge [OF quiet_reads(1)] quiet_no_merge [OF quiet_UpdateCheckRunForJob]
  from no_merge.problemE [OF f [unfolded refresh_checks_def] m quiet_nm(1)] obtain rb w1 where
    1: "on_tables (GetDiggerBatch (db_ID b)) w = (Ok rb, w1)" and m1: "\<not> no_merge w1 w'" and
    f1: "or_problem ''Error updating aggregate status check'' (UpdateCheckRunForBatch env rb) (\<lambda>_.
      or_problem ''Error getting refreshed job'' (on_tables (GetDiggerJob jobId)) (\<lambda>refreshedJob.
      or_problem ''Error updating aggregate status check'' (UpdateCheckRunForJob env refreshedJob) (\<lambda>_.
        finish_batch env b))) w1 = (r, w')" by blast
  from no_merge.problemE [OF f1 m1 quiet_nm(2)] obtain u w2 where
    2: "UpdateCheckRunForBatch env rb w1 = (Ok u, w2)" and m2: "\<not> no_merge w2 w'" and
    f2: "or_problem ''Error getting refreshed job'' (on_tables (GetDiggerJob jobId)) (\<lambda>refreshedJob.
      or_problem ''Error updating aggregate status check'' (UpdateCheckRunForJob env refreshedJob) (\<lambda>_.
        finish_batch env b)) w2 = (r, w')" by blast
  from no_merge.problemE [OF f2 m2 quiet_nm(3)] obtain rj w3 where
    3: "on_tables (GetDiggerJob jobId) w2 = (Ok rj, w3)" and m3: "\<not> no_merge w3 w'" and
    f3: "or_problem ''Error updating aggregate status check'' (UpdateCheckRunForJob env rj) (\<lambda>_. finish_batch env b) w3
      = (r, w')" by blast
  from no_merge.problemE [OF f3 m3 quiet_nm(4)] obtain v w4 where
    4: "UpdateCheckRunForJob env rj w3 = (Ok v, w4)" and m4: "\<not> no_merge w4 w'" and f4: "finish_batch env b w4 = (r, w')"
    by blast
  have "quiet w w4"
    using withinD [OF quiet_reads(3) 1] withinD [OF quiet_UpdateCheckRunForBatch 2] withinD [OF quiet_reads(1) 3]
      withinD [OF quiet_UpdateCheckRunForJob 4] by (meson quiet.trans)
  with finish_batch_guarded [OF f4 m4] show ?thesis by (simp add: quiet_def)
qed

lemma same_tables_refresh_checks: "within same_tables (refresh_checks env jobId b)"
  unfolding refresh_checks_def
  by (intro same_tables.rules same_tables_finish_batch quiet_same_tables [OF quiet_reads(1)] quiet_same_tables [OF quiet_reads(3)]
      quiet_same_tables [OF quiet_UpdateCheckRunForBatch] quiet_same_tables [OF quiet_UpdateCheckRunForJob])

lemma no_merge_updateWorkflowUrl: "within no_merge (updateWorkflowUrlForJob env jb)"
  unfolding updateWorkflowUrlForJob_def Let_def
  by (auto intro!: no_merge.rules no_merge_tables quiet_no_merge [OF quiet_service(3)] split: sum.split
      simp del: act_ret_def act_of_def)

lemma may_merge_status [simp]: "may_merge env t (b\<lparr>db_Status := s\<rparr>) c = may_merge env t b c"
  by (simp add: may_merge_def all_applied_def impacted_by_def)

text \<open>What a merge shows about the batch and the tables at the end.\<close>

definition batch_done :: "tables \<Rightarrow> digger_batch \<Rightarrow> bool" where
  "batch_done t b \<longleftrightarrow>
     db_Status b = BatchJobSucceeded \<or>
     (\<forall>j \<in> set (t_jobs t). dj_BatchID j = Some (db_ID b) \<longrightarrow> dj_Status j = DiggerJobSucceeded)"

lemma update_batch_guarded:
  assumes f: "update_batch env jobId jb w = (r, w')" and m: "\<not> no_merge w w'"
  shows "\<exists>b c. snd jb = Some b \<and> may_merge env (tables_of w') b c \<and> merges w' = merges w @ [c] \<and>
    batch_done (tables_of w') b"
proof -
  obtain p :: "error option \<times> digger_job" and w1 where
    n1: "no_merge w w1" and m1: "\<not> no_merge w1 w'" and
    f0: "(case p of (_, job) \<Rightarrow> or_problem ''Error saving job'' (on_tables (UpdateDiggerJob job)) (\<lambda>_.
      act_bind (act_of (deref (snd jb))) (\<lambda>b.
      or_problem ''Error updating batch status'' (on_tables (UpdateBatchStatus b)) (refresh_checks env jobId)))) w1 = (r, w')"
    by (rule no_merge.bindE [OF f [unfolded update_batch_def] m no_merge_updateWorkflowUrl]) (rule that, assumption+)
  obtain eo job where p: "p = (eo, job)" by (cases p)
  have f1: "or_problem ''Error saving job'' (on_tables (UpdateDiggerJob job)) (\<lambda>_.
      act_bind (act_of (deref (snd jb))) (\<lambda>b.
      or_problem ''Error updating batch status'' (on_tables (UpdateBatchStatus b)) (refresh_checks env jobId))) w1 = (r, w')"
    using f0 unfolding p case_prod_conv .
  from no_merge.problemE [OF f1 m1 no_merge_tables] obtain w2 where
    n2: "no_merge w1 w2" and m2: "\<not> no_merge w2 w'" and
    f2: "act_bind (act_of (deref (snd jb))) (\<lambda>b.
      or_problem ''Error updating batch status'' (on_tables (UpdateBatchStatus b)) (refresh_checks env jobId)) w2 = (r, w')"
    by blast
  from f2 m2 no_merge.refl obtain b where b: "snd jb = Some b" and
    f3: "or_problem ''Error updating batch status'' (on_tables (UpdateBatchStatus b)) (refresh_checks env jobId) w2 = (r, w')"
    by (cases "snd jb") (auto simp: deref_def act_bind_def)
  from no_merge.problemE [OF f3 m2 no_merge_tables] obtain b' w3 where
    u: "on_tables (UpdateBatchStatus b) w2 = (Ok b', w3)" and n3: "no_merge w2 w3" and m3: "\<not> no_merge w3 w'" and
    f4: "refresh_checks env jobId b' w3 = (r, w')" by blast
  have t: "tables_of w' = tables_of w3"
    using withinD [OF same_tables_refresh_checks f4] by (simp add: same_tables_def)
  note st = UpdateBatchStatus_outcome [OF conjunct1 [OF on_tables_eq [OF u]]]
  from refresh_checks_guarded [OF f4 m3] obtain c where
    c: "db_Status b' = BatchJobSucceeded" "may_merge env (tables_of w3) b' c" "merges w' = merges w3 @ [c]" by blast
  have "may_merge env (tables_of w') b c" using c(2) st t by auto
  moreover have "batch_done (tables_of w') b" using st c(1) t by (auto simp: batch_done_def)
  moreover have "merges w' = merges w @ [c]" using c(3) n1 n2 n3 by (simp add: no_merge_def)
  ultimately show ?thesis using b by blast
qed

lemma SetJobStatus_guarded:
  assumes f: "SetJobStatusForProject env jobId org req w = (r, w')" and m: "merges w' \<noteq> merges w"
  shows "\<exists>b c. preload_batch (tables_of w) (job_view (tables_of w) jobId) = Some b \<and>
    merges w' = merges w @ [c] \<and> may_merge env (tables_of w') b c \<and> batch_done (tables_of w') b"
proof -
  have m0: "\<not> no_merge w w'" using m by (simp add: no_merge_def)
  obtain o' rq where o: "org = Some o'" "req = Some rq"
    using f m by (cases org; cases req) (auto simp: SetJobStatusForProject_def)
  from no_merge.problemE [OF f [unfolded SetJobStatusForProject_def o option.case] m0 no_merge_tables] obtain jb w1 where
    j: "on_tables (GetDiggerJob jobId) w = (Ok jb, w1)" and n1: "no_merge w w1" and m1: "\<not> no_merge w1 w'" and
    f1: "act_bind (act_of (deref (dj_BatchID (fst jb)))) (\<lambda>_.
      or_problem ''Error fetching organisation'' (of_sum (be_organisation env o')) (\<lambda>_.
      act_bind (record_status env o' rq jb) (\<lambda>r.
        case r of Inl early \<Rightarrow> act_ret early | Inr job \<Rightarrow> update_batch env jobId (job, snd jb)))) w1 = (r, w')" by blast
  have g: "GetDiggerJob jobId (sw_db (bw_sched w)) = (Ok jb, sw_db (bw_sched w1))" using on_tables_eq [OF j] by blast
  from fdb_read_Ok [OF g [unfolded GetDiggerJob_read]] have
    jb: "jb = (job_view (tables_of w) jobId, preload_batch (tables_of w) (job_view (tables_of w) jobId))" by simp
  from no_merge.bindE [OF f1 m1 no_merge.rules(4)] obtain w2 where
    n2: "no_merge w1 w2" and m2: "\<not> no_merge w2 w'" and
    f2: "or_problem ''Error fetching organisation'' (of_sum (be_organisation env o')) (\<lambda>_.
      act_bind (record_status env o' rq jb) (\<lambda>r.
        case r of Inl early \<Rightarrow> act_ret early | Inr job \<Rightarrow> update_batch env jobId (job, snd jb))) w2 = (r, w')" by blast
  from no_merge.problemE [OF f2 m2 no_merge.rules(5)] obtain w3 where
    n3: "no_merge w2 w3" and m3: "\<not> no_merge w3 w'" and
    f3: "act_bind (record_status env o' rq jb) (\<lambda>r.
        case r of Inl early \<Rightarrow> act_ret early | Inr job \<Rightarrow> update_batch env jobId (job, snd jb)) w3 = (r, w')" by blast
  from no_merge.bindE [OF f3 m3 no_merge_record_status] obtain x w4 where
    n4: "no_merge w3 w4" and m4: "\<not> no_merge w4 w'" and
    f4: "(case x of Inl early \<Rightarrow> act_ret early | Inr job \<Rightarrow> update_batch env jobId (job, snd jb)) w4 = (r, w')" by blast
  from f4 m4 no_merge.refl obtain job where "update_batch env jobId (job, snd jb) w4 = (r, w')"
    by (cases x) auto
  from update_batch_guarded [OF this m4] jb n1 n2 n3 n4 show ?thesis by (auto simp: no_merge_def)
qed

text \<open>Claim C9: the backend asks for the merge of a pull request only when a job of the pull request's batch
  reports, once per report, for the number and with the strategy of the batch's configuration, which must enable
  it; the batch applies, it has succeeded, that is, it had already or all its jobs have, and every project the
  commit impacts is marked as applied, unless the batch says it covers them all and the table of impacted projects
  could not tell.\<close>

theorem merge_is_guarded:
  assumes "SetJobStatusForProject env jobId org req w = (r, w')" and "merges w' \<noteq> merges w"
  shows "\<exists>b c. preload_batch (tables_of w) (job_view (tables_of w) jobId) = Some b \<and>
    merges w' = merges w @ [c] \<and> may_merge env (tables_of w') b c \<and> batch_done (tables_of w') b"
  by (rule SetJobStatus_guarded [OF assms])

text \<open>A batch of one job that applies, with merging enabled.\<close>

definition apply_env :: "project list_graph backend_env" where
  "apply_env =
     \<lparr>be_sched = example_env 0, be_graph = lg_ops Name,
      be_parse_yaml = (\<lambda>_. Inr (two_projects_yaml\<lparr>AutoMerge_y := Some True\<rparr>)),
      be_organisation = (\<lambda>_. Inr ()), be_installation = (\<lambda>_. Inr 1), be_app_ids = (\<lambda>_. Inr [2]),
      be_app_client = (\<lambda>_ _. Inr ()), be_github_client = (\<lambda>_ _. Inr ()),
      be_gitlab_service = (\<lambda>_ _. Inl ''none''), be_remote = (\<lambda>_ _. Inr ''5''), be_comments = (\<lambda>_ _. Inr []),
      be_runs = (\<lambda>_ _. Inr [9]), be_run_steps = (\<lambda>_ _ _. Inr [[''digger run j1'']]), be_title_case = (\<lambda>s. s),
      be_marshal_footprint = (\<lambda>_. Inr ''{}''), be_unmarshal_footprint = (\<lambda>_. Inr []),
      be_source_details = (\<lambda>_. Inr [])\<rparr>"

definition apply_batch :: digger_batch where
  "apply_batch =
     zero_batch\<lparr>db_ID := ''batch-0001'', db_VCS := ''github'', db_PrNumber := 7, db_CommitSha := ''abc'',
       db_CheckRunId := Some ''31'', db_RepoFullName := ''o/r'', db_Status := BatchJobStarted, db_BatchType := CmdApply\<rparr>"

definition impacted_row :: "string \<Rightarrow> impacted_project" where
  "impacted_row name = zero_impacted\<lparr>ip_RepoFullName := ''o/r'', ip_CommitSha := ''abc'', ip_ProjectName := name\<rparr>"

definition apply_world :: "string list \<Rightarrow> backend_world" where
  "apply_world names =
     \<lparr>bw_sched = \<lparr>sw_db = healthy (example_tables
          [(example_job 1 ''j1'' DiggerJobStarted)\<lparr>dj_CheckRunId := Some ''32''\<rparr>]
          \<lparr>t_batches := [apply_batch], t_impacted := map impacted_row names\<rparr>), sw_triggered = []\<rparr>,
      bw_calls = [], bw_tasks = []\<rparr>"

definition status_report :: "string \<Rightarrow> job_status_request" where
  "status_report s =
     \<lparr>rq_Status = s, rq_JobSummary = None, rq_Footprint = None, rq_PrCommentUrl = [], rq_PrCommentId = ''12'',
      rq_TerraformOutput = ''ok'', rq_WorkflowUrl = []\<rparr>"

lemma apply_run_merges:
  "(case SetJobStatusForProject apply_env ''j1'' (Some ''1'') (Some (status_report ''succeeded'')) (apply_world [''p'']) of
      (Ok (Answer _), w') \<Rightarrow> merges w' \<noteq> [] | _ \<Rightarrow> False)"
  by code_simp

theorem merge_is_guarded_witness:
  "\<exists>r w' b c. SetJobStatusForProject apply_env ''j1'' (Some ''1'') (Some (status_report ''succeeded''))
     (apply_world [''p'']) = (r, w') \<and> merges w' = [c] \<and> may_merge apply_env (tables_of w') b c"
proof -
  obtain r w' where run: "SetJobStatusForProject apply_env ''j1'' (Some ''1'') (Some (status_report ''succeeded''))
      (apply_world [''p'']) = (r, w')" by fastforce
  have none: "merges (apply_world [''p'']) = []" by (simp add: apply_world_def merges_def)
  have "merges w' \<noteq> merges (apply_world [''p''])"
    using apply_run_merges unfolding run none by (auto split: res.splits status_answer.splits)
  from merge_is_guarded [OF run this] none run show ?thesis by auto
qed

end
