(* ===== verification/JobStatusRuns.thy ===== *)
theory JobStatusRuns
  imports JobStatusProps
begin

text \<open>
  Runs of the backend: reports of jobs and the tasks they leave behind, in any order.  What no run ever does to
  the table of impacted projects, that the tables stay well-formed, and what an answered report has recorded.
\<close>

section \<open>Runs\<close>

text \<open>A task is taken from those that wait, whichever comes first.\<close>

inductive backend_step :: "'g backend_env \<Rightarrow> backend_world \<Rightarrow> backend_world \<Rightarrow> bool" for env where
  report: "SetJobStatusForProject env jobId org req w = (r, w') \<Longrightarrow> backend_step env w w'"
| task: "bw_tasks w = xs @ b # ys \<Longrightarrow> backend_step env w (run_background env b (w\<lparr>bw_tasks := xs @ ys\<rparr>))"

inductive_cases backend_stepE: "backend_step env w w'"

abbreviation "backend_run env \<equiv> (backend_step env)\<^sup>*\<^sup>*"

text \<open>A change that every database write of the handlers makes.\<close>

definition on_data :: "(tables \<Rightarrow> tables \<Rightarrow> bool) \<Rightarrow> backend_world \<Rightarrow> backend_world \<Rightarrow> bool" where
  "on_data R w w' \<longleftrightarrow> R (tables_of w) (tables_of w')"

section \<open>Rows of impacted projects\<close>

text \<open>A row that an earlier row of the same commit hides from \<open>GetImpactedProjectSingle\<close>.\<close>

definition same_commit :: "impacted_project \<Rightarrow> impacted_project \<Rightarrow> bool" where
  "same_commit p q \<longleftrightarrow> ip_RepoFullName p = ip_RepoFullName q \<and> ip_CommitSha p = ip_CommitSha q"

definition hidden :: "impacted_project list \<Rightarrow> nat \<Rightarrow> bool" where
  "hidden ps i \<longleftrightarrow> i < length ps \<and> (\<exists>k < i. same_commit (ps ! k) (ps ! i))"

definition keeps_hidden :: "tables \<Rightarrow> tables \<Rightarrow> bool" where
  "keeps_hidden t t' \<longleftrightarrow>
     length (t_impacted t) \<le> length (t_impacted t') \<and>
     (\<forall>i < length (t_impacted t). same_commit (t_impacted t' ! i) (t_impacted t ! i)) \<and>
     (\<forall>i. hidden (t_impacted t) i \<longrightarrow> t_impacted t' ! i = t_impacted t ! i)"

lemma same_commit_refl [simp]: "same_commit p p"
  by (simp add: same_commit_def)

lemma same_commit_trans: "same_commit p q \<Longrightarrow> same_commit q r \<Longrightarrow> same_commit p r"
  by (simp add: same_commit_def)

lemma hidden_mono:
  assumes "length ps \<le> length qs" and "\<forall>i < length ps. same_commit (qs ! i) (ps ! i)" and "hidden ps i"
  shows "hidden qs i"
proof -
  from assms(3) obtain k where "i < length ps" "k < i" "same_commit (ps ! k) (ps ! i)"
    by (auto simp: hidden_def)
  with assms(1,2) have "same_commit (qs ! k) (ps ! k)" "same_commit (qs ! i) (ps ! i)" by simp_all
  with \<open>same_commit (ps ! k) (ps ! i)\<close> have "same_commit (qs ! k) (qs ! i)" by (simp add: same_commit_def)
  with \<open>k < i\<close> \<open>i < length ps\<close> assms(1) show ?thesis by (auto simp: hidden_def)
qed

lemma keeps_hidden_trans: "keeps_hidden t u \<Longrightarrow> keeps_hidden u v \<Longrightarrow> keeps_hidden t v"
proof -
  assume tu: "keeps_hidden t u" and uv: "keeps_hidden u v"
  have len: "length (t_impacted t) \<le> length (t_impacted u)" "length (t_impacted u) \<le> length (t_impacted v)"
    using tu uv unfolding keeps_hidden_def by blast+
  have "same_commit (t_impacted v ! i) (t_impacted t ! i)" if "i < length (t_impacted t)" for i
    using tu uv that len unfolding keeps_hidden_def by (meson same_commit_trans less_le_trans)
  moreover have "t_impacted v ! i = t_impacted t ! i" if h: "hidden (t_impacted t) i" for i
  proof -
    have "hidden (t_impacted u) i" using tu hidden_mono [OF _ _ h] unfolding keeps_hidden_def by blast
    then have "t_impacted v ! i = t_impacted u ! i" using uv unfolding keeps_hidden_def by blast
    also have "\<dots> = t_impacted t ! i" using tu h unfolding keeps_hidden_def by blast
    finally show ?thesis .
  qed
  ultimately show "keeps_hidden t v" using len unfolding keeps_hidden_def by auto
qed

lemma keeps_hidden_same: "t_impacted t' = t_impacted t \<Longrightarrow> keeps_hidden t t'"
  by (simp add: keeps_hidden_def)

interpretation hides: world_change "on_data keeps_hidden"
  by unfold_locales (auto simp: on_data_def intro: keeps_hidden_same keeps_hidden_trans)

text \<open>The update of the first row of a commit leaves the hidden rows.\<close>

lemma update_first_hidden:
  assumes "\<And>q. P q \<longleftrightarrow> same_commit q p"
  shows "length ps \<le> length (update_first P p ps) \<and>
    (\<forall>i < length ps. same_commit (update_first P p ps ! i) (ps ! i) \<and>
       (update_first P p ps ! i \<noteq> ps ! i \<longrightarrow> (\<forall>k < i. \<not> same_commit (ps ! k) (ps ! i))))"
proof (induction ps)
  case (Cons q ps)
  show ?case
  proof (cases "P q")
    case True
    then have "same_commit p q" using assms by (simp add: same_commit_def)
    with True show ?thesis by (auto simp: nth_Cons' same_commit_def)
  next
    case False
    have "\<not> same_commit q r" if "same_commit (update_first P p ps ! i) r" "i < length ps" "update_first P p ps ! i \<noteq> ps ! i"
        "r = ps ! i" for i r
    proof -
      have "P (ps ! i)" if "i < length ps" "update_first P p ps ! i \<noteq> ps ! i" for i
        using that
      proof (induction ps arbitrary: i)
        case (Cons x xs)
        then show ?case by (cases i) (auto split: if_splits)
      qed simp
      with that have "P r" by simp
      with False assms show ?thesis by (auto simp: same_commit_def)
    qed
    with Cons.IH False show ?thesis by (auto simp: nth_Cons' less_Suc_eq_0_disj)
  qed
qed simp

section \<open>No report changes a hidden row\<close>

lemma mark_impacted_hidden:
  assumes "mark_impacted b name d = (r, d')"
  shows "keeps_hidden (fdb_data d) (fdb_data d')"
proof -
  let ?P = "\<lambda>q. ip_RepoFullName q = db_RepoFullName b \<and> ip_CommitSha q = db_CommitSha b"
  let ?ps = "t_impacted (fdb_data d)"
  have same: ?thesis if "fdb_data d' = fdb_data d" using that by (simp add: keeps_hidden_same)
  obtain x d1 where q: "GetImpactedProjectSingle (db_RepoFullName b) (db_CommitSha b) name d = (x, d1)" by fastforce
  have d1: "fdb_data d1 = fdb_data d" using withinD [OF reads_queries(5) [unfolded reads_def] q] .
  show ?thesis
  proof (cases x)
    case (Ok p)
    let ?p = "p\<lparr>ip_Planned := ip_Planned p \<or> db_BatchType b = CmdPlan, ip_Applied := ip_Applied p \<or> db_BatchType b = CmdApply\<rparr>"
    let ?u = "\<lambda>t. t\<lparr>t_impacted := update_first ?P ?p (t_impacted t)\<rparr>"
    have p: "p = first_or zero_impacted ?P ?ps"
      using fdb_read_Ok [OF q [unfolded Ok GetImpactedProjectSingle_def]] by simp
    have "d' = snd (fdb_write ?u d1)"
      using assms q Ok
      by (cases "fdb_write ?u d1")
        (auto simp: mark_impacted_def save_impacted_def logged_def act_bind_def act_try_def split: res.splits)
    then consider "fdb_data d' = fdb_data d" | "fdb_data d' = ?u (fdb_data d)"
      using fdb_write_data [of ?u d1] d1 by auto
    then show ?thesis
    proof cases
      case 2
      show ?thesis
      proof (cases "find ?P ?ps")
        case None
        have "\<forall>q \<in> set ps. \<not> ?P q \<Longrightarrow> update_first ?P ?p ps = ps @ [?p]" for ps by (induction ps) auto
        moreover have "\<forall>q \<in> set ?ps. \<not> ?P q" using None by (auto simp: find_None_iff)
        ultimately have "t_impacted (fdb_data d') = ?ps @ [?p]" using 2 by simp
        then show ?thesis by (auto simp: keeps_hidden_def hidden_def nth_append)
      next
        case (Some q)
        then have "?P p" using find_SomeD [OF Some] p by (simp add: first_or_def)
        then have "?P q \<longleftrightarrow> same_commit q ?p" for q by (auto simp: same_commit_def)
        note f = update_first_hidden [of ?P ?p ?ps, OF this]
        have "t_impacted (fdb_data d') ! i = ?ps ! i" if "hidden ?ps i" for i
          using f that 2 unfolding hidden_def by auto
        with f 2 show ?thesis by (simp add: keeps_hidden_def)
      qed
    qed (rule same)
  next
    case (Err e)
    with assms q d1 same show ?thesis by (simp add: mark_impacted_def act_bind_def act_try_def)
  next
    case (Panic e)
    with assms q d1 same show ?thesis by (simp add: mark_impacted_def act_bind_def act_try_def)
  qed
qed

definition keeps_impacted :: "('a, tables fdb) act \<Rightarrow> bool" where
  "keeps_impacted f \<longleftrightarrow> within (\<lambda>d d'. t_impacted (fdb_data d') = t_impacted (fdb_data d)) f"

interpretation impacted_kept: world_change "\<lambda>d d' :: tables fdb. t_impacted (fdb_data d') = t_impacted (fdb_data d)"
  by unfold_locales simp_all

lemma keeps_impacted_write: "(\<And>t. t_impacted (u t) = t_impacted t) \<Longrightarrow> keeps_impacted (fdb_write u)"
  unfolding keeps_impacted_def
  by (rule withinI) (metis fdb_write_data snd_conv)

lemma keeps_impacted_reads: "reads f \<Longrightarrow> keeps_impacted f"
  by (simp add: keeps_impacted_def reads_def within_def)

lemmas keeps_impacted_rules = impacted_kept.rules [folded keeps_impacted_def]

lemma keeps_impacted_updates:
  "keeps_impacted (UpdateDiggerJob j)" "keeps_impacted (UpdateDiggerBatch b)" "keeps_impacted (UpdateBatchStatus b)"
  "keeps_impacted (UpdateDiggerJobSummary i c u d)"
  unfolding UpdateDiggerJob_def UpdateDiggerBatch_def UpdateBatchStatus_def UpdateDiggerJobSummary_def Let_def
  by (auto intro!: keeps_impacted_rules keeps_impacted_write keeps_impacted_reads [OF reads_fdb]
      keeps_impacted_reads [OF reads_queries(1)] simp: save_job_def Let_def simp del: act_ret_def)

lemma hides_tables: "keeps_impacted f \<Longrightarrow> within (on_data keeps_hidden) (on_tables f)"
  unfolding keeps_impacted_def
  by (rule withinI) (auto simp: on_data_def dest!: on_tables_eq intro!: keeps_hidden_same dest: withinD)

lemma hides_same_tables: "within same_tables f \<Longrightarrow> within (on_data keeps_hidden) f"
  by (auto simp: within_def same_tables_def on_data_def keeps_hidden_same)

lemma hides_mark: "within (on_data keeps_hidden) (on_tables (mark_impacted b name))"
  by (rule withinI) (auto simp: on_data_def dest!: on_tables_eq intro: mark_impacted_hidden)

lemma hides_spawn: "within (on_data keeps_hidden) (spawn b)"
  by (simp add: within_def on_data_def spawn_def keeps_hidden_same)

lemma hides_save_then:
  "within (on_data keeps_hidden) rest \<Longrightarrow> within (on_data keeps_hidden) (save_then msg job rest)"
  unfolding save_then_def
  by (auto intro!: hides.rules hides_tables keeps_impacted_updates split: sum.split simp del: act_ret_def)

lemma hides_record_status: "within (on_data keeps_hidden) (record_status env org req jb)"
  unfolding record_status_def record_success_def store_summary_def Let_def
  by (auto intro!: hides.rules hides_mark hides_tables keeps_impacted_updates hides_spawn hides_save_then
      split: sum.split option.split simp del: act_ret_def act_of_def)

lemma hides_updateWorkflowUrl: "within (on_data keeps_hidden) (updateWorkflowUrlForJob env jb)"
  unfolding updateWorkflowUrlForJob_def Let_def
  by (auto intro!: hides.rules hides_tables keeps_impacted_updates hides_same_tables [OF quiet_same_tables [OF quiet_service(3)]]
      split: sum.split simp del: act_ret_def act_of_def)

lemma hides_update_batch: "within (on_data keeps_hidden) (update_batch env jobId jb)"
  unfolding update_batch_def
  by (auto intro!: hides.rules hides_updateWorkflowUrl hides_tables keeps_impacted_updates
      hides_same_tables [OF same_tables_refresh_checks] simp del: act_of_def)

lemma hides_SetJobStatus: "within (on_data keeps_hidden) (SetJobStatusForProject env jobId org req)"
  unfolding SetJobStatusForProject_def
  by (auto intro!: hides.rules hides_tables keeps_impacted_reads [OF reads_queries(1)] hides_record_status hides_update_batch
      split: option.split sum.split simp del: act_ret_def act_of_def)

text \<open>Nor does a task.\<close>

interpretation sched_impacted: world_change "\<lambda>w w' :: sched_world. t_impacted (data w') = t_impacted (data w)"
  by unfold_locales simp_all

abbreviation "sched_keeps_impacted \<equiv> within (\<lambda>w w' :: sched_world. t_impacted (data w') = t_impacted (data w))"

lemma sched_on_db: "keeps_impacted f \<Longrightarrow> sched_keeps_impacted (on_db f)"
  unfolding keeps_impacted_def by (rule withinI) (auto dest!: on_db_eq dest: withinD)

lemma sched_trigger_workflow: "sched_keeps_impacted (trigger_workflow env s n token)"
  by (auto simp: within_def trigger_workflow_def split: sum.split)

lemma keeps_impacted_queries:
  "keeps_impacted (GetDiggerJobsForBatchWithStatus b st)" "keeps_impacted (GetDiggerJobParentLinksByParentId p)"
  "keeps_impacted (GetDiggerJobParentLinksChildId c)" "keeps_impacted (GetDiggerJob i)"
  unfolding GetDiggerJobsForBatchWithStatus_def GetDiggerJobParentLinksByParentId_def GetDiggerJobParentLinksChildId_def
    GetDiggerJob_read
  by (rule keeps_impacted_reads [OF reads_fdb])+

lemma keeps_impacted_parents_complete: "keeps_impacted (parents_complete ls)"
  by (induction ls) (auto intro!: keeps_impacted_rules keeps_impacted_queries simp del: act_ret_def)

lemma sched_TriggerJob: "sched_keeps_impacted (TriggerJob env jb)"
  unfolding TriggerJob_def
  by (auto intro!: sched_impacted.rules sched_trigger_workflow sched_on_db keeps_impacted_updates
      simp del: act_of_def act_err_def)

lemma sched_ScheduleJob: "sched_keeps_impacted (ScheduleJob env b jb)"
  unfolding ScheduleJob_def Let_def
  by (auto intro!: sched_impacted.rules sched_TriggerJob sched_on_db keeps_impacted_updates keeps_impacted_queries
      simp del: act_ret_def)

lemma sched_DiggerJobCompleted: "sched_keeps_impacted (DiggerJobCompleted env b j)"
  unfolding DiggerJobCompleted_def complete_child_def
  by (auto intro!: sched_impacted.rules sched_ScheduleJob sched_on_db keeps_impacted_queries keeps_impacted_parents_complete
      simp del: act_ret_def)

lemma hides_sched: "sched_keeps_impacted f \<Longrightarrow> within (on_data keeps_hidden) (on_sched f)"
  by (rule withinI) (auto simp: on_data_def on_sched_def Let_def split: prod.splits intro!: keeps_hidden_same dest: withinD)

lemma reads_GetDiggerJobLink: "reads (GetDiggerJobLink i)"
  unfolding GetDiggerJobLink_def
  by (auto intro!: reads_rules reads_fdb split: sum.split simp del: act_ret_def)

lemma hides_complete_job: "within (on_data keeps_hidden) (complete_job env org jb)"
  unfolding complete_job_def
  by (auto intro!: hides.rules hides_tables keeps_impacted_reads [OF reads_GetDiggerJobLink] hides_sched
      sched_DiggerJobCompleted simp del: act_ret_def act_of_def)

lemma hides_remote: "within (on_data keeps_hidden) (remote env c)"
  by (rule hides_same_tables [OF same_tables_remote])

lemma hides_UpdateOrCreate: "within (on_data keeps_hidden) (UpdateOrCreateSummaryComment env b msg)"
  unfolding UpdateOrCreateSummaryComment_def Let_def
  by (auto intro!: hides.rules hides_remote split: option.split sum.split simp del: act_ret_def act_err_def)

lemma hides_comment: "within (on_data keeps_hidden) (UpdatePRCommentRealtime env b)"
  unfolding UpdatePRCommentRealtime_def
  by (auto intro!: hides.rules hides_tables keeps_impacted_updates keeps_impacted_reads [OF reads_queries(2)]
      keeps_impacted_reads [OF reads_queries(3)] hides_same_tables [OF quiet_same_tables [OF quiet_service(1)]]
      hides_UpdateOrCreate simp del: act_ret_def)

lemma hides_background: "on_data keeps_hidden w (run_background env b w)"
proof (cases b)
  case (JobCompleted org jb)
  then show ?thesis using hides_complete_job [of env org jb] unfolding within_def by (simp add: run_background_def)
next
  case (CommentUpdate batch)
  have "within (on_data keeps_hidden) (act_bind (act_of (deref batch)) (UpdatePRCommentRealtime env))"
    by (intro hides.rules hides_comment)
  with CommentUpdate show ?thesis unfolding within_def by (simp add: run_background_def)
qed

lemma hides_step: "backend_step env w w' \<Longrightarrow> on_data keeps_hidden w w'"
proof (induction rule: backend_step.cases)
  case (report jobId org req w r w')
  with withinD [OF hides_SetJobStatus] show ?case by blast
next
  case (task w xs b ys)
  have "on_data keeps_hidden w (w\<lparr>bw_tasks := xs @ ys\<rparr>)" by (simp add: on_data_def keeps_hidden_same)
  from hides.trans [OF this hides_background] show ?case using task by simp
qed

lemma hides_run: "backend_run env w w' \<Longrightarrow> on_data keeps_hidden w w'"
  by (induction rule: rtranclp_induct) (auto intro: hides.refl hides.trans hides_step)



section \<open>Well-formed tables\<close>

text \<open>Primary keys of jobs are consecutive, batches have distinct ones, and the batch of a job exists.\<close>

definition has_batch :: "tables \<Rightarrow> string option \<Rightarrow> bool" where
  "has_batch t b \<longleftrightarrow> (\<forall>x. b = Some x \<longrightarrow> x \<in> db_ID ` set (t_batches t))"

definition well_typed :: "tables \<Rightarrow> bool" where
  "well_typed t \<longleftrightarrow>
     wf_jobs t \<and> distinct (map db_ID (t_batches t)) \<and> (\<forall>j \<in> set (t_jobs t). has_batch t (dj_BatchID j))"

text \<open>Besides: \<open>n\<close> and \<open>b\<close> are the keys of a job in memory and of its batch.\<close>

definition typed_with :: "nat \<Rightarrow> string option \<Rightarrow> tables \<Rightarrow> bool" where
  "typed_with n b t \<longleftrightarrow>
     well_typed t \<and> n \<le> length (t_jobs t) \<and> has_batch t b"

definition keeps_typed :: "nat \<Rightarrow> string option \<Rightarrow> tables \<Rightarrow> tables \<Rightarrow> bool" where
  "keeps_typed n b t t' \<longleftrightarrow> (typed_with n b t \<longrightarrow> typed_with n b t')"

interpretation typed: world_change "on_data (keeps_typed n b)" for n b
  by unfold_locales (simp_all add: on_data_def keeps_typed_def)

interpretation typed_db: world_change "\<lambda>d d' :: tables fdb. keeps_typed n b (fdb_data d) (fdb_data d')" for n b
  by unfold_locales (simp_all add: keeps_typed_def)

definition typed_query :: "nat \<Rightarrow> string option \<Rightarrow> ('a, tables fdb) act \<Rightarrow> bool" where
  "typed_query n b f \<longleftrightarrow> within (\<lambda>d d'. keeps_typed n b (fdb_data d) (fdb_data d')) f"

lemmas typed_query_rules = typed_db.rules [folded typed_query_def]

lemma typed_write: "(\<And>t. keeps_typed n b t (u t)) \<Longrightarrow> typed_query n b (fdb_write u)"
  unfolding typed_query_def
proof (rule withinI)
  fix d r d'
  assume a: "\<And>t. keeps_typed n b t (u t)" and w: "fdb_write u d = (r, d')"
  then have "fdb_data d' = fdb_data d \<or> fdb_data d' = u (fdb_data d)" using fdb_write_data [of u d] by simp
  with a show "keeps_typed n b (fdb_data d) (fdb_data d')" by (auto simp: keeps_typed_def)
qed

lemma typed_reads: "reads f \<Longrightarrow> typed_query n b f"
  by (simp add: typed_query_def reads_def within_def keeps_typed_def)

lemma typed_on_tables: "typed_query n b f \<Longrightarrow> within (on_data (keeps_typed n b)) (on_tables f)"
  unfolding typed_query_def by (rule withinI) (auto simp: on_data_def dest!: on_tables_eq dest: withinD)

lemma typed_same_tables: "within same_tables f \<Longrightarrow> within (on_data (keeps_typed n b)) f"
  by (auto simp: within_def same_tables_def on_data_def keeps_typed_def)

lemma has_batch_same: "db_ID ` set (t_batches t') = db_ID ` set (t_batches t) \<Longrightarrow> has_batch t' b = has_batch t b"
  by (simp add: has_batch_def)

lemma save_job_typed:
  assumes "dj_ID j = n" and "dj_BatchID j = b"
  shows "keeps_typed n b t (save_job j t)"
  unfolding keeps_typed_def
proof
  assume t: "typed_with n b t"
  then have wf: "wf_jobs t" and n: "n \<le> length (t_jobs t)" by (auto simp: typed_with_def well_typed_def)
  have batch: "has_batch t b" using t by (simp add: typed_with_def)
  show "typed_with n b (save_job j t)"
  proof (cases "n = 0")
    case True
    have "\<not> (\<exists>y \<in> set (t_jobs t). dj_ID y = Suc (length (t_jobs t)))" using wf_jobs_ID [OF wf] by force
    with True assms have "save_job j t = t\<lparr>t_jobs := t_jobs t @ [j\<lparr>dj_ID := Suc (length (t_jobs t))\<rparr>]\<rparr>"
      by (simp add: save_job_def save_by_def)
    with t assms True batch show ?thesis by (auto simp: typed_with_def well_typed_def wf_jobs_def has_batch_def)
  next
    case False
    then have "n \<in> set (map dj_ID (t_jobs t))" using wf n unfolding wf_jobs_def by (simp del: upt_Suc)
    then have "\<exists>y \<in> set (t_jobs t). dj_ID y = n" by auto
    with False assms have s: "save_job j t = t\<lparr>t_jobs := map (\<lambda>y. if dj_ID y = n
        then j\<lparr>dj_Summary := stored_summary j t\<rparr> else y) (t_jobs t)\<rparr>"
      by (simp add: save_job_def save_by_def Let_def)
    have "map dj_ID (t_jobs (save_job j t)) = map dj_ID (t_jobs t)" using s assms by simp
    moreover have "has_batch (save_job j t) c = has_batch t c" for c
      by (rule has_batch_same) (simp add: s)
    moreover from this have "\<forall>y \<in> set (t_jobs (save_job j t)). has_batch (save_job j t) (dj_BatchID y)"
      using s assms batch t by (auto simp: typed_with_def well_typed_def)
    moreover have "t_batches (save_job j t) = t_batches t" "length (t_jobs (save_job j t)) = length (t_jobs t)"
      using s by simp_all
    ultimately show ?thesis using t batch unfolding typed_with_def well_typed_def wf_jobs_def by simp
  qed
qed

lemma save_batch_typed:
  assumes "b = Some (db_ID x)"
  shows "keeps_typed n b t (t\<lparr>t_batches := save_by db_ID x (t_batches t)\<rparr>)"
  unfolding keeps_typed_def
proof
  let ?t = "t\<lparr>t_batches := save_by db_ID x (t_batches t)\<rparr>"
  assume t: "typed_with n b t"
  then have e: "\<exists>y \<in> set (t_batches t). db_ID y = db_ID x" using assms by (auto simp: typed_with_def has_batch_def)
  then have s: "save_by db_ID x (t_batches t) = map (\<lambda>y. if db_ID y = db_ID x then x else y) (t_batches t)"
    by (simp add: save_by_def)
  have ids: "map db_ID (t_batches ?t) = map db_ID (t_batches t)" using s by simp
  then have "db_ID ` set (t_batches ?t) = db_ID ` set (t_batches t)" by (metis list.set_map)
  then have "has_batch ?t c = has_batch t c" for c by (rule has_batch_same)
  with t ids show "typed_with n b ?t" unfolding typed_with_def well_typed_def wf_jobs_def by simp
qed

lemma typed_same_batches:
  assumes "t_batches t' = t_batches t" and "map dj_ID (t_jobs t') = map dj_ID (t_jobs t)"
    and "map dj_BatchID (t_jobs t') = map dj_BatchID (t_jobs t)"
  shows "keeps_typed n b t t'"
proof -
  have b: "has_batch t' c = has_batch t c" for c using assms(1) by (simp add: has_batch_def)
  have "(\<forall>j \<in> set (t_jobs t'). has_batch t' (dj_BatchID j)) = (\<forall>c \<in> set (map dj_BatchID (t_jobs t')). has_batch t c)"
    by (simp add: b)
  also have "\<dots> = (\<forall>j \<in> set (t_jobs t). has_batch t (dj_BatchID j))" unfolding assms(3) by simp
  finally show ?thesis
    using b assms(1,2) map_eq_imp_length_eq [OF assms(2)]
    unfolding keeps_typed_def typed_with_def well_typed_def wf_jobs_def by (simp del: upt_Suc)
qed

lemma typed_updates:
  "dj_ID j = n \<Longrightarrow> dj_BatchID j = b \<Longrightarrow> typed_query n b (UpdateDiggerJob j)"
  "b = Some (db_ID x) \<Longrightarrow> typed_query n b (UpdateBatchStatus x)"
  "typed_query n b (UpdateDiggerJobSummary i c u d)"
  "typed_query n b (mark_impacted x name)"
proof -
  show "dj_ID j = n \<Longrightarrow> dj_BatchID j = b \<Longrightarrow> typed_query n b (UpdateDiggerJob j)"
    unfolding UpdateDiggerJob_def by (intro typed_write save_job_typed)
  have x: "keeps_typed n b t (t\<lparr>t_batches := save_by db_ID (x\<lparr>db_Status := BatchJobSucceeded\<rparr>) (t_batches t)\<rparr>)"
    if "b = Some (db_ID x)" for t
    using save_batch_typed [of b "x\<lparr>db_Status := BatchJobSucceeded\<rparr>" n t] that by simp
  then show "b = Some (db_ID x) \<Longrightarrow> typed_query n b (UpdateBatchStatus x)"
    unfolding UpdateBatchStatus_def Let_def
    by (auto intro!: typed_query_rules typed_reads [OF reads_fdb] typed_write simp del: act_ret_def)
  have "keeps_typed n b t (t\<lparr>t_jobs := map (\<lambda>x. if P x then x\<lparr>dj_Summary := s\<rparr> else x) (t_jobs t)\<rparr>)" for t P s
    by (rule typed_same_batches) simp_all
  then show "typed_query n b (UpdateDiggerJobSummary i c u d)"
    unfolding UpdateDiggerJobSummary_def Let_def
    by (auto intro!: typed_query_rules typed_reads [OF reads_queries(1)] typed_write simp del: act_ret_def)
  have "keeps_typed n b t (t\<lparr>t_impacted := f (t_impacted t)\<rparr>)" for t f
    by (rule typed_same_batches) simp_all
  then show "typed_query n b (mark_impacted x name)"
    unfolding mark_impacted_def save_impacted_def
    by (auto intro!: typed_query_rules typed_reads [OF reads_queries(5)] typed_write split: sum.split simp del: act_ret_def)
qed

text \<open>A job in memory and its row.\<close>

definition same_job :: "digger_job \<Rightarrow> digger_job \<Rightarrow> bool" where
  "same_job j j' \<longleftrightarrow> dj_ID j' = dj_ID j \<and> dj_BatchID j' = dj_BatchID j \<and> dj_DiggerJobID j' = dj_DiggerJobID j"

abbreviation "job_typed j \<equiv> on_data (keeps_typed (dj_ID j) (dj_BatchID j))"

lemma typed_save: "same_job j j' \<Longrightarrow> within (job_typed j) (on_tables (UpdateDiggerJob j'))"
  by (intro typed_on_tables typed_updates(1)) (simp_all add: same_job_def)

lemma typed_spawn: "within (on_data (keeps_typed n b)) (spawn x)"
  by (simp add: within_def on_data_def spawn_def keeps_typed_def)

lemma typed_save_then:
  "same_job j j' \<Longrightarrow> within (job_typed j) rest \<Longrightarrow> within (job_typed j) (save_then msg j' rest)"
  unfolding save_then_def
  by (auto intro!: typed.rules typed_save split: sum.split simp del: act_ret_def)

lemma typed_record_status: "within (job_typed (fst jb)) (record_status env org req jb)"
proof -
  have m: "within (job_typed (fst jb)) (on_tables (mark_impacted x name))"
    and s: "within (job_typed (fst jb)) (on_tables (UpdateDiggerJobSummary i c u d))" for x name i c u d
    by (intro typed_on_tables typed_updates)+
  show ?thesis
    unfolding record_status_def record_success_def store_summary_def Let_def
    by (auto intro!: typed.rules m s typed_spawn typed_save_then split: sum.split option.split
        simp: same_job_def simp del: act_ret_def act_of_def)
qed

lemma save_then_job: "save_then msg j rest w = (Ok (Inr j'), w') \<Longrightarrow> j' = j"
  by (auto simp: save_then_def act_bind_def act_try_def split: res.splits prod.splits)

lemma record_success_job: "record_success env org req jb w = (Ok (Inr j'), w') \<Longrightarrow>
    same_job (fst jb) j' \<and> dj_Status j' = DiggerJobSucceeded"
proof -
  let ?f = "case rq_Footprint req of None \<Rightarrow> Inr (dj_PlanFootprint (fst jb)) | Some f \<Rightarrow> map_sum (\<lambda>e. e) Some (be_marshal_footprint env f)"
  assume "record_success env org req jb w = (Ok (Inr j'), w')"
  then show ?thesis
    by (cases ?f) (auto simp: record_success_def Let_def same_job_def act_bind_eq_Ok dest!: save_then_job)
qed

text \<open>The status that a request names.\<close>

definition requested_status :: "string \<Rightarrow> job_status option" where
  "requested_status s =
     (if s = ''created'' then Some DiggerJobCreated else if s = ''triggered'' then Some DiggerJobTriggered
      else if s = ''started'' then Some DiggerJobStarted else if s = ''succeeded'' then Some DiggerJobSucceeded
      else if s = ''failed'' then Some DiggerJobFailed else None)"

lemma record_status_job: "record_status env org req jb w = (Ok (Inr j'), w') \<Longrightarrow>
    same_job (fst jb) j' \<and> requested_status (rq_Status req) = Some (dj_Status j')"
  unfolding record_status_def requested_status_def Let_def
  by (auto simp: same_job_def dest!: save_then_job record_success_job split: if_splits)

lemma typed_updateWorkflowUrl: "within (job_typed (fst jb)) (updateWorkflowUrlForJob env jb)"
proof -
  have q: "within (job_typed (fst jb)) (github_client env x)" for x
    by (rule typed_same_tables [OF quiet_same_tables [OF quiet_service(3)]])
  show ?thesis
    unfolding updateWorkflowUrlForJob_def Let_def
    by (auto intro!: typed.rules typed_save q split: sum.split simp: same_job_def simp del: act_ret_def act_of_def)
qed

lemma record_status_early: "record_status env org req jb w \<noteq> (Ok (Inl (Answer sb)), w')"
proof -
  have s: "yields (\<lambda>r. \<forall>sb. r \<noteq> Inl (Answer sb)) (save_then msg j rest)" for msg j rest
    unfolding save_then_def by (auto intro!: yields_bind_any yields_ret split: sum.split simp del: act_ret_def)
  have "yields (\<lambda>r. \<forall>sb. r \<noteq> Inl (Answer sb)) (record_status env org req jb)"
    unfolding record_status_def record_success_def Let_def
    by (auto intro!: yields_bind_any yields_ret s split: sum.split option.split simp del: act_ret_def)
  then show ?thesis unfolding yields_def by blast
qed

lemma updateWorkflowUrl_yields:
  "yields (\<lambda>p. same_job (fst jb) (snd p) \<and> dj_Status (snd p) = dj_Status (fst jb)) (updateWorkflowUrlForJob env jb)"
  unfolding updateWorkflowUrlForJob_def Let_def
  by (auto intro!: yields_ret yields_bind_any split: sum.split simp: same_job_def simp del: act_ret_def)

lemmas updateWorkflowUrl_job = yieldsD [OF updateWorkflowUrl_yields]

lemma typed_update_batch:
  assumes "\<And>x. snd jb = Some x \<Longrightarrow> dj_BatchID (fst jb) = Some (db_ID x)"
  shows "within (job_typed (fst jb)) (update_batch env jobId jb)"
proof -
  have r: "within (job_typed (fst jb)) (refresh_checks env jobId x)" for x
    by (rule typed_same_tables [OF same_tables_refresh_checks])
  have "within (job_typed (fst jb)) (act_bind (act_of (deref (snd jb))) (\<lambda>b.
      or_problem ''Error updating batch status'' (on_tables (UpdateBatchStatus b)) (refresh_checks env jobId)))"
  proof (cases "snd jb")
    case None
    then show ?thesis by (simp add: deref_def within_def act_bind_def typed.refl)
  next
    case (Some x)
    have "within (job_typed (fst jb)) (or_problem ''Error updating batch status'' (on_tables (UpdateBatchStatus x))
        (refresh_checks env jobId))"
      by (intro typed.rules r typed_on_tables typed_updates assms Some)
    then show ?thesis by (simp add: Some deref_def within_def act_bind_def)
  qed
  then show ?thesis
    unfolding update_batch_def
    by (intro typed.bind_post [OF typed_updateWorkflowUrl, where Q = "\<lambda>p. same_job (fst jb) (snd p)"])
      (auto dest: updateWorkflowUrl_job intro!: typed.rules typed_save simp del: act_of_def)
qed

lemma loaded_job:
  assumes "on_tables (GetDiggerJob jobId) w = (Ok jb, w')"
  shows "fst jb = job_view (tables_of w) jobId \<and> snd jb = preload_batch (tables_of w) (fst jb) \<and>
    tables_of w' = tables_of w"
proof -
  have g: "GetDiggerJob jobId (sw_db (bw_sched w)) = (Ok jb, sw_db (bw_sched w'))" using on_tables_eq [OF assms] by blast
  from fdb_read_Ok [OF g [unfolded GetDiggerJob_read]] show ?thesis by simp
qed

lemma preload_batch_ID: "preload_batch t j = Some x \<Longrightarrow> dj_BatchID j = Some (db_ID x)"
  by (auto simp: preload_batch_def dest: find_SomeD split: option.splits)

lemma job_view_typed:
  assumes "well_typed t"
  shows "typed_with (dj_ID (job_view t p)) (dj_BatchID (job_view t p)) t"
  using job_view_cases [of t p] assms wf_jobs_ID [of t "job_view t p"]
  by (auto simp: typed_with_def well_typed_def has_batch_def zero_job_def)

lemma SetJobStatus_typed:
  assumes f: "SetJobStatusForProject env jobId org req w = (r, w')" and t: "well_typed (tables_of w)"
  shows "well_typed (tables_of w')"
proof (cases "org = None \<or> req = None")
  case True
  with f t show ?thesis by (cases org; cases req) (auto simp: SetJobStatusForProject_def)
next
  case False
  then obtain o' rq where o: "org = Some o'" "req = Some rq" by auto
  obtain x w1 where j: "on_tables (GetDiggerJob jobId) w = (x, w1)" by fastforce
  have w1: "tables_of w1 = tables_of w" using withinD [OF quiet_reads(1) j] by (simp add: quiet_def)
  show ?thesis
  proof (cases x)
    case (Ok jb)
    let ?rest = "act_bind (act_of (deref (dj_BatchID (fst jb)))) (\<lambda>_.
      or_problem ''Error fetching organisation'' (of_sum (be_organisation env o')) (\<lambda>_.
      act_bind (record_status env o' rq jb) (\<lambda>r.
      case r of Inl early \<Rightarrow> act_ret early | Inr job \<Rightarrow> update_batch env jobId (job, snd jb))))"
    note l = loaded_job [OF j [unfolded Ok]]
    have b: "snd jb = Some x \<Longrightarrow> dj_BatchID (fst jb) = Some (db_ID x)" for x
      using l preload_batch_ID by simp
    have "within (job_typed (fst jb)) (case r of Inl early \<Rightarrow> act_ret early | Inr job \<Rightarrow> update_batch env jobId (job, snd jb))"
      if "\<And>j'. r = Inr j' \<Longrightarrow> same_job (fst jb) j'" for r
    proof (cases r)
      case (Inr j')
      then have "job_typed (fst jb) = job_typed j'" using that by (simp add: same_job_def)
      moreover have "within (job_typed j') (update_batch env jobId (j', snd jb))"
        using typed_update_batch [of "(j', snd jb)"] b that [OF Inr] by (auto simp: same_job_def)
      ultimately show ?thesis using Inr by simp
    qed (simp add: typed.pure del: act_ret_def)
    then have "within (job_typed (fst jb)) ?rest"
      by (intro typed.rules typed.bind_post [OF typed_record_status, where Q = "\<lambda>r. \<forall>j'. r = Inr j' \<longrightarrow> same_job (fst jb) j'"])
        (auto dest: record_status_job)
    moreover have "?rest w1 = (r, w')"
      using f j Ok by (simp add: SetJobStatusForProject_def o or_problem_def act_bind_def act_try_def)
    ultimately have "job_typed (fst jb) w1 w'" by (rule withinD)
    moreover have "typed_with (dj_ID (fst jb)) (dj_BatchID (fst jb)) (tables_of w1)"
      using job_view_typed [OF t] l by simp
    ultimately show ?thesis by (simp add: on_data_def keeps_typed_def typed_with_def)
  next
    case (Err e)
    with f j w1 t show ?thesis by (simp add: SetJobStatusForProject_def o or_problem_def act_bind_def act_try_def)
  next
    case (Panic e)
    with f j w1 t show ?thesis by (simp add: SetJobStatusForProject_def o or_problem_def act_bind_def act_try_def)
  qed
qed

lemma moved_typed: "moved t t' \<Longrightarrow> well_typed t \<Longrightarrow> well_typed t'"
proof -
  assume m: "moved t t'" and t: "well_typed t"
  have b: "has_batch t' c = has_batch t c" for c using m by (simp add: moved_def has_batch_def)
  have "has_batch t' (dj_BatchID j)" if "j \<in> set (t_jobs t')" for j
  proof -
    have "dj_BatchID j \<in> insert None (dj_BatchID ` set (t_jobs t))" using m that unfolding moved_def by blast
    with t show ?thesis unfolding b well_typed_def by (auto simp: has_batch_def)
  qed
  with m t show ?thesis by (simp add: moved_def well_typed_def)
qed

definition keeps_types :: "tables \<Rightarrow> tables \<Rightarrow> bool" where
  "keeps_types t t' \<longleftrightarrow> (well_typed t \<longrightarrow> well_typed t')"

interpretation types: world_change "on_data keeps_types"
  by unfold_locales (simp_all add: on_data_def keeps_types_def)

lemma types_same_tables: "within same_tables f \<Longrightarrow> within (on_data keeps_types) f"
  by (auto simp: within_def same_tables_def on_data_def keeps_types_def)

lemma types_DiggerJobCompleted: "within (on_data keeps_types) (on_sched (DiggerJobCompleted env b j))"
proof (rule withinI)
  fix w r w'
  assume o: "on_sched (DiggerJobCompleted env b j) w = (r, w')"
  then have c: "DiggerJobCompleted env b j (bw_sched w) = (r, bw_sched w')"
    by (auto simp: on_sched_def Let_def split: prod.splits)
  obtain x s1 where q: "on_db (GetDiggerJobParentLinksByParentId (dj_DiggerJobID j)) (bw_sched w) = (x, s1)" by fastforce
  have s1: "data s1 = tables_of w" using on_db_read_eq [OF q [unfolded GetDiggerJobParentLinksByParentId_def]] by simp
  show "on_data keeps_types w w'"
  proof (cases x)
    case (Ok ls)
    with c q have "act_all (complete_child env b) ls s1 = (r, bw_sched w')"
      by (simp add: DiggerJobCompleted_def)
    then have "moved (tables_of w) (tables_of w')" if "wf_jobs (tables_of w)"
      using complete_children_outcome [of s1 env b ls r "bw_sched w'"] s1 that by simp
    then show ?thesis
      unfolding on_data_def keeps_types_def using moved_typed by (auto simp: well_typed_def [of "tables_of w"])
  qed (use c q s1 in \<open>auto simp: DiggerJobCompleted_def on_data_def keeps_types_def\<close>)
qed

lemma types_reads: "reads f \<Longrightarrow> within (on_data keeps_types) (on_tables f)"
  by (rule types_same_tables [OF quiet_same_tables [OF quiet_tables]])

lemma types_complete_job: "within (on_data keeps_types) (complete_job env org jb)"
  unfolding complete_job_def
  by (auto intro!: types.rules types_reads reads_GetDiggerJobLink types_DiggerJobCompleted simp del: act_ret_def act_of_def)

lemma types_UpdateOrCreate: "within (on_data keeps_types) (UpdateOrCreateSummaryComment env b msg)"
  unfolding UpdateOrCreateSummaryComment_def Let_def
  by (auto intro!: types.rules types_same_tables [OF same_tables_remote] split: option.split sum.split
      simp del: act_ret_def act_err_def)

text \<open>The update of a batch without a comment is never reached.\<close>

lemma types_comment: "within (on_data keeps_types) (UpdatePRCommentRealtime env b)"
  unfolding UpdatePRCommentRealtime_def
  by (auto intro!: types.rules types_reads reads_queries types_same_tables [OF quiet_same_tables [OF quiet_service(1)]]
      types_UpdateOrCreate simp del: act_ret_def)

lemma types_background: "on_data keeps_types w (run_background env b w)"
proof (cases b)
  case (JobCompleted org jb)
  then show ?thesis using types_complete_job [of env org jb] unfolding within_def by (simp add: run_background_def)
next
  case (CommentUpdate batch)
  have "within (on_data keeps_types) (act_bind (act_of (deref batch)) (UpdatePRCommentRealtime env))"
    by (intro types.rules types_comment)
  with CommentUpdate show ?thesis unfolding within_def by (simp add: run_background_def)
qed

lemma typed_step: "backend_step env w w' \<Longrightarrow> well_typed (tables_of w) \<Longrightarrow> well_typed (tables_of w')"
proof (induction rule: backend_step.cases)
  case (report jobId org req w r w')
  then show ?case using SetJobStatus_typed by blast
next
  case (task w xs b ys)
  from types_background [of "w\<lparr>bw_tasks := xs @ ys\<rparr>" env b] task show ?case
    by (simp add: on_data_def keeps_types_def)
qed



section \<open>What an answer says\<close>

lemma problem_Answer:
  "or_problem msg f g w = (Ok (Answer sb), w') \<Longrightarrow> \<exists>a w1. f w = (Ok a, w1) \<and> g a w1 = (Ok (Answer sb), w')"
  by (auto simp: or_problem_def act_bind_def act_try_def split: prod.splits res.splits)

lemma bind_Answer:
  "act_bind f g w = (Ok a, w') \<Longrightarrow> \<exists>b w1. f w = (Ok b, w1) \<and> g b w1 = (Ok a, w')"
  by (auto simp: act_bind_eq_Ok)

lemma after_automerge_Answer:
  assumes "after_automerge env b r w = (Ok (Answer sb), w')"
  shows "\<exists>d d'. batch_MapToJsonStruct (se_unmarshal (be_sched env)) b d = (Ok sb, d') \<and> fdb_data d = tables_of w'"
proof -
  let ?q = "on_tables (batch_MapToJsonStruct (se_unmarshal (be_sched env)) b)"
  let ?c = "\<lambda>res. act_bind (logged (UpdateCommentsForBatchGroup env b (sb_Jobs res))) (\<lambda>_. act_ret (Answer res))"
  from bind_Answer [OF assms [unfolded after_automerge_def]] obtain u1 w1 where
    f1: "act_bind (logged (DeleteOlderPRCommentsIfEnabled env b)) (\<lambda>_. or_problem ''Error getting batch details'' ?q ?c) w1
      = (Ok (Answer sb), w')" by blast
  from bind_Answer [OF f1] obtain u2 w2 where
    f2: "or_problem ''Error getting batch details'' ?q ?c w2 = (Ok (Answer sb), w')" by blast
  from problem_Answer [OF f2] obtain res w3 where q: "?q w2 = (Ok res, w3)" and f3: "?c res w3 = (Ok (Answer sb), w')" by blast
  have "res = sb" using f3 by (auto simp: act_bind_eq_Ok)
  have "within quiet (?c res)" by (intro quiet.rules quiet_UpdateCommentsForBatchGroup)
  from withinD [OF this f3] withinD [OF quiet_tables [OF reads_batch_MapToJsonStruct] q] have
    "tables_of w' = tables_of w2" by (simp add: quiet_def)
  with on_tables_eq [OF q] \<open>res = sb\<close> show ?thesis by metis
qed

lemma refresh_checks_Answer:
  assumes "refresh_checks env jobId b w = (Ok (Answer sb), w')"
  shows "\<exists>d d'. batch_MapToJsonStruct (se_unmarshal (be_sched env)) b d = (Ok sb, d') \<and> fdb_data d = tables_of w'"
proof -
  from assms obtain w1 where "finish_batch env b w1 = (Ok (Answer sb), w')"
    unfolding refresh_checks_def by (blast dest!: problem_Answer)
  then obtain r w2 where "after_automerge env b r w2 = (Ok (Answer sb), w')"
    unfolding finish_batch_def by (blast dest!: bind_Answer)
  then show ?thesis by (rule after_automerge_Answer)
qed

lemma serialize_jobs_Inr:
  "serialize_jobs u js = Inr ss \<Longrightarrow> map (\<lambda>s. (sj_DiggerJobId s, sj_Status s)) ss = map (\<lambda>j. (dj_DiggerJobID j, dj_Status j)) js"
  by (induction js arbitrary: ss) (auto simp: job_MapToJsonStruct_def split: sum.splits)

lemma of_sum_Ok: "of_sum r s = (Ok a, s') \<longleftrightarrow> r = Inr a \<and> s' = s"
  by (auto simp: of_sum_def split: sum.splits)

lemma batch_MapToJsonStruct_Ok:
  assumes "batch_MapToJsonStruct u b d = (Ok sb, d')"
  shows "sb_ID sb = db_ID b \<and> map (\<lambda>s. (sj_DiggerJobId s, sj_Status s)) (sb_Jobs sb) =
    map (\<lambda>j. (dj_DiggerJobID j, dj_Status j)) (filter (\<lambda>j. dj_BatchID j = Some (db_ID b)) (t_jobs (fdb_data d)))"
proof -
  from assms obtain jobs d1 ss where q: "GetDiggerJobsForBatch (db_ID b) d = (Ok jobs, d1)"
    and ss: "serialize_jobs u (map fst jobs) = Inr ss" and sb: "sb_ID sb = db_ID b" "sb_Jobs sb = ss"
    unfolding batch_MapToJsonStruct_def by (auto simp: act_bind_eq_Ok of_sum_Ok)
  from fdb_read_Ok [OF q [unfolded GetDiggerJobsForBatch_def]] have
    "map fst jobs = filter (\<lambda>j. dj_BatchID j = Some (db_ID b)) (t_jobs (fdb_data d))" by (simp add: comp_def)
  with serialize_jobs_Inr [OF ss] sb show ?thesis by simp
qed

lemma UpdateDiggerJob_row:
  assumes "UpdateDiggerJob j d = (Ok u, d')" and "typed_with (dj_ID j) b (fdb_data d)" and "0 < dj_ID j"
  shows "\<exists>row \<in> set (t_jobs (fdb_data d')). same_job j row \<and> dj_Status row = dj_Status j"
proof -
  have d': "fdb_data d' = save_job j (fdb_data d)" using fdb_write_Ok assms(1) unfolding UpdateDiggerJob_def by blast
  have "dj_ID j \<in> set (map dj_ID (t_jobs (fdb_data d)))"
    using assms(2,3) unfolding typed_with_def well_typed_def wf_jobs_def by (simp del: upt_Suc)
  then have "\<exists>y \<in> set (t_jobs (fdb_data d)). dj_ID y = dj_ID j" by auto
  with assms(3) have "j\<lparr>dj_Summary := stored_summary j (fdb_data d)\<rparr> \<in> set (t_jobs (fdb_data d'))"
    by (force simp: d' save_job_def save_by_def Let_def)
  then show ?thesis by (rule bexI [rotated]) (simp add: same_job_def)
qed

lemma update_batch_Answer:
  assumes f: "update_batch env jobId (j, bt) w = (Ok (Answer sb), w')"
    and t: "typed_with (dj_ID j) (dj_BatchID j) (tables_of w)" and n: "0 < dj_ID j"
  shows "\<exists>b row. bt = Some b \<and> sb_ID sb = db_ID b \<and> row \<in> set (t_jobs (tables_of w')) \<and> same_job j row \<and>
    dj_Status row = dj_Status j \<and> map (\<lambda>s. (sj_DiggerJobId s, sj_Status s)) (sb_Jobs sb) =
      map (\<lambda>j. (dj_DiggerJobID j, dj_Status j)) (filter (\<lambda>j. dj_BatchID j = Some (db_ID b)) (t_jobs (tables_of w')))"
proof -
  from bind_Answer [OF f [unfolded update_batch_def]] obtain p :: "error option \<times> digger_job" and w1 where
    p: "updateWorkflowUrlForJob env (j, bt) w = (Ok p, w1)" and
    f1: "(case p of (_, job) \<Rightarrow> or_problem ''Error saving job'' (on_tables (UpdateDiggerJob job)) (\<lambda>_.
      act_bind (act_of (deref (snd (j, bt)))) (\<lambda>b.
      or_problem ''Error updating batch status'' (on_tables (UpdateBatchStatus b)) (refresh_checks env jobId)))) w1 = (Ok (Answer sb), w')"
    by blast
  obtain e j' where pe: "p = (e, j')" by (cases p)
  note j' = updateWorkflowUrl_job [OF p, unfolded pe, simplified]
  have t1: "typed_with (dj_ID j) (dj_BatchID j) (tables_of w1)"
    using withinD [OF typed_updateWorkflowUrl p] t by (simp add: on_data_def keeps_typed_def)
  from problem_Answer [OF f1 [unfolded pe case_prod_conv]] obtain u w2 where
    s: "on_tables (UpdateDiggerJob j') w1 = (Ok u, w2)" and
    f2: "act_bind (act_of (deref (snd (j, bt)))) (\<lambda>b.
      or_problem ''Error updating batch status'' (on_tables (UpdateBatchStatus b)) (refresh_checks env jobId)) w2 = (Ok (Answer sb), w')"
    by blast
  from f2 obtain b where b: "bt = Some b" and
    f3: "or_problem ''Error updating batch status'' (on_tables (UpdateBatchStatus b)) (refresh_checks env jobId) w2 = (Ok (Answer sb), w')"
    by (cases bt) (simp_all add: deref_def act_bind_def)
  from problem_Answer [OF f3] obtain b' w3 where
    ub: "on_tables (UpdateBatchStatus b) w2 = (Ok b', w3)" and f4: "refresh_checks env jobId b' w3 = (Ok (Answer sb), w')" by blast
  note st = UpdateBatchStatus_outcome [OF conjunct1 [OF on_tables_eq [OF ub]]]
  have jobs: "t_jobs (tables_of w') = t_jobs (tables_of w2)"
    using withinD [OF same_tables_refresh_checks f4] st by (simp add: same_tables_def)
  have "\<exists>row \<in> set (t_jobs (tables_of w2)). same_job j' row \<and> dj_Status row = dj_Status j'"
    using UpdateDiggerJob_row [OF conjunct1 [OF on_tables_eq [OF s]]] t1 n j' by (simp add: same_job_def)
  then obtain row where row: "row \<in> set (t_jobs (tables_of w'))" "same_job j row" "dj_Status row = dj_Status j"
    using jobs j' by (auto simp: same_job_def)
  from refresh_checks_Answer [OF f4] obtain d d' where
    m: "batch_MapToJsonStruct (se_unmarshal (be_sched env)) b' d = (Ok sb, d')" "fdb_data d = tables_of w'" by blast
  have "db_ID b' = db_ID b" using st by auto
  with batch_MapToJsonStruct_Ok [OF m(1)] m(2) b row show ?thesis by auto
qed

text \<open>Claim C10: when a report of a job is answered with its batch, the request named a status, the job's row has
  it, the batch is the job's, and the answer lists exactly the jobs of the batch with the statuses they have in the
  table.\<close>

theorem answered_report_is_recorded:
  assumes f: "SetJobStatusForProject env jobId org req w = (Ok (Answer sb), w')" and t: "well_typed (tables_of w)"
  shows "\<exists>rq st row. req = Some rq \<and> requested_status (rq_Status rq) = Some st \<and>
    row \<in> set (t_jobs (tables_of w')) \<and> dj_DiggerJobID row = jobId \<and> dj_Status row = st \<and>
    dj_BatchID row = Some (sb_ID sb) \<and>
    map (\<lambda>s. (sj_DiggerJobId s, sj_Status s)) (sb_Jobs sb) =
      map (\<lambda>j. (dj_DiggerJobID j, dj_Status j)) (filter (\<lambda>j. dj_BatchID j = Some (sb_ID sb)) (t_jobs (tables_of w')))"
proof -
  obtain o' rq where o: "org = Some o'" "req = Some rq"
    using f by (cases org; cases req) (auto simp: SetJobStatusForProject_def)
  from problem_Answer [OF f [unfolded SetJobStatusForProject_def o option.case]] obtain jb w1 where
    j: "on_tables (GetDiggerJob jobId) w = (Ok jb, w1)" and
    f1: "act_bind (act_of (deref (dj_BatchID (fst jb)))) (\<lambda>_.
      or_problem ''Error fetching organisation'' (of_sum (be_organisation env o')) (\<lambda>_.
      act_bind (record_status env o' rq jb) (\<lambda>r.
        case r of Inl early \<Rightarrow> act_ret early | Inr job \<Rightarrow> update_batch env jobId (job, snd jb)))) w1 = (Ok (Answer sb), w')"
    by blast
  note l = loaded_job [OF j]
  from f1 obtain bid where bid: "dj_BatchID (fst jb) = Some bid" and
    f2: "or_problem ''Error fetching organisation'' (of_sum (be_organisation env o')) (\<lambda>_.
      act_bind (record_status env o' rq jb) (\<lambda>r.
        case r of Inl early \<Rightarrow> act_ret early | Inr job \<Rightarrow> update_batch env jobId (job, snd jb))) w1 = (Ok (Answer sb), w')"
    by (cases "dj_BatchID (fst jb)") (simp_all add: deref_def act_bind_def)
  from problem_Answer [OF f2] obtain u w2 where u: "of_sum (be_organisation env o') w1 = (Ok u, w2)" and
    f3: "act_bind (record_status env o' rq jb) (\<lambda>r.
        case r of Inl early \<Rightarrow> act_ret early | Inr job \<Rightarrow> update_batch env jobId (job, snd jb)) w2 = (Ok (Answer sb), w')" by blast
  from bind_Answer [OF f3] obtain r w3 where r: "record_status env o' rq jb w2 = (Ok r, w3)" and
    f4: "(case r of Inl early \<Rightarrow> act_ret early | Inr job \<Rightarrow> update_batch env jobId (job, snd jb)) w3 = (Ok (Answer sb), w')" by blast
  have view: "fst jb \<in> set (t_jobs (tables_of w))" "dj_DiggerJobID (fst jb) = jobId"
    using job_view_cases [of "tables_of w" jobId] l bid by (auto simp: zero_job_def)
  then have n: "0 < dj_ID (fst jb)" using wf_jobs_ID [of "tables_of w" "fst jb"] t by (auto simp: well_typed_def)
  have t2: "typed_with (dj_ID (fst jb)) (dj_BatchID (fst jb)) (tables_of w2)"
    using job_view_typed [OF t, of jobId] l u by (simp add: of_sum_Ok)
  with withinD [OF typed_record_status r] have t3: "typed_with (dj_ID (fst jb)) (dj_BatchID (fst jb)) (tables_of w3)"
    by (simp add: on_data_def keeps_typed_def)
  show ?thesis
  proof (cases r)
    case (Inl early)
    with f4 r have "record_status env o' rq jb w2 = (Ok (Inl (Answer sb)), w3)" by simp
    then show ?thesis using record_status_early by blast
  next
    case (Inr j')
    note j' = record_status_job [OF r [unfolded Inr]]
    from update_batch_Answer [of env jobId j' "snd jb" w3 sb w'] f4 Inr t3 n j' obtain b row where
      row: "snd jb = Some b" "sb_ID sb = db_ID b" "row \<in> set (t_jobs (tables_of w'))" "same_job j' row"
      "dj_Status row = dj_Status j'" and
      list: "map (\<lambda>s. (sj_DiggerJobId s, sj_Status s)) (sb_Jobs sb) =
        map (\<lambda>j. (dj_DiggerJobID j, dj_Status j)) (filter (\<lambda>j. dj_BatchID j = Some (db_ID b)) (t_jobs (tables_of w')))"
      by (auto simp: same_job_def)
    have "dj_BatchID (fst jb) = Some (db_ID b)" using l row(1) preload_batch_ID by simp
    then have "dj_BatchID row = Some (sb_ID sb)" "dj_DiggerJobID row = jobId"
      using row j' view(2) by (simp_all add: same_job_def)
    with row j' list o show ?thesis by auto
  qed
qed

theorem answered_report_is_recorded_witness:
  "\<exists>sb w' row. SetJobStatusForProject apply_env ''j1'' (Some ''1'') (Some (status_report ''succeeded''))
     (apply_world [''p'']) = (Ok (Answer sb), w') \<and> row \<in> set (t_jobs (tables_of w')) \<and>
     dj_DiggerJobID row = ''j1'' \<and> dj_Status row = DiggerJobSucceeded"
proof -
  let ?w = "apply_world [''p'']"
  obtain sb w' where run: "SetJobStatusForProject apply_env ''j1'' (Some ''1'') (Some (status_report ''succeeded'')) ?w =
      (Ok (Answer sb), w')"
    using apply_run_merges by (auto split: prod.splits res.splits status_answer.splits)
  have t: "well_typed (tables_of ?w)"
    by (simp add: apply_world_def example_tables_def well_typed_def wf_jobs_def has_batch_def example_job_def
        apply_batch_def zero_job_def)
  have st: "requested_status ''succeeded'' = Some DiggerJobSucceeded" by code_simp
  from answered_report_is_recorded [OF run t] obtain row where
    "requested_status (rq_Status (status_report ''succeeded'')) = Some (dj_Status row)"
    "row \<in> set (t_jobs (tables_of w'))" "dj_DiggerJobID row = ''j1''" by auto
  moreover have "rq_Status (status_report ''succeeded'') = ''succeeded''" by (simp only: status_report_def job_status_request.simps)
  ultimately show ?thesis using run st by auto
qed

section \<open>What the handler does not look at\<close>

text \<open>The organisation of the caller is not compared with that of the job: whatever organisation exists may report
  the status of any job.\<close>

lemma any_organisation_may_report:
  assumes "be_organisation env o1 = Inr ()" and "be_organisation env o2 = Inr ()"
    and "rq_Status req \<noteq> ''succeeded''"
  shows "SetJobStatusForProject env jobId (Some o1) (Some req) = SetJobStatusForProject env jobId (Some o2) (Some req)"
proof -
  have "record_status env o1 req jb = record_status env o2 req jb" for jb
    using assms(3) by (simp only: record_status_def if_False)
  with assms(1,2) show ?thesis by (simp only: SetJobStatusForProject_def option.case)
qed

text \<open>A batch that is not GitHub's has no check runs: a report of its jobs ends with an error.\<close>

lemma check_runs_only_github:
  assumes "db_VCS b \<noteq> ''github''"
  shows "\<exists>e. UpdateCheckRunForBatch env b w = (Err e, w)"
proof (cases "db_CheckRunId b")
  case None
  then show ?thesis by (simp only: UpdateCheckRunForBatch_def option.case act_err_def) blast
next
  case (Some i)
  have "UpdateCheckRunForBatch env b w = act_err ''We only support github VCS for modern checks at the moment'' w"
    by (simp only: UpdateCheckRunForBatch_def Some option.case if_P [OF assms])
  then show ?thesis by (simp only: act_err_def) blast
qed

end
