(* ===== verification/Webhooks.thy ===== *)
theory Webhooks
  imports JobStatus JobGraph LockProviders CiEvents
begin

text \<open>
  What the handlers of GitHub's events share: their world, the comment that reports on them
  (\<open>utils/pr_comment.go\<close>), the check runs (\<open>utils/github.go\<close>), the record of a detection
  (\<open>models/detection_runs.go\<close>), the configuration of a pull request and the triggering of jobs
  (\<open>controllers/github_helpers.go\<close>).  Reports to the analytics service are left out.
\<close>

section \<open>The world\<close>

text \<open>What a detection found.  The code stores the last four fields as JSON; marshalling lists and maps of texts
  cannot fail.\<close>

record impacted_payload =
  iy_name :: string
  iy_dir :: string
  iy_workspace :: string
  iy_layer :: nat
  iy_workflow :: string
  iy_terragrunt :: bool
  iy_opentofu :: bool
  iy_pulumi :: bool

record detection_run =
  dn_OrganisationID :: nat
  dn_RepoFullName :: string
  dn_PrNumber :: int
  dn_TriggerType :: string
  dn_TriggerAction :: string
  dn_CommitSHA :: string
  dn_DefaultBranch :: string
  dn_TargetBranch :: string
  dn_Labels :: "string list"
  dn_ChangedFiles :: "string list"
  dn_ImpactedProjects :: "impacted_payload list"
  dn_SourceMapping :: "(string \<times> string list) list"

text \<open>\<open>ww_reporter\<close> is the handler's \<open>CommentReporterManager\<close>: the id of the comment it has posted.  The
  tables of locks and of detections have queries that fail on their own.\<close>

record webhook_world =
  ww_back :: backend_world
  ww_locks :: lock_db
  ww_detections :: "detection_run list fdb"
  ww_reporter :: "string option"

record repo_cache =
  rc_DiggerYmlStr :: string
  rc_DiggerConfig :: string
  rc_TerragruntAtlantisConfig :: string

text \<open>A file of a comparison of commits.\<close>

record diff_file =
  df_Patch :: "string option"
  df_Additions :: nat

text \<open>Parameters: the tables of installations, organisations and cached configurations, GitHub's client (its
  queries see the calls that were made), the clone of a repository and what is loaded from it, the package
  \<open>cast\<close>, the orders of maps and of the package \<open>graph\<close>, the bound on the depth of the collapsed graph.\<close>

record ('g, 'p, 'ta) webhook_env =
  we_back :: "'g backend_env"
  we_convert :: convert_env
  we_provider :: "string \<Rightarrow> string \<Rightarrow> 'p option"
  we_glob :: glob
  we_dependants :: "'g \<Rightarrow> string \<Rightarrow> graph_err + string list"
  we_bfs :: "'g \<Rightarrow> string \<Rightarrow> string list"
  we_depth :: nat
  we_like :: "string \<Rightarrow> string \<Rightarrow> bool"
  we_command_order :: "(string \<times> digger_command) list"
  we_shlex :: "string \<Rightarrow> error + string list"
  we_to_int :: "string \<Rightarrow> int option"
  we_link :: "int \<Rightarrow> error + nat option"
  we_organisation :: "nat \<Rightarrow> error + unit"
  we_github :: "remote_call list \<Rightarrow> int \<Rightarrow> string \<Rightarrow> error + string"
  we_api :: "remote_call list gh_api"
  we_files :: "remote_call list \<Rightarrow> int \<Rightarrow> gh_file pages"
  we_compare :: "remote_call list \<Rightarrow> string \<Rightarrow> string \<Rightarrow> error + diff_file list"
  we_tree :: "remote_call list \<Rightarrow> string \<Rightarrow> error + string"
  we_repo_cache :: "nat \<Rightarrow> string \<Rightarrow> error + repo_cache"
  we_unmarshal_config :: "string \<Rightarrow> error + digger_config"
  we_unmarshal_ta :: "string \<Rightarrow> error + 'ta"
  we_clone :: "string \<Rightarrow> string \<Rightarrow> string \<Rightarrow> string \<Rightarrow> error + string"
  we_read_yml :: "string \<Rightarrow> error + string"
  we_load_config :: "string \<Rightarrow> string list \<Rightarrow> 'ta option \<Rightarrow> error + digger_config \<times> 'g"
  we_ci_backend :: "remote_call list \<Rightarrow> error + unit"
  we_marshal_details :: "source_details list \<Rightarrow> error + string"
  we_now :: "string \<Rightarrow> string"

abbreviation "we_getenv env \<equiv> be_getenv (we_back env)"

definition on_backend :: "('a, backend_world) act \<Rightarrow> ('a, webhook_world) act" where
  "on_backend f w = (let (x, b) = f (ww_back w) in (x, w\<lparr>ww_back := b\<rparr>))"

definition on_rows :: "('a, tables fdb) act \<Rightarrow> ('a, webhook_world) act" where
  "on_rows f = on_backend (on_tables f)"

definition on_lock_rows :: "('a, lock_db) act \<Rightarrow> ('a, webhook_world) act" where
  "on_lock_rows f w = (let (x, d) = f (ww_locks w) in (x, w\<lparr>ww_locks := d\<rparr>))"

text \<open>A query of GitHub's client, which sees the calls that were made.\<close>

definition asking :: "(remote_call list \<Rightarrow> error + 'a) \<Rightarrow> ('a, webhook_world) act" where
  "asking f w = of_sum (f (bw_calls (ww_back w))) w"

definition reading :: "('a, remote_call list) act \<Rightarrow> ('a, webhook_world) act" where
  "reading f w = (fst (f (bw_calls (ww_back w))), w)"

definition call :: "('g, 'p, 'ta) webhook_env \<Rightarrow> remote_call \<Rightarrow> (string, webhook_world) act" where
  "call env c = on_backend (remote (we_back env) c)"

text \<open>The deferred function of a handler recovers from a panic: the handler then returns no error.\<close>

definition recovered :: "(unit, 's) act \<Rightarrow> (unit, 's) act" where
  "recovered f w = (case f w of (Panic m, w') \<Rightarrow> (Ok (), w') | r \<Rightarrow> r)"

section \<open>The comment that reports on an event (\<open>utils/pr_comment.go\<close>)\<close>

definition InitCommentReporterManager :: "(unit, webhook_world) act" where
  "InitCommentReporterManager = act_modify (\<lambda>w. w\<lparr>ww_reporter := None\<rparr>)"

definition InitCommentReporter ::
  "('g, 'p, 'ta) webhook_env \<Rightarrow> int \<Rightarrow> string \<Rightarrow> (string, webhook_world) act" where
  "InitCommentReporter env prNumber commentMessage =
     act_wrap (\<lambda>e. ''count not initialize comment reporter: '' @ e) (call env (RPublish prNumber commentMessage))"

definition UpdateCRComment ::
  "('g, 'p, 'ta) webhook_env \<Rightarrow> int \<Rightarrow> string \<Rightarrow> string \<Rightarrow> (unit, webhook_world) act" where
  "UpdateCRComment env prNumber commentId comment =
     act_bind (call env (REdit prNumber commentId comment)) (\<lambda>_. act_ret ())"

definition new_reporter ::
  "('g, 'p, 'ta) webhook_env \<Rightarrow> int \<Rightarrow> string \<Rightarrow> (string, webhook_world) act" where
  "new_reporter env prNumber commentMessage =
     act_bind (InitCommentReporter env prNumber commentMessage) (\<lambda>cr.
     act_bind (act_modify (\<lambda>w. w\<lparr>ww_reporter := Some cr\<rparr>)) (\<lambda>_. act_ret cr))"

definition GetCommentReporter :: "('g, 'p, 'ta) webhook_env \<Rightarrow> int \<Rightarrow> (string, webhook_world) act" where
  "GetCommentReporter env prNumber =
     act_bind (act_gets ww_reporter) (\<lambda>r. case r of
       Some cr \<Rightarrow> act_ret cr
     | None \<Rightarrow> new_reporter env prNumber ''digger report'')"

definition UpdateComment ::
  "('g, 'p, 'ta) webhook_env \<Rightarrow> int \<Rightarrow> string \<Rightarrow> (string, webhook_world) act" where
  "UpdateComment env prNumber commentMessage =
     act_bind (act_gets ww_reporter) (\<lambda>r. case r of
       Some cr \<Rightarrow> act_bind (UpdateCRComment env prNumber cr commentMessage) (\<lambda>_. act_ret cr)
     | None \<Rightarrow> new_reporter env prNumber commentMessage)"

text \<open>Most callers ignore what \<open>UpdateComment\<close> answers.\<close>

definition say :: "('g, 'p, 'ta) webhook_env \<Rightarrow> int \<Rightarrow> string \<Rightarrow> (unit, webhook_world) act" where
  "say env prNumber commentMessage = logged (UpdateComment env prNumber commentMessage)"

text \<open>The shape of nearly every step of a handler: an error is written to the comment and ends the handler with
  another one.\<close>

definition or_report ::
  "('g, 'p, 'ta) webhook_env \<Rightarrow> int \<Rightarrow> (error \<Rightarrow> string) \<Rightarrow> (error \<Rightarrow> error) \<Rightarrow> ('a, webhook_world) act \<Rightarrow>
   ('a \<Rightarrow> ('b, webhook_world) act) \<Rightarrow> ('b, webhook_world) act" where
  "or_report env prNumber comment err f k =
     act_bind (act_try f) (\<lambda>r. case r of
       Inl e \<Rightarrow> act_bind (say env prNumber (comment e)) (\<lambda>_. act_err (err e))
     | Inr a \<Rightarrow> k a)"

definition trimMessageIfExceedsMaxLength :: "string \<Rightarrow> string" where
  "trimMessageIfExceedsMaxLength message =
     (let n = int (length message); GithubCommentMaxLength = 65536 in
      if GithubCommentMaxLength < n then
        let footer = ''[trimmed]'';
            trimLength = n - GithubCommentMaxLength + int (length footer)
        in take (nat (n - trimLength)) message @ footer
      else message)"

definition GetInitialJobSummary :: "'p job list \<Rightarrow> string" where
  "GetInitialJobSummary jobs =
     (if jobs = [] then '':construction_worker: No projects impacted''
      else ''| Project | Status |'' @ newline @ ''|---------|--------|'' @ newline @
        concat (map (\<lambda>j. ''|:clock11: **'' @ job_GetProjectAlias j @ ''**|pending...|'' @ newline) jobs))"

definition ReportInitialJobsStatus ::
  "('g, 'p, 'ta) webhook_env \<Rightarrow> int \<Rightarrow> string \<Rightarrow> 'p job list \<Rightarrow> (unit, webhook_world) act" where
  "ReportInitialJobsStatus env prNumber commentId jobs =
     UpdateCRComment env prNumber commentId (trimMessageIfExceedsMaxLength (GetInitialJobSummary jobs))"

text \<open>The order of the table: by layer, then by name; \<open>sort.Slice\<close> leaves the order of equal rows open.\<close>

fun text_less :: "string \<Rightarrow> string \<Rightarrow> bool" where
  "text_less [] t = (t \<noteq> [])"
| "text_less (c # cs) [] = False"
| "text_less (c # cs) (d # ds) =
     (if c = d then text_less cs ds else (of_char c :: nat) < of_char d)"

definition layer_less :: "'p job \<Rightarrow> 'p job \<Rightarrow> bool" where
  "layer_less i j =
     (if j_Layer i = j_Layer j then text_less (j_ProjectName i) (j_ProjectName j) else j_Layer i < j_Layer j)"

fun insert_job :: "'p job \<Rightarrow> 'p job list \<Rightarrow> 'p job list" where
  "insert_job j [] = [j]"
| "insert_job j (k # ks) = (if layer_less k j then k # insert_job j ks else j # k # ks)"

definition layers_instructions :: string where
  "layers_instructions =
     ''----------------'' @ newline @ newline @ newline @ ''<details>'' @ newline @
     ''  <summary>Instructions</summary>'' @ newline @ newline @
     ''Since you enabled layers in your configuration, you can proceed to perform a layer-by-layer deployment.'' @ newline @
     ''To start planning the first layer you can run \"digger plan --layer 0\". To apply the first layer, run \"digger apply --layer 0\".'' @ newline @ newline @
     ''To deploy the next layer, run \"digger plan --layer 1\". To apply the next layer, run \"digger apply --layer 1\".'' @ newline @ newline @
     ''And so on. A new commit on the branch will restart this deployment process.'' @ newline @
     ''</details>'' @ newline"

definition layers_table :: "'p job list \<Rightarrow> string" where
  "layers_table jobs =
     (if jobs = [] then '':construction_worker: No projects impacted''
      else ''| Project | Layer |'' @ newline @ ''|---------|--------|'' @ newline @
        concat (map (\<lambda>j. ''|:clock11: **'' @ job_GetProjectAlias j @ ''**|'' @ itoa (int (j_Layer j)) @ ''|'' @ newline) jobs))"

definition ReportLayersTableForJobs ::
  "('g, 'p, 'ta) webhook_env \<Rightarrow> int \<Rightarrow> string \<Rightarrow> 'p job list \<Rightarrow> (unit, webhook_world) act" where
  "ReportLayersTableForJobs env prNumber commentId jobs =
     UpdateCRComment env prNumber commentId
       (trimMessageIfExceedsMaxLength (layers_table (foldr insert_job jobs []) @ layers_instructions))"

section \<open>Check runs (\<open>utils/github.go\<close>)\<close>

definition CreateCheckRun ::
  "('g, 'p, 'ta) webhook_env \<Rightarrow> string \<Rightarrow> string \<Rightarrow> string \<Rightarrow> string \<Rightarrow> string \<Rightarrow> string \<Rightarrow> string \<Rightarrow>
   (string, webhook_world) act" where
  "CreateCheckRun env name status conclusion title summary txt headSHA =
     call env (RCreateCheck
       \<lparr>cq_Name = name, cq_HeadSHA = headSHA, cq_Status = status,
        cq_Conclusion = (if conclusion \<noteq> [] then Some conclusion else None),
        cq_Title = title, cq_Summary = summary, cq_Text = txt\<rparr>)"

definition GetCheckDetailedUrl :: "(string \<Rightarrow> string) \<Rightarrow> string \<Rightarrow> string \<Rightarrow> string \<Rightarrow> int \<Rightarrow> string" where
  "GetCheckDetailedUrl getenv checkRunId repoOwner repoName prNumber =
     (let githubHostname = (if getenv ''DIGGER_GITHUB_HOSTNAME'' = [] then ''github.com'' else getenv ''DIGGER_GITHUB_HOSTNAME'')
      in ''https://'' @ githubHostname @ ''/'' @ repoOwner @ ''/'' @ repoName @ ''/pull/'' @ itoa prNumber @
         ''/checks?check_run_id='' @ checkRunId)"

text \<open>The repository and the pull request that an event names.\<close>

record pull_context =
  pc_installation :: int
  pc_repoName :: string
  pc_repoOwner :: string
  pc_repoFullName :: string
  pc_cloneURL :: string
  pc_number :: int
  pc_draft :: bool
  pc_labels :: "string list"
  pc_defaultBranch :: string

text \<open>The id of a created run is read before the error is looked at: on an error there is no run, and reading it
  panics.\<close>

definition create_run ::
  "('g, 'p, 'ta) webhook_env \<Rightarrow> pull_context \<Rightarrow> string \<Rightarrow> string \<Rightarrow> string \<Rightarrow> string \<Rightarrow> (check_run_data, webhook_world) act" where
  "create_run env c name title txt commitSha =
     act_bind (act_try (CreateCheckRun env name ''in_progress'' [] title [] txt commitSha)) (\<lambda>r. case r of
       Inl _ \<Rightarrow> act_panic ''nil pointer dereference''
     | Inr i \<Rightarrow> act_ret \<lparr>cr_Id = i,
         cr_Url = GetCheckDetailedUrl (we_getenv env) i (pc_repoOwner c) (pc_repoName c) (pc_number c)\<rparr>)"

type_synonym run_map = "(string \<times> check_run_data) list"

fun command_runs ::
  "('g, 'p, 'ta) webhook_env \<Rightarrow> pull_context \<Rightarrow> string \<Rightarrow> 'p job \<Rightarrow> string list \<Rightarrow> run_map \<Rightarrow> (run_map, webhook_world) act" where
  "command_runs env c commitSha job [] m = act_ret m"
| "command_runs env c commitSha job (command # cs) m =
     (if command = ''digger plan'' then
        act_bind (create_run env c (job_GetProjectAlias job @ ''/plan'') ''Waiting for plan...''
            ''Plan result will appear here'' commitSha) (\<lambda>r.
          command_runs env c commitSha job cs (AList.update (j_ProjectName job) r m))
      else if command = ''digger apply'' then
        act_bind (create_run env c (job_GetProjectAlias job @ ''/apply'') ''Waiting for apply...''
            ''Apply result will appear here'' commitSha) (\<lambda>r.
          command_runs env c commitSha job cs (AList.update (j_ProjectName job) r m))
      else command_runs env c commitSha job cs m)"

fun job_runs ::
  "('g, 'p, 'ta) webhook_env \<Rightarrow> pull_context \<Rightarrow> string \<Rightarrow> 'p job list \<Rightarrow> run_map \<Rightarrow> (run_map, webhook_world) act" where
  "job_runs env c commitSha [] m = act_ret m"
| "job_runs env c commitSha (j # js) m =
     act_bind (command_runs env c commitSha j (j_Commands j) m) (job_runs env c commitSha js)"

definition success_run ::
  "('g, 'p, 'ta) webhook_env \<Rightarrow> string \<Rightarrow> string \<Rightarrow> (string, webhook_world) act" where
  "success_run env name commitSha =
     act_wrap (\<lambda>e. ''error setting pr status: '' @ e)
       (CreateCheckRun env name ''completed'' ''success'' ''No impacted projects''
         ''Check your configuration and files changed if this is unexpected'' name commitSha)"

definition SetPRCheckForJobs ::
  "('g, 'p, 'ta) webhook_env \<Rightarrow> pull_context \<Rightarrow> 'p job list \<Rightarrow> string \<Rightarrow> (check_run_data \<times> run_map, webhook_world) act" where
  "SetPRCheckForJobs env c jobs commitSha =
     act_bind (job_runs env c commitSha jobs []) (\<lambda>jobCheckRunIds.
     if jobs \<noteq> [] then
       act_bind (create_run env c (if IsPlanJobs jobs then ''digger/plan'' else ''digger/apply'') ''Pending start...''
           (GetInitialJobSummary jobs) commitSha) (\<lambda>batchCheckRunId.
         act_ret (batchCheckRunId, jobCheckRunIds))
     else
       act_bind (success_run env ''digger/plan'' commitSha) (\<lambda>_.
       act_bind (success_run env ''digger/apply'' commitSha) (\<lambda>_.
         act_ret (\<lparr>cr_Id = [], cr_Url = []\<rparr>, jobCheckRunIds))))"

section \<open>Detections (\<open>models/detection_runs.go\<close>)\<close>

definition impacted_payload_of :: "project \<Rightarrow> impacted_payload" where
  "impacted_payload_of p =
     \<lparr>iy_name = Name p, iy_dir = Dir p, iy_workspace = Workspace p, iy_layer = Layer p, iy_workflow = Workflow p,
      iy_terragrunt = Terragrunt p, iy_opentofu = OpenTofu p, iy_pulumi = Pulumi p\<rparr>"

definition NewDetectionRun ::
  "nat \<Rightarrow> pull_context \<Rightarrow> string \<Rightarrow> string \<Rightarrow> string \<Rightarrow> string \<Rightarrow> string list \<Rightarrow> project list \<Rightarrow>
   (string \<times> source_mapping) list \<Rightarrow> detection_run" where
  "NewDetectionRun organisationID c triggerType triggerAction commitSHA targetBranch changedFiles impactedProjects
       sourceMapping =
     \<lparr>dn_OrganisationID = organisationID, dn_RepoFullName = pc_repoFullName c, dn_PrNumber = pc_number c,
      dn_TriggerType = triggerType, dn_TriggerAction = triggerAction, dn_CommitSHA = commitSHA,
      dn_DefaultBranch = pc_defaultBranch c, dn_TargetBranch = targetBranch, dn_Labels = pc_labels c,
      dn_ChangedFiles = changedFiles, dn_ImpactedProjects = map impacted_payload_of impactedProjects,
      dn_SourceMapping = map (\<lambda>(k, v). (k, ImpactingLocations v)) sourceMapping\<rparr>"

definition CreateDetectionRun :: "detection_run \<Rightarrow> (unit, webhook_world) act" where
  "CreateDetectionRun run w =
     (let (x, d) = fdb_write (\<lambda>rs. rs @ [run]) (ww_detections w) in (x, w\<lparr>ww_detections := d\<rparr>))"

definition recordDetectionRun :: "detection_run \<Rightarrow> (unit, webhook_world) act" where
  "recordDetectionRun dr = logged (CreateDetectionRun dr)"

section \<open>The configuration of a pull request (\<open>controllers/github_helpers.go\<close>)\<close>

text \<open>\<open>GetGithubService\<close> answers the token of the client.\<close>

definition github_service :: "('g, 'p, 'ta) webhook_env \<Rightarrow> pull_context \<Rightarrow> (string, webhook_world) act" where
  "github_service env c =
     act_wrap (\<lambda>e. ''Error creating github app client: '' @ e)
       (asking (\<lambda>cs. we_github env cs (pc_installation c) (pc_repoFullName c)))"

definition retrieveConfigFromCache ::
  "('g, 'p, 'ta) webhook_env \<Rightarrow> nat \<Rightarrow> string \<Rightarrow> (string \<times> digger_config \<times> 'g \<times> 'ta, webhook_world) act" where
  "retrieveConfigFromCache env orgId repoFullName =
     act_bind (act_wrap (\<lambda>e. ''failed to load repo cache: '' @ e) (of_sum (we_repo_cache env orgId repoFullName))) (\<lambda>cache.
     act_bind (act_wrap (\<lambda>e. ''failed to unmarshal config from cache: '' @ e)
         (of_sum (we_unmarshal_config env (rc_DiggerConfig cache)))) (\<lambda>config.
     act_bind (act_wrap (\<lambda>e. ''failed to unmarshal config from cache: '' @ e)
         (of_sum (we_unmarshal_ta env (rc_TerragruntAtlantisConfig cache)))) (\<lambda>taConfig.
     act_bind (act_wrap (\<lambda>e. ''error creating dependency graph from cached config: '' @ e)
         (act_of (CreateProjectDependencyGraph (be_graph (we_back env)) (Projects config)))) (\<lambda>projectsGraph.
       act_ret (rc_DiggerYmlStr cache, config, projectsGraph, taConfig)))))"

definition GetDiggerConfigForBranchOrSha ::
  "('g, 'p, 'ta) webhook_env \<Rightarrow> pull_context \<Rightarrow> string \<Rightarrow> string \<Rightarrow> string list \<Rightarrow> 'ta option \<Rightarrow>
   (string \<times> digger_config \<times> 'g, webhook_world) act" where
  "GetDiggerConfigForBranchOrSha env c branch commitSha changedFiles taConfig =
     act_bind (act_wrap (\<lambda>_. ''error getting github service'') (github_service env c)) (\<lambda>token.
     act_wrap (\<lambda>e. ''error cloning and loading config '' @ e)
       (act_bind (of_sum (we_clone env (pc_cloneURL c) branch commitSha token)) (\<lambda>dir.
        act_bind (of_sum (we_read_yml env dir)) (\<lambda>diggerYmlStr.
        act_bind (of_sum (we_load_config env dir changedFiles taConfig)) (\<lambda>(config, dependencyGraph).
          act_ret (diggerYmlStr, config, dependencyGraph))))))"

text \<open>A sentinel error; no other error of these functions has its text.\<close>

definition ErrBranchNotFoundPostMerge :: error where
  "ErrBranchNotFoundPostMerge = ''branch not found after PR merge''"

definition isBranchNotFound :: "error \<Rightarrow> bool" where
  "isBranchNotFound errMsg \<longleftrightarrow>
     str_contains errMsg ''Remote branch'' \<and> str_contains errMsg ''not found'' \<or>
     str_contains errMsg ''couldn't find remote ref'' \<or> str_contains errMsg ''exit status 128''"

definition GetDiggerConfigForBranchWithGracefulHandling ::
  "('g, 'p, 'ta) webhook_env \<Rightarrow> pull_context \<Rightarrow> string \<Rightarrow> bool \<Rightarrow> string list \<Rightarrow> 'ta option \<Rightarrow>
   (string \<times> digger_config \<times> 'g, webhook_world) act" where
  "GetDiggerConfigForBranchWithGracefulHandling env c branch isMerged changedFiles taConfig =
     act_bind (act_wrap (\<lambda>_. ''error getting github service'') (github_service env c)) (\<lambda>_.
     act_bind (if isMerged then
          act_bind (act_try (reading (CheckBranchExists (we_api env) branch))) (\<lambda>r. act_ret (r = Inr False))
        else act_ret False) (\<lambda>deleted.
     if deleted then act_err ErrBranchNotFoundPostMerge
     else act_wrap (\<lambda>e. if isBranchNotFound e \<and> isMerged then ErrBranchNotFoundPostMerge else e)
            (GetDiggerConfigForBranchOrSha env c branch [] changedFiles taConfig)))"

record 'g loaded_config =
  lc_yml :: string
  lc_config :: digger_config
  lc_graph :: 'g
  lc_branch :: string
  lc_sha :: string
  lc_changed :: "string list"

text \<open>A listing of files that never ends has no answer.\<close>

definition pull_files :: "('g, 'p, 'ta) webhook_env \<Rightarrow> int \<Rightarrow> (string list, webhook_world) act" where
  "pull_files env n w =
     (case GetChangedFiles (we_files env (bw_calls (ww_back w)) n) of
        None \<Rightarrow> (Panic ''does not return'', w)
      | Some r \<Rightarrow> of_sum r w)"

text \<open>Only the terragrunt part of the cached configuration is used.\<close>

definition cached_ta_config ::
  "('g, 'p, 'ta) webhook_env \<Rightarrow> nat \<Rightarrow> pull_context \<Rightarrow> ('ta option, webhook_world) act" where
  "cached_ta_config env orgId c =
     (if we_getenv env ''DIGGER_CONFIG_REPO_CACHE_ENABLED'' = ''1'' \<and> ''digger:no-cache'' \<notin> set (pc_labels c) then
        act_bind (act_try (retrieveConfigFromCache env orgId (pc_repoFullName c))) (\<lambda>r. case r of
          Inl _ \<Rightarrow> act_ret None
        | Inr (_, _, _, taConfig) \<Rightarrow> act_ret (Some taConfig))
      else act_ret None)"

definition getDiggerConfigForPR ::
  "('g, 'p, 'ta) webhook_env \<Rightarrow> nat \<Rightarrow> pull_context \<Rightarrow> ('g loaded_config, webhook_world) act" where
  "getDiggerConfigForPR env orgId c =
     act_bind (act_wrap (\<lambda>_. ''error getting github service'') (github_service env c)) (\<lambda>_.
     act_bind (act_wrap (\<lambda>_. ''error getting branch name'')
         (reading (GetBranchName (we_api env) (pc_number c)))) (\<lambda>(prBranch, prCommitSha, _, _).
     act_bind (act_wrap (\<lambda>_. ''error getting changed files'') (pull_files env (pc_number c))) (\<lambda>changedFiles.
     act_bind (cached_ta_config env orgId c) (\<lambda>taConfig.
     act_bind (act_try (reading (IsMerged (we_api env) (pc_number c)))) (\<lambda>r.
     let isMerged = (case r of Inl _ \<Rightarrow> False | Inr b \<Rightarrow> b) in
     act_bind (act_wrap (\<lambda>e. if e = ErrBranchNotFoundPostMerge then e else ''error loading digger.yml: '' @ e)
         (GetDiggerConfigForBranchWithGracefulHandling env c prBranch isMerged changedFiles taConfig))
       (\<lambda>(diggerYmlStr, config, dependencyGraph).
          act_ret \<lparr>lc_yml = diggerYmlStr, lc_config = config, lc_graph = dependencyGraph, lc_branch = prBranch,
                   lc_sha = prCommitSha, lc_changed = changedFiles\<rparr>))))))"

section \<open>Limits (\<open>backend/config/envgetters.go\<close>)\<close>

definition LimitByNumOfFilesChanged :: "(string \<Rightarrow> string) \<Rightarrow> bool" where
  "LimitByNumOfFilesChanged getenv \<longleftrightarrow> getenv ''DIGGER_LIMIT_MAX_PROJECTS_TO_FILES_CHANGED'' = ''1''"

definition MaxImpactedProjectsPerChange :: "(string \<Rightarrow> string) \<Rightarrow> (string \<Rightarrow> int option) \<Rightarrow> int" where
  "MaxImpactedProjectsPerChange getenv to_int =
     (let m = getenv ''DIGGER_MAX_PROJECTS_PER_CHANGE'' in
      if m = [] then 99999 else case to_int m of None \<Rightarrow> 99999 | Some v \<Rightarrow> v)"

section \<open>Triggering the jobs of a batch\<close>

fun schedule_jobs :: "sched_env \<Rightarrow> string \<Rightarrow> loaded_job list \<Rightarrow> (unit, sched_world) act" where
  "schedule_jobs env batchId [] = act_ret ()"
| "schedule_jobs env batchId (job # jobs) =
     (if dj_SerializedJobSpec (fst job) = None then act_err ''GitHub job can't be nil''
      else act_bind (act_wrap (\<lambda>e. ''failed to trigger CI workflow, '' @ e) (ScheduleJob env batchId job)) (\<lambda>_.
             schedule_jobs env batchId jobs))"

definition TriggerDiggerJobs :: "sched_env \<Rightarrow> string \<Rightarrow> (unit, sched_world) act" where
  "TriggerDiggerJobs env batchId =
     act_bind (act_wrap (\<lambda>e. ''failed to get digger batch, '' @ e) (on_db (GetDiggerBatch batchId))) (\<lambda>_.
     act_bind (act_wrap (\<lambda>e. ''failed to get pending digger jobs, '' @ e)
         (on_db (GetPendingParentDiggerJobs (Some batchId)))) (schedule_jobs env batchId))"

end
