(* ===== verification/PullRequests.thy ===== *)
theory PullRequests
  imports Webhooks
begin

text \<open>
  What the backend does about an event of a pull request: \<open>handlePullRequestEvent\<close> of
  \<open>controllers/github_pull_request.go\<close>.  The definitions cut the handler into the stages it goes through: its
  configuration, the impacted projects and their jobs, the guards, the locks, the reports and check runs, the batch,
  the trigger.  Reports to the analytics service are left out.
\<close>

section \<open>The event\<close>

record pull_payload =
  pq_installation :: int
  pq_repoName :: string
  pq_repoOwner :: string
  pq_cloneURL :: string
  pq_draft :: bool
  pq_labels :: "string list"
  pq_sha :: string
  pq_event :: gh_pull_event

definition pull_payload_context :: "pull_payload \<Rightarrow> pull_context" where
  "pull_payload_context p =
     \<lparr>pc_installation = pq_installation p, pc_repoName = pq_repoName p, pc_repoOwner = pq_repoOwner p,
      pc_repoFullName = gp_FullName (pq_event p), pc_cloneURL = pq_cloneURL p, pc_number = gp_Number (pq_event p),
      pc_draft = pq_draft p, pc_labels = pq_labels p, pc_defaultBranch = gp_DefaultBranch (pq_event p)\<rparr>"

text \<open>What a handler knows once it has the jobs of its event.\<close>

record ('g, 'p) event_work =
  ew_org :: nat
  ew_context :: pull_context
  ew_sha :: string
  ew_branch :: string
  ew_loaded :: "'g loaded_config"
  ew_projects :: "project list"
  ew_mapping :: "(string \<times> source_mapping) list"
  ew_jobs :: "'p job list"
  ew_coverAll :: bool

abbreviation "ew_number wk \<equiv> pc_number (ew_context wk)"
abbreviation "ew_config wk \<equiv> lc_config (ew_loaded wk)"

definition reports_early :: "('g, 'p, 'ta) webhook_env \<Rightarrow> bool" where
  "reports_early env \<longleftrightarrow> we_getenv env ''DIGGER_REPORT_BEFORE_LOADING_CONFIG'' = ''1''"

definition say_early :: "('g, 'p, 'ta) webhook_env \<Rightarrow> int \<Rightarrow> string \<Rightarrow> (unit, webhook_world) act" where
  "say_early env n msg = (if reports_early env then say env n msg else act_ret ())"

section \<open>The batch and its jobs\<close>

definition trigger_batch ::
  "('g, 'p, 'ta) webhook_env \<Rightarrow> int \<Rightarrow> string \<Rightarrow> (unit, webhook_world) act" where
  "trigger_batch env n batchId =
     or_report env n (\<lambda>e. '':x: GetCiBackend error: '' @ e) (\<lambda>e. ''error fetching ci backed '' @ e)
       (asking (we_ci_backend env)) (\<lambda>_.
     or_report env n (\<lambda>e. '':x: TriggerDiggerJobs error: '' @ e) (\<lambda>_. ''error triggering Digger Jobs'')
       (on_backend (on_sched (TriggerDiggerJobs (be_sched (we_back env)) batchId))) act_ret)"

definition post_source_comments ::
  "('g, 'p, 'ta) webhook_env \<Rightarrow> int \<Rightarrow> (string \<times> source_mapping) list \<Rightarrow> digger_batch \<Rightarrow> (unit, webhook_world) act" where
  "post_source_comments env n mapping batch =
     or_report env n (\<lambda>e. '':x: PostInitialSourceComments error: '' @ e) (\<lambda>_. ''error posting initial comments'')
       (on_backend (PostInitialSourceComments (comment_service_calls (we_back env)) (we_now env) n mapping)) (\<lambda>sourceDetails.
     or_report env n (\<lambda>e. '':x: json Marshal error: '' @ e) (\<lambda>_. ''error marshalling sourceDetails'')
       (of_sum (we_marshal_details env sourceDetails)) (\<lambda>details.
     or_report env n (\<lambda>e. '':x: UpdateDiggerBatch error: '' @ e) (\<lambda>_. ''error updating digger batch'')
       (on_rows (UpdateDiggerBatch (batch\<lparr>db_SourceDetails := Some details\<rparr>))) act_ret))"

text \<open>\<open>ConvertJobsToDiggerJobs\<close> keeps the jobs it has stored in a map of its own.\<close>

definition on_convert :: "('a, convert_world) act \<Rightarrow> ('a, tables fdb) act" where
  "on_convert f d = (let (x, cw) = f \<lparr>cw_db = d, cw_result = []\<rparr> in (x, cw_db cw))"

definition projects_by_name :: "project list \<Rightarrow> (string \<times> project) list" where
  "projects_by_name ps = foldl (\<lambda>m p. AList.update (Name p) p m) [] ps"

definition jobs_by_name :: "'p job list \<Rightarrow> (string \<times> 'p job) list" where
  "jobs_by_name js = foldl (\<lambda>m j. AList.update (j_ProjectName j) j m) [] js"

definition batch_request ::
  "('g, 'p) event_work \<Rightarrow> digger_command \<Rightarrow> check_run_data \<Rightarrow> int \<Rightarrow> string \<Rightarrow> digger_batch" where
  "batch_request wk cmd batchRun commentId aiSummaryCommentId =
     zero_batch\<lparr>db_VCS := ''github'', db_PrNumber := ew_number wk, db_CommitSha := ew_sha wk,
       db_CommentId := Some commentId, db_CheckRunId := Some (cr_Id batchRun), db_CheckRunUrl := Some (cr_Url batchRun),
       db_AiSummaryCommentId := aiSummaryCommentId, db_BranchName := ew_branch wk,
       db_DiggerConfig := lc_yml (ew_loaded wk), db_GithubInstallationId := pc_installation (ew_context wk),
       db_RepoFullName := pc_repoFullName (ew_context wk), db_RepoOwner := pc_repoOwner (ew_context wk),
       db_RepoName := pc_repoName (ew_context wk), db_BatchType := cmd,
       db_ReportTerraformOutputs := ReportTerraformOutputs (ew_config wk), db_CoverAllImpactedProjects := ew_coverAll wk\<rparr>"

definition store_batch ::
  "('g, 'p, 'ta) webhook_env \<Rightarrow> ('g, 'p) event_work \<Rightarrow> digger_command \<Rightarrow> check_run_data \<times> run_map \<Rightarrow> int \<Rightarrow> string \<Rightarrow>
   (string, webhook_world) act" where
  "store_batch env wk cmd runs commentId aiSummaryCommentId =
     on_rows (on_convert (ConvertJobsToDiggerJobs (we_depth env) (be_graph (we_back env)) (we_bfs env) (we_convert env)
       (command_string cmd) (if \<not> CommentsEnabled (Reporting (ew_config wk)) then ''noop'' else ''lazy'') (ew_org wk)
       (batch_request wk cmd (fst runs) commentId aiSummaryCommentId) (jobs_by_name (ew_jobs wk))
       (projects_by_name (ew_projects wk)) (snd runs) (lc_graph (ew_loaded wk))))"

definition ai_summary_comment ::
  "('g, 'p, 'ta) webhook_env \<Rightarrow> ('g, 'p) event_work \<Rightarrow> (string, webhook_world) act" where
  "ai_summary_comment env wk =
     (if AiSummary (Reporting (ew_config wk)) then
        or_report env (ew_number wk) (\<lambda>e. '':x: could not post ai comment summary comment id: '' @ e)
          (\<lambda>e. ''could not post ai summary comment: '' @ e)
          (call env (RPublish (ew_number wk) ''AI Summary will be posted here after completion'')) act_ret
      else act_ret [])"

definition create_batch ::
  "('g, 'p, 'ta) webhook_env \<Rightarrow> ('g, 'p) event_work \<Rightarrow> digger_command \<Rightarrow> check_run_data \<times> run_map \<Rightarrow> int \<Rightarrow> bool \<Rightarrow>
   (unit, webhook_world) act" where
  "create_batch env wk cmd runs commentId byModule =
     act_bind (ai_summary_comment env wk) (\<lambda>aiSummaryCommentId.
     or_report env (ew_number wk) (\<lambda>e. '':x: ConvertJobsToDiggerJobs error: '' @ e) (\<lambda>_. ''error converting jobs'')
       (store_batch env wk cmd runs commentId aiSummaryCommentId) (\<lambda>batchId.
     or_report env (ew_number wk) (\<lambda>e. '':x: Could not retrieve created batch: '' @ e) (\<lambda>_. ''error getting digger batch'')
       (on_rows (GetDiggerBatch batchId)) (\<lambda>batch.
     act_bind (if byModule then post_source_comments env (ew_number wk) (ew_mapping wk) batch else act_ret ()) (\<lambda>_.
       trigger_batch env (ew_number wk) batchId))))"

text \<open>An id that cannot be parsed is reported, and the handler goes on with the number that
  \<open>strconv.ParseInt\<close> returns beside its error.\<close>

definition pull_batch ::
  "('g, 'p, 'ta) webhook_env \<Rightarrow> ('g, 'p) event_work \<Rightarrow> digger_command \<Rightarrow> string \<Rightarrow> check_run_data \<times> run_map \<Rightarrow>
   (unit, webhook_world) act" where
  "pull_batch env wk cmd commentId runs =
     act_bind (if atoi commentId = None then say env (ew_number wk) '':x: could not handle commentId: '' else act_ret ()) (\<lambda>_.
       create_batch env wk cmd runs (atoi_value commentId) (CommentRenderMode (ew_config wk) = ''group_by_module''))"

section \<open>Reports and check runs\<close>

definition draft_notice :: string where
  "draft_notice = '':construction_worker: Ignoring event as it is a draft and draft PRs are configured to be ignored''"

definition failed_status :: "error \<Rightarrow> string" where
  "failed_status e = '':x: Failed to comment initial status for jobs: '' @ e"

definition pull_checks ::
  "('g, 'p, 'ta) webhook_env \<Rightarrow> ('g, 'p) event_work \<Rightarrow> digger_command \<Rightarrow> string \<Rightarrow> (unit, webhook_world) act" where
  "pull_checks env wk cmd commentId =
     or_report env (ew_number wk) (\<lambda>e. '':x: error setting status for PR: '' @ e) (\<lambda>e. ''error setting status for PR: '' @ e)
       (SetPRCheckForJobs env (ew_context wk) (ew_jobs wk) (ew_sha wk)) (\<lambda>runs.
     if RespectLayers (ew_config wk) \<and> fst (CountUniqueLayers (ew_jobs wk)) > 1 then
       or_report env (ew_number wk) failed_status (\<lambda>_. ''failed to comment initial status for jobs'')
         (ReportLayersTableForJobs env (ew_number wk) commentId (ew_jobs wk)) act_ret
     else
       or_report env (ew_number wk) failed_status (\<lambda>_. ''failed to comment initial status for jobs'')
         (ReportInitialJobsStatus env (ew_number wk) commentId (ew_jobs wk)) (\<lambda>_.
           pull_batch env wk cmd commentId runs))"

definition pull_start ::
  "('g, 'p, 'ta) webhook_env \<Rightarrow> ('g, 'p) event_work \<Rightarrow> digger_command \<Rightarrow> (unit, webhook_world) act" where
  "pull_start env wk cmd =
     (if \<not> AllowDraftPRs (ew_config wk) \<and> pc_draft (ew_context wk) then say_early env (ew_number wk) draft_notice
      else
        act_bind (act_wrap (\<lambda>_. ''error initializing comment reporter'')
            (UpdateComment env (ew_number wk) '':construction_worker: Digger starting... Config loaded successfully''))
          (pull_checks env wk cmd))"

section \<open>Locks\<close>

definition is_closed_now :: "('g, 'p, 'ta) webhook_env \<Rightarrow> remote_call list \<Rightarrow> int \<Rightarrow> error + bool" where
  "is_closed_now env cs n =
     (case fst (IsClosed (we_api env) n cs) of Ok b \<Rightarrow> Inr b | Err e \<Rightarrow> Inl e | Panic m \<Rightarrow> Inl m)"

text \<open>The lock's reporter is \<open>NoopReporter\<close>: it drops the comments and does not support Markdown.\<close>

definition project_lock_action ::
  "('g, 'p, 'ta) webhook_env \<Rightarrow> nat \<Rightarrow> pull_context \<Rightarrow> digger_command \<Rightarrow> project \<Rightarrow> (unit, webhook_world) act" where
  "project_lock_action env organisationId c cmd p w =
     (let (x, lw) = PerformLockingActionFromCommand (backend_ops organisationId)
            \<lparr>supports_markdown = False, is_closed = is_closed_now env (bw_calls (ww_back w))\<rparr>
            \<lparr>pr_project = Name p, pr_namespace = pc_repoFullName c, pr_number = pc_number c\<rparr> cmd
            \<lparr>locks = ww_locks w, comments = []\<rparr>
      in (x, w\<lparr>ww_locks := lock_world.locks lw\<rparr>))"

fun lock_projects ::
  "('g, 'p, 'ta) webhook_env \<Rightarrow> ('g, 'p) event_work \<Rightarrow> (string \<Rightarrow> error \<Rightarrow> error) \<Rightarrow> digger_command \<Rightarrow> project list \<Rightarrow>
   (unit, webhook_world) act" where
  "lock_projects env wk err cmd [] = act_ret ()"
| "lock_projects env wk err cmd (p # ps) =
     or_report env (ew_number wk) (\<lambda>e. '':x: Failed perform lock action on project: '' @ Name p @ '' '' @ e) (err (Name p))
       (project_lock_action env (ew_org wk) (ew_context wk) cmd p) (\<lambda>_. lock_projects env wk err cmd ps)"

definition delete_pull_locks :: "('g, 'p, 'ta) webhook_env \<Rightarrow> ('g, 'p) event_work \<Rightarrow> (unit, webhook_world) act" where
  "delete_pull_locks env wk =
     or_report env (ew_number wk) (\<lambda>e. '':x: Failed to delete locks: '' @ e) (\<lambda>e. ''failed to delete locks: '' @ e)
       (on_lock_rows (DeleteAllLocksAcquiredByPR (we_like env) (ew_number wk) (pc_repoFullName (ew_context wk)) (ew_org wk)))
       act_ret"

definition completed_notice :: "digger_command \<Rightarrow> string" where
  "completed_notice cmd = '':white_check_mark: Command '' @ command_string cmd @ '' completed successfully''"

text \<open>The locks of the projects, and what follows a command that is not about locks alone.\<close>

definition with_locks ::
  "('g, 'p, 'ta) webhook_env \<Rightarrow> ('g, 'p) event_work \<Rightarrow> (string \<Rightarrow> error \<Rightarrow> error) \<Rightarrow> digger_command \<Rightarrow>
   (unit, webhook_world) act \<Rightarrow> (unit, webhook_world) act" where
  "with_locks env wk err cmd k =
     act_bind (if PrLocks (ew_config wk) then lock_projects env wk err cmd (ew_projects wk) else act_ret ()) (\<lambda>_.
     act_bind (if cmd = CmdUnlock then delete_pull_locks env wk else act_ret ()) (\<lambda>_.
     if cmd = CmdUnlock \<or> cmd = CmdLock then say env (ew_number wk) (completed_notice cmd) else k))"

section \<open>Guards\<close>

fun create_impacted ::
  "('g, 'p, 'ta) webhook_env \<Rightarrow> ('g, 'p) event_work \<Rightarrow> project list \<Rightarrow> (unit, webhook_world) act" where
  "create_impacted env wk [] = act_ret ()"
| "create_impacted env wk (p # ps) =
     or_report env (ew_number wk) (\<lambda>e. '':x: Error failed to update internal record of impacted projects '' @ e) (\<lambda>e. e)
       (on_rows (CreateImpactedProject (pc_repoFullName (ew_context wk)) (ew_sha wk) (Name p) (Some (ew_branch wk))
         (Some (ew_number wk)))) (\<lambda>_. create_impacted env wk ps)"

text \<open>A failed query counts as no rows.\<close>

definition record_impacted ::
  "('g, 'p, 'ta) webhook_env \<Rightarrow> ('g, 'p) event_work \<Rightarrow> project list \<Rightarrow> (unit, webhook_world) act" where
  "record_impacted env wk ps =
     act_bind (act_try (on_rows (GetImpactedProjects (pc_repoFullName (ew_context wk)) (ew_sha wk)))) (\<lambda>r.
     if (case r of Inl _ \<Rightarrow> True | Inr dbImpactedProjects \<Rightarrow> dbImpactedProjects = []) then create_impacted env wk ps
     else act_ret ())"

definition too_many_for_files :: "nat \<Rightarrow> nat \<Rightarrow> string" where
  "too_many_for_files n m =
     '':x: Error the number impacted projects '' @ itoa (int n) @ '' exceeds number of changed files: '' @ itoa (int m)"

definition too_many :: "nat \<Rightarrow> int \<Rightarrow> string" where
  "too_many n m =
     '':x: Error the number impacted projects '' @ itoa (int n) @ '' exceeds Max allowed ImpactedProjectsPerChange: '' @ itoa m @
     '', we set this limit to protect against hitting github API limits''"

definition check_limits ::
  "('g, 'p, 'ta) webhook_env \<Rightarrow> ('g, 'p) event_work \<Rightarrow> (unit, webhook_world) act" where
  "check_limits env wk =
     (let impacted = length (ew_projects wk); changed = length (lc_changed (ew_loaded wk));
          maxImpacted = MaxImpactedProjectsPerChange (we_getenv env) (we_to_int env) in
      if LimitByNumOfFilesChanged (we_getenv env) \<and> impacted > changed then
        act_bind (say env (ew_number wk) (too_many_for_files impacted changed)) (\<lambda>_. act_err ''error processing event'')
      else if int impacted > maxImpacted then
        act_bind (say env (ew_number wk) (too_many impacted maxImpacted)) (\<lambda>_. act_err ''error processing event'')
      else act_ret ())"

definition pull_command ::
  "('g, 'p, 'ta) webhook_env \<Rightarrow> ('g, 'p) event_work \<Rightarrow> (digger_command, webhook_world) act" where
  "pull_command env wk =
     or_report env (ew_number wk) (\<lambda>e. '':x: could not determine digger command from job: '' @ e)
       (\<lambda>e. ''unknown digger command in comment '' @ e)
       (of_sum (GetCommandFromJob (we_command_order env) (j_Commands (hd (ew_jobs wk))))) act_ret"

definition pull_guards ::
  "('g, 'p, 'ta) webhook_env \<Rightarrow> ('g, 'p) event_work \<Rightarrow> string \<Rightarrow> (unit, webhook_world) act" where
  "pull_guards env wk action =
     act_bind (record_impacted env wk (ew_projects wk)) (\<lambda>_.
     act_bind (check_limits env wk) (\<lambda>_.
     act_bind (pull_command env wk) (\<lambda>diggerCommand.
     if diggerCommand = CmdNoop then act_ret ()
     else if \<not> AllowDraftPRs (ew_config wk) \<and> pc_draft (ew_context wk) \<and> (action = ''opened'' \<or> action = ''synchronize'')
     then say_early env (ew_number wk) draft_notice
     else with_locks env wk (\<lambda>name e. ''failed to perform lock action on project: '' @ name @ '', '' @ e) diggerCommand
            (pull_start env wk diggerCommand))))"

section \<open>The handler\<close>

definition pull_jobs ::
  "('g, 'p, 'ta) webhook_env \<Rightarrow> nat \<Rightarrow> pull_payload \<Rightarrow> 'g loaded_config \<Rightarrow> (unit, webhook_world) act" where
  "pull_jobs env organisationId p cfg =
     (let c = pull_payload_context p; ev = pq_event p; n = pc_number c in
      or_report env n (\<lambda>e. '':x: Error processing event: '' @ e) (\<lambda>_. ''error processing event'')
        (act_bind (act_try (pull_files env n)) (\<lambda>changed.
          act_of (ProcessGitHubPullRequestEvent (we_glob env) (be_graph (we_back env)) (we_dependants env) ev (lc_config cfg)
            (lc_graph cfg) changed))) (\<lambda>(impactedProjects, mapping, _).
      act_bind (recordDetectionRun (NewDetectionRun organisationId c ''pull_request'' (gp_Action ev) (pq_sha p) (gp_BaseRef ev)
          (lc_changed cfg) impactedProjects mapping)) (\<lambda>_.
      or_report env n (\<lambda>e. '':x: Error converting event to jobsForImpactedProjects: '' @ e)
        (\<lambda>_. ''error converting event to jobsForImpactedProjects'')
        (act_of (gh_ConvertPullRequestEventToJobs (we_getenv env) (we_provider env) ev impactedProjects (lc_config cfg) False))
        (\<lambda>(jobs, coverAll).
      if jobs = [] then
        act_bind (say_early env n '':construction_worker: No projects impacted'') (\<lambda>_.
          logged (SetPRCheckForJobs env c jobs (pq_sha p)))
      else pull_guards env
        \<lparr>ew_org = organisationId, ew_context = c, ew_sha = pq_sha p, ew_branch = gp_HeadRef ev, ew_loaded = cfg,
         ew_projects = impactedProjects, ew_mapping = mapping, ew_jobs = jobs, ew_coverAll = coverAll\<rparr>
        (gp_Action ev)))))"

definition pull_config ::
  "('g, 'p, 'ta) webhook_env \<Rightarrow> nat \<Rightarrow> pull_payload \<Rightarrow> (unit, webhook_world) act" where
  "pull_config env organisationId p =
     (let c = pull_payload_context p in
      act_bind (act_try (getDiggerConfigForPR env organisationId c)) (\<lambda>r. case r of
        Inl e \<Rightarrow>
          if e = ErrBranchNotFoundPostMerge then act_ret ()
          else act_bind (say env (pc_number c) ('':x: Error loading digger config: '' @ e)) (\<lambda>_.
                 act_err ''error getting digger config'')
      | Inr cfg \<Rightarrow> pull_jobs env organisationId p cfg))"

definition early_report :: "('g, 'p, 'ta) webhook_env \<Rightarrow> int \<Rightarrow> (unit, webhook_world) act" where
  "early_report env n =
     act_bind InitCommentReporterManager (\<lambda>_.
     if reports_early env then
       act_bind (act_wrap (\<lambda>_. ''error initializing comment reporter'')
           (UpdateComment env n '':construction_worker: Digger starting....'')) (\<lambda>_. act_ret ())
     else act_ret ())"

definition with_organisation ::
  "('g, 'p, 'ta) webhook_env \<Rightarrow> int \<Rightarrow> nat \<Rightarrow> (unit, webhook_world) act \<Rightarrow> (unit, webhook_world) act" where
  "with_organisation env n organisationId k =
     or_report env n (\<lambda>_. '':x: Failed to get organisation by ID'') (\<lambda>_. ''error getting organisation'')
       (of_sum (we_organisation env organisationId)) (\<lambda>_. k)"

definition handlePullRequestEvent ::
  "('g, 'p, 'ta) webhook_env \<Rightarrow> pull_payload \<Rightarrow> (unit, webhook_world) act" where
  "handlePullRequestEvent env p = recovered
     (let c = pull_payload_context p in
      if we_getenv env ''DIGGER_IGNORE_PULL_REQUEST_EVENTS'' = ''1'' then act_ret ()
      else
        act_bind (act_wrap (\<lambda>_. ''error getting github app link'') (of_sum (we_link env (pc_installation c)))) (\<lambda>link.
        case link of
          None \<Rightarrow> act_err ''github app installation link not found''
        | Some organisationId \<Rightarrow>
            act_bind (act_wrap (\<lambda>_. ''error getting ghService to post error comment'') (github_service env c)) (\<lambda>_.
            if gp_Action (pq_event p) \<notin> {''closed'', ''opened'', ''reopened'', ''synchronize'', ''converted_to_draft''}
            then act_ret ()
            else
              act_bind (early_report env (pc_number c)) (\<lambda>_.
                with_organisation env (pc_number c) organisationId (pull_config env organisationId p)))))"

end
