(* ===== verification/IssueComments.thy ===== *)
theory IssueComments
  imports PullRequests SchedulerOps
begin

text \<open>
  What the backend does about a comment on a pull request: \<open>handleIssueCommentEvent\<close> of
  \<open>controllers/github_comment.go\<close>, with the generation of Terraform code of
  \<open>controllers/github_helpers.go\<close>.  The stages are those of the handler of pull requests, in another order and
  with guards of their own.  Reports to the analytics service are left out.
\<close>

section \<open>The event\<close>

record comment_payload =
  cy_context :: pull_context
  cy_isPullRequest :: bool
  cy_action :: string
  cy_commentId :: int
  cy_body :: string
  cy_actor :: string

section \<open>Generating Terraform code\<close>

definition added_lines :: "string \<Rightarrow> string" where
  "added_lines patch =
     concat (map (\<lambda>line. if has_prefix line ''+'' \<and> \<not> has_prefix line ''+++'' then trim_prefix line ''+'' @ newline else [])
       (split_char CHR 0x0A patch))"

definition app_code :: "diff_file list \<Rightarrow> string" where
  "app_code files =
     concat (map (\<lambda>f. case df_Patch f of
         None \<Rightarrow> []
       | Some patch \<Rightarrow> (if df_Additions f > 0 then added_lines patch else []) @ newline) files)"

definition getCodeFromCommit ::
  "('g, 'p, 'ta) webhook_env \<Rightarrow> string \<Rightarrow> string \<Rightarrow> (string, webhook_world) act" where
  "getCodeFromCommit env defaultBranch commitSha =
     act_bind (act_wrap (\<lambda>e. ''error comparing commits: '' @ e)
         (asking (\<lambda>cs. we_compare env cs defaultBranch commitSha))) (\<lambda>files.
     if app_code files = [] then
       act_err (''no code changes found in commit '' @ commitSha @
         ''. Please ensure the PR contains added or modified code'')
     else act_ret (app_code files))"

definition commit_generated ::
  "('g, 'p, 'ta) webhook_env \<Rightarrow> int \<Rightarrow> project \<Rightarrow> string \<Rightarrow> string \<Rightarrow> string \<Rightarrow> (unit, webhook_world) act" where
  "commit_generated env n project branch commitSha terraformCode =
     or_report env n (\<lambda>e. '':x: Failed to get base tree: '' @ e) (\<lambda>e. ''error getting base tree: '' @ e)
       (asking (\<lambda>cs. we_tree env cs commitSha)) (\<lambda>baseTree.
     or_report env n (\<lambda>e. '':x: Failed to create new tree: '' @ e) (\<lambda>e. ''error creating new tree: '' @ e)
       (call env (RCreateTree baseTree (path_Join [Dir project, ''generated_'' @ itoa n @ ''.tf'']) terraformCode)) (\<lambda>newTree.
     or_report env n (\<lambda>e. '':x: Failed to commit Terraform file: '' @ e) (\<lambda>e. ''error committing Terraform file: '' @ e)
       (call env (RCreateCommit (''Add generated Terraform code for '' @ Name project) newTree commitSha)) (\<lambda>newCommit.
     or_report env n (\<lambda>e. '':x: Failed to update branch reference: '' @ e) (\<lambda>e. ''error updating branch reference: '' @ e)
       (call env (RUpdateRef (''refs/heads/'' @ branch) newCommit)) (\<lambda>_.
       say env n '':white_check_mark: Successfully generated and committed Terraform code''))))"

text \<open>An error that is written to the comment and is the handler's.\<close>

definition refuse :: "('g, 'p, 'ta) webhook_env \<Rightarrow> int \<Rightarrow> string \<Rightarrow> error \<Rightarrow> (unit, webhook_world) act" where
  "refuse env n comment err = act_bind (say env n comment) (\<lambda>_. act_err err)"

definition generate_for ::
  "('g, 'p, 'ta) webhook_env \<Rightarrow> pull_context \<Rightarrow> project \<Rightarrow> string \<Rightarrow> string \<Rightarrow> (unit, webhook_world) act" where
  "generate_for env c project branch commitSha =
     (let n = pc_number c; generationEndpoint = we_getenv env ''DIGGER_GENERATION_ENDPOINT'' in
      act_bind (say env n '':white_check_mark: Successfully loaded project'') (\<lambda>_.
      if generationEndpoint = [] then
        refuse env n '':x: server does not have generation endpoint configured, please verify''
          ''server does not have generation endpoint configured, please verify''
      else
        or_report env n (\<lambda>e. '':x: Failed to get code content: '' @ e) (\<lambda>e. ''error getting code content: '' @ e)
          (getCodeFromCommit env (pc_defaultBranch c) commitSha) (\<lambda>appCode.
        act_bind (say env n '':white_check_mark: Successfully loaded code from commit'') (\<lambda>_.
        act_bind (say env n ''Generating terraform...'') (\<lambda>_.
        or_report env n (\<lambda>e. '':x: could not generate terraform code: '' @ e) (\<lambda>e. ''could not generate terraform code: '' @ e)
          (call env (RGenerate appCode generationEndpoint (we_getenv env ''DIGGER_GENERATION_API_TOKEN''))) (\<lambda>terraformCode.
        act_bind (say env n '':white_check_mark: Generated terraform'') (\<lambda>_.
          commit_generated env n project branch commitSha terraformCode)))))))"

text \<open>The function gets a copy of the manager: a comment that it posts is not known to the handler.\<close>

definition with_manager_copy :: "('a, webhook_world) act \<Rightarrow> ('a, webhook_world) act" where
  "with_manager_copy f w = (let (x, w') = f w in (x, w'\<lparr>ww_reporter := ww_reporter w\<rparr>))"

definition GenerateTerraformFromCode ::
  "('g, 'p, 'ta) webhook_env \<Rightarrow> pull_context \<Rightarrow> string \<Rightarrow> digger_config \<Rightarrow> string \<Rightarrow> string \<Rightarrow> (unit, webhook_world) act" where
  "GenerateTerraformFromCode env c body config branch commitSha =
     (let n = pc_number c; projectName = ParseProjectName body in
      with_manager_copy
        (if \<not> has_prefix body ''digger generate'' then act_ret ()
         else if projectName = [] then
           refuse env n '':x: generate requires argument -p <project_name>'' ''generate requires argument -p <project_name>''
         else case GetProject config projectName of
           None \<Rightarrow> refuse env n (''could not find project '' @ projectName @ '' in digger.yml'')
                     (''could not find project '' @ projectName @ '' in digger.yml'')
         | Some project \<Rightarrow> generate_for env c project branch commitSha))"

section \<open>The batch and its jobs\<close>

text \<open>The batch gets the branch that was read with the configuration.\<close>

definition comment_hooks :: "(unit, webhook_world) act list \<Rightarrow> (unit, webhook_world) act" where
  "comment_hooks hooks = act_all (act_wrap (\<lambda>e. ''error during postevent hooks: '' @ e)) hooks"

definition comment_batch ::
  "('g, 'p, 'ta) webhook_env \<Rightarrow> ('g, 'p) event_work \<Rightarrow> digger_command \<Rightarrow> string \<Rightarrow> check_run_data \<times> run_map \<Rightarrow>
   (unit, webhook_world) act list \<Rightarrow> (unit, webhook_world) act" where
  "comment_batch env wk cmd commentId runs hooks =
     (case atoi commentId of
        None \<Rightarrow> refuse env (ew_number wk) '':x: could not handle commentId: '' ''comment reporter error: ''
      | Some i \<Rightarrow>
          act_bind (create_batch env (wk\<lparr>ew_branch := lc_branch (ew_loaded wk)\<rparr>) cmd runs i
              (CommentRenderMode (ew_config wk) = ''group_by_module'' \<and> (cmd = CmdPlan \<or> cmd = CmdApply))) (\<lambda>_.
            comment_hooks hooks))"

definition comment_checks ::
  "('g, 'p, 'ta) webhook_env \<Rightarrow> ('g, 'p) event_work \<Rightarrow> digger_command \<Rightarrow> string \<Rightarrow> (unit, webhook_world) act list \<Rightarrow>
   (unit, webhook_world) act" where
  "comment_checks env wk cmd commentId hooks =
     or_report env (ew_number wk) failed_status (\<lambda>_. ''failed to comment initial status for jobs'')
       (ReportInitialJobsStatus env (ew_number wk) commentId (ew_jobs wk)) (\<lambda>_.
     if ew_jobs wk = [] then logged (SetPRCheckForJobs env (ew_context wk) (ew_jobs wk) (ew_sha wk))
     else
       or_report env (ew_number wk) (\<lambda>e. '':x: error setting status for PR: '' @ e) (\<lambda>e. ''error setting status for PR: '' @ e)
         (SetPRCheckForJobs env (ew_context wk) (ew_jobs wk) (ew_sha wk)) (\<lambda>runs.
           comment_batch env wk cmd commentId runs hooks))"

definition approvals_of :: "(string list \<times> error option) \<Rightarrow> error + string list" where
  "approvals_of r = (case snd r of Some e \<Rightarrow> Inl e | None \<Rightarrow> Inr (fst r))"

definition res_sum :: "'a res \<Rightarrow> error + 'a" where
  "res_sum r = (case r of Ok a \<Rightarrow> Inr a | Err e \<Rightarrow> Inl e | Panic m \<Rightarrow> Inl m)"

text \<open>The requirements ask GitHub's client whether the pull request can be merged, who approved it and whether its
  branch has diverged.\<close>

definition apply_requirements_hold ::
  "('g, 'p, 'ta) webhook_env \<Rightarrow> ('g, 'p) event_work \<Rightarrow> string \<Rightarrow> (unit, webhook_world) act" where
  "apply_requirements_hold env wk targetBranch w =
     (let cs = bw_calls (ww_back w); api = we_api env; n = ew_number wk in
      (CheckApplyRequirements (res_sum (fst (IsMergeable api n cs))) (approvals_of (fst (GetApprovals api n cs)))
         (res_sum (fst (IsDivergedFromBranch api (lc_branch (ew_loaded wk)) targetBranch cs))) (ew_projects wk) (ew_jobs wk), w))"

text \<open>Failed requirements end the handler without an error.\<close>

definition comment_requirements ::
  "('g, 'p, 'ta) webhook_env \<Rightarrow> ('g, 'p) event_work \<Rightarrow> digger_command \<Rightarrow> string \<Rightarrow> (unit, webhook_world) act \<Rightarrow>
   (unit, webhook_world) act" where
  "comment_requirements env wk cmd targetBranch k =
     (if cmd = CmdApply then
        act_bind (act_try (apply_requirements_hold env wk targetBranch)) (\<lambda>r. case r of
          Inl e \<Rightarrow> say env (ew_number wk)
                     ('':x: Could not proceed with apply since apply requirements checks have failed: '' @ e)
        | Inr _ \<Rightarrow> k)
      else k)"

section \<open>Guards\<close>

definition comment_draft ::
  "('g, 'p, 'ta) webhook_env \<Rightarrow> ('g, 'p) event_work \<Rightarrow> digger_command \<Rightarrow> (unit, webhook_world) act" where
  "comment_draft env wk cmd =
     act_bind (say_early env (ew_number wk) draft_notice) (\<lambda>_.
     if cmd = CmdUnlock then
       act_bind (delete_pull_locks env wk) (\<lambda>_. say env (ew_number wk) (completed_notice cmd))
     else act_ret ())"

definition comment_guards ::
  "('g, 'p, 'ta) webhook_env \<Rightarrow> ('g, 'p) event_work \<Rightarrow> project list \<Rightarrow> digger_command \<Rightarrow> string \<Rightarrow> string \<Rightarrow>
   (unit, webhook_world) act list \<Rightarrow> (unit, webhook_world) act" where
  "comment_guards env wk allImpactedProjects cmd targetBranch commentId hooks =
     act_bind (record_impacted env wk allImpactedProjects) (\<lambda>_.
     act_bind (check_limits env wk) (\<lambda>_.
     if \<not> AllowDraftPRs (ew_config wk) \<and> pc_draft (ew_context wk) then comment_draft env wk cmd
     else with_locks env wk (\<lambda>name e. ''failed perform lock action on project: '' @ name @ '' '' @ e) cmd
            (comment_requirements env wk cmd targetBranch (comment_checks env wk cmd commentId hooks))))"

section \<open>The handler\<close>

text \<open>The jobs of a command; \<open>commentId\<close> is the comment that reports on it.\<close>

definition comment_jobs ::
  "('g, 'p, 'ta) webhook_env \<Rightarrow> nat \<Rightarrow> comment_payload \<Rightarrow> 'g loaded_config \<Rightarrow> string \<Rightarrow> digger_command \<Rightarrow>
   (unit, webhook_world) act list \<Rightarrow> (unit, webhook_world) act" where
  "comment_jobs env orgId p cfg commentId cmd hooks =
     (let c = cy_context p; n = pc_number c in
      or_report env n (\<lambda>e. '':x: GetBranchName error: '' @ e) (\<lambda>_. ''error while fetching branch name'')
        (reading (GetBranchName (we_api env) n)) (\<lambda>(prBranchName, _, targetBranch, _).
      or_report env n (\<lambda>e. '':x: Error processing event: '' @ e) (\<lambda>_. ''error processing event'')
        (act_bind (act_try (pull_files env n)) (\<lambda>changed.
          act_of (ProcessIssueCommentEvent (we_glob env) (be_graph (we_back env)) (we_dependants env) n (lc_config cfg)
            (lc_graph cfg) changed))) (\<lambda>processed.
      act_bind (recordDetectionRun (NewDetectionRun orgId c ''issue_comment'' ''comment'' (lc_sha cfg) targetBranch
          (lc_changed cfg) (ce_AllImpactedProjects processed) (ce_SourceMapping processed))) (\<lambda>_.
      or_report env n (\<lambda>e. '':x: Error filtering out projects from comment: '' @ e)
        (\<lambda>_. ''error filtering out projects from comment'')
        (of_sum (FilterOutProjectsFromComment (we_shlex env) (ce_AllImpactedProjects processed) (cy_body p))) (\<lambda>ps.
      let impacted = FilterTargetBranchForImpactedProjects ps (pc_defaultBranch c) targetBranch in
      or_report env n (\<lambda>e. '':x: Error converting event to jobs: '' @ e) (\<lambda>_. ''error converting event to jobs'')
        (act_of (ConvertIssueCommentEventToJobs (we_getenv env) (we_provider env) (pc_repoFullName c) (cy_actor p) n
          (cy_body p) impacted (ce_AllImpactedProjects processed) (Workflows (lc_config cfg)) prBranchName
          (pc_defaultBranch c) False)) (\<lambda>(jobs, coverAll).
        comment_guards env
          \<lparr>ew_org = orgId, ew_context = c, ew_sha = lc_sha cfg, ew_branch = prBranchName, ew_loaded = cfg,
           ew_projects = impacted, ew_mapping = ce_SourceMapping processed, ew_jobs = jobs, ew_coverAll = coverAll\<rparr>
          (ce_AllImpactedProjects processed) cmd targetBranch commentId hooks))))))"

definition comment_command ::
  "('g, 'p, 'ta) webhook_env \<Rightarrow> nat \<Rightarrow> comment_payload \<Rightarrow> 'g loaded_config \<Rightarrow> (unit, webhook_world) act list \<Rightarrow>
   (unit, webhook_world) act" where
  "comment_command env orgId p cfg hooks =
     (let n = pc_number (cy_context p) in
      act_bind (logged (call env (RReact (itoa (cy_commentId p)) ''eyes''))) (\<lambda>_.
      act_bind (act_wrap (\<lambda>_. ''error initializing comment reporter'')
          (UpdateComment env n '':construction_worker: Digger starting.... config loaded successfully'')) (\<lambda>commentId.
      or_report env n (\<lambda>e. '':x: Could not recognise comment, error: '' @ e) (\<lambda>e. ''unknown digger command in comment '' @ e)
        (of_sum (GetCommandFromComment (we_command_order env) (cy_body p))) (\<lambda>cmd.
          comment_jobs env orgId p cfg commentId cmd hooks))))"

definition comment_config ::
  "('g, 'p, 'ta) webhook_env \<Rightarrow> nat \<Rightarrow> comment_payload \<Rightarrow> (unit, webhook_world) act list \<Rightarrow> (unit, webhook_world) act" where
  "comment_config env orgId p hooks =
     (let c = cy_context p; n = pc_number c; cleanedComment = trim_space (to_lower (cy_body p)) in
      or_report env n (\<lambda>e. '':x: Could not load digger config, error: '' @ e) (\<lambda>_. ''error getting digger config'')
        (getDiggerConfigForPR env orgId c) (\<lambda>cfg.
      if DisableDiggerApplyComment (lc_config cfg) \<and> has_prefix cleanedComment ''digger apply'' then
        say_early env n ''Digger configured to disable apply comment in PRs, ignoring comment''
      else
        act_bind (if we_getenv env ''DIGGER_GENERATION_ENABLED'' = ''1'' then
            GenerateTerraformFromCode env c (cy_body p) (lc_config cfg) (lc_branch cfg) (lc_sha cfg)
          else act_ret ()) (\<lambda>_. comment_command env orgId p cfg hooks)))"

definition handleIssueCommentEvent ::
  "('g, 'p, 'ta) webhook_env \<Rightarrow> comment_payload \<Rightarrow> (unit, webhook_world) act list \<Rightarrow> (unit, webhook_world) act" where
  "handleIssueCommentEvent env p hooks = recovered
     (let c = cy_context p; n = pc_number c in
      if \<not> cy_isPullRequest p then act_ret ()
      else
        act_bind (act_wrap (\<lambda>_. ''error getting github app link'') (of_sum (we_link env (pc_installation c)))) (\<lambda>link.
        case link of
          None \<Rightarrow> act_err (''GitHub App installation not found for installation ID '' @ itoa (pc_installation c) @
            ''. Please ensure the GitHub App is properly installed on the repository and the installation process completed successfully'')
        | Some orgId \<Rightarrow>
            if cy_action p \<noteq> ''created'' then act_ret ()
            else if \<not> has_prefix (trim_space (to_lower (cy_body p))) ''digger'' then act_ret ()
            else
              act_bind (act_wrap (\<lambda>_. ''error getting ghService to post error comment'') (github_service env c)) (\<lambda>_.
              act_bind (early_report env n) (\<lambda>_.
                with_organisation env n orgId (comment_config env orgId p hooks)))))"

end
