(* ===== verification/WebhookProps.thy ===== *)
theory WebhookProps
  imports IssueComments JobStatusProps
begin

text \<open>
  When an event starts jobs.  Most of a handler only talks: a change of the world that comments, check runs and
  the record of detections make is within the relation of the locale \<open>webhook_change\<close>, and a handler's step that
  leaves the relation is one of the few that may.  Two instances: no workflow is triggered, and the table of locks
  stays as it is.
\<close>

section \<open>Steps that only talk\<close>

definition only_calls :: "backend_world \<Rightarrow> backend_world \<Rightarrow> bool" where
  "only_calls b b' \<longleftrightarrow> b' = b\<lparr>bw_calls := bw_calls b'\<rparr>"

interpretation only_calls: world_change only_calls
proof
  show "only_calls u u" for u by (simp add: only_calls_def)
  show "only_calls u v \<Longrightarrow> only_calls v w \<Longrightarrow> only_calls u w" for u v w
    unfolding only_calls_def by (cases u; cases v; cases w) simp
qed

lemma only_calls_remote: "within only_calls (remote env c)"
  by (rule withinI) (auto simp: only_calls_def remote_def of_sum_def split: sum.splits)

lemma only_calls_service:
  "within only_calls (cl_GetComments (comment_service_calls env) n)"
  "within only_calls (cl_PublishComment (comment_service_calls env) n b)"
  "within only_calls (cl_EditComment (comment_service_calls env) n i b)"
  by (auto simp: comment_service_calls_def within_def of_sum_def only_calls.refl split: sum.splits)
    (metis (no_types, lifting) only_calls.bind only_calls.pure(1) only_calls_remote within_def)+

lemma only_calls_upsert: "within only_calls (upsertComment (comment_service_calls env) n r f cs t b)"
  unfolding upsertComment_def Let_def
  by (auto intro!: only_calls.rules only_calls_service split: prod.split simp del: act_ret_def act_of_def)

lemma only_calls_sources: "within only_calls (PostInitialSourceComments (comment_service_calls env) now n mapping)"
proof -
  have "within only_calls (post_locations (comment_service_calls env) now n ls ds)" for ls ds
    by (induction ls arbitrary: ds)
      (auto simp: ci_Report_def strategy_Report_def intro!: only_calls.rules only_calls_service only_calls_upsert
        split: prod.split simp del: act_ret_def)
  then show ?thesis by (simp add: PostInitialSourceComments_def)
qed

locale webhook_change = world_change R for R :: "webhook_world \<Rightarrow> webhook_world \<Rightarrow> bool" +
  assumes reporter: "R w (w\<lparr>ww_reporter := x\<rparr>)"
    and detections: "R w (w\<lparr>ww_detections := d\<rparr>)"
    and calls: "R w (w\<lparr>ww_back := (ww_back w)\<lparr>bw_calls := cs\<rparr>\<rparr>)"
begin

lemma call: "within R (call env c)"
proof (rule withinI)
  fix w r w'
  assume "call env c w = (r, w')"
  then have "w' = w\<lparr>ww_back := (ww_back w)\<lparr>bw_calls := bw_calls (ww_back w) @ [c]\<rparr>\<rparr>"
    by (auto simp: call_def on_backend_def remote_def of_sum_def split: sum.splits)
  with calls show "R w w'" by metis
qed

lemma asks: "within R (asking f)" "within R (reading g)" "within R (pull_files env n)"
  by (auto simp: within_def asking_def reading_def pull_files_def of_sum_def refl split: sum.splits option.splits)

lemma gets: "within R (act_gets h)"
  by (simp add: within_def refl)

lemma set_reporter: "within R (act_modify (\<lambda>w. w\<lparr>ww_reporter := x\<rparr>))"
  by (simp add: within_def reporter)

lemma UpdateComment: "within R (UpdateComment env n m)"
  unfolding UpdateComment_def UpdateCRComment_def new_reporter_def InitCommentReporter_def
  by (auto intro!: rules gets call set_reporter split: option.split simp del: act_ret_def act_gets_def act_modify_def)

lemma says: "within R (say env n m)" "within R (say_early env n m)"
  unfolding say_def say_early_def by (auto intro!: rules UpdateComment simp del: act_ret_def)

lemma report: "within R f \<Longrightarrow> (\<And>a. within R (k a)) \<Longrightarrow> within R (or_report env n c e f k)"
  unfolding or_report_def by (auto intro!: rules says split: sum.split simp del: act_err_def)

lemma reportE:
  assumes "or_report env n c e f k u = (r, v)" and "\<not> R u v" and "within R f"
  obtains a w where "f u = (Ok a, w)" and "k a w = (r, v)" and "R u w" and "\<not> R w v"
proof -
  from bindE [OF assms(1) [unfolded or_report_def] assms(2) tried [OF assms(3)]] obtain x w where
    x: "act_try f u = (Ok x, w)"
    and g: "(case x of Inl e' \<Rightarrow> act_bind (say env n (c e')) (\<lambda>_. act_err (e e')) | Inr a \<Rightarrow> k a) w = (r, v)"
    and w: "R u w" "\<not> R w v" by blast
  show thesis
  proof (cases x)
    case (Inl e')
    with g have "act_bind (say env n (c e')) (\<lambda>_. act_err (e e')) w = (r, v)" by simp
    from withinD [OF bind [OF says(1) pure(2)] this] w show ?thesis by blast
  next
    case (Inr a)
    with x g w that show ?thesis by (simp add: act_try_Inr)
  qed
qed

lemmas talks = rules asks gets call says report UpdateComment

lemma service: "within R (github_service env c)"
  unfolding github_service_def by (intro talks)

lemma loads: "within R (getDiggerConfigForPR env orgId c)"
  unfolding getDiggerConfigForPR_def cached_ta_config_def retrieveConfigFromCache_def Let_def
    GetDiggerConfigForBranchWithGracefulHandling_def GetDiggerConfigForBranchOrSha_def
  by (auto intro!: talks service split: prod.split sum.split simp del: act_ret_def act_err_def act_of_def)

lemma create_run: "within R (create_run env c name t x sha)"
  unfolding create_run_def CreateCheckRun_def
  by (auto intro!: talks split: sum.split simp del: act_ret_def act_panic_def)

lemma command_runs: "within R (command_runs env c sha j cs m)"
  by (induction cs arbitrary: m) (auto intro!: talks create_run simp del: act_ret_def)

lemma job_runs: "within R (job_runs env c sha js m)"
  by (induction js arbitrary: m) (auto intro!: talks command_runs simp del: act_ret_def)

lemma checks: "within R (SetPRCheckForJobs env c js sha)"
  unfolding SetPRCheckForJobs_def success_run_def CreateCheckRun_def
  by (auto intro!: talks create_run job_runs simp del: act_ret_def)

lemma tables_of_jobs: "within R (ReportInitialJobsStatus env n i js)" "within R (ReportLayersTableForJobs env n i js)"
  unfolding ReportInitialJobsStatus_def ReportLayersTableForJobs_def UpdateCRComment_def by (intro talks)+

lemma detection: "within R (recordDetectionRun d)"
  unfolding recordDetectionRun_def
  by (rule log, rule withinI) (auto simp: CreateDetectionRun_def detections split: prod.splits)

lemma early: "within R (early_report env n)"
  unfolding early_report_def InitCommentReporterManager_def
  by (auto intro!: talks set_reporter simp del: act_ret_def act_modify_def)

lemma limits: "within R (check_limits env wk)"
  unfolding check_limits_def Let_def by (auto intro!: talks simp del: act_ret_def act_err_def)

lemma command: "within R (pull_command env wk)"
  unfolding pull_command_def by (intro talks)

lemma ai: "within R (ai_summary_comment env wk)"
  unfolding ai_summary_comment_def by (auto intro!: talks simp del: act_ret_def)

lemma refuses: "within R (refuse env n m e)"
  unfolding refuse_def by (intro talks)

lemma on_backend: "within only_calls f \<Longrightarrow> within R (on_backend f)"
proof (rule withinI)
  fix w r w'
  assume f: "within only_calls f" and "on_backend f w = (r, w')"
  then obtain b where b: "f (ww_back w) = (r, b)" "w' = w\<lparr>ww_back := b\<rparr>"
    by (auto simp: on_backend_def Let_def split: prod.splits)
  from withinD [OF f b(1)] have "b = (ww_back w)\<lparr>bw_calls := bw_calls b\<rparr>"
    by (simp add: only_calls_def)
  with calls [of w "bw_calls b"] b show "R w w'" by simp
qed

lemma sources: "within R (on_backend (PostInitialSourceComments (comment_service_calls env) now n mapping))"
  by (rule on_backend [OF only_calls_sources])

lemma requirements: "within R (apply_requirements_hold env wk t)"
  by (simp add: within_def apply_requirements_hold_def Let_def refl)

end

section \<open>Two relations\<close>

definition triggered :: "webhook_world \<Rightarrow> (spec \<times> string) list" where
  "triggered w = sw_triggered (bw_sched (ww_back w))"

definition no_trigger :: "webhook_world \<Rightarrow> webhook_world \<Rightarrow> bool" where
  "no_trigger w w' \<longleftrightarrow> triggered w' = triggered w"

definition same_locks :: "webhook_world \<Rightarrow> webhook_world \<Rightarrow> bool" where
  "same_locks w w' \<longleftrightarrow> ww_locks w' = ww_locks w"

interpretation no_trigger: webhook_change no_trigger
  by unfold_locales (simp_all add: no_trigger_def triggered_def)

interpretation same_locks: webhook_change same_locks
  by unfold_locales (simp_all add: same_locks_def)

lemma no_trigger_rows: "within no_trigger (on_rows f)" "within no_trigger (on_lock_rows g)"
  by (auto simp: within_def no_trigger_def triggered_def on_rows_def on_lock_rows_def on_backend_def on_tables_def
      on_sched_def on_db_def Let_def split: prod.splits)

lemma no_trigger_lock: "within no_trigger (project_lock_action env orgId c cmd p)"
  by (auto simp: within_def no_trigger_def triggered_def project_lock_action_def Let_def split: prod.splits)

lemma no_trigger_locks: "within no_trigger (lock_projects env wk err cmd ps)"
  by (induction ps) (auto intro!: no_trigger.talks no_trigger_lock simp del: act_ret_def)

lemma no_trigger_delete: "within no_trigger (delete_pull_locks env wk)"
  unfolding delete_pull_locks_def by (intro no_trigger.talks no_trigger_rows)

lemma no_trigger_create_impacted: "within no_trigger (create_impacted env wk ps)"
  by (induction ps) (auto intro!: no_trigger.talks no_trigger_rows simp del: act_ret_def)

lemma no_trigger_impacted: "within no_trigger (record_impacted env wk ps)"
  unfolding record_impacted_def
  by (auto intro!: no_trigger.talks no_trigger_rows no_trigger_create_impacted split: sum.split simp del: act_ret_def)

lemma no_trigger_copy: "within no_trigger f \<Longrightarrow> within no_trigger (with_manager_copy f)"
  by (auto simp: within_def no_trigger_def triggered_def with_manager_copy_def Let_def split: prod.splits)
    (metis snd_conv)

lemma no_trigger_commit: "within no_trigger (commit_generated env n p b s t)"
  unfolding commit_generated_def by (intro no_trigger.talks)

lemma no_trigger_generate: "within no_trigger (GenerateTerraformFromCode env c body config branch sha)"
  unfolding GenerateTerraformFromCode_def generate_for_def getCodeFromCommit_def Let_def
  by (rule no_trigger_copy)
    (auto intro!: no_trigger.talks no_trigger.refuses no_trigger_commit split: option.split
      simp del: act_ret_def act_err_def)

text \<open>The last stages leave the locks alone.\<close>

lemma same_locks_backend: "within same_locks (on_backend f)" "within same_locks (on_rows g)"
  by (auto simp: within_def same_locks_def on_rows_def on_backend_def Let_def split: prod.splits)

lemmas same_locks_talks = same_locks.talks same_locks_backend

lemma same_locks_trigger: "within same_locks (trigger_batch env n b)"
  unfolding trigger_batch_def by (intro same_locks_talks)

lemma same_locks_sources: "within same_locks (post_source_comments env n mapping batch)"
  unfolding post_source_comments_def by (intro same_locks_talks)

lemma same_locks_create_batch: "within same_locks (create_batch env wk cmd runs i b)"
  unfolding create_batch_def store_batch_def
  by (auto intro!: same_locks_talks same_locks.ai same_locks_sources same_locks_trigger simp del: act_ret_def)

lemma same_locks_pull_start: "within same_locks (pull_start env wk cmd)"
  unfolding pull_start_def pull_checks_def pull_batch_def
  by (auto intro!: same_locks_talks same_locks.checks same_locks.tables_of_jobs same_locks_create_batch simp del: act_ret_def)

lemma same_locks_comment_hooks: "\<forall>h \<in> set hooks. within same_locks h \<Longrightarrow> within same_locks (comment_hooks hooks)"
  unfolding comment_hooks_def
  by (induction hooks) (auto intro!: same_locks.rules simp del: act_ret_def)

lemma same_locks_comment_batch:
  assumes "\<forall>h \<in> set hooks. within same_locks h"
  shows "within same_locks (comment_batch env wk cmd i runs hooks)"
  unfolding comment_batch_def
  by (auto intro: same_locks.refuses same_locks.bind [OF same_locks_create_batch same_locks_comment_hooks [OF assms]]
      split: option.split)

lemma same_locks_comment_checks:
  assumes "\<forall>h \<in> set hooks. within same_locks h"
  shows "within same_locks (comment_checks env wk cmd i hooks)"
  unfolding comment_checks_def
  by (auto intro!: same_locks_talks same_locks.checks same_locks.tables_of_jobs same_locks_comment_batch [OF assms]
      simp del: act_ret_def)

section \<open>What holds when workflows are triggered\<close>

definition starts :: "(webhook_world \<Rightarrow> bool) \<Rightarrow> ('a, webhook_world) act \<Rightarrow> bool" where
  "starts P f \<longleftrightarrow> (\<forall>u r v. f u = (r, v) \<longrightarrow> no_trigger u v \<or> P v)"

lemma startsD: "starts P f \<Longrightarrow> f u = (r, v) \<Longrightarrow> \<not> no_trigger u v \<Longrightarrow> P v"
  unfolding starts_def by blast

lemma starts_quiet: "within no_trigger f \<Longrightarrow> starts P f"
  unfolding starts_def by (blast dest: withinD)

lemma starts_weaken: "starts P f \<Longrightarrow> (\<And>v. P v \<Longrightarrow> Q v) \<Longrightarrow> starts Q f"
  unfolding starts_def by blast

lemma starts_bind:
  assumes "within no_trigger f" and "\<And>u a w. f u = (Ok a, w) \<Longrightarrow> starts P (g a)"
  shows "starts P (act_bind f g)"
  unfolding starts_def
proof (intro allI impI, rule disjCI)
  fix u r v
  assume "act_bind f g u = (r, v)" and "\<not> P v"
  show "no_trigger u v"
  proof (rule ccontr)
    assume n: "\<not> no_trigger u v"
    from no_trigger.bindE [OF \<open>act_bind f g u = (r, v)\<close> n assms(1)] obtain a w where
      "f u = (Ok a, w)" "g a w = (r, v)" "\<not> no_trigger w v" by blast
    with assms(2) startsD \<open>\<not> P v\<close> show False by blast
  qed
qed

lemma starts_report:
  assumes "within no_trigger f" and "\<And>u a w. f u = (Ok a, w) \<Longrightarrow> starts P (k a)"
  shows "starts P (or_report env n c e f k)"
  unfolding starts_def
proof (intro allI impI, rule disjCI)
  fix u r v
  assume "or_report env n c e f k u = (r, v)" and "\<not> P v"
  show "no_trigger u v"
  proof (rule ccontr)
    assume n: "\<not> no_trigger u v"
    from no_trigger.reportE [OF \<open>or_report env n c e f k u = (r, v)\<close> n assms(1)] obtain a w where
      "f u = (Ok a, w)" "k a w = (r, v)" "\<not> no_trigger w v" by blast
    with assms(2) startsD \<open>\<not> P v\<close> show False by blast
  qed
qed

lemma starts_recovered: "starts P f \<Longrightarrow> starts P (recovered f)"
  unfolding starts_def recovered_def by (fastforce split: prod.splits res.splits)

section \<open>Locks of the impacted projects\<close>

lemma yields_on_locks: "yields P f \<Longrightarrow> yields P (on_locks f)"
  by (fastforce simp: yields_def on_locks_def Let_def split: prod.splits)

lemma yields_verify: "yields (\<lambda>b. b) (verifyNoHangingLocks ops env p)"
  unfolding verifyNoHangingLocks_def Let_def
  by (auto intro!: yields_parts split: option.split sum.split simp del: act_ret_def act_err_def)

lemma yields_acquire: "yields (\<lambda>b. b) (op_lock (backend_ops orgId) t r)"
  unfolding backend_ops_def by (auto intro!: yields_parts simp del: act_ret_def)

lemma yields_Lock: "yields (\<lambda>b. b) (Lock (backend_ops orgId) env p)"
  unfolding Lock_def Let_def
  by (rule yields_bind [OF yields_verify])
    (auto intro!: yields_parts yields_on_locks yields_acquire split: option.split simp del: act_ret_def act_err_def)

lemma locking_action:
  assumes "PerformLockingActionFromCommand (backend_ops orgId) env p cmd w = (Ok (), w')"
    and "cmd \<in> {CmdPlan, CmdApply, CmdLock}"
  shows "Lock (backend_ops orgId) env p w = (Ok True, w')"
  using assms
  using yieldsD [OF yields_Lock]
  by (auto simp: PerformLockingActionFromCommand_def act_bind_eq_Ok) blast+

lemma lock_action_holds:
  assumes "project_lock_action env orgId c cmd p w = (Ok (), w')" and "cmd \<in> {CmdPlan, CmdApply, CmdLock}"
    and "0 < pc_number c"
  shows "db_holder (ww_locks w') (pc_repoFullName c @ ''#'' @ Name p) = Some (pc_number c)"
    and "db_holder (ww_locks w) k = Some (pc_number c) \<Longrightarrow> db_holder (ww_locks w') k = Some (pc_number c)"
proof -
  let ?env = "\<lparr>supports_markdown = False, is_closed = is_closed_now env (bw_calls (ww_back w))\<rparr>"
  let ?p = "\<lparr>pr_project = Name p, pr_namespace = pc_repoFullName c, pr_number = pc_number c\<rparr>"
  obtain lw where l: "PerformLockingActionFromCommand (backend_ops orgId) ?env ?p cmd \<lparr>locks = ww_locks w, comments = []\<rparr> =
      (Ok (), lw)" and w': "w' = w\<lparr>ww_locks := lock_world.locks lw\<rparr>"
    using assms(1) by (auto simp: project_lock_action_def Let_def split: prod.splits)
  from backend_lock.Lock_cases [OF _ _ locking_action [OF l assms(2)]] assms(3) have
    h: "db_holder (lock_world.locks lw) (LockId ?p) = Some (pc_number c)"
    and o: "\<forall>k. k \<noteq> LockId ?p \<longrightarrow> db_holder (lock_world.locks lw) k = db_holder (ww_locks w) k"
    by auto
  from h w' show "db_holder (ww_locks w') (pc_repoFullName c @ ''#'' @ Name p) = Some (pc_number c)"
    by (simp add: LockId_def)
  from h o w' show "db_holder (ww_locks w) k = Some (pc_number c) \<Longrightarrow> db_holder (ww_locks w') k = Some (pc_number c)"
    by (cases "k = LockId ?p") auto
qed

lemma or_report_Ok:
  assumes "or_report env n c e f k u = (Ok a, w)"
  obtains x v where "f u = (Ok x, v)" and "k x v = (Ok a, w)"
proof -
  from assms obtain y v where y: "act_try f u = (Ok y, v)"
    and g: "(case y of Inl e' \<Rightarrow> act_bind (say env n (c e')) (\<lambda>_. act_err (e e')) | Inr x \<Rightarrow> k x) v = (Ok a, w)"
    by (auto simp: or_report_def act_bind_eq_Ok)
  show thesis
  proof (cases y)
    case (Inl e')
    with g show ?thesis by (auto simp: act_bind_eq_Ok)
  next
    case (Inr x)
    with y g that show ?thesis by (simp add: act_try_Inr)
  qed
qed

lemma lock_projects_hold:
  assumes "lock_projects env wk err cmd ps u = (Ok (), w)" and "cmd \<in> {CmdPlan, CmdApply, CmdLock}" and "0 < ew_number wk"
  shows "(\<forall>p \<in> set ps. db_holder (ww_locks w) (pc_repoFullName (ew_context wk) @ ''#'' @ Name p) = Some (ew_number wk)) \<and>
    (\<forall>k. db_holder (ww_locks u) k = Some (ew_number wk) \<longrightarrow> db_holder (ww_locks w) k = Some (ew_number wk))"
  using assms(1)
proof (induction ps arbitrary: u)
  case Nil
  then show ?case by simp
next
  case (Cons p ps)
  from Cons.prems obtain v where
    l: "project_lock_action env (ew_org wk) (ew_context wk) cmd p u = (Ok (), v)"
    and r: "lock_projects env wk err cmd ps v = (Ok (), w)"
    by (auto elim: or_report_Ok)
  from lock_action_holds [OF l assms(2,3)] Cons.IH [OF r]
  show ?case by auto
qed

definition locks_held :: "('g, 'p) event_work \<Rightarrow> webhook_world \<Rightarrow> bool" where
  "locks_held wk w \<longleftrightarrow> (PrLocks (ew_config wk) \<longrightarrow>
     (\<forall>p \<in> set (ew_projects wk).
        db_holder (ww_locks w) (pc_repoFullName (ew_context wk) @ ''#'' @ Name p) = Some (ew_number wk)))"

lemma with_locks_starts:
  assumes "0 < ew_number wk" and "cmd \<in> {CmdPlan, CmdApply, CmdLock, CmdUnlock}"
    and "within same_locks k" and "starts Q k"
  shows "starts (\<lambda>v. Q v \<and> locks_held wk v) (with_locks env wk err cmd k)"
  unfolding starts_def
proof (intro allI impI, rule disjCI, rule ccontr)
  fix u r v
  let ?locks = "if PrLocks (ew_config wk) then lock_projects env wk err cmd (ew_projects wk) else act_ret ()"
  let ?rest = "if cmd = CmdUnlock \<or> cmd = CmdLock then say env (ew_number wk) (completed_notice cmd) else k"
  let ?delete = "if cmd = CmdUnlock then delete_pull_locks env wk else act_ret ()"
  assume run: "with_locks env wk err cmd k u = (r, v)" and bad: "\<not> (Q v \<and> locks_held wk v)"
    and n: "\<not> no_trigger u v"
  have q: "within no_trigger ?locks" "within no_trigger ?delete" "within no_trigger (say env (ew_number wk) (completed_notice cmd))"
    using no_trigger_locks [of env wk err cmd "ew_projects wk"] no_trigger_delete [of env wk] no_trigger.pure(1) [of "()"] no_trigger.says(1)
    by (simp_all del: act_ret_def)
  obtain a w where l: "?locks u = (Ok a, w)" and w: "act_bind ?delete (\<lambda>_. ?rest) w = (r, v)" "no_trigger u w" "\<not> no_trigger w v"
    by (rule no_trigger.bindE [OF run [unfolded with_locks_def] n q(1)])
  obtain b x where d: "?delete w = (Ok b, x)" and x: "?rest x = (r, v)" "no_trigger w x" "\<not> no_trigger x v"
    by (rule no_trigger.bindE [OF w(1,3) q(2)])
  have c: "cmd \<noteq> CmdUnlock" "cmd \<noteq> CmdLock"
    using x(1,3) withinD [OF q(3), of x r v] by (auto split: if_splits)
  with d x(1) w(3) have k: "k w = (r, v)" "\<not> no_trigger w v" by auto
  from withinD [OF assms(3) k(1)] have s: "ww_locks v = ww_locks w" by (simp add: same_locks_def)
  from l c assms(1,2) s have "locks_held wk v"
    using lock_projects_hold [of env wk err cmd "ew_projects wk" u w] by (cases a) (auto simp: locks_held_def split: if_splits)
  moreover have "Q v" using startsD [OF assms(4) k] .
  ultimately show False using bad by blast
qed

section \<open>The guards of the handlers\<close>

lemma starts_if: "(b \<Longrightarrow> starts P f) \<Longrightarrow> (\<not> b \<Longrightarrow> starts P g) \<Longrightarrow> starts P (if b then f else g)"
  by simp

text \<open>What the guards establish for an event's projects and configuration, the locks included.\<close>

definition may_start ::
  "('g, 'p, 'ta) webhook_env \<Rightarrow> pull_context \<Rightarrow> 'g loaded_config \<Rightarrow> project list \<Rightarrow> webhook_world \<Rightarrow> bool" where
  "may_start env c cfg ps w \<longleftrightarrow>
     (pc_draft c \<longrightarrow> AllowDraftPRs (lc_config cfg)) \<and>
     int (length ps) \<le> MaxImpactedProjectsPerChange (we_getenv env) (we_to_int env) \<and>
     (LimitByNumOfFilesChanged (we_getenv env) \<longrightarrow> length ps \<le> length (lc_changed cfg)) \<and>
     (PrLocks (lc_config cfg) \<longrightarrow>
        (\<forall>p \<in> set ps. db_holder (ww_locks w) (pc_repoFullName c @ ''#'' @ Name p) = Some (pc_number c)))"

lemma check_limits_Ok:
  assumes "check_limits env wk u = (Ok a, w)"
  shows "int (length (ew_projects wk)) \<le> MaxImpactedProjectsPerChange (we_getenv env) (we_to_int env) \<and>
    (LimitByNumOfFilesChanged (we_getenv env) \<longrightarrow> length (ew_projects wk) \<le> length (lc_changed (ew_loaded wk)))"
  using assms by (auto simp: check_limits_def Let_def act_bind_eq_Ok split: if_splits)

text \<open>The commands that the handlers know; the code ranges over a map, in any order.\<close>

abbreviation "known_commands env \<equiv> set (we_command_order env) = set supportedCommands"

lemma known_command:
  assumes "known_commands env"
  shows "GetCommandFromJob (we_command_order env) cmds = Inr cmd \<Longrightarrow> cmd \<in> {CmdNoop, CmdPlan, CmdApply, CmdLock, CmdUnlock}"
    and "GetCommandFromComment (we_command_order env) body = Inr cmd \<Longrightarrow> cmd \<in> {CmdNoop, CmdPlan, CmdApply, CmdLock, CmdUnlock}"
proof -
  have "(x, cmd) \<in> set (we_command_order env) \<Longrightarrow> cmd \<in> {CmdNoop, CmdPlan, CmdApply, CmdLock, CmdUnlock}" for x
    unfolding assms by (auto simp: supportedCommands_def)
  then show "GetCommandFromJob (we_command_order env) cmds = Inr cmd \<Longrightarrow> cmd \<in> {CmdNoop, CmdPlan, CmdApply, CmdLock, CmdUnlock}"
    and "GetCommandFromComment (we_command_order env) body = Inr cmd \<Longrightarrow> cmd \<in> {CmdNoop, CmdPlan, CmdApply, CmdLock, CmdUnlock}"
    by (auto simp: GetCommandFromJob_def GetCommandFromComment_def Let_def split: if_splits option.splits prod.splits
        dest!: find_SomeD)
qed

lemma pull_command_Ok:
  "pull_command env wk u = (Ok cmd, w) \<Longrightarrow>
   GetCommandFromJob (we_command_order env) (j_Commands (hd (ew_jobs wk))) = Inr cmd"
  unfolding pull_command_def by (elim or_report_Ok) (auto simp: of_sum_def split: sum.splits)

lemma pull_guards_start:
  assumes "0 < ew_number wk" and "known_commands env"
  shows "starts (may_start env (ew_context wk) (ew_loaded wk) (ew_projects wk)) (pull_guards env wk action)"
  unfolding pull_guards_def
proof (rule starts_bind [OF no_trigger_impacted], rule starts_bind [OF no_trigger.limits], rule starts_bind [OF no_trigger.command])
  fix u1 w1 and a1 :: unit and u2 w2 cmd
  assume lim: "check_limits env wk u1 = (Ok a1, w1)" and cmd: "pull_command env wk u2 = (Ok cmd, w2)"
  let ?start = "with_locks env wk (\<lambda>name e. ''failed to perform lock action on project: '' @ name @ '', '' @ e) cmd
      (pull_start env wk cmd)"
  have "starts (may_start env (ew_context wk) (ew_loaded wk) (ew_projects wk)) ?start" if "cmd \<noteq> CmdNoop"
  proof (rule starts_weaken [OF with_locks_starts [where Q = "\<lambda>_. pc_draft (ew_context wk) \<longrightarrow> AllowDraftPRs (ew_config wk)"]])
    show "0 < ew_number wk" by (rule assms(1))
    show "cmd \<in> {CmdPlan, CmdApply, CmdLock, CmdUnlock}"
      using known_command(1) [OF assms(2) pull_command_Ok [OF cmd]] that by auto
    show "within same_locks (pull_start env wk cmd)" by (rule same_locks_pull_start)
    show "starts (\<lambda>_. pc_draft (ew_context wk) \<longrightarrow> AllowDraftPRs (ew_config wk)) (pull_start env wk cmd)"
      by (auto simp: pull_start_def starts_def dest: withinD [OF no_trigger.says(2)])
    show "may_start env (ew_context wk) (ew_loaded wk) (ew_projects wk) v"
      if "(pc_draft (ew_context wk) \<longrightarrow> AllowDraftPRs (ew_config wk)) \<and> locks_held wk v" for v
      using that check_limits_Ok [OF lim] by (simp add: may_start_def locks_held_def)
  qed
  then show "starts (may_start env (ew_context wk) (ew_loaded wk) (ew_projects wk))
    (if cmd = CmdNoop then act_ret ()
     else if \<not> AllowDraftPRs (ew_config wk) \<and> pc_draft (ew_context wk) \<and> (action = ''opened'' \<or> action = ''synchronize'')
     then say_early env (ew_number wk) draft_notice else ?start)"
    by (rule starts_if [OF starts_quiet [OF no_trigger.pure(1)] starts_if [OF starts_quiet [OF no_trigger.says(2)]]])
qed

text \<open>Where an event's projects come from: the configuration that was loaded for it, and its changed files.\<close>

definition pull_projects ::
  "('g, 'p, 'ta) webhook_env \<Rightarrow> gh_pull_event \<Rightarrow> 'g loaded_config \<Rightarrow> project list \<Rightarrow> bool" where
  "pull_projects env ev cfg ps \<longleftrightarrow>
     (\<exists>changed mapping n. ProcessGitHubPullRequestEvent (we_glob env) (be_graph (we_back env)) (we_dependants env) ev
        (lc_config cfg) (lc_graph cfg) changed = Ok (ps, mapping, n))"

definition loaded_for ::
  "('g, 'p, 'ta) webhook_env \<Rightarrow> pull_context \<Rightarrow> 'g loaded_config \<Rightarrow> bool" where
  "loaded_for env c cfg \<longleftrightarrow>
     (\<exists>organisationId u v. we_link env (pc_installation c) = Inr (Some organisationId) \<and>
        getDiggerConfigForPR env organisationId c u = (Ok cfg, v))"

lemma pull_jobs_start:
  assumes "0 < gp_Number (pq_event p)" and "known_commands env"
  shows "starts (\<lambda>v. \<exists>ps. pull_projects env (pq_event p) cfg ps \<and> may_start env (pull_payload_context p) cfg ps v)
    (pull_jobs env organisationId p cfg)"
  unfolding pull_jobs_def Let_def
proof (rule starts_report, goal_cases)
  case 1
  show ?case by (intro no_trigger.talks)
next
  case (2 u a w)
  obtain ps mapping n where a: "a = (ps, mapping, n)" by (cases a)
  with 2 have p: "pull_projects env (pq_event p) cfg ps"
    by (auto simp: act_bind_eq_Ok pull_projects_def)
  show ?case
    unfolding a prod.case
  proof (rule starts_bind [OF no_trigger.detection], rule starts_report, goal_cases)
    case 1
    show ?case by (rule no_trigger.pure)
  next
    case (2 u1 a1 w1 u2 b w2)
    obtain jobs cover where b: "b = (jobs, cover)" by (cases b)
    let ?wk = "\<lparr>ew_org = organisationId, ew_context = pull_payload_context p, ew_sha = pq_sha p,
        ew_branch = gp_HeadRef (pq_event p), ew_loaded = cfg, ew_projects = ps, ew_mapping = mapping, ew_jobs = jobs,
        ew_coverAll = cover\<rparr>"
    have "starts (may_start env (pull_payload_context p) cfg ps) (pull_guards env ?wk (gp_Action (pq_event p)))"
      using pull_guards_start [of ?wk env "gp_Action (pq_event p)"] assms by (simp add: pull_payload_context_def)
    then have g: "starts (\<lambda>v. \<exists>ps. pull_projects env (pq_event p) cfg ps \<and> may_start env (pull_payload_context p) cfg ps v)
        (pull_guards env ?wk (gp_Action (pq_event p)))"
      by (rule starts_weaken) (use p in blast)
    show ?case
      unfolding b prod.case
      by (rule starts_if [OF starts_quiet g], intro no_trigger.rules no_trigger.says no_trigger.checks)
  qed
qed

definition pull_may_start :: "('g, 'p, 'ta) webhook_env \<Rightarrow> pull_payload \<Rightarrow> webhook_world \<Rightarrow> bool" where
  "pull_may_start env p w \<longleftrightarrow>
     gp_Action (pq_event p) \<in> {''closed'', ''opened'', ''reopened'', ''synchronize'', ''converted_to_draft''} \<and>
     (\<exists>cfg ps. loaded_for env (pull_payload_context p) cfg \<and> pull_projects env (pq_event p) cfg ps \<and>
        may_start env (pull_payload_context p) cfg ps w)"

lemma loaded_forI:
  assumes "act_try (getDiggerConfigForPR env organisationId c) u = (Ok (Inr cfg), v)"
    and "we_link env (pc_installation c) = Inr (Some organisationId)"
  shows "loaded_for env c cfg"
  using assms
  by (cases "getDiggerConfigForPR env organisationId c u"; cases "fst (getDiggerConfigForPR env organisationId c u)")
    (auto simp: act_try_def loaded_for_def)

lemma pull_config_start:
  assumes "0 < gp_Number (pq_event p)" and "known_commands env"
    and "we_link env (pc_installation (pull_payload_context p)) = Inr (Some organisationId)"
    and "gp_Action (pq_event p) \<in> {''closed'', ''opened'', ''reopened'', ''synchronize'', ''converted_to_draft''}"
  shows "starts (pull_may_start env p) (with_organisation env n organisationId (pull_config env organisationId p))"
  unfolding with_organisation_def pull_config_def Let_def
proof (rule starts_report [OF no_trigger.pure(5)], rule starts_bind, goal_cases)
  case 1
  show ?case by (intro no_trigger.talks no_trigger.loads)
next
  case (2 u1 a1 w1 u2 x w2)
  show ?case
  proof (cases x)
    case (Inl e)
    then show ?thesis
      by (simp only: sum.case) (rule starts_if, (rule starts_quiet, intro no_trigger.rules no_trigger.says)+)
  next
    case (Inr cfg)
    with 2(2) assms(3) have "loaded_for env (pull_payload_context p) cfg" by (blast intro: loaded_forI)
    then show ?thesis
      unfolding Inr sum.case pull_may_start_def
      by (intro starts_weaken [OF pull_jobs_start [OF assms(1,2)]]) (use assms(4) in blast)
  qed
qed

lemma link_Ok: "act_wrap m (of_sum r) u = (Ok l, w) \<Longrightarrow> r = Inr l"
  by (auto simp: of_sum_def split: sum.splits)


section \<open>Comments\<close>

text \<open>An apply is admitted when the requirements hold for what GitHub's client answers after some calls.\<close>

definition requirements_met ::
  "('g, 'p, 'ta) webhook_env \<Rightarrow> pull_context \<Rightarrow> 'g loaded_config \<Rightarrow> project list \<Rightarrow> 'p job list \<Rightarrow> string \<Rightarrow> bool" where
  "requirements_met env c cfg ps js target \<longleftrightarrow>
     (\<exists>cs. CheckApplyRequirements (res_sum (fst (IsMergeable (we_api env) (pc_number c) cs)))
        (approvals_of (fst (GetApprovals (we_api env) (pc_number c) cs)))
        (res_sum (fst (IsDivergedFromBranch (we_api env) (lc_branch cfg) target cs))) ps js = Ok ())"

lemma comment_guards_start:
  assumes "0 < ew_number wk" and "cmd \<in> {CmdPlan, CmdApply, CmdLock, CmdUnlock}" and "\<forall>h \<in> set hooks. within same_locks h"
  shows "starts (\<lambda>v. may_start env (ew_context wk) (ew_loaded wk) (ew_projects wk) v \<and>
      (cmd = CmdApply \<longrightarrow> requirements_met env (ew_context wk) (ew_loaded wk) (ew_projects wk) (ew_jobs wk) target))
    (comment_guards env wk all cmd target i hooks)"
  unfolding comment_guards_def
proof (rule starts_bind [OF no_trigger_impacted], rule starts_bind [OF no_trigger.limits], goal_cases)
  case (1 u0 a0 w0 u1 a1 w1)
  note lim = check_limits_Ok [OF 1(2)]
  let ?k = "comment_requirements env wk cmd target (comment_checks env wk cmd i hooks)"
  let ?Q = "cmd = CmdApply \<longrightarrow> requirements_met env (ew_context wk) (ew_loaded wk) (ew_projects wk) (ew_jobs wk) target"
  have tail: "within same_locks (comment_checks env wk c i hooks)" for c
    by (rule same_locks_comment_checks [OF assms(3)])
  have k: "within same_locks ?k"
    unfolding comment_requirements_def
    by (auto intro!: same_locks.rules same_locks.requirements same_locks.says tail split: sum.split)
  have q: "starts (\<lambda>_. ?Q) ?k"
    unfolding comment_requirements_def
  proof (rule starts_if, rule starts_bind, goal_cases)
    case 1
    show ?case by (intro no_trigger.rules no_trigger.requirements)
  next
    case (2 u x w)
    then show ?case
      by (cases x)
        (auto simp: starts_def act_try_def apply_requirements_hold_def requirements_met_def Let_def
          dest: withinD [OF no_trigger.says(1)] split: res.splits)
  qed (simp add: starts_def)
  have d: "within no_trigger (comment_draft env wk cmd)"
    unfolding comment_draft_def
    by (auto intro!: no_trigger.rules no_trigger.says no_trigger_delete simp del: act_ret_def)
  show ?case
    by (rule starts_if [OF starts_quiet [OF d]], rule starts_weaken [OF with_locks_starts [OF assms(1,2) k q]])
      (use lim in \<open>auto simp: may_start_def locks_held_def\<close>)
qed

text \<open>A comment's command, its projects (those of the comment among the impacted ones, on the pull request's target
  branch) and its jobs.\<close>

definition comment_projects ::
  "('g, 'p, 'ta) webhook_env \<Rightarrow> comment_payload \<Rightarrow> 'g loaded_config \<Rightarrow> string \<Rightarrow> project list \<Rightarrow> 'p job list \<Rightarrow> bool" where
  "comment_projects env p cfg target ps js \<longleftrightarrow>
     (\<exists>changed processed qs branch cover.
        ProcessIssueCommentEvent (we_glob env) (be_graph (we_back env)) (we_dependants env) (pc_number (cy_context p))
          (lc_config cfg) (lc_graph cfg) changed = Ok processed \<and>
        FilterOutProjectsFromComment (we_shlex env) (ce_AllImpactedProjects processed) (cy_body p) = Inr qs \<and>
        ps = FilterTargetBranchForImpactedProjects qs (pc_defaultBranch (cy_context p)) target \<and>
        ConvertIssueCommentEventToJobs (we_getenv env) (we_provider env) (pc_repoFullName (cy_context p)) (cy_actor p)
          (pc_number (cy_context p)) (cy_body p) ps (ce_AllImpactedProjects processed) (Workflows (lc_config cfg)) branch
          (pc_defaultBranch (cy_context p)) False = Ok (js, cover))"

text \<open>A comment that asks for nothing has no jobs.\<close>

lemma noop_comment:
  assumes "GetCommandFromComment (we_command_order env) body = Inr CmdNoop" and "known_commands env"
  shows "ConvertIssueCommentEventToJobs getenv mk repo actor n body ps all ws b d i \<noteq> Ok x"
proof -
  let ?d = "trim_space (to_lower body)"
  from assms(1) obtain c where c: "(c, CmdNoop) \<in> set (we_command_order env)" "has_prefix ?d c"
    by (auto simp: GetCommandFromComment_def Let_def split: option.splits dest!: find_SomeD)
  then have "c = ''digger noop''" unfolding assms(2) by (auto simp: supportedCommands_def)
  with c have t: "take (length ''digger noop'') ?d = ''digger noop''" by (simp only: has_prefix_def)
  have "\<not> has_prefix ?d k" if "k \<in> set comment_commands" for k
  proof
    assume "has_prefix ?d k"
    then have "take (length ''digger noop'') (take (length k) ?d) = take (length ''digger noop'') k"
      by (simp only: has_prefix_def)
    with t that show False by (auto simp: comment_commands_def)
  qed
  then have "command_of_comment ?d = None"
    by (simp add: command_of_comment_def comment_commands_def)
  then show ?thesis by (simp add: ConvertIssueCommentEventToJobs_def Let_def)
qed

definition comment_may_start :: "('g, 'p, 'ta) webhook_env \<Rightarrow> comment_payload \<Rightarrow> webhook_world \<Rightarrow> bool" where
  "comment_may_start env p w \<longleftrightarrow>
     (\<exists>cfg cmd target ps (js :: 'p job list).
        loaded_for env (cy_context p) cfg \<and> GetCommandFromComment (we_command_order env) (cy_body p) = Inr cmd \<and>
        comment_projects env p cfg target ps js \<and> may_start env (cy_context p) cfg ps w \<and>
        (cmd = CmdApply \<longrightarrow> requirements_met env (cy_context p) cfg ps js target))"

lemma comment_jobs_start:
  fixes env :: "('g, 'p, 'ta) webhook_env"
  assumes "0 < pc_number (cy_context p)" and "known_commands env" and "\<forall>h \<in> set hooks. within same_locks h"
    and "GetCommandFromComment (we_command_order env) (cy_body p) = Inr cmd" and "loaded_for env (cy_context p) cfg"
  shows "starts (comment_may_start env p) (comment_jobs env orgId p cfg i cmd hooks)"
  unfolding comment_jobs_def Let_def
proof (rule starts_report, goal_cases)
  case 1
  show ?case by (intro no_trigger.talks)
next
  case (2 u0 a0 w0)
  obtain branch sha target base where a0: "a0 = (branch, sha, target, base)" by (cases a0)
  show ?case
    unfolding a0 prod.case
  proof (rule starts_report, goal_cases)
    case 1
    show ?case by (intro no_trigger.talks)
  next
    case (2 u1 processed w1)
    then obtain changed where processed: "ProcessIssueCommentEvent (we_glob env) (be_graph (we_back env)) (we_dependants env)
        (pc_number (cy_context p)) (lc_config cfg) (lc_graph cfg) changed = Ok processed"
      by (auto simp: act_bind_eq_Ok)
    show ?case
    proof (rule starts_bind [OF no_trigger.detection], rule starts_report [OF no_trigger.pure(5)],
        rule starts_report [OF no_trigger.pure(4)], goal_cases)
      case (1 u2 a2 w2 u3 qs w3 u4 a4 w4)
      obtain js cover where a4: "a4 = (js, cover)" by (cases a4)
      let ?ps = "FilterTargetBranchForImpactedProjects qs (pc_defaultBranch (cy_context p)) target"
      let ?wk = "\<lparr>ew_org = orgId, ew_context = cy_context p, ew_sha = lc_sha cfg, ew_branch = branch, ew_loaded = cfg,
          ew_projects = ?ps, ew_mapping = ce_SourceMapping processed, ew_jobs = js, ew_coverAll = cover\<rparr>"
      have qs: "FilterOutProjectsFromComment (we_shlex env) (ce_AllImpactedProjects processed) (cy_body p) = Inr qs"
        using 1(2) by (auto simp: of_sum_def split: sum.splits)
      from 1(3) a4 have js: "ConvertIssueCommentEventToJobs (we_getenv env) (we_provider env) (pc_repoFullName (cy_context p))
          (cy_actor p) (pc_number (cy_context p)) (cy_body p) ?ps (ce_AllImpactedProjects processed)
          (Workflows (lc_config cfg)) branch (pc_defaultBranch (cy_context p)) False = Ok (js, cover)"
        by simp
      from processed qs js have projects: "comment_projects env p cfg target ?ps js"
        unfolding comment_projects_def by blast
      have "cmd \<noteq> CmdNoop" using js noop_comment assms(2,4) by blast
      with known_command(2) [OF assms(2,4)] have "cmd \<in> {CmdPlan, CmdApply, CmdLock, CmdUnlock}" by simp
      from comment_guards_start [of ?wk cmd hooks env target "ce_AllImpactedProjects processed" i, OF _ this assms(3)] assms(1)
      have "starts (\<lambda>v. may_start env (cy_context p) cfg ?ps v \<and>
          (cmd = CmdApply \<longrightarrow> requirements_met env (cy_context p) cfg ?ps js target))
        (comment_guards env ?wk (ce_AllImpactedProjects processed) cmd target i hooks)"
        by simp
      then show ?case
        unfolding a4 prod.case
        by (rule starts_weaken) (use assms(4,5) projects in \<open>auto simp: comment_may_start_def\<close>)
    qed
  qed
qed

lemma comment_command_start:
  assumes "0 < pc_number (cy_context p)" and "known_commands env" and "\<forall>h \<in> set hooks. within same_locks h"
    and "loaded_for env (cy_context p) cfg"
  shows "starts (comment_may_start env p) (comment_command env orgId p cfg hooks)"
  unfolding comment_command_def Let_def
proof (rule starts_bind, goal_cases)
  case 1
  show ?case by (intro no_trigger.talks)
next
  case 2
  show ?case
  proof (rule starts_bind, goal_cases)
    case 1
    show ?case by (intro no_trigger.talks)
  next
    case 2
    show ?case
    proof (rule starts_report [OF no_trigger.pure(5)], goal_cases)
      case (1 u cmd w)
      then have "GetCommandFromComment (we_command_order env) (cy_body p) = Inr cmd"
        by (auto simp: of_sum_def split: sum.splits)
      then show ?case by (rule comment_jobs_start [OF assms(1-3) _ assms(4)])
    qed
  qed
qed

lemma comment_config_start:
  assumes "0 < pc_number (cy_context p)" and "known_commands env" and "\<forall>h \<in> set hooks. within same_locks h"
    and "we_link env (pc_installation (cy_context p)) = Inr (Some orgId)"
  shows "starts (comment_may_start env p) (with_organisation env n orgId (comment_config env orgId p hooks))"
  unfolding with_organisation_def comment_config_def Let_def
proof (rule starts_report [OF no_trigger.pure(5)], rule starts_report [OF no_trigger.loads], goal_cases)
  case (1 u0 a0 w0 u cfg w)
  from 1(2) assms(4) have "loaded_for env (cy_context p) cfg" by (auto simp: loaded_for_def)
  note c = comment_command_start [OF assms(1-3) this]
  show ?case
    by (rule starts_if [OF starts_quiet [OF no_trigger.says(2)]], rule starts_bind [OF _ c])
      (simp add: no_trigger_generate no_trigger.pure(1) del: act_ret_def)
qed


section \<open>Check runs that cannot be created\<close>

definition after_call :: "webhook_world \<Rightarrow> remote_call \<Rightarrow> webhook_world" where
  "after_call w c = w\<lparr>ww_back := (ww_back w)\<lparr>bw_calls := bw_calls (ww_back w) @ [c]\<rparr>\<rparr>"

text \<open>GitHub refuses every check run, as it does when the app may not write them.\<close>

abbreviation "refuses_checks env \<equiv> \<forall>cs q. \<exists>e. be_remote (we_back env) cs (RCreateCheck q) = Inl e"

definition stopped :: "webhook_world \<Rightarrow> 'a res \<times> webhook_world \<Rightarrow> bool" where
  "stopped w x \<longleftrightarrow> (\<exists>m q. x = (Panic m, after_call w (RCreateCheck q)))"

lemma create_run_stops: "refuses_checks env \<Longrightarrow> stopped w (create_run env c name t x sha w)"
  by (auto simp: create_run_def CreateCheckRun_def call_def on_backend_def remote_def of_sum_def act_bind_def
      act_try_def stopped_def after_call_def Let_def split: sum.splits) (metis sum.distinct(1))+

lemma stopped_bind: "stopped w (f w) \<Longrightarrow> stopped w (act_bind f g w)"
  by (auto simp: stopped_def)

lemma command_runs_stop:
  "refuses_checks env \<Longrightarrow>
   stopped w (command_runs env c sha j cs m w) \<or> (\<exists>m'. command_runs env c sha j cs m w = (Ok m', w))"
  by (induction cs arbitrary: m) (auto intro: stopped_bind create_run_stops)

lemma job_runs_stop:
  "refuses_checks env \<Longrightarrow> stopped w (job_runs env c sha js m w) \<or> (\<exists>m'. job_runs env c sha js m w = (Ok m', w))"
proof (induction js arbitrary: m)
  case Nil
  then show ?case by simp
next
  case (Cons j js)
  from command_runs_stop [OF Cons.prems] show ?case
  proof
    assume "\<exists>m'. command_runs env c sha j (j_Commands j) m w = (Ok m', w)"
    then obtain m' where "command_runs env c sha j (j_Commands j) m w = (Ok m', w)" ..
    with Cons.IH [OF Cons.prems, of m'] show ?thesis by simp
  qed (auto intro: stopped_bind)
qed

lemma checks_stop:
  assumes "refuses_checks env" and "js \<noteq> []"
  shows "stopped w (SetPRCheckForJobs env c js sha w)"
  using job_runs_stop [OF assms(1), of w c sha js "[]"]
proof
  assume "\<exists>m'. job_runs env c sha js [] w = (Ok m', w)"
  then obtain m' where "job_runs env c sha js [] w = (Ok m', w)" ..
  with assms(2) have "SetPRCheckForJobs env c js sha w =
      act_bind (create_run env c (if IsPlanJobs js then ''digger/plan'' else ''digger/apply'') ''Pending start...''
        (GetInitialJobSummary js) sha) (\<lambda>batchCheckRunId. act_ret (batchCheckRunId, m')) w"
    unfolding SetPRCheckForJobs_def by (simp only: act_bind_Ok if_True simp_thms)
  then show ?thesis by (simp only:) (rule stopped_bind, rule create_run_stops, rule assms)
qed (auto simp: SetPRCheckForJobs_def intro: stopped_bind)

lemma stopped_report: "stopped w (f w) \<Longrightarrow> stopped w (or_report env n c e f k w)"
  by (auto simp: stopped_def or_report_def act_try_def act_bind_def)


end
