(* ===== verification/WebhookRuns.thy ===== *)
theory WebhookRuns
  imports WebhookProps EventsProps CiEventsProps JobGraphProps
begin

text \<open>
  The handlers of events run on an example: a repository with two projects, of which the changed file impacts one.
  The runs show that the guards of \<open>WebhookProps\<close> can hold, and what a refused check run leaves behind.
\<close>

section \<open>A repository\<close>

definition open_pull :: gh_pull where
  "open_pull =
     \<lparr>pl_Mergeable = True, pl_MergeableState = ''clean'', pl_Merged = False, pl_State = ''open'', pl_HeadRef = ''br'',
      pl_HeadSHA = ''abc'', pl_BaseRef = ''main'', pl_BaseSHA = ''def''\<rparr>"

definition repo_api :: "remote_call list gh_api" where
  "repo_api =
     \<lparr>api_issue = (\<lambda>n _. Inr \<lparr>is_Number = n, is_Title = ''t'', is_Body = [], is_PullRequestLinks = True, is_State = ''open''\<rparr>),
      api_pull = (\<lambda>_ _. Inr open_pull), api_combined_status = (\<lambda>_ _. Inr ''success''),
      api_compare = (\<lambda>_ _ _. Inr (1, 0)), api_reviews = (\<lambda>_ _. ([(''APPROVED'', ''bob'')], None)),
      api_branch = (\<lambda>_ _. Inr (''br'', ''abc'')), api_teams = (\<lambda>_ _. Inr []), api_members = (\<lambda>_ _ _. []),
      api_write = (\<lambda>_ s. (Inl ''none'', s))\<rparr>"

definition approved_b :: project where
  "approved_b = named ''b''\<lparr>ApplyRequirements := [''approved'']\<rparr>"

definition repo_loaded :: "digger_config \<times> project list_graph" where
  "repo_loaded =
     (two_projects\<lparr>Projects := [named ''a'', approved_b]\<rparr>,
      \<lparr>lg_verts = [(''a'', named ''a''), (''b'', approved_b)], lg_edges = []\<rparr>)"

text \<open>The argument says whether GitHub refuses check runs.\<close>

definition repo_env :: "bool \<Rightarrow> (project list_graph, unit, unit) webhook_env" where
  "repo_env refuses =
     \<lparr>we_back = apply_env\<lparr>be_remote := (\<lambda>_ c. case c of RCreateCheck _ \<Rightarrow> if refuses then Inl ''403'' else Inr ''31'' | _ \<Rightarrow> Inr ''5'')\<rparr>,
      we_convert = visit_env\<lparr>ce_fresh := (\<lambda>n. ''batch-000'' @ nat_digits n)\<rparr>,
      we_provider = (\<lambda>_ _. None), we_glob = star_glob, we_dependants = lg_bfs,
      we_bfs = (\<lambda>g s. case lg_bfs g s of Inl _ \<Rightarrow> [] | Inr vs \<Rightarrow> vs), we_depth = 3,
      we_like = (\<lambda>r pat. prefix (butlast pat) r), we_command_order = supportedCommands, we_shlex = spaces,
      we_to_int = atoi, we_link = (\<lambda>_. Inr (Some 1)), we_organisation = (\<lambda>_. Inr ()), we_github = (\<lambda>_ _ _. Inr ''ghs''),
      we_api = repo_api, we_files = (\<lambda>_ _ _. Inr ([\<lparr>fi_Filename = ''b/main.tf'', fi_PreviousFilename = None\<rparr>], 0)),
      we_compare = (\<lambda>_ _ _. Inl ''none''), we_tree = (\<lambda>_ _. Inl ''none''), we_repo_cache = (\<lambda>_ _. Inl ''none''),
      we_unmarshal_config = (\<lambda>_. Inl ''none''), we_unmarshal_ta = (\<lambda>_. Inl ''none''),
      we_clone = (\<lambda>_ _ _ _. Inr ''dir''), we_read_yml = (\<lambda>_. Inr ''yml''), we_load_config = (\<lambda>_ _ _. Inr repo_loaded),
      we_ci_backend = (\<lambda>_. Inr ()), we_marshal_details = (\<lambda>_. Inr ''[]''), we_now = (\<lambda>_. ''now'')\<rparr>"

definition repo_pull :: pull_payload where
  "repo_pull =
     \<lparr>pq_installation = 1, pq_repoName = ''r'', pq_repoOwner = ''o'', pq_cloneURL = ''url'', pq_draft = False, pq_labels = [],
      pq_sha = ''abc'', pq_event = opened\<rparr>"

definition repo_comment :: "string \<Rightarrow> comment_payload" where
  "repo_comment body =
     \<lparr>cy_context = pull_payload_context repo_pull, cy_isPullRequest = True, cy_action = ''created'', cy_commentId = 4,
      cy_body = body, cy_actor = ''alice''\<rparr>"

definition repo_world :: webhook_world where
  "repo_world =
     \<lparr>ww_back = \<lparr>bw_sched = \<lparr>sw_db = healthy no_tables, sw_triggered = []\<rparr>, bw_calls = [], bw_tasks = []\<rparr>,
      ww_locks = \<lparr>fdb_data = [], fdb_faults = []\<rparr>, ww_detections = \<lparr>fdb_data = [], fdb_faults = []\<rparr>, ww_reporter = None\<rparr>"

section \<open>Runs\<close>

text \<open>A new pull request: one job is triggered, and the project is locked.\<close>

lemma repo_pull_run:
  "(case handlePullRequestEvent (repo_env False) repo_pull repo_world of
      (Ok _, w) \<Rightarrow> length (triggered w) = 1 \<and> map db_PrNumber (t_batches (tables_of (ww_back w))) = [7] \<and>
        map dj_ProjectName (t_jobs (tables_of (ww_back w))) = [''b''] \<and> map lr_Resource (fdb_data (ww_locks w)) = [''o/r#b'']
    | _ \<Rightarrow> False)"
  by code_simp


text \<open>A comment that applies, on a pull request that is approved.\<close>

lemma repo_comment_run:
  "(case handleIssueCommentEvent (repo_env False) (repo_comment ''digger apply'') [] repo_world of
      (Ok _, w) \<Rightarrow> length (triggered w) = 1 \<and> map db_BatchType (t_batches (tables_of (ww_back w))) = [CmdApply]
    | _ \<Rightarrow> False)"
  by code_simp


text \<open>A refused check run: the handler ends without an error, without a batch, and with the lock.\<close>

lemma repo_pull_refused:
  "(case handlePullRequestEvent (repo_env True) repo_pull repo_world of
      (Ok _, w) \<Rightarrow> triggered w = [] \<and> t_batches (tables_of (ww_back w)) = [] \<and>
        map lr_Resource (fdb_data (ww_locks w)) = [''o/r#b'']
    | _ \<Rightarrow> False)"
  by code_simp

definition repo_work :: "(project list_graph, unit) event_work" where
  "repo_work =
     \<lparr>ew_org = 1, ew_context = pull_payload_context repo_pull, ew_sha = ''abc'', ew_branch = ''br'',
      ew_loaded = \<lparr>lc_yml = ''yml'', lc_config = fst repo_loaded, lc_graph = snd repo_loaded, lc_branch = ''br'',
        lc_sha = ''abc'', lc_changed = [''b/main.tf'']\<rparr>,
      ew_projects = [approved_b], ew_mapping = [],
      ew_jobs = [gh_job (\<lambda>_. []) (\<lambda>_ _. None) False opened ''pull_request'' [''digger plan''] defaultWorkflow approved_b],
      ew_coverAll = True\<rparr>"


end
